(* ===== verification/Prelude.thy ===== *)
theory Prelude
  imports Main "HOL-Library.Char_ord" "HOL-Library.List_Lexorder"
begin

text \<open>
  Shared vocabulary of the development: Python exceptions as values, the sequential
  checks of a constructor (\<open>__post_init__\<close>), bounded integers, and the few operations of
  Python's \<open>str\<close> that the modelled modules use.

  A Python \<open>str\<close> is a list of code points. Here it is a \<^typ>\<open>string\<close>, a list of
  \<^typ>\<open>char\<close>, so the model covers the strings whose code points are below 256; on those every
  operation below is exact, UTF-8 encoding included, and Unicode NFC normalisation is the
  identity. A Python \<open>bytes\<close> value is a \<^typ>\<open>string\<close> too, one \<^typ>\<open>char\<close> per
  byte. Python's integers are unbounded and are \<^typ>\<open>int\<close>. The \<open>isinstance\<close> and \<open>type\<close>
  tests of the source hold by typing.
\<close>

subsection \<open>Exceptions as values\<close>

datatype py_error =
    ValueError string
  | KeyError string
  | RuntimeError string
  | TypeError string
  | ParserTargetIdentityError string
  | AttributeError string
  | AssertionError string

type_synonym 'a res = "py_error + 'a"

fun bindR :: "'a res \<Rightarrow> ('a \<Rightarrow> 'b res) \<Rightarrow> 'b res" where
  "bindR (Inl e) f = Inl e"
| "bindR (Inr a) f = f a"

definition require :: "bool \<Rightarrow> string \<Rightarrow> unit res" where
  "require c msg = (if c then Inr () else Inl (ValueError msg))"

text \<open>The statements of a validator, in order: the first failing one is the exception.\<close>

fun checks :: "unit res list \<Rightarrow> unit res" where
  "checks [] = Inr ()"
| "checks (c # cs) = (case c of Inl e \<Rightarrow> Inl e | Inr _ \<Rightarrow> checks cs)"

text \<open>A frozen dataclass: the value exists only if its \<open>__post_init__\<close> returns.\<close>

definition construct :: "unit res \<Rightarrow> 'a \<Rightarrow> 'a res" where
  "construct c v = bindR c (\<lambda>_. Inr v)"

definition returns :: "'a res \<Rightarrow> bool" where
  "returns r = (case r of Inl _ \<Rightarrow> False | Inr _ \<Rightarrow> True)"

lemma bindR_Inr_iff [simp]: "bindR m f = Inr b \<longleftrightarrow> (\<exists>a. m = Inr a \<and> f a = Inr b)"
  by (cases m) auto

lemma bindR_assoc: "bindR (bindR m f) g = bindR m (\<lambda>a. bindR (f a) g)"
  by (cases m) auto

lemma require_Inr [simp]: "require c msg = Inr u \<longleftrightarrow> c"
  by (simp add: require_def)

lemma require_Inl [simp]: "require c msg = Inl e \<longleftrightarrow> \<not> c \<and> e = ValueError msg"
  by (auto simp: require_def)

lemma checks_Cons_Inr [simp]:
  "checks (c # cs) = Inr u \<longleftrightarrow> c = Inr () \<and> checks cs = Inr ()"
  by (cases c) auto

declare checks.simps(2) [simp del]

lemma checks_Cons_Inl: "c = Inl e \<Longrightarrow> checks (c # cs) = Inl e"
  by (simp add: checks.simps)

lemma checks_Cons_pass: "c = Inr () \<Longrightarrow> checks (c # cs) = checks cs"
  by (simp add: checks.simps)

lemma checks_all: "checks cs = Inr u \<longleftrightarrow> (\<forall>c \<in> set cs. c = Inr ())"
  by (induction cs) auto

lemma checks_append [simp]:
  "checks (cs @ ds) = Inr u \<longleftrightarrow> checks cs = Inr () \<and> checks ds = Inr ()"
  by (induction cs) auto

lemma checks_map_Inr [simp]:
  "checks (map f xs) = Inr u \<longleftrightarrow> (\<forall>x \<in> set xs. f x = Inr ())"
  by (induction xs) auto

lemma construct_Inr [simp]: "construct c v = Inr w \<longleftrightarrow> c = Inr () \<and> w = v"
  by (cases c) (auto simp: construct_def)

lemma construct_Inl [simp]: "construct c v = Inl e \<longleftrightarrow> c = Inl e"
  by (cases c) (auto simp: construct_def)

lemma returns_iff: "returns r \<longleftrightarrow> (\<exists>v. r = Inr v)"
  by (cases r) (auto simp: returns_def)

lemma returns_Inr [simp]: "returns (Inr v)"
  by (simp add: returns_def)

lemma not_returns_iff: "\<not> returns r \<longleftrightarrow> (\<exists>e. r = Inl e)"
  by (cases r) (auto simp: returns_def)

subsection \<open>Bounded integers\<close>

text \<open>\<open>_MAX_INT = (1 << 63) - 1\<close>, kept as a constant so that proofs do not unfold it.\<close>

definition MAX_INT :: int where
  "MAX_INT = 2 ^ 63 - 1"

lemma MAX_INT_pos [simp]: "0 < MAX_INT" "0 \<le> MAX_INT" "1 \<le> MAX_INT"
  by (simp_all add: MAX_INT_def)

lemma MAX_INT_value: "MAX_INT = 9223372036854775807"
  by (simp add: MAX_INT_def)

definition in_range :: "int \<Rightarrow> bool" where
  "in_range v = (0 \<le> v \<and> v \<le> MAX_INT)"

definition positive :: "int \<Rightarrow> string \<Rightarrow> unit res" where
  "positive v label =
     require (1 \<le> v \<and> v \<le> MAX_INT) (label @ '' must be a positive bounded integer'')"

definition nonnegative :: "int \<Rightarrow> string \<Rightarrow> unit res" where
  "nonnegative v label =
     require (in_range v) (label @ '' must be a non-negative bounded integer'')"

lemma positive_Inr [simp]: "positive v label = Inr u \<longleftrightarrow> 1 \<le> v \<and> v \<le> MAX_INT"
  by (simp add: positive_def)

lemma nonnegative_Inr [simp]: "nonnegative v label = Inr u \<longleftrightarrow> in_range v"
  by (simp add: nonnegative_def)

subsection \<open>Strings\<close>

definition code :: "char \<Rightarrow> nat" where
  "code c = of_char c"

text \<open>\<open>str.isspace\<close> of one code point below 256.\<close>

definition py_space :: "char \<Rightarrow> bool" where
  "py_space c = (let n = code c in
     (9 \<le> n \<and> n \<le> 13) \<or> (28 \<le> n \<and> n \<le> 32) \<or> n = 133 \<or> n = 160)"

definition py_strip :: "string \<Rightarrow> string" where
  "py_strip s = rev (dropWhile py_space (rev (dropWhile py_space s)))"

definition is_prefix :: "string \<Rightarrow> string \<Rightarrow> bool" where
  "is_prefix p s = (take (length p) s = p)"

text \<open>\<open>s.removeprefix(p)\<close>\<close>

definition removeprefix :: "string \<Rightarrow> string \<Rightarrow> string" where
  "removeprefix p s = (if is_prefix p s then drop (length p) s else s)"

text \<open>\<open>s.encode("utf-8")\<close>: one byte below 128, two bytes from 128 to 255.\<close>

definition utf8_char :: "char \<Rightarrow> string" where
  "utf8_char c = (let n = code c in
     if n < 128 then [c] else [char_of (192 + n div 64), char_of (128 + n mod 64)])"

definition utf8 :: "string \<Rightarrow> string" where
  "utf8 s = concat (map utf8_char s)"

definition control :: "char \<Rightarrow> bool" where
  "control c = (code c < 32)"

fun split_on :: "char \<Rightarrow> string \<Rightarrow> string list" where
  "split_on d [] = [[]]"
| "split_on d (c # cs) =
     (if c = d then [] # split_on d cs
      else (case split_on d cs of [] \<Rightarrow> [[c]] | p # ps \<Rightarrow> (c # p) # ps))"

fun join_with :: "string \<Rightarrow> string list \<Rightarrow> string" where
  "join_with d [] = []"
| "join_with d [p] = p"
| "join_with d (p # q # ps) = p @ d @ join_with d (q # ps)"

definition hex_lower :: string where
  "hex_lower = ''0123456789abcdef''"

text \<open>\<open>re.compile(r"sha256:[0-9a-f]{64}\Z").fullmatch\<close>\<close>

definition is_sha :: "string \<Rightarrow> bool" where
  "is_sha s = (is_prefix ''sha256:'' s \<and> length s = 71 \<and> list_all (\<lambda>c. c \<in> set hex_lower) (drop 7 s))"

definition require_sha :: "string \<Rightarrow> string \<Rightarrow> unit res" where
  "require_sha v label = require (is_sha v) (label @ '' hash is not canonical'')"

definition optional_sha :: "string option \<Rightarrow> string \<Rightarrow> unit res" where
  "optional_sha v label = (case v of None \<Rightarrow> Inr () | Some s \<Rightarrow> require_sha s label)"

lemma require_sha_Inr [simp]: "require_sha v label = Inr u \<longleftrightarrow> is_sha v"
  by (simp add: require_sha_def)

lemma optional_sha_Inr [simp]: "optional_sha v label = Inr u \<longleftrightarrow> (\<forall>s. v = Some s \<longrightarrow> is_sha s)"
  by (auto simp: optional_sha_def split: option.splits)

lemma is_sha_nonempty: "is_sha s \<Longrightarrow> s \<noteq> []"
  by (auto simp: is_sha_def)

lemma length_utf8_char: "length (utf8_char c) \<le> 2"
  by (simp add: utf8_char_def Let_def)

lemma utf8_append [simp]: "utf8 (xs @ ys) = utf8 xs @ utf8 ys"
  by (simp add: utf8_def)

lemma utf8_Nil [simp]: "utf8 [] = []"
  by (simp add: utf8_def)

lemma utf8_Cons [simp]: "utf8 (c # cs) = utf8_char c @ utf8 cs"
  by (simp add: utf8_def)

lemma length_utf8: "length (utf8 s) \<le> 2 * length s"
proof (induction s)
  case (Cons c s)
  then show ?case using length_utf8_char [of c] by simp
qed simp

lemma utf8_ge_length: "length s \<le> length (utf8 s)"
  by (induction s) (auto simp: utf8_char_def Let_def)

lemma split_on_nonempty [simp]: "split_on d s \<noteq> []"
  by (induction s) (auto split: list.splits)

lemma join_split: "join_with [d] (split_on d s) = s"
proof (induction s)
  case Nil
  show ?case by simp
next
  case (Cons c s)
  obtain p ps where ps: "split_on d s = p # ps"
    by (cases "split_on d s") auto
  with Cons.IH show ?case
    by (cases ps) auto
qed

lemma split_on_no_delim: "p \<in> set (split_on d s) \<Longrightarrow> d \<notin> set p"
proof (induction s arbitrary: p)
  case Nil
  then show ?case by simp
next
  case (Cons c s)
  obtain q qs where qs: "split_on d s = q # qs"
    by (cases "split_on d s") auto
  with Cons show ?case
    by (auto split: if_splits)
qed

lemma split_on_free: "d \<notin> set p \<Longrightarrow> split_on d p = [p]"
  by (induction p) auto

lemma split_on_append: "d \<notin> set p \<Longrightarrow> split_on d (p @ d # s) = p # split_on d s"
  by (induction p) auto

end
