(* ===== verification/CreditAlgebra.thy ===== *)
theory CreditAlgebra
  imports Prelude
begin

text \<open>
  The contract that the two credit vectors of the program share (\<open>CreditVector\<close> of
  \<open>staged_credit.py\<close> and \<open>ResourceCreditVector\<close> of \<open>staged_resource_credit.py\<close>): a vector of
  bounded non-negative counters with checked addition, checked release and a componentwise
  limit test. The schedulers and ledgers rely on the laws below, proved once from the contract.
\<close>

definition bounded :: "int list \<Rightarrow> bool" where
  "bounded xs = list_all in_range xs"

text \<open>Totals over a list of vectors, componentwise: what a ledger keeps in step with its entries.\<close>

definition component_total :: "('v \<Rightarrow> int list) \<Rightarrow> 'v list \<Rightarrow> nat \<Rightarrow> int" where
  "component_total comps vs i = sum_list (map (\<lambda>v. comps v ! i) vs)"

lemma component_total_simps [simp]:
  "component_total comps [] i = 0"
  "component_total comps (v # vs) i = comps v ! i + component_total comps vs i"
  "component_total comps (vs @ ws) i = component_total comps vs i + component_total comps ws i"
  by (simp_all add: component_total_def)

locale credit_vector =
  fixes comps :: "'v \<Rightarrow> int list"
    and valid :: "'v \<Rightarrow> bool"
    and add :: "'v \<Rightarrow> 'v \<Rightarrow> 'v res"
    and sub :: "'v \<Rightarrow> 'v \<Rightarrow> 'v res"
    and fits :: "'v \<Rightarrow> 'v \<Rightarrow> bool"
    and zero :: 'v
    and dim :: nat
  assumes comps_inj: "comps a = comps b \<Longrightarrow> a = b"
    and comps_length: "length (comps a) = dim"
    and comps_zero: "comps zero = replicate dim 0"
    and valid_comps: "valid v = bounded (comps v)"
    and fits_comps: "fits a b = list_all2 (\<le>) (comps a) (comps b)"
    and add_comps: "add a b = Inr c \<longleftrightarrow>
      comps c = map2 (+) (comps a) (comps b) \<and> bounded (comps c)"
    and sub_comps: "sub a b = Inr c \<longleftrightarrow>
      comps c = map2 (-) (comps a) (comps b) \<and> bounded (comps c)"
    and comps_surj: "length xs = dim \<Longrightarrow> \<exists>v. comps v = xs"
begin

lemma eq_nth: "(\<And>i. i < dim \<Longrightarrow> comps a ! i = comps b ! i) \<Longrightarrow> a = b"
  by (rule comps_inj) (simp add: list_eq_iff_nth_eq comps_length)

lemma valid_nth: "valid v \<longleftrightarrow> (\<forall>i < dim. in_range (comps v ! i))"
  by (simp add: valid_comps bounded_def list_all_length comps_length)

lemma fits_nth: "fits a b \<longleftrightarrow> (\<forall>i < dim. comps a ! i \<le> comps b ! i)"
  by (simp add: fits_comps list_all2_conv_all_nth comps_length)

lemma add_nth: "add a b = Inr c \<longleftrightarrow>
    (\<forall>i < dim. comps c ! i = comps a ! i + comps b ! i) \<and> valid c"
  by (auto simp: add_comps valid_comps list_eq_iff_nth_eq comps_length)

lemma sub_nth: "sub a b = Inr c \<longleftrightarrow>
    (\<forall>i < dim. comps c ! i = comps a ! i - comps b ! i) \<and> valid c"
  by (auto simp: sub_comps valid_comps list_eq_iff_nth_eq comps_length)

lemma zero_nth: "i < dim \<Longrightarrow> comps zero ! i = 0"
  by (simp add: comps_zero)

lemma valid_zero: "valid zero"
  by (simp add: valid_nth zero_nth in_range_def)

lemma add_valid: "add a b = Inr c \<Longrightarrow> valid c"
  by (simp add: add_nth)

lemma sub_valid: "sub a b = Inr c \<Longrightarrow> valid c"
  by (simp add: sub_nth)

lemma obtain_comps:
  obtains v where "\<And>i. i < dim \<Longrightarrow> comps v ! i = f i"
proof -
  obtain v where "comps v = map f [0..<dim]"
    using comps_surj [of "map f [0..<dim]"] by auto
  then show thesis by (intro that [of v]) simp
qed

lemma add_returns_iff:
  "returns (add a b) \<longleftrightarrow> (\<forall>i < dim. in_range (comps a ! i + comps b ! i))"
proof
  assume "returns (add a b)"
  then show "\<forall>i < dim. in_range (comps a ! i + comps b ! i)"
    by (auto simp: returns_iff add_nth valid_nth)
next
  assume *: "\<forall>i < dim. in_range (comps a ! i + comps b ! i)"
  obtain c where "\<And>i. i < dim \<Longrightarrow> comps c ! i = comps a ! i + comps b ! i"
    by (rule obtain_comps [of "\<lambda>i. comps a ! i + comps b ! i"]) blast
  with * have "add a b = Inr c" by (simp add: add_nth valid_nth)
  then show "returns (add a b)" by (simp add: returns_iff)
qed

text \<open>Release succeeds exactly when what is released was owned.\<close>

lemma sub_returns_iff:
  assumes "valid a" and "valid b"
  shows "returns (sub a b) \<longleftrightarrow> fits b a"
proof
  assume "returns (sub a b)"
  then show "fits b a"
    by (auto simp: returns_iff sub_nth valid_nth in_range_def fits_nth)
next
  assume *: "fits b a"
  obtain c where c: "\<And>i. i < dim \<Longrightarrow> comps c ! i = comps a ! i - comps b ! i"
    by (rule obtain_comps [of "\<lambda>i. comps a ! i - comps b ! i"]) blast
  have "in_range (comps a ! i - comps b ! i)" if "i < dim" for i
    using assms * that by (force simp: valid_nth fits_nth in_range_def)
  with c have "sub a b = Inr c" by (simp add: sub_nth valid_nth)
  then show "returns (sub a b)" by (simp add: returns_iff)
qed

lemma fits_refl: "fits a a"
  by (simp add: fits_nth)

lemma fits_trans: "fits a b \<Longrightarrow> fits b c \<Longrightarrow> fits a c"
  by (force simp: fits_nth)

lemma fits_antisym: "fits a b \<Longrightarrow> fits b a \<Longrightarrow> a = b"
  by (intro eq_nth) (force simp: fits_nth)

lemma zero_fits: "valid a \<Longrightarrow> fits zero a"
  by (simp add: fits_nth zero_nth valid_nth in_range_def)

lemma add_commute: "add a b = Inr c \<Longrightarrow> add b a = Inr c"
  by (simp add: add_nth add.commute)

lemma add_zero: "valid a \<Longrightarrow> add a zero = Inr a"
  by (simp add: add_nth zero_nth)

lemma zero_add: "valid a \<Longrightarrow> add zero a = Inr a"
  by (simp add: add_nth zero_nth)

lemma sub_zero: "valid a \<Longrightarrow> sub a zero = Inr a"
  by (simp add: sub_nth zero_nth)

lemma sub_self: "sub a a = Inr zero"
  by (simp add: sub_nth zero_nth valid_zero)

text \<open>Acquire then release, and release then acquire, give back the same vector.\<close>

lemma add_sub_inverse: "valid a \<Longrightarrow> add a b = Inr c \<Longrightarrow> sub c b = Inr a"
  by (simp add: add_nth sub_nth)

lemma sub_add_inverse: "valid a \<Longrightarrow> sub a b = Inr c \<Longrightarrow> add c b = Inr a"
  by (simp add: add_nth sub_nth)

lemma fits_valid_bound: "valid b \<Longrightarrow> fits a b \<Longrightarrow> i < dim \<Longrightarrow> comps a ! i \<le> MAX_INT"
  by (force simp: fits_nth valid_nth in_range_def)

text \<open>
  The admission test \<open>item.fits(limit - used)\<close> is exactly "the sum fits the limit", and under
  it the addition cannot overflow.
\<close>

lemma admission_test:
  assumes "valid limit" "valid used" "valid item" "sub limit used = Inr room"
  shows "fits item room \<longleftrightarrow> (\<exists>c. add used item = Inr c \<and> fits c limit)"
proof
  assume *: "fits item room"
  have le: "comps used ! i + comps item ! i \<le> comps limit ! i" if "i < dim" for i
    using * assms(4) that by (force simp: fits_nth sub_nth)
  have "in_range (comps used ! i + comps item ! i)" if "i < dim" for i
    using le [OF that] assms(1-3) that by (force simp: valid_nth in_range_def)
  then have "returns (add used item)" by (simp add: add_returns_iff)
  then obtain c where c: "add used item = Inr c" by (auto simp: returns_iff)
  with le have "fits c limit" by (simp add: fits_nth add_nth)
  with c show "\<exists>c. add used item = Inr c \<and> fits c limit" by blast
next
  assume "\<exists>c. add used item = Inr c \<and> fits c limit"
  with assms(4) show "fits item room"
    by (force simp: fits_nth sub_nth add_nth)
qed

definition is_total :: "'v \<Rightarrow> 'v list \<Rightarrow> bool" where
  "is_total u vs = (\<forall>i < dim. comps u ! i = component_total comps vs i)"

lemma is_total_zero: "is_total zero []"
  by (simp add: is_total_def zero_nth)

lemma is_total_add: "is_total u vs \<Longrightarrow> add u v = Inr w \<Longrightarrow> is_total w (v # vs)"
  by (simp add: is_total_def add_nth)

lemma is_total_sub: "is_total u (xs @ v # ys) \<Longrightarrow> sub u v = Inr w \<Longrightarrow> is_total w (xs @ ys)"
  by (simp add: is_total_def sub_nth)

lemma total_nonneg: "\<forall>v \<in> set vs. valid v \<Longrightarrow> i < dim \<Longrightarrow> 0 \<le> component_total comps vs i"
  by (induction vs) (auto simp: valid_nth in_range_def)

text \<open>Every entry of a valid total can be released.\<close>

lemma is_total_release:
  assumes "is_total u (xs @ v # ys)" "valid u" "\<forall>w \<in> set (xs @ v # ys). valid w"
  shows "\<exists>w. sub u v = Inr w \<and> is_total w (xs @ ys)"
proof -
  have "fits v u"
    unfolding fits_nth
  proof (intro allI impI)
    fix i assume i: "i < dim"
    have "0 \<le> component_total comps xs i" "0 \<le> component_total comps ys i"
      using assms(3) i by (auto intro: total_nonneg)
    with assms(1) i show "comps v ! i \<le> comps u ! i"
      by (simp add: is_total_def)
  qed
  with assms have "returns (sub u v)"
    by (subst sub_returns_iff) auto
  then obtain w where "sub u v = Inr w" by (auto simp: returns_iff)
  with assms(1) show ?thesis using is_total_sub by blast
qed

end

end
