(* ===== verification/CreditArithmetic.thy ===== *)
theory CreditArithmetic
  imports Prelude
begin

text \<open>
  The integer arithmetic of \<open>application/contracts/staged_resource_credit.py\<close>: checked
  addition, and the capped products and sums that never form an out-of-range intermediate
  value. The lemmas give each routine its unbounded specification.
\<close>

definition checked_add :: "int \<Rightarrow> int \<Rightarrow> int res" where
  "checked_add left right =
     (let result = left + right in
      if result > MAX_INT then Inl (ValueError ''resource credit integer arithmetic overflowed'')
      else Inr result)"

definition capped_mul :: "int \<Rightarrow> int \<Rightarrow> int \<Rightarrow> int" where
  "capped_mul value multiplier cap =
     (if cap = 0 \<or> value > cap div multiplier then cap else value * multiplier)"

definition capped_add :: "int \<Rightarrow> int \<Rightarrow> int \<Rightarrow> int" where
  "capped_add left right cap =
     (if left \<ge> cap \<or> right > cap - left then cap else left + right)"

definition floor_fraction :: "int \<Rightarrow> int \<Rightarrow> int \<Rightarrow> int" where
  "floor_fraction value numerator denominator =
     value div denominator * numerator + value mod denominator * numerator div denominator"

definition ceil_div :: "int \<Rightarrow> int \<Rightarrow> int" where
  "ceil_div value divisor = value div divisor + (if value mod divisor \<noteq> 0 then 1 else 0)"

lemma checked_add_Inr [simp]: "checked_add l r = Inr s \<longleftrightarrow> s = l + r \<and> l + r \<le> MAX_INT"
  by (auto simp: checked_add_def Let_def)

lemma checked_add_returns [simp]: "returns (checked_add l r) \<longleftrightarrow> l + r \<le> MAX_INT"
  by (auto simp: returns_iff)


lemma div_less_iff_less_times:
  fixes m :: int
  assumes "0 < m"
  shows "cap div m < v \<longleftrightarrow> cap < v * m"
proof
  assume "cap div m < v"
  then have "cap div m + 1 \<le> v" by simp
  then have "(cap div m + 1) * m \<le> v * m"
    using assms by (intro mult_right_mono) simp_all
  moreover have "cap < (cap div m + 1) * m"
    using assms pos_mod_bound [of m cap] div_mult_mod_eq [of cap m] unfolding distrib_right by linarith
  ultimately show "cap < v * m" by simp
next
  assume *: "cap < v * m"
  show "cap div m < v"
  proof (rule ccontr)
    assume "\<not> cap div m < v"
    then have "v * m \<le> cap div m * m"
      using assms by (intro mult_right_mono) simp_all
    also have "\<dots> \<le> cap"
      using assms pos_mod_sign [of m cap] div_mult_mod_eq [of cap m] by linarith
    finally show False using * by simp
  qed
qed

text \<open>The capped product is the minimum of the cap and the true product.\<close>

lemma capped_mul_min:
  "0 \<le> v \<Longrightarrow> 0 < m \<Longrightarrow> 0 \<le> cap \<Longrightarrow> capped_mul v m cap = min cap (v * m)"
  by (auto simp: capped_mul_def div_less_iff_less_times min_def)

text \<open>The capped sum is the minimum of the cap and the true sum.\<close>

lemma capped_add_min: "0 \<le> r \<Longrightarrow> capped_add l r cap = min cap (l + r)"
  by (auto simp: capped_add_def min_def)

text \<open>The split computation of a fraction is the floor of the true quotient.\<close>

lemma floor_fraction_eq: "floor_fraction v n d = v * n div d"
  unfolding floor_fraction_def by (metis div_mult1_eq mult.commute)

lemma floor_fraction_mono: "0 < d \<Longrightarrow> 0 \<le> n \<Longrightarrow> v \<le> w \<Longrightarrow> floor_fraction v n d \<le> floor_fraction w n d"
  by (simp add: floor_fraction_eq zdiv_mono1 mult_right_mono)

lemma floor_fraction_one [simp]: "floor_fraction v 1 1 = v"
  by (simp add: floor_fraction_eq)

lemma ceil_div_eq: "0 < d \<Longrightarrow> ceil_div v d = - ((- v) div d)"
  by (simp add: ceil_div_def zdiv_zminus1_eq_if)

text \<open>\<open>ceil_div\<close> is the least count of pages that covers the value.\<close>

lemma ceil_div_least:
  assumes "0 < d"
  shows "v \<le> k * d \<longleftrightarrow> ceil_div v d \<le> k"
proof -
  have "v \<le> k * d \<longleftrightarrow> (- k) * d \<le> - v" by simp
  also have "\<dots> \<longleftrightarrow> \<not> (- v) div d < - k"
    using div_less_iff_less_times [OF assms, of "- v" "- k"] by (simp add: not_less)
  finally show ?thesis using ceil_div_eq [OF assms, of v] by auto
qed

lemma ceil_div_pos: "0 < d \<Longrightarrow> 0 < v \<Longrightarrow> 0 < ceil_div v d"
  using ceil_div_least [of d v 0] by auto

end
