(* ===== verification/Sha256.thy ===== *)
theory Sha256
  imports Prelude "HOL-Library.Word"
begin

unbundle bit_operations_syntax

text \<open>
  Python's \<open>hashlib.sha256(payload).hexdigest()\<close> (FIPS 180-4), on bytes given as
  characters. The modules hash the canonical bytes of every durable record with it. Words are
  32 bits wide and addition wraps, as the standard prescribes.
\<close>

type_synonym w32 = "32 word"

text \<open>The sixty-four round constants, eight to a row, the most significant word first.\<close>

definition sha_k_rows :: "int list" where
  "sha_k_rows =
    [0x428a2f9871374491b5c0fbcfe9b5dba53956c25b59f111f1923f82a4ab1c5ed5,
     0xd807aa9812835b01243185be550c7dc372be5d7480deb1fe9bdc06a7c19bf174,
     0xe49b69c1efbe47860fc19dc6240ca1cc2de92c6f4a7484aa5cb0a9dc76f988da,
     0x983e5152a831c66db00327c8bf597fc7c6e00bf3d5a7914706ca635114292967,
     0x27b70a852e1b21384d2c6dfc53380d13650a7354766a0abb81c2c92e92722c85,
     0xa2bfe8a1a81a664bc24b8b70c76c51a3d192e819d6990624f40e3585106aa070,
     0x19a4c1161e376c082748774c34b0bcb5391c0cb34ed8aa4a5b9cca4f682e6ff3,
     0x748f82ee78a5636f84c878148cc7020890befffaa4506cebbef9a3f7c67178f2]"

definition row_words :: "int \<Rightarrow> w32 list" where
  "row_words r = map (\<lambda>i. word_of_int (r div 2 ^ (32 * (7 - i)))) [0 ..< 8]"

definition sha_k :: "w32 list" where
  "sha_k = concat (map row_words sha_k_rows)"

record sha_state =
  ha :: w32
  hb :: w32
  hc :: w32
  hd' :: w32
  he :: w32
  hf :: w32
  hg :: w32
  hh :: w32

definition sha_init :: sha_state where
  "sha_init = \<lparr>ha = 0x6a09e667, hb = 0xbb67ae85, hc = 0x3c6ef372, hd' = 0xa54ff53a,
     he = 0x510e527f, hf = 0x9b05688c, hg = 0x1f83d9ab, hh = 0x5be0cd19\<rparr>"

definition rotr :: "nat \<Rightarrow> w32 \<Rightarrow> w32" where
  "rotr n x = (drop_bit n x) OR (push_bit (32 - n) x)"

text \<open>One round, with its round constant and its schedule word.\<close>

fun sha_round :: "sha_state \<Rightarrow> w32 \<times> w32 \<Rightarrow> sha_state" where
  "sha_round s (k, w) =
     (let s1 = rotr 6 (he s) XOR rotr 11 (he s) XOR rotr 25 (he s);
          ch = (he s AND hf s) XOR ((NOT (he s)) AND hg s);
          t1 = hh s + s1 + ch + k + w;
          s0 = rotr 2 (ha s) XOR rotr 13 (ha s) XOR rotr 22 (ha s);
          maj = (ha s AND hb s) XOR (ha s AND hc s) XOR (hb s AND hc s);
          t2 = s0 + maj
      in \<lparr>ha = t1 + t2, hb = ha s, hc = hb s, hd' = hc s,
          he = hd' s + t1, hf = he s, hg = hf s, hh = hg s\<rparr>)"

text \<open>The schedule of a block, newest word first: each new word reads four older ones.\<close>

fun extend_schedule :: "nat \<Rightarrow> w32 list \<Rightarrow> w32 list" where
  "extend_schedule 0 ws = ws"
| "extend_schedule (Suc n) ws =
     (let w15 = ws ! 14; w2 = ws ! 1;
          s0 = rotr 7 w15 XOR rotr 18 w15 XOR drop_bit 3 w15;
          s1 = rotr 17 w2 XOR rotr 19 w2 XOR drop_bit 10 w2
      in extend_schedule n ((ws ! 15 + s0 + ws ! 6 + s1) # ws))"

definition sha_block :: "sha_state \<Rightarrow> w32 list \<Rightarrow> sha_state" where
  "sha_block h block =
     (let ws = rev (extend_schedule 48 (rev block));
          s = foldl sha_round h (zip sha_k ws)
      in \<lparr>ha = ha h + ha s, hb = hb h + hb s, hc = hc h + hc s, hd' = hd' h + hd' s,
          he = he h + he s, hf = hf h + hf s, hg = hg h + hg s, hh = hh h + hh s\<rparr>)"

definition byte :: "nat \<Rightarrow> char" where
  "byte n = char_of n"

text \<open>Padding: a one bit, zeros, and the length in bits as eight bytes.\<close>

definition sha_pad :: "string \<Rightarrow> string" where
  "sha_pad m =
     (let l = length m; z = (55 + 64 - l mod 64) mod 64
      in m @ byte 128 # replicate z (byte 0) @
         map (\<lambda>i. byte ((8 * l) div 256 ^ (7 - i) mod 256)) [0 ..< 8])"

fun bytes_to_words :: "string \<Rightarrow> w32 list" where
  "bytes_to_words (a # b # c # d # rest) =
     word_of_nat (code a * 16777216 + code b * 65536 + code c * 256 + code d) # bytes_to_words rest"
| "bytes_to_words _ = []"

fun sha_blocks :: "nat \<Rightarrow> sha_state \<Rightarrow> w32 list \<Rightarrow> sha_state" where
  "sha_blocks 0 h ws = h"
| "sha_blocks (Suc n) h ws = sha_blocks n (sha_block h (take 16 ws)) (drop 16 ws)"

definition sha256_words :: "string \<Rightarrow> w32 list" where
  "sha256_words m =
     (let p = sha_pad m; s = sha_blocks (length p div 64) sha_init (bytes_to_words p)
      in [ha s, hb s, hc s, hd' s, he s, hf s, hg s, hh s])"

definition hex_digit :: "nat \<Rightarrow> char" where
  "hex_digit n = hex_lower ! (n mod 16)"

definition hex_word :: "w32 \<Rightarrow> string" where
  "hex_word w = map (\<lambda>i. hex_digit (unat w div 16 ^ (7 - i))) [0 ..< 8]"

definition sha256_hex :: "string \<Rightarrow> string" where
  "sha256_hex m = concat (map hex_word (sha256_words m))"

text \<open>The canonical identity of a record: \<open>"sha256:" + hexdigest\<close>.\<close>

definition digest :: "string \<Rightarrow> string" where
  "digest m = ''sha256:'' @ sha256_hex m"

lemma hex_digit_hex: "hex_digit n \<in> set hex_lower"
proof -
  have "length hex_lower = 16" by (simp add: hex_lower_def)
  then have "n mod 16 < length hex_lower" by simp
  then show ?thesis by (simp only: hex_digit_def nth_mem)
qed

lemma length_hex_word [simp]: "length (hex_word w) = 8"
  by (simp add: hex_word_def)

lemma length_sha256_hex [simp]: "length (sha256_hex m) = 64"
  by (simp add: sha256_hex_def sha256_words_def Let_def)

lemma sha256_hex_hex: "c \<in> set (sha256_hex m) \<Longrightarrow> c \<in> set hex_lower"
  by (auto simp: sha256_hex_def hex_word_def hex_digit_hex)

lemma is_sha_digest [simp, intro]: "is_sha (digest m)"
  by (auto simp: is_sha_def digest_def is_prefix_def list_all_iff intro: sha256_hex_hex)

lemma length_digest [simp]: "length (digest m) = 71"
  by (simp add: digest_def)

lemma digest_nonempty [simp]: "digest m \<noteq> []"
  by (simp add: digest_def)

lemma removeprefix_digest [simp]: "removeprefix ''sha256:'' (digest m) = sha256_hex m"
  by (simp add: removeprefix_def is_prefix_def digest_def)


end
