(* ===== verification/CanonicalJson.thy ===== *)
theory CanonicalJson
  imports Sha256 "HOL-Library.Multiset"
begin

text \<open>
  The canonical JSON of the contract modules:
  \<open>json.dumps(value, ensure_ascii=False, sort_keys=True, separators=(",", ":"),
  allow_nan=False).encode("utf-8")\<close>, with the length bound that each module puts on it. The
  payloads hold null, booleans, integers, strings, arrays and objects; no float occurs in them.
\<close>

subsection \<open>JSON values and their text\<close>

datatype json =
    JNull
  | JBool bool
  | JInt int
  | JStr string
  | JArr "json list"
  | JObj "(string \<times> json) list"

text \<open>Decimal digits of a natural number, most significant first.\<close>

definition dec_digit :: "nat \<Rightarrow> char" where
  "dec_digit n = ''0123456789'' ! (n mod 10)"

fun nat_text :: "nat \<Rightarrow> string" where
  "nat_text n = (if n < 10 then [dec_digit n] else nat_text (n div 10) @ [dec_digit n])"

declare nat_text.simps [simp del]

definition int_text :: "int \<Rightarrow> string" where
  "int_text i = (if i < 0 then CHR ''-'' # nat_text (nat (- i)) else nat_text (nat i))"

text \<open>The escapes of \<open>json.encoder.ESCAPE\<close> (\<open>ensure_ascii=False\<close>).\<close>

definition esc_char :: "char \<Rightarrow> string" where
  "esc_char c =
     (if c = CHR 0x22 then [CHR 0x5C, CHR 0x22]
      else if c = CHR 0x5C then [CHR 0x5C, CHR 0x5C]
      else if c = CHR 0x0A then [CHR 0x5C, CHR ''n'']
      else if c = CHR 0x0D then [CHR 0x5C, CHR ''r'']
      else if c = CHR 0x09 then [CHR 0x5C, CHR ''t'']
      else if c = CHR 0x0C then [CHR 0x5C, CHR ''f'']
      else if c = CHR 0x08 then [CHR 0x5C, CHR ''b'']
      else if code c < 32 then
        CHR 0x5C # ''u00'' @ [hex_digit (code c div 16), hex_digit (code c)]
      else [c])"

definition str_text :: "string \<Rightarrow> string" where
  "str_text s = CHR 0x22 # concat (map esc_char s) @ [CHR 0x22]"

definition member_text :: "string \<times> string \<Rightarrow> string" where
  "member_text kv = str_text (fst kv) @ '':'' @ snd kv"

text \<open>
  \<open>sort_keys=True\<close> sorts the members by key (Python compares strings by code points, as
  \<open>List_Lexorder\<close> over \<open>Char_ord\<close> does).
\<close>

fun dumps :: "json \<Rightarrow> string" where
  "dumps JNull = ''null''"
| "dumps (JBool b) = (if b then ''true'' else ''false'')"
| "dumps (JInt i) = int_text i"
| "dumps (JStr s) = str_text s"
| "dumps (JArr js) = ''['' @ join_with '','' (map dumps js) @ '']''"
| "dumps (JObj kvs) =
     ''{'' @ join_with '','' (map member_text
        (sort_key fst (map (\<lambda>kv. (fst kv, dumps (snd kv))) kvs))) @ ''}''"

text \<open>The bytes, and the module's envelope \<open>1 <= len(encoded) <= limit\<close>.\<close>

definition json_bytes :: "json \<Rightarrow> string" where
  "json_bytes j = utf8 (dumps j)"

definition canonical_json :: "nat \<Rightarrow> string \<Rightarrow> json \<Rightarrow> string res" where
  "canonical_json limit msg j =
     (let exact = json_bytes j in
      if 1 \<le> length exact \<and> length exact \<le> limit then Inr exact else Inl (ValueError msg))"

definition JOpt :: "string option \<Rightarrow> json" where
  "JOpt v = (case v of None \<Rightarrow> JNull | Some s \<Rightarrow> JStr s)"

subsection \<open>Bounds on the text\<close>

text \<open>
  A bound on the number of characters \<^const>\<open>dumps\<close> writes, computed from the value
  alone. It lets the owners of a record show that its canonical bytes stay in the envelope.
\<close>

fun text_bound :: "json \<Rightarrow> nat" where
  "text_bound JNull = 4"
| "text_bound (JBool b) = 5"
| "text_bound (JInt i) = length (int_text i)"
| "text_bound (JStr s) = 2 + 6 * length s"
| "text_bound (JArr js) = 2 + sum_list (map (\<lambda>j. 1 + text_bound j) js)"
| "text_bound (JObj kvs) =
     2 + sum_list (map (\<lambda>kv. 4 + 6 * length (fst kv) + text_bound (snd kv)) kvs)"

lemma length_esc_char: "length (esc_char c) \<le> 6"
  by (simp add: esc_char_def)

lemma length_esc_string: "length (concat (map esc_char s)) \<le> 6 * length s"
proof (induction s)
  case (Cons c s)
  then show ?case using length_esc_char [of c] by simp
qed simp

lemma length_str_text: "length (str_text s) \<le> 2 + 6 * length s"
  using length_esc_string [of s] by (simp add: str_text_def)

lemma length_join_comma: "length (join_with '','' ps) \<le> sum_list (map (\<lambda>p. 1 + length p) ps)"
proof (induction ps rule: induct_list012)
  case (3 p q ps)
  then show ?case by simp
qed auto

lemma sum_list_sort_key: "sum_list (map f (sort_key k xs)) = sum_list (map f xs)" for f :: "'a \<Rightarrow> nat"
proof -
  have "mset (map f (sort_key k xs)) = mset (map f xs)"
    by simp
  then show ?thesis
    by (metis sum_mset_sum_list)
qed

lemma length_dumps: "length (dumps j) \<le> text_bound j"
proof (induction j rule: dumps.induct)
  case (4 s)
  show ?case using length_str_text [of s] by simp
next
  case (5 js)
  have "length (join_with '','' (map dumps js)) \<le> sum_list (map (\<lambda>j. 1 + length (dumps j)) js)"
    using length_join_comma [of "map dumps js"] by (simp add: comp_def)
  also have "\<dots> \<le> sum_list (map (\<lambda>j. 1 + text_bound j) js)"
    using 5 by (intro sum_list_mono) auto
  finally show ?case by simp
next
  case (6 kvs)
  let ?enc = "map (\<lambda>kv. (fst kv, dumps (snd kv))) kvs"
  have "length (join_with '','' (map member_text (sort_key fst ?enc)))
      \<le> sum_list (map (\<lambda>m. 1 + length (member_text m)) (sort_key fst ?enc))"
    using length_join_comma [of "map member_text (sort_key fst ?enc)"] by (simp add: comp_def)
  also have "\<dots> = sum_list (map (\<lambda>m. 1 + length (member_text m)) ?enc)"
    by (rule sum_list_sort_key)
  also have "\<dots> = sum_list (map (\<lambda>kv. 2 + length (str_text (fst kv)) + length (dumps (snd kv))) kvs)"
    by (simp add: comp_def member_text_def)
  also have "\<dots> \<le> sum_list (map (\<lambda>kv. 4 + 6 * length (fst kv) + text_bound (snd kv)) kvs)"
  proof (intro sum_list_mono)
    fix kv assume "kv \<in> set kvs"
    with 6 have "length (dumps (snd kv)) \<le> text_bound (snd kv)" by auto
    with length_str_text [of "fst kv"]
    show "2 + length (str_text (fst kv)) + length (dumps (snd kv)) \<le> 4 + 6 * length (fst kv) + text_bound (snd kv)"
      by simp
  qed
  finally show ?case by simp
qed auto

lemma length_nat_text_le: "n < 10 ^ k \<Longrightarrow> 0 < k \<Longrightarrow> length (nat_text n) \<le> k"
proof (induction n arbitrary: k rule: nat_text.induct)
  case (1 n)
  show ?case
  proof (cases "n < 10")
    case True
    then show ?thesis using "1.prems" by (simp add: nat_text.simps [of n])
  next
    case False
    from "1.prems" obtain k' where k: "k = Suc k'"
      by (cases k) auto
    have "0 < k'"
      using "1.prems" False k by (intro Nat.gr0I notI) simp
    have "n div 10 < 10 ^ k'"
      using "1.prems" k by (simp add: div_less_iff_less_mult mult.commute)
    with "1.IH" False \<open>0 < k'\<close> have "length (nat_text (n div 10)) \<le> k'" by blast
    then show ?thesis using False k by (simp add: nat_text.simps [of n])
  qed
qed

lemma length_int_text: "0 \<le> i \<Longrightarrow> i \<le> MAX_INT \<Longrightarrow> length (int_text i) \<le> 19"
proof -
  assume "0 \<le> i" "i \<le> MAX_INT"
  then have "nat i < 10 ^ 19" by (simp add: MAX_INT_def)
  then have "length (nat_text (nat i)) \<le> 19" by (rule length_nat_text_le) simp
  with \<open>0 \<le> i\<close> show ?thesis by (simp add: int_text_def)
qed

lemma dumps_nonempty: "dumps j \<noteq> []"
  by (cases j) (auto simp: int_text_def nat_text.simps str_text_def)

lemma length_json_bytes: "length (json_bytes j) \<le> 2 * text_bound j"
  using length_utf8 [of "dumps j"] length_dumps [of j] by (simp add: json_bytes_def)

lemma json_bytes_nonempty: "1 \<le> length (json_bytes j)"
  using utf8_ge_length [of "dumps j"] dumps_nonempty [of j]
  by (cases "dumps j") (auto simp: json_bytes_def)

lemma canonical_json_Inr:
  "canonical_json limit msg j = Inr bs \<longleftrightarrow> bs = json_bytes j \<and> length bs \<le> limit"
  using json_bytes_nonempty [of j] by (auto simp: canonical_json_def Let_def)

lemma canonical_json_total:
  "2 * text_bound j \<le> limit \<Longrightarrow> canonical_json limit msg j = Inr (json_bytes j)"
  using length_json_bytes [of j] by (simp add: canonical_json_Inr)

end
