(* ===== verification/ResourceCreditVector.thy ===== *)
theory ResourceCreditVector
  imports CreditAlgebra CreditArithmetic CanonicalJson
begin

text \<open>
  \<open>class ResourceCreditVector\<close> of \<open>application/contracts/staged_resource_credit.py\<close>: fourteen
  counters of provider and filesystem resources, with checked arithmetic. It provides the
  contract of \<open>CreditAlgebra\<close>.
\<close>

record resource_credit_vector =
  documents :: int
  snapshot_items :: int
  snapshot_bytes :: int
  remote_waits :: int
  provider_tasks :: int
  provider_result_bytes :: int
  materialization_items :: int
  compressed_bytes :: int
  decoded_bytes :: int
  temp_disk_bytes :: int
  output_items :: int
  output_bytes :: int
  output_pages :: int
  ack_items :: int

text \<open>The declaration order of the fields, \<open>fields(self)\<close>.\<close>

definition rcv_items :: "resource_credit_vector \<Rightarrow> (string \<times> int) list" where
  "rcv_items v =
     [(''documents'', documents v),
      (''snapshot_items'', snapshot_items v),
      (''snapshot_bytes'', snapshot_bytes v),
      (''remote_waits'', remote_waits v),
      (''provider_tasks'', provider_tasks v),
      (''provider_result_bytes'', provider_result_bytes v),
      (''materialization_items'', materialization_items v),
      (''compressed_bytes'', compressed_bytes v),
      (''decoded_bytes'', decoded_bytes v),
      (''temp_disk_bytes'', temp_disk_bytes v),
      (''output_items'', output_items v),
      (''output_bytes'', output_bytes v),
      (''output_pages'', output_pages v),
      (''ack_items'', ack_items v)]"

definition rcv_comps :: "resource_credit_vector \<Rightarrow> int list" where
  "rcv_comps v = [documents v, snapshot_items v, snapshot_bytes v, remote_waits v, provider_tasks v, provider_result_bytes v, materialization_items v, compressed_bytes v, decoded_bytes v, temp_disk_bytes v, output_items v, output_bytes v, output_pages v, ack_items v]"

text \<open>\<open>ResourceCreditVector()\<close>: every field has the default 0.\<close>

definition rcv_zero :: resource_credit_vector where
  "rcv_zero = \<lparr>documents = 0, snapshot_items = 0, snapshot_bytes = 0, remote_waits = 0, provider_tasks = 0, provider_result_bytes = 0, materialization_items = 0, compressed_bytes = 0, decoded_bytes = 0, temp_disk_bytes = 0, output_items = 0, output_bytes = 0, output_pages = 0, ack_items = 0\<rparr>"

definition rcv_map2 ::
  "(int \<Rightarrow> int \<Rightarrow> int) \<Rightarrow> resource_credit_vector \<Rightarrow> resource_credit_vector \<Rightarrow> resource_credit_vector" where
  "rcv_map2 f a b =
     \<lparr>documents = f (documents a) (documents b),
      snapshot_items = f (snapshot_items a) (snapshot_items b),
      snapshot_bytes = f (snapshot_bytes a) (snapshot_bytes b),
      remote_waits = f (remote_waits a) (remote_waits b),
      provider_tasks = f (provider_tasks a) (provider_tasks b),
      provider_result_bytes = f (provider_result_bytes a) (provider_result_bytes b),
      materialization_items = f (materialization_items a) (materialization_items b),
      compressed_bytes = f (compressed_bytes a) (compressed_bytes b),
      decoded_bytes = f (decoded_bytes a) (decoded_bytes b),
      temp_disk_bytes = f (temp_disk_bytes a) (temp_disk_bytes b),
      output_items = f (output_items a) (output_items b),
      output_bytes = f (output_bytes a) (output_bytes b),
      output_pages = f (output_pages a) (output_pages b),
      ack_items = f (ack_items a) (ack_items b)\<rparr>"

definition rcv_post_init :: "resource_credit_vector \<Rightarrow> unit res" where
  "rcv_post_init v = checks (map (\<lambda>(name, value). require (in_range value)
     (''resource credit '' @ name @ '' must be a non-negative bounded integer'')) (rcv_items v))"

definition mk_rcv :: "resource_credit_vector \<Rightarrow> resource_credit_vector res" where
  "mk_rcv v = construct (rcv_post_init v) v"

text \<open>\<open>__add__\<close>: the sums are checked field by field, then the constructor runs.\<close>

definition rcv_add ::
  "resource_credit_vector \<Rightarrow> resource_credit_vector \<Rightarrow> resource_credit_vector res" where
  "rcv_add a b =
     bindR (checks (map (\<lambda>(l, r). bindR (checked_add l r) (\<lambda>_. Inr ())) (zip (rcv_comps a) (rcv_comps b))))
       (\<lambda>_. mk_rcv (rcv_map2 (+) a b))"

text \<open>\<open>__sub__\<close>: a release that would make ownership negative is refused.\<close>

definition rcv_sub ::
  "resource_credit_vector \<Rightarrow> resource_credit_vector \<Rightarrow> resource_credit_vector res" where
  "rcv_sub a b =
     (let values = rcv_map2 (-) a b in
      if list_ex (\<lambda>value. value < 0) (rcv_comps values)
      then Inl (ValueError ''resource credit release would make ownership negative'')
      else mk_rcv values)"

definition rcv_fits :: "resource_credit_vector \<Rightarrow> resource_credit_vector \<Rightarrow> bool" where
  "rcv_fits v limit = list_all (\<lambda>(l, r). l \<le> r) (zip (rcv_comps v) (rcv_comps limit))"

definition rcv_nonzero :: "resource_credit_vector \<Rightarrow> (string \<times> int) list" where
  "rcv_nonzero v = filter (\<lambda>(name, value). value \<noteq> 0) (rcv_items v)"

text \<open>\<open>asdict\<close>, for the canonical records that contain a vector.\<close>

definition rcv_json :: "resource_credit_vector \<Rightarrow> json" where
  "rcv_json v = JObj (map (\<lambda>(name, value). (name, JInt value)) (rcv_items v))"

definition valid_rcv :: "resource_credit_vector \<Rightarrow> bool" where
  "valid_rcv v = (rcv_post_init v = Inr ())"

subsection \<open>The vector provides the credit contract\<close>

lemma rcv_comps_map2: "rcv_comps (rcv_map2 f a b) = map2 f (rcv_comps a) (rcv_comps b)"
  by (simp add: rcv_comps_def rcv_map2_def)

lemma rcv_items_comps: "map snd (rcv_items v) = rcv_comps v"
  by (simp add: rcv_items_def rcv_comps_def)

lemma rcv_comps_length: "length (rcv_comps v) = 14"
  by (simp add: rcv_comps_def)

lemma rcv_comps_inj: "rcv_comps a = rcv_comps b \<Longrightarrow> a = b"
  by (cases a, cases b) (simp add: rcv_comps_def)

lemma rcv_valid_bounded: "valid_rcv v = bounded (rcv_comps v)"
  by (auto simp: valid_rcv_def rcv_post_init_def bounded_def list_all_iff
      simp flip: rcv_items_comps)

lemma mk_rcv_Inr: "mk_rcv v = Inr w \<longleftrightarrow> valid_rcv v \<and> w = v"
  by (simp add: mk_rcv_def valid_rcv_def)

lemma rcv_map2_iff: "c = rcv_map2 f a b \<longleftrightarrow> rcv_comps c = map2 f (rcv_comps a) (rcv_comps b)"
  using rcv_comps_inj by (metis rcv_comps_map2)

lemma bounded_sum_le: "bounded (map2 (+) xs ys) \<Longrightarrow> (l, r) \<in> set (zip xs ys) \<Longrightarrow> l + r \<le> MAX_INT"
  by (force simp: bounded_def list_all_iff in_range_def)

lemma bounded_nonneg: "bounded xs \<Longrightarrow> \<not> list_ex (\<lambda>value. value < 0) xs"
  by (auto simp: bounded_def list_all_iff list_ex_iff in_range_def)

lemma rcv_add_Inr: "rcv_add a b = Inr c \<longleftrightarrow>
    rcv_comps c = map2 (+) (rcv_comps a) (rcv_comps b) \<and> bounded (rcv_comps c)"
proof
  assume "rcv_add a b = Inr c"
  then have "c = rcv_map2 (+) a b" "valid_rcv c"
    by (auto simp: rcv_add_def mk_rcv_Inr)
  then show "rcv_comps c = map2 (+) (rcv_comps a) (rcv_comps b) \<and> bounded (rcv_comps c)"
    by (simp add: rcv_comps_map2 rcv_valid_bounded)
next
  assume *: "rcv_comps c = map2 (+) (rcv_comps a) (rcv_comps b) \<and> bounded (rcv_comps c)"
  then have "l + r \<le> MAX_INT" if "(l, r) \<in> set (zip (rcv_comps a) (rcv_comps b))" for l r
    using that by (metis bounded_sum_le)
  with * show "rcv_add a b = Inr c"
    by (auto simp: rcv_add_def mk_rcv_Inr rcv_map2_iff rcv_valid_bounded rcv_comps_map2)
qed

lemma rcv_sub_Inr: "rcv_sub a b = Inr c \<longleftrightarrow>
    rcv_comps c = map2 (-) (rcv_comps a) (rcv_comps b) \<and> bounded (rcv_comps c)"
  by (auto simp: rcv_sub_def Let_def mk_rcv_Inr rcv_map2_iff rcv_valid_bounded rcv_comps_map2
      dest: bounded_nonneg)

lemma rcv_fits_list_all2: "rcv_fits a b = list_all2 (\<le>) (rcv_comps a) (rcv_comps b)"
  by (simp add: rcv_fits_def list_all2_iff list_all_iff rcv_comps_length)

lemma rcv_comps_surj:
  assumes "length xs = 14"
  shows "\<exists>v. rcv_comps v = xs"
proof -
  have "rcv_comps \<lparr>documents = xs ! 0, snapshot_items = xs ! 1, snapshot_bytes = xs ! 2, remote_waits = xs ! 3, provider_tasks = xs ! 4, provider_result_bytes = xs ! 5, materialization_items = xs ! 6, compressed_bytes = xs ! 7, decoded_bytes = xs ! 8, temp_disk_bytes = xs ! 9, output_items = xs ! 10, output_bytes = xs ! 11, output_pages = xs ! 12, ack_items = xs ! 13\<rparr> = map ((!) xs) [0..<14]"
    by (simp add: rcv_comps_def upt_rec eval_nat_numeral)
  with assms show ?thesis by (metis map_nth)
qed

interpretation rcv: credit_vector rcv_comps valid_rcv rcv_add rcv_sub rcv_fits rcv_zero 14
proof
  fix a b c :: resource_credit_vector and xs :: "int list"
  show "rcv_comps a = rcv_comps b \<Longrightarrow> a = b" by (rule rcv_comps_inj)
  show "length (rcv_comps a) = 14" by (rule rcv_comps_length)
  show "rcv_comps rcv_zero = replicate 14 0" by (simp add: rcv_comps_def rcv_zero_def eval_nat_numeral)
  show "valid_rcv a = bounded (rcv_comps a)" by (rule rcv_valid_bounded)
  show "rcv_fits a b = list_all2 (\<le>) (rcv_comps a) (rcv_comps b)" by (rule rcv_fits_list_all2)
  show "(rcv_add a b = Inr c) = (rcv_comps c = map2 (+) (rcv_comps a) (rcv_comps b) \<and> bounded (rcv_comps c))"
    by (rule rcv_add_Inr)
  show "(rcv_sub a b = Inr c) = (rcv_comps c = map2 (-) (rcv_comps a) (rcv_comps b) \<and> bounded (rcv_comps c))"
    by (rule rcv_sub_Inr)
  show "length xs = 14 \<Longrightarrow> \<exists>v. rcv_comps v = xs" by (rule rcv_comps_surj)
qed

subsection \<open>Facts on the fields\<close>

lemma valid_rcv_iff: "valid_rcv v \<longleftrightarrow> list_all in_range (rcv_comps v)"
  by (simp add: rcv_valid_bounded bounded_def)

lemma rcv_add_eq: "valid_rcv (rcv_map2 (+) a b) \<Longrightarrow> rcv_add a b = Inr (rcv_map2 (+) a b)"
  by (simp add: rcv_add_Inr rcv_comps_map2 rcv_valid_bounded)

lemma rcv_zero_sel [simp]:
  "documents rcv_zero = 0"
  "snapshot_items rcv_zero = 0"
  "snapshot_bytes rcv_zero = 0"
  "remote_waits rcv_zero = 0"
  "provider_tasks rcv_zero = 0"
  "provider_result_bytes rcv_zero = 0"
  "materialization_items rcv_zero = 0"
  "compressed_bytes rcv_zero = 0"
  "decoded_bytes rcv_zero = 0"
  "temp_disk_bytes rcv_zero = 0"
  "output_items rcv_zero = 0"
  "output_bytes rcv_zero = 0"
  "output_pages rcv_zero = 0"
  "ack_items rcv_zero = 0"
  by (simp_all add: rcv_zero_def)

lemma valid_rcv_zero [simp]: "valid_rcv rcv_zero"
  by (rule rcv.valid_zero)

end
