(* ===== verification/ProcessProfile.thy ===== *)
theory ProcessProfile
  imports CanonicalJson
begin

text \<open>
  \<open>application/contracts/mineru_process_profile.py\<close>: the hard ceilings frozen for the
  lifetime of one attested MinerU process, and its canonical identity. Both credit policies
  derive their reservations from it.
\<close>

definition PROCESS_PROFILE_CONTRACT :: string where
  "PROCESS_PROFILE_CONTRACT = ''mineru.process-profile.v1''"

definition EXPLICIT_PROCESS_PROFILE_CONTRACT :: string where
  "EXPLICIT_PROCESS_PROFILE_CONTRACT = ''mineru.process-profile.v2''"

definition MAX_INT32 :: int where
  "MAX_INT32 = 2 ^ 31 - 1"

record mineru_process_profile =
  profile_contract_version :: string
  runtime_bundle_identity_sha256 :: string
  orchestrator_image_identity_sha256 :: string
  inference_image_identity_sha256 :: string
  model_snapshot_identity_sha256 :: string
  host_runtime_identity_sha256 :: string
  vllm_engine_args_sha256 :: string
  api_task_slots :: int
  api_max_pending_tasks :: int
  registry_nonterminal_cap :: int
  registry_terminal_cap :: int
  processing_window_size :: int
  raster_stage_slots :: int
  layout_stage_slots :: int
  postprocess_stage_slots :: int
  native_owner_slots :: int
  cpu_worker_threads :: int
  omp_thread_count :: int
  requested_hybrid_batch_ratio :: int
  effective_hybrid_batch_ratio :: int
  hybrid_ocr_override :: bool
  inference_concurrency :: int
  vllm_max_num_seqs :: int
  vllm_max_model_len :: int
  vllm_max_num_batched_tokens :: "int option"
  vllm_gpu_memory_utilization_millionths :: int
  vllm_tensor_parallel_size :: int
  vllm_pipeline_parallel_size :: int
  vllm_mm_processor_cache_bytes :: int
  vllm_enforce_eager :: bool
  vllm_enable_prefix_caching :: bool
  pipeline_inference_locks :: bool
  finalizer_slots :: int
  result_reservation_bytes :: int
  max_unacked_result_bytes :: int
  source_pdf_bytes_limit :: int
  resident_pages_limit :: int
  rasterized_page_bytes_limit :: int
  decoded_payload_bytes_limit :: int
  cpu_working_set_bytes_limit :: int
  gpu_allocated_bytes_limit :: int
  gpu_request_slots :: int
  reorder_buffer_bytes_limit :: int
  terminal_output_bytes_limit :: int
  temporary_disk_bytes_limit :: int
  db_staged_bytes_limit :: int
  unpublished_pages_limit :: int
  container_memory_limit_bytes :: int
  host_runtime_memory_limit_bytes :: int
  task_retention_seconds :: int
  task_cleanup_interval_seconds :: int


definition validate_positive_bounded_int :: "string \<Rightarrow> int \<Rightarrow> int \<Rightarrow> unit res" where
  "validate_positive_bounded_int name value maximum =
     require (1 \<le> value \<and> value \<le> maximum)
       (''MinerU process profile '' @ name @ '' must be within 1..'' @ int_text maximum)"

definition validate_nonnegative_bounded_int :: "string \<Rightarrow> int \<Rightarrow> int \<Rightarrow> unit res" where
  "validate_nonnegative_bounded_int name value maximum =
     require (0 \<le> value \<and> value \<le> maximum)
       (''MinerU process profile '' @ name @ '' must be within 0..'' @ int_text maximum)"

definition profile_shas :: "mineru_process_profile \<Rightarrow> (string \<times> string) list" where
  "profile_shas p =
     [(''runtime_bundle_identity_sha256'', runtime_bundle_identity_sha256 p),
      (''orchestrator_image_identity_sha256'', orchestrator_image_identity_sha256 p),
      (''inference_image_identity_sha256'', inference_image_identity_sha256 p),
      (''model_snapshot_identity_sha256'', model_snapshot_identity_sha256 p),
      (''host_runtime_identity_sha256'', host_runtime_identity_sha256 p),
      (''vllm_engine_args_sha256'', vllm_engine_args_sha256 p)]"

definition profile_int32s :: "mineru_process_profile \<Rightarrow> (string \<times> int) list" where
  "profile_int32s p =
     [(''api_task_slots'', api_task_slots p),
      (''api_max_pending_tasks'', api_max_pending_tasks p),
      (''registry_nonterminal_cap'', registry_nonterminal_cap p),
      (''registry_terminal_cap'', registry_terminal_cap p),
      (''processing_window_size'', processing_window_size p),
      (''raster_stage_slots'', raster_stage_slots p),
      (''layout_stage_slots'', layout_stage_slots p),
      (''postprocess_stage_slots'', postprocess_stage_slots p),
      (''native_owner_slots'', native_owner_slots p),
      (''cpu_worker_threads'', cpu_worker_threads p),
      (''omp_thread_count'', omp_thread_count p),
      (''inference_concurrency'', inference_concurrency p),
      (''vllm_max_num_seqs'', vllm_max_num_seqs p),
      (''vllm_max_model_len'', vllm_max_model_len p),
      (''vllm_gpu_memory_utilization_millionths'', vllm_gpu_memory_utilization_millionths p),
      (''vllm_tensor_parallel_size'', vllm_tensor_parallel_size p),
      (''vllm_pipeline_parallel_size'', vllm_pipeline_parallel_size p),
      (''gpu_request_slots'', gpu_request_slots p),
      (''resident_pages_limit'', resident_pages_limit p),
      (''unpublished_pages_limit'', unpublished_pages_limit p),
      (''finalizer_slots'', finalizer_slots p),
      (''task_retention_seconds'', task_retention_seconds p),
      (''task_cleanup_interval_seconds'', task_cleanup_interval_seconds p)]"

definition profile_int64s :: "mineru_process_profile \<Rightarrow> (string \<times> int) list" where
  "profile_int64s p =
     [(''result_reservation_bytes'', result_reservation_bytes p),
      (''max_unacked_result_bytes'', max_unacked_result_bytes p),
      (''source_pdf_bytes_limit'', source_pdf_bytes_limit p),
      (''rasterized_page_bytes_limit'', rasterized_page_bytes_limit p),
      (''decoded_payload_bytes_limit'', decoded_payload_bytes_limit p),
      (''cpu_working_set_bytes_limit'', cpu_working_set_bytes_limit p),
      (''gpu_allocated_bytes_limit'', gpu_allocated_bytes_limit p),
      (''reorder_buffer_bytes_limit'', reorder_buffer_bytes_limit p),
      (''terminal_output_bytes_limit'', terminal_output_bytes_limit p),
      (''temporary_disk_bytes_limit'', temporary_disk_bytes_limit p),
      (''db_staged_bytes_limit'', db_staged_bytes_limit p),
      (''container_memory_limit_bytes'', container_memory_limit_bytes p),
      (''host_runtime_memory_limit_bytes'', host_runtime_memory_limit_bytes p)]"

definition profile_stage_slots :: "mineru_process_profile \<Rightarrow> (string \<times> int) list" where
  "profile_stage_slots p =
     [(''raster_stage_slots'', raster_stage_slots p),
      (''layout_stage_slots'', layout_stage_slots p),
      (''postprocess_stage_slots'', postprocess_stage_slots p),
      (''native_owner_slots'', native_owner_slots p)]"

text \<open>\<open>MineruProcessProfile.__post_init__\<close>: the statements in the order of the source.\<close>

definition profile_check_shas :: "mineru_process_profile \<Rightarrow> unit res" where
  "profile_check_shas p = checks (map (\<lambda>(name, value). require (is_sha value)
     (''MinerU process profile '' @ name @ '' is not canonical sha256'')) (profile_shas p))"

definition profile_check_int32s :: "mineru_process_profile \<Rightarrow> unit res" where
  "profile_check_int32s p =
     checks (map (\<lambda>(name, value). validate_positive_bounded_int name value MAX_INT32) (profile_int32s p))"

definition profile_check_batched_tokens :: "mineru_process_profile \<Rightarrow> unit res" where
  "profile_check_batched_tokens p =
     (case vllm_max_num_batched_tokens p of
        None \<Rightarrow> require (profile_contract_version p = EXPLICIT_PROCESS_PROFILE_CONTRACT)
          (''MinerU process profile vllm_max_num_batched_tokens must be within 1..'' @ int_text MAX_INT32)
      | Some n \<Rightarrow> validate_positive_bounded_int ''vllm_max_num_batched_tokens'' n MAX_INT32)"

definition profile_check_int64s :: "mineru_process_profile \<Rightarrow> unit res" where
  "profile_check_int64s p =
     checks (map (\<lambda>(name, value). validate_positive_bounded_int name value MAX_INT) (profile_int64s p))"

definition profile_check_stage_slots :: "mineru_process_profile \<Rightarrow> unit res" where
  "profile_check_stage_slots p = checks (map (\<lambda>(name, value).
     require (\<not> value > registry_nonterminal_cap p)
       (''MinerU '' @ name @ '' exceeds nonterminal registry'')) (profile_stage_slots p))"

definition profile_check_ocr_override :: "mineru_process_profile \<Rightarrow> unit res" where
  "profile_check_ocr_override p =
     (if hybrid_ocr_override p
      then require (effective_hybrid_batch_ratio p = 1)
        ''MinerU OCR override requires effective batch ratio 1''
      else require (effective_hybrid_batch_ratio p = requested_hybrid_batch_ratio p)
        ''MinerU effective batch ratio drifted without OCR override'')"

definition profile_post_init :: "mineru_process_profile \<Rightarrow> unit res" where
  "profile_post_init p = checks
     [require (profile_contract_version p \<in> {PROCESS_PROFILE_CONTRACT, EXPLICIT_PROCESS_PROFILE_CONTRACT})
        ''MinerU process profile contract is unsupported'',
      profile_check_shas p,
      profile_check_int32s p,
      profile_check_batched_tokens p,
      profile_check_int64s p,
      validate_nonnegative_bounded_int ''vllm_mm_processor_cache_bytes'' (vllm_mm_processor_cache_bytes p) MAX_INT,
      require (requested_hybrid_batch_ratio p \<in> {1, 2, 4, 8})
        ''MinerU process profile requested_hybrid_batch_ratio is unsupported'',
      require (effective_hybrid_batch_ratio p \<in> {1, 2, 4, 8})
        ''MinerU process profile effective_hybrid_batch_ratio is unsupported'',
      require (\<not> api_task_slots p > api_max_pending_tasks p)
        ''MinerU task slots exceed pending-task admission'',
      require (\<not> api_max_pending_tasks p > registry_nonterminal_cap p)
        ''MinerU pending-task admission exceeds nonterminal registry'',
      profile_check_stage_slots p,
      require (\<not> inference_concurrency p > vllm_max_num_seqs p)
        ''MinerU inference concurrency exceeds vLLM sequences'',
      require (\<not> gpu_request_slots p > vllm_max_num_seqs p)
        ''MinerU GPU request slots exceed vLLM sequences'',
      require (\<not> finalizer_slots p > api_max_pending_tasks p)
        ''MinerU finalizer slots exceed pending-task admission'',
      require (\<not> result_reservation_bytes p * api_max_pending_tasks p > max_unacked_result_bytes p)
        ''MinerU admitted result reservations exceed retained-result budget'',
      require (\<not> task_cleanup_interval_seconds p > task_retention_seconds p)
        ''MinerU cleanup cadence exceeds task retention'',
      require (\<not> vllm_gpu_memory_utilization_millionths p > 1000000)
        ''MinerU vLLM GPU utilization exceeds one millionth scale'',
      require (\<not> container_memory_limit_bytes p > host_runtime_memory_limit_bytes p)
        ''MinerU container memory exceeds host runtime memory'',
      require (\<not> cpu_working_set_bytes_limit p > container_memory_limit_bytes p)
        ''MinerU CPU working set exceeds container memory identity'',
      profile_check_ocr_override p]"

definition mk_profile :: "mineru_process_profile \<Rightarrow> mineru_process_profile res" where
  "mk_profile p = construct (profile_post_init p) p"

text \<open>\<open>_canonical_bytes\<close>, \<open>exact_bytes\<close> and \<open>sha256\<close>; this module puts no bound on the bytes it writes.\<close>

definition profile_payload :: "mineru_process_profile \<Rightarrow> json" where
  "profile_payload p = JObj
     [(''contract_version'', JStr (profile_contract_version p)),
      (''runtime_bundle_identity_sha256'', JStr (runtime_bundle_identity_sha256 p)),
      (''orchestrator_image_identity_sha256'', JStr (orchestrator_image_identity_sha256 p)),
      (''inference_image_identity_sha256'', JStr (inference_image_identity_sha256 p)),
      (''model_snapshot_identity_sha256'', JStr (model_snapshot_identity_sha256 p)),
      (''host_runtime_identity_sha256'', JStr (host_runtime_identity_sha256 p)),
      (''vllm_engine_args_sha256'', JStr (vllm_engine_args_sha256 p)),
      (''api_task_slots'', JInt (api_task_slots p)),
      (''api_max_pending_tasks'', JInt (api_max_pending_tasks p)),
      (''registry_nonterminal_cap'', JInt (registry_nonterminal_cap p)),
      (''registry_terminal_cap'', JInt (registry_terminal_cap p)),
      (''processing_window_size'', JInt (processing_window_size p)),
      (''raster_stage_slots'', JInt (raster_stage_slots p)),
      (''layout_stage_slots'', JInt (layout_stage_slots p)),
      (''postprocess_stage_slots'', JInt (postprocess_stage_slots p)),
      (''native_owner_slots'', JInt (native_owner_slots p)),
      (''cpu_worker_threads'', JInt (cpu_worker_threads p)),
      (''omp_thread_count'', JInt (omp_thread_count p)),
      (''requested_hybrid_batch_ratio'', JInt (requested_hybrid_batch_ratio p)),
      (''effective_hybrid_batch_ratio'', JInt (effective_hybrid_batch_ratio p)),
      (''hybrid_ocr_override'', JBool (hybrid_ocr_override p)),
      (''inference_concurrency'', JInt (inference_concurrency p)),
      (''vllm_max_num_seqs'', JInt (vllm_max_num_seqs p)),
      (''vllm_max_model_len'', JInt (vllm_max_model_len p)),
      (''vllm_max_num_batched_tokens'', (case vllm_max_num_batched_tokens p of None \<Rightarrow> JNull | Some n \<Rightarrow> JInt n)),
      (''vllm_gpu_memory_utilization_millionths'', JInt (vllm_gpu_memory_utilization_millionths p)),
      (''vllm_tensor_parallel_size'', JInt (vllm_tensor_parallel_size p)),
      (''vllm_pipeline_parallel_size'', JInt (vllm_pipeline_parallel_size p)),
      (''vllm_mm_processor_cache_bytes'', JInt (vllm_mm_processor_cache_bytes p)),
      (''vllm_enforce_eager'', JBool (vllm_enforce_eager p)),
      (''vllm_enable_prefix_caching'', JBool (vllm_enable_prefix_caching p)),
      (''pipeline_inference_locks'', JBool (pipeline_inference_locks p)),
      (''finalizer_slots'', JInt (finalizer_slots p)),
      (''result_reservation_bytes'', JInt (result_reservation_bytes p)),
      (''max_unacked_result_bytes'', JInt (max_unacked_result_bytes p)),
      (''source_pdf_bytes_limit'', JInt (source_pdf_bytes_limit p)),
      (''resident_pages_limit'', JInt (resident_pages_limit p)),
      (''rasterized_page_bytes_limit'', JInt (rasterized_page_bytes_limit p)),
      (''decoded_payload_bytes_limit'', JInt (decoded_payload_bytes_limit p)),
      (''cpu_working_set_bytes_limit'', JInt (cpu_working_set_bytes_limit p)),
      (''gpu_allocated_bytes_limit'', JInt (gpu_allocated_bytes_limit p)),
      (''gpu_request_slots'', JInt (gpu_request_slots p)),
      (''reorder_buffer_bytes_limit'', JInt (reorder_buffer_bytes_limit p)),
      (''terminal_output_bytes_limit'', JInt (terminal_output_bytes_limit p)),
      (''temporary_disk_bytes_limit'', JInt (temporary_disk_bytes_limit p)),
      (''db_staged_bytes_limit'', JInt (db_staged_bytes_limit p)),
      (''unpublished_pages_limit'', JInt (unpublished_pages_limit p)),
      (''container_memory_limit_bytes'', JInt (container_memory_limit_bytes p)),
      (''host_runtime_memory_limit_bytes'', JInt (host_runtime_memory_limit_bytes p)),
      (''task_retention_seconds'', JInt (task_retention_seconds p)),
      (''task_cleanup_interval_seconds'', JInt (task_cleanup_interval_seconds p))]"

definition profile_exact_bytes :: "mineru_process_profile \<Rightarrow> string" where
  "profile_exact_bytes p = json_bytes (profile_payload p)"

definition profile_sha256 :: "mineru_process_profile \<Rightarrow> string" where
  "profile_sha256 p = digest (profile_exact_bytes p)"

definition valid_profile :: "mineru_process_profile \<Rightarrow> bool" where
  "valid_profile p = (profile_post_init p = Inr ())"

subsection \<open>What a constructed profile guarantees\<close>

text \<open>The ceilings the credit policies divide by and cap with are positive and bounded.\<close>

lemma valid_profile_parts:
  assumes "valid_profile p"
  shows "profile_check_shas p = Inr ()" "profile_check_int32s p = Inr ()" "profile_check_int64s p = Inr ()"
    and "api_max_pending_tasks p \<le> registry_nonterminal_cap p"
    and "result_reservation_bytes p * api_max_pending_tasks p \<le> max_unacked_result_bytes p"
  using assms by (simp_all add: valid_profile_def profile_post_init_def)

lemma valid_profile_int64s:
  "valid_profile p \<Longrightarrow> list_all (\<lambda>(name, v). 1 \<le> v \<and> v \<le> MAX_INT) (profile_int64s p)"
  using valid_profile_parts [of p]
  by (auto simp: profile_check_int64s_def validate_positive_bounded_int_def list_all_iff)

lemma valid_profile_int32s:
  "valid_profile p \<Longrightarrow> list_all (\<lambda>(name, v). 1 \<le> v \<and> v \<le> MAX_INT32) (profile_int32s p)"
  using valid_profile_parts [of p]
  by (auto simp: profile_check_int32s_def validate_positive_bounded_int_def list_all_iff)

lemma MAX_INT32_le: "MAX_INT32 \<le> MAX_INT"
  by (simp add: MAX_INT32_def MAX_INT_def)

lemma profile_ceilings:
  assumes "valid_profile p"
  shows "1 \<le> result_reservation_bytes p" "result_reservation_bytes p \<le> MAX_INT"
    and "1 \<le> max_unacked_result_bytes p" "max_unacked_result_bytes p \<le> MAX_INT"
    and "1 \<le> source_pdf_bytes_limit p" "source_pdf_bytes_limit p \<le> MAX_INT"
    and "1 \<le> rasterized_page_bytes_limit p" "rasterized_page_bytes_limit p \<le> MAX_INT"
    and "1 \<le> decoded_payload_bytes_limit p" "decoded_payload_bytes_limit p \<le> MAX_INT"
    and "1 \<le> terminal_output_bytes_limit p" "terminal_output_bytes_limit p \<le> MAX_INT"
    and "1 \<le> temporary_disk_bytes_limit p" "temporary_disk_bytes_limit p \<le> MAX_INT"
    and "1 \<le> db_staged_bytes_limit p" "db_staged_bytes_limit p \<le> MAX_INT"
    and "1 \<le> resident_pages_limit p" "1 \<le> unpublished_pages_limit p" "unpublished_pages_limit p \<le> MAX_INT"
proof -
  note i64 = valid_profile_int64s [OF assms, unfolded profile_int64s_def list.pred_inject split_conv]
  note i32 = valid_profile_int32s [OF assms, unfolded profile_int32s_def list.pred_inject split_conv]
  show "1 \<le> result_reservation_bytes p" "result_reservation_bytes p \<le> MAX_INT"
    "1 \<le> max_unacked_result_bytes p" "max_unacked_result_bytes p \<le> MAX_INT"
    "1 \<le> source_pdf_bytes_limit p" "source_pdf_bytes_limit p \<le> MAX_INT"
    "1 \<le> rasterized_page_bytes_limit p" "rasterized_page_bytes_limit p \<le> MAX_INT"
    "1 \<le> decoded_payload_bytes_limit p" "decoded_payload_bytes_limit p \<le> MAX_INT"
    "1 \<le> terminal_output_bytes_limit p" "terminal_output_bytes_limit p \<le> MAX_INT"
    "1 \<le> temporary_disk_bytes_limit p" "temporary_disk_bytes_limit p \<le> MAX_INT"
    "1 \<le> db_staged_bytes_limit p" "db_staged_bytes_limit p \<le> MAX_INT"
    using i64 by blast+
  show "1 \<le> resident_pages_limit p" "1 \<le> unpublished_pages_limit p" "unpublished_pages_limit p \<le> MAX_INT"
    using i32 order_trans [OF _ MAX_INT32_le] by blast+
qed

lemma is_sha_profile_sha256 [simp]: "is_sha (profile_sha256 p)"
  by (simp add: profile_sha256_def)

subsection \<open>A concrete profile\<close>

text \<open>Used to show that the hypotheses of the theorems about profiles can be met.\<close>

definition digest_example :: string where
  "digest_example = ''sha256:'' @ replicate 64 (CHR ''a'')"

lemma is_sha_digest_example [simp]: "is_sha digest_example"
  by (simp add: is_sha_def digest_example_def is_prefix_def hex_lower_def list_all_iff)

definition profile_example :: mineru_process_profile where
  "profile_example = \<lparr>profile_contract_version = PROCESS_PROFILE_CONTRACT,
     runtime_bundle_identity_sha256 = digest_example,
     orchestrator_image_identity_sha256 = digest_example,
     inference_image_identity_sha256 = digest_example,
     model_snapshot_identity_sha256 = digest_example,
     host_runtime_identity_sha256 = digest_example,
     vllm_engine_args_sha256 = digest_example,
     api_task_slots = 2,
     api_max_pending_tasks = 4,
     registry_nonterminal_cap = 8,
     registry_terminal_cap = 8,
     processing_window_size = 1,
     raster_stage_slots = 2,
     layout_stage_slots = 1,
     postprocess_stage_slots = 1,
     native_owner_slots = 2,
     cpu_worker_threads = 1,
     omp_thread_count = 1,
     requested_hybrid_batch_ratio = 2,
     effective_hybrid_batch_ratio = 2,
     hybrid_ocr_override = False,
     inference_concurrency = 2,
     vllm_max_num_seqs = 4,
     vllm_max_model_len = 1,
     vllm_max_num_batched_tokens = Some 8192,
     vllm_gpu_memory_utilization_millionths = 900000,
     vllm_tensor_parallel_size = 1,
     vllm_pipeline_parallel_size = 1,
     vllm_mm_processor_cache_bytes = 1,
     vllm_enforce_eager = False,
     vllm_enable_prefix_caching = False,
     pipeline_inference_locks = False,
     finalizer_slots = 2,
     result_reservation_bytes = 67108864,
     max_unacked_result_bytes = 536870912,
     source_pdf_bytes_limit = 268435456,
     resident_pages_limit = 64,
     rasterized_page_bytes_limit = 1073741824,
     decoded_payload_bytes_limit = 4294967296,
     cpu_working_set_bytes_limit = 17179869184,
     gpu_allocated_bytes_limit = 1,
     gpu_request_slots = 4,
     reorder_buffer_bytes_limit = 1,
     terminal_output_bytes_limit = 268435456,
     temporary_disk_bytes_limit = 2147483648,
     db_staged_bytes_limit = 268435456,
     unpublished_pages_limit = 2000,
     container_memory_limit_bytes = 34359738368,
     host_runtime_memory_limit_bytes = 68719476736,
     task_retention_seconds = 86400,
     task_cleanup_interval_seconds = 300\<rparr>"

lemma valid_profile_example: "valid_profile profile_example"
proof -
  have "profile_check_shas profile_example = Inr ()" "profile_check_int32s profile_example = Inr ()"
    "profile_check_batched_tokens profile_example = Inr ()" "profile_check_int64s profile_example = Inr ()"
    "profile_check_stage_slots profile_example = Inr ()" "profile_check_ocr_override profile_example = Inr ()"
    by (simp_all add: profile_check_shas_def profile_shas_def profile_check_int32s_def profile_int32s_def
      profile_check_batched_tokens_def profile_check_int64s_def profile_int64s_def
      profile_check_stage_slots_def profile_stage_slots_def profile_check_ocr_override_def
      validate_positive_bounded_int_def profile_example_def MAX_INT32_def MAX_INT_def)
  then show ?thesis
    by (simp add: valid_profile_def profile_post_init_def validate_nonnegative_bounded_int_def)
       (simp add: profile_example_def MAX_INT_def)
qed

end
