(* ===== verification/StagedResourceCredit.thy ===== *)
theory StagedResourceCredit
  imports ResourceCreditVector ProcessProfile
begin

text \<open>
  \<open>application/contracts/staged_resource_credit.py\<close> (policy v2): the state graph of a staged
  parse attempt, the canonical reservation input, the per-attempt allowance, the derivation of a
  reservation from a process profile, and the projection \<open>resource_credit_shape\<close> of persisted
  facts to the resources an attempt owns in each state.
\<close>

subsection \<open>The states and their transitions\<close>

datatype checkpoint_state =
    Prepared
  | Reconciling
  | Submitted
  | Remote_terminal
  | Materializing
  | Local_materialized
  | Publish_committed
  | Cleanup_pending
  | Ack_pending
  | Acked
  | Remote_failed
  | Local_failed
  | Pre_submission_failed
  | Preparation_failed
  | Superseded

fun state_name :: "checkpoint_state \<Rightarrow> string" where
  "state_name Prepared = ''prepared''"
| "state_name Reconciling = ''reconciling''"
| "state_name Submitted = ''submitted''"
| "state_name Remote_terminal = ''remote_terminal''"
| "state_name Materializing = ''materializing''"
| "state_name Local_materialized = ''local_materialized''"
| "state_name Publish_committed = ''publish_committed''"
| "state_name Cleanup_pending = ''cleanup_pending''"
| "state_name Ack_pending = ''ack_pending''"
| "state_name Acked = ''acked''"
| "state_name Remote_failed = ''remote_failed''"
| "state_name Local_failed = ''local_failed''"
| "state_name Pre_submission_failed = ''pre_submission_failed''"
| "state_name Preparation_failed = ''preparation_failed''"
| "state_name Superseded = ''superseded''"

definition all_states :: "checkpoint_state list" where
  "all_states =
     [Prepared, Reconciling, Submitted, Remote_terminal, Materializing, Local_materialized,
      Publish_committed, Cleanup_pending, Ack_pending, Acked, Remote_failed, Local_failed,
      Pre_submission_failed, Preparation_failed, Superseded]"

text \<open>\<open>STAGED_RESOURCE_STATE_TRANSITIONS\<close>, a mapping: \<^term>\<open>None\<close> where it has no key.\<close>

fun staged_resource_state_transitions :: "checkpoint_state \<Rightarrow> checkpoint_state list option" where
  "staged_resource_state_transitions Prepared = Some [Reconciling, Cleanup_pending]"
| "staged_resource_state_transitions Reconciling = Some [Submitted, Cleanup_pending]"
| "staged_resource_state_transitions Submitted = Some [Remote_terminal, Cleanup_pending]"
| "staged_resource_state_transitions Remote_terminal = Some [Materializing, Cleanup_pending]"
| "staged_resource_state_transitions Materializing = Some [Local_materialized, Cleanup_pending]"
| "staged_resource_state_transitions Local_materialized = Some [Publish_committed, Cleanup_pending]"
| "staged_resource_state_transitions Publish_committed = Some [Cleanup_pending]"
| "staged_resource_state_transitions Cleanup_pending =
     Some [Ack_pending, Pre_submission_failed, Superseded]"
| "staged_resource_state_transitions Ack_pending =
     Some [Acked, Remote_failed, Local_failed, Superseded]"
| "staged_resource_state_transitions _ = None"

text \<open>\<open>STAGED_RESOURCE_STATE_TRANSITIONS.get(state, frozenset())\<close>\<close>

definition next_states :: "checkpoint_state \<Rightarrow> checkpoint_state list" where
  "next_states s = (case staged_resource_state_transitions s of None \<Rightarrow> [] | Some ts \<Rightarrow> ts)"

definition final_states :: "checkpoint_state list" where
  "final_states =
     [Acked, Local_failed, Pre_submission_failed, Preparation_failed, Remote_failed, Superseded]"

definition is_final :: "checkpoint_state \<Rightarrow> bool" where
  "is_final s = (s \<in> set final_states)"

datatype cleanup_outcome =
    Success
  | Remote_failure
  | Local_failure
  | Pre_submission_failure
  | Superseded_outcome

fun outcome_name :: "cleanup_outcome \<Rightarrow> string" where
  "outcome_name Success = ''success''"
| "outcome_name Remote_failure = ''remote_failure''"
| "outcome_name Local_failure = ''local_failure''"
| "outcome_name Pre_submission_failure = ''pre_submission_failure''"
| "outcome_name Superseded_outcome = ''superseded''"

subsection \<open>Buckets and the reservation input\<close>

datatype bucket = Regular | Heavy | Huge

fun bucket_name :: "bucket \<Rightarrow> string" where
  "bucket_name Regular = ''regular''"
| "bucket_name Heavy = ''heavy''"
| "bucket_name Huge = ''huge''"

text \<open>\<open>_BUCKETS\<close>: name, fraction numerator and denominator, result and temp multipliers.\<close>

definition buckets :: "(bucket \<times> int \<times> int \<times> int \<times> int) list" where
  "buckets = [(Regular, 1, 8, 1, 2), (Heavy, 1, 2, 2, 3), (Huge, 1, 1, 4, 4)]"

definition MAX_CANONICAL_BYTES :: nat where
  "MAX_CANONICAL_BYTES = 65536"

definition credit_canonical_json :: "json \<Rightarrow> string res" where
  "credit_canonical_json =
     canonical_json MAX_CANONICAL_BYTES ''resource credit canonical bytes are outside the envelope''"

text \<open>
  \<open>_require_sha\<close> of this module: the prefix, 71 characters, and a remainder that
  \<open>int(_, 16)\<close> accepts. Python's \<open>int\<close> strips white space, takes a sign, the prefix \<open>0x\<close> (with one
  underscore after it), both letter cases, and single underscores between digits.
\<close>

definition int_space :: "char \<Rightarrow> bool" where
  "int_space c = (let n = code c in (9 \<le> n \<and> n \<le> 13) \<or> n = 32 \<or> n = 133 \<or> n = 160)"

definition hex_any :: string where
  "hex_any = ''0123456789abcdefABCDEF''"

text \<open>Digits with single underscores between them; the flag says that a digit was just read.\<close>

fun hex_run :: "bool \<Rightarrow> string \<Rightarrow> bool" where
  "hex_run after_digit [] = after_digit"
| "hex_run after_digit (c # cs) =
     (if c \<in> set hex_any then hex_run True cs
      else c = CHR ''_'' \<and> after_digit \<and> hex_run False cs)"

definition strip_sign :: "string \<Rightarrow> string" where
  "strip_sign s = (if s \<noteq> [] \<and> hd s \<in> {CHR ''+'', CHR ''-''} then tl s else s)"

definition strip_hex_prefix :: "string \<Rightarrow> string" where
  "strip_hex_prefix s =
     (if is_prefix ''0x'' s \<or> is_prefix ''0X'' s
      then (if is_prefix ''_'' (drop 2 s) then drop 3 s else drop 2 s)
      else s)"

definition int16_accepts :: "string \<Rightarrow> bool" where
  "int16_accepts s =
     hex_run False (strip_hex_prefix (strip_sign
       (rev (dropWhile int_space (rev (dropWhile int_space s))))))"

definition credit_sha_ok :: "string \<Rightarrow> bool" where
  "credit_sha_ok v = (is_prefix ''sha256:'' v \<and> length v = 71 \<and> int16_accepts (drop 7 v))"

definition credit_require_sha :: "string \<Rightarrow> string \<Rightarrow> unit res" where
  "credit_require_sha v label = require (credit_sha_ok v) (label @ '' hash is not canonical'')"

definition STAGED_RESOURCE_RESERVATION_INPUT_CONTRACT :: string where
  "STAGED_RESOURCE_RESERVATION_INPUT_CONTRACT = ''staged-resource-credit-reservation-input.v2''"

record resource_reservation_input =
  ri_source_pdf_sha256 :: string
  ri_source_byte_count :: int
  ri_source_page_count :: int
  ri_process_profile_sha256 :: string
  ri_credit_policy_sha256 :: string
  ri_bucket :: bucket
  ri_reservation :: resource_credit_vector
  ri_contract_version :: string

definition reservation_input_post_init :: "resource_reservation_input \<Rightarrow> unit res" where
  "reservation_input_post_init r = checks
     [require (ri_contract_version r = STAGED_RESOURCE_RESERVATION_INPUT_CONTRACT)
        ''resource reservation input contract is unsupported'',
      credit_require_sha (ri_source_pdf_sha256 r) ''source PDF'',
      credit_require_sha (ri_process_profile_sha256 r) ''process profile'',
      credit_require_sha (ri_credit_policy_sha256 r) ''credit policy'',
      positive (ri_source_byte_count r) ''source byte count'',
      positive (ri_source_page_count r) ''source page count'',
      require (ri_bucket r \<in> set (map fst buckets)) ''resource reservation bucket is unsupported'',
      rcv_post_init (ri_reservation r)]"

definition mk_reservation_input :: "resource_reservation_input \<Rightarrow> resource_reservation_input res" where
  "mk_reservation_input r = construct (reservation_input_post_init r) r"

definition reservation_input_payload :: "resource_reservation_input \<Rightarrow> json" where
  "reservation_input_payload r = JObj
     [(''source_pdf_sha256'', JStr (ri_source_pdf_sha256 r)),
      (''source_byte_count'', JInt (ri_source_byte_count r)),
      (''source_page_count'', JInt (ri_source_page_count r)),
      (''process_profile_sha256'', JStr (ri_process_profile_sha256 r)),
      (''credit_policy_sha256'', JStr (ri_credit_policy_sha256 r)),
      (''bucket'', JStr (bucket_name (ri_bucket r))),
      (''reservation'', rcv_json (ri_reservation r)),
      (''contract_version'', JStr (ri_contract_version r))]"

record encoded_reservation_input =
  eri_value :: resource_reservation_input
  eri_exact_bytes :: string
  eri_sha256 :: string
  eri_byte_count :: int

definition encoded_reservation_input_post_init :: "encoded_reservation_input \<Rightarrow> unit res" where
  "encoded_reservation_input_post_init e = checks
     [require (1 \<le> length (eri_exact_bytes e) \<and> length (eri_exact_bytes e) \<le> MAX_CANONICAL_BYTES)
        ''resource reservation bytes are outside the envelope'',
      require (eri_byte_count e = int (length (eri_exact_bytes e)))
        ''resource reservation byte count drifted'',
      require (eri_sha256 e = digest (eri_exact_bytes e)) ''resource reservation hash drifted'',
      bindR (credit_canonical_json (reservation_input_payload (eri_value e)))
        (\<lambda>exact. require (eri_exact_bytes e = exact) ''resource reservation projection drifted'')]"

definition mk_encoded_reservation_input :: "encoded_reservation_input \<Rightarrow> encoded_reservation_input res" where
  "mk_encoded_reservation_input e = construct (encoded_reservation_input_post_init e) e"

definition encode_resource_reservation_input ::
  "resource_reservation_input \<Rightarrow> encoded_reservation_input res" where
  "encode_resource_reservation_input value =
     bindR (credit_canonical_json (reservation_input_payload value)) (\<lambda>exact.
       mk_encoded_reservation_input
         \<lparr>eri_value = value, eri_exact_bytes = exact, eri_sha256 = digest exact,
          eri_byte_count = int (length exact)\<rparr>)"


subsection \<open>The policy record\<close>

definition STAGED_RESOURCE_CREDIT_POLICY_CONTRACT :: string where
  "STAGED_RESOURCE_CREDIT_POLICY_CONTRACT = ''staged-resource-credit-policy.v2''"

definition reservation_mechanics :: "(string \<times> json) list" where
  "reservation_mechanics =
     [(''ack_items'', JStr ''literal:1''),
      (''compressed_bytes'', JStr ''provider_result_bytes''),
      (''decoded_bytes'', JStr ''min(profile.decoded_payload_bytes_limit,source_page_count*ceil(profile.rasterized_page_bytes_limit/profile.resident_pages_limit))''),
      (''documents'', JStr ''literal:1''),
      (''materialization_items'', JStr ''literal:1''),
      (''output_bytes'', JStr ''min(profile.temporary_disk_bytes_limit,provider_result_bytes*bucket.temp_expansion_multiplier)''),
      (''output_items'', JStr ''literal:1''),
      (''output_pages'', JStr ''source_page_count''),
      (''provider_result_bytes'', JStr ''min(profile.result_reservation_bytes*bucket.result_reservation_multiplier,profile.terminal_output_bytes_limit,profile.max_unacked_result_bytes)''),
      (''provider_tasks'', JStr ''literal:1''),
      (''remote_waits'', JStr ''literal:1''),
      (''snapshot_bytes'', JStr ''source_byte_count''),
      (''snapshot_items'', JStr ''literal:1''),
      (''temp_disk_bytes'', JStr ''min(profile.temporary_disk_bytes_limit,provider_result_bytes+output_bytes)'')]"

definition state_mechanics :: "(string \<times> json) list" where
  "state_mechanics =
     [(''ack_pending'', JStr ''local cleanup is durable; only provider task/result/ACK ownership remains''),
      (''cleanup_pending'', JStr ''exact outcome variant from persisted cleanup plan and local resource manifest''),
      (''local_materialized'', JStr ''snapshot + provider result + closed output-file manifest''),
      (''materializing'', JStr ''snapshot + provider result + deterministic spool/staging plan''),
      (''prepared'', JStr ''whole-PDF upload snapshot''),
      (''publish_committed'', JStr ''database commit is durable; snapshot and output files remain owned until verified cleanup''),
      (''reconciling'', JStr ''snapshot + remote wait''),
      (''remote_terminal'', JStr ''snapshot + retained provider result''),
      (''submitted'', JStr ''snapshot + remote wait + provider task'')]"

definition reader_policy :: "(string \<times> json) list" where
  "reader_policy =
     [(''full_tree_copy'', JStr ''forbidden''),
      (''read_source'', JStr ''verified staged-or-output tree under the materialization lock''),
      (''byte_limit'', JStr ''output_bytes'')]"

definition bucket_payload :: "bucket \<times> int \<times> int \<times> int \<times> int \<Rightarrow> json" where
  "bucket_payload = (\<lambda>(name, numerator, denominator, result_multiplier, temp_multiplier). JObj
     [(''bucket'', JStr (bucket_name name)),
      (''source_fraction_denominator'', JInt denominator),
      (''source_fraction_numerator'', JInt numerator),
      (''result_reservation_multiplier'', JInt result_multiplier),
      (''temp_expansion_multiplier'', JInt temp_multiplier)])"

text \<open>The transition table as it is written into the policy: next states sorted by name.\<close>

definition transitions_payload :: json where
  "transitions_payload = JObj (concat (map (\<lambda>s.
     case staged_resource_state_transitions s of
       None \<Rightarrow> []
     | Some ts \<Rightarrow> [(state_name s, JArr (map JStr (sort (map state_name ts))))]) all_states))"

definition policy_payload :: json where
  "policy_payload = JObj
     [(''contract_version'', JStr STAGED_RESOURCE_CREDIT_POLICY_CONTRACT),
      (''credit_dimensions'', JArr (map (\<lambda>(name, _). JStr name) (rcv_items rcv_zero))),
      (''max_integer'', JInt MAX_INT),
      (''ordered_bucket_selection'', JArr (map bucket_payload buckets)),
      (''reservation_mechanics'', JObj reservation_mechanics),
      (''reader_policy'', JObj reader_policy),
      (''state_mechanics'', JObj state_mechanics),
      (''state_transitions'', transitions_payload)]"

definition policy_exact_bytes :: "string res" where
  "policy_exact_bytes = credit_canonical_json policy_payload"

definition policy_sha256 :: "string res" where
  "policy_sha256 = bindR policy_exact_bytes (\<lambda>exact. Inr (digest exact))"

subsection \<open>Envelope and per-attempt allowance\<close>

record resource_credit_envelope =
  env_process_profile_sha256 :: string
  env_credit_policy_sha256 :: string
  env_reservation_input :: encoded_reservation_input
  env_reservation :: resource_credit_vector

definition envelope_post_init :: "resource_credit_envelope \<Rightarrow> unit res" where
  "envelope_post_init e = require
     (\<not> (env_process_profile_sha256 e \<noteq> ri_process_profile_sha256 (eri_value (env_reservation_input e))
       \<or> env_credit_policy_sha256 e \<noteq> ri_credit_policy_sha256 (eri_value (env_reservation_input e))
       \<or> env_reservation e \<noteq> ri_reservation (eri_value (env_reservation_input e))))
     ''resource envelope identity drifted''"

definition mk_envelope :: "resource_credit_envelope \<Rightarrow> resource_credit_envelope res" where
  "mk_envelope e = construct (envelope_post_init e) e"

record attempt_allowance =
  al_reservation_input_sha256 :: string
  al_reservation_input :: encoded_reservation_input
  al_limits :: resource_credit_vector

definition allowance_post_init :: "attempt_allowance \<Rightarrow> unit res" where
  "allowance_post_init a = checks
     [credit_require_sha (al_reservation_input_sha256 a) ''reservation input'',
      require (\<not> (al_reservation_input_sha256 a \<noteq> eri_sha256 (al_reservation_input a)
          \<or> al_limits a \<noteq> ri_reservation (eri_value (al_reservation_input a))))
        ''attempt allowance drifted from reservation input'']"

definition mk_allowance :: "attempt_allowance \<Rightarrow> attempt_allowance res" where
  "mk_allowance a = construct (allowance_post_init a) a"

definition require_fits :: "attempt_allowance \<Rightarrow> resource_credit_vector \<Rightarrow> unit res" where
  "require_fits a observed =
     require (rcv_fits observed (al_limits a)) ''observed resource use exceeds the per-attempt allowance''"

definition allowance_canonical_bytes :: "attempt_allowance \<Rightarrow> string res" where
  "allowance_canonical_bytes a = credit_canonical_json (JObj
     [(''limits'', rcv_json (al_limits a)),
      (''reservation_input_sha256'', JStr (al_reservation_input_sha256 a))])"

definition allowance_sha256 :: "attempt_allowance \<Rightarrow> string res" where
  "allowance_sha256 a = bindR (allowance_canonical_bytes a) (\<lambda>exact. Inr (digest exact))"

definition per_attempt_resource_allowance :: "resource_credit_envelope \<Rightarrow> attempt_allowance res" where
  "per_attempt_resource_allowance e = mk_allowance
     \<lparr>al_reservation_input_sha256 = eri_sha256 (env_reservation_input e),
      al_reservation_input = env_reservation_input e,
      al_limits = env_reservation e\<rparr>"

subsection \<open>Deriving a reservation\<close>

text \<open>The first bucket whose fraction of both global ceilings covers the document.\<close>

fun select_bucket ::
  "int \<Rightarrow> int \<Rightarrow> int \<Rightarrow> int \<Rightarrow> (bucket \<times> int \<times> int \<times> int \<times> int) list
     \<Rightarrow> (bucket \<times> int \<times> int \<times> int \<times> int) option" where
  "select_bucket bytes pages byte_limit page_limit [] = None"
| "select_bucket bytes pages byte_limit page_limit ((name, n, d, rm, tm) # rest) =
     (if bytes \<le> floor_fraction byte_limit n d \<and> pages \<le> floor_fraction page_limit n d
      then Some (name, n, d, rm, tm)
      else select_bucket bytes pages byte_limit page_limit rest)"

text \<open>The caps of \<open>build_staged_resource_credit_envelope\<close>, in its order.\<close>

definition provider_cap :: "mineru_process_profile \<Rightarrow> int \<Rightarrow> int" where
  "provider_cap p result_multiplier =
     capped_mul (result_reservation_bytes p) result_multiplier
       (min (terminal_output_bytes_limit p) (max_unacked_result_bytes p))"

definition decoded_cap :: "mineru_process_profile \<Rightarrow> int \<Rightarrow> int" where
  "decoded_cap p source_page_count =
     min (decoded_payload_bytes_limit p)
       (capped_mul source_page_count (ceil_div (rasterized_page_bytes_limit p) (resident_pages_limit p))
          (decoded_payload_bytes_limit p))"

definition output_cap :: "mineru_process_profile \<Rightarrow> int \<Rightarrow> int \<Rightarrow> int" where
  "output_cap p provider temp_multiplier =
     min (temporary_disk_bytes_limit p)
       (capped_mul provider temp_multiplier (temporary_disk_bytes_limit p))"

definition temp_cap :: "mineru_process_profile \<Rightarrow> int \<Rightarrow> int \<Rightarrow> int" where
  "temp_cap p provider output =
     min (temporary_disk_bytes_limit p) (capped_add provider output (temporary_disk_bytes_limit p))"

definition derived_reservation ::
  "mineru_process_profile \<Rightarrow> int \<Rightarrow> int \<Rightarrow> int \<Rightarrow> int \<Rightarrow> resource_credit_vector" where
  "derived_reservation p source_byte_count source_page_count result_multiplier temp_multiplier =
     (let provider = provider_cap p result_multiplier;
          decoded = decoded_cap p source_page_count;
          output = output_cap p provider temp_multiplier;
          temp = temp_cap p provider output
      in \<lparr>documents = 1, snapshot_items = 1, snapshot_bytes = source_byte_count,
          remote_waits = 1, provider_tasks = 1, provider_result_bytes = provider,
          materialization_items = 1, compressed_bytes = provider, decoded_bytes = decoded,
          temp_disk_bytes = temp, output_items = 1, output_bytes = output,
          output_pages = source_page_count, ack_items = 1\<rparr>)"

definition build_staged_resource_credit_envelope ::
  "mineru_process_profile \<Rightarrow> string \<Rightarrow> int \<Rightarrow> int \<Rightarrow> resource_credit_envelope res" where
  "build_staged_resource_credit_envelope p source_pdf_sha256 source_byte_count source_page_count =
     bindR (checks
       [credit_require_sha source_pdf_sha256 ''source PDF'',
        positive source_byte_count ''source byte count'',
        positive source_page_count ''source page count'',
        require (\<not> (source_byte_count > source_pdf_bytes_limit p \<or> source_page_count > unpublished_pages_limit p))
          ''source facts exceed process profile global ceilings'']) (\<lambda>_.
     case select_bucket source_byte_count source_page_count (source_pdf_bytes_limit p)
         (unpublished_pages_limit p) buckets of
       None \<Rightarrow> Inl (ValueError ''source facts do not fit a resource credit bucket'')
     | Some (name, _, _, result_multiplier, temp_multiplier) \<Rightarrow>
         bindR (mk_rcv (derived_reservation p source_byte_count source_page_count
           result_multiplier temp_multiplier)) (\<lambda>reservation.
         bindR policy_sha256 (\<lambda>policy.
         bindR (mk_reservation_input
           \<lparr>ri_source_pdf_sha256 = source_pdf_sha256, ri_source_byte_count = source_byte_count,
            ri_source_page_count = source_page_count, ri_process_profile_sha256 = profile_sha256 p,
            ri_credit_policy_sha256 = policy, ri_bucket = name, ri_reservation = reservation,
            ri_contract_version = STAGED_RESOURCE_RESERVATION_INPUT_CONTRACT\<rparr>) (\<lambda>value.
         bindR (encode_resource_reservation_input value) (\<lambda>encoded.
         mk_envelope
           \<lparr>env_process_profile_sha256 = profile_sha256 p, env_credit_policy_sha256 = policy,
            env_reservation_input = encoded, env_reservation = reservation\<rparr>)))))"

definition validate_staged_resource_credit_envelope ::
  "resource_credit_envelope \<Rightarrow> mineru_process_profile \<Rightarrow> unit res" where
  "validate_staged_resource_credit_envelope e p =
     bindR (build_staged_resource_credit_envelope p
       (ri_source_pdf_sha256 (eri_value (env_reservation_input e)))
       (ri_source_byte_count (eri_value (env_reservation_input e)))
       (ri_source_page_count (eri_value (env_reservation_input e))))
     (\<lambda>rebuilt. require (rebuilt = e) ''staged resource credit envelope drifted'')"

end
