(* ===== verification/CreditLedger.thy ===== *)
theory CreditLedger
  imports ResourceCreditVector StagedResourceCredit "HOL-Library.AList"
begin

text \<open>
  The credit accounting of \<open>application/services/staged_parse_coordinator.py\<close>: the class
  \<open>_CreditLedger\<close>, which keeps the sum of what all attempts own in step with the entries, and the
  tables that map states to lanes. The entries (a dict) are an association list with distinct
  keys.
\<close>

subsection \<open>Lanes\<close>

datatype coordinator_lane =
    Preflight
  | Remote
  | Local_prepare
  | Local
  | Commit
  | Cleanup
  | Ack

definition coordinator_lanes :: "coordinator_lane list" where
  "coordinator_lanes = [Preflight, Remote, Local_prepare, Local, Commit, Cleanup, Ack]"

text \<open>\<open>_LANE_BY_STATE\<close>: \<^term>\<open>None\<close> where it has no key.\<close>

fun lane_by_state :: "checkpoint_state \<Rightarrow> coordinator_lane option" where
  "lane_by_state Prepared = Some Preflight"
| "lane_by_state Reconciling = Some Remote"
| "lane_by_state Submitted = Some Remote"
| "lane_by_state Remote_terminal = Some Local_prepare"
| "lane_by_state Materializing = Some Local"
| "lane_by_state Local_materialized = Some Commit"
| "lane_by_state Publish_committed = Some Cleanup"
| "lane_by_state Cleanup_pending = Some Cleanup"
| "lane_by_state Ack_pending = Some Ack"
| "lane_by_state _ = None"

definition lane_priority :: "coordinator_lane list" where
  "lane_priority = [Ack, Cleanup, Commit, Local, Local_prepare, Remote, Preflight]"

text \<open>\<open>_ALLOWED_LANE_TRANSITIONS\<close>: the edges each lane may return.\<close>

definition edges_from :: "checkpoint_state list \<Rightarrow> (checkpoint_state \<times> checkpoint_state) list" where
  "edges_from sources = concat (map (\<lambda>source.
     case staged_resource_state_transitions source of
       None \<Rightarrow> [] | Some targets \<Rightarrow> map (Pair source) targets) sources)"

fun allowed_lane_transitions :: "coordinator_lane \<Rightarrow> (checkpoint_state \<times> checkpoint_state) list" where
  "allowed_lane_transitions Preflight = edges_from [Prepared]"
| "allowed_lane_transitions Remote = edges_from [Reconciling, Submitted]"
| "allowed_lane_transitions Local_prepare = edges_from [Remote_terminal]"
| "allowed_lane_transitions Local = edges_from [Materializing]"
| "allowed_lane_transitions Commit = edges_from [Local_materialized]"
| "allowed_lane_transitions Cleanup = edges_from [Publish_committed, Cleanup_pending]"
| "allowed_lane_transitions Ack = edges_from [Ack_pending]"

text \<open>\<open>_positive_credit_delta\<close>\<close>

definition positive_credit_delta ::
  "resource_credit_vector \<Rightarrow> resource_credit_vector \<Rightarrow> resource_credit_vector res" where
  "positive_credit_delta before later = mk_rcv (rcv_map2 (\<lambda>b a. max 0 (a - b)) before later)"

subsection \<open>The ledger\<close>

record credit_ledger =
  lg_limit :: resource_credit_vector
  lg_in_use :: resource_credit_vector
  lg_by_attempt :: "(string \<times> resource_credit_vector) list"

definition new_ledger :: "resource_credit_vector \<Rightarrow> credit_ledger" where
  "new_ledger limit = \<lparr>lg_limit = limit, lg_in_use = rcv_zero, lg_by_attempt = []\<rparr>"

text \<open>\<open>self.by_attempt.get(attempt_id, ResourceCreditVector())\<close>\<close>

definition lg_previous :: "credit_ledger \<Rightarrow> string \<Rightarrow> resource_credit_vector" where
  "lg_previous l a = (case map_of (lg_by_attempt l) a of None \<Rightarrow> rcv_zero | Some v \<Rightarrow> v)"

text \<open>\<open>self.in_use - previous + work.credits\<close>\<close>

definition lg_candidate :: "credit_ledger \<Rightarrow> string \<Rightarrow> resource_credit_vector \<Rightarrow> resource_credit_vector res" where
  "lg_candidate l a credits =
     bindR (rcv_sub (lg_in_use l) (lg_previous l a)) (\<lambda>others. rcv_add others credits)"

definition can_add :: "credit_ledger \<Rightarrow> string \<Rightarrow> resource_credit_vector \<Rightarrow> bool res" where
  "can_add l a credits = bindR (lg_candidate l a credits) (\<lambda>candidate. Inr (rcv_fits candidate (lg_limit l)))"

definition ledger_replace ::
  "credit_ledger \<Rightarrow> string \<Rightarrow> resource_credit_vector \<Rightarrow> bool \<Rightarrow> credit_ledger res" where
  "ledger_replace l a credits allow_oversubscribed =
     bindR (lg_candidate l a credits) (\<lambda>candidate.
       if \<not> allow_oversubscribed \<and> \<not> rcv_fits candidate (lg_limit l)
       then Inl (ValueError ''new work exceeds coordinator credit limits'')
       else Inr (l\<lparr>lg_by_attempt := AList.update a credits (lg_by_attempt l), lg_in_use := candidate\<rparr>))"

definition ledger_release :: "credit_ledger \<Rightarrow> string \<Rightarrow> credit_ledger res" where
  "ledger_release l a =
     (case map_of (lg_by_attempt l) a of
        None \<Rightarrow> Inr l
      | Some previous \<Rightarrow> bindR (rcv_sub (lg_in_use l) previous) (\<lambda>remaining.
          Inr (l\<lparr>lg_by_attempt := AList.delete a (lg_by_attempt l), lg_in_use := remaining\<rparr>)))"

definition allowance_for :: "credit_ledger \<Rightarrow> string \<Rightarrow> resource_credit_vector res" where
  "allowance_for l a =
     bindR (rcv_sub (lg_in_use l) (lg_previous l a)) (\<lambda>others. rcv_sub (lg_limit l) others)"

subsection \<open>The ledger is the sum of its entries\<close>

definition ledger_ok :: "credit_ledger \<Rightarrow> bool" where
  "ledger_ok l \<longleftrightarrow>
     valid_rcv (lg_limit l) \<and> valid_rcv (lg_in_use l)
     \<and> distinct (map fst (lg_by_attempt l))
     \<and> (\<forall>v \<in> set (map snd (lg_by_attempt l)). valid_rcv v)
     \<and> rcv.is_total (lg_in_use l) (map snd (lg_by_attempt l))"

lemma new_ledger_ok: "valid_rcv limit \<Longrightarrow> ledger_ok (new_ledger limit)"
  by (simp add: ledger_ok_def new_ledger_def rcv.is_total_zero)

lemma ledger_split:
  assumes "map_of (lg_by_attempt l) a = Some v" "distinct (map fst (lg_by_attempt l))"
  obtains xs ys where "lg_by_attempt l = xs @ (a, v) # ys" "a \<notin> set (map fst xs)" "a \<notin> set (map fst ys)"
proof -
  from assms(1) have "(a, v) \<in> set (lg_by_attempt l)" by (rule map_of_SomeD)
  then obtain xs ys where "lg_by_attempt l = xs @ (a, v) # ys" by (auto simp: in_set_conv_decomp)
  with assms(2) show thesis by (intro that [of xs ys]) auto
qed

lemma update_middle: "a \<notin> set (map fst xs) \<Longrightarrow> AList.update a w (xs @ (a, v) # ys) = xs @ (a, w) # ys"
  by (induction xs) auto

lemma update_absent: "a \<notin> set (map fst xs) \<Longrightarrow> AList.update a w xs = xs @ [(a, w)]"
  by (induction xs) auto

lemma delete_absent: "a \<notin> set (map fst xs) \<Longrightarrow> AList.delete a xs = xs"
  by (simp add: AList.delete_idem)

lemma delete_middle:
  "a \<notin> set (map fst xs) \<Longrightarrow> a \<notin> set (map fst ys) \<Longrightarrow> AList.delete a (xs @ (a, v) # ys) = xs @ ys"
  using delete_absent [of a xs] delete_absent [of a ys] by (simp add: AList.delete_eq)

text \<open>What the others own can always be computed.\<close>

lemma others_total:
  assumes "ledger_ok l"
  obtains others where "rcv_sub (lg_in_use l) (lg_previous l a) = Inr others" "valid_rcv others"
    and "rcv.is_total others (map snd (AList.delete a (lg_by_attempt l)))"
proof (cases "map_of (lg_by_attempt l) a")
  case None
  then have "AList.delete a (lg_by_attempt l) = lg_by_attempt l"
    by (intro delete_absent) (simp add: map_of_eq_None_iff)
  with assms None show thesis
    by (intro that [of "lg_in_use l"]) (auto simp: lg_previous_def ledger_ok_def rcv.sub_zero)
next
  case (Some v)
  moreover have "distinct (map fst (lg_by_attempt l))" using assms by (simp add: ledger_ok_def)
  ultimately obtain xs ys where e: "lg_by_attempt l = xs @ (a, v) # ys"
      "a \<notin> set (map fst xs)" "a \<notin> set (map fst ys)"
    by (rule ledger_split)
  have "rcv.is_total (lg_in_use l) (map snd xs @ v # map snd ys)"
    using assms e by (simp add: ledger_ok_def)
  then obtain others where "rcv_sub (lg_in_use l) v = Inr others" "rcv.is_total others (map snd xs @ map snd ys)"
    using rcv.is_total_release [of "lg_in_use l" "map snd xs" v "map snd ys"] assms e
    by (auto simp: ledger_ok_def)
  with Some e show thesis
    by (intro that [of others]) (auto simp: lg_previous_def delete_middle rcv.sub_valid)
qed

lemma is_total_perm: "mset vs = mset ws \<Longrightarrow> rcv.is_total u vs \<longleftrightarrow> rcv.is_total u ws"
proof -
  assume *: "mset vs = mset ws"
  have "component_total rcv_comps vs i = component_total rcv_comps ws i" for i
  proof -
    have "mset (map (\<lambda>v. rcv_comps v ! i) vs) = mset (map (\<lambda>v. rcv_comps v ! i) ws)" using * by simp
    then show ?thesis unfolding component_total_def by (metis sum_mset_sum_list)
  qed
  then show ?thesis by (simp add: rcv.is_total_def)
qed

lemma mset_update:
  assumes "distinct (map fst xs)"
  shows "mset (map snd (AList.update a v xs)) = mset (v # map snd (AList.delete a xs))"
proof (cases "a \<in> set (map fst xs)")
  case False
  then have "AList.delete a xs = xs" by (rule delete_absent)
  with False show ?thesis by (simp add: update_absent)
next
  case True
  then obtain w where "(a, w) \<in> set xs" by auto
  then obtain ys zs where "xs = ys @ (a, w) # zs" by (auto simp: in_set_conv_decomp)
  with assms show ?thesis by (auto simp: update_middle delete_middle)
qed

lemma replace_ok:
  assumes "ledger_ok l" "valid_rcv credits" "ledger_replace l a credits allow = Inr l'"
  shows "ledger_ok l' \<and> lg_limit l' = lg_limit l \<and> map_of (lg_by_attempt l') = (map_of (lg_by_attempt l))(a \<mapsto> credits)"
proof -
  obtain others where o: "rcv_sub (lg_in_use l) (lg_previous l a) = Inr others"
      "rcv.is_total others (map snd (AList.delete a (lg_by_attempt l)))"
    using others_total [OF assms(1)] by blast
  from assms(3) o obtain candidate where c: "rcv_add others credits = Inr candidate"
      and l': "l' = l\<lparr>lg_by_attempt := AList.update a credits (lg_by_attempt l), lg_in_use := candidate\<rparr>"
    by (auto simp: ledger_replace_def lg_candidate_def split: if_splits)
  have d: "distinct (map fst (lg_by_attempt l))" using assms(1) by (simp add: ledger_ok_def)
  have "rcv.is_total candidate (credits # map snd (AList.delete a (lg_by_attempt l)))"
    using o(2) c by (rule rcv.is_total_add)
  then have total: "rcv.is_total candidate (map snd (AList.update a credits (lg_by_attempt l)))"
    by (simp only: is_total_perm [OF mset_update [OF d]])
  have old: "\<forall>v \<in> set (map snd (lg_by_attempt l)). valid_rcv v"
    using assms(1) by (simp add: ledger_ok_def)
  have "set (map snd (AList.update a credits (lg_by_attempt l)))
      = insert credits (set (map snd (AList.delete a (lg_by_attempt l))))"
    using arg_cong [OF mset_update [OF d], of set_mset] by (simp only: set_mset_mset list.set)
  then have "\<forall>v \<in> set (map snd (AList.update a credits (lg_by_attempt l))). valid_rcv v"
  proof (simp only: ball_simps, intro conjI ballI)
    fix v assume "v \<in> set (map snd (AList.delete a (lg_by_attempt l)))"
    then have "v \<in> set (map snd (lg_by_attempt l))" by (auto simp: AList.delete_eq)
    then show "valid_rcv v" by (rule old [rule_format])
  qed (rule assms(2))
  with assms(1) c total d show ?thesis
    by (simp add: l' ledger_ok_def AList.distinct_update rcv.add_valid AList.update_conv')
qed

lemma release_ok:
  assumes "ledger_ok l"
  shows "\<exists>l'. ledger_release l a = Inr l' \<and> ledger_ok l' \<and> lg_limit l' = lg_limit l
    \<and> map_of (lg_by_attempt l') = (map_of (lg_by_attempt l))(a := None)
    \<and> rcv_fits (lg_in_use l') (lg_in_use l)"
proof (cases "map_of (lg_by_attempt l) a")
  case None
  then show ?thesis using assms by (auto simp: ledger_release_def rcv.fits_refl)
next
  case (Some v)
  obtain others where o: "rcv_sub (lg_in_use l) v = Inr others" "valid_rcv others"
      "rcv.is_total others (map snd (AList.delete a (lg_by_attempt l)))"
    using others_total [OF assms, of a] Some by (auto simp: lg_previous_def)
  have vv: "valid_rcv v" using assms map_of_SomeD [OF Some] by (force simp: ledger_ok_def)
  have "rcv_fits others (lg_in_use l)"
    using o(1) vv by (auto simp: rcv.fits_nth rcv.sub_nth rcv.valid_nth in_range_def)
  moreover have "\<forall>v \<in> set (map snd (AList.delete a (lg_by_attempt l))). valid_rcv v"
    using assms by (auto simp: ledger_ok_def AList.delete_eq)
  ultimately show ?thesis
    using o Some assms
    by (auto simp: ledger_release_def ledger_ok_def AList.distinct_delete AList.delete_conv')
qed

text \<open>The allowance is the largest vector the attempt may hold.\<close>

lemma allowance_ok:
  assumes "ledger_ok l" "rcv_fits (lg_in_use l) (lg_limit l)"
  shows "\<exists>room. allowance_for l a = Inr room \<and>
    (\<forall>v. valid_rcv v \<longrightarrow> (rcv_fits v room \<longleftrightarrow> can_add l a v = Inr True))"
proof -
  obtain others where o: "rcv_sub (lg_in_use l) (lg_previous l a) = Inr others" "valid_rcv others"
    using others_total [OF assms(1)] by blast
  have prev: "valid_rcv (lg_previous l a)"
    using assms(1) map_of_SomeD [of "lg_by_attempt l" a]
    by (force simp: lg_previous_def ledger_ok_def split: option.splits)
  have limit: "valid_rcv (lg_limit l)" using assms(1) by (simp add: ledger_ok_def)
  have "rcv_fits others (lg_in_use l)"
    using o(1) prev by (auto simp: rcv.fits_nth rcv.sub_nth rcv.valid_nth in_range_def)
  then have "rcv_fits others (lg_limit l)" using assms(2) by (rule rcv.fits_trans)
  then obtain room where room: "rcv_sub (lg_limit l) others = Inr room"
    using rcv.sub_returns_iff [OF limit o(2)] by (auto simp: returns_iff)
  have "rcv_fits v room \<longleftrightarrow> can_add l a v = Inr True" if "valid_rcv v" for v
    using rcv.admission_test [OF limit o(2) that room] o(1)
    by (auto simp: can_add_def lg_candidate_def)
  with room o(1) show ?thesis by (auto simp: allowance_for_def)
qed


subsection \<open>Properties\<close>

text \<open>
  The calls the coordinator makes. A call that raises leaves the ledger as it was, because both
  assignments come after the checks.
\<close>

datatype ledger_call =
    Replace string resource_credit_vector bool
  | Release string

fun ledger_do :: "credit_ledger \<Rightarrow> ledger_call \<Rightarrow> credit_ledger" where
  "ledger_do l (Replace a credits allow) =
     (case ledger_replace l a credits allow of Inl _ \<Rightarrow> l | Inr l' \<Rightarrow> l')"
| "ledger_do l (Release a) = (case ledger_release l a of Inl _ \<Rightarrow> l | Inr l' \<Rightarrow> l')"

fun call_valid :: "ledger_call \<Rightarrow> bool" where
  "call_valid (Replace _ credits _) = valid_rcv credits"
| "call_valid (Release _) = True"

fun call_strict :: "ledger_call \<Rightarrow> bool" where
  "call_strict (Replace _ _ allow) = (\<not> allow)"
| "call_strict (Release _) = True"

definition ledger_calls :: "resource_credit_vector \<Rightarrow> ledger_call list \<Rightarrow> credit_ledger" where
  "ledger_calls limit calls = foldl ledger_do (new_ledger limit) calls"

lemma ledger_call_ok:
  assumes "ledger_ok l" "call_valid c"
  shows "ledger_ok (ledger_do l c)" "lg_limit (ledger_do l c) = lg_limit l"
proof -
  have "ledger_ok (ledger_do l c) \<and> lg_limit (ledger_do l c) = lg_limit l"
  proof (cases c)
    case (Replace a credits allow)
    show ?thesis
    proof (cases "ledger_replace l a credits allow")
      case (Inr l')
      with replace_ok [OF assms(1) _ Inr] assms(2) Replace show ?thesis by simp
    qed (use assms Replace in simp)
  next
    case (Release a)
    from release_ok [OF assms(1), of a] obtain l' where
      "ledger_release l a = Inr l'" "ledger_ok l'" "lg_limit l' = lg_limit l" by blast
    with Release show ?thesis by simp
  qed
  then show "ledger_ok (ledger_do l c)" "lg_limit (ledger_do l c) = lg_limit l" by blast+
qed

lemma ledger_calls_ok:
  assumes "valid_rcv limit" "list_all call_valid calls"
  shows "ledger_ok (ledger_calls limit calls) \<and> lg_limit (ledger_calls limit calls) = limit"
  using assms(2)
proof (induction calls rule: rev_induct)
  case Nil
  then show ?case using assms(1) by (simp add: ledger_calls_def new_ledger_ok) (simp add: new_ledger_def)
next
  case (snoc c calls)
  then show ?case using ledger_call_ok by (simp add: ledger_calls_def)
qed

lemma ledger_call_fits:
  assumes "ledger_ok l" "call_strict c" "rcv_fits (lg_in_use l) (lg_limit l)"
  shows "rcv_fits (lg_in_use (ledger_do l c)) (lg_limit l)"
proof (cases c)
  case (Replace a credits allow)
  with assms show ?thesis
    by (auto simp: ledger_replace_def split: sum.splits if_splits)
next
  case (Release a)
  then show ?thesis
    using release_ok [OF assms(1), of a] assms(3) by (auto intro: rcv.fits_trans)
qed

lemma ledger_within_limit:
  assumes "valid_rcv limit" and "list_all call_valid calls" and "list_all call_strict calls"
  shows "rcv_fits (lg_in_use (ledger_calls limit calls)) limit"
  using assms(2,3)
proof (induction calls rule: rev_induct)
  case Nil
  then show ?case using rcv.zero_fits [OF assms(1)] by (simp add: ledger_calls_def new_ledger_def)
next
  case (snoc c calls)
  then have ok: "ledger_ok (ledger_calls limit calls)" "lg_limit (ledger_calls limit calls) = limit"
    using ledger_calls_ok [OF assms(1)] by auto
  with snoc ledger_call_fits [OF ok(1), of c] show ?case by (simp add: ledger_calls_def)
qed

definition total_in_use :: "credit_ledger \<Rightarrow> nat \<Rightarrow> int" where
  "total_in_use l i = sum_list (map (\<lambda>entry. rcv_comps (snd entry) ! i) (lg_by_attempt l))"

text \<open>C3: The credit ledger never drifts: after any sequence of replacements and releases, in every
  dimension the credit in use is the sum over the attempts of what each one owns, no attempt is
  entered twice, and releasing any attempt succeeds and removes exactly its entry.\<close>

theorem ledger_is_sum:
  assumes "valid_rcv limit" and "list_all call_valid calls" and "i < 14"
  shows "rcv_comps (lg_in_use (ledger_calls limit calls)) ! i = total_in_use (ledger_calls limit calls) i
    \<and> distinct (map fst (lg_by_attempt (ledger_calls limit calls)))
    \<and> (\<exists>l'. ledger_release (ledger_calls limit calls) a = Inr l'
        \<and> map_of (lg_by_attempt l') = (map_of (lg_by_attempt (ledger_calls limit calls)))(a := None))"
proof -
  have ok: "ledger_ok (ledger_calls limit calls)" using ledger_calls_ok [OF assms(1,2)] ..
  then have "rcv_comps (lg_in_use (ledger_calls limit calls)) ! i = total_in_use (ledger_calls limit calls) i"
    using assms(3) by (simp add: ledger_ok_def rcv.is_total_def component_total_def total_in_use_def comp_def)
  with ok release_ok [OF ok, of a] show ?thesis by (auto simp: ledger_ok_def)
qed

definition unit_credit :: resource_credit_vector where
  "unit_credit = rcv_zero\<lparr>documents := 1, snapshot_items := 1, snapshot_bytes := 10\<rparr>"

definition limit_example :: resource_credit_vector where
  "limit_example = rcv_zero\<lparr>documents := 2, snapshot_items := 2, snapshot_bytes := 15\<rparr>"

lemma credit_examples: "valid_rcv unit_credit" "valid_rcv limit_example"
  by (simp_all add: unit_credit_def limit_example_def valid_rcv_iff rcv_comps_def in_range_def MAX_INT_def)

theorem ledger_is_sum_witness:
  "rcv_comps (lg_in_use (ledger_calls limit_example [Replace ''a'' unit_credit False, Replace ''b'' unit_credit True])) ! 2
     = total_in_use (ledger_calls limit_example [Replace ''a'' unit_credit False, Replace ''b'' unit_credit True]) 2"
  using ledger_is_sum [of limit_example "[Replace ''a'' unit_credit False, Replace ''b'' unit_credit True]" 2]
  by (simp add: credit_examples)

text \<open>C18: While no recovery is allowed to oversubscribe, the credit in use never exceeds the limit in
  any dimension, whatever calls are made and whichever of them are refused.\<close>

theorem ledger_never_oversubscribed:
  assumes "valid_rcv limit" and "list_all call_valid calls" and "list_all call_strict calls"
  shows "rcv_fits (lg_in_use (ledger_calls limit calls)) limit"
  using assms by (rule ledger_within_limit)

theorem ledger_never_oversubscribed_witness:
  "rcv_fits (lg_in_use (ledger_calls limit_example
     [Replace ''a'' unit_credit False, Replace ''b'' unit_credit False, Release ''a''])) limit_example"
  by (rule ledger_never_oversubscribed) (simp_all add: credit_examples)

text \<open>The allowance handed to a running stage is exact: when the ledger is within its limit the
  allowance exists, and an attempt may grow to a vector exactly when that vector fits the allowance, that is
  when entering it would keep the total within the limit.\<close>

theorem allowance_exact:
  assumes "valid_rcv limit" and "list_all call_valid calls" and "list_all call_strict calls"
  shows "\<exists>room. allowance_for (ledger_calls limit calls) a = Inr room \<and>
    (\<forall>v. valid_rcv v \<longrightarrow> (rcv_fits v room \<longleftrightarrow> can_add (ledger_calls limit calls) a v = Inr True))"
  using allowance_ok [of "ledger_calls limit calls" a] ledger_calls_ok [OF assms(1,2)]
    ledger_within_limit [OF assms] by simp

theorem allowance_exact_witness:
  "\<exists>room. allowance_for (ledger_calls limit_example [Replace ''a'' unit_credit False]) ''b'' = Inr room"
proof -
  have "list_all call_valid [Replace ''a'' unit_credit False]" "list_all call_strict [Replace ''a'' unit_credit False]"
    by (simp_all add: credit_examples)
  from allowance_exact [OF credit_examples(2) this, of "''b''"] show ?thesis by blast
qed

text \<open>The lanes cover the state graph without overlap: a state has a lane exactly when it is not
  final, and a transition is allowed to a lane exactly when it is an edge of the graph that leaves a
  state of that lane; every lane has a place in the dispatch order.\<close>

theorem lanes_cover_graph:
  "(lane_by_state s = None \<longleftrightarrow> is_final s)
   \<and> ((s, t) \<in> set (allowed_lane_transitions lane) \<longleftrightarrow> t \<in> set (next_states s) \<and> lane_by_state s = Some lane)
   \<and> set lane_priority = set coordinator_lanes \<and> distinct lane_priority"
proof -
  have "lane_by_state s = None \<longleftrightarrow> is_final s"
    by (cases s) (auto simp: is_final_def final_states_def)
  moreover have "(s, t) \<in> set (allowed_lane_transitions lane) \<longleftrightarrow> t \<in> set (next_states s) \<and> lane_by_state s = Some lane"
    by (cases lane; cases s) (auto simp: edges_from_def next_states_def)
  moreover have "set lane_priority = set coordinator_lanes" "distinct lane_priority"
    by (auto simp: lane_priority_def coordinator_lanes_def)
  ultimately show ?thesis by blast
qed

text \<open>The positive delta of a change of credit never raises on valid vectors, and adding it to the
  credit before covers the credit after whenever the sum is in range.\<close>

theorem positive_delta_covers:
  assumes "valid_rcv before" and "valid_rcv later"
  shows "\<exists>d. positive_credit_delta before later = Inr d \<and> rcv_fits d later
    \<and> (\<forall>s. rcv_add before d = Inr s \<longrightarrow> rcv_fits later s \<and> rcv_fits before s)"
proof -
  let ?d = "rcv_map2 (\<lambda>b a. max 0 (a - b)) before later"
  have comp: "rcv_comps ?d ! i = max 0 (rcv_comps later ! i - rcv_comps before ! i)" if "i < 14" for i
    using that by (simp add: rcv_comps_map2 rcv_comps_length)
  have bounds: "0 \<le> rcv_comps before ! i \<and> 0 \<le> rcv_comps later ! i \<and> rcv_comps later ! i \<le> MAX_INT" if "i < 14" for i
    using assms that by (simp add: rcv.valid_nth in_range_def)
  have "valid_rcv ?d"
    unfolding rcv.valid_nth in_range_def using comp bounds by (force simp: max_def)
  then have "positive_credit_delta before later = Inr ?d"
    by (simp add: positive_credit_delta_def mk_rcv_Inr)
  moreover have "rcv_fits ?d later"
    unfolding rcv.fits_nth using comp bounds by (force simp: max_def)
  moreover have "rcv_fits later s \<and> rcv_fits before s" if "rcv_add before ?d = Inr s" for s
    using that comp unfolding rcv.fits_nth rcv.add_nth by (force simp: max_def)
  ultimately show ?thesis by blast
qed

theorem positive_delta_covers_witness:
  "\<exists>d. positive_credit_delta unit_credit limit_example = Inr d \<and> rcv_fits d limit_example"
  using positive_delta_covers [OF credit_examples] by blast

end
