(* ===== verification/ResourceCreditShape.thy ===== *)
theory ResourceCreditShape
  imports StagedResourceCredit
begin

text \<open>
  \<open>ResourceCreditFacts\<close> and \<open>resource_credit_shape\<close> of
  \<open>application/contracts/staged_resource_credit.py\<close>: from the facts persisted about an
  attempt to the exact vector of resources it owns in a state, or the exception that says why the
  facts do not fit the state.
\<close>

record resource_credit_facts =
  rf_snapshot_byte_count :: int
  rf_provider_task_retained :: bool
  rf_provider_result_byte_count :: int
  rf_compressed_byte_count :: int
  rf_uncompressed_byte_count :: int
  rf_decoded_byte_count :: int
  rf_temporary_disk_byte_count :: int
  rf_output_artifact_byte_count :: int
  rf_source_page_count :: int
  rf_materialization_prepared :: bool
  rf_local_materialization_completed :: bool
  rf_cleanup_outcome :: "cleanup_outcome option"
  rf_resources_cleaned :: bool
  rf_publication_committed :: bool
  rf_reservation_input :: "encoded_reservation_input option"

text \<open>\<open>ResourceCreditFacts()\<close>\<close>

definition no_facts :: resource_credit_facts where
  "no_facts =
     \<lparr>rf_snapshot_byte_count = 0, rf_provider_task_retained = False, rf_provider_result_byte_count = 0,
      rf_compressed_byte_count = 0, rf_uncompressed_byte_count = 0, rf_decoded_byte_count = 0,
      rf_temporary_disk_byte_count = 0, rf_output_artifact_byte_count = 0, rf_source_page_count = 0,
      rf_materialization_prepared = False, rf_local_materialization_completed = False,
      rf_cleanup_outcome = None, rf_resources_cleaned = False, rf_publication_committed = False,
      rf_reservation_input = None\<rparr>"

definition rf_counts :: "resource_credit_facts \<Rightarrow> (string \<times> int) list" where
  "rf_counts f =
     [(''snapshot_byte_count'', rf_snapshot_byte_count f),
      (''provider_result_byte_count'', rf_provider_result_byte_count f),
      (''compressed_byte_count'', rf_compressed_byte_count f),
      (''uncompressed_byte_count'', rf_uncompressed_byte_count f),
      (''decoded_byte_count'', rf_decoded_byte_count f),
      (''temporary_disk_byte_count'', rf_temporary_disk_byte_count f),
      (''output_artifact_byte_count'', rf_output_artifact_byte_count f),
      (''source_page_count'', rf_source_page_count f)]"

definition facts_post_init :: "resource_credit_facts \<Rightarrow> unit res" where
  "facts_post_init f = checks
     [checks (map (\<lambda>(name, value). require (in_range value)
        (''resource credit fact '' @ name @ '' is invalid'')) (rf_counts f)),
      require (\<not> (rf_local_materialization_completed f \<and> \<not> rf_materialization_prepared f))
        ''completed local materialization requires prepared facts'',
      require (\<not> (rf_publication_committed f \<and> \<not> rf_local_materialization_completed f))
        ''publication commit requires completed local output'',
      require (\<not> (rf_resources_cleaned f \<and> rf_cleanup_outcome f = None))
        ''cleaned resources require an exact cleanup outcome'']"

definition mk_facts :: "resource_credit_facts \<Rightarrow> resource_credit_facts res" where
  "mk_facts f = construct (facts_post_init f) f"

subsection \<open>The vectors a state is made of\<close>

definition addR ::
  "resource_credit_vector res \<Rightarrow> resource_credit_vector res \<Rightarrow> resource_credit_vector res" where
  "addR x y = bindR x (\<lambda>a. bindR y (\<lambda>b. rcv_add a b))"

definition snapshot_vector :: "resource_credit_facts \<Rightarrow> resource_credit_vector res" where
  "snapshot_vector f = mk_rcv (rcv_zero
     \<lparr>documents := 1, snapshot_items := 1, snapshot_bytes := rf_snapshot_byte_count f\<rparr>)"

definition provider_vector :: "resource_credit_facts \<Rightarrow> resource_credit_vector res" where
  "provider_vector f = mk_rcv (rcv_zero
     \<lparr>provider_tasks := 1, provider_result_bytes := rf_provider_result_byte_count f, ack_items := 1\<rparr>)"

definition materializing_vector :: "resource_credit_facts \<Rightarrow> resource_credit_vector res" where
  "materializing_vector f =
     (case rf_reservation_input f of
        None \<Rightarrow> Inl (ValueError ''materializing state lacks exact reservation input'')
      | Some e \<Rightarrow>
          (let reservation = ri_reservation (eri_value e) in
           mk_rcv (rcv_zero
             \<lparr>materialization_items := 1, compressed_bytes := rf_compressed_byte_count f,
              decoded_bytes := decoded_bytes reservation, temp_disk_bytes := temp_disk_bytes reservation\<rparr>)))"

definition output_vector :: "resource_credit_facts \<Rightarrow> resource_credit_vector res" where
  "output_vector f = mk_rcv (rcv_zero
     \<lparr>compressed_bytes := rf_provider_result_byte_count f, output_items := 1,
      output_bytes := rf_output_artifact_byte_count f, output_pages := rf_source_page_count f\<rparr>)"

subsection \<open>The facts a state needs\<close>

definition require_snapshot :: "resource_credit_facts \<Rightarrow> unit res" where
  "require_snapshot f =
     require (\<not> rf_snapshot_byte_count f < 1) ''resource shape requires the whole-PDF snapshot''"

definition require_snapshot_only :: "bool \<Rightarrow> resource_credit_facts \<Rightarrow> unit res" where
  "require_snapshot_only allow_cleanup f = checks
     [require_snapshot f,
      require (f = no_facts
          \<lparr>rf_snapshot_byte_count := rf_snapshot_byte_count f,
           rf_cleanup_outcome := (if allow_cleanup then rf_cleanup_outcome f else None)\<rparr>)
        ''snapshot-only state has incompatible resource facts'']"

definition require_provider_task :: "resource_credit_facts \<Rightarrow> unit res" where
  "require_provider_task f =
     require (rf_provider_task_retained f) ''resource shape requires a retained provider task''"

definition require_provider_result :: "resource_credit_facts \<Rightarrow> unit res" where
  "require_provider_result f = checks
     [require_provider_task f,
      require (\<not> rf_provider_result_byte_count f < 1)
        ''resource shape requires retained provider result bytes'']"

definition require_no_materialization :: "bool \<Rightarrow> resource_credit_facts \<Rightarrow> unit res" where
  "require_no_materialization allow_cleanup f = require
     (\<not> (rf_materialization_prepared f
       \<or> rf_local_materialization_completed f
       \<or> rf_compressed_byte_count f \<noteq> 0
       \<or> rf_uncompressed_byte_count f \<noteq> 0
       \<or> rf_decoded_byte_count f \<noteq> 0
       \<or> rf_temporary_disk_byte_count f \<noteq> 0
       \<or> rf_output_artifact_byte_count f \<noteq> 0
       \<or> rf_source_page_count f \<noteq> 0
       \<or> rf_publication_committed f
       \<or> rf_resources_cleaned f
       \<or> rf_reservation_input f \<noteq> None
       \<or> (rf_cleanup_outcome f \<noteq> None \<and> \<not> allow_cleanup)))
     ''resource state has incompatible materialization facts''"

definition materializing_observed :: "resource_credit_facts \<Rightarrow> resource_credit_vector" where
  "materializing_observed f = rcv_zero
     \<lparr>documents := 1, snapshot_items := 1, snapshot_bytes := rf_snapshot_byte_count f,
      provider_tasks := 1, provider_result_bytes := rf_provider_result_byte_count f,
      materialization_items := 1, compressed_bytes := rf_compressed_byte_count f,
      decoded_bytes := rf_decoded_byte_count f, temp_disk_bytes := rf_temporary_disk_byte_count f,
      ack_items := 1\<rparr>"

text \<open>
  \<open>_require_materializing\<close>. The condition of the source is a chain of \<open>or\<close>; the checked sum in
  its middle is evaluated, and may raise, only when the disjuncts before it are false.
\<close>

definition require_materializing :: "bool \<Rightarrow> resource_credit_facts \<Rightarrow> unit res" where
  "require_materializing allow_cleanup f =
     bindR (require
       (\<not> (\<not> rf_materialization_prepared f
         \<or> rf_local_materialization_completed f
         \<or> rf_compressed_byte_count f \<noteq> rf_provider_result_byte_count f
         \<or> rf_uncompressed_byte_count f < 1
         \<or> rf_decoded_byte_count f < 1
         \<or> rf_source_page_count f < 1))
       ''resource shape lacks exact deterministic staging facts'') (\<lambda>_.
     bindR (checked_add (rf_compressed_byte_count f) (rf_uncompressed_byte_count f)) (\<lambda>staged.
     bindR (require
       (\<not> (rf_temporary_disk_byte_count f \<noteq> staged
         \<or> rf_output_artifact_byte_count f \<noteq> 0
         \<or> rf_publication_committed f
         \<or> rf_resources_cleaned f
         \<or> rf_reservation_input f = None
         \<or> (rf_cleanup_outcome f \<noteq> None \<and> \<not> allow_cleanup)))
       ''resource shape lacks exact deterministic staging facts'') (\<lambda>_.
     case rf_reservation_input f of
       None \<Rightarrow> Inl (ValueError ''resource shape lacks exact deterministic staging facts'')
     | Some e \<Rightarrow>
         bindR (mk_rcv (materializing_observed f)) (\<lambda>observed.
         require
           (\<not> (ri_source_byte_count (eri_value e) \<noteq> rf_snapshot_byte_count f
             \<or> ri_source_page_count (eri_value e) \<noteq> rf_source_page_count f
             \<or> output_pages (ri_reservation (eri_value e)) \<noteq> rf_source_page_count f
             \<or> \<not> rcv_fits observed (ri_reservation (eri_value e))))
           ''materializing observations drifted from reservation input''))))"

definition require_local_output :: "bool \<Rightarrow> resource_credit_facts \<Rightarrow> unit res" where
  "require_local_output allow_cleanup f = require
     (\<not> (\<not> rf_materialization_prepared f
       \<or> \<not> rf_local_materialization_completed f
       \<or> rf_compressed_byte_count f \<noteq> rf_provider_result_byte_count f
       \<or> rf_uncompressed_byte_count f \<noteq> 0
       \<or> rf_decoded_byte_count f \<noteq> 0
       \<or> rf_temporary_disk_byte_count f \<noteq> 0
       \<or> rf_output_artifact_byte_count f < 1
       \<or> rf_source_page_count f < 1
       \<or> rf_resources_cleaned f
       \<or> rf_reservation_input f \<noteq> None
       \<or> (rf_cleanup_outcome f \<noteq> None \<and> \<not> allow_cleanup)))
     ''resource shape lacks the closed output-file manifest''"

subsection \<open>The projection\<close>

definition after :: "unit res list \<Rightarrow> 'a res \<Rightarrow> 'a res" where
  "after cs r = bindR (checks cs) (\<lambda>_. r)"

text \<open>The part that \<open>local_failure\<close> and \<open>superseded\<close> cleanup share.\<close>

definition cleanup_by_progress ::
  "resource_credit_facts \<Rightarrow> resource_credit_vector res \<Rightarrow> resource_credit_vector res" where
  "cleanup_by_progress f base =
     (if rf_local_materialization_completed f
      then after [require_local_output True f] (addR base (output_vector f))
      else if rf_materialization_prepared f
      then after [require_materializing True f] (addR base (materializing_vector f))
      else after [require_no_materialization True f] base)"

definition cleanup_pending_vector :: "resource_credit_facts \<Rightarrow> resource_credit_vector res" where
  "cleanup_pending_vector f = after
     [require_snapshot f,
      require (\<not> (rf_resources_cleaned f \<or> rf_cleanup_outcome f = None))
        ''cleanup-pending state lacks an uncommitted cleanup plan'']
     (case rf_cleanup_outcome f of
        None \<Rightarrow> Inl (ValueError ''cleanup-pending outcome is unsupported'')
      | Some Pre_submission_failure \<Rightarrow> after [require_snapshot_only True f] (snapshot_vector f)
      | Some Remote_failure \<Rightarrow> after
          [require_provider_task f,
           require (\<not> rf_provider_result_byte_count f \<noteq> 0)
             ''remote failure cannot retain provider result bytes'',
           require_no_materialization True f]
          (addR (snapshot_vector f) (provider_vector f))
      | Some Success \<Rightarrow> after
          [require_provider_result f,
           require_local_output True f,
           require (rf_publication_committed f) ''successful cleanup lacks a durable publication commit'']
          (addR (addR (snapshot_vector f) (provider_vector f)) (output_vector f))
      | Some Local_failure \<Rightarrow> after
          [require_provider_result f,
           require (\<not> rf_publication_committed f)
             ''local-failure cleanup cannot drain a committed publication'']
          (bindR (addR (snapshot_vector f) (provider_vector f)) (\<lambda>base. cleanup_by_progress f (Inr base)))
      | Some Superseded_outcome \<Rightarrow> after
          [require (\<not> rf_publication_committed f)
             ''superseded cleanup cannot drain a committed publication'']
          (if \<not> rf_provider_task_retained f
           then after [require_snapshot_only True f] (snapshot_vector f)
           else bindR (addR (snapshot_vector f) (provider_vector f)) (\<lambda>base.
             if rf_provider_result_byte_count f < 1
             then after [require_no_materialization True f] (Inr base)
             else cleanup_by_progress f (Inr base))))"

definition ack_pending_vector :: "resource_credit_facts \<Rightarrow> resource_credit_vector res" where
  "ack_pending_vector f = after
     [require (\<not> (\<not> rf_resources_cleaned f \<or> rf_cleanup_outcome f = None))
        ''ack-pending state lacks exact cleanup evidence'',
      require (\<not> (rf_cleanup_outcome f = Some Success \<and> \<not> rf_publication_committed f))
        ''successful cleanup lost publication commit evidence'',
      require (\<not> rf_cleanup_outcome f = Some Pre_submission_failure)
        ''pre-submission cleanup cannot enter ack_pending'']
     (bindR (bindR (mk_facts (f\<lparr>rf_resources_cleaned := False\<rparr>)) cleanup_pending_vector) (\<lambda>_.
      after [require_provider_task f]
       (mk_rcv (rcv_zero
         \<lparr>documents := 1, provider_tasks := 1,
          provider_result_bytes := rf_provider_result_byte_count f, ack_items := 1\<rparr>))))"

text \<open>The outcome that each final state (other than \<open>preparation_failed\<close>) reports.\<close>

fun expected_outcome :: "checkpoint_state \<Rightarrow> cleanup_outcome option" where
  "expected_outcome Acked = Some Success"
| "expected_outcome Remote_failed = Some Remote_failure"
| "expected_outcome Local_failed = Some Local_failure"
| "expected_outcome Pre_submission_failed = Some Pre_submission_failure"
| "expected_outcome Superseded = Some Superseded_outcome"
| "expected_outcome _ = None"

definition final_shape :: "checkpoint_state \<Rightarrow> resource_credit_facts \<Rightarrow> resource_credit_vector res" where
  "final_shape s f =
     (if s = Preparation_failed
      then after [require (f = no_facts) ''preparation failure cannot own resources''] (Inr rcv_zero)
      else if s = Superseded \<and> f = no_facts then Inr rcv_zero
      else after
        [require (\<not> rf_cleanup_outcome f \<noteq> expected_outcome s) ''terminal checkpoint cleanup outcome drifted'',
         require (rf_resources_cleaned f) ''terminal checkpoint still owns local resources'']
        (bindR (bindR (mk_facts (f\<lparr>rf_resources_cleaned := False\<rparr>)) cleanup_pending_vector)
           (\<lambda>_. Inr rcv_zero)))"

fun shape_of :: "checkpoint_state \<Rightarrow> resource_credit_facts \<Rightarrow> resource_credit_vector res" where
  "shape_of Prepared f = after [require_snapshot_only False f] (snapshot_vector f)"
| "shape_of Reconciling f = after [require_snapshot_only False f]
     (addR (snapshot_vector f) (mk_rcv (rcv_zero\<lparr>remote_waits := 1\<rparr>)))"
| "shape_of Submitted f = after
     [require_snapshot f, require_provider_task f,
      require (\<not> rf_provider_result_byte_count f \<noteq> 0)
        ''submitted state cannot retain provider result bytes'',
      require_no_materialization False f]
     (addR (addR (snapshot_vector f) (provider_vector f)) (mk_rcv (rcv_zero\<lparr>remote_waits := 1\<rparr>)))"
| "shape_of Remote_terminal f = after
     [require_snapshot f, require_provider_result f, require_no_materialization False f]
     (addR (snapshot_vector f) (provider_vector f))"
| "shape_of Materializing f = after
     [require_snapshot f, require_provider_result f, require_materializing False f]
     (addR (addR (snapshot_vector f) (provider_vector f)) (materializing_vector f))"
| "shape_of Local_materialized f = after
     [require_snapshot f, require_provider_result f, require_local_output False f,
      require (\<not> rf_publication_committed f) ''local output was marked committed before publication'']
     (addR (addR (snapshot_vector f) (provider_vector f)) (output_vector f))"
| "shape_of Publish_committed f = after
     [require_snapshot f, require_provider_result f, require_local_output False f,
      require (rf_publication_committed f) ''publication state lacks an exact durable commit'']
     (addR (addR (snapshot_vector f) (provider_vector f)) (output_vector f))"
| "shape_of Cleanup_pending f = cleanup_pending_vector f"
| "shape_of Ack_pending f = ack_pending_vector f"
| "shape_of s f = final_shape s f"

text \<open>The state arrives as a string.\<close>

definition state_of_name :: "string \<Rightarrow> checkpoint_state option" where
  "state_of_name n = find (\<lambda>s. state_name s = n) all_states"

definition resource_credit_shape :: "string \<Rightarrow> resource_credit_facts \<Rightarrow> resource_credit_vector res" where
  "resource_credit_shape state f =
     (case state_of_name state of
        None \<Rightarrow> Inl (ValueError ''resource credit state is unsupported'')
      | Some s \<Rightarrow> shape_of s f)"


subsection \<open>Closed forms of the vectors\<close>

lemma in_range_01 [simp]: "in_range 0" "in_range 1"
  by (simp_all add: in_range_def)

lemma valid_rcv_fields: "valid_rcv v \<longleftrightarrow>
    in_range (documents v) \<and> in_range (snapshot_items v) \<and> in_range (snapshot_bytes v) \<and>
    in_range (remote_waits v) \<and> in_range (provider_tasks v) \<and> in_range (provider_result_bytes v) \<and>
    in_range (materialization_items v) \<and> in_range (compressed_bytes v) \<and> in_range (decoded_bytes v) \<and>
    in_range (temp_disk_bytes v) \<and> in_range (output_items v) \<and> in_range (output_bytes v) \<and>
    in_range (output_pages v) \<and> in_range (ack_items v)"
  by (simp add: valid_rcv_iff rcv_comps_def)

lemma addR_Inr: "addR x y = Inr v \<longleftrightarrow>
    (\<exists>a b. x = Inr a \<and> y = Inr b \<and> valid_rcv v \<and> v = rcv_map2 (+) a b)"
  by (cases x; cases y) (auto simp: addR_def rcv_add_Inr rcv_map2_iff rcv_valid_bounded)

lemma after_Inr [simp]: "after cs r = Inr v \<longleftrightarrow> checks cs = Inr () \<and> r = Inr v"
  by (auto simp: after_def)

lemma rcv_eq_iff: "a = b \<longleftrightarrow> rcv_comps a = rcv_comps b"
  using rcv_comps_inj by blast

text \<open>
  The vector that a state should own, written as one formula over the facts: each dimension is
  held exactly while the phase that owns it is open. \<open>waiting\<close> says that a provider wait is open,
  \<open>local\<close> that the snapshot is still on disk, \<open>task\<close> that the provider task is retained.
\<close>

definition owned ::
  "bool \<Rightarrow> bool \<Rightarrow> bool \<Rightarrow> resource_credit_facts \<Rightarrow> resource_credit_vector" where
  "owned waiting local task f =
     (let staging = local \<and> rf_materialization_prepared f \<and> \<not> rf_local_materialization_completed f;
          output = local \<and> rf_local_materialization_completed f;
          reservation = (case rf_reservation_input f of None \<Rightarrow> rcv_zero
            | Some e \<Rightarrow> ri_reservation (eri_value e))
      in \<lparr>documents = 1,
          snapshot_items = (if local then 1 else 0),
          snapshot_bytes = (if local then rf_snapshot_byte_count f else 0),
          remote_waits = (if waiting then 1 else 0),
          provider_tasks = (if task then 1 else 0),
          provider_result_bytes = (if task then rf_provider_result_byte_count f else 0),
          materialization_items = (if staging then 1 else 0),
          compressed_bytes = (if staging then rf_compressed_byte_count f
             else if output then rf_provider_result_byte_count f else 0),
          decoded_bytes = (if staging then decoded_bytes reservation else 0),
          temp_disk_bytes = (if staging then temp_disk_bytes reservation else 0),
          output_items = (if output then 1 else 0),
          output_bytes = (if output then rf_output_artifact_byte_count f else 0),
          output_pages = (if output then rf_source_page_count f else 0),
          ack_items = (if task then 1 else 0)\<rparr>)"

lemmas shape_requirements =
  require_snapshot_def require_provider_task_def require_provider_result_def
  require_no_materialization_def require_local_output_def

lemma require_snapshot_only_Inr: "require_snapshot_only allow f = Inr u \<longleftrightarrow>
    1 \<le> rf_snapshot_byte_count f \<and> \<not> rf_provider_task_retained f \<and> rf_provider_result_byte_count f = 0 \<and>
    rf_compressed_byte_count f = 0 \<and> rf_uncompressed_byte_count f = 0 \<and> rf_decoded_byte_count f = 0 \<and>
    rf_temporary_disk_byte_count f = 0 \<and> rf_output_artifact_byte_count f = 0 \<and> rf_source_page_count f = 0 \<and>
    \<not> rf_materialization_prepared f \<and> \<not> rf_local_materialization_completed f \<and>
    (allow \<or> rf_cleanup_outcome f = None) \<and> \<not> rf_resources_cleaned f \<and> \<not> rf_publication_committed f \<and>
    rf_reservation_input f = None"
  by (cases f) (auto simp: require_snapshot_only_def require_snapshot_def no_facts_def)

lemma require_materializing_Inr: "require_materializing allow f = Inr u \<longleftrightarrow>
    rf_materialization_prepared f \<and> \<not> rf_local_materialization_completed f \<and>
    rf_compressed_byte_count f = rf_provider_result_byte_count f \<and>
    1 \<le> rf_uncompressed_byte_count f \<and> 1 \<le> rf_decoded_byte_count f \<and> 1 \<le> rf_source_page_count f \<and>
    rf_temporary_disk_byte_count f = rf_compressed_byte_count f + rf_uncompressed_byte_count f \<and>
    rf_temporary_disk_byte_count f \<le> MAX_INT \<and> rf_output_artifact_byte_count f = 0 \<and>
    \<not> rf_publication_committed f \<and> \<not> rf_resources_cleaned f \<and> (allow \<or> rf_cleanup_outcome f = None) \<and>
    (\<exists>e. rf_reservation_input f = Some e \<and> valid_rcv (materializing_observed f) \<and>
       ri_source_byte_count (eri_value e) = rf_snapshot_byte_count f \<and>
       ri_source_page_count (eri_value e) = rf_source_page_count f \<and>
       output_pages (ri_reservation (eri_value e)) = rf_source_page_count f \<and>
       rcv_fits (materializing_observed f) (ri_reservation (eri_value e)))"
  by (cases "rf_reservation_input f")
     (auto simp: require_materializing_def mk_rcv_Inr not_less)

subsection \<open>The projection is the ownership formula\<close>


lemma snapshot_vector_Inr: "snapshot_vector f = Inr v \<longleftrightarrow> in_range (rf_snapshot_byte_count f) \<and>
    v = rcv_zero\<lparr>documents := 1, snapshot_items := 1, snapshot_bytes := rf_snapshot_byte_count f\<rparr>"
  by (auto simp: snapshot_vector_def mk_rcv_Inr valid_rcv_fields)

lemma provider_vector_Inr: "provider_vector f = Inr v \<longleftrightarrow> in_range (rf_provider_result_byte_count f) \<and>
    v = rcv_zero\<lparr>provider_tasks := 1, provider_result_bytes := rf_provider_result_byte_count f, ack_items := 1\<rparr>"
  by (auto simp: provider_vector_def mk_rcv_Inr valid_rcv_fields)

lemma wait_vector_Inr: "mk_rcv (rcv_zero\<lparr>remote_waits := 1\<rparr>) = Inr v \<longleftrightarrow> v = rcv_zero\<lparr>remote_waits := 1\<rparr>"
  by (auto simp: mk_rcv_Inr valid_rcv_fields)

lemma output_vector_Inr: "output_vector f = Inr v \<longleftrightarrow> in_range (rf_provider_result_byte_count f) \<and>
    in_range (rf_output_artifact_byte_count f) \<and> in_range (rf_source_page_count f) \<and>
    v = rcv_zero\<lparr>compressed_bytes := rf_provider_result_byte_count f, output_items := 1,
      output_bytes := rf_output_artifact_byte_count f, output_pages := rf_source_page_count f\<rparr>"
  by (auto simp: output_vector_def mk_rcv_Inr valid_rcv_fields)

lemma materializing_vector_Inr: "materializing_vector f = Inr v \<longleftrightarrow> in_range (rf_compressed_byte_count f) \<and>
    (\<exists>e. rf_reservation_input f = Some e \<and>
      in_range (decoded_bytes (ri_reservation (eri_value e))) \<and>
      in_range (temp_disk_bytes (ri_reservation (eri_value e))) \<and>
      v = rcv_zero\<lparr>materialization_items := 1, compressed_bytes := rf_compressed_byte_count f,
        decoded_bytes := decoded_bytes (ri_reservation (eri_value e)),
        temp_disk_bytes := temp_disk_bytes (ri_reservation (eri_value e))\<rparr>)"
  by (cases "rf_reservation_input f")
     (auto simp: materializing_vector_def Let_def mk_rcv_Inr valid_rcv_fields)

lemmas vector_Inr = snapshot_vector_Inr provider_vector_Inr wait_vector_Inr output_vector_Inr materializing_vector_Inr

definition base_vec where "base_vec f = rcv_zero\<lparr>documents := 1, snapshot_items := 1, snapshot_bytes := rf_snapshot_byte_count f,
      provider_tasks := 1, provider_result_bytes := rf_provider_result_byte_count f, ack_items := 1\<rparr>"
lemma base_vector_Inr: "addR (snapshot_vector f) (provider_vector f) = Inr v \<longleftrightarrow>
    in_range (rf_snapshot_byte_count f) \<and> in_range (rf_provider_result_byte_count f) \<and>
    v = base_vec f"
  by (auto simp: addR_Inr vector_Inr base_vec_def valid_rcv_fields rcv_map2_def rcv_zero_def)

lemma addR_base_Inr: "addR (addR (snapshot_vector f) (provider_vector f)) y = Inr v \<longleftrightarrow>
    in_range (rf_snapshot_byte_count f) \<and> in_range (rf_provider_result_byte_count f) \<and>
    (\<exists>b. y = Inr b \<and> valid_rcv v \<and> v = rcv_map2 (+) (base_vec f) b)"
  by (subst addR_Inr) (auto simp: base_vector_Inr)

lemma base_owned: "require_no_materialization b f = Inr () \<Longrightarrow> base_vec f = owned False True True f"
  by (simp add: owned_def base_vec_def require_no_materialization_def rcv_zero_def)

lemma base_wait_owned:
   "rcv_map2 (+) (owned False True task f) (rcv_zero\<lparr>remote_waits := 1\<rparr>) = owned True True task f"
  by (simp add: owned_def Let_def rcv_map2_def rcv_zero_def)

lemma base_output_owned: "require_local_output b f = Inr () \<Longrightarrow> rcv_map2 (+) (base_vec f)
   (rcv_zero\<lparr>compressed_bytes := rf_provider_result_byte_count f, output_items := 1,
      output_bytes := rf_output_artifact_byte_count f, output_pages := rf_source_page_count f\<rparr>)
   = owned False True True f"
  by (simp add: owned_def base_vec_def require_local_output_def rcv_map2_def rcv_zero_def)

lemma base_staging_owned: "require_materializing b f = Inr () \<Longrightarrow> rf_reservation_input f = Some e \<Longrightarrow>
   rcv_map2 (+) (base_vec f) (rcv_zero\<lparr>materialization_items := 1, compressed_bytes := rf_compressed_byte_count f,
        decoded_bytes := decoded_bytes (ri_reservation (eri_value e)),
        temp_disk_bytes := temp_disk_bytes (ri_reservation (eri_value e))\<rparr>)
   = owned False True True f"
  by (auto simp add: owned_def base_vec_def require_materializing_Inr rcv_map2_def rcv_zero_def Let_def)

lemma snapshot_owned: "require_snapshot_only b f = Inr () \<Longrightarrow> snapshot_vector f = Inr v \<Longrightarrow>
   v = owned False True False f"
  by (simp add: owned_def require_snapshot_only_Inr snapshot_vector_Inr rcv_zero_def)

lemma snapshot_wait_owned: "require_snapshot_only b f = Inr () \<Longrightarrow>
   addR (snapshot_vector f) (mk_rcv (rcv_zero\<lparr>remote_waits := 1\<rparr>)) = Inr v \<Longrightarrow>
   v = owned True True False f"
  unfolding addR_Inr wait_vector_Inr
  by (metis base_wait_owned snapshot_owned)

lemma snapshot_only_no_task: "require_snapshot_only b f = Inr () \<Longrightarrow> \<not> rf_provider_task_retained f"
  by (simp add: require_snapshot_only_Inr)

lemmas shape_vectors = base_vector_Inr addR_base_Inr vector_Inr
lemmas shape_tasks = require_provider_result_def require_provider_task_def
lemmas owned_forms = base_owned base_wait_owned base_output_owned base_staging_owned

lemma cleanup_by_progress_owned:
  assumes "cleanup_by_progress f (Inr (base_vec f)) = Inr v"
  shows "v = owned False True True f"
  using assms
  by (auto simp: cleanup_by_progress_def addR_Inr output_vector_Inr materializing_vector_Inr owned_forms
     split: if_splits)

lemma cleanup_pending_owned:
  assumes "cleanup_pending_vector f = Inr v"
  shows "v = owned False True (rf_provider_task_retained f) f"
proof (cases "rf_cleanup_outcome f")
  case None
  with assms show ?thesis by (simp add: cleanup_pending_vector_def)
next
  case (Some out)
  with assms show ?thesis
    by (cases out) (auto simp: cleanup_pending_vector_def shape_vectors shape_tasks owned_forms
      snapshot_only_no_task snapshot_owned [unfolded snapshot_vector_Inr] cleanup_by_progress_owned split: if_splits)
qed

lemma ack_pending_owned:
  assumes "ack_pending_vector f = Inr v"
  shows "v = owned False False True f \<and> rf_provider_task_retained f"
  using assms
  by (auto simp: ack_pending_vector_def mk_rcv_Inr owned_def shape_tasks rcv_zero_def)

fun waiting :: "checkpoint_state \<Rightarrow> bool" where
  "waiting Reconciling = True"
| "waiting Submitted = True"
| "waiting _ = False"

lemma shape_of_owned:
  assumes "shape_of s f = Inr v" and "\<not> is_final s"
  shows "v = owned (waiting s) (s \<noteq> Ack_pending) (rf_provider_task_retained f) f"
proof (cases s)
  case Prepared
  with assms show ?thesis
    using snapshot_owned snapshot_only_no_task by fastforce
next
  case Reconciling
  with assms show ?thesis
    using snapshot_wait_owned snapshot_only_no_task by fastforce
qed (use assms in \<open>auto simp: shape_vectors shape_tasks owned_forms cleanup_pending_owned ack_pending_owned
   is_final_def final_states_def\<close>)

lemma shape_of_final: 
  assumes "shape_of s f = Inr v" and "is_final s"
  shows "v = rcv_zero"
  using assms by (cases s) (auto simp: final_shape_def is_final_def final_states_def split: if_splits)


subsection \<open>Properties\<close>

text \<open>Facts of a document at each phase, for the concrete instances below.\<close>

definition waiting_facts :: resource_credit_facts where
  "waiting_facts = no_facts\<lparr>rf_snapshot_byte_count := 5000, rf_provider_task_retained := True\<rparr>"

definition published_facts :: resource_credit_facts where
  "published_facts = no_facts
     \<lparr>rf_snapshot_byte_count := 5000, rf_provider_task_retained := True,
      rf_provider_result_byte_count := 700, rf_compressed_byte_count := 700,
      rf_output_artifact_byte_count := 900, rf_source_page_count := 12,
      rf_materialization_prepared := True, rf_local_materialization_completed := True,
      rf_publication_committed := True\<rparr>"

lemma shape_submitted_example: "returns (shape_of Submitted waiting_facts)"
  by code_simp

lemma shape_published_example: "returns (shape_of Publish_committed published_facts)"
  by code_simp

lemma shape_cleanup_example:
  "returns (shape_of Cleanup_pending (published_facts\<lparr>rf_cleanup_outcome := Some Success\<rparr>))"
  by code_simp

lemma shape_acked_example:
  "returns (shape_of Acked
     (published_facts\<lparr>rf_cleanup_outcome := Some Success, rf_resources_cleaned := True\<rparr>))"
  by code_simp

lemma shape_ack_example:
  "returns (shape_of Ack_pending
     (published_facts\<lparr>rf_cleanup_outcome := Some Success, rf_resources_cleaned := True\<rparr>))"
  by code_simp

text \<open>C21: In every state that is not final the projection of the persisted facts is one ownership
  formula: a document and, while local resources remain, its whole-PDF snapshot; one remote wait exactly
  while the provider runs; the provider task, its result bytes and its acknowledgement exactly
  while the task is retained; staging credit exactly while a materialization is prepared
  and not completed; output credit exactly once it is completed and not yet cleaned.\<close>

theorem shape_is_ownership:
  assumes "shape_of s f = Inr v" and "\<not> is_final s"
  shows "v = owned (waiting s) (s \<noteq> Ack_pending) (rf_provider_task_retained f) f"
  using assms by (rule shape_of_owned)

theorem shape_is_ownership_witness:
  "\<exists>v. shape_of Submitted waiting_facts = Inr v \<and> v = owned True True True waiting_facts"
proof -
  from shape_submitted_example obtain v where v: "shape_of Submitted waiting_facts = Inr v"
    by (auto simp: returns_iff)
  moreover have "\<not> is_final Submitted" by (simp add: is_final_def final_states_def)
  ultimately show ?thesis
    using shape_is_ownership [OF v] by (simp add: waiting_facts_def)
qed

text \<open>A final checkpoint owns nothing, and it is only accepted with clean facts: the vector is
  zero, and unless the attempt ended before any resource was owned, its cleanup outcome is the one
  the final state names and the cleanup is recorded as done.\<close>

theorem final_owns_nothing:
  assumes "shape_of s f = Inr v" and "is_final s"
  shows "v = rcv_zero \<and>
    (f = no_facts \<and> s \<in> {Preparation_failed, Superseded}
     \<or> rf_resources_cleaned f \<and> rf_cleanup_outcome f = expected_outcome s)"
  using assms shape_of_final [OF assms]
  by (cases s) (auto simp: final_shape_def is_final_def final_states_def split: if_splits)

theorem final_owns_nothing_witness:
  "shape_of Acked (published_facts\<lparr>rf_cleanup_outcome := Some Success, rf_resources_cleaned := True\<rparr>)
     = Inr rcv_zero"
proof -
  let ?f = "published_facts\<lparr>rf_cleanup_outcome := Some Success, rf_resources_cleaned := True\<rparr>"
  from shape_acked_example obtain v where v: "shape_of Acked ?f = Inr v"
    by (auto simp: returns_iff)
  moreover have "is_final Acked" by (simp add: is_final_def final_states_def)
  ultimately show ?thesis using final_owns_nothing [OF v] by simp
qed

lemma owned_outcome:
  "owned waits local task (f\<lparr>rf_cleanup_outcome := out\<rparr>) = owned waits local task f"
  "owned waits local task (f\<lparr>rf_cleanup_outcome := out, rf_resources_cleaned := c\<rparr>) = owned waits local task f"
  by (cases f; simp add: owned_def)+

lemma snapshot_valid: "snapshot_vector f = Inr v \<Longrightarrow> valid_rcv v"
  by (simp add: snapshot_vector_def mk_rcv_Inr)

lemma addR_valid: "addR x y = Inr v \<Longrightarrow> valid_rcv v"
  by (auto simp: addR_Inr)

lemma cleanup_pending_valid: "cleanup_pending_vector f = Inr v \<Longrightarrow> valid_rcv v"
  by (auto simp: cleanup_pending_vector_def cleanup_by_progress_def snapshot_valid addR_valid
      split: option.splits cleanup_outcome.splits if_splits)

text \<open>Planning a cleanup frees nothing: the cleanup-pending vector is the vector of the state
  the attempt left, except that an open remote wait (reconciling, submitted) is dropped. Only the
  completed local cleanup releases the snapshot, staging and output dimensions, and then it
  keeps every provider dimension, so ownership shrinks monotonically until the acknowledgement.\<close>

theorem cleanup_releases_in_order:
  assumes "shape_of s f = Inr v" and "\<not> is_final s" and "s \<notin> {Cleanup_pending, Ack_pending}"
    and "shape_of Cleanup_pending (f\<lparr>rf_cleanup_outcome := Some out\<rparr>) = Inr w"
  shows "w = v\<lparr>remote_waits := 0\<rparr> \<and>
    (shape_of Ack_pending (f\<lparr>rf_cleanup_outcome := Some out, rf_resources_cleaned := True\<rparr>) = Inr u \<longrightarrow>
      rcv_fits u w \<and> u = rcv_zero\<lparr>documents := 1, provider_tasks := provider_tasks v,
        provider_result_bytes := provider_result_bytes v, ack_items := ack_items v\<rparr>)"
proof -
  have v: "v = owned (waiting s) True (rf_provider_task_retained f) f"
    using shape_of_owned [OF assms(1,2)] assms(3) by simp
  have w: "w = owned False True (rf_provider_task_retained f) f"
    using shape_of_owned [OF assms(4)] by (simp add: is_final_def final_states_def owned_outcome)
  have valid: "valid_rcv w"
    using assms(4) by (simp add: cleanup_pending_valid)
  show ?thesis
  proof (intro conjI impI)
    show "w = v\<lparr>remote_waits := 0\<rparr>" unfolding v w by (simp add: owned_def Let_def)
    assume u: "shape_of Ack_pending (f\<lparr>rf_cleanup_outcome := Some out, rf_resources_cleaned := True\<rparr>) = Inr u"
    then have task: "rf_provider_task_retained f" 
      using ack_pending_owned by fastforce
    have u': "u = owned False False True f"
      using shape_of_owned [OF u] task by (simp add: is_final_def final_states_def owned_outcome)
    show "u = rcv_zero\<lparr>documents := 1, provider_tasks := provider_tasks v,
        provider_result_bytes := provider_result_bytes v, ack_items := ack_items v\<rparr>"
      unfolding u' v by (simp add: owned_def Let_def task rcv_zero_def)
    show "rcv_fits u w"
      using valid unfolding u' w rcv_fits_list_all2 valid_rcv_fields
      by (simp add: owned_def Let_def task rcv_comps_def in_range_def)
  qed
qed

theorem cleanup_releases_in_order_witness:
  "\<exists>v w. shape_of Publish_committed published_facts = Inr v \<and>
     shape_of Cleanup_pending (published_facts\<lparr>rf_cleanup_outcome := Some Success\<rparr>) = Inr w \<and>
     w = v\<lparr>remote_waits := 0\<rparr>"
proof -
  from shape_published_example obtain v where v: "shape_of Publish_committed published_facts = Inr v"
    by (auto simp: returns_iff)
  from shape_cleanup_example obtain w
    where w: "shape_of Cleanup_pending (published_facts\<lparr>rf_cleanup_outcome := Some Success\<rparr>) = Inr w"
    by (auto simp: returns_iff)
  have "\<not> is_final Publish_committed" "Publish_committed \<notin> {Cleanup_pending, Ack_pending}"
    by (simp_all add: is_final_def final_states_def)
  from cleanup_releases_in_order [OF v this w] v w show ?thesis by blast
qed

end
