(* ===== verification/ResourcePaths.thy ===== *)
theory ResourcePaths
  imports Sha256
begin

text \<open>
  \<open>application/contracts/staged_resource_paths.py\<close>: the deterministic relative paths that the
  adapters and the evidence records of a staged attempt share, and the test that a stored path
  is a canonical relative one. Unicode NFC normalisation is the identity on the modelled strings.
\<close>

subsection \<open>Pure POSIX paths\<close>

text \<open>\<open>pathlib.PurePosixPath\<close>: the root, the parts, and \<open>str\<close>.\<close>

definition posix_root :: "string \<Rightarrow> string" where
  "posix_root v =
     (if is_prefix ''//'' v \<and> \<not> is_prefix ''///'' v then ''//''
      else if is_prefix ''/'' v then ''/'' else '''')"

definition posix_relative_parts :: "string \<Rightarrow> string list" where
  "posix_relative_parts v = filter (\<lambda>part. part \<noteq> '''' \<and> part \<noteq> ''.'') (split_on (CHR ''/'') v)"

definition posix_parts :: "string \<Rightarrow> string list" where
  "posix_parts v =
     (if posix_root v = '''' then posix_relative_parts v else posix_root v # posix_relative_parts v)"

definition posix_str :: "string \<Rightarrow> string" where
  "posix_str v =
     (let text = posix_root v @ join_with ''/'' (posix_relative_parts v) in
      if text = '''' then ''.'' else text)"

text \<open>\<open>PurePosixPath(v).name\<close>: the last part, empty when there is none.\<close>

definition posix_name :: "string \<Rightarrow> string" where
  "posix_name v = (if posix_relative_parts v = [] then '''' else last (posix_relative_parts v))"

subsection \<open>Stored paths\<close>

definition validate_relative_resource_path_v4 :: "string \<Rightarrow> string \<Rightarrow> unit res" where
  "validate_relative_resource_path_v4 value label = checks
     [require
       (\<not> (value = ''''
         \<or> value \<noteq> py_strip value
         \<or> CHR 0x5C \<in> set value
         \<or> CHR '':'' \<in> set value
         \<or> list_ex control value))
       (label @ '' path is invalid''),
      require
       (\<not> (is_prefix ''/'' value
         \<or> list_ex (\<lambda>part. part = '''' \<or> part = ''.'' \<or> part = ''..'') (split_on (CHR ''/'') value)
         \<or> posix_str value \<noteq> value))
       (label @ '' path is not a canonical safe relative path'')]"

text \<open>\<open>_sha_hex\<close>: the sixty-four digits of a canonical hash.\<close>

definition sha_hex :: "string \<Rightarrow> string \<Rightarrow> string res" where
  "sha_hex value label =
     (if is_sha value then Inr (drop 7 value) else Inl (ValueError (label @ '' hash is not canonical'')))"

definition path_component_ok :: "string \<Rightarrow> bool" where
  "path_component_ok value = (\<not> (value = ''''
     \<or> value \<noteq> py_strip value
     \<or> value = ''.'' \<or> value = ''..''
     \<or> CHR ''/'' \<in> set value
     \<or> CHR 0x5C \<in> set value
     \<or> CHR '':'' \<in> set value
     \<or> length (utf8 value) > 255
     \<or> list_ex (\<lambda>c. code c < 32 \<or> code c = 127) value))"

definition path_component :: "string \<Rightarrow> string \<Rightarrow> string res" where
  "path_component value label =
     (if path_component_ok value then Inr value
      else Inl (ValueError (label @ '' path component is unsafe'')))"

text \<open>\<open>_digest\<close>: the token of a path, a hash of the identities joined by a null character.\<close>

definition path_preimage :: "string list \<Rightarrow> string" where
  "path_preimage values = utf8 (join_with [CHR 0x00] values)"

definition path_digest :: "string list \<Rightarrow> string res" where
  "path_digest values =
     (if list_ex (\<lambda>value. py_strip value = '''') values
      then Inl (ValueError ''staged resource path identity is empty'')
      else Inr (sha256_hex (path_preimage values)))"

type_synonym relpaths = "(string \<times> string) list"

definition staged_snapshot_relpaths :: "string \<Rightarrow> string \<Rightarrow> string \<Rightarrow> relpaths res" where
  "staged_snapshot_relpaths attempt_id fence_identity source_pdf_sha256 =
     bindR (sha_hex source_pdf_sha256 ''source PDF'') (\<lambda>source.
     bindR (path_digest [attempt_id, fence_identity, source]) (\<lambda>token. Inr
       [(''snapshot'', ''spool/.upload-'' @ token @ ''.pdf''),
        (''snapshot_part'', ''spool/.upload-'' @ token @ ''.pdf.part''),
        (''snapshot_part_owner'', ''spool/.upload-'' @ token @ ''.pdf.part.owner.json''),
        (''snapshot_lock'', ''spool/.upload-'' @ token @ ''.lock'')]))"

definition staged_retained_relpaths :: "string \<Rightarrow> string \<Rightarrow> string \<Rightarrow> string \<Rightarrow> relpaths res" where
  "staged_retained_relpaths attempt_id fence_identity artifact_owner_identity artifact_sha256 =
     bindR (sha_hex artifact_sha256 ''retained artifact'') (\<lambda>artifact.
     bindR (path_digest [attempt_id, fence_identity, artifact_owner_identity, artifact]) (\<lambda>token.
       let root = ''spool/.retained-'' @ token @ ''.zip'' in Inr
       [(''spool'', root),
        (''spool_part'', root @ ''.part''),
        (''spool_part_owner'', root @ ''.part.owner.json''),
        (''spool_lock'', root @ ''.lock'')]))"

definition staged_materialization_relpaths :: "string \<Rightarrow> string \<Rightarrow> string \<Rightarrow> string \<Rightarrow> relpaths res" where
  "staged_materialization_relpaths output_dir_name attempt_id fence_identity artifact_sha256 =
     bindR (path_component output_dir_name ''materialization output'') (\<lambda>output_dir_name.
     bindR (sha_hex artifact_sha256 ''materialization artifact'') (\<lambda>artifact.
     bindR (path_digest [output_dir_name, attempt_id, fence_identity, artifact]) (\<lambda>token.
       let staging = ''materialization/.'' @ output_dir_name @ ''.materializing-'' @ token in Inr
       [(''staging'', staging),
        (''staging_marker'', staging @ ''/.agent-materialization-inflight.v1.json''),
        (''staging_lock'', ''spool/.materialization-locks/.'' @ output_dir_name @ ''.lock''),
        (''output'', ''materialization/'' @ output_dir_name)])))"

end
