(* ===== verification/NewWork.thy ===== *)
theory NewWork
  imports ResourcePaths ResourceCreditVector
begin

text \<open>
  \<open>application/ports/staged_new_work_v4.py\<close> and \<open>application/contracts/staged_campaign_v4.py\<close>: the values that
  an ordinary document passes through before it becomes an attempt (candidate, page, source observation), and the
  frozen scope that may confine admission to a campaign.
\<close>

subsection \<open>The campaign scope\<close>

text \<open>What \<open>V4CampaignAdmissionScope\<close> reads of the M6 scope and of the entries of its corpus.\<close>

datatype m6_origin = Fresh | Replay | Carry_in

record m6_entry =
  me_document_id :: "string option"
  me_source_pdf_sha256 :: string
  me_origin :: m6_origin

record campaign_scope =
  cg_document_ids :: "string list"
  cg_source_hashes :: "string list"
  cg_ordinary_document_ids :: "string list"
  cg_scope_sha256 :: string

text \<open>\<open>M6CampaignScope.canonical_membership\<close>, and \<open>M6CorpusManifest.closed_membership\<close> for an end-to-end corpus.\<close>

definition canonical_membership :: "string list \<Rightarrow> unit res" where
  "canonical_membership ids =
     require (\<not> ids \<noteq> sort (remdups ids)) ''campaign document IDs must be sorted and unique''"

definition closed_membership :: "m6_entry list \<Rightarrow> unit res" where
  "closed_membership es = checks
     [require (\<not> map me_source_pdf_sha256 es \<noteq> sort (remdups (map me_source_pdf_sha256 es)))
        ''M6 corpus must be source-hash ordered and unique'',
      require (\<not> (None \<in> set (map me_document_id es) \<or> \<not> distinct (map me_document_id es)))
        ''E2E corpus requires unique explicit document IDs'']"

definition manifest_document_ids :: "m6_entry list \<Rightarrow> string list" where
  "manifest_document_ids es = sort (concat (map (\<lambda>e. case me_document_id e of None \<Rightarrow> [] | Some i \<Rightarrow> [i]) es))"

text \<open>\<open>V4CampaignAdmissionScope.__post_init__\<close>: the scope's own hash is computed by its M6 model.\<close>

definition entry_of :: "m6_entry list \<Rightarrow> string \<Rightarrow> m6_entry res" where
  "entry_of es d = (case map_of (rev (map (\<lambda>e. (me_document_id e, e)) es)) (Some d) of
      None \<Rightarrow> Inl (KeyError d) | Some e \<Rightarrow> Inr e)"

fun map_res :: "('a \<Rightarrow> 'b res) \<Rightarrow> 'a list \<Rightarrow> 'b list res" where
  "map_res f [] = Inr []"
| "map_res f (x # xs) = bindR (f x) (\<lambda>y. bindR (map_res f xs) (\<lambda>ys. Inr (y # ys)))"

definition mk_campaign_scope :: "string list \<Rightarrow> m6_entry list \<Rightarrow> string \<Rightarrow> campaign_scope res" where
  "mk_campaign_scope ids es sha =
     bindR (canonical_membership ids) (\<lambda>_.
     bindR (closed_membership es) (\<lambda>_.
     bindR (require (\<not> ids \<noteq> manifest_document_ids es) ''campaign scope differs from frozen corpus'') (\<lambda>_.
     bindR (map_res (entry_of es) ids) (\<lambda>chosen.
       Inr \<lparr>cg_document_ids = ids, cg_source_hashes = map me_source_pdf_sha256 chosen,
         cg_ordinary_document_ids = map fst (filter (\<lambda>(i, e). me_origin e \<noteq> Carry_in) (zip ids chosen)),
         cg_scope_sha256 = sha\<rparr>))))"

text \<open>\<open>bisect_left\<close> of the standard library on a list of strings.\<close>

function bisect_between :: "string list \<Rightarrow> string \<Rightarrow> nat \<Rightarrow> nat \<Rightarrow> nat" where
  "bisect_between xs x lo hi =
     (if lo < hi
      then (let mid = (lo + hi) div 2 in
            if xs ! mid < x then bisect_between xs x (mid + 1) hi else bisect_between xs x lo mid)
      else lo)"
  by pat_completeness auto
termination by (relation "measure (\<lambda>(xs, x, lo, hi). hi - lo)") auto

declare bisect_between.simps [simp del]

definition bisect_left :: "string list \<Rightarrow> string \<Rightarrow> nat" where
  "bisect_left xs x = bisect_between xs x 0 (length xs)"

definition scope_index :: "string list \<Rightarrow> string \<Rightarrow> string \<Rightarrow> nat res" where
  "scope_index ids d msg =
     (let i = bisect_left ids d in
      if i = length ids \<or> ids ! i \<noteq> d then Inl (ValueError msg) else Inr i)"

definition require_document_source :: "campaign_scope \<Rightarrow> string \<Rightarrow> string \<Rightarrow> unit res" where
  "require_document_source g d sha =
     bindR (scope_index (cg_document_ids g) d ''V4 document is outside campaign scope'') (\<lambda>i.
       require (\<not> cg_source_hashes g ! i \<noteq> sha) ''V4 source differs from frozen campaign source'')"

definition require_ordinary_document_source :: "campaign_scope \<Rightarrow> string \<Rightarrow> string \<Rightarrow> unit res" where
  "require_ordinary_document_source g d sha =
     bindR (require_document_source g d sha) (\<lambda>_.
     bindR (scope_index (cg_ordinary_document_ids g) d ''V4 campaign carry-in cannot create a fresh H0'') (\<lambda>_. Inr ()))"

text \<open>The optional commissioning scope, and the exclusion of both.\<close>

definition validate_admission_document_ids :: "string list option \<Rightarrow> unit res" where
  "validate_admission_document_ids v =
     (case v of None \<Rightarrow> Inr ()
      | Some ids \<Rightarrow> require (\<not> (\<not> (1 \<le> length ids \<and> length ids \<le> 8)
          \<or> list_ex (\<lambda>i. \<not> (1 \<le> length i \<and> length i \<le> 64) \<or> i \<noteq> py_strip i \<or> list_ex control i) ids
          \<or> \<not> distinct ids))
        ''commissioning requires 1..8 unique nonempty document IDs'')"

definition validate_v4_admission_scope :: "string list option \<Rightarrow> campaign_scope option \<Rightarrow> unit res" where
  "validate_v4_admission_scope ids scope = checks
     [validate_admission_document_ids ids,
      require (\<not> (scope \<noteq> None \<and> ids \<noteq> None)) ''V4 commissioning and campaign scopes are mutually exclusive'']"

subsection \<open>Candidates and source observations\<close>

record ordinary_candidate =
  oc_document_id :: string
  oc_provider :: string
  oc_provider_document_id :: string
  oc_security_id :: string
  oc_security_code :: string
  oc_raw_file_relpath :: string
  oc_raw_file_hash :: string
  oc_archived_raw_byte_count :: "int option"

definition candidate_post_init :: "ordinary_candidate \<Rightarrow> unit res" where
  "candidate_post_init c = checks
     (map (\<lambda>(v, label). require (py_strip v \<noteq> []) (''V4 ordinary candidate '' @ label @ '' is invalid''))
       [(oc_document_id c, ''document''), (oc_provider c, ''provider''),
        (oc_provider_document_id c, ''provider document''), (oc_security_id c, ''security''),
        (oc_security_code c, ''security code''), (oc_raw_file_relpath c, ''raw relpath''),
        (oc_raw_file_hash c, ''raw hash'')]
      @ [require (\<not> (posix_root (oc_raw_file_relpath c) \<noteq> [] \<or> posix_parts (oc_raw_file_relpath c) = []
            \<or> ''..'' \<in> set (posix_parts (oc_raw_file_relpath c)))) ''V4 ordinary candidate raw relpath is unsafe'',
         require (\<not> (\<not> is_prefix ''sha256:'' (oc_raw_file_hash c) \<or> length (oc_raw_file_hash c) \<noteq> 71
            \<or> list_ex (\<lambda>ch. ch \<notin> set hex_lower) (drop 7 (oc_raw_file_hash c))))
           ''V4 ordinary candidate raw hash is invalid'',
         require (case oc_archived_raw_byte_count c of None \<Rightarrow> True | Some n \<Rightarrow> \<not> n < 1)
           ''V4 ordinary candidate archived byte count is invalid''])"

record candidate_page =
  pg_candidates :: "ordinary_candidate list"
  pg_has_more :: bool

definition page_post_init :: "candidate_page \<Rightarrow> unit res" where
  "page_post_init p = checks
     [require (\<not> (pg_candidates p = [] \<and> pg_has_more p)) ''V4 ordinary candidate page is invalid'',
      require (\<not> (map oc_document_id (pg_candidates p) \<noteq> sort (map oc_document_id (pg_candidates p))
          \<or> \<not> distinct (map oc_document_id (pg_candidates p))))
        ''V4 ordinary candidate page is not ordered and unique'']"

record observation_request =
  rq_candidate :: ordinary_candidate
  rq_credits :: resource_credit_vector

text \<open>\<open>ResourceCreditVector(documents=1, snapshot_items=1, snapshot_bytes=n)\<close>\<close>

definition observation_credit :: "int \<Rightarrow> resource_credit_vector" where
  "observation_credit n = rcv_zero\<lparr>documents := 1, snapshot_items := 1, snapshot_bytes := n\<rparr>"

definition request_post_init :: "observation_request \<Rightarrow> unit res" where
  "request_post_init r =
     require (\<not> (snapshot_bytes (rq_credits r) < 1
         \<or> rq_credits r \<noteq> observation_credit (snapshot_bytes (rq_credits r))))
       ''V4 source observation request lacks exact bounded credit''"

datatype source_observation =
    Observed_pdf (so_sha256: string) (so_byte_count: int) (so_page_count: int)
  | Rejected_pdf (so_sha256: string) (so_byte_count: int) (so_reason: string)
  | Over_limit (so_byte_count: int)

definition rejection_reasons :: "string list" where
  "rejection_reasons =
     [''source_pdf_invalid_format'', ''source_pdf_password_required'', ''source_pdf_security_unsupported'',
      ''source_pdf_no_usable_pages'']"

text \<open>The constructors of the three kinds of observation.\<close>

fun observation_post_init :: "source_observation \<Rightarrow> unit res" where
  "observation_post_init (Observed_pdf sha n pages) = checks
     [require (is_sha sha) ''source PDF observation hash must be canonical'',
      require (\<not> n < 1) ''source PDF observation byte count must be positive'',
      require (\<not> pages < 1) ''source PDF observation page count must be positive'']"
| "observation_post_init (Rejected_pdf sha n reason) =
     require (\<not> (\<not> is_sha sha \<or> n < 1 \<or> reason \<notin> set rejection_reasons))
       ''V4 rejected PDF lacks a closed source observation''"
| "observation_post_init (Over_limit n) =
     require (\<not> n < 1) ''V4 overlimit observation requires a positive size''"

record observation_result =
  rs_request :: observation_request
  rs_source :: source_observation

definition observed_post_init :: "observation_result \<Rightarrow> unit res" where
  "observed_post_init r =
     (let c = rq_candidate (rs_request r); limit = snapshot_bytes (rq_credits (rs_request r)) in
      case rs_source r of
        Over_limit n \<Rightarrow> require (\<not> (oc_archived_raw_byte_count c \<noteq> None \<or> n \<le> limit))
          ''V4 overlimit observation is not an unknown-size excess''
      | s \<Rightarrow> require (\<not> (so_sha256 s \<noteq> oc_raw_file_hash c \<or> so_byte_count s > limit
            \<or> (oc_archived_raw_byte_count c \<noteq> None \<and> Some (so_byte_count s) \<noteq> oc_archived_raw_byte_count c)))
          ''V4 source observation drifted from the exact request'')"

subsection \<open>The search of a scope\<close>

lemma bisect_between_step:
  "lo < hi \<Longrightarrow> bisect_between xs x lo hi =
     (if xs ! ((lo + hi) div 2) < x then bisect_between xs x ((lo + hi) div 2 + 1) hi
      else bisect_between xs x lo ((lo + hi) div 2))"
  "\<not> lo < hi \<Longrightarrow> bisect_between xs x lo hi = lo"
  by (simp_all add: bisect_between.simps Let_def)

lemma bisect_between_sorted:
  assumes "sorted xs" "lo \<le> hi" "hi \<le> length xs"
    and "\<forall>i < lo. xs ! i < x" "\<forall>i. hi \<le> i \<and> i < length xs \<longrightarrow> x \<le> xs ! i"
  shows "lo \<le> bisect_between xs x lo hi \<and> bisect_between xs x lo hi \<le> hi
    \<and> (\<forall>i < bisect_between xs x lo hi. xs ! i < x)
    \<and> (\<forall>i. bisect_between xs x lo hi \<le> i \<and> i < length xs \<longrightarrow> x \<le> xs ! i)"
  using assms
proof (induction xs x lo hi rule: bisect_between.induct)
  case (1 xs x lo hi)
  show ?case
  proof (cases "lo < hi")
    case True
    define mid where "mid = (lo + hi) div 2"
    have mid: "lo \<le> mid" "mid < hi" "mid < length xs" using True 1(5) by (simp_all add: mid_def)
    show ?thesis
    proof (cases "xs ! mid < x")
      case True
      have below: "\<forall>i < mid + 1. xs ! i < x"
      proof (intro allI impI)
        fix i assume that: "i < mid + 1"
        have "xs ! i \<le> xs ! mid" using sorted_nth_mono [OF 1(3), of i mid] that mid(3) by simp
        then show "xs ! i < x" using True by (rule le_less_trans)
      qed
      have "mid + 1 \<le> hi" using mid(2) by simp
      from 1(1) [OF \<open>lo < hi\<close> mid_def True 1(3) this 1(5) below 1(7)] mid(1) True
      show ?thesis unfolding bisect_between_step(1) [OF \<open>lo < hi\<close>] mid_def [symmetric] by simp
    next
      case False
      have above: "\<forall>i. mid \<le> i \<and> i < length xs \<longrightarrow> x \<le> xs ! i"
      proof (intro allI impI)
        fix i assume "mid \<le> i \<and> i < length xs"
        then have "xs ! mid \<le> xs ! i" using sorted_nth_mono [OF 1(3)] by simp
        then show "x \<le> xs ! i" using False by (meson leI order_trans)
      qed
      have "mid \<le> length xs" using mid(3) by simp
      from 1(2) [OF \<open>lo < hi\<close> mid_def False 1(3) mid(1) this 1(6) above] mid(2) False
      show ?thesis unfolding bisect_between_step(1) [OF \<open>lo < hi\<close>] mid_def [symmetric] by simp
    qed
  next
    case False
    then have "bisect_between xs x lo hi = lo" "hi = lo" using 1(4) by (simp_all add: bisect_between_step(2))
    then show ?thesis using 1(6,7) by simp
  qed
qed

text \<open>On a sorted list the index exists just for the members.\<close>

lemma scope_index_iff:
  assumes "sorted ids" "distinct ids"
  shows "scope_index ids d msg = Inr i \<longleftrightarrow> i < length ids \<and> ids ! i = d"
proof -
  let ?b = "bisect_left ids d"
  have b: "(\<forall>i < ?b. ids ! i < d) \<and> (\<forall>i. ?b \<le> i \<and> i < length ids \<longrightarrow> d \<le> ids ! i)" "?b \<le> length ids"
  proof -
    have "\<forall>i < 0. ids ! i < d" "\<forall>i. length ids \<le> i \<and> i < length ids \<longrightarrow> d \<le> ids ! i" by (blast dest: leD)+
    from bisect_between_sorted [OF assms(1) le0 order_refl this]
    show "(\<forall>i < ?b. ids ! i < d) \<and> (\<forall>i. ?b \<le> i \<and> i < length ids \<longrightarrow> d \<le> ids ! i)" "?b \<le> length ids"
      unfolding bisect_left_def by blast+
  qed
  have "?b = i" if i: "i < length ids" "ids ! i = d"
  proof -
    have "\<not> i < ?b" using b(1) i by (metis less_irrefl)
    moreover have "\<not> ?b < i"
    proof
      assume "?b < i"
      then have "d \<le> ids ! ?b" "ids ! ?b \<le> ids ! i" using b(1) i sorted_nth_mono [OF assms(1), of ?b i] by auto
      then have "ids ! ?b = ids ! i" using i by simp
      then show False using nth_eq_iff_index_eq [OF assms(2), of ?b i] i \<open>?b < i\<close> by simp
    qed
    ultimately show ?thesis by simp
  qed
  then show ?thesis using b(2) by (auto simp: scope_index_def Let_def)
qed

lemma map_res_Inr: "map_res f xs = Inr ys \<longleftrightarrow> list_all2 (\<lambda>x y. f x = Inr y) xs ys"
proof (induction xs arbitrary: ys)
  case (Cons x xs)
  then show ?case by (cases ys) auto
qed auto

text \<open>
  What a campaign scope accepts, in terms of the corpus: a document of the corpus with its source hash, and for a fresh
  attempt one whose entry is not carried in.
\<close>

lemma campaign_scope_entries:
  assumes "mk_campaign_scope ids es sha = Inr g"
  obtains chosen where "list_all2 (\<lambda>i e. entry_of es i = Inr e) ids chosen" "cg_document_ids g = ids"
    "cg_source_hashes g = map me_source_pdf_sha256 chosen"
    "cg_ordinary_document_ids g = map fst (filter (\<lambda>(i, e). me_origin e \<noteq> Carry_in) (zip ids chosen))"
    "sorted ids" "distinct ids"
proof -
  from assms obtain chosen where c: "map_res (entry_of es) ids = Inr chosen" "ids = sort (remdups ids)"
      "g = \<lparr>cg_document_ids = ids, cg_source_hashes = map me_source_pdf_sha256 chosen,
         cg_ordinary_document_ids = map fst (filter (\<lambda>(i, e). me_origin e \<noteq> Carry_in) (zip ids chosen)),
         cg_scope_sha256 = sha\<rparr>"
    by (auto simp: mk_campaign_scope_def canonical_membership_def)
  from c(2) have "sorted ids" "distinct ids" by (metis sorted_sort, metis distinct_remdups distinct_sort)
  then show thesis using that c by (simp add: map_res_Inr)
qed

lemma ordinary_ids_sorted:
  assumes "sorted ids" "distinct ids"
  shows "sorted (map fst (filter P (zip ids chosen)))" "distinct (map fst (filter P (zip ids chosen)))"
  using assms
proof (induction ids arbitrary: chosen)
  case (Cons i ids)
  { case 1
    have "set (map fst (filter P (zip ids (tl chosen)))) \<subseteq> set ids" by (auto dest: set_zip_leftD)
    with 1 Cons.IH(1) [of "tl chosen"] show ?case by (cases chosen) auto
  next
    case 2
    have "set (map fst (filter P (zip ids (tl chosen)))) \<subseteq> set ids" by (auto dest: set_zip_leftD)
    with 2 Cons.IH(2) [of "tl chosen"] show ?case by (cases chosen) auto }
qed simp_all

theorem campaign_scope_exact:
  assumes "mk_campaign_scope ids es sha = Inr g"
  shows "require_document_source g d h = Inr ()
      \<longleftrightarrow> d \<in> set ids \<and> (\<exists>e. entry_of es d = Inr e \<and> me_source_pdf_sha256 e = h)"
    "require_ordinary_document_source g d h = Inr ()
      \<longleftrightarrow> d \<in> set ids \<and> (\<exists>e. entry_of es d = Inr e \<and> me_source_pdf_sha256 e = h \<and> me_origin e \<noteq> Carry_in)"
proof -
  from campaign_scope_entries [OF assms] obtain chosen where c: "list_all2 (\<lambda>i e. entry_of es i = Inr e) ids chosen"
      "cg_document_ids g = ids" "cg_source_hashes g = map me_source_pdf_sha256 chosen"
      "cg_ordinary_document_ids g = map fst (filter (\<lambda>(i, e). me_origin e \<noteq> Carry_in) (zip ids chosen))"
      "sorted ids" "distinct ids" by blast
  have len: "length chosen = length ids" and at: "\<And>i. i < length ids \<Longrightarrow> entry_of es (ids ! i) = Inr (chosen ! i)"
    using c(1) by (auto simp: list_all2_conv_all_nth)
  have src: "require_document_source g d h = Inr () \<longleftrightarrow> (\<exists>i < length ids. ids ! i = d \<and> me_source_pdf_sha256 (chosen ! i) = h)"
    using c(2,3) len by (auto simp: require_document_source_def scope_index_iff [OF c(5,6)])
  then show 1: "require_document_source g d h = Inr ()
      \<longleftrightarrow> d \<in> set ids \<and> (\<exists>e. entry_of es d = Inr e \<and> me_source_pdf_sha256 e = h)"
    using at by (auto simp: in_set_conv_nth)
  have "(\<exists>j. scope_index (cg_ordinary_document_ids g) d msg = Inr j) \<longleftrightarrow> d \<in> set (cg_ordinary_document_ids g)" for msg
    unfolding c(4) in_set_conv_nth [of d] scope_index_iff [OF ordinary_ids_sorted [OF c(5,6)]] by simp
  moreover have "d \<in> set (cg_ordinary_document_ids g)
      \<longleftrightarrow> d \<in> set ids \<and> (\<exists>e. entry_of es d = Inr e \<and> me_origin e \<noteq> Carry_in)"
  proof -
    have "d \<in> set (cg_ordinary_document_ids g) \<longleftrightarrow> (\<exists>i < length ids. ids ! i = d \<and> me_origin (chosen ! i) \<noteq> Carry_in)"
      unfolding c(4) using len by (auto simp: set_zip image_iff)
    also have "\<dots> \<longleftrightarrow> d \<in> set ids \<and> (\<exists>e. entry_of es d = Inr e \<and> me_origin e \<noteq> Carry_in)"
      using at unfolding in_set_conv_nth by fastforce
    finally show ?thesis .
  qed
  ultimately show "require_ordinary_document_source g d h = Inr ()
      \<longleftrightarrow> d \<in> set ids \<and> (\<exists>e. entry_of es d = Inr e \<and> me_source_pdf_sha256 e = h \<and> me_origin e \<noteq> Carry_in)"
    using 1 by (auto simp: require_ordinary_document_source_def)
qed

end
