(* ===== verification/JsonLoads.thy ===== *)
theory JsonLoads
  imports CanonicalJson
begin

text \<open>
  \<open>application/contracts/strict_json.py\<close>: \<open>strict_json_loads\<close> with the part of Python's
  \<open>json.loads\<close> and \<open>bytes.decode("utf-8")\<close> that it uses. A decoded text is a list of code
  points of the whole Unicode range. The value of a float literal is never read by the code, so a
  parsed float keeps its literal. Messages omit the position that \<open>JSONDecodeError\<close> appends.
  The interpreter's recursion limit, which refuses deeply nested texts, is not modelled.
\<close>

type_synonym ucs = "nat list"

definition cps :: "string \<Rightarrow> ucs" where
  "cps s = map code s"

subsection \<open>UTF-8\<close>

text \<open>\<open>bytes.decode("utf-8")\<close>: no overlong form, no surrogate, nothing above \<open>0x10FFFF\<close>.\<close>

definition cont_byte :: "nat \<Rightarrow> bool" where
  "cont_byte b = (128 \<le> b \<and> b < 192)"

fun utf8_decode :: "nat list \<Rightarrow> ucs option" where
  "utf8_decode [] = Some []"
| "utf8_decode (a # s) =
     (if a < 128 then map_option ((#) a) (utf8_decode s)
      else if 194 \<le> a \<and> a < 224 then
        (case s of
           b # s2 \<Rightarrow> if cont_byte b
             then map_option ((#) ((a - 192) * 64 + (b - 128))) (utf8_decode s2) else None
         | _ \<Rightarrow> None)
      else if 224 \<le> a \<and> a < 240 then
        (case s of
           b # c # s3 \<Rightarrow>
             let n = (a - 224) * 4096 + (b - 128) * 64 + (c - 128) in
             if cont_byte b \<and> cont_byte c \<and> 2048 \<le> n \<and> \<not> (55296 \<le> n \<and> n < 57344)
             then map_option ((#) n) (utf8_decode s3) else None
         | _ \<Rightarrow> None)
      else if 240 \<le> a \<and> a < 245 then
        (case s of
           b # c # d # s4 \<Rightarrow>
             let n = (a - 240) * 262144 + (b - 128) * 4096 + (c - 128) * 64 + (d - 128) in
             if cont_byte b \<and> cont_byte c \<and> cont_byte d \<and> 65536 \<le> n \<and> n < 1114112
             then map_option ((#) n) (utf8_decode s4) else None
         | _ \<Rightarrow> None)
      else None)"

subsection \<open>Parsed values\<close>

datatype pyval =
    PNone
  | PBool bool
  | PInt int
  | PFloat ucs
  | PStr ucs
  | PList "pyval list"
  | PDict "(ucs \<times> pyval) list"

text \<open>\<open>_unique_object\<close>: the pairs in order, unless a key repeats.\<close>

definition unique_object :: "(ucs \<times> pyval) list \<Rightarrow> pyval res" where
  "unique_object pairs =
     (if distinct (map fst pairs) then Inr (PDict pairs)
      else Inl (ValueError ''duplicate JSON object key''))"

text \<open>\<open>_reject_constant\<close>\<close>

definition reject_constant :: "string \<Rightarrow> 'a res" where
  "reject_constant v = Inl (ValueError (''non-finite JSON number: '' @ v))"

subsection \<open>Tokens\<close>

definition ws :: "nat \<Rightarrow> bool" where
  "ws c = (c = 32 \<or> c = 9 \<or> c = 10 \<or> c = 13)"

definition skip_ws :: "ucs \<Rightarrow> ucs" where
  "skip_ws s = dropWhile ws s"

definition is_digit :: "nat \<Rightarrow> bool" where
  "is_digit c = (48 \<le> c \<and> c \<le> 57)"

definition hex_value :: "nat \<Rightarrow> nat option" where
  "hex_value c =
     (if is_digit c then Some (c - 48)
      else if 97 \<le> c \<and> c \<le> 102 then Some (c - 87)
      else if 65 \<le> c \<and> c \<le> 70 then Some (c - 55)
      else None)"

text \<open>Four hexadecimal digits.\<close>

fun hex4 :: "ucs \<Rightarrow> (nat \<times> ucs) option" where
  "hex4 (a # b # c # d # s) =
     (case (hex_value a, hex_value b, hex_value c, hex_value d) of
        (Some w, Some x, Some y, Some z) \<Rightarrow> Some (((w * 16 + x) * 16 + y) * 16 + z, s)
      | _ \<Rightarrow> None)"
| "hex4 _ = None"

text \<open>
  After \<open>\u\<close>: the code point, with a low surrogate escape joined to a high one. A malformed
  escape after a high surrogate is an error.
\<close>

definition unicode_escape :: "ucs \<Rightarrow> (nat \<times> ucs) option" where
  "unicode_escape s =
     (case hex4 s of
        None \<Rightarrow> None
      | Some (u, s2) \<Rightarrow>
          if 55296 \<le> u \<and> u \<le> 56319 \<and> take 2 s2 = [92, 117] then
            (case hex4 (drop 2 s2) of
               None \<Rightarrow> None
             | Some (u2, s3) \<Rightarrow>
                 if 56320 \<le> u2 \<and> u2 \<le> 57343
                 then Some (65536 + ((u - 55296) * 1024 + (u2 - 56320)), s3)
                 else Some (u, s2))
          else Some (u, s2))"

text \<open>The table \<open>BACKSLASH\<close>: quote, backslash, slash, \<open>b f n r t\<close>.\<close>

definition simple_escape :: "nat \<Rightarrow> nat option" where
  "simple_escape c = map_of [(34, 34), (92, 92), (47, 47), (98, 8), (102, 12), (110, 10), (114, 13), (116, 9)] c"

definition cons_char :: "nat \<Rightarrow> (ucs \<times> ucs) res \<Rightarrow> (ucs \<times> ucs) res" where
  "cons_char c r = bindR r (\<lambda>(t, rest). Inr (c # t, rest))"

lemma hex4_shorter: "hex4 s = Some (u, r) \<Longrightarrow> length r < length s"
  by (induction s rule: hex4.induct) (auto split: option.splits)

lemma unicode_escape_shorter: "unicode_escape s = Some (u, r) \<Longrightarrow> length r < length s"
  by (auto simp: unicode_escape_def split: option.splits if_splits dest!: hex4_shorter)

text \<open>\<open>scanstring\<close>, after the opening quote: the string and the text behind the closing quote.\<close>

function scan_string :: "ucs \<Rightarrow> (ucs \<times> ucs) res" where
  "scan_string [] = Inl (ValueError ''Unterminated string starting at'')"
| "scan_string (c # s) =
     (if c = 34 then Inr ([], s)
      else if c = 92 then
        (case s of
           [] \<Rightarrow> Inl (ValueError ''Unterminated string starting at'')
         | e # s2 \<Rightarrow>
             if e = 117 then
               (case unicode_escape s2 of
                  None \<Rightarrow> Inl (ValueError (''Invalid '' @ [CHR 0x5C] @ ''uXXXX escape''))
                | Some (u, s3) \<Rightarrow> cons_char u (scan_string s3))
             else
               (case simple_escape e of
                  None \<Rightarrow> Inl (ValueError (''Invalid '' @ [CHR 0x5C] @ ''escape''))
                | Some u \<Rightarrow> cons_char u (scan_string s2)))
      else if c < 32 then Inl (ValueError ''Invalid control character at'')
      else cons_char c (scan_string s))"
  by pat_completeness auto
termination
  by (relation "measure length") (auto dest: unicode_escape_shorter)

text \<open>The regular expression of a number: sign, integer part, fraction, exponent.\<close>

definition scan_digits :: "ucs \<Rightarrow> ucs \<times> ucs" where
  "scan_digits s = (takeWhile is_digit s, dropWhile is_digit s)"

definition digits_value :: "ucs \<Rightarrow> int" where
  "digits_value ds = foldl (\<lambda>n d. 10 * n + (int d - 48)) 0 ds"

definition scan_sign :: "ucs \<Rightarrow> ucs \<times> ucs" where
  "scan_sign s = (if take 1 s = [45] then ([45], drop 1 s) else ([], s))"

definition scan_int_part :: "ucs \<Rightarrow> (ucs \<times> ucs) option" where
  "scan_int_part s =
     (case s of
        [] \<Rightarrow> None
      | d # s2 \<Rightarrow> if d = 48 then Some ([48], s2)
          else if is_digit d then Some (scan_digits s) else None)"

definition scan_fraction :: "ucs \<Rightarrow> ucs \<times> ucs" where
  "scan_fraction s =
     (if take 1 s = [46] \<and> fst (scan_digits (drop 1 s)) \<noteq> []
      then (46 # fst (scan_digits (drop 1 s)), snd (scan_digits (drop 1 s))) else ([], s))"

definition scan_exponent :: "ucs \<Rightarrow> ucs \<times> ucs" where
  "scan_exponent s =
     (case s of
        [] \<Rightarrow> ([], s)
      | e # s2 \<Rightarrow>
          let signed = (s2 \<noteq> [] \<and> (hd s2 = 43 \<or> hd s2 = 45));
              sg = (if signed then [hd s2] else []);
              s3 = (if signed then tl s2 else s2);
              ds = fst (scan_digits s3)
          in if (e = 69 \<or> e = 101) \<and> ds \<noteq> [] then (e # sg @ ds, snd (scan_digits s3)) else ([], s))"

text \<open>\<open>int\<close> refuses a literal of more than 4300 digits (the default limit since Python 3.11).\<close>

definition MAX_STR_DIGITS :: nat where
  "MAX_STR_DIGITS = 4300"

definition scan_number :: "ucs \<Rightarrow> (pyval \<times> ucs) res option" where
  "scan_number s =
     (let (sg, s1) = scan_sign s in
      case scan_int_part s1 of
        None \<Rightarrow> None
      | Some (ds, s2) \<Rightarrow>
          let (fr, s3) = scan_fraction s2; (ex, s4) = scan_exponent s3 in
          if fr \<noteq> [] \<or> ex \<noteq> [] then Some (Inr (PFloat (sg @ ds @ fr @ ex), s4))
          else if length ds > MAX_STR_DIGITS
          then Some (Inl (ValueError ''Exceeds the limit for integer string conversion''))
          else Some (Inr (PInt (if sg = [] then digits_value ds else - digits_value ds), s2)))"

definition starts :: "string \<Rightarrow> ucs \<Rightarrow> bool" where
  "starts w s = (take (length w) s = cps w)"

definition scan_keyword :: "ucs \<Rightarrow> (pyval \<times> ucs) option" where
  "scan_keyword s =
     (if starts ''null'' s then Some (PNone, drop 4 s)
      else if starts ''true'' s then Some (PBool True, drop 4 s)
      else if starts ''false'' s then Some (PBool False, drop 5 s)
      else None)"

definition scan_atom :: "ucs \<Rightarrow> (pyval \<times> ucs) res" where
  "scan_atom s =
     (case scan_keyword s of
        Some r \<Rightarrow> Inr r
      | None \<Rightarrow>
          (case scan_number s of
             Some r \<Rightarrow> r
           | None \<Rightarrow>
               if starts ''NaN'' s then reject_constant ''NaN''
               else if starts ''Infinity'' s then reject_constant ''Infinity''
               else if starts ''-Infinity'' s then reject_constant ''-Infinity''
               else Inl (ValueError ''Expecting value'')))"

subsection \<open>The scanner\<close>

text \<open>
  \<open>scan_once\<close> and the loops of \<open>JSONArray\<close> and \<open>JSONObject\<close>. The first argument bounds the
  number of nested calls; \<open>loads_enough_fuel\<close> below shows that the amount \<open>strict_json_loads\<close> gives is
  never used up. (CPython's own recursion limit is not modelled.)
\<close>

definition RECURSION :: py_error where
  "RECURSION = RuntimeError ''maximum recursion depth exceeded''"

fun scan_once :: "nat \<Rightarrow> ucs \<Rightarrow> (pyval \<times> ucs) res"
  and scan_elements :: "nat \<Rightarrow> ucs \<Rightarrow> (pyval list \<times> ucs) res"
  and scan_members :: "nat \<Rightarrow> ucs \<Rightarrow> ((ucs \<times> pyval) list \<times> ucs) res" where
  "scan_once 0 s = Inl RECURSION"
| "scan_once (Suc n) s =
     (case s of
        [] \<Rightarrow> Inl (ValueError ''Expecting value'')
      | c # r \<Rightarrow>
          if c = 34 then bindR (scan_string r) (\<lambda>(t, rest). Inr (PStr t, rest))
          else if c = 91 then
            (let r1 = skip_ws r in
             if take 1 r1 = [93] then Inr (PList [], drop 1 r1)
             else bindR (scan_elements n r1) (\<lambda>(vs, rest). Inr (PList vs, rest)))
          else if c = 123 then
            (let r1 = skip_ws r in
             if take 1 r1 = [125] then Inr (PDict [], drop 1 r1)
             else bindR (scan_members n r1) (\<lambda>(kvs, rest).
               bindR (unique_object kvs) (\<lambda>v. Inr (v, rest))))
          else scan_atom s)"
| "scan_elements 0 s = Inl RECURSION"
| "scan_elements (Suc n) s =
     bindR (scan_once n s) (\<lambda>(v, s1).
       let s2 = skip_ws s1 in
       if take 1 s2 = [93] then Inr ([v], drop 1 s2)
       else if take 1 s2 = [44] then
         bindR (scan_elements n (skip_ws (drop 1 s2))) (\<lambda>(vs, rest). Inr (v # vs, rest))
       else Inl (ValueError ''Expecting ',' delimiter''))"
| "scan_members 0 s = Inl RECURSION"
| "scan_members (Suc n) s =
     (if take 1 s \<noteq> [34] then Inl (ValueError ''Expecting property name enclosed in double quotes'')
      else bindR (scan_string (drop 1 s)) (\<lambda>(k, s1).
        let s2 = skip_ws s1 in
        if take 1 s2 \<noteq> [58] then Inl (ValueError ''Expecting ':' delimiter'')
        else bindR (scan_once n (skip_ws (drop 1 s2))) (\<lambda>(v, s3).
          let s4 = skip_ws s3 in
          if take 1 s4 = [125] then Inr ([(k, v)], drop 1 s4)
          else if take 1 s4 = [44] then
            bindR (scan_members n (skip_ws (drop 1 s4))) (\<lambda>(kvs, rest). Inr ((k, v) # kvs, rest))
          else Inl (ValueError ''Expecting ',' delimiter''))))"

text \<open>\<open>json.loads\<close> of a text, and \<open>strict_json_loads\<close> of bytes.\<close>

definition json_loads :: "ucs \<Rightarrow> pyval res" where
  "json_loads s =
     (if take 1 s = [65279] then Inl (ValueError ''Unexpected UTF-8 BOM (decode using utf-8-sig)'')
      else bindR (scan_once (2 * length s + 2) (skip_ws s)) (\<lambda>(v, rest).
        if skip_ws rest = [] then Inr v else Inl (ValueError ''Extra data'')))"

definition strict_json_loads :: "string \<Rightarrow> pyval res" where
  "strict_json_loads payload =
     (case utf8_decode (map code payload) of
        None \<Rightarrow> Inl (ValueError ''utf-8 codec cannot decode bytes'')
      | Some s \<Rightarrow> json_loads s)"


subsection \<open>The scanner never runs out of fuel\<close>

lemma cons_char_Inr: "cons_char c r = Inr (t, rest) \<longleftrightarrow> (\<exists>t'. r = Inr (t', rest) \<and> t = c # t')"
  by (auto simp: cons_char_def split: prod.splits)


lemma value_error_not_recursion [simp]: "ValueError m \<noteq> RECURSION" "RECURSION \<noteq> ValueError m"
  by (simp_all add: RECURSION_def)

declare scan_string.simps(2) [simp del]

lemma scan_string_shorter: "scan_string s = Inr (t, r) \<Longrightarrow> length r < length s"
proof (induction s arbitrary: t rule: scan_string.induct)
  case (2 c s)
  then show ?case
    by (fastforce simp: scan_string.simps(2) cons_char_Inr dest: unicode_escape_shorter
      split: if_splits list.splits option.splits)
qed simp


lemma skip_ws_shorter: "length (skip_ws s) \<le> length s"
  by (simp add: skip_ws_def length_dropWhile_le)

lemma scan_sign_le: "scan_sign s = (sg, r) \<Longrightarrow> length r \<le> length s"
  by (auto simp: scan_sign_def split: if_splits)

lemma scan_int_part_shorter: "scan_int_part s = Some (ds, r) \<Longrightarrow> length r < length s"
  by (auto simp: scan_int_part_def scan_digits_def le_imp_less_Suc length_dropWhile_le split: list.splits if_splits)

lemma scan_fraction_le: "scan_fraction s = (fr, r) \<Longrightarrow> length r \<le> length s"
  using length_dropWhile_le [of is_digit "drop 1 s"]
  by (auto simp: scan_fraction_def scan_digits_def split: if_splits)

lemma scan_exponent_le: "scan_exponent s = (ex, r) \<Longrightarrow> length r \<le> length s"
proof (cases s)
  case (Cons e s2)
  moreover assume "scan_exponent s = (ex, r)"
  ultimately show ?thesis
    using length_dropWhile_le [of is_digit "tl s2"] length_dropWhile_le [of is_digit s2]
    by (auto simp: scan_exponent_def scan_digits_def Let_def split: if_splits)
qed (simp add: scan_exponent_def)

lemma scan_number_shorter: "scan_number s = Some (Inr (v, r)) \<Longrightarrow> length r < length s"
  by (auto simp: scan_number_def Let_def split: prod.splits option.splits if_splits
    dest!: scan_sign_le scan_int_part_shorter scan_fraction_le scan_exponent_le)


lemma starts_length: "starts w s \<Longrightarrow> length w \<le> length s"
  by (auto simp: starts_def cps_def dest!: arg_cong [of _ _ length])

lemma scan_atom_shorter: "scan_atom s = Inr (v, r) \<Longrightarrow> length r < length s"
  by (auto simp: scan_atom_def scan_keyword_def reject_constant_def
    split: option.splits if_splits dest!: scan_number_shorter starts_length)



lemma drop1_skip_shorter: "take 1 (skip_ws s) = [c] \<Longrightarrow> length (drop 1 (skip_ws s)) < length s"
  using skip_ws_shorter [of s] by (cases "skip_ws s") auto

lemma skip_drop1_shorter: "take 1 (skip_ws s) = [c] \<Longrightarrow> length (skip_ws (drop 1 (skip_ws s))) < length s"
  using drop1_skip_shorter [of s c] skip_ws_shorter [of "drop 1 (skip_ws s)"] by linarith

lemmas shorter_rules = drop1_skip_shorter skip_drop1_shorter scan_string_shorter scan_atom_shorter











subsection \<open>Round trip: strings, numbers and keywords\<close>

lemma cps_simps [simp]: "cps [] = []" "cps (c # s) = code c # cps s" "cps (s @ t) = cps s @ cps t"
  by (simp_all add: cps_def)

lemma length_cps [simp]: "length (cps s) = length s"
  by (simp add: cps_def)

lemma code_less [simp]: "code c < 256"
  by (simp add: code_def)

lemma code_inject [simp]: "code c = code d \<longleftrightarrow> c = d"
  by (simp add: code_def)

lemma cps_inject [simp]: "cps s = cps t \<longleftrightarrow> s = t"
  by (simp add: cps_def inj_map_eq_map inj_def)

lemma code_char_of: "n < 256 \<Longrightarrow> code (char_of n) = n"
  by (simp add: code_def)

lemma code_numeral_chars [simp]:
  "code CHR 0x22 = 34" "code CHR 0x5C = 92" "code CHR 0x0A = 10" "code CHR 0x0D = 13"
  "code CHR 0x09 = 9" "code CHR 0x0C = 12" "code CHR 0x08 = 8" "code CHR ''u'' = 117"
  "code CHR ''n'' = 110" "code CHR ''r'' = 114" "code CHR ''t'' = 116" "code CHR ''f'' = 102"
  "code CHR ''b'' = 98" "code CHR ''0'' = 48" "code CHR '','' = 44" "code CHR '':'' = 58"
  "code CHR ''['' = 91" "code CHR '']'' = 93" "code CHR ''{'' = 123" "code CHR ''}'' = 125"
  "code CHR ''-'' = 45" "code CHR ''l'' = 108" "code CHR ''e'' = 101" "code CHR ''a'' = 97"
  "code CHR ''s'' = 115"
  by (simp_all add: code_def)

lemma utf8_decode_utf8: "utf8_decode (map code (utf8 s)) = Some (cps s)"
proof (induction s)
  case (Cons c s)
  have c: "code c < 256" by simp
  show ?case
  proof (cases "code c < 128")
    case True
    with Cons show ?thesis by (simp add: utf8_char_def Let_def)
  next
    case False
    with c have "192 + code c div 64 < 196" "194 \<le> 192 + code c div 64" "128 + code c mod 64 < 192"
      by linarith+
    with False Cons show ?thesis
      by (simp add: utf8_char_def Let_def code_char_of cont_byte_def)
  qed
qed simp

text \<open>Hexadecimal digits.\<close>

lemma hex_values: "map (\<lambda>d. hex_value (code d)) hex_lower = map Some [0 ..< 16]"
  by (simp add: hex_lower_def hex_value_def is_digit_def code_def upt_rec)

lemma hex_value_digit: "hex_value (code (hex_digit n)) = Some (n mod 16)"
proof -
  have len: "length hex_lower = 16" by (simp add: hex_lower_def)
  have "map (\<lambda>d. hex_value (code d)) hex_lower ! (n mod 16) = map Some [0 ..< 16] ! (n mod 16)"
    by (simp only: hex_values)
  then show ?thesis by (simp add: hex_digit_def len)
qed

lemma code_quote: "code c = 34 \<longleftrightarrow> c = CHR 0x22" "code c = 92 \<longleftrightarrow> c = CHR 0x5C"
  using code_inject [of c "CHR 0x22"] code_inject [of c "CHR 0x5C"] by simp_all

lemma unicode_escape_low:
  "code c < 32 \<Longrightarrow>
   unicode_escape (48 # 48 # code (hex_digit (code c div 16)) # code (hex_digit (code c)) # s) = Some (code c, s)"
  by (simp add: unicode_escape_def hex_value_digit, simp add: hex_value_def is_digit_def)

lemma scan_string_esc: "scan_string (cps (esc_char c) @ s) = cons_char (code c) (scan_string s)"
  by (auto simp: esc_char_def scan_string.simps(2) simple_escape_def unicode_escape_low code_quote)

lemma scan_string_text:
  "scan_string (cps (concat (map esc_char s)) @ 34 # rest) = Inr (cps s, rest)"
  by (induction s) (simp_all add: scan_string.simps(2) scan_string_esc cons_char_def)


text \<open>A text behind a number that does not continue it.\<close>

definition stops :: "ucs \<Rightarrow> bool" where
  "stops s = (case s of [] \<Rightarrow> True | c # _ \<Rightarrow> \<not> is_digit c \<and> c \<noteq> 46 \<and> c \<noteq> 69 \<and> c \<noteq> 101)"

lemma stops_simps [simp]: "stops []" "stops (44 # s)" "stops (93 # s)" "stops (125 # s)"
  by (simp_all add: stops_def is_digit_def)

lemma digit_codes: "map code ''0123456789'' = map ((+) 48) [0 ..< 10]"
  by (simp add: code_def upt_rec)

lemma code_dec_digit: "code (dec_digit n) = 48 + n mod 10"
proof -
  have len: "n mod 10 < length ''0123456789''" by simp
  have "code (''0123456789'' ! (n mod 10)) = map code ''0123456789'' ! (n mod 10)"
    by (rule nth_map [OF len, symmetric])
  also have "\<dots> = 48 + n mod 10" by (simp only: digit_codes) simp
  finally show ?thesis by (simp only: dec_digit_def)
qed

lemma nat_text_digits: "list_all is_digit (cps (nat_text n))"
proof (induction n rule: nat_text.induct)
  case (1 n)
  have d: "is_digit (code (dec_digit m))" for m
    using mod_less_divisor [of 10 m] by (simp add: code_dec_digit is_digit_def)
  show ?case
    using 1 d by (subst nat_text.simps) simp
qed

lemma digits_value_snoc: "digits_value (ds @ [d]) = 10 * digits_value ds + (int d - 48)"
  by (simp add: digits_value_def)

lemma digits_value_nat_text: "digits_value (cps (nat_text n)) = int n"
proof (induction n rule: nat_text.induct)
  case (1 n)
  show ?case
  proof (cases "n < 10")
    case True
    then show ?thesis
      by (simp add: nat_text.simps [of n] digits_value_def code_dec_digit)
  next
    case False
    then have "digits_value (cps (nat_text n)) = 10 * int (n div 10) + int (n mod 10)"
      using 1 by (simp add: nat_text.simps [of n] digits_value_snoc code_dec_digit)
    also have "\<dots> = int n" by (simp add: zdiv_int zmod_int)
    finally show ?thesis .
  qed
qed

lemma nat_text_head: "\<exists>d ds. cps (nat_text n) = d # ds \<and> (d = 48 \<longrightarrow> ds = []) \<and> is_digit d"
proof (induction n rule: nat_text.induct)
  case (1 n)
  show ?case
  proof (cases "n < 10")
    case True
    then show ?thesis
      by (simp add: nat_text.simps [of n] code_dec_digit is_digit_def)
  next
    case False
    with 1 obtain d ds where d: "cps (nat_text (n div 10)) = d # ds" "d = 48 \<longrightarrow> ds = []" "is_digit d"
      by blast
    have "d \<noteq> 48"
    proof
      assume "d = 48"
      with d have "digits_value (cps (nat_text (n div 10))) = 0" by (simp add: digits_value_def)
      with False show False by (simp add: digits_value_nat_text)
    qed
    with d False show ?thesis by (simp add: nat_text.simps [of n])
  qed
qed

lemma takeWhile_digits: "list_all is_digit ds \<Longrightarrow> stops rest \<Longrightarrow> takeWhile is_digit (ds @ rest) = ds"
  by (induction ds) (auto simp: stops_def split: list.splits)

lemma dropWhile_digits: "list_all is_digit ds \<Longrightarrow> stops rest \<Longrightarrow> dropWhile is_digit (ds @ rest) = rest"
  by (induction ds) (auto simp: stops_def split: list.splits)

lemma scan_int_part_text:
  assumes "stops rest"
  shows "scan_int_part (cps (nat_text n) @ rest) = Some (cps (nat_text n), rest)"
proof -
  obtain d ds where d: "cps (nat_text n) = d # ds" "d = 48 \<longrightarrow> ds = []" "is_digit d"
    using nat_text_head by blast
  moreover have "list_all is_digit ds" using nat_text_digits [of n] d by simp
  ultimately show ?thesis
    using assms by (auto simp: scan_int_part_def scan_digits_def takeWhile_digits dropWhile_digits)
qed

lemma scan_tail_stops:
  assumes "stops rest"
  shows "scan_fraction rest = ([], rest)" and "scan_exponent rest = ([], rest)"
  using assms by (cases rest; auto simp: stops_def scan_fraction_def scan_exponent_def Let_def)+

definition int_digits :: "int \<Rightarrow> nat" where
  "int_digits i = length (nat_text (nat \<bar>i\<bar>))"

lemma scan_number_text:
  assumes "stops rest" and "int_digits i \<le> MAX_STR_DIGITS"
  shows "scan_number (cps (int_text i) @ rest) = Some (Inr (PInt i, rest))"
proof -
  have sign: "scan_sign (cps (nat_text n) @ rest) = ([], cps (nat_text n) @ rest)" for n
    using nat_text_head [of n] by (auto simp: scan_sign_def is_digit_def)
  show ?thesis
  proof (cases "i < 0")
    case True
    with assms show ?thesis
      by (simp add: int_text_def int_digits_def scan_number_def scan_sign_def scan_int_part_text
        scan_tail_stops digits_value_nat_text)
  next
    case False
    with assms show ?thesis
      by (simp add: int_text_def int_digits_def scan_number_def sign scan_int_part_text
        scan_tail_stops digits_value_nat_text)
  qed
qed

lemma int_text_head: "\<exists>d ds. cps (int_text i) = d # ds \<and> (is_digit d \<or> d = 45)"
  using nat_text_head [of "nat i"] by (auto simp: int_text_def)

lemma scan_atom_text:
  assumes "stops rest" and "int_digits i \<le> MAX_STR_DIGITS"
  shows "scan_atom (cps (int_text i) @ rest) = Inr (PInt i, rest)"
proof -
  obtain d ds where d: "cps (int_text i) @ rest = d # ds @ rest" "is_digit d \<or> d = 45"
    using int_text_head [of i] by auto
  then have "scan_keyword (cps (int_text i) @ rest) = None"
    by (auto simp: scan_keyword_def starts_def is_digit_def)
  then show ?thesis using scan_number_text [OF assms] by (simp add: scan_atom_def)
qed

lemma scan_atom_keyword:
  "scan_atom (cps ''null'' @ rest) = Inr (PNone, rest)"
  "scan_atom (cps ''true'' @ rest) = Inr (PBool True, rest)"
  "scan_atom (cps ''false'' @ rest) = Inr (PBool False, rest)"
  by (simp_all add: scan_atom_def scan_keyword_def starts_def)


subsection \<open>Round trip of a value\<close>

text \<open>A value that a Python object can hold and \<open>json.loads\<close> reads back: the keys of
  each object differ, and no integer is too long for \<open>int\<close>.\<close>

fun json_ok :: "json \<Rightarrow> bool" where
  "json_ok (JInt i) = (int_digits i \<le> MAX_STR_DIGITS)"
| "json_ok (JArr js) = list_all json_ok js"
| "json_ok (JObj kvs) = (distinct (map fst kvs) \<and> list_all (\<lambda>kv. json_ok (snd kv)) kvs)"
| "json_ok _ = True"

text \<open>The value that the text of a JSON value is parsed to: members in the order of the sorted keys.\<close>

fun pyval_of :: "json \<Rightarrow> pyval" where
  "pyval_of JNull = PNone"
| "pyval_of (JBool b) = PBool b"
| "pyval_of (JInt i) = PInt i"
| "pyval_of (JStr s) = PStr (cps s)"
| "pyval_of (JArr js) = PList (map pyval_of js)"
| "pyval_of (JObj kvs) = PDict (map (\<lambda>kv. (cps (fst kv), pyval_of (snd kv))) (sort_key fst kvs))"

definition scans :: "(json \<Rightarrow> string) \<Rightarrow> json \<Rightarrow> bool" where
  "scans put j \<longleftrightarrow> (\<forall>n rest. stops rest \<longrightarrow> 2 * length (put j) < n \<longrightarrow>
     scan_once n (cps (put j) @ rest) = Inr (pyval_of j, rest))"

lemma scansD: "scans put j \<Longrightarrow> stops rest \<Longrightarrow> 2 * length (put j) < n \<Longrightarrow>
    scan_once n (cps (put j) @ rest) = Inr (pyval_of j, rest)"
  by (simp add: scans_def)

lemma digit_not_ws: "is_digit d \<Longrightarrow> \<not> ws d" "is_digit d \<Longrightarrow> d \<noteq> 93" "is_digit d \<Longrightarrow> d \<noteq> 34"
  "is_digit d \<Longrightarrow> d \<noteq> 91" "is_digit d \<Longrightarrow> d \<noteq> 123"
  by (auto simp: is_digit_def ws_def)

lemma ws_codes [simp]: "\<not> ws 34" "\<not> ws 45" "\<not> ws 91" "\<not> ws 93" "\<not> ws 123" "\<not> ws 125" "\<not> ws 110"
    "\<not> ws 116" "\<not> ws 102" "\<not> ws 44" "\<not> ws 58"
  by (simp_all add: ws_def)

lemma skip_ws_other [simp]: "skip_ws (c # s) = c # s" if "\<not> ws c"
  using that by (simp add: skip_ws_def)

lemma join_Cons: "ps \<noteq> [] \<Longrightarrow> join_with d (p # ps) = p @ d @ join_with d ps"
  by (cases ps) auto

lemma insort_key_map: "(\<And>x. k (f x) = g x) \<Longrightarrow> insort_key k (f x) (map f xs) = map f (insort_key g x xs)"
  by (induction xs) simp_all

lemma sort_key_map: "(\<And>x. k (f x) = g x) \<Longrightarrow> sort_key k (map f xs) = map f (sort_key g xs)"
  by (induction xs) (simp_all add: insort_key_map)

lemma distinct_sorted_keys: "distinct (map fst (sort_key fst kvs)) = distinct (map fst kvs)"
proof -
  have "mset (map fst (sort_key fst kvs)) = mset (map fst kvs)" by simp
  then show ?thesis by (metis mset_eq_imp_distinct_iff)
qed

lemma unique_object_sorted:
  assumes "distinct (map fst kvs)"
  shows "unique_object (map (\<lambda>kv. (cps (fst kv), pyval_of (snd kv))) (sort_key fst kvs))
    = Inr (pyval_of (JObj kvs))"
proof -
  have "map fst (map (\<lambda>kv. (cps (fst kv), pyval_of (snd kv))) (sort_key fst kvs))
      = map cps (map fst (sort_key fst kvs))"
    by (simp add: comp_def)
  moreover have "distinct (map cps (map fst (sort_key fst kvs)))"
    using assms by (simp only: distinct_map distinct_sorted_keys [symmetric]) (simp add: inj_on_def distinct_sorted_keys distinct_map)
  ultimately have "distinct (map fst (map (\<lambda>kv. (cps (fst kv), pyval_of (snd kv))) (sort_key fst kvs)))"
    by metis
  then show ?thesis by (simp add: unique_object_def)
qed

text \<open>
  A writer of JSON text: how it writes the scalars, the arrays and the sorted objects, and that its strings start with a
  quote and are read back. The reader inverts every such writer.
\<close>

locale json_writer =
  fixes str :: "string \<Rightarrow> string"
    and put :: "json \<Rightarrow> string"
  assumes str_head: "\<exists>r. str s = CHR 0x22 # r"
    and str_scan: "scan_string (drop 1 (cps (str s) @ rest)) = Inr (cps s, rest)"
    and write_scalars: "put JNull = ''null''" "put (JBool b) = (if b then ''true'' else ''false'')"
      "put (JInt i) = int_text i" "put (JStr s) = str s"
    and write_array: "put (JArr js) = ''['' @ join_with '','' (map put js) @ '']''"
    and write_object: "put (JObj kvs) =
      ''{'' @ join_with '','' (map (\<lambda>kv. str (fst kv) @ '':'' @ put (snd kv)) (sort_key fst kvs)) @ ''}''"
begin

declare write_scalars [simp] and write_array [simp]

lemma take_str: "take 1 (cps (str s) @ rest) = [34]"
  using str_head [of s] by auto

lemma skip_str [simp]: "skip_ws (cps (str s) @ rest) = cps (str s) @ rest" "take (Suc 0) (cps (str s) @ rest) = [34]"
  using str_head [of s] by (auto simp: skip_ws_def)

lemma write_head: "\<exists>c r. cps (put j) = c # r \<and> \<not> ws c \<and> c \<noteq> 93"
proof (cases j)
  case (JInt i)
  then show ?thesis using int_text_head [of i] by (auto simp: write_scalars dest: digit_not_ws)
next
  case (JStr s)
  then show ?thesis using str_head [of s] by (auto simp: write_scalars)
qed (auto simp: write_scalars write_array write_object)

lemma skip_ws_write [simp]: "skip_ws (cps (put j) @ s) = cps (put j) @ s"
  using write_head [of j] by (auto simp: skip_ws_def)

lemma scan_elements_text:
  assumes "js \<noteq> []" and "\<forall>j \<in> set js. scans put j" and "2 * length (join_with '','' (map put js)) + 1 < n"
  shows "scan_elements n (cps (join_with '','' (map put js)) @ 93 # rest) = Inr (map pyval_of js, rest)"
  using assms
proof (induction js arbitrary: n)
  case (Cons j js)
  obtain m where n: "n = Suc m" using Cons.prems(3) by (cases n) auto
  show ?case
  proof (cases "js = []")
    case True
    with Cons.prems n show ?thesis
      by (simp add: scansD Let_def)
  next
    case False
    let ?js = "join_with '','' (map put js)"
    have join: "join_with '','' (map put (j # js)) = put j @ '','' @ ?js"
      using False by (simp add: join_Cons)
    have "skip_ws (cps ?js @ 93 # rest) = cps ?js @ 93 # rest"
      using False by (cases js; cases "tl js") (auto simp: join_Cons)
    moreover have "scan_elements m (cps ?js @ 93 # rest) = Inr (map pyval_of js, rest)"
      using Cons.IH Cons.prems False n join by simp
    moreover have "scan_once m (cps (put j) @ 44 # cps ?js @ 93 # rest)
        = Inr (pyval_of j, 44 # cps ?js @ 93 # rest)"
      using Cons.prems n join by (intro scansD) auto
    ultimately show ?thesis
      using n by (simp only: join) (simp add: Let_def)
  qed
qed simp

lemma scan_members_text:
  assumes "kvs \<noteq> []" and "\<forall>kv \<in> set kvs. scans put (snd kv)" and "2 * length (join_with '','' (map (\<lambda>kv. str (fst kv) @ '':'' @ put (snd kv)) kvs)) + 1 < n"
  shows "scan_members n (cps (join_with '','' (map (\<lambda>kv. str (fst kv) @ '':'' @ put (snd kv)) kvs)) @ 125 # rest)
    = Inr (map (\<lambda>kv. (cps (fst kv), pyval_of (snd kv))) kvs, rest)"
  using assms
proof (induction kvs arbitrary: n)
  case (Cons kv kvs)
  obtain m where n: "n = Suc m" using Cons.prems(3) by (cases n) auto
  obtain k j where kv: "kv = (k, j)" by (cases kv)
  have j: "scans put j" using Cons.prems kv by simp
  let ?k = "str k"
  show ?case
  proof (cases "kvs = []")
    case True
    let ?t = "58 # cps (put j) @ 125 # rest"
    have "scan_once m (cps (put j) @ 125 # rest) = Inr (pyval_of j, 125 # rest)"
      using Cons.prems n kv True by (intro scansD [OF j]) (auto simp: join_Cons)
    then have "scan_members (Suc m) (cps ?k @ ?t) = Inr ([(cps k, pyval_of j)], rest)"
      by (simp only: scan_members.simps take_str str_scan) (simp add: Let_def)
    then show ?thesis using True n kv by (simp add: member_text_def)
  next
    case False
    let ?kvs = "join_with '','' (map (\<lambda>kv. str (fst kv) @ '':'' @ put (snd kv)) kvs)"
    let ?t = "58 # cps (put j) @ 44 # cps ?kvs @ 125 # rest"
    have join: "join_with '','' (map (\<lambda>kv. str (fst kv) @ '':'' @ put (snd kv)) (kv # kvs)) = ?k @ '':'' @ put j @ '','' @ ?kvs"
      using False kv by (simp add: join_Cons member_text_def)
    have skip: "skip_ws (cps ?kvs @ 125 # rest) = cps ?kvs @ 125 # rest"
      using False by (cases kvs; cases "tl kvs") (auto simp: join_Cons)
    have IH: "scan_members m (cps ?kvs @ 125 # rest)
        = Inr (map (\<lambda>kv. (cps (fst kv), pyval_of (snd kv))) kvs, rest)"
      using Cons.IH Cons.prems False n join by simp
    have "scan_once m (cps (put j) @ 44 # cps ?kvs @ 125 # rest)
        = Inr (pyval_of j, 44 # cps ?kvs @ 125 # rest)"
      using Cons.prems(3) n join by (intro scansD [OF j]) auto
    with skip IH have "scan_members (Suc m) (cps ?k @ ?t)
        = Inr ((cps k, pyval_of j) # map (\<lambda>kv. (cps (fst kv), pyval_of (snd kv))) kvs, rest)"
      by (simp only: scan_members.simps take_str str_scan) (simp add: Let_def)
    moreover have "cps (join_with '','' (map (\<lambda>kv. str (fst kv) @ '':'' @ put (snd kv)) (kv # kvs))) @ 125 # rest = cps ?k @ ?t"
      unfolding join by simp
    ultimately show ?thesis by (simp only: n) (simp only: kv list.map fst_conv snd_conv)
  qed
qed simp


lemma members_head:
  "kvs \<noteq> [] \<Longrightarrow> \<exists>r. join_with '','' (map (\<lambda>kv. str (fst kv) @ '':'' @ put (snd kv)) kvs) = CHR 0x22 # r"
  using str_head [of "fst (hd kvs)"] by (cases kvs; cases "tl kvs") (auto simp: join_Cons)

lemma scans_json: "json_ok j \<Longrightarrow> scans put j"
proof (induction j)
  case (JInt i)
  show ?case
    unfolding scans_def
  proof (intro allI impI)
    fix n rest assume "stops rest" "2 * length (put (JInt i)) < n"
    then obtain m where n: "n = Suc m" by (cases n) auto
    obtain d ds where d: "cps (int_text i) = d # ds" "is_digit d \<or> d = 45"
      using int_text_head [of i] by blast
    have "scan_atom (cps (int_text i) @ rest) = Inr (PInt i, rest)"
      using \<open>stops rest\<close> JInt by (intro scan_atom_text) simp_all
    then show "scan_once n (cps (put (JInt i)) @ rest) = Inr (pyval_of (JInt i), rest)"
      using d n by (auto dest: digit_not_ws)
  qed
next
  case (JArr js)
  show ?case
    unfolding scans_def
  proof (intro allI impI)
    fix n rest assume fuel: "2 * length (put (JArr js)) < n"
    then obtain m where n: "n = Suc m" by (cases n) auto
    let ?js = "join_with '','' (map put js)"
    show "scan_once n (cps (put (JArr js)) @ rest) = Inr (pyval_of (JArr js), rest)"
    proof (cases "js = []")
      case False
      have "scan_elements m (cps ?js @ 93 # rest) = Inr (map pyval_of js, rest)"
        using JArr False fuel n by (intro scan_elements_text) (auto simp: list_all_iff)
      moreover have "skip_ws (cps ?js @ 93 # rest) = cps ?js @ 93 # rest"
        using False by (cases js; cases "tl js") (auto simp: join_Cons)
      moreover have "take 1 (cps ?js @ 93 # rest) \<noteq> [93]"
        using False write_head [of "hd js"] by (cases js; cases "tl js") (auto simp: join_Cons)
      ultimately show ?thesis using n by (simp add: Let_def)
    qed (use n in \<open>simp add: Let_def\<close>)
  qed
next
  case (JObj kvs)
  let ?kvs = "sort_key fst kvs"
  show ?case
    unfolding scans_def
  proof (intro allI impI)
    fix n rest assume fuel: "2 * length (put (JObj kvs)) < n"
    then obtain m where n: "n = Suc m" by (cases n) auto
    define t where "t = join_with '','' (map (\<lambda>kv. str (fst kv) @ '':'' @ put (snd kv)) ?kvs)"
    have shape: "cps (put (JObj kvs)) @ rest = 123 # cps t @ 125 # rest"
      unfolding write_object t_def by simp
    show "scan_once n (cps (put (JObj kvs)) @ rest) = Inr (pyval_of (JObj kvs), rest)"
    proof (cases "kvs = []")
      case True
      then show ?thesis using n by (simp add: Let_def write_object)
    next
      case False
      then have ne: "?kvs \<noteq> []" by (metis length_0_conv length_sort)
      have len: "2 * length t + 1 < m"
        using fuel n unfolding write_object t_def by simp
      have "\<forall>kv \<in> set ?kvs. scans put (snd kv)"
        using JObj by (fastforce simp: list_all_iff snds.simps)
      from scan_members_text [OF ne this] len
      have "scan_members m (cps t @ 125 # rest) = Inr (map (\<lambda>kv. (cps (fst kv), pyval_of (snd kv))) ?kvs, rest)"
        unfolding t_def by blast
      moreover obtain r where "t = CHR 0x22 # r" using members_head [OF ne] unfolding t_def by blast
      ultimately show ?thesis
        unfolding shape using n JObj.prems unique_object_sorted [of kvs] by (simp add: Let_def)
    qed
  qed
next
  case (JBool b)
  show ?case
    unfolding scans_def
  proof (intro allI impI)
    fix n rest assume "2 * length (put (JBool b)) < n"
    then obtain m where "n = Suc m" by (cases n) auto
    then show "scan_once n (cps (put (JBool b)) @ rest) = Inr (pyval_of (JBool b), rest)"
      using scan_atom_keyword [of rest] by simp
  qed
next
  case JNull
  show ?case
    unfolding scans_def
  proof (intro allI impI)
    fix n rest assume "2 * length (put JNull) < n"
    then obtain m where "n = Suc m" by (cases n) auto
    then show "scan_once n (cps (put JNull) @ rest) = Inr (pyval_of JNull, rest)"
      using scan_atom_keyword [of rest] by simp
  qed
next
  case (JStr s)
  show ?case
    unfolding scans_def
  proof (intro allI impI)
    fix n rest assume "2 * length (put (JStr s)) < n"
    then obtain m where "n = Suc m" by (cases n) auto
    then show "scan_once n (cps (put (JStr s)) @ rest) = Inr (pyval_of (JStr s), rest)"
      using str_head [of s] str_scan [of s rest] by auto
  qed
qed

lemma loads_write: "json_ok j \<Longrightarrow> strict_json_loads (utf8 (put j)) = Inr (pyval_of j)"
proof -
  assume "json_ok j"
  then have "scan_once (2 * length (put j) + 2) (cps (put j) @ []) = Inr (pyval_of j, [])"
    by (intro scansD scans_json) simp_all
  moreover have "skip_ws (cps (put j)) = cps (put j)"
    using skip_ws_write [of j "[]"] by simp
  moreover have "code (hd (put j)) \<noteq> 65279"
    using code_less [of "hd (put j)"] by linarith
  then have "take 1 (cps (put j)) \<noteq> [65279]"
    by (cases "put j") simp_all
  ultimately show ?thesis
    by (simp add: strict_json_loads_def utf8_decode_utf8 json_loads_def skip_ws_def)
qed

end

lemma dumps_object: "dumps (JObj kvs) =
    ''{'' @ join_with '','' (map (\<lambda>kv. member_text (fst kv, dumps (snd kv))) (sort_key fst kvs)) @ ''}''"
  by (simp add: sort_key_map [where g = fst] comp_def)

interpretation plain: json_writer str_text dumps
proof
  show "scan_string (drop 1 (cps (str_text s) @ rest)) = Inr (cps s, rest)" for s rest
    using scan_string_text [of s rest] by (simp add: str_text_def)
  show "dumps (JObj kvs) =
      ''{'' @ join_with '','' (map (\<lambda>kv. str_text (fst kv) @ '':'' @ dumps (snd kv)) (sort_key fst kvs)) @ ''}''" for kvs
    by (simp add: sort_key_map [where g = fst] comp_def member_text_def)
qed (simp_all add: str_text_def)

theorem loads_dumps: "json_ok j \<Longrightarrow> strict_json_loads (json_bytes j) = Inr (pyval_of j)"
  unfolding json_bytes_def by (rule plain.loads_write)

subsection \<open>Objects never repeat a key\<close>

fun unique_keys :: "pyval \<Rightarrow> bool" where
  "unique_keys (PList vs) = list_all unique_keys vs"
| "unique_keys (PDict kvs) = (distinct (map fst kvs) \<and> list_all (\<lambda>kv. unique_keys (snd kv)) kvs)"
| "unique_keys _ = True"

lemma scan_atom_unique: "scan_atom s = Inr (v, r) \<Longrightarrow> unique_keys v"
  by (auto simp: scan_atom_def scan_keyword_def scan_number_def reject_constant_def Let_def
    split: option.splits if_splits prod.splits)

lemma unique_object_unique:
  "unique_object kvs = Inr v \<Longrightarrow> list_all (\<lambda>kv. unique_keys (snd kv)) kvs \<Longrightarrow> unique_keys v"
  by (auto simp: unique_object_def split: if_splits)

lemma scan_unique:
  "(\<forall>s v r. scan_once n s = Inr (v, r) \<longrightarrow> unique_keys v)
   \<and> (\<forall>s vs r. scan_elements n s = Inr (vs, r) \<longrightarrow> list_all unique_keys vs)
   \<and> (\<forall>s kvs r. scan_members n s = Inr (kvs, r) \<longrightarrow> list_all (\<lambda>kv. unique_keys (snd kv)) kvs)"
proof (induction n)
  case (Suc n)
  then have IH: "\<And>s v r. scan_once n s = Inr (v, r) \<Longrightarrow> unique_keys v"
    "\<And>s vs r. scan_elements n s = Inr (vs, r) \<Longrightarrow> list_all unique_keys vs"
    "\<And>s kvs r. scan_members n s = Inr (kvs, r) \<Longrightarrow> list_all (\<lambda>kv. unique_keys (snd kv)) kvs"
    by blast+
  have "unique_keys v" if "scan_once (Suc n) s = Inr (v, r)" for s v r
    using that IH(2,3)
    by (auto simp: Let_def split: list.splits if_splits dest: scan_atom_unique unique_object_unique)
  moreover have "list_all unique_keys vs" if "scan_elements (Suc n) s = Inr (vs, r)" for s vs r
    using that IH(1,2) by (auto simp: Let_def split: if_splits)
  moreover have "list_all (\<lambda>kv. unique_keys (snd kv)) kvs" if "scan_members (Suc n) s = Inr (kvs, r)" for s kvs r
    using that IH(1,3) by (auto simp: Let_def split: if_splits)
  ultimately show ?case by blast
qed simp

lemma loads_unique: "strict_json_loads payload = Inr v \<Longrightarrow> unique_keys v"
  by (auto simp: strict_json_loads_def json_loads_def simp del: scan_once.simps
    split: option.splits if_splits dest: scan_unique [THEN conjunct1, rule_format])

subsection \<open>Properties\<close>


text \<open>C29: Canonical JSON reads back: the strict decoder returns exactly the encoded value (the members in the
  order of their sorted keys), for every value whose objects have distinct keys and whose
  integers have at most 4300 digits.\<close>

theorem strict_json_roundtrip:
  assumes "json_ok j"
  shows "strict_json_loads (json_bytes j) = Inr (pyval_of j)"
  using assms by (rule loads_dumps)

definition json_example :: json where
  "json_example = JObj [(''b'', JArr [JInt (- 120), JNull, JBool True]), (''a'', JStr [CHR 0x22, CHR 0x0A, CHR 0xE9])]"

theorem strict_json_roundtrip_witness:
  "strict_json_loads (json_bytes json_example) =
     Inr (PDict [(cps ''a'', PStr [34, 10, 233]), (cps ''b'', PList [PInt (- 120), PNone, PBool True])])"
proof -
  have "json_ok json_example"
    by (simp add: json_example_def int_digits_def nat_text.simps MAX_STR_DIGITS_def)
  moreover have "code CHR 0xE9 = 233" by (simp add: code_def)
  ultimately show ?thesis
    using strict_json_roundtrip [of json_example] by (simp add: json_example_def)
qed

text \<open>No object of a decoded document repeats a key, at any depth: bytes with a repeated key are
  refused, so a later member cannot silently replace an earlier one.\<close>

theorem strict_json_no_duplicates:
  assumes "strict_json_loads payload = Inr v"
  shows "unique_keys v"
  using assms by (rule loads_unique)

theorem strict_json_no_duplicates_witness:
  "strict_json_loads (json_bytes json_example) = Inr (pyval_of json_example)
   \<and> unique_keys (pyval_of json_example)"
proof -
  have "json_ok json_example"
    by (simp add: json_example_def int_digits_def nat_text.simps MAX_STR_DIGITS_def)
  from loads_dumps [OF this] strict_json_no_duplicates [OF loads_dumps [OF this]] show ?thesis by simp
qed

end
