(* ===== verification/AsciiJson.thy ===== *)
theory AsciiJson
  imports JsonLoads
begin

text \<open>
  The JSON text of \<open>json.dumps(value, sort_keys=True, separators=(",", ":"))\<close>, that is with
  \<open>ensure_ascii\<close> left on: every character outside the printable ASCII range is written as an escape.
  Some modules hash this text and others the text of theory \<open>CanonicalJson\<close>; the last lemma says
  when the two agree.
\<close>

text \<open>\<open>json.encoder.ESCAPE_ASCII\<close>\<close>

definition ascii_esc_char :: "char \<Rightarrow> string" where
  "ascii_esc_char c =
     (if 126 < code c then CHR 0x5C # ''u00'' @ [hex_digit (code c div 16), hex_digit (code c)]
      else esc_char c)"

definition ascii_str_text :: "string \<Rightarrow> string" where
  "ascii_str_text s = CHR 0x22 # concat (map ascii_esc_char s) @ [CHR 0x22]"

definition ascii_member_text :: "string \<times> string \<Rightarrow> string" where
  "ascii_member_text kv = ascii_str_text (fst kv) @ '':'' @ snd kv"

fun ascii_dumps :: "json \<Rightarrow> string" where
  "ascii_dumps JNull = ''null''"
| "ascii_dumps (JBool b) = (if b then ''true'' else ''false'')"
| "ascii_dumps (JInt i) = int_text i"
| "ascii_dumps (JStr s) = ascii_str_text s"
| "ascii_dumps (JArr js) = ''['' @ join_with '','' (map ascii_dumps js) @ '']''"
| "ascii_dumps (JObj kvs) =
     ''{'' @ join_with '','' (map ascii_member_text
        (sort_key fst (map (\<lambda>kv. (fst kv, ascii_dumps (snd kv))) kvs))) @ ''}''"

definition ascii_json_bytes :: "json \<Rightarrow> string" where
  "ascii_json_bytes j = utf8 (ascii_dumps j)"

text \<open>CPython refuses to write an integer of more than 4300 digits.\<close>

fun ints_ok :: "json \<Rightarrow> bool" where
  "ints_ok (JInt i) = (int_digits i \<le> MAX_STR_DIGITS)"
| "ints_ok (JArr js) = list_all ints_ok js"
| "ints_ok (JObj kvs) = list_all (\<lambda>kv. ints_ok (snd kv)) kvs"
| "ints_ok _ = True"

definition dumpable :: "json \<Rightarrow> unit res" where
  "dumpable j = require (ints_ok j) ''Exceeds the limit (4300 digits) for integer string conversion''"

definition ascii_json :: "json \<Rightarrow> string res" where
  "ascii_json j = bindR (dumpable j) (\<lambda>_. Inr (ascii_json_bytes j))"

lemma ascii_json_Inr [simp]: "ascii_json j = Inr bs \<longleftrightarrow> ints_ok j \<and> bs = ascii_json_bytes j"
  by (auto simp: ascii_json_def dumpable_def)

subsection \<open>When the two texts agree\<close>

definition low :: "string \<Rightarrow> bool" where
  "low s = list_all (\<lambda>c. code c \<le> 126) s"

fun low_json :: "json \<Rightarrow> bool" where
  "low_json (JStr s) = low s"
| "low_json (JArr js) = list_all low_json js"
| "low_json (JObj kvs) = list_all (\<lambda>kv. low (fst kv) \<and> low_json (snd kv)) kvs"
| "low_json _ = True"

lemma ascii_str_text_low: "low s \<Longrightarrow> ascii_str_text s = str_text s"
proof -
  assume "low s"
  then have "concat (map ascii_esc_char s) = concat (map esc_char s)"
    by (induction s) (auto simp: low_def ascii_esc_char_def)
  then show ?thesis by (simp add: ascii_str_text_def str_text_def)
qed

lemma ascii_dumps_low: "low_json j \<Longrightarrow> ascii_dumps j = dumps j"
proof (induction j rule: low_json.induct)
  case (2 js)
  then have "map ascii_dumps js = map dumps js" by (auto simp: list_all_iff)
  then show ?case by (simp only: ascii_dumps.simps dumps.simps)
next
  case (3 kvs)
  then have same: "map (\<lambda>kv. (fst kv, ascii_dumps (snd kv))) kvs = map (\<lambda>kv. (fst kv, dumps (snd kv))) kvs"
    by (auto simp: list_all_iff)
  let ?enc = "sort_key fst (map (\<lambda>kv. (fst kv, dumps (snd kv))) kvs)"
  have "ascii_member_text kv = member_text kv" if "kv \<in> set ?enc" for kv
    using that 3 by (auto simp: ascii_member_text_def member_text_def list_all_iff intro!: ascii_str_text_low)
  then have "map ascii_member_text ?enc = map member_text ?enc" by simp
  then show ?case by (simp only: ascii_dumps.simps dumps.simps same)
qed (simp_all add: ascii_str_text_low)

text \<open>The bytes that escaping adds.\<close>

definition surplus :: "string \<Rightarrow> nat" where
  "surplus s = sum_list (map (\<lambda>c. if 126 < code c then 6 - length (utf8_char c) else 0) s)"

fun json_surplus :: "json \<Rightarrow> nat" where
  "json_surplus (JStr s) = surplus s"
| "json_surplus (JArr js) = sum_list (map json_surplus js)"
| "json_surplus (JObj kvs) = sum_list (map (\<lambda>kv. surplus (fst kv) + json_surplus (snd kv)) kvs)"
| "json_surplus _ = 0"

lemma utf8_hex: "length (utf8_char (hex_digit n)) = 1"
proof -
  have "hex_digit n \<in> set hex_lower" by (rule hex_digit_hex)
  then show ?thesis by (auto simp: hex_lower_def utf8_char_def code_def)
qed

lemma length_ascii_esc:
  "length (utf8 (ascii_esc_char c)) =
     length (utf8 (esc_char c)) + (if 126 < code c then 6 - length (utf8_char c) else 0)"
proof (cases "126 < code c")
  case True
  then have "c \<notin> {CHR 0x22, CHR 0x5C, CHR 0x0A, CHR 0x0D, CHR 0x09, CHR 0x0C, CHR 0x08}" "\<not> code c < 32"
    by (auto simp: code_def)
  then have "esc_char c = [c]" by (simp add: esc_char_def)
  moreover have "length (utf8 (ascii_esc_char c)) = 6"
    using True by (simp add: ascii_esc_char_def utf8_hex) (simp add: utf8_char_def code_def)
  ultimately show ?thesis using True length_utf8_char [of c] by simp
qed (simp add: ascii_esc_char_def)

lemma length_ascii_str: "length (utf8 (ascii_str_text s)) = length (utf8 (str_text s)) + surplus s"
proof -
  have "length (utf8 (concat (map ascii_esc_char s))) = length (utf8 (concat (map esc_char s))) + surplus s"
    by (induction s) (simp_all add: surplus_def length_ascii_esc)
  then show ?thesis by (simp add: ascii_str_text_def str_text_def)
qed

lemma length_utf8_join:
  "length (utf8 (join_with '','' ps)) = sum_list (map (\<lambda>p. length (utf8 p)) ps) + (length ps - 1)"
proof (induction ps rule: induct_list012)
  case (3 p q ps)
  then show ?case by (simp add: utf8_char_def code_def)
qed auto

lemma length_ascii_dumps: "length (utf8 (ascii_dumps j)) = length (utf8 (dumps j)) + json_surplus j"
proof (induction j rule: json_surplus.induct)
  case (1 s)
  show ?case by (simp add: length_ascii_str)
next
  case (2 js)
  then have "map (\<lambda>p. length (utf8 (ascii_dumps p))) js = map (\<lambda>p. length (utf8 (dumps p)) + json_surplus p) js"
    by simp
  from arg_cong [OF this, of sum_list] show ?case
    by (simp add: length_utf8_join comp_def sum_list_addf del: map_eq_conv)
next
  case (3 kvs)
  let ?a = "map (\<lambda>kv. (fst kv, ascii_dumps (snd kv))) kvs" and ?d = "map (\<lambda>kv. (fst kv, dumps (snd kv))) kvs"
  have total: "sum_list (map f (sort_key fst xs)) = sum_list (map f xs)"
    for f :: "string \<times> string \<Rightarrow> nat" and xs by (rule sum_list_sort_key)
  have "sum_list (map (\<lambda>kv. length (utf8 (ascii_member_text kv))) ?a)
      = sum_list (map (\<lambda>kv. length (utf8 (member_text kv))) ?d)
        + sum_list (map (\<lambda>kv. surplus (fst kv) + json_surplus (snd kv)) kvs)"
    using 3 by (simp add: comp_def sum_list_addf [symmetric] ascii_member_text_def member_text_def
        length_ascii_str algebra_simps cong: map_cong)
  then show ?case by (simp add: length_utf8_join comp_def total)
qed simp_all

lemma surplus_zero: "surplus s = 0 \<longleftrightarrow> low s"
proof -
  have "(if 126 < code c then 6 - length (utf8_char c) else 0) = 0 \<longleftrightarrow> code c \<le> 126" for c
    using length_utf8_char [of c] by simp
  then show ?thesis by (induction s) (simp_all add: surplus_def low_def)
qed

lemma json_surplus_zero: "json_surplus j = 0 \<longleftrightarrow> low_json j"
  by (induction j rule: low_json.induct) (auto simp: surplus_zero list_all_iff)

lemma ascii_json_bytes_eq: "ascii_json_bytes j = json_bytes j \<longleftrightarrow> low_json j"
proof
  assume "ascii_json_bytes j = json_bytes j"
  then have "json_surplus j = 0" using length_ascii_dumps [of j] by (simp add: ascii_json_bytes_def json_bytes_def)
  then show "low_json j" by (simp add: json_surplus_zero)
qed (simp add: ascii_json_bytes_def json_bytes_def ascii_dumps_low)

subsection \<open>The reader inverts the ASCII text as well\<close>

lemma unicode_escape_byte:
  "unicode_escape (48 # 48 # code (hex_digit (code c div 16)) # code (hex_digit (code c)) # s) = Some (code c, s)"
proof -
  have "code c div 16 < 16" using code_less [of c] by (simp add: less_mult_imp_div_less)
  moreover have "\<not> 55296 \<le> code c" using code_less [of c] by linarith
  ultimately show ?thesis by (simp add: unicode_escape_def hex_value_digit, simp add: hex_value_def is_digit_def)
qed

lemma scan_string_ascii: "scan_string (cps (ascii_esc_char c) @ s) = cons_char (code c) (scan_string s)"
proof (cases "126 < code c")
  case True
  then show ?thesis by (simp add: ascii_esc_char_def scan_string.simps(2) unicode_escape_byte)
qed (simp add: ascii_esc_char_def scan_string_esc)

interpretation ascii: json_writer ascii_str_text ascii_dumps
proof
  have "scan_string (cps (concat (map ascii_esc_char s)) @ 34 # rest) = Inr (cps s, rest)" for s rest
    by (induction s) (simp_all add: scan_string.simps(2) scan_string_ascii cons_char_def)
  then show "scan_string (drop 1 (cps (ascii_str_text s) @ rest)) = Inr (cps s, rest)" for s rest
    by (simp add: ascii_str_text_def)
  show "ascii_dumps (JObj kvs) = ''{'' @ join_with '',''
      (map (\<lambda>kv. ascii_str_text (fst kv) @ '':'' @ ascii_dumps (snd kv)) (sort_key fst kvs)) @ ''}''" for kvs
    by (simp add: sort_key_map [where g = fst] comp_def ascii_member_text_def)
qed (simp_all add: ascii_str_text_def)

lemma loads_ascii: "json_ok j \<Longrightarrow> strict_json_loads (ascii_json_bytes j) = Inr (pyval_of j)"
  unfolding ascii_json_bytes_def by (rule ascii.loads_write)

end
