(* ===== verification/LifecycleBase.thy ===== *)
theory LifecycleBase
  imports ResourcePaths CanonicalJson StagedResourceCredit
begin

text \<open>
  The helpers that every record of \<open>application/contracts/remote_parse_lifecycle_v4.py\<close> uses:
  canonical bytes and digests, identities, paths, resource kinds, checked sums. The four
  attributes that all records of one attempt share are a record that the others extend, so that
  \<open>_same_identity\<close> compares the common part.
\<close>

definition MAX_BYTES :: nat where
  "MAX_BYTES = 1024 * 1024"

definition lifecycle_json :: "json \<Rightarrow> string res" where
  "lifecycle_json = canonical_json MAX_BYTES ''canonical record bytes are outside the envelope''"

text \<open>\<open>sha256\<close> of a record: the digest of its canonical bytes.\<close>

definition digest_of :: "string res \<Rightarrow> string res" where
  "digest_of bytes = bindR bytes (\<lambda>b. Inr (digest b))"

definition identity_ok :: "string \<Rightarrow> bool" where
  "identity_ok v = (\<not> (v = '''' \<or> v \<noteq> py_strip v \<or> length (utf8 v) > 512 \<or> list_ex control v))"

definition identity :: "string \<Rightarrow> string \<Rightarrow> unit res" where
  "identity v label = require (identity_ok v) (label @ '' is invalid'')"

definition identity_tuple :: "string list \<Rightarrow> unit res" where
  "identity_tuple vs = checks (map (\<lambda>v. identity v ''identity'') vs)"

definition relative_path :: "string \<Rightarrow> string \<Rightarrow> unit res" where
  "relative_path = validate_relative_resource_path_v4"

lemma identity_Inr [simp]: "identity v label = Inr u \<longleftrightarrow> identity_ok v"
  by (simp add: identity_def)

lemma identity_tuple_Inr [simp]: "identity_tuple vs = Inr u \<longleftrightarrow> list_all identity_ok vs"
  by (simp add: identity_tuple_def list_all_iff)

lemma digest_of_Inr [simp]: "digest_of bytes = Inr d \<longleftrightarrow> (\<exists>b. bytes = Inr b \<and> d = digest b)"
  by (auto simp: digest_of_def)

subsection \<open>The shared identity of an attempt's records\<close>

record attempt_identity =
  attempt_id :: string
  fence_identity :: string
  document_id :: string
  processing_run_id :: string

definition identities :: "'a attempt_identity_scheme \<Rightarrow> string list" where
  "identities r = [attempt_id r, fence_identity r, document_id r, processing_run_id r]"

definition identity_members :: "'a attempt_identity_scheme \<Rightarrow> (string \<times> json) list" where
  "identity_members r =
     [(''attempt_id'', JStr (attempt_id r)),
      (''fence_identity'', JStr (fence_identity r)),
      (''document_id'', JStr (document_id r)),
      (''processing_run_id'', JStr (processing_run_id r))]"

text \<open>\<open>_same_identity\<close>, for two records of which at most one carries an attempt generation.\<close>

definition same_identity :: "'a attempt_identity_scheme \<Rightarrow> 'b attempt_identity_scheme \<Rightarrow> unit res" where
  "same_identity l r =
     require (attempt_identity.truncate l = attempt_identity.truncate r) ''attempt identity drifted''"

lemma same_identity_Inr [simp]: "same_identity l r = Inr u \<longleftrightarrow>
    attempt_id l = attempt_id r \<and> fence_identity l = fence_identity r \<and>
    document_id l = document_id r \<and> processing_run_id l = processing_run_id r"
  by (auto simp: same_identity_def attempt_identity.truncate_def)

lemma identity_members_bound:
  assumes "list_all identity_ok (identities r)"
  shows "sum_list (map (\<lambda>kv. 4 + 6 * length (fst kv) + text_bound (snd kv)) (identity_members r)) \<le> 13000"
proof -
  have len: "length v \<le> 512" if "identity_ok v" for v
    using that utf8_ge_length [of v] by (simp add: identity_ok_def)
  from assms have "length (attempt_id r) \<le> 512" "length (fence_identity r) \<le> 512"
      "length (document_id r) \<le> 512" "length (processing_run_id r) \<le> 512"
    by (auto simp: identities_def intro: len)
  then show ?thesis by (simp add: identity_members_def)
qed

subsection \<open>Resource kinds, sums and paths\<close>

datatype resource_kind =
    Snapshot
  | Snapshot_part
  | Snapshot_part_owner
  | Spool
  | Spool_part
  | Spool_part_owner
  | Staging
  | Staging_marker
  | Output

fun kind_name :: "resource_kind \<Rightarrow> string" where
  "kind_name Snapshot = ''snapshot''"
| "kind_name Snapshot_part = ''snapshot_part''"
| "kind_name Snapshot_part_owner = ''snapshot_part_owner''"
| "kind_name Spool = ''spool''"
| "kind_name Spool_part = ''spool_part''"
| "kind_name Spool_part_owner = ''spool_part_owner''"
| "kind_name Staging = ''staging''"
| "kind_name Staging_marker = ''staging_marker''"
| "kind_name Output = ''output''"

text \<open>\<open>_RESOURCE_KINDS\<close> and \<open>_RESOURCE_ORDER\<close>\<close>

definition resource_kinds :: "resource_kind list" where
  "resource_kinds =
     [Snapshot, Snapshot_part, Snapshot_part_owner, Spool, Spool_part, Spool_part_owner,
      Staging, Staging_marker, Output]"

fun resource_order :: "resource_kind \<Rightarrow> nat" where
  "resource_order Snapshot = 0"
| "resource_order Snapshot_part = 1"
| "resource_order Snapshot_part_owner = 2"
| "resource_order Spool = 3"
| "resource_order Spool_part = 4"
| "resource_order Spool_part_owner = 5"
| "resource_order Staging = 6"
| "resource_order Staging_marker = 7"
| "resource_order Output = 8"

text \<open>The order is a linear order on kinds, so that lists of entries can be sorted by it.\<close>

instantiation resource_kind :: linorder
begin

definition less_eq_resource_kind :: "resource_kind \<Rightarrow> resource_kind \<Rightarrow> bool" where
  "less_eq_resource_kind a b = (resource_order a \<le> resource_order b)"

definition less_resource_kind :: "resource_kind \<Rightarrow> resource_kind \<Rightarrow> bool" where
  "less_resource_kind a b = (resource_order a < resource_order b)"

instance
proof
  fix a b c :: resource_kind
  show "(a < b) = (a \<le> b \<and> \<not> b \<le> a)"
    by (auto simp: less_eq_resource_kind_def less_resource_kind_def)
  show "a \<le> a" by (simp add: less_eq_resource_kind_def)
  show "a \<le> b \<Longrightarrow> b \<le> c \<Longrightarrow> a \<le> c" by (simp add: less_eq_resource_kind_def)
  show "a \<le> b \<Longrightarrow> b \<le> a \<Longrightarrow> a = b"
    by (cases a; cases b) (simp_all add: less_eq_resource_kind_def)
  show "a \<le> b \<or> b \<le> a" by (auto simp: less_eq_resource_kind_def)
qed

end

text \<open>\<open>_checked_sum\<close>\<close>

fun checked_sum_from :: "int \<Rightarrow> int list \<Rightarrow> int res" where
  "checked_sum_from acc [] = Inr acc"
| "checked_sum_from acc (v # vs) =
     bindR (nonnegative v ''byte count'') (\<lambda>_.
       if acc + v > MAX_INT then Inl (ValueError ''canonical byte count overflowed'')
       else checked_sum_from (acc + v) vs)"

definition lifecycle_checked_sum :: "int list \<Rightarrow> int res" where
  "lifecycle_checked_sum vs = checked_sum_from 0 vs"

definition deterministic_local_resource_paths_v4 ::
  "string \<Rightarrow> string \<Rightarrow> string \<Rightarrow> string option \<Rightarrow> string option \<Rightarrow> string option \<Rightarrow> relpaths res" where
  "deterministic_local_resource_paths_v4 attempt fence source_pdf_sha256
       artifact_owner_identity artifact_sha256 output_dir_name =
     bindR (checks [identity_tuple [attempt, fence], require_sha source_pdf_sha256 ''source PDF'']) (\<lambda>_.
     bindR (staged_snapshot_relpaths attempt fence source_pdf_sha256) (\<lambda>paths.
     case artifact_owner_identity of
       None \<Rightarrow> bindR (require (\<not> (artifact_sha256 \<noteq> None \<or> output_dir_name \<noteq> None))
           ''post-terminal path inputs are incomplete'') (\<lambda>_. Inr paths)
     | Some owner \<Rightarrow>
         bindR (identity owner ''artifact owner'') (\<lambda>_.
         case (artifact_sha256, output_dir_name) of
           (Some artifact, Some dir) \<Rightarrow>
             bindR (checks [require_sha artifact ''retained artifact'', identity dir ''output directory name'']) (\<lambda>_.
             bindR (staged_retained_relpaths attempt fence owner artifact) (\<lambda>retained.
             bindR (staged_materialization_relpaths dir attempt fence artifact) (\<lambda>materialization.
               Inr (paths @ retained @ materialization))))
         | _ \<Rightarrow> Inl (ValueError ''post-terminal path inputs are incomplete''))))"

text \<open>\<open>paths[name]\<close>\<close>

definition path_at :: "relpaths \<Rightarrow> string \<Rightarrow> string res" where
  "path_at paths name = (case map_of paths name of None \<Rightarrow> Inl (KeyError name) | Some p \<Rightarrow> Inr p)"

definition deterministic_local_resource_relpath_v4 ::
  "resource_kind \<Rightarrow> string \<Rightarrow> string \<Rightarrow> string \<Rightarrow> string option \<Rightarrow> string option \<Rightarrow> string option \<Rightarrow> string res" where
  "deterministic_local_resource_relpath_v4 kind attempt fence source owner artifact dir =
     bindR (deterministic_local_resource_paths_v4 attempt fence source owner artifact dir) (\<lambda>paths.
       case map_of paths (kind_name kind) of
         None \<Rightarrow> Inl (ValueError ''resource path is unavailable before its evidence exists'')
       | Some p \<Rightarrow> Inr p)"

end
