(* ===== verification/Codec.thy ===== *)
theory Codec
  imports JsonLoads LifecycleBase
begin

text \<open>
  What the decoders of the contract modules share: \<open>_decode_canonical_object\<close>, \<open>_mapping\<close>, \<open>_closed\<close>,
  \<open>_decode_tuple\<close> and \<open>_canonical_match\<close> of \<open>application/contracts/remote_parse_lifecycle_v4.py\<close>, the
  reading of attributes, and the contract of a record's canonical form as a locale.

  A constructor receives untyped values and refuses one of a wrong type by the first of its checks that
  notices. The records here are typed, so the model refuses it when the attribute is read,
  as \<open>WRONG_TYPE\<close>; a string with a code point above 255, which a \<^typ>\<open>string\<close> cannot hold,
  is refused as \<open>OUTSIDE_ALPHABET\<close>. The source lets four comparisons accept a value of another type:
  \<open>resource_count\<close> and \<open>result_count\<close> (\<open>true\<close> or \<open>1.0\<close> for one), \<open>http_status\<close> (\<open>200.0\<close>), and the
  \<open>effort\<close> of a target without a hybrid backend (any scalar); those bytes are refused here.
\<close>

type_synonym obj = "(ucs \<times> pyval) list"

definition WRONG_TYPE :: py_error where
  "WRONG_TYPE = ValueError ''attribute has the wrong type''"

definition OUTSIDE_ALPHABET :: py_error where
  "OUTSIDE_ALPHABET = ValueError ''code point outside the modelled alphabet''"

subsection \<open>Reading attributes\<close>

definition as_int :: "pyval \<Rightarrow> int res" where
  "as_int v = (case v of PInt i \<Rightarrow> Inr i | _ \<Rightarrow> Inl WRONG_TYPE)"

definition as_bool :: "pyval \<Rightarrow> bool res" where
  "as_bool v = (case v of PBool b \<Rightarrow> Inr b | _ \<Rightarrow> Inl WRONG_TYPE)"

definition as_str :: "pyval \<Rightarrow> string res" where
  "as_str v = (case v of
     PStr s \<Rightarrow> if list_all (\<lambda>c. c < 256) s then Inr (map char_of s) else Inl OUTSIDE_ALPHABET
   | _ \<Rightarrow> Inl WRONG_TYPE)"

definition as_opt :: "(pyval \<Rightarrow> 'a res) \<Rightarrow> pyval \<Rightarrow> 'a option res" where
  "as_opt f v = (case v of PNone \<Rightarrow> Inr None | _ \<Rightarrow> bindR (f v) (\<lambda>x. Inr (Some x)))"

text \<open>A member of a closed set of names (\<open>value in {...}\<close>).\<close>

definition as_enum :: "('a \<Rightarrow> string) \<Rightarrow> 'a list \<Rightarrow> string \<Rightarrow> pyval \<Rightarrow> 'a res" where
  "as_enum name all msg v = bindR (as_str v) (\<lambda>s.
     case find (\<lambda>a. name a = s) all of None \<Rightarrow> Inl (ValueError msg) | Some a \<Rightarrow> Inr a)"

definition attr :: "obj \<Rightarrow> string \<Rightarrow> pyval option" where
  "attr d name = map_of d (cps name)"

definition get :: "obj \<Rightarrow> string \<Rightarrow> (pyval \<Rightarrow> 'a res) \<Rightarrow> 'a res" where
  "get d name f = (case attr d name of None \<Rightarrow> Inl (KeyError name) | Some v \<Rightarrow> f v)"

text \<open>\<open>_mapping\<close> and \<open>_closed\<close>\<close>

definition as_mapping :: "string \<Rightarrow> pyval \<Rightarrow> obj res" where
  "as_mapping label v = (case v of PDict d \<Rightarrow> Inr d | _ \<Rightarrow> Inl (ValueError (label @ '' must be an object'')))"

definition closed :: "obj \<Rightarrow> string list \<Rightarrow> string \<Rightarrow> unit res" where
  "closed d names cls = require (set (map fst d) = set (map cps names)) (cls @ '' fields are not closed'')"

text \<open>\<open>_decode_tuple\<close>: each element is a closed object, constructed in turn.\<close>

fun decode_items :: "(obj \<Rightarrow> 'a res) \<Rightarrow> string list \<Rightarrow> string \<Rightarrow> string \<Rightarrow> pyval list \<Rightarrow> 'a list res" where
  "decode_items construct_item names cls label [] = Inr []"
| "decode_items construct_item names cls label (v # vs) =
     bindR (as_mapping label v) (\<lambda>d. bindR (closed d names cls) (\<lambda>_. bindR (construct_item d) (\<lambda>x.
     bindR (decode_items construct_item names cls label vs) (\<lambda>xs. Inr (x # xs)))))"

definition decode_tuple :: "(obj \<Rightarrow> 'a res) \<Rightarrow> string list \<Rightarrow> string \<Rightarrow> string \<Rightarrow> pyval \<Rightarrow> 'a list res" where
  "decode_tuple construct_item names cls label v = (case v of
     PList vs \<Rightarrow> decode_items construct_item names cls label vs
   | _ \<Rightarrow> Inl (ValueError (label @ '' must be an array'')))"

definition decode_canonical_object :: "string \<Rightarrow> obj res" where
  "decode_canonical_object exact =
     bindR (require (1 \<le> length exact \<and> length exact \<le> MAX_BYTES) ''canonical record bytes are outside the envelope'') (\<lambda>_.
     bindR (strict_json_loads exact) (\<lambda>v.
       case v of PDict d \<Rightarrow> Inr d | _ \<Rightarrow> Inl (ValueError ''canonical record must be an object'')))"

text \<open>\<open>_canonical_match(value.canonical_bytes, exact_bytes)\<close>, then \<open>return value\<close>\<close>

definition canonical_match :: "('r \<Rightarrow> string res) \<Rightarrow> string \<Rightarrow> 'r \<Rightarrow> 'r res" where
  "canonical_match encode expected value =
     bindR (encode value) (\<lambda>observed.
     bindR (require (observed = expected) ''canonical record JSON is not canonical'') (\<lambda>_. Inr value))"

text \<open>
  The decoder of a record: the canonical object, its closed fields, the constructor, and the
  comparison of the canonical bytes. \<open>build\<close> is the constructor call on the object's attributes.
\<close>

definition decode_record ::
  "('r \<Rightarrow> json) \<Rightarrow> string list \<Rightarrow> string \<Rightarrow> (obj \<Rightarrow> 'r res) \<Rightarrow> string \<Rightarrow> 'r res" where
  "decode_record payload names cls build exact =
     bindR (decode_canonical_object exact) (\<lambda>d.
     bindR (closed d names cls) (\<lambda>_.
     bindR (build d) (\<lambda>r.
       canonical_match (\<lambda>r. lifecycle_json (payload r)) exact r)))"

subsection \<open>Reading what was written\<close>

text \<open>The object that the text of an object with these members is parsed to.\<close>

definition obj_of :: "(string \<times> json) list \<Rightarrow> obj" where
  "obj_of kvs = map (\<lambda>kv. (cps (fst kv), pyval_of (snd kv))) (sort_key fst kvs)"

fun members_of :: "json \<Rightarrow> (string \<times> json) list" where
  "members_of (JObj kvs) = kvs"
| "members_of _ = []"

lemma pyval_of_object: "pyval_of (JObj kvs) = PDict (obj_of kvs)"
  by (simp add: obj_of_def)

lemma map_of_obj_of:
  assumes "distinct (map fst kvs)" and "map_of kvs k = Some j"
  shows "map_of (obj_of kvs) (cps k) = Some (pyval_of j)"
proof -
  have "map_of (sort_key fst kvs) k = Some j"
  proof (rule map_of_is_SomeI)
    show "distinct (map fst (sort_key fst kvs))"
      using assms(1) by (simp add: distinct_sorted_keys)
    show "(k, j) \<in> set (sort_key fst kvs)"
      using assms(2) by (simp add: map_of_SomeD)
  qed
  moreover have "map_of (map (\<lambda>kv. (cps (fst kv), pyval_of (snd kv))) xs) (cps k)
      = map_option pyval_of (map_of xs k)" for xs
    by (induction xs) auto
  ultimately show ?thesis by (simp add: obj_of_def)
qed

lemma attr_obj_of: "distinct (map fst kvs) \<Longrightarrow> map_of kvs k = Some j \<Longrightarrow> attr (obj_of kvs) k = Some (pyval_of j)"
  by (simp add: attr_def map_of_obj_of)

lemma attr_member: "distinct (map fst kvs) \<Longrightarrow> (k, j) \<in> set kvs \<Longrightarrow> attr (obj_of kvs) k = Some (pyval_of j)"
  by (simp add: attr_obj_of)

text \<open>Every attribute of a written object at once.\<close>

lemma attrs_obj_of:
  assumes "kvs = members" and "distinct (map fst members)"
  shows "list_all (\<lambda>kv. attr (obj_of kvs) (fst kv) = Some (pyval_of (snd kv))) members"
  using assms by (auto simp: list_all_iff intro!: attr_obj_of)

lemma get_attr: "attr d k = Some v \<Longrightarrow> get d k f = f v"
  by (simp add: get_def)

lemma closed_obj_of: "closed (obj_of kvs) names cls = Inr u \<longleftrightarrow> set (map fst kvs) = set names"
proof -
  have "set (map fst (obj_of kvs)) = cps ` set (map fst kvs)"
    by (simp add: obj_of_def image_image)
  moreover have "inj cps" by (simp add: inj_def)
  ultimately show ?thesis by (simp add: closed_def inj_image_eq_iff)
qed

lemma closed_members [simp]: "names = map fst kvs \<Longrightarrow> closed (obj_of kvs) names cls = Inr ()"
  by (simp add: closed_obj_of)

lemma as_int_of [simp]: "as_int (PInt i) = Inr i"
  by (simp add: as_int_def)

lemma as_bool_of [simp]: "as_bool (PBool b) = Inr b"
  by (simp add: as_bool_def)

lemma map_char_of_cps: "map char_of (cps s) = s"
  by (simp add: cps_def code_def comp_def)

lemma as_str_of [simp]: "as_str (PStr (cps s)) = Inr s"
  by (simp add: as_str_def map_char_of_cps) (simp add: cps_def list_all_iff)

lemma as_opt_str_of [simp]: "as_opt as_str (pyval_of (JOpt v)) = Inr v"
  by (cases v) (simp_all add: as_opt_def JOpt_def)

lemma as_enum_of:
  assumes "a \<in> set all" and "\<And>b. name b = name a \<Longrightarrow> b = a"
  shows "as_enum name all msg (PStr (cps (name a))) = Inr a"
proof -
  have "find (\<lambda>b. name b = name a) all = Some a"
    using assms by (induction all) auto
  then show ?thesis by (simp add: as_enum_def)
qed

lemma as_mapping_of [simp]: "as_mapping label (PDict d) = Inr d"
  by (simp add: as_mapping_def)

lemma decode_items_of:
  assumes "\<And>x. x \<in> set xs \<Longrightarrow> map fst (members x) = names"
    and "\<And>x. x \<in> set xs \<Longrightarrow> construct_item (obj_of (members x)) = Inr x"
  shows "decode_tuple construct_item names cls label (PList (map (\<lambda>x. PDict (obj_of (members x))) xs)) = Inr xs"
proof -
  have "decode_items construct_item names cls label (map (\<lambda>x. PDict (obj_of (members x))) xs) = Inr xs"
    using assms by (induction xs) auto
  then show ?thesis by (simp add: decode_tuple_def)
qed

lemma decode_canonical_object_of:
  assumes "json_ok (JObj kvs)" and "lifecycle_json (JObj kvs) = Inr bs"
  shows "decode_canonical_object bs = Inr (obj_of kvs)"
proof -
  have bs: "bs = json_bytes (JObj kvs)" and len: "length bs \<le> MAX_BYTES"
    using assms(2) unfolding lifecycle_json_def canonical_json_Inr by blast+
  have "length (json_bytes (JObj kvs)) \<le> MAX_BYTES"
    using len unfolding bs .
  moreover have "1 \<le> length (json_bytes (JObj kvs))" by (rule json_bytes_nonempty)
  ultimately show ?thesis
    unfolding bs using loads_dumps [OF assms(1)]
    by (simp add: decode_canonical_object_def require_def obj_of_def)
qed

lemma canonical_match_Inr [simp]:
  "canonical_match encode expected value = Inr w \<longleftrightarrow> encode value = Inr expected \<and> w = value"
  by (auto simp: canonical_match_def)

lemma int_digits_bounded: "0 \<le> i \<Longrightarrow> i \<le> MAX_INT \<Longrightarrow> int_digits i \<le> MAX_STR_DIGITS"
proof -
  assume i: "0 \<le> i" "i \<le> MAX_INT"
  then have "length (int_text i) \<le> 19" by (rule length_int_text)
  with i show ?thesis by (simp add: int_digits_def int_text_def MAX_STR_DIGITS_def)
qed

lemma int_digits_range: "in_range i \<Longrightarrow> int_digits i \<le> MAX_STR_DIGITS"
  by (simp add: in_range_def int_digits_bounded)

text \<open>A record in its envelope has no more items than bytes.\<close>

lemma join_member_length: "p \<in> set ps \<Longrightarrow> length p \<le> length (join_with d ps)"
  by (induction d ps rule: join_with.induct) auto

lemma join_count: "[] \<notin> set ps \<Longrightarrow> length ps \<le> length (join_with d ps)"
proof (induction d ps rule: join_with.induct)
  case (2 d p)
  then show ?case by (cases p) auto
next
  case (3 d p q ps)
  then show ?case by (cases p) auto
qed simp

lemma array_length: "length js \<le> length (dumps (JArr js))"
proof -
  have "[] \<notin> set (map dumps js)" using dumps_nonempty by (metis (no_types) imageE list.set_map)
  from join_count [OF this, of "'',''"] show ?thesis by simp
qed

lemma member_length: "(k, j) \<in> set kvs \<Longrightarrow> length (dumps j) \<le> length (dumps (JObj kvs))"
proof -
  assume "(k, j) \<in> set kvs"
  then have "member_text (k, dumps j) \<in> set (map (\<lambda>kv. member_text (fst kv, dumps (snd kv))) (sort_key fst kvs))"
    by force
  from join_member_length [OF this, of "'',''"] show ?thesis
    unfolding dumps_object by (simp add: member_text_def)
qed

lemma int_digits_items:
  assumes "length (json_bytes (JObj kvs)) \<le> MAX_BYTES" and "(k, JArr js) \<in> set kvs"
  shows "int_digits (int (length js)) \<le> MAX_STR_DIGITS"
proof -
  have "length js \<le> length (dumps (JObj kvs))"
    using array_length [of js] member_length [OF assms(2)] by linarith
  also have "\<dots> \<le> MAX_BYTES"
    using assms(1) utf8_ge_length [of "dumps (JObj kvs)"] unfolding json_bytes_def by linarith
  finally show ?thesis by (intro int_digits_bounded) (simp_all add: MAX_BYTES_def MAX_INT_def)
qed

lemma json_ok_JOpt [simp]: "json_ok (JOpt v)"
  by (cases v) (simp_all add: JOpt_def)

subsection \<open>The contract of a canonical form\<close>

text \<open>
  A record type with its encoder, its decoder and the test of its constructor. What follows holds of
  every record: the decoder accepts exactly the canonical bytes of valid records, a record
  has one canonical form, and a digest names one record unless SHA-256 collides.
\<close>

locale codec =
  fixes encode :: "'r \<Rightarrow> string res"
    and decode :: "string \<Rightarrow> 'r res"
    and ok :: "'r \<Rightarrow> bool"
  assumes decode_encode: "ok r \<Longrightarrow> encode r = Inr bs \<Longrightarrow> decode bs = Inr r"
    and encode_decode: "decode bs = Inr r \<Longrightarrow> ok r \<and> encode r = Inr bs"
begin

lemma decode_iff: "decode bs = Inr r \<longleftrightarrow> ok r \<and> encode r = Inr bs"
  using decode_encode encode_decode by blast

lemma encode_inject:
  assumes "ok r" "ok s" "encode r = Inr bs" "encode s = Inr bs"
  shows "r = s"
  using decode_encode [OF assms(1,3)] decode_encode [OF assms(2,4)] by simp

lemma decode_inject:
  assumes "decode bs = Inr r" "decode cs = Inr r"
  shows "bs = cs"
  using encode_decode [OF assms(1)] encode_decode [OF assms(2)] by simp

lemma digest_names:
  assumes "ok r" "ok s" and "digest_of (encode r) = Inr d" "digest_of (encode s) = Inr d"
  shows "r = s \<or> (\<exists>b c. encode r = Inr b \<and> encode s = Inr c \<and> b \<noteq> c \<and> digest b = digest c)"
proof -
  obtain b c where bc: "encode r = Inr b" "encode s = Inr c" "d = digest b" "d = digest c"
    using assms(3,4) by auto
  show ?thesis
  proof (cases "b = c")
    case True
    with bc encode_inject [OF assms(1,2)] show ?thesis by simp
  qed (use bc in auto)
qed

end

text \<open>Every decoder of that form is a codec, when its constructor reads back what the payload holds.\<close>

lemma codec_record:
  assumes object: "\<And>r. payload r = JObj (members_of (payload r))"
    and fields: "\<And>r. set (map fst (members_of (payload r))) = set names"
    and json: "\<And>r. ok r \<Longrightarrow> length (json_bytes (payload r)) \<le> MAX_BYTES \<Longrightarrow> json_ok (payload r)"
    and build: "\<And>r. ok r \<Longrightarrow> build (obj_of (members_of (payload r))) = Inr r"
    and valid: "\<And>d r. build d = Inr r \<Longrightarrow> ok r"
  shows "codec (\<lambda>r. lifecycle_json (payload r)) (decode_record payload names cls build) ok"
proof
  fix r bs
  assume ok: "ok r" and bs: "lifecycle_json (payload r) = Inr bs"
  let ?kvs = "members_of (payload r)"
  have "length (json_bytes (payload r)) \<le> MAX_BYTES"
    using bs unfolding lifecycle_json_def canonical_json_Inr by blast
  then have "decode_canonical_object bs = Inr (obj_of ?kvs)"
    using json [OF ok] bs object [of r] by (intro decode_canonical_object_of) simp_all
  moreover have "closed (obj_of ?kvs) names cls = Inr ()"
    by (simp only: closed_obj_of fields)
  ultimately show "decode_record payload names cls build bs = Inr r"
    using build [OF ok] bs by (simp add: decode_record_def)
next
  fix bs r
  assume "decode_record payload names cls build bs = Inr r"
  then show "ok r \<and> lifecycle_json (payload r) = Inr bs"
    by (auto simp: decode_record_def dest: valid)
qed

end
