(* ===== verification/ParserTarget.thy ===== *)
theory ParserTarget
  imports CanonicalJson
begin

text \<open>
  \<open>application/contracts/parser_target.py\<close>: the persisted identity of one content-affecting parser
  target and its validation.
\<close>

definition PARSER_TARGET_CONTRACT_VERSION :: string where
  "PARSER_TARGET_CONTRACT_VERSION = ''parser-target.v1''"

definition parser_backends :: "string list" where
  "parser_backends = [''pipeline'', ''vlm-engine'', ''vlm-http-client'', ''hybrid-engine'', ''hybrid-http-client'']"

definition parser_methods :: "string list" where
  "parser_methods = [''auto'', ''txt'', ''ocr'']"

record parser_target_identity =
  pt_name :: string
  pt_package_version :: string
  pt_backend :: string
  pt_method :: string
  pt_language :: string
  pt_formula :: bool
  pt_table :: bool
  pt_effort :: "string option"
  pt_image_analysis :: bool
  pt_full_pdf :: bool
  pt_start_page :: "int option"
  pt_end_page :: "int option"
  pt_runtime_bundle_identity_sha256 :: string
  pt_inline_equation_left :: string
  pt_inline_equation_right :: string
  pt_target_contract_version :: string

definition target_require :: "bool \<Rightarrow> string \<Rightarrow> unit res" where
  "target_require c msg = (if c then Inr () else Inl (ParserTargetIdentityError msg))"

lemma target_require_Inr [simp]: "target_require c msg = Inr u \<longleftrightarrow> c"
  by (simp add: target_require_def)

definition page_ok :: "int option \<Rightarrow> bool" where
  "page_ok page = (case page of None \<Rightarrow> True | Some p \<Rightarrow> \<not> p < 0)"

text \<open>\<open>_validate_target\<close>\<close>

definition validate_target :: "parser_target_identity \<Rightarrow> unit res" where
  "validate_target t = checks
     [target_require (pt_name t \<noteq> '''') ''parser target name must be non-empty text'',
      target_require (pt_package_version t \<noteq> '''') ''parser target package_version must be non-empty text'',
      target_require (pt_language t \<noteq> '''') ''parser target language must be non-empty text'',
      target_require (pt_target_contract_version t = PARSER_TARGET_CONTRACT_VERSION)
        ''parser target contract version is unsupported'',
      target_require (pt_backend t \<in> set parser_backends) ''parser target backend is unsupported'',
      target_require (pt_method t \<in> set parser_methods) ''parser target method is unsupported'',
      target_require (is_prefix ''hybrid-'' (pt_backend t) = (pt_effort t \<in> {Some ''medium'', Some ''high''}))
        ''parser target effort differs from its backend'',
      target_require (\<not> (pt_effort t = Some ''medium'' \<and> pt_image_analysis t))
        ''hybrid medium target cannot enable image analysis'',
      target_require (\<not> (pt_backend t = ''pipeline'' \<and> pt_image_analysis t))
        ''pipeline target cannot enable image analysis'',
      target_require (page_ok (pt_start_page t))
        ''parser target start_page must be a non-negative integer or null'',
      target_require (page_ok (pt_end_page t))
        ''parser target end_page must be a non-negative integer or null'',
      target_require
        (case (pt_start_page t, pt_end_page t) of (Some s, Some e) \<Rightarrow> \<not> s > e | _ \<Rightarrow> True)
        ''parser target start_page exceeds end_page'',
      target_require (pt_full_pdf t = (pt_start_page t = None \<and> pt_end_page t = None))
        ''parser target full_pdf differs from its requested page range'',
      target_require (is_sha (pt_runtime_bundle_identity_sha256 t))
        ''parser target requires an immutable runtime-bundle digest'',
      target_require (pt_inline_equation_left t = ''$'' \<and> pt_inline_equation_right t = ''$'')
        ''parser target inline-equation profile is unsupported'']"

definition mk_target :: "parser_target_identity \<Rightarrow> parser_target_identity res" where
  "mk_target t = construct (validate_target t) t"

text \<open>\<open>to_payload\<close>\<close>

definition JOptInt :: "int option \<Rightarrow> json" where
  "JOptInt v = (case v of None \<Rightarrow> JNull | Some i \<Rightarrow> JInt i)"

definition target_payload :: "parser_target_identity \<Rightarrow> json" where
  "target_payload t = JObj
     [(''name'', JStr (pt_name t)),
      (''package_version'', JStr (pt_package_version t)),
      (''backend'', JStr (pt_backend t)),
      (''method'', JStr (pt_method t)),
      (''language'', JStr (pt_language t)),
      (''formula'', JBool (pt_formula t)),
      (''table'', JBool (pt_table t)),
      (''effort'', JOpt (pt_effort t)),
      (''image_analysis'', JBool (pt_image_analysis t)),
      (''full_pdf'', JBool (pt_full_pdf t)),
      (''start_page'', JOptInt (pt_start_page t)),
      (''end_page'', JOptInt (pt_end_page t)),
      (''runtime_bundle_identity_sha256'', JStr (pt_runtime_bundle_identity_sha256 t)),
      (''inline_equation_left'', JStr (pt_inline_equation_left t)),
      (''inline_equation_right'', JStr (pt_inline_equation_right t)),
      (''target_contract_version'', JStr (pt_target_contract_version t))]"

end
