(* ===== verification/WorkerProfile.thy ===== *)
theory WorkerProfile
  imports AsciiJson Codec ParserTarget
begin

text \<open>
  \<open>application/contracts/staged_worker_profile_v4.py\<close>: the ceilings of one worker boot, in two contract
  versions (the second adds a commit budget), their canonical bytes and the decoder.
\<close>

definition STAGED_WORKER_PROFILE_V4_CONTRACT :: string where
  "STAGED_WORKER_PROFILE_V4_CONTRACT = ''staged-worker-composition.v1''"

definition STAGED_WORKER_PROFILE_V4_COMMIT_CONTRACT :: string where
  "STAGED_WORKER_PROFILE_V4_COMMIT_CONTRACT = ''staged-worker-composition.v2''"

record worker_profile =
  wp_process_profile_sha256 :: string
  wp_mac_preflight_workers :: int
  wp_mac_finalize_workers :: int
  wp_provider_poll_milliseconds :: int
  wp_admission_probe_milliseconds :: int
  wp_contract_version :: string
  wp_commit_stage_seconds :: "int option"

definition worker_commit_budget :: "worker_profile \<Rightarrow> unit res" where
  "worker_commit_budget w =
     (if wp_contract_version w = STAGED_WORKER_PROFILE_V4_CONTRACT
      then require (\<not> wp_commit_stage_seconds w \<noteq> None) ''v1 worker profile does not support a commit budget''
      else require (case wp_commit_stage_seconds w of None \<Rightarrow> False | Some s \<Rightarrow> 60 \<le> s \<and> s \<le> 86400)
        ''v2 commit stage budget must be an integer in 60..86400 seconds'')"

definition worker_positive :: "int \<Rightarrow> string \<Rightarrow> unit res" where
  "worker_positive v name = require (\<not> v < 1) (name @ '' must be a positive integer'')"

definition worker_post_init :: "worker_profile \<Rightarrow> unit res" where
  "worker_post_init w = checks
     [require (wp_contract_version w \<in> {STAGED_WORKER_PROFILE_V4_CONTRACT, STAGED_WORKER_PROFILE_V4_COMMIT_CONTRACT})
        ''staged worker profile contract is unsupported'',
      worker_commit_budget w,
      require (is_sha (wp_process_profile_sha256 w)) ''staged worker process profile identity is invalid'',
      worker_positive (wp_mac_preflight_workers w) ''mac_preflight_workers'',
      worker_positive (wp_mac_finalize_workers w) ''mac_finalize_workers'',
      worker_positive (wp_provider_poll_milliseconds w) ''provider_poll_milliseconds'',
      worker_positive (wp_admission_probe_milliseconds w) ''admission_probe_milliseconds'',
      require (\<not> max (wp_provider_poll_milliseconds w) (wp_admission_probe_milliseconds w) > 60000)
        ''staged worker probe interval exceeds the bounded stage budget'']"

definition mk_worker :: "worker_profile \<Rightarrow> worker_profile res" where
  "mk_worker w = construct (worker_post_init w) w"

text \<open>\<open>exact_bytes\<close>: the first contract version has no member for the commit budget.\<close>

definition worker_payload :: "worker_profile \<Rightarrow> json" where
  "worker_payload w = JObj
     ([(''process_profile_sha256'', JStr (wp_process_profile_sha256 w)),
       (''mac_preflight_workers'', JInt (wp_mac_preflight_workers w)),
       (''mac_finalize_workers'', JInt (wp_mac_finalize_workers w)),
       (''provider_poll_milliseconds'', JInt (wp_provider_poll_milliseconds w)),
       (''admission_probe_milliseconds'', JInt (wp_admission_probe_milliseconds w)),
       (''contract_version'', JStr (wp_contract_version w))]
      @ (if wp_contract_version w = STAGED_WORKER_PROFILE_V4_CONTRACT then []
         else [(''commit_stage_seconds'', JOptInt (wp_commit_stage_seconds w))]))"

definition worker_exact_bytes :: "worker_profile \<Rightarrow> string res" where
  "worker_exact_bytes w = ascii_json (worker_payload w)"

definition worker_sha256 :: "worker_profile \<Rightarrow> string res" where
  "worker_sha256 w = digest_of (worker_exact_bytes w)"

subsection \<open>The decoder\<close>

definition WORKER_FIELDS :: "string list" where
  "WORKER_FIELDS =
     [''process_profile_sha256'', ''mac_preflight_workers'', ''mac_finalize_workers'',
      ''provider_poll_milliseconds'', ''admission_probe_milliseconds'', ''contract_version'']"

text \<open>\<open>expected_fields\<close>\<close>

definition worker_fields_of :: "obj \<Rightarrow> string list" where
  "worker_fields_of d =
     (if attr d ''contract_version'' = Some (pyval_of (JStr STAGED_WORKER_PROFILE_V4_CONTRACT))
      then WORKER_FIELDS else WORKER_FIELDS @ [''commit_stage_seconds''])"

definition worker_of_obj :: "obj \<Rightarrow> worker_profile res" where
  "worker_of_obj d =
     bindR (get d ''process_profile_sha256'' as_str) (\<lambda>x1.
     bindR (get d ''mac_preflight_workers'' as_int) (\<lambda>x2.
     bindR (get d ''mac_finalize_workers'' as_int) (\<lambda>x3.
     bindR (get d ''provider_poll_milliseconds'' as_int) (\<lambda>x4.
     bindR (get d ''admission_probe_milliseconds'' as_int) (\<lambda>x5.
     bindR (get d ''contract_version'' as_str) (\<lambda>x6.
     bindR (if worker_fields_of d = WORKER_FIELDS then Inr None
        else get d ''commit_stage_seconds'' (as_opt as_int)) (\<lambda>x7.
       mk_worker \<lparr>wp_process_profile_sha256 = x1, wp_mac_preflight_workers = x2,
         wp_mac_finalize_workers = x3, wp_provider_poll_milliseconds = x4,
         wp_admission_probe_milliseconds = x5, wp_contract_version = x6, wp_commit_stage_seconds = x7\<rparr>)))))))"

definition read_worker_object :: "string \<Rightarrow> obj res" where
  "read_worker_object payload =
     bindR (require (0 < length payload \<and> length payload \<le> 4096)
       ''staged worker profile must be bounded exact bytes'') (\<lambda>_.
     bindR (strict_json_loads payload) (\<lambda>v.
     case v of
       PDict d \<Rightarrow> bindR (require (set (map fst d) = set (map cps (worker_fields_of d)))
           ''staged worker profile fields are not closed'') (\<lambda>_. Inr d)
     | _ \<Rightarrow> Inl (ValueError ''staged worker profile fields are not closed'')))"

definition decode_staged_worker_profile_v4 :: "string \<Rightarrow> worker_profile res" where
  "decode_staged_worker_profile_v4 payload =
     bindR (read_worker_object payload) (\<lambda>d.
     bindR (worker_of_obj d) (\<lambda>w.
     bindR (worker_exact_bytes w) (\<lambda>exact.
     bindR (require (exact = payload) ''staged worker profile bytes are not canonical'') (\<lambda>_. Inr w))))"

end
