(* ===== verification/CoordinatorWork.thy ===== *)
theory CoordinatorWork
  imports Complex_Main CreditLedger ResourceCreditShape NewWork WorkerProfile
begin

text \<open>
  The values of \<open>application/services/staged_parse_coordinator.py\<close> that its loop works on: a claimed attempt, the
  outcome of an admission, the limits of the scheduler; \<open>RecoveryCandidate\<close> of the repository port; and
  \<open>application/services/staged_v4_capacity.py\<close>, which derives the limits from the two profiles. Finite
  floating-point times are rationals.
\<close>

subsection \<open>Work\<close>

text \<open>A state is a string here: the loop has a branch for a state it does not know.\<close>

definition final_state_names :: "string list" where
  "final_state_names =
     [''acked'', ''remote_failed'', ''local_failed'', ''pre_submission_failed'', ''preparation_failed'', ''superseded'']"

definition lane_of_state :: "string \<Rightarrow> coordinator_lane option" where
  "lane_of_state s = Option.bind (state_of_name s) lane_by_state"

record coordinator_work =
  cw_attempt_id :: string
  cw_state :: string
  cw_lifecycle_version :: int
  cw_claim_generation :: int
  cw_claim_owner :: "string option"
  cw_lease_expires :: "rat option"
  cw_credit_reservation :: resource_credit_vector
  cw_credits :: resource_credit_vector

definition work_claim_ok :: "coordinator_work \<Rightarrow> bool" where
  "work_claim_ok w = (case cw_claim_owner w of None \<Rightarrow> True
     | Some owner \<Rightarrow> \<not> (py_strip owner = [] \<or> length owner > 128
         \<or> (case cw_lease_expires w of None \<Rightarrow> True | Some t \<Rightarrow> t \<le> 0)))"

definition check_work_state :: "coordinator_work \<Rightarrow> unit res" where
  "check_work_state w =
     (if lane_of_state (cw_state w) \<noteq> None
      then require (\<not> (cw_claim_generation w < 1 \<or> cw_claim_owner w = None \<or> cw_lease_expires w = None
          \<or> rcv_nonzero (cw_credit_reservation w) = []))
        ''nonfinal coordinator work requires a live claim and nonzero lifecycle reservation''
      else require (\<not> (cw_state w \<in> set final_state_names \<and> (cw_claim_owner w \<noteq> None \<or> cw_lease_expires w \<noteq> None
          \<or> cw_credit_reservation w \<noteq> rcv_zero \<or> cw_credits w \<noteq> rcv_zero)))
        ''final coordinator work must release its claim and all credits'')"

definition work_post_init :: "coordinator_work \<Rightarrow> unit res" where
  "work_post_init w = checks
     [require (\<not> (py_strip (cw_attempt_id w) = [] \<or> length (cw_attempt_id w) > 128))
        ''coordinator attempt identity is invalid'',
      require (\<not> (py_strip (cw_state w) = [] \<or> length (cw_state w) > 64)) ''coordinator work state is invalid'',
      require (\<not> cw_lifecycle_version w < 0) ''coordinator lifecycle version is invalid'',
      require (\<not> cw_claim_generation w < 0) ''coordinator claim generation is invalid'',
      require (\<not> (cw_claim_owner w = None) \<noteq> (cw_lease_expires w = None))
        ''coordinator claim owner and lease must be paired'',
      require (work_claim_ok w) ''coordinator claim projection is invalid'',
      require (rcv_fits (cw_credits w) (cw_credit_reservation w)) ''exact credits exceed the lifecycle reservation'',
      check_work_state w]"

text \<open>A work value exists only if its constructor and those of its two vectors returned.\<close>

definition valid_work_item :: "coordinator_work \<Rightarrow> bool" where
  "valid_work_item w \<longleftrightarrow> work_post_init w = Inr () \<and> valid_rcv (cw_credits w) \<and> valid_rcv (cw_credit_reservation w)"

subsection \<open>Recovery candidates\<close>

record recovery_candidate =
  rc_attempt_id :: string
  rc_state :: string
  rc_lifecycle_version :: int
  rc_claim_generation :: int
  rc_claim_owner :: "string option"
  rc_lease_remaining :: "rat option"

definition recovery_candidate_post_init :: "recovery_candidate \<Rightarrow> unit res" where
  "recovery_candidate_post_init c = checks
     [require (\<not> (py_strip (rc_attempt_id c) = [] \<or> length (rc_attempt_id c) > 128))
        ''recovery candidate attempt identity is invalid'',
      require (\<not> (py_strip (rc_state c) = [] \<or> length (rc_state c) > 64)) ''recovery candidate state is invalid'',
      require (rc_state c \<notin> set final_state_names) ''recovery candidate must be a nonfinal current head'',
      require (\<not> rc_lifecycle_version c < 0) ''recovery candidate lifecycle version is invalid'',
      require (\<not> rc_claim_generation c < 0) ''recovery candidate claim generation is invalid'',
      require (\<not> (rc_claim_owner c = None) \<noteq> (rc_lease_remaining c = None))
        ''recovery candidate owner and lease must be paired'',
      require (\<not> (rc_claim_owner c = None) \<noteq> (rc_claim_generation c = 0))
        ''recovery candidate owner and claim generation disagree'',
      require (\<not> (rc_claim_owner c = None \<and> (rc_state c \<noteq> ''prepared'' \<or> rc_lifecycle_version c \<noteq> 0)))
        ''unclaimed recovery candidate must be prepared at lifecycle version zero'',
      require (case rc_claim_owner c of None \<Rightarrow> True
          | Some owner \<Rightarrow> \<not> (py_strip owner = [] \<or> length owner > 128))
        ''recovery candidate claim observation is invalid'']"

subsection \<open>Outcomes of the backend\<close>

record admission_outcome =
  ao_work :: "coordinator_work list"
  ao_backlog_exists :: bool
  ao_blocked_dimensions :: "string list"
  ao_scan_incomplete :: bool
  ao_ineligible_dimensions :: "string list"
  ao_deferred_reason :: "string option"
  ao_observation_request :: "observation_request option"

definition credit_names :: "string list" where
  "credit_names = map fst (rcv_items rcv_zero)"

text \<open>\<open>tuple(name for name in credit_names if name in dimensions)\<close>\<close>

definition canonical_dimensions :: "string list \<Rightarrow> string list" where
  "canonical_dimensions ds = filter (\<lambda>name. name \<in> set ds) credit_names"

definition outcome_post_init :: "admission_outcome \<Rightarrow> unit res" where
  "outcome_post_init a =
     (let pressure = ao_blocked_dimensions a \<noteq> [] \<or> ao_ineligible_dimensions a \<noteq> [] \<or> ao_scan_incomplete a
            \<or> ao_deferred_reason a \<noteq> None in
      require (\<not> ((ao_observation_request a \<noteq> None
             \<and> (\<not> ao_backlog_exists a \<or> \<not> ao_scan_incomplete a \<or> ao_deferred_reason a \<noteq> None))
          \<or> (case ao_deferred_reason a of None \<Rightarrow> False | Some r \<Rightarrow> py_strip r = [] \<or> ao_scan_incomplete a)
          \<or> ao_ineligible_dimensions a \<noteq> canonical_dimensions (ao_ineligible_dimensions a)
          \<or> canonical_dimensions (ao_blocked_dimensions a) \<noteq> ao_blocked_dimensions a
          \<or> list_ex (\<lambda>name. name \<notin> set credit_names) (ao_blocked_dimensions a)
          \<or> (\<not> ao_backlog_exists a \<and> pressure)
          \<or> (ao_backlog_exists a \<and> ao_work a = [] \<and> \<not> pressure)))
        ''admission outcome is not closed'')"

text \<open>\<open>AdmissionInterrupted\<close>: its witness is a nonempty list of distinct attempts in runnable states.\<close>

definition interrupted_witness :: "coordinator_work list \<Rightarrow> unit res" where
  "interrupted_witness items = checks
     [require (items \<noteq> []) ''interrupted admission witness is not closed'',
      require (\<not> (\<not> distinct (map cw_attempt_id items) \<or> list_ex (\<lambda>w. lane_of_state (cw_state w) = None) items))
        ''interrupted admission witness is not closed'']"

text \<open>The delay of \<open>RetryStage\<close>, \<open>StageWaiting\<close> and \<open>RecoveryDeferred\<close>.\<close>

definition retry_delay :: "rat \<Rightarrow> string \<Rightarrow> unit res" where
  "retry_delay seconds msg = require (\<not> seconds \<le> 0) msg"

subsection \<open>Limits\<close>

record coordinator_limits =
  cl_credits :: resource_credit_vector
  cl_recovery_page_size :: int
  cl_admission_batch_size :: int
  cl_preflight_workers :: int
  cl_remote_workers :: int
  cl_local_prepare_workers :: int
  cl_local_workers :: int
  cl_commit_workers :: int
  cl_cleanup_workers :: int
  cl_ack_workers :: int
  cl_poll_seconds :: rat
  cl_admission_probe_seconds :: rat
  cl_idle_open_circuit_seconds :: rat
  cl_claim_lease_seconds :: int
  cl_claim_renew_margin_seconds :: rat
  cl_max_stage_step_seconds :: rat
  cl_commit_stage_seconds :: "rat option"
  cl_retry_initial_backoff_seconds :: rat
  cl_retry_max_backoff_seconds :: rat
  cl_retry_consecutive_threshold :: int
  cl_retry_max_attempts :: int
  cl_retry_stuck_seconds :: rat

definition default_limits :: "resource_credit_vector \<Rightarrow> coordinator_limits" where
  "default_limits credits =
     \<lparr>cl_credits = credits, cl_recovery_page_size = 128, cl_admission_batch_size = 32, cl_preflight_workers = 1,
      cl_remote_workers = 1, cl_local_prepare_workers = 1, cl_local_workers = 2, cl_commit_workers = 2,
      cl_cleanup_workers = 2, cl_ack_workers = 2, cl_poll_seconds = 1 / 10, cl_admission_probe_seconds = 1,
      cl_idle_open_circuit_seconds = 300, cl_claim_lease_seconds = 120, cl_claim_renew_margin_seconds = 30,
      cl_max_stage_step_seconds = 60, cl_commit_stage_seconds = None, cl_retry_initial_backoff_seconds = 1 / 4,
      cl_retry_max_backoff_seconds = 30, cl_retry_consecutive_threshold = 3, cl_retry_max_attempts = 8,
      cl_retry_stuck_seconds = 300\<rparr>"

definition limit_counts :: "coordinator_limits \<Rightarrow> (int \<times> string) list" where
  "limit_counts l =
     [(cl_recovery_page_size l, ''recovery page size''), (cl_admission_batch_size l, ''admission batch size''),
      (cl_preflight_workers l, ''preflight workers''), (cl_remote_workers l, ''remote workers''),
      (cl_local_prepare_workers l, ''local prepare workers''), (cl_local_workers l, ''local workers''),
      (cl_commit_workers l, ''commit workers''), (cl_cleanup_workers l, ''cleanup workers''),
      (cl_ack_workers l, ''ACK workers''), (cl_claim_lease_seconds l, ''claim lease seconds''),
      (cl_retry_consecutive_threshold l, ''retry consecutive threshold''),
      (cl_retry_max_attempts l, ''retry max attempts'')]"

definition limit_timings :: "coordinator_limits \<Rightarrow> (rat \<times> string) list" where
  "limit_timings l =
     [(cl_poll_seconds l, ''poll seconds''), (cl_admission_probe_seconds l, ''admission probe seconds''),
      (cl_idle_open_circuit_seconds l, ''idle open-circuit seconds''),
      (cl_claim_renew_margin_seconds l, ''claim renewal margin seconds''),
      (cl_max_stage_step_seconds l, ''maximum stage step seconds''),
      (cl_retry_initial_backoff_seconds l, ''initial retry backoff seconds''),
      (cl_retry_max_backoff_seconds l, ''maximum retry backoff seconds''),
      (cl_retry_stuck_seconds l, ''retry stuck seconds'')]"

definition limits_post_init :: "coordinator_limits \<Rightarrow> unit res" where
  "limits_post_init l = checks
     (map (\<lambda>(v, label). require (\<not> v < 1) (label @ '' must be a positive integer'')) (limit_counts l)
      @ [require (1 \<le> cl_claim_lease_seconds l \<and> cl_claim_lease_seconds l \<le> 300)
           ''claim lease seconds must fit the DB 1..300 contract'',
         require (\<not> cl_recovery_page_size l > 1000) ''recovery page size must fit the DB 1..1000 contract'']
      @ map (\<lambda>(v, label). require (\<not> v \<le> 0) (label @ '' must be finite and positive'')) (limit_timings l)
      @ [require (0 < cl_claim_renew_margin_seconds l \<and> cl_claim_renew_margin_seconds l < of_int (cl_claim_lease_seconds l))
           ''claim renewal margin must be inside the lease'',
         require (case cl_commit_stage_seconds l of None \<Rightarrow> True | Some s \<Rightarrow> \<not> s < cl_max_stage_step_seconds l)
           ''commit stage budget must be finite and cover the bounded stage step'',
         require (\<not> (cl_max_stage_step_seconds l \<le> 0
             \<or> cl_max_stage_step_seconds l + cl_claim_renew_margin_seconds l \<ge> of_int (cl_claim_lease_seconds l)))
           ''bounded stage plus renewal margin must fit the lease'',
         require (\<not> cl_poll_seconds l > cl_max_stage_step_seconds l)
           ''poll interval must not exceed the maximum stage step'',
         require (\<not> (cl_poll_seconds l \<le> 0 \<or> cl_idle_open_circuit_seconds l \<le> 0
             \<or> cl_retry_initial_backoff_seconds l \<le> 0
             \<or> cl_retry_max_backoff_seconds l < cl_retry_initial_backoff_seconds l
             \<or> cl_retry_stuck_seconds l \<le> 0))
           ''coordinator timing limits must be positive''])"

definition mk_limits :: "coordinator_limits \<Rightarrow> coordinator_limits res" where
  "mk_limits l = construct (limits_post_init l) l"

fun lane_limit :: "coordinator_limits \<Rightarrow> coordinator_lane \<Rightarrow> int" where
  "lane_limit l Preflight = cl_preflight_workers l"
| "lane_limit l Remote = cl_remote_workers l"
| "lane_limit l Local_prepare = cl_local_prepare_workers l"
| "lane_limit l Local = cl_local_workers l"
| "lane_limit l Commit = cl_commit_workers l"
| "lane_limit l Cleanup = cl_cleanup_workers l"
| "lane_limit l Ack = cl_ack_workers l"

subsection \<open>The limits of the two profiles\<close>

definition PRODUCTION_MAX_STAGE_STEP_SECONDS :: rat where
  "PRODUCTION_MAX_STAGE_STEP_SECONDS = 240"

definition PRODUCTION_CLAIM_LEASE_SECONDS :: int where
  "PRODUCTION_CLAIM_LEASE_SECONDS = 300"

definition capacity_credits :: "mineru_process_profile \<Rightarrow> worker_profile \<Rightarrow> resource_credit_vector" where
  "capacity_credits p w =
     (let registry_items = registry_nonterminal_cap p + registry_terminal_cap p in
      \<lparr>documents = registry_items, snapshot_items = registry_items, snapshot_bytes = source_pdf_bytes_limit p,
       remote_waits = api_max_pending_tasks p, provider_tasks = registry_items,
       provider_result_bytes = max_unacked_result_bytes p, materialization_items = wp_mac_finalize_workers w,
       compressed_bytes = max_unacked_result_bytes p, decoded_bytes = decoded_payload_bytes_limit p,
       temp_disk_bytes = temporary_disk_bytes_limit p, output_items = registry_terminal_cap p,
       output_bytes = terminal_output_bytes_limit p, output_pages = unpublished_pages_limit p,
       ack_items = registry_items\<rparr>)"

definition staged_v4_coordinator_limits ::
  "mineru_process_profile \<Rightarrow> worker_profile \<Rightarrow> coordinator_limits res" where
  "staged_v4_coordinator_limits p w =
     bindR (require (\<not> wp_process_profile_sha256 w \<noteq> profile_sha256 p)
       ''staged V4 worker profile does not bind the exact process profile'') (\<lambda>_.
     bindR (mk_rcv (capacity_credits p w)) (\<lambda>credits.
       mk_limits ((default_limits credits)\<lparr>
         cl_recovery_page_size := min 1000 (registry_nonterminal_cap p + registry_terminal_cap p),
         cl_admission_batch_size := api_max_pending_tasks p,
         cl_preflight_workers := wp_mac_preflight_workers w, cl_remote_workers := api_max_pending_tasks p,
         cl_local_prepare_workers := wp_mac_finalize_workers w, cl_local_workers := wp_mac_finalize_workers w,
         cl_commit_workers := wp_mac_finalize_workers w, cl_cleanup_workers := wp_mac_finalize_workers w,
         cl_ack_workers := wp_mac_finalize_workers w,
         cl_admission_probe_seconds := of_int (wp_admission_probe_milliseconds w) / 1000,
         cl_claim_lease_seconds := PRODUCTION_CLAIM_LEASE_SECONDS,
         cl_max_stage_step_seconds := PRODUCTION_MAX_STAGE_STEP_SECONDS,
         cl_commit_stage_seconds := map_option of_int (wp_commit_stage_seconds w)\<rparr>)))"

record database_concurrency =
  dc_primary_stage_checkouts :: int
  dc_nested_commit_checkouts :: int

definition staged_v4_database_concurrency ::
  "mineru_process_profile \<Rightarrow> worker_profile \<Rightarrow> database_concurrency res" where
  "staged_v4_database_concurrency p w =
     bindR (staged_v4_coordinator_limits p w) (\<lambda>l.
       Inr \<lparr>dc_primary_stage_checkouts = sum_list [cl_preflight_workers l, cl_remote_workers l,
           cl_local_prepare_workers l, cl_local_workers l, cl_commit_workers l, cl_cleanup_workers l, cl_ack_workers l],
         dc_nested_commit_checkouts = cl_commit_workers l\<rparr>)"

subsection \<open>When the limits exist\<close>

lemma profile_counts:
  assumes "valid_profile p"
  shows "1 \<le> api_max_pending_tasks p" "1 \<le> registry_nonterminal_cap p" "1 \<le> registry_terminal_cap p"
    "1 \<le> unpublished_pages_limit p" "api_max_pending_tasks p \<le> MAX_INT32" "registry_nonterminal_cap p \<le> MAX_INT32"
    "registry_terminal_cap p \<le> MAX_INT32" "unpublished_pages_limit p \<le> MAX_INT32"
    "in_range (source_pdf_bytes_limit p)" "in_range (max_unacked_result_bytes p)"
    "in_range (decoded_payload_bytes_limit p)" "in_range (temporary_disk_bytes_limit p)"
    "in_range (terminal_output_bytes_limit p)"
  using assms
  by (simp_all add: valid_profile_def profile_post_init_def profile_check_int32s_def profile_check_int64s_def
      profile_int32s_def profile_int64s_def validate_positive_bounded_int_def in_range_def)

lemma int32_sum_in_range: "1 \<le> a \<Longrightarrow> a \<le> MAX_INT32 \<Longrightarrow> 1 \<le> b \<Longrightarrow> b \<le> MAX_INT32 \<Longrightarrow> in_range (a + b)"
  by (simp add: in_range_def MAX_INT_def MAX_INT32_def)

lemma int32_in_range: "1 \<le> a \<Longrightarrow> a \<le> MAX_INT32 \<Longrightarrow> in_range a"
  by (simp add: in_range_def MAX_INT_def MAX_INT32_def)

lemma capacity_credits_valid:
  assumes "valid_profile p" "worker_post_init w = Inr ()"
  shows "mk_rcv (capacity_credits p w) = Inr v
    \<longleftrightarrow> wp_mac_finalize_workers w \<le> MAX_INT \<and> v = capacity_credits p w"
proof -
  note c = profile_counts [OF assms(1)]
  have ranges: "in_range (registry_nonterminal_cap p + registry_terminal_cap p)" "in_range (api_max_pending_tasks p)"
      "in_range (registry_terminal_cap p)" "in_range (unpublished_pages_limit p)"
    using c int32_sum_in_range int32_in_range by simp_all
  have "1 \<le> wp_mac_finalize_workers w" using assms(2) by (simp add: worker_post_init_def worker_positive_def)
  then have "in_range (wp_mac_finalize_workers w) \<longleftrightarrow> wp_mac_finalize_workers w \<le> MAX_INT" by (simp add: in_range_def)
  then show ?thesis using c ranges
    by (auto simp: mk_rcv_def construct_def rcv_post_init_def rcv_items_def capacity_credits_def Let_def)
qed

text \<open>C40: For a valid process profile and a valid worker profile bound to it, the scheduler's limits exist just when the
  number of finalize workers fits a credit counter and the commit budget, if there is one, is at least the 240 seconds
  of a production stage step; and then the database concurrency is one preflight share, one remote share and five
  finalize shares, plus one nested checkout per commit worker. The worker profile's own contract allows budgets from
  60 seconds, so a profile with a budget of 60 to 239 is valid and hashed, and cannot start the service.\<close>

theorem staged_limits_exact:
  assumes "valid_profile p" "worker_post_init w = Inr ()" "wp_process_profile_sha256 w = profile_sha256 p"
  shows "((\<exists>l. staged_v4_coordinator_limits p w = Inr l)
      \<longleftrightarrow> wp_mac_finalize_workers w \<le> MAX_INT
        \<and> (case wp_commit_stage_seconds w of None \<Rightarrow> True | Some s \<Rightarrow> 240 \<le> s))
    \<and> (\<forall>d. staged_v4_database_concurrency p w = Inr d \<longrightarrow>
        dc_primary_stage_checkouts d = wp_mac_preflight_workers w + api_max_pending_tasks p + 5 * wp_mac_finalize_workers w
        \<and> dc_nested_commit_checkouts d = wp_mac_finalize_workers w)"
proof -
  note c = profile_counts [OF assms(1)]
  have w: "1 \<le> wp_mac_preflight_workers w" "1 \<le> wp_mac_finalize_workers w" "1 \<le> wp_admission_probe_milliseconds w"
    using assms(2) by (simp_all add: worker_post_init_def worker_positive_def)
  have page: "1 \<le> min 1000 (registry_nonterminal_cap p + registry_terminal_cap p)" using c(2,3) by simp
  have "(\<exists>l. staged_v4_coordinator_limits p w = Inr l) \<longleftrightarrow> wp_mac_finalize_workers w \<le> MAX_INT
        \<and> (case wp_commit_stage_seconds w of None \<Rightarrow> True | Some s \<Rightarrow> 240 \<le> s)"
    using c(1-4) w page
    by (simp add: staged_v4_coordinator_limits_def assms(3) capacity_credits_valid [OF assms(1,2)] mk_limits_def construct_def
        limits_post_init_def limit_counts_def limit_timings_def default_limits_def PRODUCTION_CLAIM_LEASE_SECONDS_def
        PRODUCTION_MAX_STAGE_STEP_SECONDS_def not_less del: min_less_iff_conj min_less_iff_disj split: option.splits)
  moreover have "dc_primary_stage_checkouts d = wp_mac_preflight_workers w + api_max_pending_tasks p + 5 * wp_mac_finalize_workers w
      \<and> dc_nested_commit_checkouts d = wp_mac_finalize_workers w" if "staged_v4_database_concurrency p w = Inr d" for d
    using that
    by (auto simp: staged_v4_database_concurrency_def staged_v4_coordinator_limits_def mk_limits_def construct_def
        default_limits_def)
  ultimately show ?thesis by blast
qed

definition short_budget_worker :: worker_profile where
  "short_budget_worker =
     \<lparr>wp_process_profile_sha256 = profile_sha256 profile_example, wp_mac_preflight_workers = 2,
      wp_mac_finalize_workers = 2, wp_provider_poll_milliseconds = 500, wp_admission_probe_milliseconds = 1000,
      wp_contract_version = STAGED_WORKER_PROFILE_V4_COMMIT_CONTRACT, wp_commit_stage_seconds = Some 60\<rparr>"

lemma short_budget_worker_valid: "worker_post_init short_budget_worker = Inr ()"
  by (simp add: worker_post_init_def short_budget_worker_def worker_commit_budget_def worker_positive_def
      STAGED_WORKER_PROFILE_V4_COMMIT_CONTRACT_def STAGED_WORKER_PROFILE_V4_CONTRACT_def profile_sha256_def)

theorem staged_limits_exact_witness:
  "worker_post_init short_budget_worker = Inr () \<and> \<not> (\<exists>l. staged_v4_coordinator_limits profile_example short_budget_worker = Inr l)"
  using staged_limits_exact [OF valid_profile_example short_budget_worker_valid] short_budget_worker_valid
  by (simp add: short_budget_worker_def)

end
