(* ===== verification/StreamPolicy.thy ===== *)
theory StreamPolicy
  imports Complex_Main Prelude
begin

text \<open>
  \<open>application/services/mineru_stream_policy.py\<close> and \<open>application/ports/mineru_stream_pressure.py\<close>: the
  target of concurrent submissions that the coordinator follows while memory is short. The policy is a state machine
  over joined pressure samples and a monotonic clock; its finite floating-point times are rationals here, and
  \<open>float("-inf")\<close> is \<^term>\<open>None\<close>.
\<close>

subsection \<open>Samples, configuration and decisions\<close>

record stream_sample =
  sm_sequence :: int
  sm_observed_monotonic :: rat
  sm_runtime_identity_sha256 :: string
  sm_owner_identity_sha256 :: string
  sm_evidence_sha256 :: string
  sm_gpu_free_bytes :: "int option"
  sm_host_available_bytes :: "int option"
  sm_http_active :: "int option"
  sm_http_pending :: "int option"
  sm_unknown_reason :: "string option"
  sm_unsafe_reason :: "string option"

definition sample_post_init :: "stream_sample \<Rightarrow> unit res" where
  "sample_post_init s = checks
     [require (\<not> sm_sequence s < 0) ''stream sample sequence is invalid'',
      require (\<not> sm_observed_monotonic s < 0) ''stream sample monotonic time is invalid'',
      checks (map (\<lambda>v. require (is_sha v) ''stream sample identity is invalid'')
        [sm_runtime_identity_sha256 s, sm_owner_identity_sha256 s, sm_evidence_sha256 s]),
      checks (map (\<lambda>m. require (case m of None \<Rightarrow> True | Some v \<Rightarrow> \<not> v < 0) ''stream pressure value is invalid'')
        [sm_gpu_free_bytes s, sm_host_available_bytes s, sm_http_active s, sm_http_pending s]),
      checks (map (\<lambda>r. require (case r of None \<Rightarrow> True | Some v \<Rightarrow> \<not> (v = [] \<or> length v > 256))
          ''stream pressure reason is invalid'')
        [sm_unknown_reason s, sm_unsafe_reason s])]"

record stream_config =
  sc_qualified_max :: int
  sc_runtime_identity_sha256 :: string
  sc_owner_identity_sha256 :: string
  sc_gpu_pause_bytes :: int
  sc_gpu_reduce_bytes :: int
  sc_gpu_recover_bytes :: int
  sc_host_pause_bytes :: int
  sc_host_recover_bytes :: int
  sc_sample_max_age_seconds :: rat
  sc_missing_pause_seconds :: rat
  sc_recovery_seconds :: rat
  sc_reduction_interval_seconds :: rat



record stream_decision =
  sd_target :: int
  sd_reason :: string
  sd_sample_sequence :: "int option"
  sd_evidence_sha256 :: "string option"
  sd_sample_observed_monotonic :: "rat option"
  sd_unsafe :: bool

subsection \<open>The policy\<close>

record stream_policy =
  sp_config :: stream_config
  sp_target :: int
  sp_last_sequence :: int
  sp_last_sample :: "stream_sample option"
  sp_last_now :: rat
  sp_missing_since :: "rat option"
  sp_healthy_since :: "rat option"
  sp_last_reduction :: "rat option"
  sp_initialized :: bool
  sp_unsafe_reason :: "string option"


definition stream_decision_of :: "stream_policy \<Rightarrow> stream_sample option \<Rightarrow> string \<Rightarrow> bool \<Rightarrow> stream_decision" where
  "stream_decision_of p sample reason unsafe =
     \<lparr>sd_target = sp_target p, sd_reason = reason,
      sd_sample_sequence = map_option sm_sequence sample,
      sd_evidence_sha256 = map_option sm_evidence_sha256 sample,
      sd_sample_observed_monotonic = map_option sm_observed_monotonic sample,
      sd_unsafe = unsafe\<rparr>"

text \<open>The tests of a sample, each of which replaces the reason of the one before.\<close>

definition sample_unsafe :: "stream_policy \<Rightarrow> stream_sample \<Rightarrow> rat \<Rightarrow> string option" where
  "sample_unsafe p s now =
     (let c = sp_config p;
          r1 = (if (sm_runtime_identity_sha256 s, sm_owner_identity_sha256 s)
                    \<noteq> (sc_runtime_identity_sha256 c, sc_owner_identity_sha256 c)
                then Some ''identity_drift'' else sp_unsafe_reason p);
          r2 = (if sm_sequence s < sp_last_sequence p
                    \<or> (sm_sequence s = sp_last_sequence p \<and> Some s \<noteq> sp_last_sample p)
                then Some ''sample_sequence_drift'' else r1);
          r3 = (if (case sp_last_sample p of None \<Rightarrow> False
                    | Some l \<Rightarrow> sm_observed_monotonic s < sm_observed_monotonic l)
                then Some ''sample_clock_drift'' else r2);
          r4 = (if sm_observed_monotonic s > now then Some ''sample_from_future'' else r3) in
      case sm_unsafe_reason s of Some (c # cs) \<Rightarrow> Some (c # cs) | _ \<Rightarrow> r4)"

definition take_sample :: "stream_policy \<Rightarrow> stream_sample option \<Rightarrow> rat \<Rightarrow> stream_policy" where
  "take_sample p sample now =
     (case sample of
        None \<Rightarrow> p
      | Some s \<Rightarrow> p\<lparr>sp_unsafe_reason := sample_unsafe p s now, sp_last_sequence := sm_sequence s,
          sp_last_sample := Some s\<rparr>)"

definition hard_pressure :: "stream_config \<Rightarrow> stream_sample option \<Rightarrow> bool" where
  "hard_pressure c sample =
     (case sample of None \<Rightarrow> False
      | Some s \<Rightarrow> (case sm_gpu_free_bytes s of None \<Rightarrow> False | Some g \<Rightarrow> g < sc_gpu_pause_bytes c)
          \<or> (case sm_host_available_bytes s of None \<Rightarrow> False | Some h \<Rightarrow> h < sc_host_pause_bytes c))"

text \<open>A fresh sample with all four measurements: its free GPU and host memory.\<close>

definition joined_memory :: "stream_config \<Rightarrow> stream_sample option \<Rightarrow> rat \<Rightarrow> (int \<times> int) option" where
  "joined_memory c sample now =
     (case sample of None \<Rightarrow> None
      | Some s \<Rightarrow>
          (if sm_unknown_reason s \<noteq> None \<or> now - sm_observed_monotonic s > sc_sample_max_age_seconds c then None
           else (case (sm_gpu_free_bytes s, sm_host_available_bytes s, sm_http_active s, sm_http_pending s) of
               (Some g, Some h, Some _, Some _) \<Rightarrow> Some (g, h)
             | _ \<Rightarrow> None)))"

definition decide_unknown :: "stream_policy \<Rightarrow> rat \<Rightarrow> stream_policy" where
  "decide_unknown p now =
     (let since = (case sp_missing_since p of None \<Rightarrow> now | Some t \<Rightarrow> t);
          p1 = p\<lparr>sp_healthy_since := None, sp_missing_since := Some since\<rparr> in
      if now - since \<ge> sc_missing_pause_seconds (sp_config p) then p1\<lparr>sp_target := 0, sp_initialized := True\<rparr>
      else p1)"

definition decide_reduce :: "stream_policy \<Rightarrow> rat \<Rightarrow> stream_policy" where
  "decide_reduce p now =
     (let p1 = p\<lparr>sp_initialized := True, sp_healthy_since := None\<rparr> in
      if (case sp_last_reduction p of None \<Rightarrow> True
          | Some t \<Rightarrow> now - t \<ge> sc_reduction_interval_seconds (sp_config p))
      then p1\<lparr>sp_target := max 0 (sp_target p - 1), sp_last_reduction := Some now\<rparr>
      else p1)"

definition decide_clear :: "stream_policy \<Rightarrow> rat \<Rightarrow> stream_policy" where
  "decide_clear p now =
     (case sp_healthy_since p of
        None \<Rightarrow> p\<lparr>sp_healthy_since := Some now\<rparr>
      | Some t \<Rightarrow>
          (if now - t \<ge> sc_recovery_seconds (sp_config p)
           then p\<lparr>sp_target := min (sc_qualified_max (sp_config p)) (sp_target p + 1), sp_healthy_since := Some now\<rparr>
           else p))"

text \<open>\<open>evaluate\<close> behind the tests of the sample: a joined observation with these amounts of memory.\<close>

definition decide_joined :: "stream_policy \<Rightarrow> int \<Rightarrow> int \<Rightarrow> rat \<Rightarrow> stream_policy \<times> string" where
  "decide_joined p0 gpu host now =
     (let c = sp_config p0; p = p0\<lparr>sp_missing_since := None\<rparr> in
      if gpu < sc_gpu_reduce_bytes c then (decide_reduce p now, ''gpu_memory_pressure'')
      else if \<not> sp_initialized p
      then (p\<lparr>sp_target := sc_qualified_max c, sp_initialized := True\<rparr>, ''qualified_start'')
      else if \<not> (gpu \<ge> sc_gpu_recover_bytes c \<and> host \<ge> sc_host_recover_bytes c)
      then (p\<lparr>sp_healthy_since := None\<rparr>, ''holding_pressure'')
      else
        (let q = decide_clear p now in
         (q, if sp_target q < sc_qualified_max c then ''recovery'' else ''qualified_target'')))"

definition stream_evaluate ::
  "stream_policy \<Rightarrow> stream_sample option \<Rightarrow> rat \<Rightarrow> (stream_policy \<times> stream_decision) res" where
  "stream_evaluate p sample now =
     bindR (require (\<not> (now < 0 \<or> now < sp_last_now p)) ''stream policy clock regressed'') (\<lambda>_.
       let p1 = take_sample (p\<lparr>sp_last_now := now\<rparr>) sample now;
           answer = (\<lambda>q reason unsafe. Inr (q, stream_decision_of q sample reason unsafe)) in
       case sp_unsafe_reason p1 of
         Some why \<Rightarrow> answer (p1\<lparr>sp_target := 0, sp_healthy_since := None\<rparr>) (''unsafe:'' @ why) True
       | None \<Rightarrow>
           (if hard_pressure (sp_config p) sample
            then answer (p1\<lparr>sp_target := 0, sp_initialized := True, sp_healthy_since := None\<rparr>) ''memory_pause'' False
            else
              (case joined_memory (sp_config p) sample now of
                 None \<Rightarrow> answer (decide_unknown p1 now) ''pressure_unknown'' False
               | Some (gpu, host) \<Rightarrow>
                   (case decide_joined p1 gpu host now of (q, reason) \<Rightarrow> answer q reason False))))"

text \<open>\<open>StreamAdmissionControl.assert_submission_allowed\<close>: \<open>StreamSubmissionDeferred\<close> is a value of its own.\<close>

datatype submission_answer = Submission_allowed | Submission_deferred string bool

definition assert_submission_allowed ::
  "stream_policy \<Rightarrow> string \<Rightarrow> stream_sample option \<Rightarrow> rat \<Rightarrow> (stream_policy \<times> submission_answer) res" where
  "assert_submission_allowed p runtime sample now =
     bindR (require (\<not> runtime \<noteq> sc_runtime_identity_sha256 (sp_config p))
       ''submission runtime differs from stream policy'') (\<lambda>_.
     bindR (stream_evaluate p sample now) (\<lambda>(q, d).
       Inr (q, if sd_target d = 0 \<or> sd_unsafe d then Submission_deferred (sd_reason d) (sd_unsafe d)
               else Submission_allowed)))"

subsection \<open>A sequence of evaluations\<close>


lemmas evaluate_defs = stream_evaluate_def Let_def stream_decision_of_def decide_joined_def decide_clear_def
  decide_reduce_def decide_unknown_def

text \<open>What one evaluation leaves alone, and what it answers.\<close>

lemma take_sample_keeps [simp]:
  "sp_config (take_sample p sample now) = sp_config p" "sp_target (take_sample p sample now) = sp_target p"
  "sp_last_now (take_sample p sample now) = sp_last_now p"
  "sp_initialized (take_sample p sample now) = sp_initialized p"
  "sp_healthy_since (take_sample p sample now) = sp_healthy_since p"
  "sp_last_reduction (take_sample p sample now) = sp_last_reduction p"
  by (simp_all add: take_sample_def split: option.splits)




lemma decide_frame [simp]:
  "sp_config (decide_unknown p now) = sp_config p" "sp_unsafe_reason (decide_unknown p now) = sp_unsafe_reason p"
  "sp_last_now (decide_unknown p now) = sp_last_now p" "sp_healthy_since (decide_unknown p now) = None"
  "sp_config (fst (decide_joined p gpu host now)) = sp_config p"
  "sp_unsafe_reason (fst (decide_joined p gpu host now)) = sp_unsafe_reason p"
  "sp_last_now (fst (decide_joined p gpu host now)) = sp_last_now p"
  by (simp_all add: evaluate_defs split: option.splits)





















subsection \<open>What every run of the policy keeps\<close>



subsection \<open>An example run\<close>








end
