(* ===== verification/CoordinatorState.thy ===== *)
theory CoordinatorState
  imports CoordinatorWork StreamPolicy
begin

text \<open>
  The state of \<open>StagedParseCoordinator.run\<close> and the interface it calls. Everything the loop does not decide
  itself (the durable backend, the clock, the futures of its thread pools, the observer, the stop flag) is the record
  \<open>backend\<close> of functions on an abstract world \<open>'w\<close>, which each call may change; an execution is a function of the
  backend and the initial world. An operation of the loop is an \<open>act\<close>: it answers a value or an exception and leaves
  a state, also when it raises, since some exceptions are caught.
\<close>

subsection \<open>Flights and answers\<close>

text \<open>A submitted stage: its future, lane and work, the state of its \<open>StageLeaseGuard\<close>, and its credit grant.\<close>

record flight =
  fl_future :: nat
  fl_lane :: coordinator_lane
  fl_work :: coordinator_work
  fl_deadline :: rat
  fl_claim_deadline :: "rat option"
  fl_revoked :: bool
  fl_grant :: resource_credit_vector

datatype claim_answer =
    Claimed coordinator_work
  | Claim_deferred rat coordinator_work
  | Claim_failed py_error

datatype admission_answer =
    Admission admission_outcome
  | Admission_interrupted string "coordinator_work list"
  | Admission_failed py_error

text \<open>What the future of a stage returns or raises.\<close>

datatype stage_answer =
    Stage_updated coordinator_work
  | Stage_admission_deferred string
  | Stage_waiting rat
  | Stage_retry rat
  | Stage_lease_lost string
  | Stage_failed py_error

datatype observation_answer =
    Observation_result observation_result
  | Observation_lease_lost
  | Observation_failed py_error

datatype coordinator_terminal = Quiescent | Stuck_open_circuit

record coordinator_result =
  cres_terminal :: coordinator_terminal
  cres_recovery_complete :: bool
  cres_admitted :: int
  cres_completed :: int
  cres_final_states :: "(string \<times> string) list"
  cres_errors :: "string list"
  cres_credits_in_use :: resource_credit_vector

record coordinator_snapshot =
  sn_admission_open :: bool
  sn_recovery_complete :: bool
  sn_circuit_open :: bool
  sn_queued :: "(coordinator_lane \<times> int) list"
  sn_in_flight :: "(coordinator_lane \<times> int) list"
  sn_credits_in_use :: resource_credit_vector
  sn_credits_limit :: resource_credit_vector
  sn_completed :: int
  sn_blocked_reason :: "string option"
  sn_credit_blocked_by_lane :: "(coordinator_lane \<times> string list) list"
  sn_stream_target :: "int option"
  sn_stream_actual :: "int option"
  sn_stream_reason :: "string option"
  sn_stream_evidence_sha256 :: "string option"

subsection \<open>The interface\<close>

record 'w backend =
  be_monotonic :: "'w \<Rightarrow> rat \<times> 'w"
  be_process_guard :: "'w \<Rightarrow> unit res \<times> 'w"
  be_stop_requested :: "'w \<Rightarrow> bool \<times> 'w"
  be_progress :: "coordinator_snapshot \<Rightarrow> 'w \<Rightarrow> unit res \<times> 'w"
  be_list_recoverable :: "string option \<Rightarrow> int \<Rightarrow> 'w \<Rightarrow> recovery_candidate list res \<times> 'w"
  be_claim_recovery :: "recovery_candidate \<Rightarrow> 'w \<Rightarrow> claim_answer \<times> 'w"
  be_admit_new :: "int \<Rightarrow> resource_credit_vector \<Rightarrow> 'w \<Rightarrow> admission_answer \<times> 'w"
  be_renew_claim :: "coordinator_work \<Rightarrow> int \<Rightarrow> 'w \<Rightarrow> coordinator_work res \<times> 'w"
  be_reload_claim :: "coordinator_work \<Rightarrow> 'w \<Rightarrow> coordinator_work res \<times> 'w"
  be_submit :: "flight \<Rightarrow> 'w \<Rightarrow> unit res \<times> 'w"
  be_done :: "nat \<Rightarrow> 'w \<Rightarrow> bool \<times> 'w"
  be_wait :: "nat list \<Rightarrow> rat \<Rightarrow> 'w \<Rightarrow> nat list \<times> 'w"
  be_sleep :: "rat \<Rightarrow> 'w \<Rightarrow> unit \<times> 'w"
  be_result :: "nat \<Rightarrow> 'w \<Rightarrow> stage_answer \<times> 'w"
  be_stream :: "('w \<Rightarrow> stream_decision res \<times> 'w) option"
  be_has_observer :: bool
  be_observe :: "observation_request \<Rightarrow> nat \<Rightarrow> 'w \<Rightarrow> unit res \<times> 'w"
  be_observation_result :: "nat \<Rightarrow> 'w \<Rightarrow> observation_answer \<times> 'w"
  be_accept_observation :: "observation_result \<Rightarrow> 'w \<Rightarrow> unit res \<times> 'w"
  be_abandon_observation :: "observation_request \<Rightarrow> 'w \<Rightarrow> unit res \<times> 'w"

subsection \<open>The state\<close>

text \<open>\<open>StagedAdmissionObservation\<close>: at most one outstanding observation.\<close>

record observation_state =
  os_request :: "observation_request option"
  os_future :: "nat option"
  os_discard :: bool
  os_error_observed :: bool

definition no_observation :: observation_state where
  "no_observation = \<lparr>os_request = None, os_future = None, os_discard = False, os_error_observed = False\<rparr>"

text \<open>The local variables of \<open>run\<close>; a dictionary is an association list in insertion order.\<close>

record 'w coordinator =
  co_world :: 'w
  co_queues :: "coordinator_lane \<Rightarrow> coordinator_work list"
  co_retry_at :: "(string \<times> rat \<times> coordinator_work) list"
  co_retry_attempts :: "(string \<times> int) list"
  co_retry_started_at :: "(string \<times> rat) list"
  co_consecutive_retries :: int
  co_retry_degraded :: bool
  co_known :: "(string \<times> coordinator_work) list"
  co_final :: "(string \<times> string) list"
  co_errors :: "string list"
  co_ledger :: credit_ledger
  co_oversubscribed :: "string set"
  co_admitted :: int
  co_completed :: int
  co_admission_open :: bool
  co_admission_scan_incomplete :: bool
  co_admission_probe_at :: rat
  co_admission_deferred :: bool
  co_last_available :: "resource_credit_vector option"
  co_recovery_complete :: bool
  co_circuit_open :: bool
  co_blocked_reason :: "string option"
  co_last_progress :: rat
  co_stream_decision :: "stream_decision option"
  co_stream_failure :: "string option"
  co_stream_parked :: "(string \<times> coordinator_work) list"
  co_renewal_floor :: "rat option"
  co_in_flight :: "flight list"
  co_reconciled :: "(nat \<times> coordinator_work) list"
  co_in_flight_failures :: "nat set"
  co_provisional :: "(nat \<times> resource_credit_vector) list"
  co_provisional_total :: resource_credit_vector
  co_credit_blocked :: "coordinator_lane \<Rightarrow> string set"
  co_stream_deferred :: bool
  co_barrier_exhausted :: bool
  co_deferred_claims :: "(string \<times> rat \<times> recovery_candidate) list"
  co_observation :: observation_state
  co_next_future :: nat

text \<open>The waiting renewal floor \<open>float("inf")\<close> is \<^term>\<open>None\<close>.\<close>

definition new_coordinator :: "coordinator_limits \<Rightarrow> 'w \<Rightarrow> rat \<Rightarrow> 'w coordinator" where
  "new_coordinator l w now =
     \<lparr>co_world = w, co_queues = (\<lambda>_. []), co_retry_at = [], co_retry_attempts = [], co_retry_started_at = [],
      co_consecutive_retries = 0, co_retry_degraded = False, co_known = [], co_final = [], co_errors = [],
      co_ledger = new_ledger (cl_credits l), co_oversubscribed = {}, co_admitted = 0, co_completed = 0,
      co_admission_open = False, co_admission_scan_incomplete = False, co_admission_probe_at = 0,
      co_admission_deferred = False, co_last_available = None, co_recovery_complete = False, co_circuit_open = False,
      co_blocked_reason = Some ''recovery_barrier'', co_last_progress = now, co_stream_decision = None,
      co_stream_failure = None, co_stream_parked = [], co_renewal_floor = None, co_in_flight = [], co_reconciled = [],
      co_in_flight_failures = {}, co_provisional = [], co_provisional_total = rcv_zero, co_credit_blocked = (\<lambda>_. {}),
      co_stream_deferred = False, co_barrier_exhausted = False, co_deferred_claims = [], co_observation = no_observation, co_next_future = 0\<rparr>"

subsection \<open>Operations on the state\<close>

type_synonym ('w, 'a) act = "'w coordinator \<Rightarrow> 'a res \<times> 'w coordinator"

definition ret :: "'a \<Rightarrow> ('w, 'a) act" where
  "ret a = (\<lambda>s. (Inr a, s))"

definition raise :: "py_error \<Rightarrow> ('w, 'a) act" where
  "raise e = (\<lambda>s. (Inl e, s))"

definition bindA :: "('w, 'a) act \<Rightarrow> ('a \<Rightarrow> ('w, 'b) act) \<Rightarrow> ('w, 'b) act" where
  "bindA m f = (\<lambda>s. case m s of (Inl e, s') \<Rightarrow> (Inl e, s') | (Inr a, s') \<Rightarrow> f a s')"

definition gets :: "('w coordinator \<Rightarrow> 'a) \<Rightarrow> ('w, 'a) act" where
  "gets f = (\<lambda>s. (Inr (f s), s))"

definition modify :: "('w coordinator \<Rightarrow> 'w coordinator) \<Rightarrow> ('w, unit) act" where
  "modify f = (\<lambda>s. (Inr (), f s))"

definition liftA :: "'a res \<Rightarrow> ('w, 'a) act" where
  "liftA r = (\<lambda>s. (r, s))"

text \<open>A call of the interface, one that cannot raise and one that can.\<close>

definition callA :: "('w \<Rightarrow> 'a \<times> 'w) \<Rightarrow> ('w, 'a) act" where
  "callA f = (\<lambda>s. case f (co_world s) of (a, w) \<Rightarrow> (Inr a, s\<lparr>co_world := w\<rparr>))"

definition callR :: "('w \<Rightarrow> 'a res \<times> 'w) \<Rightarrow> ('w, 'a) act" where
  "callR f = (\<lambda>s. case f (co_world s) of (r, w) \<Rightarrow> (r, s\<lparr>co_world := w\<rparr>))"

text \<open>\<open>try: ... except Exception\<close>, and the same for \<open>ValueError\<close> only.\<close>

definition tryA :: "('w, 'a) act \<Rightarrow> (py_error \<Rightarrow> ('w, 'b) act) \<Rightarrow> ('a \<Rightarrow> ('w, 'b) act) \<Rightarrow> ('w, 'b) act" where
  "tryA m handler continue =
     (\<lambda>s. case m s of (Inl e, s') \<Rightarrow> handler e s' | (Inr a, s') \<Rightarrow> continue a s')"

definition except_value_error :: "(string \<Rightarrow> ('w, 'b) act) \<Rightarrow> py_error \<Rightarrow> ('w, 'b) act" where
  "except_value_error handler e = (case e of ValueError msg \<Rightarrow> handler msg | _ \<Rightarrow> raise e)"

fun forA :: "'x list \<Rightarrow> ('x \<Rightarrow> ('w, unit) act) \<Rightarrow> ('w, unit) act" where
  "forA [] f = ret ()"
| "forA (x # xs) f = bindA (f x) (\<lambda>_. forA xs f)"

text \<open>At most \<open>n\<close> turns of a loop whose body answers whether it goes on.\<close>

fun loopA :: "nat \<Rightarrow> ('w, bool) act \<Rightarrow> ('w, unit) act" where
  "loopA 0 body = ret ()"
| "loopA (Suc n) body = bindA body (\<lambda>more. if more then loopA n body else ret ())"

definition whenA :: "bool \<Rightarrow> ('w, unit) act \<Rightarrow> ('w, unit) act" where
  "whenA c m = (if c then m else ret ())"

definition seqA :: "('w, unit) act list \<Rightarrow> ('w, unit) act" where
  "seqA ms = foldr (\<lambda>m rest. bindA m (\<lambda>_. rest)) ms (ret ())"

end
