(* ===== verification/CoordinatorOps.thy ===== *)
theory CoordinatorOps
  imports CoordinatorState
begin

text \<open>
  The functions nested in \<open>StagedParseCoordinator.run\<close> and the operations of
  \<open>services/staged_admission_observation.py\<close>, in the order of the source.
\<close>

subsection \<open>Shared steps\<close>

definition now_of :: "'w backend \<Rightarrow> ('w, rat) act" where
  "now_of be = callA (be_monotonic be)"

definition is_final_name :: "string \<Rightarrow> bool" where
  "is_final_name s = (s \<in> set final_state_names)"

text \<open>\<open>type(exc).__name__\<close> and \<open>str(exc)\<close>\<close>

fun error_text :: "py_error \<Rightarrow> string" where
  "error_text (ValueError m) = ''ValueError:'' @ m"
| "error_text (KeyError m) = ''KeyError:'' @ m"
| "error_text (RuntimeError m) = ''RuntimeError:'' @ m"
| "error_text (TypeError m) = ''TypeError:'' @ m"
| "error_text (ParserTargetIdentityError m) = ''ParserTargetIdentityError:'' @ m"
| "error_text (AttributeError m) = ''AttributeError:'' @ m"
| "error_text (AssertionError m) = ''AssertionError:'' @ m"

fun lane_value :: "coordinator_lane \<Rightarrow> string" where
  "lane_value Preflight = ''preflight''"
| "lane_value Remote = ''remote''"
| "lane_value Local_prepare = ''local_prepare''"
| "lane_value Local = ''local''"
| "lane_value Commit = ''commit''"
| "lane_value Cleanup = ''cleanup''"
| "lane_value Ack = ''ack''"

definition add_error :: "string \<Rightarrow> ('w, unit) act" where
  "add_error msg = modify (\<lambda>s. s\<lparr>co_errors := co_errors s @ [msg]\<rparr>)"

text \<open>\<open>circuit_open = True; admission_open = False; blocked_reason = reason\<close>\<close>

definition open_circuit :: "string \<Rightarrow> ('w, unit) act" where
  "open_circuit reason =
     modify (\<lambda>s. s\<lparr>co_circuit_open := True, co_admission_open := False, co_blocked_reason := Some reason\<rparr>)"

definition about :: "coordinator_work \<Rightarrow> coordinator_lane \<Rightarrow> string \<Rightarrow> string" where
  "about w lane msg = cw_attempt_id w @ '':'' @ lane_value lane @ '':'' @ msg"

definition know :: "coordinator_work \<Rightarrow> ('w, unit) act" where
  "know w = modify (\<lambda>s. s\<lparr>co_known := AList.update (cw_attempt_id w) w (co_known s)\<rparr>)"

text \<open>\<open>ledger.replace(work, allow_oversubscribed=allow)\<close>\<close>

definition charge :: "coordinator_work \<Rightarrow> bool \<Rightarrow> ('w, unit) act" where
  "charge w allow =
     bindA (gets co_ledger) (\<lambda>ledger.
     bindA (liftA (ledger_replace ledger (cw_attempt_id w) (cw_credits w) allow)) (\<lambda>ledger'.
       modify (\<lambda>s. s\<lparr>co_ledger := ledger'\<rparr>)))"

definition in_limit :: "'w coordinator \<Rightarrow> bool" where
  "in_limit s = rcv_fits (lg_in_use (co_ledger s)) (lg_limit (co_ledger s))"

text \<open>Those known attempts whose own reservation exceeds the limit.\<close>

definition oversized :: "'w coordinator \<Rightarrow> string set" where
  "oversized s = set (map fst (filter (\<lambda>(a, w). \<not> rcv_fits (cw_credit_reservation w) (lg_limit (co_ledger s)))
     (co_known s)))"

subsection \<open>The waiting lease floor\<close>

definition track_waiting_lease :: "coordinator_work \<Rightarrow> ('w, unit) act" where
  "track_waiting_lease w =
     (case cw_lease_expires w of
        None \<Rightarrow> raise (RuntimeError ''waiting work lacks a claim lease'')
      | Some t \<Rightarrow> modify (\<lambda>s. s\<lparr>co_renewal_floor :=
          Some (case co_renewal_floor s of None \<Rightarrow> t | Some f \<Rightarrow> min f t)\<rparr>))"

subsection \<open>Placing work\<close>

definition check_forward :: "string \<Rightarrow> coordinator_work \<Rightarrow> ('w, unit) act" where
  "check_forward msg w =
     bindA (gets (\<lambda>s. map_of (co_known s) (cw_attempt_id w))) (\<lambda>previous.
       case previous of
         None \<Rightarrow> ret ()
       | Some p \<Rightarrow>
           if cw_claim_generation w < cw_claim_generation p \<or> cw_lifecycle_version w < cw_lifecycle_version p
           then raise (RuntimeError msg) else ret ())"

text \<open>\<open>not ledger.can_add(work) or not work.credit_reservation.fits(ledger.limit)\<close>\<close>

definition note_overage :: "coordinator_work \<Rightarrow> ('w, unit) act" where
  "note_overage w =
     bindA (gets co_ledger) (\<lambda>ledger.
     bindA (liftA (can_add ledger (cw_attempt_id w) (cw_credits w))) (\<lambda>fits.
       whenA (\<not> fits \<or> \<not> rcv_fits (cw_credit_reservation w) (lg_limit ledger))
         (modify (\<lambda>s. s\<lparr>co_oversubscribed := insert (cw_attempt_id w) (co_oversubscribed s)\<rparr>))))"

definition share_overage :: "('w, unit) act" where
  "share_overage = modify (\<lambda>s.
     if \<not> in_limit s then s\<lparr>co_oversubscribed := co_oversubscribed s \<union> set (map fst (co_known s))\<rparr> else s)"

definition clear_overage :: "('w, unit) act" where
  "clear_overage = modify (\<lambda>s.
     if co_oversubscribed s \<noteq> {} \<and> in_limit s
     then s\<lparr>co_oversubscribed := co_oversubscribed s \<inter> oversized s\<rparr> else s)"

text \<open>A final state: its credit is released and everything that is kept per attempt is dropped.\<close>

definition final_history_limit :: "coordinator_limits \<Rightarrow> int" where
  "final_history_limit l = max (cl_recovery_page_size l) (cl_admission_batch_size l)"

definition forget :: "string \<Rightarrow> 'w coordinator \<Rightarrow> 'w coordinator" where
  "forget a s = s\<lparr>co_known := AList.delete a (co_known s), co_retry_at := AList.delete a (co_retry_at s),
     co_retry_attempts := AList.delete a (co_retry_attempts s),
     co_retry_started_at := AList.delete a (co_retry_started_at s),
     co_oversubscribed := co_oversubscribed s - {a}\<rparr>"

definition finish_attempt :: "'w backend \<Rightarrow> coordinator_limits \<Rightarrow> coordinator_work \<Rightarrow> ('w, unit) act" where
  "finish_attempt be l w =
     bindA (gets co_ledger) (\<lambda>ledger.
     bindA (liftA (ledger_release ledger (cw_attempt_id w))) (\<lambda>ledger'.
     bindA (modify (\<lambda>s. s\<lparr>co_ledger := ledger'\<rparr>)) (\<lambda>_.
     bindA (modify (\<lambda>s. let final = AList.update (cw_attempt_id w) (cw_state w) (co_final s) in
         s\<lparr>co_final := (if int (length final) > final_history_limit l then tl final else final)\<rparr>)) (\<lambda>_.
     bindA (modify (forget (cw_attempt_id w))) (\<lambda>_.
     bindA (modify (\<lambda>s. s\<lparr>co_completed := co_completed s + 1\<rparr>)) (\<lambda>_.
     bindA (now_of be) (\<lambda>t. modify (\<lambda>s. s\<lparr>co_last_progress := t\<rparr>))))))))"

definition enqueue_work :: "coordinator_work \<Rightarrow> ('w, unit) act" where
  "enqueue_work w =
     (case lane_of_state (cw_state w) of
        None \<Rightarrow> bindA (modify (\<lambda>s. s\<lparr>co_circuit_open := True, co_blocked_reason := Some ''unsupported_durable_state''\<rparr>))
          (\<lambda>_. add_error (cw_attempt_id w @ '':unsupported state:'' @ cw_state w))
      | Some lane \<Rightarrow> bindA (modify (\<lambda>s. s\<lparr>co_queues := (co_queues s)(lane := co_queues s lane @ [w])\<rparr>))
          (\<lambda>_. track_waiting_lease w))"

definition place :: "'w backend \<Rightarrow> coordinator_limits \<Rightarrow> coordinator_work \<Rightarrow> bool \<Rightarrow> ('w, unit) act" where
  "place be l w recovery = seqA
     [check_forward ''durable coordinator projection moved backwards'' w,
      know w,
      whenA recovery (note_overage w),
      charge w recovery,
      whenA recovery share_overage,
      clear_overage,
      (if is_final_name (cw_state w) then finish_attempt be l w else enqueue_work w)]"

definition reserve_deferred :: "coordinator_work \<Rightarrow> ('w, unit) act" where
  "reserve_deferred w = seqA
     [check_forward ''deferred recovery projection moved backwards'' w,
      know w,
      note_overage w,
      charge w True,
      modify (\<lambda>s. if \<not> in_limit s
        then s\<lparr>co_oversubscribed := co_oversubscribed s \<union> set (map fst (co_known s))\<rparr>
        else s\<lparr>co_oversubscribed := co_oversubscribed s \<inter> oversized s\<rparr>)]"

definition preserve_contract_violation ::
  "coordinator_work \<Rightarrow> coordinator_work \<Rightarrow> coordinator_lane \<Rightarrow> string \<Rightarrow> ('w, unit) act" where
  "preserve_contract_violation prior updated lane msg = seqA
     [know updated, charge updated True, open_circuit ''durable_transition_contract_violation'',
      add_error (about prior lane msg)]"

text \<open>The first rule of a stage transition that is broken.\<close>

definition lane_allows :: "coordinator_lane \<Rightarrow> string \<Rightarrow> string \<Rightarrow> bool" where
  "lane_allows lane source target =
     list_ex (\<lambda>(a, b). state_name a = source \<and> state_name b = target) (allowed_lane_transitions lane)"

definition transition_violation ::
  "coordinator_work \<Rightarrow> coordinator_work \<Rightarrow> coordinator_lane \<Rightarrow> string option" where
  "transition_violation prior updated lane =
     (let final = is_final_name (cw_state updated) in
      if cw_attempt_id updated \<noteq> cw_attempt_id prior then Some ''attempt identity changed''
      else if \<not> lane_allows lane (cw_state prior) (cw_state updated)
      then Some (''illegal transition '' @ cw_state prior @ ''->'' @ cw_state updated)
      else if cw_lifecycle_version updated \<noteq> cw_lifecycle_version prior + 1
      then Some ''lifecycle version did not advance exactly once''
      else if cw_claim_generation updated \<noteq> cw_claim_generation prior
      then Some ''claim generation changed during stage''
      else if final \<and> (cw_claim_owner updated \<noteq> None \<or> cw_lease_expires updated \<noteq> None)
      then Some ''final state retained a live claim''
      else if \<not> final \<and> (cw_claim_owner updated \<noteq> cw_claim_owner prior \<or> cw_lease_expires updated = None)
      then Some ''stage changed or dropped claim ownership''
      else if \<not> final \<and> cw_credit_reservation updated \<noteq> cw_credit_reservation prior
      then Some ''stage changed lifecycle reservation''
      else if final \<and> cw_credit_reservation updated \<noteq> rcv_zero
      then Some ''final state retained lifecycle reservation''
      else None)"

definition place_transition ::
  "'w backend \<Rightarrow> coordinator_limits \<Rightarrow> coordinator_work \<Rightarrow> coordinator_work \<Rightarrow> coordinator_lane \<Rightarrow> ('w, bool) act" where
  "place_transition be l prior updated lane =
     (let violation = (\<lambda>msg. bindA (preserve_contract_violation prior updated lane msg) (\<lambda>_. ret False)) in
      case transition_violation prior updated lane of
        Some msg \<Rightarrow> violation msg
      | None \<Rightarrow>
          bindA (gets (\<lambda>s. cw_attempt_id updated \<in> co_oversubscribed s)) (\<lambda>recovery.
            tryA (place be l updated recovery) (except_value_error violation) (\<lambda>_. ret True)))"

subsection \<open>Renewing claims\<close>

definition renewal_threshold :: "coordinator_limits \<Rightarrow> rat" where
  "renewal_threshold l = cl_max_stage_step_seconds l + cl_claim_renew_margin_seconds l"

text \<open>Everything but the lease is as before.\<close>

definition same_claim :: "coordinator_work \<Rightarrow> coordinator_work \<Rightarrow> bool" where
  "same_claim a b \<longleftrightarrow> cw_attempt_id a = cw_attempt_id b \<and> cw_state a = cw_state b
     \<and> cw_lifecycle_version a = cw_lifecycle_version b \<and> cw_claim_generation a = cw_claim_generation b
     \<and> cw_claim_owner a = cw_claim_owner b \<and> cw_credit_reservation a = cw_credit_reservation b
     \<and> cw_credits a = cw_credits b"

definition later_lease :: "coordinator_work \<Rightarrow> coordinator_work \<Rightarrow> bool" where
  "later_lease a b = (case (cw_lease_expires a, cw_lease_expires b) of (Some t, Some u) \<Rightarrow> t > u | _ \<Rightarrow> False)"

text \<open>\<open>renew\<close>; the lease of a renewed claim is known there.\<close>

definition renew :: "'w backend \<Rightarrow> coordinator_limits \<Rightarrow> coordinator_work \<Rightarrow> coordinator_lane \<Rightarrow> ('w, coordinator_work) act" where
  "renew be l w lane =
     bindA (callR (be_renew_claim be w (cl_claim_lease_seconds l))) (\<lambda>renewed.
       if \<not> same_claim renewed w \<or> \<not> later_lease renewed w
       then bindA (preserve_contract_violation w renewed lane ''claim renewal changed durable work'')
         (\<lambda>_. raise (RuntimeError ''claim renewal contract violation''))
       else
         bindA (now_of be) (\<lambda>t.
           if the (cw_lease_expires renewed) - t \<le> renewal_threshold l
           then bindA (preserve_contract_violation w renewed lane ''claim renewal cannot cover the bounded stage'')
             (\<lambda>_. raise (RuntimeError ''claim renewal is too short for the bounded stage''))
           else bindA (modify (\<lambda>s. s\<lparr>co_known := AList.update (cw_attempt_id w) renewed (co_known s)\<rparr>))
             (\<lambda>_. ret renewed)))"

definition needs_renewal :: "coordinator_limits \<Rightarrow> coordinator_work \<Rightarrow> rat \<Rightarrow> bool" where
  "needs_renewal l w now = (case cw_lease_expires w of None \<Rightarrow> True | Some t \<Rightarrow> t - now \<le> renewal_threshold l)"

definition fail_waiting_renewal :: "coordinator_work \<Rightarrow> coordinator_lane \<Rightarrow> string \<Rightarrow> py_error \<Rightarrow> ('w, unit) act" where
  "fail_waiting_renewal w lane kind e = seqA
     [open_circuit ''claim_renewal_failed'', add_error (about w lane (kind @ '':'' @ error_text e))]"

text \<open>\<open>renew_waiting\<close>: the answer \<^term>\<open>None\<close> is a lost claim.\<close>

definition renew_waiting ::
  "'w backend \<Rightarrow> coordinator_limits \<Rightarrow> coordinator_work \<Rightarrow> coordinator_lane \<Rightarrow> ('w, coordinator_work option) act" where
  "renew_waiting be l w lane =
     tryA (renew be l w lane)
       (\<lambda>e. bindA (gets co_circuit_open) (\<lambda>opened.
         if opened then ret None
         else tryA (callR (be_reload_claim be w))
           (\<lambda>e'. bindA (fail_waiting_renewal w lane ''claim-reload-wait'' e') (\<lambda>_. ret None))
           (\<lambda>durable.
             bindA (if same_claim durable w \<and> later_lease durable w
                    then bindA (now_of be) (\<lambda>t. ret (the (cw_lease_expires durable) - t > renewal_threshold l))
                    else ret False) (\<lambda>live.
             if live
             then bindA (modify (\<lambda>s. s\<lparr>co_known := AList.update (cw_attempt_id w) durable (co_known s)\<rparr>))
               (\<lambda>_. ret (Some durable))
             else bindA (fail_waiting_renewal w lane ''claim-wait'' e) (\<lambda>_. ret None)))))
       (\<lambda>renewed. ret (Some renewed))"

text \<open>Where waiting work is kept, in the order of \<open>guard_waiting\<close>.\<close>

datatype waiting_site =
    In_queue coordinator_lane nat
  | In_retry string rat
  | In_parked string

definition waiting_sites :: "'w coordinator \<Rightarrow> (waiting_site \<times> coordinator_work) list" where
  "waiting_sites s =
     concat (map (\<lambda>lane. map (\<lambda>i. (In_queue lane i, co_queues s lane ! i)) [0..<length (co_queues s lane)])
       coordinator_lanes)
     @ map (\<lambda>(a, ready, w). (In_retry a ready, w)) (co_retry_at s)
     @ map (\<lambda>(a, w). (In_parked a, w)) (co_stream_parked s)"

fun site_lane :: "waiting_site \<Rightarrow> coordinator_work \<Rightarrow> coordinator_lane res" where
  "site_lane (In_queue lane i) w = Inr lane"
| "site_lane (In_retry a ready) w = (case lane_of_state (cw_state w) of
      None \<Rightarrow> Inl (RuntimeError ''retry work has unsupported durable state'') | Some lane \<Rightarrow> Inr lane)"
| "site_lane (In_parked a) w = Inr Remote"

fun store_site :: "waiting_site \<Rightarrow> coordinator_work \<Rightarrow> 'w coordinator \<Rightarrow> 'w coordinator" where
  "store_site (In_queue lane i) w s = s\<lparr>co_queues := (co_queues s)(lane := (co_queues s lane)[i := w])\<rparr>"
| "store_site (In_retry a ready) w s = s\<lparr>co_retry_at := AList.update a (ready, w) (co_retry_at s)\<rparr>"
| "store_site (In_parked a) w s = s\<lparr>co_stream_parked := AList.update a w (co_stream_parked s)\<rparr>"

text \<open>
  The loops of \<open>guard_waiting\<close>. The accumulated floor is \<open>Some None\<close> for infinity; the answer \<^term>\<open>None\<close> is the
  early return, after which the floor keeps its value.
\<close>

fun guard_sites ::
  "'w backend \<Rightarrow> coordinator_limits \<Rightarrow> rat \<Rightarrow> (waiting_site \<times> coordinator_work) list \<Rightarrow> rat option
     \<Rightarrow> ('w, rat option option) act" where
  "guard_sites be l now [] least = ret (Some least)"
| "guard_sites be l now ((site, w) # rest) least =
     bindA (liftA (site_lane site w)) (\<lambda>lane.
     bindA (if needs_renewal l w now then renew_waiting be l w lane else ret (Some w)) (\<lambda>kept.
       case kept of
         None \<Rightarrow> ret None
       | Some w' \<Rightarrow>
           bindA (whenA (needs_renewal l w now) (modify (store_site site w'))) (\<lambda>_.
           case cw_lease_expires w' of
             None \<Rightarrow> raise (AssertionError '''')
           | Some t \<Rightarrow> guard_sites be l now rest (Some (case least of None \<Rightarrow> t | Some f \<Rightarrow> min f t)))))"

definition guard_waiting :: "'w backend \<Rightarrow> coordinator_limits \<Rightarrow> rat \<Rightarrow> ('w, unit) act" where
  "guard_waiting be l now =
     bindA (gets (\<lambda>s. co_circuit_open s
         \<or> (case co_renewal_floor s of None \<Rightarrow> True | Some f \<Rightarrow> now + renewal_threshold l < f))) (\<lambda>idle.
       if idle then ret ()
       else bindA (gets waiting_sites) (\<lambda>sites.
         bindA (guard_sites be l now sites None) (\<lambda>answer.
           case answer of None \<Rightarrow> ret () | Some least \<Rightarrow> modify (\<lambda>s. s\<lparr>co_renewal_floor := least\<rparr>))))"

text \<open>\<open>bounded_defer_delay\<close>; \<open>lease or now\<close> reads a lease of 0 as none.\<close>

definition bounded_defer_delay :: "coordinator_limits \<Rightarrow> coordinator_work \<Rightarrow> rat \<Rightarrow> rat \<Rightarrow> rat" where
  "bounded_defer_delay l w now requested =
     (let configured_max_wait = of_int (cl_claim_lease_seconds l) - cl_max_stage_step_seconds l - cl_claim_renew_margin_seconds l;
          lease = (case cw_lease_expires w of None \<Rightarrow> now | Some t \<Rightarrow> if t = 0 then now else t);
          lease_remaining = lease - now - cl_claim_renew_margin_seconds l;
          safe_wait = max (cl_poll_seconds l) (min configured_max_wait lease_remaining) in
      min requested safe_wait)"

subsection \<open>Credits of a dispatch\<close>

definition exceeded_dimensions :: "resource_credit_vector \<Rightarrow> resource_credit_vector \<Rightarrow> string list" where
  "exceeded_dimensions used limit =
     map fst (filter (\<lambda>(name, u, m). u > m)
       (map2 (\<lambda>(name, u) (_, m). (name, u, m)) (rcv_items used) (rcv_items limit)))"

definition positive_dimensions :: "resource_credit_vector \<Rightarrow> string list" where
  "positive_dimensions v = map fst (filter (\<lambda>(name, n). n > 0) (rcv_items v))"

definition rcv_select :: "string list \<Rightarrow> resource_credit_vector \<Rightarrow> resource_credit_vector" where
  "rcv_select names v =
     (let pick = (\<lambda>name n. if name \<in> set names then n else (0 :: int)) in
      \<lparr>documents = pick ''documents'' (documents v),
       snapshot_items = pick ''snapshot_items'' (snapshot_items v),
       snapshot_bytes = pick ''snapshot_bytes'' (snapshot_bytes v),
       remote_waits = pick ''remote_waits'' (remote_waits v),
       provider_tasks = pick ''provider_tasks'' (provider_tasks v),
       provider_result_bytes = pick ''provider_result_bytes'' (provider_result_bytes v),
       materialization_items = pick ''materialization_items'' (materialization_items v),
       compressed_bytes = pick ''compressed_bytes'' (compressed_bytes v),
       decoded_bytes = pick ''decoded_bytes'' (decoded_bytes v),
       temp_disk_bytes = pick ''temp_disk_bytes'' (temp_disk_bytes v),
       output_items = pick ''output_items'' (output_items v),
       output_bytes = pick ''output_bytes'' (output_bytes v),
       output_pages = pick ''output_pages'' (output_pages v),
       ack_items = pick ''ack_items'' (ack_items v)\<rparr>)"

text \<open>\<open>names_by_state\<close>: what the stage that leaves a state may add.\<close>

definition hold_names :: "(string \<times> string list) list" where
  "hold_names =
     [(''prepared'', [''remote_waits'']),
      (''reconciling'', [''provider_tasks'', ''ack_items'']),
      (''submitted'', [''provider_result_bytes'']),
      (''remote_terminal'', [''materialization_items'', ''compressed_bytes'', ''decoded_bytes'', ''temp_disk_bytes'']),
      (''materializing'', [''output_items'', ''output_bytes'', ''output_pages'']),
      (''local_materialized'', []),
      (''publish_committed'', []),
      (''cleanup_pending'', []),
      (''ack_pending'', [])]"

definition transition_hold :: "coordinator_work \<Rightarrow> resource_credit_vector res" where
  "transition_hold w =
     (case map_of hold_names (cw_state w) of
        None \<Rightarrow> Inl (RuntimeError (''unsupported credit transition source: '' @ cw_state w))
      | Some names \<Rightarrow> mk_rcv (rcv_select names
          (rcv_map2 (\<lambda>r c. max 0 (r - c)) (cw_credit_reservation w) (cw_credits w))))"

subsection \<open>Stage guards in flight\<close>

definition update_flight :: "nat \<Rightarrow> (flight \<Rightarrow> flight) \<Rightarrow> ('w, unit) act" where
  "update_flight i f = modify (\<lambda>s. s\<lparr>co_in_flight := map (\<lambda>x. if fl_future x = i then f x else x) (co_in_flight s)\<rparr>)"

definition revoke :: "nat \<Rightarrow> ('w, unit) act" where
  "revoke i = update_flight i (\<lambda>x. x\<lparr>fl_revoked := True\<rparr>)"

text \<open>\<open>StageLeaseGuard.checkpoint\<close>: \<^term>\<open>True\<close> is \<open>StageLeaseLost\<close>, after which the guard is revoked.\<close>

definition guard_expired :: "flight \<Rightarrow> rat \<Rightarrow> bool" where
  "guard_expired x t \<longleftrightarrow> fl_revoked x
     \<or> t \<ge> (case fl_claim_deadline x of None \<Rightarrow> fl_deadline x | Some c \<Rightarrow> min (fl_deadline x) c)"

definition guard_checkpoint :: "'w backend \<Rightarrow> flight \<Rightarrow> ('w, bool) act" where
  "guard_checkpoint be x =
     bindA (now_of be) (\<lambda>t.
       if guard_expired x t then bindA (revoke (fl_future x)) (\<lambda>_. ret True) else ret False)"

text \<open>The failure of a flight, reported once.\<close>

definition fail_flight :: "flight \<Rightarrow> string \<Rightarrow> string \<Rightarrow> ('w, unit) act" where
  "fail_flight x reason msg = seqA
     [open_circuit reason, add_error (about (fl_work x) (fl_lane x) msg),
      modify (\<lambda>s. s\<lparr>co_in_flight_failures := insert (fl_future x) (co_in_flight_failures s)\<rparr>),
      revoke (fl_future x)]"

definition fail_flight_once :: "flight \<Rightarrow> string \<Rightarrow> string \<Rightarrow> ('w, unit) act" where
  "fail_flight_once x reason msg =
     bindA (gets (\<lambda>s. fl_future x \<in> co_in_flight_failures s)) (\<lambda>seen. whenA (\<not> seen) (fail_flight x reason msg))"

text \<open>\<open>refresh_guard_claim\<close>, with \<open>StageLeaseGuard.refresh_claim_deadline\<close>.\<close>

definition refresh_failed :: "flight \<Rightarrow> coordinator_work \<Rightarrow> string \<Rightarrow> ('w, bool) act" where
  "refresh_failed x renewed msg =
     bindA (fail_flight (x\<lparr>fl_work := renewed\<rparr>) ''in_flight_claim_lost'' (''claim-guard:'' @ msg)) (\<lambda>_. ret False)"

definition refresh_guard_claim :: "'w backend \<Rightarrow> coordinator_limits \<Rightarrow> flight \<Rightarrow> coordinator_work \<Rightarrow> ('w, bool) act" where
  "refresh_guard_claim be l x renewed =
     (case fl_claim_deadline x of
        None \<Rightarrow> ret True
      | Some c \<Rightarrow>
          (case cw_lease_expires renewed of
             None \<Rightarrow> refresh_failed x renewed ''StageLeaseLost:renewal has no verified claim deadline''
           | Some lease \<Rightarrow>
               bindA (guard_checkpoint be x) (\<lambda>lost.
                 let d = lease - cl_claim_renew_margin_seconds l in
                 if lost then refresh_failed x renewed ''StageLeaseLost:bounded stage lease expired''
                 else if d \<le> 0 then refresh_failed x renewed ''ValueError:claim deadline must be finite and positive''
                 else if d \<le> c then refresh_failed x renewed ''ValueError:claim deadline must strictly increase an existing fence''
                 else bindA (update_flight (fl_future x) (\<lambda>y. y\<lparr>fl_claim_deadline := Some d\<rparr>)) (\<lambda>_. ret True))))"

text \<open>The body of the loop of \<open>guard_in_flight\<close> from the failed renewal on.\<close>

definition lease_covers :: "'w backend \<Rightarrow> coordinator_limits \<Rightarrow> flight \<Rightarrow> coordinator_work \<Rightarrow> ('w, bool) act" where
  "lease_covers be l x durable =
     (if same_claim durable (fl_work x) \<and> later_lease durable (fl_work x)
      then bindA (now_of be) (\<lambda>t. ret (the (cw_lease_expires durable)
          > min (fl_deadline x) (t + cl_max_stage_step_seconds l) + cl_claim_renew_margin_seconds l))
      else ret False)"

definition committed_meanwhile :: "flight \<Rightarrow> coordinator_work \<Rightarrow> bool" where
  "committed_meanwhile x durable \<longleftrightarrow> cw_attempt_id durable = cw_attempt_id (fl_work x)
     \<and> cw_claim_generation durable = cw_claim_generation (fl_work x)
     \<and> lane_allows (fl_lane x) (cw_state (fl_work x)) (cw_state durable)
     \<and> cw_lifecycle_version durable = cw_lifecycle_version (fl_work x) + 1"

definition reconcile_flight :: "'w backend \<Rightarrow> coordinator_limits \<Rightarrow> flight \<Rightarrow> py_error \<Rightarrow> ('w, unit) act" where
  "reconcile_flight be l x e =
     bindA (callA (be_done be (fl_future x))) (\<lambda>done.
     if done then ret ()
     else tryA (callR (be_reload_claim be (fl_work x)))
       (\<lambda>e'. fail_flight_once x ''in_flight_claim_reconcile_failed'' (''claim-reload:'' @ error_text e'))
       (\<lambda>durable.
         bindA (lease_covers be l x durable) (\<lambda>covered.
         if covered
         then bindA (refresh_guard_claim be l x durable) (\<lambda>ok. whenA ok (seqA
           [modify (\<lambda>s. s\<lparr>co_known := AList.update (cw_attempt_id (fl_work x)) durable (co_known s)\<rparr>),
            bindA (gets (\<lambda>s. cw_attempt_id durable \<in> co_oversubscribed s)) (charge durable),
            update_flight (fl_future x) (\<lambda>y. y\<lparr>fl_work := durable\<rparr>)]))
         else if committed_meanwhile x durable
         then modify (\<lambda>s. s\<lparr>co_reconciled := AList.update (fl_future x) durable (co_reconciled s)\<rparr>)
         else fail_flight_once x ''in_flight_claim_lost'' (''claim:'' @ error_text e))))"

definition guard_flight :: "'w backend \<Rightarrow> coordinator_limits \<Rightarrow> rat \<Rightarrow> flight \<Rightarrow> ('w, unit) act" where
  "guard_flight be l now x =
     bindA (callA (be_done be (fl_future x))) (\<lambda>done.
     if done then ret ()
     else bindA (guard_checkpoint be x) (\<lambda>lost.
       if lost then fail_flight_once x ''bounded_stage_deadline_exceeded'' ''stage deadline exceeded''
       else bindA (gets (\<lambda>s. map_of (co_reconciled s) (fl_future x) \<noteq> None)) (\<lambda>reconciled.
         if reconciled \<or> \<not> needs_renewal l (fl_work x) now then ret ()
         else tryA (renew be l (fl_work x) (fl_lane x)) (reconcile_flight be l x) (\<lambda>renewed.
           bindA (refresh_guard_claim be l x renewed) (\<lambda>ok.
             whenA ok (update_flight (fl_future x) (\<lambda>y. y\<lparr>fl_work := renewed\<rparr>)))))))"

definition guard_in_flight :: "'w backend \<Rightarrow> coordinator_limits \<Rightarrow> rat \<Rightarrow> ('w, unit) act" where
  "guard_in_flight be l now = bindA (gets co_in_flight) (\<lambda>flights. forA flights (guard_flight be l now))"

subsection \<open>The admission observation\<close>

definition set_observation :: "(observation_state \<Rightarrow> observation_state) \<Rightarrow> ('w, unit) act" where
  "set_observation f = modify (\<lambda>s. s\<lparr>co_observation := f (co_observation s)\<rparr>)"

definition observation_pending :: "'w coordinator \<Rightarrow> bool" where
  "observation_pending s = (os_request (co_observation s) \<noteq> None)"

definition observation_slots :: "'w coordinator \<Rightarrow> int" where
  "observation_slots s = (if os_future (co_observation s) \<noteq> None then 1 else 0)"

definition observation_credits :: "'w coordinator \<Rightarrow> resource_credit_vector" where
  "observation_credits s = (case os_request (co_observation s) of None \<Rightarrow> rcv_zero | Some r \<Rightarrow> rq_credits r)"

definition observation_enqueue :: "'w backend \<Rightarrow> observation_request \<Rightarrow> ('w, unit) act" where
  "observation_enqueue be r =
     bindA (gets observation_pending) (\<lambda>pending.
       if pending \<or> \<not> be_has_observer be
       then raise (RuntimeError ''admission observation lacks a free bounded owner'')
       else set_observation (\<lambda>ob. ob\<lparr>os_request := Some r, os_discard := False\<rparr>))"

definition fresh_future :: "('w, nat) act" where
  "fresh_future = bindA (gets co_next_future) (\<lambda>i. bindA (modify (\<lambda>s. s\<lparr>co_next_future := Suc i\<rparr>)) (\<lambda>_. ret i))"

definition observation_dispatch :: "'w backend \<Rightarrow> ('w, unit) act" where
  "observation_dispatch be =
     bindA (gets co_observation) (\<lambda>ob.
       case os_request ob of
         None \<Rightarrow> ret ()
       | Some r \<Rightarrow>
           if os_future ob \<noteq> None \<or> os_discard ob then ret ()
           else bindA fresh_future (\<lambda>i.
             bindA (callR (be_observe be r i)) (\<lambda>_. set_observation (\<lambda>ob. ob\<lparr>os_future := Some i\<rparr>))))"

definition observation_clear :: "('w, unit) act" where
  "observation_clear = set_observation (\<lambda>_. no_observation)"

text \<open>\<open>collect\<close>: a discarded observation may end with \<open>StageLeaseLost\<close>; every other exception is raised again.\<close>

definition observation_take :: "'w backend \<Rightarrow> observation_request \<Rightarrow> bool \<Rightarrow> observation_answer \<Rightarrow> ('w, unit) act" where
  "observation_take be r discard answer =
     (let observed_error = set_observation (\<lambda>ob. ob\<lparr>os_error_observed := True\<rparr>) in
      case answer of
        Observation_lease_lost \<Rightarrow> bindA observed_error (\<lambda>_.
          if discard then ret () else raise (RuntimeError ''bounded stage lease expired''))
      | Observation_failed e \<Rightarrow> bindA observed_error (\<lambda>_. raise e)
      | Observation_result result \<Rightarrow>
          (if rs_request result \<noteq> r then raise (RuntimeError ''admission observation returned another request'')
           else whenA (\<not> discard) (callR (be_accept_observation be result))))"

definition observation_collect :: "'w backend \<Rightarrow> ('w, bool) act" where
  "observation_collect be =
     bindA (gets co_observation) (\<lambda>ob.
       case os_future ob of
         None \<Rightarrow> ret False
       | Some i \<Rightarrow>
           bindA (callA (be_done be i)) (\<lambda>done.
             if \<not> done then ret False
             else (case os_request ob of
                 None \<Rightarrow> raise (AssertionError [])
               | Some r \<Rightarrow>
                   bindA (callA (be_observation_result be i)) (\<lambda>answer.
                   bindA (observation_take be r (os_discard ob) answer) (\<lambda>_.
                   bindA (whenA (os_discard ob) (callR (be_abandon_observation be r))) (\<lambda>_.
                   bindA observation_clear (\<lambda>_. ret True)))))))"

definition observation_cancel :: "'w backend \<Rightarrow> ('w, unit) act" where
  "observation_cancel be =
     bindA (gets co_observation) (\<lambda>ob.
       case os_request ob of
         None \<Rightarrow> ret ()
       | Some r \<Rightarrow>
           bindA (set_observation (\<lambda>ob. ob\<lparr>os_discard := True\<rparr>)) (\<lambda>_.
             whenA (os_future ob = None)
               (bindA (callR (be_abandon_observation be r)) (\<lambda>_. observation_clear))))"

end
