(* ===== verification/CoordinatorLoop.thy ===== *)
theory CoordinatorLoop
  imports CoordinatorOps
begin

text \<open>
  The body of \<open>StagedParseCoordinator.run\<close>: the recovery barrier, one turn of the scheduling loop phase by phase in
  the order of the source, and the loop itself with a bound on the number of turns.
\<close>

subsection \<open>Telemetry\<close>

definition count_lane :: "'w coordinator \<Rightarrow> coordinator_lane \<Rightarrow> int" where
  "count_lane s lane = int (length (filter (\<lambda>x. fl_lane x = lane) (co_in_flight s)))"

text \<open>\<open>ledger.in_use + provisional_local_total\<close>, and with the observation's credit.\<close>

definition committed_credits :: "'w coordinator \<Rightarrow> resource_credit_vector res" where
  "committed_credits s = rcv_add (lg_in_use (co_ledger s)) (co_provisional_total s)"

definition held_credits :: "'w coordinator \<Rightarrow> resource_credit_vector res" where
  "held_credits s = bindR (committed_credits s) (\<lambda>c. rcv_add c (observation_credits s))"

definition snapshot_of :: "'w coordinator \<Rightarrow> coordinator_snapshot res" where
  "snapshot_of s =
     bindR (held_credits s) (\<lambda>held. Inr
       \<lparr>sn_admission_open = co_admission_open s, sn_recovery_complete = co_recovery_complete s,
        sn_circuit_open = co_circuit_open s,
        sn_queued = map (\<lambda>lane. (lane, int (length (co_queues s lane))
          + (if lane = Preflight \<and> observation_pending s \<and> observation_slots s = 0 then 1 else 0))) coordinator_lanes,
        sn_in_flight = map (\<lambda>lane. (lane, count_lane s lane
          + (if lane = Preflight then observation_slots s else 0))) coordinator_lanes,
        sn_credits_in_use = held, sn_credits_limit = lg_limit (co_ledger s), sn_completed = co_completed s,
        sn_blocked_reason = co_blocked_reason s,
        sn_credit_blocked_by_lane =
          map (\<lambda>lane. (lane, filter (\<lambda>n. n \<in> co_credit_blocked s lane) (sort credit_names))) coordinator_lanes,
        sn_stream_target = map_option sd_target (co_stream_decision s),
        sn_stream_actual = (case co_stream_decision s of None \<Rightarrow> None
          | Some _ \<Rightarrow> Some (remote_waits (lg_in_use (co_ledger s)) + remote_waits (co_provisional_total s))),
        sn_stream_reason = map_option sd_reason (co_stream_decision s),
        sn_stream_evidence_sha256 = Option.bind (co_stream_decision s) sd_evidence_sha256\<rparr>)"

definition emit :: "'w backend \<Rightarrow> ('w, unit) act" where
  "emit be =
     bindA (gets snapshot_of) (\<lambda>snapshot. bindA (liftA snapshot) (\<lambda>sn. callR (be_progress be sn)))"

subsection \<open>The recovery barrier\<close>

definition deferred_projection_ok :: "recovery_candidate \<Rightarrow> coordinator_work \<Rightarrow> bool" where
  "deferred_projection_ok c durable \<longleftrightarrow> \<not> (cw_attempt_id durable \<noteq> rc_attempt_id c
     \<or> is_final_name (cw_state durable) \<or> cw_claim_owner durable = None)"

definition defer_claim :: "recovery_candidate \<Rightarrow> rat \<Rightarrow> coordinator_work \<Rightarrow> rat \<Rightarrow> ('w, unit) act" where
  "defer_claim c delay durable now =
     modify (\<lambda>s. s\<lparr>co_deferred_claims := AList.update (rc_attempt_id c) (now + delay, c) (co_deferred_claims s)\<rparr>)"

definition check_deferred :: "recovery_candidate \<Rightarrow> coordinator_work \<Rightarrow> ('w, unit) act" where
  "check_deferred c durable =
     (if deferred_projection_ok c durable then reserve_deferred durable
      else raise (RuntimeError ''deferred recovery returned a foreign or final projection''))"

text \<open>One candidate of a recovery page.\<close>

definition recover_candidate :: "'w backend \<Rightarrow> coordinator_limits \<Rightarrow> recovery_candidate \<Rightarrow> ('w, unit) act" where
  "recover_candidate be l c =
     bindA (callA (be_claim_recovery be c)) (\<lambda>answer.
     bindA (case answer of
         Claimed w \<Rightarrow> place be l w True
       | Claim_deferred delay durable \<Rightarrow>
           bindA (check_deferred c durable) (\<lambda>_. bindA (now_of be) (\<lambda>t. defer_claim c delay durable t))
       | Claim_failed e \<Rightarrow> raise e) (\<lambda>_.
     bindA (now_of be) (guard_waiting be l)))"

fun recover_page :: "'w backend \<Rightarrow> coordinator_limits \<Rightarrow> recovery_candidate list \<Rightarrow> ('w, unit) act" where
  "recover_page be l [] = ret ()"
| "recover_page be l (c # cs) =
     bindA (recover_candidate be l c) (\<lambda>_.
     bindA (gets co_circuit_open) (\<lambda>opened. if opened then ret () else recover_page be l cs))"

definition page_ordered :: "string option \<Rightarrow> string list \<Rightarrow> bool" where
  "page_ordered cursor ids \<longleftrightarrow> \<not> (ids \<noteq> sort ids \<or> \<not> distinct ids
     \<or> (case cursor of None \<Rightarrow> False | Some a \<Rightarrow> ids ! 0 \<le> a))"

definition exhaust_barrier :: "('w, unit) act" where
  "exhaust_barrier = modify (\<lambda>s. s\<lparr>co_barrier_exhausted := True\<rparr>)"

text \<open>The keyset loop of the barrier; \<open>fuel\<close> bounds the number of pages.\<close>

fun recovery_barrier :: "nat \<Rightarrow> 'w backend \<Rightarrow> coordinator_limits \<Rightarrow> string option \<Rightarrow> ('w, unit) act" where
  "recovery_barrier 0 be l cursor = raise (RuntimeError ''out of fuel'')"
| "recovery_barrier (Suc fuel) be l cursor =
     bindA (callR (be_process_guard be)) (\<lambda>_.
     bindA (callR (be_list_recoverable be cursor (cl_recovery_page_size l))) (\<lambda>page.
       if page = [] then exhaust_barrier
       else if \<not> page_ordered cursor (map rc_attempt_id page)
       then raise (RuntimeError ''recovery keyset page is not strictly ordered'')
       else
         bindA (recover_page be l page) (\<lambda>_.
         bindA (gets co_circuit_open) (\<lambda>opened.
           if opened then ret ()
           else if int (length page) < cl_recovery_page_size l then exhaust_barrier
           else recovery_barrier fuel be l (Some (last (map rc_attempt_id page)))))))"

definition open_admission :: "'w backend \<Rightarrow> ('w, unit) act" where
  "open_admission be =
     bindA (modify (\<lambda>s. s\<lparr>co_recovery_complete := co_barrier_exhausted s \<and> co_deferred_claims s = []\<rparr>)) (\<lambda>_.
     bindA (gets (\<lambda>s. co_recovery_complete s \<and> \<not> co_circuit_open s)) (\<lambda>ready.
     bindA (if ready then callA (be_stop_requested be) else ret True) (\<lambda>stop.
     bindA (modify (\<lambda>s. s\<lparr>co_admission_open := ready \<and> \<not> stop\<rparr>)) (\<lambda>_.
     bindA (modify (\<lambda>s.
         if co_admission_open s then s\<lparr>co_blocked_reason := None\<rparr>
         else if \<not> co_circuit_open s then s\<lparr>co_blocked_reason := Some ''admission_closed''\<rparr> else s)) (\<lambda>_.
       emit be)))))"

subsection \<open>The start of a turn\<close>

definition collect_observation :: "'w backend \<Rightarrow> ('w, unit) act" where
  "collect_observation be =
     bindA (callA (be_stop_requested be)) (\<lambda>stop.
     bindA (gets (\<lambda>s. stop \<or> co_circuit_open s)) (\<lambda>cancel.
     bindA (whenA cancel (observation_cancel be)) (\<lambda>_.
     bindA (observation_collect be) (\<lambda>collected.
       whenA collected
         (bindA (modify (\<lambda>s. s\<lparr>co_admission_probe_at := 0\<rparr>)) (\<lambda>_.
          bindA (now_of be) (\<lambda>t. modify (\<lambda>s. s\<lparr>co_last_progress := t\<rparr>))))))))"

definition close_stream :: "string \<Rightarrow> ('w, unit) act" where
  "close_stream reason = seqA
     [modify (\<lambda>s. s\<lparr>co_stream_failure := Some reason\<rparr>),
      add_error (''stream pressure closed new submissions: '' @ reason)]"

definition follow_stream :: "'w backend \<Rightarrow> ('w, unit) act" where
  "follow_stream be =
     (case be_stream be of
        None \<Rightarrow> ret ()
      | Some current \<Rightarrow>
          bindA (callR current) (\<lambda>d.
          bindA (modify (\<lambda>s. s\<lparr>co_stream_decision := Some d\<rparr>)) (\<lambda>_.
          bindA (gets (\<lambda>s. sd_unsafe d \<and> co_stream_failure s = None)) (\<lambda>newly.
          bindA (whenA newly (close_stream (sd_reason d))) (\<lambda>_.
          bindA (gets (\<lambda>s. co_stream_failure s \<noteq> None)) (\<lambda>failed. whenA failed (observation_cancel be)))))))"

definition drain_on_stop :: "'w backend \<Rightarrow> ('w, unit) act" where
  "drain_on_stop be =
     bindA (callA (be_stop_requested be)) (\<lambda>stop.
       whenA stop (modify (\<lambda>s. s\<lparr>co_admission_open := False, co_blocked_reason := Some ''draining''\<rparr>)))"

subsection \<open>Deferred claims and retries\<close>

definition stop_or_open :: "'w backend \<Rightarrow> ('w, bool) act" where
  "stop_or_open be =
     bindA (callA (be_stop_requested be)) (\<lambda>stop. if stop then ret True else gets co_circuit_open)"

definition retry_deferred_claim :: "'w backend \<Rightarrow> coordinator_limits \<Rightarrow> rat \<Rightarrow> string \<Rightarrow> recovery_candidate \<Rightarrow> ('w, unit) act" where
  "retry_deferred_claim be l now a c =
     bindA (callA (be_claim_recovery be c)) (\<lambda>answer.
       case answer of
         Claimed w \<Rightarrow> seqA
           [modify (\<lambda>s. s\<lparr>co_deferred_claims := AList.delete a (co_deferred_claims s)\<rparr>),
            place be l w True, modify (\<lambda>s. s\<lparr>co_last_progress := now\<rparr>)]
       | Claim_deferred delay durable \<Rightarrow>
           bindA (check_deferred c durable) (\<lambda>_.
             modify (\<lambda>s. s\<lparr>co_deferred_claims := AList.update a (now + delay, c) (co_deferred_claims s)\<rparr>))
       | Claim_failed e \<Rightarrow> raise e)"

fun retry_deferred :: "'w backend \<Rightarrow> coordinator_limits \<Rightarrow> rat \<Rightarrow> (string \<times> rat \<times> recovery_candidate) list \<Rightarrow> ('w, unit) act" where
  "retry_deferred be l now [] = ret ()"
| "retry_deferred be l now ((a, ready, c) # rest) =
     bindA (stop_or_open be) (\<lambda>halt.
       if halt then ret ()
       else bindA (whenA (ready \<le> now) (retry_deferred_claim be l now a c)) (\<lambda>_. retry_deferred be l now rest))"

definition clears_on_recovery :: "string option \<Rightarrow> bool" where
  "clears_on_recovery reason = (case reason of None \<Rightarrow> False
     | Some r \<Rightarrow> r = ''recovery_barrier'' \<or> is_prefix ''stream_pause:'' r)"

definition reopen_admission :: "'w backend \<Rightarrow> rat \<Rightarrow> ('w, unit) act" where
  "reopen_admission be now =
     bindA (modify (\<lambda>s. s\<lparr>co_recovery_complete := co_barrier_exhausted s \<and> co_deferred_claims s = []\<rparr>)) (\<lambda>_.
     bindA (gets (\<lambda>s. co_recovery_complete s \<and> \<not> co_retry_degraded s \<and> \<not> co_circuit_open s)) (\<lambda>ready.
     bindA (if ready then bindA (callA (be_stop_requested be)) (\<lambda>stop. ret (\<not> stop)) else ret False) (\<lambda>go.
       if go
       then modify (\<lambda>s. s\<lparr>co_admission_open := (\<not> co_admission_deferred s \<or> now \<ge> co_admission_probe_at s),
           co_blocked_reason := (if clears_on_recovery (co_blocked_reason s) then None else co_blocked_reason s)\<rparr>)
       else
         bindA (gets (\<lambda>s. \<not> co_recovery_complete s \<and> \<not> co_circuit_open s)) (\<lambda>waiting.
         bindA (if waiting then bindA (callA (be_stop_requested be)) (\<lambda>stop. ret (\<not> stop)) else ret False) (\<lambda>block.
           whenA block (modify (\<lambda>s. s\<lparr>co_admission_open := False, co_blocked_reason := Some ''recovery_barrier''\<rparr>)))))))"

text \<open>Retries whose time has come go back to the queue of their lane.\<close>

fun release_retries :: "rat \<Rightarrow> (string \<times> rat \<times> coordinator_work) list \<Rightarrow> ('w, unit) act" where
  "release_retries now [] = ret ()"
| "release_retries now ((a, ready, w) # rest) =
     bindA (whenA (ready \<le> now)
       (bindA (modify (\<lambda>s. s\<lparr>co_retry_at := AList.delete a (co_retry_at s)\<rparr>)) (\<lambda>_.
          case lane_of_state (cw_state w) of
            None \<Rightarrow> raise (RuntimeError ''retry work has unsupported durable state'')
          | Some lane \<Rightarrow> modify (\<lambda>s. s\<lparr>co_queues := (co_queues s)(lane := co_queues s lane @ [w])\<rparr>))))
       (\<lambda>_. release_retries now rest)"

definition pause_reason :: "'w coordinator \<Rightarrow> string" where
  "pause_reason s = ''stream_pause:'' @
     (case co_stream_failure s of
        Some (c # cs) \<Rightarrow> c # cs
      | _ \<Rightarrow> (case co_stream_decision s of Some d \<Rightarrow> sd_reason d | None \<Rightarrow> ''unknown''))"

definition pause_on_stream :: "'w backend \<Rightarrow> ('w, unit) act" where
  "pause_on_stream be =
     bindA (gets (\<lambda>s. co_stream_failure s \<noteq> None
         \<or> (case co_stream_decision s of None \<Rightarrow> False | Some d \<Rightarrow> sd_target d = 0))) (\<lambda>paused.
       whenA paused
         (bindA (modify (\<lambda>s. s\<lparr>co_admission_open := False\<rparr>)) (\<lambda>_.
          bindA (gets co_circuit_open) (\<lambda>opened.
          bindA (if opened then ret True else callA (be_stop_requested be)) (\<lambda>quiet.
            whenA (\<not> quiet) (modify (\<lambda>s. s\<lparr>co_blocked_reason := Some (pause_reason s)\<rparr>)))))))"

subsection \<open>Admission of new work\<close>

definition starts_with :: "string \<Rightarrow> string option \<Rightarrow> bool" where
  "starts_with p reason = (case reason of None \<Rightarrow> False | Some r \<Rightarrow> is_prefix p r)"

definition clear_reason :: "(string option \<Rightarrow> bool) \<Rightarrow> ('w, unit) act" where
  "clear_reason P = modify (\<lambda>s. if P (co_blocked_reason s) then s\<lparr>co_blocked_reason := None\<rparr> else s)"

definition set_reason :: "string \<Rightarrow> ('w, unit) act" where
  "set_reason r = modify (\<lambda>s. s\<lparr>co_blocked_reason := Some r\<rparr>)"

definition saturated_dimensions :: "resource_credit_vector \<Rightarrow> string list" where
  "saturated_dimensions v = map fst (filter (\<lambda>(name, n). n = 0) (rcv_items v))"

text \<open>The scan is complete, its probe time has not come, and no credit was released since.\<close>

definition probe_not_due :: "'w coordinator \<Rightarrow> rat \<Rightarrow> resource_credit_vector \<Rightarrow> bool" where
  "probe_not_due s now available \<longleftrightarrow> \<not> co_admission_scan_incomplete s \<and> now < co_admission_probe_at s
     \<and> (case co_last_available s of None \<Rightarrow> False | Some before \<Rightarrow> rcv_fits available before)"

definition count_admitted :: "rat \<Rightarrow> ('w, unit) act" where
  "count_admitted now = modify (\<lambda>s. s\<lparr>co_admitted := co_admitted s + 1, co_last_progress := now\<rparr>)"

definition refuse_duplicate :: "string set \<Rightarrow> coordinator_work \<Rightarrow> string \<Rightarrow> ('w, unit) act" where
  "refuse_duplicate active w msg =
     bindA (gets (\<lambda>s. cw_attempt_id w \<in> active \<or> map_of (co_final s) (cw_attempt_id w) \<noteq> None)) (\<lambda>duplicate.
       if duplicate then raise (RuntimeError msg) else ret ())"

fun place_interrupted ::
  "'w backend \<Rightarrow> coordinator_limits \<Rightarrow> rat \<Rightarrow> string set \<Rightarrow> coordinator_work list \<Rightarrow> ('w, unit) act" where
  "place_interrupted be l now active [] = ret ()"
| "place_interrupted be l now active (w # rest) =
     bindA (refuse_duplicate active w ''interrupted admission duplicated an active attempt'') (\<lambda>_.
     bindA (place be l w True) (\<lambda>_.
     bindA (count_admitted now) (\<lambda>_. place_interrupted be l now (insert (cw_attempt_id w) active) rest)))"

definition admission_interrupted ::
  "'w backend \<Rightarrow> coordinator_limits \<Rightarrow> rat \<Rightarrow> string set \<Rightarrow> string \<Rightarrow> coordinator_work list \<Rightarrow> ('w, unit) act" where
  "admission_interrupted be l now active msg claimed = seqA
     [place_interrupted be l now active claimed,
      open_circuit ''admission_interrupted'',
      add_error (''admission interrupted after '' @ int_text (int (length claimed)) @ '' durable claim(s) [''
        @ join_with '','' (map cw_attempt_id claimed) @ '']:'' @ msg)]"

definition initial_shape :: "coordinator_work \<Rightarrow> bool" where
  "initial_shape w \<longleftrightarrow> cw_state w = ''prepared'' \<and> cw_lifecycle_version w = 0"

text \<open>One admitted attempt: it is durable already, so a violation of the contract is placed and opens the circuit.\<close>

definition place_admitted :: "'w backend \<Rightarrow> coordinator_limits \<Rightarrow> coordinator_work \<Rightarrow> ('w, unit) act" where
  "place_admitted be l w =
     bindA (gets co_ledger) (\<lambda>ledger.
     bindA (if initial_shape w then liftA (can_add ledger (cw_attempt_id w) (cw_credits w)) else ret False) (\<lambda>fits.
       if fits \<and> rcv_fits (cw_credit_reservation w) (lg_limit ledger) then place be l w False
       else seqA
         [place be l w True,
          open_circuit (if initial_shape w then ''admission_credit_contract_violation''
            else ''admission_initial_state_contract_violation''),
          add_error (cw_attempt_id w @ (if initial_shape w then '':admission exceeded credit grant''
            else '':admission returned an invalid initial state''))]))"

fun place_batch ::
  "'w backend \<Rightarrow> coordinator_limits \<Rightarrow> rat \<Rightarrow> string set \<Rightarrow> coordinator_work list \<Rightarrow> ('w, unit) act" where
  "place_batch be l now active [] = ret ()"
| "place_batch be l now active (w # rest) =
     bindA (refuse_duplicate active w ''new admission duplicated an active attempt'') (\<lambda>_.
     bindA (place_admitted be l w) (\<lambda>_.
     bindA (count_admitted now) (\<lambda>_. place_batch be l now (insert (cw_attempt_id w) active) rest)))"

definition accept_observation_request :: "'w backend \<Rightarrow> observation_request option \<Rightarrow> ('w, unit) act" where
  "accept_observation_request be request =
     (case request of
        None \<Rightarrow> ret ()
      | Some r \<Rightarrow>
          bindA (gets (\<lambda>s. bindR (committed_credits s) (\<lambda>c. rcv_add c (rq_credits r)))) (\<lambda>total.
          bindA (liftA total) (\<lambda>sum.
          bindA (gets (\<lambda>s. rcv_fits sum (lg_limit (co_ledger s)))) (\<lambda>fits.
            if fits then observation_enqueue be r
            else raise (RuntimeError ''admission observation exceeded shared credit grant'')))))"

definition remember_available :: "('w, unit) act" where
  "remember_available =
     bindA (gets held_credits) (\<lambda>total.
     bindA (liftA total) (\<lambda>held.
     bindA (gets (\<lambda>s. lg_limit (co_ledger s))) (\<lambda>limit.
       if rcv_fits held limit
       then bindA (liftA (rcv_sub limit held)) (\<lambda>rest. modify (\<lambda>s. s\<lparr>co_last_available := Some rest\<rparr>))
       else modify (\<lambda>s. s\<lparr>co_last_available := None\<rparr>))))"

definition explain_admission :: "admission_outcome \<Rightarrow> ('w, unit) act" where
  "explain_admission a =
     (case ao_deferred_reason a of
        Some r \<Rightarrow> modify (\<lambda>s. s\<lparr>co_admission_open := False, co_blocked_reason := Some (''admission_deferred:'' @ r)\<rparr>)
      | None \<Rightarrow>
          if ao_backlog_exists a \<and> ao_blocked_dimensions a \<noteq> []
          then set_reason (''credit_backpressure:'' @ join_with '','' (ao_blocked_dimensions a))
          else if ao_ineligible_dimensions a \<noteq> []
          then set_reason (''profile_ineligible:'' @ join_with '','' (ao_ineligible_dimensions a))
          else clear_reason (starts_with ''profile_ineligible:''))"

definition accept_admission ::
  "'w backend \<Rightarrow> coordinator_limits \<Rightarrow> rat \<Rightarrow> string set \<Rightarrow> int \<Rightarrow> admission_outcome \<Rightarrow> ('w, unit) act" where
  "accept_admission be l now active capacity a = seqA
     [modify (\<lambda>s. s\<lparr>co_admission_deferred := (ao_deferred_reason a \<noteq> None)\<rparr>),
      whenA (ao_deferred_reason a = None) (clear_reason (starts_with ''admission_deferred:'')),
      modify (\<lambda>s. s\<lparr>co_admission_scan_incomplete := ao_scan_incomplete a\<rparr>),
      (if ao_deferred_reason a \<noteq> None \<or> (ao_work a = [] \<and> \<not> ao_scan_incomplete a)
       then bindA (now_of be) (\<lambda>t. modify (\<lambda>s. s\<lparr>co_admission_probe_at := t + cl_admission_probe_seconds l\<rparr>))
       else modify (\<lambda>s. s\<lparr>co_admission_probe_at := 0\<rparr>)),
      (if int (length (ao_work a)) > capacity
       then raise (RuntimeError ''backend exceeded its admission count grant'') else ret ()),
      place_batch be l now active (ao_work a),
      accept_observation_request be (ao_observation_request a),
      remember_available,
      explain_admission a]"

text \<open>The call of \<open>admit_new\<close> with the credit that is free.\<close>

definition request_admission ::
  "'w backend \<Rightarrow> coordinator_limits \<Rightarrow> rat \<Rightarrow> resource_credit_vector \<Rightarrow> ('w, unit) act" where
  "request_admission be l now available =
     (let capacity = min (cl_admission_batch_size l) (documents available) in
      if capacity = 0
      then set_reason (''credit_backpressure:'' @ join_with '',''
        (if saturated_dimensions available = [] then [''documents''] else saturated_dimensions available))
      else bindA (gets (\<lambda>s. probe_not_due s now available)) (\<lambda>early.
        if early then ret ()
        else
          bindA (clear_reason (\<lambda>r. starts_with ''credit_backpressure:'' r
            \<or> r = Some ''oversubscribed_recovery_drain'')) (\<lambda>_.
          bindA (gets (\<lambda>s. set (map fst (co_known s)))) (\<lambda>active.
          bindA (callA (be_admit_new be capacity available)) (\<lambda>answer.
            case answer of
              Admission a \<Rightarrow> accept_admission be l now active capacity a
            | Admission_interrupted msg claimed \<Rightarrow> admission_interrupted be l now active msg claimed
            | Admission_failed e \<Rightarrow> raise e)))))"

definition admit_new_work :: "'w backend \<Rightarrow> coordinator_limits \<Rightarrow> rat \<Rightarrow> ('w, unit) act" where
  "admit_new_work be l now =
     bindA (gets (\<lambda>s. co_admission_open s \<and> \<not> co_circuit_open s \<and> \<not> observation_pending s)) (\<lambda>ready.
       whenA ready
         (bindA (gets committed_credits) (\<lambda>total.
          bindA (liftA total) (\<lambda>committed.
          bindA (gets (\<lambda>s. lg_limit (co_ledger s))) (\<lambda>limit.
          bindA (gets (\<lambda>s. co_oversubscribed s \<noteq> {} \<or> \<not> rcv_fits committed limit)) (\<lambda>draining.
            if draining then set_reason ''oversubscribed_recovery_drain''
            else bindA (liftA (rcv_sub limit committed)) (request_admission be l now)))))))"

subsection \<open>Dispatch\<close>

text \<open>\<open>_STATE_PRIORITY_WITHIN_LANE\<close> and the order of a queue under it.\<close>

definition state_priority :: "coordinator_lane \<Rightarrow> string \<Rightarrow> nat" where
  "state_priority lane st =
     (if lane = Cleanup then (if st = ''cleanup_pending'' then 0 else if st = ''publish_committed'' then 1 else 2) else 0)"

definition ordered_indices :: "coordinator_lane \<Rightarrow> coordinator_work list \<Rightarrow> nat list" where
  "ordered_indices lane queue = sort_key (\<lambda>i. state_priority lane (cw_state (queue ! i))) [0..<length queue]"

definition defer_for_stream :: "'w coordinator \<Rightarrow> coordinator_lane \<Rightarrow> resource_credit_vector \<Rightarrow> bool" where
  "defer_for_stream s lane hold \<longleftrightarrow>
     (co_stream_failure s \<noteq> None \<and> (lane = Preflight \<or> remote_waits hold > 0))
     \<or> (case co_stream_decision s of None \<Rightarrow> False
        | Some d \<Rightarrow> remote_waits hold > 0
            \<and> remote_waits (lg_in_use (co_ledger s)) + remote_waits (co_provisional_total s) + remote_waits hold
                > sd_target d)"

text \<open>The dimensions in which a candidate's hold does not fit.\<close>

definition hold_shortages :: "'w coordinator \<Rightarrow> coordinator_work \<Rightarrow> resource_credit_vector \<Rightarrow> string list res" where
  "hold_shortages s w hold =
     (if cw_attempt_id w \<in> co_oversubscribed s
      then Inr (if hold \<noteq> rcv_zero \<and> co_provisional s \<noteq> [] then positive_dimensions hold else [])
      else bindR (held_credits s) (\<lambda>held. bindR (rcv_add held hold) (\<lambda>total.
        Inr (exceeded_dimensions total (lg_limit (co_ledger s))))))"

text \<open>
  The search of a queue in its order: \<open>position\<close> counts the candidates and \<open>first\<close> are the shortages of the head,
  which nothing behind it may use up.
\<close>

fun select_work ::
  "coordinator_lane \<Rightarrow> nat \<Rightarrow> string list \<Rightarrow> nat list
     \<Rightarrow> ('w, (nat \<times> coordinator_work \<times> resource_credit_vector) option) act" where
  "select_work lane position first [] = ret None"
| "select_work lane position first (i # rest) =
     bindA (gets (\<lambda>s. co_queues s lane ! i)) (\<lambda>w.
     bindA (liftA (transition_hold w)) (\<lambda>hold.
     bindA (gets (\<lambda>s. defer_for_stream s lane hold)) (\<lambda>defer.
       if defer
       then bindA (modify (\<lambda>s. s\<lparr>co_stream_deferred := True\<rparr>)) (\<lambda>_. select_work lane (Suc position) first rest)
       else if position > 0 \<and> list_ex (\<lambda>(name, n). name \<in> set first \<and> n > 0) (rcv_items hold)
       then select_work lane (Suc position) first rest
       else
         bindA (gets (\<lambda>s. hold_shortages s w hold)) (\<lambda>answer.
         bindA (liftA answer) (\<lambda>shortages.
           if shortages = [] then ret (Some (i, w, hold))
           else if position = 0
           then bindA (modify (\<lambda>s. s\<lparr>co_credit_blocked :=
                (co_credit_blocked s)(lane := co_credit_blocked s lane \<union> set shortages)\<rparr>))
              (\<lambda>_. select_work lane (Suc position) shortages rest)
           else select_work lane (Suc position) first rest)))))"

definition active_in :: "'w coordinator \<Rightarrow> coordinator_lane \<Rightarrow> int" where
  "active_in s lane = count_lane s lane + (if lane = Preflight then observation_slots s else 0)"

definition remove_nth :: "nat \<Rightarrow> 'a list \<Rightarrow> 'a list" where
  "remove_nth i xs = take i xs @ drop (Suc i) xs"

text \<open>The guard of a stage, and what its constructor refuses.\<close>

definition stage_budget :: "coordinator_limits \<Rightarrow> coordinator_lane \<Rightarrow> rat" where
  "stage_budget l lane =
     (if lane = Commit then (case cl_commit_stage_seconds l of Some b \<Rightarrow> b | None \<Rightarrow> cl_max_stage_step_seconds l)
      else cl_max_stage_step_seconds l)"

definition claim_fence :: "coordinator_limits \<Rightarrow> coordinator_lane \<Rightarrow> coordinator_work \<Rightarrow> rat option" where
  "claim_fence l lane w =
     (if lane = Commit \<and> cl_commit_stage_seconds l \<noteq> None
      then map_option (\<lambda>t. t - cl_claim_renew_margin_seconds l) (cw_lease_expires w) else None)"

definition guard_post_init :: "rat \<Rightarrow> rat option \<Rightarrow> unit res" where
  "guard_post_init deadline fence = checks
     [require (\<not> deadline \<le> 0) ''stage lease deadline must be finite and positive'',
      require (case fence of None \<Rightarrow> True | Some f \<Rightarrow> \<not> f \<le> 0) ''claim deadline must be finite and positive'']"

definition launch ::
  "'w backend \<Rightarrow> coordinator_limits \<Rightarrow> coordinator_lane \<Rightarrow> coordinator_work \<Rightarrow> resource_credit_vector \<Rightarrow> ('w, unit) act" where
  "launch be l lane w hold =
     bindA (now_of be) (\<lambda>t.
     bindA (liftA (guard_post_init (t + stage_budget l lane) (claim_fence l lane w))) (\<lambda>_.
     bindA fresh_future (\<lambda>i.
       let x = \<lparr>fl_future = i, fl_lane = lane, fl_work = w, fl_deadline = t + stage_budget l lane,
           fl_claim_deadline = claim_fence l lane w, fl_revoked = False, fl_grant = hold\<rparr> in
       bindA (callR (be_submit be x)) (\<lambda>_.
       bindA (modify (\<lambda>s. s\<lparr>co_in_flight := co_in_flight s @ [x]\<rparr>)) (\<lambda>_.
         whenA (hold \<noteq> rcv_zero)
           (bindA (gets co_provisional_total) (\<lambda>before.
            bindA (liftA (rcv_add before hold)) (\<lambda>total.
              modify (\<lambda>s. s\<lparr>co_provisional := co_provisional s @ [(i, hold)], co_provisional_total := total\<rparr>)))))))))"

definition take_from_queue :: "coordinator_lane \<Rightarrow> nat \<Rightarrow> ('w, unit) act" where
  "take_from_queue lane i = modify (\<lambda>s. s\<lparr>co_queues := (co_queues s)(lane := remove_nth i (co_queues s lane))\<rparr>)"

text \<open>One turn of the inner \<open>while\<close>: it goes on after a dispatch.\<close>

definition dispatch_next :: "'w backend \<Rightarrow> coordinator_limits \<Rightarrow> coordinator_lane \<Rightarrow> ('w, bool) act" where
  "dispatch_next be l lane =
     bindA (gets (\<lambda>s. co_queues s lane \<noteq> [] \<and> active_in s lane < lane_limit l lane)) (\<lambda>open.
       if \<not> open then ret False
       else
         bindA (gets (\<lambda>s. ordered_indices lane (co_queues s lane))) (\<lambda>order.
         bindA (select_work lane 0 [] order) (\<lambda>selected.
           case selected of
             None \<Rightarrow> ret False
           | Some (i, w, hold) \<Rightarrow>
               bindA (take_from_queue lane i) (\<lambda>_.
               bindA (now_of be) (\<lambda>t.
                 tryA (if needs_renewal l w t then renew be l w lane else ret w)
                   (\<lambda>e. bindA (open_circuit ''claim_renewal_failed'') (\<lambda>_.
                      bindA (add_error (about w lane (''claim:'' @ error_text e))) (\<lambda>_. ret False)))
                   (\<lambda>w'. bindA (launch be l lane w' hold) (\<lambda>_. ret True)))))))"

fun dispatch_lanes :: "'w backend \<Rightarrow> coordinator_limits \<Rightarrow> coordinator_lane list \<Rightarrow> ('w, unit) act" where
  "dispatch_lanes be l [] = ret ()"
| "dispatch_lanes be l (lane # lanes) =
     bindA (gets co_circuit_open) (\<lambda>opened.
       if opened then ret ()
       else
         bindA (gets (\<lambda>s. length (co_queues s lane))) (\<lambda>n.
         bindA (loopA n (dispatch_next be l lane)) (\<lambda>_. dispatch_lanes be l lanes)))"

definition dispatch_all :: "'w backend \<Rightarrow> coordinator_limits \<Rightarrow> ('w, unit) act" where
  "dispatch_all be l = seqA
     [modify (\<lambda>s. s\<lparr>co_credit_blocked := (\<lambda>_. {}), co_stream_deferred := False\<rparr>),
      dispatch_lanes be l lane_priority]"

definition dispatch_observation :: "'w backend \<Rightarrow> coordinator_limits \<Rightarrow> ('w, unit) act" where
  "dispatch_observation be l =
     bindA (gets (\<lambda>s. observation_pending s \<and> observation_slots s = 0 \<and> \<not> co_circuit_open s)) (\<lambda>waiting.
     bindA (if waiting then bindA (callA (be_stop_requested be)) (\<lambda>stop. ret (\<not> stop)) else ret False) (\<lambda>go.
     bindA (gets (\<lambda>s. go \<and> co_stream_failure s = None \<and> count_lane s Preflight < lane_limit l Preflight)) (\<lambda>free.
       whenA free
         (bindA (now_of be) (\<lambda>t.
          bindA (liftA (guard_post_init (t + cl_max_stage_step_seconds l) None)) (\<lambda>_. observation_dispatch be))))))"

subsection \<open>An idle turn\<close>

definition result_of :: "coordinator_terminal \<Rightarrow> 'w coordinator \<Rightarrow> coordinator_result" where
  "result_of terminal s =
     \<lparr>cres_terminal = terminal, cres_recovery_complete = co_recovery_complete s, cres_admitted = co_admitted s,
      cres_completed = co_completed s, cres_final_states = sort_key fst (co_final s), cres_errors = co_errors s,
      cres_credits_in_use = lg_in_use (co_ledger s)\<rparr>"

definition finish_with :: "'w backend \<Rightarrow> coordinator_terminal \<Rightarrow> ('w, coordinator_result option) act" where
  "finish_with be terminal = bindA (emit be) (\<lambda>_. bindA (gets (result_of terminal)) (\<lambda>r. ret (Some r)))"

definition queued_work :: "'w coordinator \<Rightarrow> (coordinator_lane \<times> coordinator_work) list" where
  "queued_work s = concat (map (\<lambda>lane. map (Pair lane) (co_queues s lane)) coordinator_lanes)"

text \<open>\<open>all(lane == PREFLIGHT or transition_hold(work).remote_waits > 0 ...)\<close>\<close>

fun all_waiting_for_stream :: "(coordinator_lane \<times> coordinator_work) list \<Rightarrow> bool res" where
  "all_waiting_for_stream [] = Inr True"
| "all_waiting_for_stream ((lane, w) # rest) =
     (if lane = Preflight then all_waiting_for_stream rest
      else bindR (transition_hold w) (\<lambda>hold.
        if remote_waits hold > 0 then all_waiting_for_stream rest else Inr False))"

definition stream_drained :: "'w coordinator \<Rightarrow> bool res" where
  "stream_drained s =
     (if co_stream_failure s \<noteq> None \<and> \<not> observation_pending s \<and> co_retry_at s = [] \<and> co_deferred_claims s = []
      then all_waiting_for_stream (queued_work s) else Inr False)"

definition report_unavailable_grant :: "('w, unit) act" where
  "report_unavailable_grant =
     bindA (gets (\<lambda>s. queued_work s \<noteq> [] \<and> \<not> co_circuit_open s \<and> co_retry_at s = [] \<and> co_deferred_claims s = []
         \<and> \<not> observation_pending s \<and> \<not> co_stream_deferred s)) (\<lambda>stuck.
       whenA stuck (bindA (open_circuit ''resource_credit_grant_unavailable'')
         (\<lambda>_. add_error ''durable queued work cannot obtain its next credit grant'')))"

definition quiescent :: "'w coordinator \<Rightarrow> bool" where
  "quiescent s \<longleftrightarrow> co_recovery_complete s \<and> \<not> co_circuit_open s \<and> queued_work s = [] \<and> co_retry_at s = []
     \<and> co_known s = [] \<and> \<not> observation_pending s"

definition idle_turn :: "'w backend \<Rightarrow> coordinator_limits \<Rightarrow> rat \<Rightarrow> ('w, coordinator_result option) act" where
  "idle_turn be l now =
     bindA (gets stream_drained) (\<lambda>answer.
     bindA (liftA answer) (\<lambda>drained.
       if drained
       then bindA (open_circuit ''stream_pressure_closed'') (\<lambda>_. finish_with be Stuck_open_circuit)
       else
         bindA report_unavailable_grant (\<lambda>_.
         bindA (gets quiescent) (\<lambda>quiet.
         bindA (gets co_admission_scan_incomplete) (\<lambda>incomplete.
         bindA (if quiet \<and> incomplete then callA (be_stop_requested be) else ret quiet) (\<lambda>quit.
           if quit then finish_with be Quiescent
           else
             bindA (gets observation_pending) (\<lambda>pending.
             bindA (gets co_circuit_open) (\<lambda>opened.
             bindA (if pending then ret False
                    else if opened then ret True
                    else bindA (callA (be_stop_requested be)) (\<lambda>stop.
                      gets (\<lambda>s. stop \<and> now - co_last_progress s \<ge> cl_idle_open_circuit_seconds l))) (\<lambda>stuck.
               if stuck then finish_with be Stuck_open_circuit
               else bindA (callA (be_sleep be (cl_poll_seconds l))) (\<lambda>_.
                 bindA (emit be) (\<lambda>_. ret None)))))))))))"

subsection \<open>Completed stages\<close>

definition pop_flight :: "nat \<Rightarrow> ('w, flight) act" where
  "pop_flight i =
     bindA (gets (\<lambda>s. find (\<lambda>x. fl_future x = i) (co_in_flight s))) (\<lambda>found.
       case found of
         None \<Rightarrow> raise (KeyError ''future'')
       | Some x \<Rightarrow> bindA (modify (\<lambda>s. s\<lparr>co_in_flight := filter (\<lambda>y. fl_future y \<noteq> i) (co_in_flight s)\<rparr>)) (\<lambda>_. ret x))"

definition release_hold :: "nat \<Rightarrow> ('w, unit) act" where
  "release_hold i =
     bindA (gets (\<lambda>s. map_of (co_provisional s) i)) (\<lambda>hold.
       case hold of
         None \<Rightarrow> ret ()
       | Some h \<Rightarrow>
           bindA (modify (\<lambda>s. s\<lparr>co_provisional := AList.delete i (co_provisional s)\<rparr>)) (\<lambda>_.
           bindA (gets co_provisional_total) (\<lambda>total.
           bindA (liftA (rcv_sub total h)) (\<lambda>rest. modify (\<lambda>s. s\<lparr>co_provisional_total := rest\<rparr>)))))"

text \<open>A reconciled projection is authoritative; the answer of its future is only drained.\<close>

definition stage_outcome :: "'w backend \<Rightarrow> nat \<Rightarrow> ('w, stage_answer) act" where
  "stage_outcome be i =
     bindA (gets (\<lambda>s. map_of (co_reconciled s) i)) (\<lambda>reconciled.
     bindA (callA (be_result be i)) (\<lambda>answer.
       case reconciled of
         None \<Rightarrow> ret answer
       | Some durable \<Rightarrow>
           bindA (modify (\<lambda>s. s\<lparr>co_reconciled := AList.delete i (co_reconciled s)\<rparr>)) (\<lambda>_. ret (Stage_updated durable))))"

definition park_flight :: "'w backend \<Rightarrow> flight \<Rightarrow> string \<Rightarrow> ('w, unit) act" where
  "park_flight be x msg = seqA
     [modify (\<lambda>s. s\<lparr>co_stream_parked := AList.update (cw_attempt_id (fl_work x)) (fl_work x) (co_stream_parked s)\<rparr>),
      track_waiting_lease (fl_work x),
      bindA (gets (\<lambda>s. co_stream_failure s = None)) (\<lambda>first. whenA first (close_stream msg)),
      modify (\<lambda>s. s\<lparr>co_admission_open := False\<rparr>),
      observation_cancel be]"

definition retry_later :: "coordinator_limits \<Rightarrow> coordinator_work \<Rightarrow> rat \<Rightarrow> rat \<Rightarrow> ('w, unit) act" where
  "retry_later l w now delay = seqA
     [modify (\<lambda>s. s\<lparr>co_retry_at := AList.update (cw_attempt_id w) (now + bounded_defer_delay l w now delay, w) (co_retry_at s)\<rparr>),
      track_waiting_lease w,
      modify (\<lambda>s. s\<lparr>co_last_progress := now\<rparr>)]"

definition retry_backoff :: "coordinator_limits \<Rightarrow> int \<Rightarrow> rat \<Rightarrow> rat" where
  "retry_backoff l tries requested =
     min (cl_retry_max_backoff_seconds l)
       (max requested (cl_retry_initial_backoff_seconds l * 2 ^ nat (min (tries - 1) 30)))"

definition count_retry :: "coordinator_work \<Rightarrow> rat \<Rightarrow> ('w, int \<times> rat) act" where
  "count_retry w now =
     bindA (gets (\<lambda>s. (case map_of (co_retry_attempts s) (cw_attempt_id w) of None \<Rightarrow> 0 | Some n \<Rightarrow> n) + 1)) (\<lambda>tries.
     bindA (gets (\<lambda>s. case map_of (co_retry_started_at s) (cw_attempt_id w) of None \<Rightarrow> now | Some t \<Rightarrow> t)) (\<lambda>started.
     bindA (modify (\<lambda>s. s\<lparr>co_retry_attempts := AList.update (cw_attempt_id w) tries (co_retry_attempts s),
         co_retry_started_at := AList.update (cw_attempt_id w) started (co_retry_started_at s),
         co_consecutive_retries := co_consecutive_retries s + 1\<rparr>)) (\<lambda>_. ret (tries, started))))"

definition retry_flight :: "'w backend \<Rightarrow> coordinator_limits \<Rightarrow> flight \<Rightarrow> rat \<Rightarrow> ('w, unit) act" where
  "retry_flight be l x requested =
     (let w = fl_work x in
      bindA (now_of be) (\<lambda>t.
      bindA (count_retry w t) (\<lambda>(tries, started).
        if tries > cl_retry_max_attempts l \<or> t - started \<ge> cl_retry_stuck_seconds l
        then bindA (open_circuit ''retry_stage_stuck'')
          (\<lambda>_. add_error (about w (fl_lane x) ''retry budget exhausted''))
        else
          bindA (retry_later l w t (retry_backoff l tries requested)) (\<lambda>_.
          bindA (gets (\<lambda>s. co_consecutive_retries s \<ge> cl_retry_consecutive_threshold l)) (\<lambda>degraded.
            whenA degraded (modify (\<lambda>s. s\<lparr>co_retry_degraded := True, co_admission_open := False,
              co_blocked_reason := Some ''retry_degraded''\<rparr>)))))))"

definition clear_retries :: "string \<Rightarrow> ('w, unit) act" where
  "clear_retries a = modify (\<lambda>s. s\<lparr>co_retry_attempts := AList.delete a (co_retry_attempts s),
     co_retry_started_at := AList.delete a (co_retry_started_at s), co_consecutive_retries := 0,
     co_retry_degraded := False\<rparr>)"

text \<open>A returned projection: the deadline, the credit grant and the transition are tested before it is placed.\<close>

definition settle_flight :: "'w backend \<Rightarrow> coordinator_limits \<Rightarrow> flight \<Rightarrow> coordinator_work \<Rightarrow> ('w, unit) act" where
  "settle_flight be l x updated =
     (let w = fl_work x; lane = fl_lane x in
      bindA (now_of be) (\<lambda>t.
        if t \<ge> fl_deadline x
        then preserve_contract_violation w updated lane ''bounded stage exceeded deadline''
        else bindA (liftA (positive_credit_delta (cw_credits w) (cw_credits updated))) (\<lambda>delta.
          if \<not> rcv_fits delta (fl_grant x)
          then preserve_contract_violation w updated lane ''durable transition exceeded its credit grant''
          else bindA (place_transition be l w updated lane) (\<lambda>placed.
            whenA placed
              (bindA (clear_retries (cw_attempt_id w)) (\<lambda>_.
               bindA (now_of be) (\<lambda>t. modify (\<lambda>s. s\<lparr>co_last_progress := t\<rparr>))))))))"

definition handle_answer :: "'w backend \<Rightarrow> coordinator_limits \<Rightarrow> flight \<Rightarrow> stage_answer \<Rightarrow> ('w, unit) act" where
  "handle_answer be l x answer =
     (case answer of
        Stage_admission_deferred msg \<Rightarrow> park_flight be x msg
      | Stage_waiting delay \<Rightarrow> bindA (now_of be) (\<lambda>t. retry_later l (fl_work x) t delay)
      | Stage_retry delay \<Rightarrow> retry_flight be l x delay
      | Stage_lease_lost msg \<Rightarrow> seqA
          [open_circuit ''bounded_stage_deadline_exceeded'',
           add_error (about (fl_work x) (fl_lane x) (''stage deadline exceeded:'' @ msg)),
           modify (\<lambda>s. s\<lparr>co_in_flight_failures := insert (fl_future x) (co_in_flight_failures s)\<rparr>)]
      | Stage_failed e \<Rightarrow> seqA
          [open_circuit (lane_value (fl_lane x) @ ''_unexpected_failure''),
           add_error (about (fl_work x) (fl_lane x) (error_text e))]
      | Stage_updated updated \<Rightarrow> settle_flight be l x updated)"

definition complete_flight :: "'w backend \<Rightarrow> coordinator_limits \<Rightarrow> nat \<Rightarrow> ('w, unit) act" where
  "complete_flight be l i =
     bindA (pop_flight i) (\<lambda>x.
     bindA (release_hold i) (\<lambda>_.
     bindA (stage_outcome be i) (handle_answer be l x)))"

definition wait_turn :: "'w backend \<Rightarrow> coordinator_limits \<Rightarrow> ('w, coordinator_result option) act" where
  "wait_turn be l =
     bindA (gets (\<lambda>s. map fl_future (co_in_flight s))) (\<lambda>futures.
     bindA (callA (be_wait be futures (cl_poll_seconds l))) (\<lambda>done.
     bindA (callR (be_process_guard be)) (\<lambda>_.
     bindA (forA done (complete_flight be l)) (\<lambda>_.
     bindA (now_of be) (\<lambda>t.
     bindA (guard_in_flight be l t) (\<lambda>_.
     bindA (emit be) (\<lambda>_. ret None)))))))"

subsection \<open>A turn, and the loop\<close>

definition coordinator_turn :: "'w backend \<Rightarrow> coordinator_limits \<Rightarrow> ('w, coordinator_result option) act" where
  "coordinator_turn be l =
     bindA (callR (be_process_guard be)) (\<lambda>_.
     bindA (collect_observation be) (\<lambda>_.
     bindA (now_of be) (\<lambda>now.
     bindA (follow_stream be) (\<lambda>_.
     bindA (drain_on_stop be) (\<lambda>_.
     bindA (guard_waiting be l now) (\<lambda>_.
     bindA (gets co_deferred_claims) (\<lambda>deferred.
     bindA (retry_deferred be l now deferred) (\<lambda>_.
     bindA (reopen_admission be now) (\<lambda>_.
     bindA (gets co_retry_at) (\<lambda>retries.
     bindA (release_retries now retries) (\<lambda>_.
     bindA (pause_on_stream be) (\<lambda>_.
     bindA (admit_new_work be l now) (\<lambda>_.
     bindA (now_of be) (\<lambda>t.
     bindA (guard_waiting be l t) (\<lambda>_.
     bindA (callR (be_process_guard be)) (\<lambda>_.
     bindA (dispatch_all be l) (\<lambda>_.
     bindA (dispatch_observation be l) (\<lambda>_.
     bindA (gets (\<lambda>s. co_in_flight s = [])) (\<lambda>idle.
       if idle then idle_turn be l now else wait_turn be l)))))))))))))))))))"

fun coordinator_loop :: "nat \<Rightarrow> 'w backend \<Rightarrow> coordinator_limits \<Rightarrow> ('w, coordinator_result) act" where
  "coordinator_loop 0 be l = raise (RuntimeError ''out of fuel'')"
| "coordinator_loop (Suc fuel) be l =
     bindA (coordinator_turn be l) (\<lambda>answer.
       case answer of Some r \<Rightarrow> ret r | None \<Rightarrow> coordinator_loop fuel be l)"

text \<open>\<open>observation.drained()\<close> after the pools were joined.\<close>

definition observation_drained :: "'w backend \<Rightarrow> ('w, unit) act" where
  "observation_drained be =
     bindA (gets co_observation) (\<lambda>ob.
     bindA (case os_request ob of None \<Rightarrow> ret () | Some r \<Rightarrow> callR (be_abandon_observation be r)) (\<lambda>_.
     bindA (case os_future ob of
         None \<Rightarrow> ret ()
       | Some i \<Rightarrow>
           if os_error_observed ob then ret ()
           else bindA (callA (be_observation_result be i)) (\<lambda>answer.
             case answer of
               Observation_result r \<Rightarrow> ret ()
             | Observation_lease_lost \<Rightarrow>
                 if os_discard ob then ret () else raise (RuntimeError ''bounded stage lease expired'')
             | Observation_failed e \<Rightarrow> raise e)) (\<lambda>_. observation_clear)))"

text \<open>The \<open>finally\<close> block.\<close>

definition shut_down :: "'w backend \<Rightarrow> ('w, unit) act" where
  "shut_down be = seqA
     [observation_cancel be,
      modify (\<lambda>s. s\<lparr>co_in_flight := map (\<lambda>x. x\<lparr>fl_revoked := True\<rparr>) (co_in_flight s)\<rparr>),
      observation_drained be]"

definition coordinator_body :: "nat \<Rightarrow> 'w backend \<Rightarrow> coordinator_limits \<Rightarrow> ('w, coordinator_result) act" where
  "coordinator_body fuel be l =
     bindA (recovery_barrier fuel be l None) (\<lambda>_.
     bindA (open_admission be) (\<lambda>_. coordinator_loop fuel be l))"

definition run_coordinator ::
  "nat \<Rightarrow> 'w backend \<Rightarrow> coordinator_limits \<Rightarrow> 'w \<Rightarrow> coordinator_result res \<times> 'w coordinator" where
  "run_coordinator fuel be l w =
     (case be_monotonic be w of (t, w') \<Rightarrow>
        tryA (coordinator_body fuel be l)
          (\<lambda>e. bindA (shut_down be) (\<lambda>_. raise e))
          (\<lambda>r. bindA (shut_down be) (\<lambda>_. ret r))
          (new_coordinator l w' t))"

end
