(* ===== verification/Checkpoint.thy ===== *)
theory Checkpoint
  imports LifecycleBase ResourceCreditShape
begin

text \<open>
  \<open>RemoteParseCheckpointV4\<close> of \<open>application/contracts/remote_parse_lifecycle_v4.py\<close>: the immutable
  record of one step of an attempt's lifecycle, its validation, the builders of the first
  checkpoint, and the transition \<open>advance_remote_parse_checkpoint_v4\<close> with the successor test.

  The thirteen optional hash attributes are one function from the attribute to its value,
  because the module itself only reads and writes them by name (\<open>getattr\<close>, \<open>**values\<close>). The test
  that the credit is an exact \<open>ResourceCreditVector\<close> is the test that it is a value its
  constructor returns.
\<close>

definition CHECKPOINT_V4_CONTRACT :: string where
  "CHECKPOINT_V4_CONTRACT = ''remote-parse-checkpoint.v4''"

datatype evidence_field =
    Preparation_intent
  | Snapshot_receipt
  | Submission_intent
  | Accepted_submission
  | Terminal_receipt
  | Materialization_intent
  | Local_materialization_receipt
  | Publication_winner
  | Failure_receipt
  | Supersession_receipt
  | Cleanup_plan
  | Cleanup_receipt
  | Ack_receipt

fun evidence_name :: "evidence_field \<Rightarrow> string" where
  "evidence_name Preparation_intent = ''preparation_intent_sha256''"
| "evidence_name Snapshot_receipt = ''snapshot_receipt_sha256''"
| "evidence_name Submission_intent = ''submission_intent_sha256''"
| "evidence_name Accepted_submission = ''accepted_submission_sha256''"
| "evidence_name Terminal_receipt = ''terminal_receipt_sha256''"
| "evidence_name Materialization_intent = ''materialization_intent_sha256''"
| "evidence_name Local_materialization_receipt = ''local_materialization_receipt_sha256''"
| "evidence_name Publication_winner = ''publication_winner_sha256''"
| "evidence_name Failure_receipt = ''failure_receipt_sha256''"
| "evidence_name Supersession_receipt = ''supersession_receipt_sha256''"
| "evidence_name Cleanup_plan = ''cleanup_plan_sha256''"
| "evidence_name Cleanup_receipt = ''cleanup_receipt_sha256''"
| "evidence_name Ack_receipt = ''ack_receipt_sha256''"

text \<open>\<open>_EVIDENCE_FIELDS\<close> and \<open>_OUTCOME_EVIDENCE_FIELDS\<close>\<close>

definition evidence_fields :: "evidence_field list" where
  "evidence_fields =
     [Preparation_intent, Snapshot_receipt, Submission_intent, Accepted_submission,
      Terminal_receipt, Materialization_intent, Local_materialization_receipt, Publication_winner,
      Failure_receipt, Supersession_receipt, Cleanup_plan, Cleanup_receipt, Ack_receipt]"

definition outcome_evidence_fields :: "evidence_field list" where
  "outcome_evidence_fields = [Publication_winner, Failure_receipt, Supersession_receipt]"

text \<open>\<open>_ALLOWED_NEW_EVIDENCE_BY_TRANSITION\<close>, a dict: \<^term>\<open>None\<close> where the key is missing.\<close>

definition allowed_new_evidence_table :: "((checkpoint_state \<times> checkpoint_state) \<times> evidence_field list) list" where
  "allowed_new_evidence_table =
     [((Prepared, Reconciling), [Snapshot_receipt, Submission_intent]),
      ((Reconciling, Submitted), [Accepted_submission]),
      ((Submitted, Remote_terminal), [Terminal_receipt]),
      ((Remote_terminal, Materializing), [Materialization_intent]),
      ((Materializing, Local_materialized), [Local_materialization_receipt]),
      ((Local_materialized, Publish_committed), [Publication_winner])]
     @ map (\<lambda>s. ((s, Cleanup_pending), [Failure_receipt, Supersession_receipt, Cleanup_plan]))
         [Prepared, Reconciling, Submitted, Remote_terminal, Materializing, Local_materialized,
          Publish_committed]
     @ [((Cleanup_pending, Ack_pending), [Cleanup_receipt]),
        ((Cleanup_pending, Pre_submission_failed), [Cleanup_receipt]),
        ((Cleanup_pending, Superseded), [Cleanup_receipt]),
        ((Ack_pending, Acked), [Ack_receipt]),
        ((Ack_pending, Remote_failed), [Ack_receipt]),
        ((Ack_pending, Local_failed), [Ack_receipt]),
        ((Ack_pending, Superseded), [Ack_receipt])]"

definition allowed_new_evidence :: "checkpoint_state \<times> checkpoint_state \<Rightarrow> evidence_field list option" where
  "allowed_new_evidence = map_of allowed_new_evidence_table"

record remote_parse_checkpoint = attempt_identity +
  cp_attempt_generation :: int
  cp_state :: checkpoint_state
  cp_lifecycle_version :: int
  cp_previous_checkpoint_sha256 :: "string option"
  cp_source_pdf_sha256 :: string
  cp_source_byte_count :: int
  cp_source_page_count :: int
  cp_request_sha256 :: string
  cp_runtime_epoch_sha256 :: string
  cp_process_profile_sha256 :: string
  cp_credit_policy_sha256 :: string
  cp_reservation_input_sha256 :: string
  cp_held_resource_credit :: resource_credit_vector
  cp_evidence :: "evidence_field \<Rightarrow> string option"
  cp_contract_version :: string

text \<open>\<open>getattr(self, name) is not None\<close>\<close>

definition has :: "remote_parse_checkpoint \<Rightarrow> evidence_field \<Rightarrow> bool" where
  "has c e = (cp_evidence c e \<noteq> None)"

subsection \<open>Validation\<close>

definition resource_free :: "remote_parse_checkpoint \<Rightarrow> bool" where
  "resource_free c = (cp_state c \<in> {Preparation_failed, Superseded} \<and> cp_lifecycle_version c = 0)"

fun required_by_state :: "checkpoint_state \<Rightarrow> evidence_field list" where
  "required_by_state Reconciling = [Snapshot_receipt, Submission_intent]"
| "required_by_state Submitted = [Snapshot_receipt, Submission_intent, Accepted_submission]"
| "required_by_state Remote_terminal =
     [Snapshot_receipt, Submission_intent, Accepted_submission, Terminal_receipt]"
| "required_by_state Materializing =
     [Snapshot_receipt, Accepted_submission, Terminal_receipt, Materialization_intent]"
| "required_by_state Local_materialized =
     [Snapshot_receipt, Materialization_intent, Local_materialization_receipt]"
| "required_by_state Publish_committed =
     [Snapshot_receipt, Local_materialization_receipt, Publication_winner]"
| "required_by_state Cleanup_pending = [Cleanup_plan]"
| "required_by_state Ack_pending = [Cleanup_plan, Cleanup_receipt]"
| "required_by_state Acked = [Publication_winner, Cleanup_receipt, Ack_receipt]"
| "required_by_state Remote_failed = [Failure_receipt, Cleanup_receipt, Ack_receipt]"
| "required_by_state Local_failed = [Failure_receipt, Cleanup_receipt, Ack_receipt]"
| "required_by_state Pre_submission_failed = [Failure_receipt, Cleanup_receipt]"
| "required_by_state Superseded = [Supersession_receipt, Cleanup_receipt]"
| "required_by_state _ = []"

definition lacks_message :: "checkpoint_state \<Rightarrow> evidence_field \<Rightarrow> string" where
  "lacks_message s e = state_name s @ '' checkpoint lacks '' @ take (length (evidence_name e) - 7) (evidence_name e)"

definition check_conflicts :: "remote_parse_checkpoint \<Rightarrow> unit res" where
  "check_conflicts c = checks
     [require (\<not> (has c Failure_receipt \<and> has c Supersession_receipt))
        ''checkpoint cannot mix failure and supersession evidence'',
      require (\<not> (has c Publication_winner \<and> (has c Failure_receipt \<or> has c Supersession_receipt)))
        ''failed or superseded checkpoint cannot retain a winner'']"

definition check_resource_free :: "remote_parse_checkpoint \<Rightarrow> unit res" where
  "check_resource_free c = checks
     [require (\<not> cp_previous_checkpoint_sha256 c \<noteq> None) ''resource-free final cannot have a predecessor'',
      require (\<not> cp_held_resource_credit c \<noteq> rcv_zero) ''resource-free final retains resource credit'',
      require (\<not> (cp_state c = Preparation_failed \<and> \<not> has c Failure_receipt))
        ''resource-free preparation failure lacks exact evidence'',
      require (\<not> (cp_state c = Superseded \<and> \<not> has c Supersession_receipt))
        ''resource-free supersession lacks exact evidence'']"

definition check_lifecycle_zero :: "remote_parse_checkpoint \<Rightarrow> unit res" where
  "check_lifecycle_zero c = checks
     [require (\<not> (cp_lifecycle_version c > 0 \<and> cp_state c \<in> {Prepared, Preparation_failed}))
        ''prepared and preparation_failed are lifecycle-zero states'',
      (if cp_lifecycle_version c = 0
       then require (\<not> (cp_state c \<noteq> Prepared \<or> cp_previous_checkpoint_sha256 c \<noteq> None))
         ''only prepared may start a resourceful lifecycle''
       else require (\<not> cp_previous_checkpoint_sha256 c = None) ''evolved checkpoint lacks its predecessor''),
      require (\<not> \<not> has c Preparation_intent) ''resourceful checkpoint lacks preparation evidence'']"

definition check_state_evidence :: "remote_parse_checkpoint \<Rightarrow> unit res" where
  "check_state_evidence c = checks
     [checks (map (\<lambda>e. require (has c e) (lacks_message (cp_state c) e)) (required_by_state (cp_state c))),
      require (\<not> (cp_state c = Ack_pending \<and> \<not> has c Accepted_submission))
        ''ack_pending requires accepted provider-task evidence'',
      require (\<not> (cp_state c \<in> {Cleanup_pending, Ack_pending}
          \<and> length (filter (has c) outcome_evidence_fields) \<noteq> 1))
        (state_name (cp_state c) @ '' checkpoint requires exactly one outcome evidence''),
      require (\<not> (is_final (cp_state c) \<and> cp_held_resource_credit c \<noteq> rcv_zero))
        ''final checkpoint retains resource credit'',
      require (\<not> (cp_state c = Pre_submission_failed \<and> (has c Accepted_submission \<or> has c Ack_receipt)))
        ''pre-submission failure cannot have accepted-task or ACK evidence'',
      require (\<not> (cp_state c = Superseded \<and> ((\<not> has c Accepted_submission) \<noteq> (\<not> has c Ack_receipt))))
        ''resourceful supersession accepted-task and ACK evidence disagree'']"

definition validate_state_evidence :: "remote_parse_checkpoint \<Rightarrow> unit res" where
  "validate_state_evidence c =
     bindR (check_conflicts c) (\<lambda>_.
       if resource_free c then check_resource_free c
       else checks [check_lifecycle_zero c, check_state_evidence c])"

text \<open>\<open>_validate_checkpoint_evidence_frontier_v4\<close>\<close>

definition ordinary_order :: "checkpoint_state list" where
  "ordinary_order =
     [Prepared, Reconciling, Submitted, Remote_terminal, Materializing, Local_materialized, Publish_committed]"

definition ordinary_fields :: "evidence_field list list" where
  "ordinary_fields =
     [[Preparation_intent, Snapshot_receipt], [Submission_intent], [Accepted_submission],
      [Terminal_receipt], [Materialization_intent], [Local_materialization_receipt],
      [Publication_winner]]"

fun index_of :: "'a \<Rightarrow> 'a list \<Rightarrow> nat" where
  "index_of x [] = 0"
| "index_of x (y # ys) = (if x = y then 0 else Suc (index_of x ys))"

definition frontier_allowed :: "remote_parse_checkpoint \<Rightarrow> evidence_field list" where
  "frontier_allowed c =
     (if resource_free c
      then [if cp_state c = Preparation_failed then Failure_receipt else Supersession_receipt]
      else if cp_state c \<in> set ordinary_order
      then concat (take (index_of (cp_state c) ordinary_order + 1) ordinary_fields)
      else concat ordinary_fields @ [Failure_receipt, Supersession_receipt, Cleanup_plan]
        @ (if cp_state c = Ack_pending \<or> is_final (cp_state c) then [Cleanup_receipt] else [])
        @ (if is_final (cp_state c) then [Ack_receipt] else []))"

definition validate_evidence_frontier :: "remote_parse_checkpoint \<Rightarrow> unit res" where
  "validate_evidence_frontier c = require
     (filter (\<lambda>e. has c e \<and> e \<notin> set (frontier_allowed c)) evidence_fields = [])
     ''checkpoint-v4 contains future or conflicting evidence''"

text \<open>\<open>_validate_checkpoint_credit_shape_v4\<close>\<close>

definition ack_pending_credit :: "resource_credit_vector \<Rightarrow> bool \<Rightarrow> unit res" where
  "ack_pending_credit v terminal = checks
     [require (\<not> (documents v \<noteq> 1 \<or> provider_tasks v \<noteq> 1 \<or> ack_items v \<noteq> 1))
        ''ack-pending resource credit shape drifted'',
      (if \<not> terminal
       then require (\<not> provider_result_bytes v \<noteq> 0) ''ack-pending invented provider result credit''
       else require (\<not> provider_result_bytes v < 1) ''ack-pending lost terminal provider result credit''),
      require (\<not> list_ex (\<lambda>value. value \<noteq> 0)
          [snapshot_items v, snapshot_bytes v, remote_waits v, materialization_items v,
           compressed_bytes v, decoded_bytes v, temp_disk_bytes v, output_items v, output_bytes v,
           output_pages v])
        ''ack-pending retains cleaned local credit'']"

definition provider_credit :: "checkpoint_state \<Rightarrow> resource_credit_vector \<Rightarrow> int \<Rightarrow> unit res" where
  "provider_credit s v source_page_count = checks
     [require (\<not> (provider_tasks v \<noteq> 1 \<or> ack_items v \<noteq> 1)) ''provider-owned checkpoint credit shape drifted'',
      (if s = Submitted
       then require
         (\<not> (remote_waits v \<noteq> 1 \<or> provider_result_bytes v \<noteq> 0 \<or> materialization_items v \<noteq> 0
           \<or> compressed_bytes v \<noteq> 0 \<or> decoded_bytes v \<noteq> 0 \<or> temp_disk_bytes v \<noteq> 0
           \<or> output_items v \<noteq> 0 \<or> output_bytes v \<noteq> 0 \<or> output_pages v \<noteq> 0))
         ''submitted resource credit shape drifted''
       else checks
         [require (\<not> (remote_waits v \<noteq> 0 \<or> provider_result_bytes v < 1))
            ''terminal provider-result credit shape drifted'',
          (if s = Remote_terminal
           then require
             (\<not> (materialization_items v \<noteq> 0 \<or> compressed_bytes v \<noteq> 0 \<or> decoded_bytes v \<noteq> 0
               \<or> temp_disk_bytes v \<noteq> 0 \<or> output_items v \<noteq> 0 \<or> output_bytes v \<noteq> 0 \<or> output_pages v \<noteq> 0))
             ''remote-terminal resource credit shape drifted''
           else if s = Materializing
           then require
             (\<not> (materialization_items v \<noteq> 1 \<or> compressed_bytes v < provider_result_bytes v
               \<or> decoded_bytes v < 1 \<or> temp_disk_bytes v < 1 \<or> output_items v \<noteq> 0
               \<or> output_bytes v \<noteq> 0 \<or> output_pages v \<noteq> 0))
             ''materializing reservation credit shape drifted''
           else if s \<in> {Local_materialized, Publish_committed}
           then require
             (\<not> (materialization_items v \<noteq> 0 \<or> compressed_bytes v \<noteq> provider_result_bytes v
               \<or> decoded_bytes v \<noteq> 0 \<or> temp_disk_bytes v \<noteq> 0 \<or> output_items v \<noteq> 1
               \<or> output_bytes v < 1 \<or> output_pages v \<noteq> source_page_count))
             ''closed-output resource credit shape drifted''
           else Inl (ValueError ''resourceful checkpoint credit state is unsupported''))])]"

definition snapshot_credit :: "int \<Rightarrow> resource_credit_vector" where
  "snapshot_credit source_byte_count =
     rcv_zero\<lparr>documents := 1, snapshot_items := 1, snapshot_bytes := source_byte_count\<rparr>"

definition validate_credit_shape ::
  "checkpoint_state \<Rightarrow> resource_credit_vector \<Rightarrow> bool \<Rightarrow> int \<Rightarrow> int \<Rightarrow> unit res" where
  "validate_credit_shape s v terminal source_byte_count source_page_count =
     (if is_final s then require (\<not> v \<noteq> rcv_zero) ''final checkpoint retains resource credit''
      else if s = Ack_pending then ack_pending_credit v terminal
      else checks
        [require (\<not> (documents v \<noteq> 1 \<or> snapshot_items v \<noteq> 1 \<or> snapshot_bytes v \<noteq> source_byte_count))
           ''resourceful checkpoint lacks exact snapshot credit'',
         (if s = Cleanup_pending then Inr ()
          else bindR (mk_rcv (snapshot_credit source_byte_count)) (\<lambda>base.
            if s = Prepared then require (\<not> v \<noteq> base) ''prepared resource credit shape drifted''
            else if s = Reconciling
            then bindR (mk_rcv (base\<lparr>remote_waits := 1\<rparr>)) (\<lambda>waiting.
              require (\<not> v \<noteq> waiting) ''reconciling resource credit shape drifted'')
            else provider_credit s v source_page_count))])"

definition checkpoint_credit_shape :: "remote_parse_checkpoint \<Rightarrow> unit res" where
  "checkpoint_credit_shape c = validate_credit_shape (cp_state c) (cp_held_resource_credit c)
     (has c Terminal_receipt) (cp_source_byte_count c) (cp_source_page_count c)"

definition check_checkpoint_facts :: "remote_parse_checkpoint \<Rightarrow> unit res" where
  "check_checkpoint_facts c = checks
     [require (cp_contract_version c = CHECKPOINT_V4_CONTRACT) ''checkpoint-v4 contract is unsupported'',
      identity_tuple (identities c),
      nonnegative (cp_lifecycle_version c) ''lifecycle version'',
      positive (cp_attempt_generation c) ''attempt generation'',
      optional_sha (cp_previous_checkpoint_sha256 c) ''previous checkpoint'',
      require_sha (cp_source_pdf_sha256 c) ''source PDF'',
      require_sha (cp_request_sha256 c) ''request'',
      require_sha (cp_runtime_epoch_sha256 c) ''runtime epoch'',
      require_sha (cp_process_profile_sha256 c) ''process profile'',
      require_sha (cp_credit_policy_sha256 c) ''credit policy'',
      require_sha (cp_reservation_input_sha256 c) ''reservation input'',
      positive (cp_source_byte_count c) ''source byte count'',
      positive (cp_source_page_count c) ''source page count'',
      rcv_post_init (cp_held_resource_credit c)]"

definition check_evidence_hashes :: "remote_parse_checkpoint \<Rightarrow> unit res" where
  "check_evidence_hashes c =
     checks (map (\<lambda>e. optional_sha (cp_evidence c e) (evidence_name e)) evidence_fields)"

definition checkpoint_post_init :: "remote_parse_checkpoint \<Rightarrow> unit res" where
  "checkpoint_post_init c = checks
     [check_checkpoint_facts c, check_evidence_hashes c, validate_state_evidence c,
      validate_evidence_frontier c, checkpoint_credit_shape c]"

definition mk_checkpoint :: "remote_parse_checkpoint \<Rightarrow> remote_parse_checkpoint res" where
  "mk_checkpoint c = construct (checkpoint_post_init c) c"

definition valid_checkpoint :: "remote_parse_checkpoint \<Rightarrow> bool" where
  "valid_checkpoint c = (checkpoint_post_init c = Inr ())"

subsection \<open>Canonical bytes\<close>

definition checkpoint_payload :: "remote_parse_checkpoint \<Rightarrow> json" where
  "checkpoint_payload c = JObj (identity_members c @
     [(''attempt_generation'', JInt (cp_attempt_generation c)),
      (''state'', JStr (state_name (cp_state c))),
      (''lifecycle_version'', JInt (cp_lifecycle_version c)),
      (''previous_checkpoint_sha256'', JOpt (cp_previous_checkpoint_sha256 c)),
      (''source_pdf_sha256'', JStr (cp_source_pdf_sha256 c)),
      (''source_byte_count'', JInt (cp_source_byte_count c)),
      (''source_page_count'', JInt (cp_source_page_count c)),
      (''request_sha256'', JStr (cp_request_sha256 c)),
      (''runtime_epoch_sha256'', JStr (cp_runtime_epoch_sha256 c)),
      (''process_profile_sha256'', JStr (cp_process_profile_sha256 c)),
      (''credit_policy_sha256'', JStr (cp_credit_policy_sha256 c)),
      (''reservation_input_sha256'', JStr (cp_reservation_input_sha256 c)),
      (''held_resource_credit'', rcv_json (cp_held_resource_credit c)),
      (''contract_version'', JStr (cp_contract_version c))]
     @ map (\<lambda>e. (evidence_name e, JOpt (cp_evidence c e))) evidence_fields)"

definition checkpoint_canonical_bytes :: "remote_parse_checkpoint \<Rightarrow> string res" where
  "checkpoint_canonical_bytes c = lifecycle_json (checkpoint_payload c)"

definition checkpoint_sha256 :: "remote_parse_checkpoint \<Rightarrow> string res" where
  "checkpoint_sha256 c = digest_of (checkpoint_canonical_bytes c)"

subsection \<open>Successors\<close>

definition same_checkpoint_identity :: "remote_parse_checkpoint \<Rightarrow> remote_parse_checkpoint \<Rightarrow> unit res" where
  "same_checkpoint_identity p c = checks
     [same_identity p c,
      require (\<not> cp_attempt_generation p \<noteq> cp_attempt_generation c) ''attempt generation drifted'']"

definition same_source :: "remote_parse_checkpoint \<Rightarrow> remote_parse_checkpoint \<Rightarrow> bool" where
  "same_source p c \<longleftrightarrow>
     cp_source_pdf_sha256 p = cp_source_pdf_sha256 c
     \<and> cp_source_byte_count p = cp_source_byte_count c
     \<and> cp_source_page_count p = cp_source_page_count c
     \<and> cp_request_sha256 p = cp_request_sha256 c
     \<and> cp_runtime_epoch_sha256 p = cp_runtime_epoch_sha256 c
     \<and> cp_process_profile_sha256 p = cp_process_profile_sha256 c
     \<and> cp_credit_policy_sha256 p = cp_credit_policy_sha256 c
     \<and> cp_reservation_input_sha256 p = cp_reservation_input_sha256 c"

definition introduced :: "remote_parse_checkpoint \<Rightarrow> remote_parse_checkpoint \<Rightarrow> evidence_field list" where
  "introduced p c = filter (\<lambda>e. \<not> has p e \<and> has c e) evidence_fields"

definition validate_remote_parse_checkpoint_successor_v4 ::
  "remote_parse_checkpoint \<Rightarrow> remote_parse_checkpoint \<Rightarrow> unit res" where
  "validate_remote_parse_checkpoint_successor_v4 p c =
     bindR (require (cp_state c \<in> set (next_states (cp_state p)))
       ''checkpoint-v4 state transition is not allowed'') (\<lambda>_.
     bindR (if cp_lifecycle_version c \<noteq> cp_lifecycle_version p + 1
       then Inl (ValueError ''checkpoint-v4 predecessor/version is not exact'')
       else bindR (checkpoint_sha256 p) (\<lambda>sha.
         require (cp_previous_checkpoint_sha256 c = Some sha)
           ''checkpoint-v4 predecessor/version is not exact'')) (\<lambda>_.
     bindR (same_checkpoint_identity p c) (\<lambda>_.
     bindR (require (same_source p c) ''checkpoint-v4 immutable source identity drifted'') (\<lambda>_.
     bindR (checks (map (\<lambda>e. require (\<not> (has p e \<and> cp_evidence p e \<noteq> cp_evidence c e))
         ''checkpoint-v4 immutable evidence drifted'') evidence_fields)) (\<lambda>_.
     case allowed_new_evidence (cp_state p, cp_state c) of
       None \<Rightarrow> Inl (KeyError (state_name (cp_state p) @ '','' @ state_name (cp_state c)))
     | Some allowed \<Rightarrow> checks
         [require (set (introduced p c) \<subseteq> set allowed)
            ''checkpoint-v4 transition introduced unexpected evidence'',
          require (\<not> (cp_state c = Cleanup_pending \<and> cp_held_resource_credit c \<noteq> cp_held_resource_credit p))
            ''cleanup-pending credit must equal its source checkpoint''])))))"

text \<open>The keyword arguments \<open>**evidence_updates\<close> of the transition: name and new value.\<close>

type_synonym evidence_updates = "(string \<times> string option) list"

definition evidence_of_name :: "string \<Rightarrow> evidence_field option" where
  "evidence_of_name n = find (\<lambda>e. evidence_name e = n) evidence_fields"

fun apply_updates ::
  "evidence_updates \<Rightarrow> (evidence_field \<Rightarrow> string option) \<Rightarrow> (evidence_field \<Rightarrow> string option) res" where
  "apply_updates [] values = Inr values"
| "apply_updates ((n, value) # us) values =
     (case evidence_of_name n of
        None \<Rightarrow> Inl (ValueError ''checkpoint-v4 evidence update is unsupported'')
      | Some e \<Rightarrow>
          if values e \<noteq> None \<and> value \<noteq> values e
          then Inl (ValueError ''immutable checkpoint evidence cannot be replaced'')
          else apply_updates us (values(e := value)))"

definition successor_of ::
  "remote_parse_checkpoint \<Rightarrow> string \<Rightarrow> checkpoint_state \<Rightarrow> resource_credit_vector
     \<Rightarrow> (evidence_field \<Rightarrow> string option) \<Rightarrow> remote_parse_checkpoint" where
  "successor_of p sha s credit values = p
     \<lparr>cp_state := s, cp_lifecycle_version := cp_lifecycle_version p + 1,
      cp_previous_checkpoint_sha256 := Some sha, cp_held_resource_credit := credit,
      cp_evidence := values, cp_contract_version := CHECKPOINT_V4_CONTRACT\<rparr>"

definition advance_remote_parse_checkpoint_v4 ::
  "remote_parse_checkpoint \<Rightarrow> checkpoint_state \<Rightarrow> resource_credit_vector \<Rightarrow> evidence_updates
     \<Rightarrow> remote_parse_checkpoint res" where
  "advance_remote_parse_checkpoint_v4 p s credit updates =
     bindR (checks
       [require (s \<in> set (next_states (cp_state p))) ''checkpoint-v4 state transition is not allowed'',
        require (list_all (\<lambda>(n, _). evidence_of_name n \<noteq> None) updates)
          ''checkpoint-v4 evidence update is unsupported'']) (\<lambda>_.
     bindR (apply_updates updates (cp_evidence p)) (\<lambda>values.
     bindR (checkpoint_sha256 p) (\<lambda>sha.
     bindR (mk_checkpoint (successor_of p sha s credit values)) (\<lambda>current.
     bindR (validate_remote_parse_checkpoint_successor_v4 p current) (\<lambda>_.
       Inr current)))))"

text \<open>\<open>build_resource_free_remote_parse_checkpoint_v4\<close>: the arguments are the checkpoint's own attributes.\<close>

definition build_resource_free_remote_parse_checkpoint_v4 ::
  "checkpoint_state \<Rightarrow> attempt_identity \<Rightarrow> int \<Rightarrow> string \<Rightarrow> int \<Rightarrow> int \<Rightarrow> string \<Rightarrow> string \<Rightarrow> string
     \<Rightarrow> string \<Rightarrow> string \<Rightarrow> string option \<Rightarrow> string option \<Rightarrow> remote_parse_checkpoint res" where
  "build_resource_free_remote_parse_checkpoint_v4 s who generation pdf bytes pages request epoch profile
       policy input failure supersession =
     bindR (require (\<not> (s = Preparation_failed \<and> failure = None))
       ''preparation failure lacks exact failure evidence'') (\<lambda>_.
     mk_checkpoint (attempt_identity.extend who
       \<lparr>cp_attempt_generation = generation, cp_state = s, cp_lifecycle_version = 0,
        cp_previous_checkpoint_sha256 = None, cp_source_pdf_sha256 = pdf,
        cp_source_byte_count = bytes, cp_source_page_count = pages, cp_request_sha256 = request,
        cp_runtime_epoch_sha256 = epoch, cp_process_profile_sha256 = profile,
        cp_credit_policy_sha256 = policy, cp_reservation_input_sha256 = input,
        cp_held_resource_credit = rcv_zero,
        cp_evidence = (\<lambda>_. None)(Failure_receipt := failure, Supersession_receipt := supersession),
        cp_contract_version = CHECKPOINT_V4_CONTRACT\<rparr>))"

end
