(* ===== verification/PreparedSubmission.thy ===== *)
theory PreparedSubmission
  imports AsciiJson Checkpoint
begin

text \<open>
  From \<open>application/ports/staged_provider_parser.py\<close>: \<open>PreparedSubmissionIdentity\<close>, the closed identity
  that is persisted before any remote request, its construction from a reconcile receipt
  (\<open>PreparedReconcileReceipt\<close> of \<open>application/contracts/remote_parse_checkpoint.py\<close>), and
  \<open>V4ClaimWitness\<close>, the authorization of one claim on one checkpoint.
\<close>

text \<open>\<open>_require_sha256\<close> of the ports; the test is that of the contract modules.\<close>

definition port_sha :: "string \<Rightarrow> string \<Rightarrow> unit res" where
  "port_sha v label = require (is_sha v) (label @ '' must be canonical sha256'')"

lemma port_sha_Inr [simp]: "port_sha v label = Inr u \<longleftrightarrow> is_sha v"
  by (simp add: port_sha_def)

text \<open>\<open>value.strip()\<close> as a truth value\<close>

definition nonblank :: "string \<Rightarrow> bool" where
  "nonblank v = (py_strip v \<noteq> '''')"

subsection \<open>The prepared submission\<close>

record prepared_submission =
  ps_schema :: string
  ps_attempt_identity :: string
  ps_fence_identity :: string
  ps_source_pdf_sha256 :: string
  ps_parser_target_identity_sha256 :: string
  ps_runtime_bundle_identity_sha256 :: string
  ps_request_sha256 :: string
  ps_client_submit_key :: string
  ps_submission_epoch_unix :: int
  ps_exact_bytes :: string
  ps_sha256 :: string

definition PREPARED_SUBMISSION_SCHEMA :: string where
  "PREPARED_SUBMISSION_SCHEMA = ''mineru-prepared-submission.v1''"

text \<open>\<open>projection\<close> and \<open>canonical\<close>\<close>

definition prepared_projection :: "prepared_submission \<Rightarrow> json" where
  "prepared_projection p = JObj
     [(''schema'', JStr (ps_schema p)),
      (''attempt_identity'', JStr (ps_attempt_identity p)),
      (''fence_identity'', JStr (ps_fence_identity p)),
      (''source_pdf_sha256'', JStr (ps_source_pdf_sha256 p)),
      (''parser_target_identity_sha256'', JStr (ps_parser_target_identity_sha256 p)),
      (''runtime_bundle_identity_sha256'', JStr (ps_runtime_bundle_identity_sha256 p)),
      (''request_sha256'', JStr (ps_request_sha256 p)),
      (''client_submit_key'', JStr (ps_client_submit_key p)),
      (''submission_epoch_unix'', JInt (ps_submission_epoch_unix p))]"

definition prepared_identity_ok :: "string \<Rightarrow> bool" where
  "prepared_identity_ok v = (nonblank v \<and> \<not> length v > 1024)"

definition check_prepared_bytes :: "prepared_submission \<Rightarrow> unit res" where
  "check_prepared_bytes p =
     bindR (ascii_json (prepared_projection p)) (\<lambda>canonical.
       require (\<not> (ps_exact_bytes p = ''''
           \<or> length (ps_exact_bytes p) > 65536
           \<or> ps_exact_bytes p \<noteq> canonical
           \<or> ps_sha256 p \<noteq> digest canonical))
         ''prepared submission exact bytes drifted'')"

definition prepared_post_init :: "prepared_submission \<Rightarrow> unit res" where
  "prepared_post_init p = checks
     [require (\<not> ps_schema p \<noteq> PREPARED_SUBMISSION_SCHEMA) ''prepared submission schema is unsupported'',
      port_sha (ps_source_pdf_sha256 p) ''prepared submission source'',
      port_sha (ps_parser_target_identity_sha256 p) ''prepared parser target'',
      port_sha (ps_runtime_bundle_identity_sha256 p) ''prepared runtime bundle'',
      port_sha (ps_request_sha256 p) ''prepared request'',
      port_sha (ps_sha256 p) ''prepared submission'',
      require (\<not> ps_submission_epoch_unix p < 0) ''prepared submission epoch is invalid'',
      require (list_all prepared_identity_ok
          [ps_attempt_identity p, ps_fence_identity p, ps_client_submit_key p])
        ''prepared submission identity is invalid'',
      check_prepared_bytes p]"

definition mk_prepared :: "prepared_submission \<Rightarrow> prepared_submission res" where
  "mk_prepared p = construct (prepared_post_init p) p"

lemma mk_prepared_Inr [simp]: "mk_prepared p = Inr q \<longleftrightarrow> prepared_post_init p = Inr () \<and> q = p"
  by (auto simp: mk_prepared_def)

subsection \<open>From the reconcile receipt\<close>

record reconcile_receipt =
  rc_attempt_identity :: string
  rc_fence_identity :: string
  rc_source_pdf_sha256 :: string
  rc_client_submit_key :: string
  rc_submission_epoch_unix :: int
  rc_parser_target_sha256 :: string
  rc_request_sha256 :: string
  rc_runtime_epoch_sha256 :: string

definition reconcile_identity :: "string \<Rightarrow> string \<Rightarrow> unit res" where
  "reconcile_identity v label =
     require (nonblank v \<and> \<not> length v > 128) (''invalid prepared reconcile '' @ label)"

definition reconcile_post_init :: "reconcile_receipt \<Rightarrow> unit res" where
  "reconcile_post_init r = checks
     [reconcile_identity (rc_attempt_identity r) ''attempt identity'',
      reconcile_identity (rc_fence_identity r) ''fence identity'',
      reconcile_identity (rc_client_submit_key r) ''client submit key'',
      require (list_all is_sha [rc_source_pdf_sha256 r, rc_parser_target_sha256 r, rc_request_sha256 r,
          rc_runtime_epoch_sha256 r])
        ''prepared reconcile hash is not canonical'',
      require (\<not> rc_submission_epoch_unix r < 0) ''prepared reconcile epoch is invalid'']"

definition prepared_submission_identity_from_reconcile :: "reconcile_receipt \<Rightarrow> prepared_submission res" where
  "prepared_submission_identity_from_reconcile r =
     (let p = \<lparr>ps_schema = PREPARED_SUBMISSION_SCHEMA, ps_attempt_identity = rc_attempt_identity r,
            ps_fence_identity = rc_fence_identity r, ps_source_pdf_sha256 = rc_source_pdf_sha256 r,
            ps_parser_target_identity_sha256 = rc_parser_target_sha256 r,
            ps_runtime_bundle_identity_sha256 = rc_runtime_epoch_sha256 r,
            ps_request_sha256 = rc_request_sha256 r, ps_client_submit_key = rc_client_submit_key r,
            ps_submission_epoch_unix = rc_submission_epoch_unix r, ps_exact_bytes = '''', ps_sha256 = ''''\<rparr>
      in bindR (ascii_json (prepared_projection p)) (\<lambda>exact.
           mk_prepared (p\<lparr>ps_exact_bytes := exact, ps_sha256 := digest exact\<rparr>)))"

subsection \<open>The claim witness\<close>

record claim_witness =
  cw_attempt_id :: string
  cw_fence_identity :: string
  cw_state :: string
  cw_lifecycle_version :: int
  cw_checkpoint_sha256 :: string
  cw_claim_owner_identity :: string
  cw_claim_generation :: int

definition claim_identity :: "string \<Rightarrow> string \<Rightarrow> unit res" where
  "claim_identity v label = require (\<not> v = '''') (''v4 '' @ label @ '' identity is invalid'')"

definition claim_post_init :: "claim_witness \<Rightarrow> unit res" where
  "claim_post_init w = checks
     [claim_identity (cw_attempt_id w) ''attempt'',
      claim_identity (cw_fence_identity w) ''fence'',
      claim_identity (cw_state w) ''state'',
      claim_identity (cw_claim_owner_identity w) ''claim owner'',
      require (in_range (cw_lifecycle_version w)) ''v4 lifecycle version is invalid'',
      require (1 \<le> cw_claim_generation w \<and> cw_claim_generation w \<le> MAX_INT) ''v4 claim generation is invalid'',
      port_sha (cw_checkpoint_sha256 w) ''v4 checkpoint'']"

definition mk_claim :: "claim_witness \<Rightarrow> claim_witness res" where
  "mk_claim w = construct (claim_post_init w) w"

text \<open>\<open>validates\<close>: the conjunction stops at its first false member, before the hash is computed.\<close>

definition claim_validates :: "claim_witness \<Rightarrow> remote_parse_checkpoint \<Rightarrow> bool res" where
  "claim_validates w c =
     (if cw_attempt_id w = attempt_id c \<and> cw_fence_identity w = fence_identity c
         \<and> cw_state w = state_name (cp_state c) \<and> cw_lifecycle_version w = cp_lifecycle_version c
      then bindR (checkpoint_sha256 c) (\<lambda>sha. Inr (cw_checkpoint_sha256 w = sha))
      else Inr False)"

end
