(* ===== verification/Base64.thy ===== *)
theory Base64
  imports Prelude
begin

text \<open>
  \<open>base64.b64encode\<close> and \<open>base64.b64decode(_, validate=True)\<close> of Python 3.11 on byte strings, as
  \<open>application/contracts/v4_prepared_execution_spec.py\<close> uses them.
\<close>

definition base64_alphabet :: string where
  "base64_alphabet = ''ABCDEFGHIJKLMNOPQRSTUVWXYZabcdefghijklmnopqrstuvwxyz0123456789+/''"

definition b64_char :: "nat \<Rightarrow> char" where
  "b64_char n = base64_alphabet ! n"

fun b64encode :: "string \<Rightarrow> string" where
  "b64encode (a # b # c # s) =
     b64_char (code a div 4) # b64_char (code a mod 4 * 16 + code b div 16)
       # b64_char (code b mod 16 * 4 + code c div 64) # b64_char (code c mod 64) # b64encode s"
| "b64encode [a, b] =
     [b64_char (code a div 4), b64_char (code a mod 4 * 16 + code b div 16), b64_char (code b mod 16 * 4), CHR ''='']"
| "b64encode [a] = [b64_char (code a div 4), b64_char (code a mod 4 * 16), CHR ''='', CHR ''='']"
| "b64encode [] = []"

definition b64_value :: "char \<Rightarrow> nat" where
  "b64_value c = length (takeWhile (\<lambda>d. d \<noteq> c) base64_alphabet)"

text \<open>Four characters make three bytes; two or three left over make one or two.\<close>

fun b64_groups :: "nat list \<Rightarrow> string" where
  "b64_groups (p # q # r # s # vs) =
     char_of (p * 4 + q div 16) # char_of (q mod 16 * 16 + r div 4) # char_of (r mod 4 * 64 + s) # b64_groups vs"
| "b64_groups [p, q, r] = [char_of (p * 4 + q div 16), char_of (q mod 16 * 16 + r div 4)]"
| "b64_groups [p, q] = [char_of (p * 4 + q div 16)]"
| "b64_groups _ = []"

text \<open>
  The data characters come first and only padding follows; a rest of two needs exactly two padding
  characters, a rest of three exactly one, a rest of one is an error. Padding after a complete group is
  skipped, but not at the start.
\<close>

definition b64decode :: "string \<Rightarrow> string option" where
  "b64decode v =
     (let data = takeWhile (\<lambda>c. c \<in> set base64_alphabet) v;
          pad = drop (length data) v;
          n = length data mod 4
      in if list_all (\<lambda>c. c = CHR ''='') pad
           \<and> (n = 0 \<and> (data = '''' \<longrightarrow> pad = '''') \<or> n = 2 \<and> length pad = 2 \<or> n = 3 \<and> length pad = 1)
         then Some (b64_groups (map b64_value data)) else None)"

subsection \<open>Decoding inverts encoding\<close>

lemma code_bound: "code c < 256"
  by (simp add: code_def)

lemma alphabet_value: "n < 64 \<Longrightarrow> b64_value (b64_char n) = n \<and> b64_char n \<in> set base64_alphabet"
proof -
  have len: "length base64_alphabet = 64" and dist: "distinct base64_alphabet"
    by (simp_all add: base64_alphabet_def)
  assume n: "n < 64"
  have "takeWhile (\<lambda>d. d \<noteq> base64_alphabet ! n) base64_alphabet = take n base64_alphabet"
  proof (rule takeWhile_eq_take_P_nth)
    fix i assume "i < n" "i < length base64_alphabet"
    then show "base64_alphabet ! i \<noteq> base64_alphabet ! n"
      using dist n len by (simp add: nth_eq_iff_index_eq)
  qed simp
  with n len show ?thesis by (simp add: b64_value_def b64_char_def)
qed

lemma b64_char_in [simp]: "n < 64 \<Longrightarrow> b64_char n \<in> set base64_alphabet"
  using alphabet_value by blast

lemma b64_value_char [simp]: "n < 64 \<Longrightarrow> b64_value (b64_char n) = n"
  using alphabet_value by blast

lemma pad_not_in [simp]: "CHR ''='' \<notin> set base64_alphabet"
  by (simp add: base64_alphabet_def)

lemma char_of_code [simp]: "char_of (code c) = c"
  by (simp add: code_def)

text \<open>The six-bit pieces of three bytes, and the bytes again.\<close>

lemma pieces_bound:
  fixes a b c :: nat
  assumes "a < 256" "b < 256" "c < 256"
  shows "a div 4 < 64" "a mod 4 * 16 + b div 16 < 64" "a mod 4 * 16 < 64" "b mod 16 * 4 + c div 64 < 64"
    "b mod 16 * 4 < 64" "c mod 64 < 64"
proof -
  have quot: "a div 4 < 64" "b div 16 < 16" "c div 64 < 4"
    using assms by (auto intro: less_mult_imp_div_less)
  moreover have rest: "a mod 4 < 4" "b mod 16 < 16" "c mod 64 < 64" by simp_all
  ultimately show "a div 4 < 64" "a mod 4 * 16 + b div 16 < 64" "a mod 4 * 16 < 64"
    "b mod 16 * 4 + c div 64 < 64" "b mod 16 * 4 < 64" "c mod 64 < 64" by linarith+
qed

lemma b64_join_split:
  assumes "y < n * m"
  shows "(x * n + y div m) div n = (x::nat)" and "(x * n + y div m) mod n = y div m"
proof -
  have "y div m < n" using assms by (rule less_mult_imp_div_less)
  then show "(x * n + y div m) div n = x" "(x * n + y div m) mod n = y div m" by simp_all
qed

lemma pieces_join:
  fixes a b c :: nat
  assumes "b < 256" "c < 256"
  shows "a div 4 * 4 + (a mod 4 * 16 + b div 16) div 16 = a"
    "(a mod 4 * 16 + b div 16) mod 16 * 16 + (b mod 16 * 4 + c div 64) div 4 = b"
    "(b mod 16 * 4 + c div 64) mod 4 * 64 + c mod 64 = c"
    "a div 4 * 4 + a mod 4 * 16 div 16 = a"
    "(a mod 4 * 16 + b div 16) mod 16 * 16 + b mod 16 * 4 div 4 = b"
  using assms by (simp_all add: b64_join_split)

lemmas code_pieces = pieces_bound [OF code_bound code_bound code_bound]
lemmas code_join = pieces_join [OF code_bound code_bound]

lemma b64decode_step:
  assumes "list_all (\<lambda>c. c \<in> set base64_alphabet) [w, x, y, z]"
    and "v \<noteq> [] \<Longrightarrow> hd v \<in> set base64_alphabet"
  shows "b64decode (w # x # y # z # v) =
    map_option (\<lambda>t. b64_groups (map b64_value [w, x, y, z]) @ t) (b64decode v)"
proof -
  have "takeWhile (\<lambda>c. c \<in> set base64_alphabet) v = [] \<Longrightarrow> v = []"
    using assms(2) by (cases v) auto
  then show ?thesis using assms(1) by (auto simp: b64decode_def Let_def)
qed

lemma b64encode_hd: "b64encode s \<noteq> [] \<Longrightarrow> hd (b64encode s) \<in> set base64_alphabet"
  by (cases s rule: b64encode.cases) (simp_all add: code_pieces)

lemmas b64_pieces = code_pieces code_join b64_value_char b64_char_in char_of_code

lemma b64decode_encode: "b64decode (b64encode s) = Some s"
proof (induction s rule: b64encode.induct)
  case (1 a b c s)
  show ?case
    unfolding b64encode.simps
    by (subst b64decode_step)
       (use 1 b64encode_hd [of s] in
         \<open>simp_all only: list.map b64_groups.simps b64_pieces list.pred_inject option.map append.simps simp_thms\<close>)
next
  case (2 a b)
  have "code a div 4 * 4 + (code a mod 4 * 16 + code b div 16) div 16 = code a"
    "(code a mod 4 * 16 + code b div 16) mod 16 * 16 + code b mod 16 * 4 div 4 = code b"
    by (rule code_join)+
  then have "b64_groups [code a div 4, code a mod 4 * 16 + code b div 16, code b mod 16 * 4] = [a, b]"
    by (simp only: b64_groups.simps char_of_code)
  then show ?case by (simp add: b64decode_def code_pieces Let_def del: b64_groups.simps)
next
  case (3 a)
  show ?case by (simp add: b64decode_def code_pieces Let_def)
qed (simp add: b64decode_def)

end
