(* ===== verification/UrlSplit.thy ===== *)
theory UrlSplit
  imports Prelude
begin

text \<open>
  The part of Python's \<open>urllib.parse.urlsplit\<close> that
  \<open>application/contracts/remote_parse_evidence_v4.py\<close> and
  \<open>application/contracts/v4_prepared_execution_spec.py\<close> use: scheme, network location, user name, password,
  host name, port, path, query and fragment of a URL, as CPython 3.11 computes them, with the test of a bracketed host. The
  test of the network location under NFKC never fails below code point 256.
\<close>

text \<open>\<open>s.split(c, 1)\<close> for a \<open>c\<close> that occurs: what stands before and after the first one.\<close>

definition before :: "char \<Rightarrow> string \<Rightarrow> string" where
  "before d s = takeWhile (\<lambda>c. c \<noteq> d) s"

definition after :: "char \<Rightarrow> string \<Rightarrow> string" where
  "after d s = tl (dropWhile (\<lambda>c. c \<noteq> d) s)"

definition ascii_digit :: "char \<Rightarrow> bool" where
  "ascii_digit c = (48 \<le> code c \<and> code c \<le> 57)"

definition ascii_letter :: "char \<Rightarrow> bool" where
  "ascii_letter c = (let n = code c in 65 \<le> n \<and> n \<le> 90 \<or> 97 \<le> n \<and> n \<le> 122)"

definition ascii_lower :: "char \<Rightarrow> char" where
  "ascii_lower c = (if 65 \<le> code c \<and> code c \<le> 90 then char_of (code c + 32) else c)"

definition hex_digit :: "char \<Rightarrow> bool" where
  "hex_digit c = (let n = code c in ascii_digit c \<or> 65 \<le> n \<and> n \<le> 70 \<or> 97 \<le> n \<and> n \<le> 102)"

subsection \<open>Addresses in brackets\<close>

text \<open>\<open>ipaddress.IPv4Address\<close>: four decimal octets without leading zeros.\<close>

definition ipv4_octet :: "string \<Rightarrow> bool" where
  "ipv4_octet s = (s \<noteq> '''' \<and> list_all ascii_digit s \<and> length s \<le> 3
     \<and> (s = ''0'' \<or> hd s \<noteq> CHR ''0'')
     \<and> foldl (\<lambda>n c. 10 * n + (code c - 48)) 0 s \<le> 255)"

definition ipv4_ok :: "string \<Rightarrow> bool" where
  "ipv4_ok s = (let octets = split_on (CHR ''.'') s in length octets = 4 \<and> list_all ipv4_octet octets)"

definition hextet :: "string \<Rightarrow> bool" where
  "hextet s = (s \<noteq> '''' \<and> list_all hex_digit s \<and> length s \<le> 4)"

text \<open>
  \<open>IPv6Address._ip_int_from_string\<close> on the parts between colons, an embedded IPv4 address being
  replaced by two hextets. The empty inner parts are at most one, the place of the zeros.
\<close>

definition ipv6_groups :: "string list \<Rightarrow> bool" where
  "ipv6_groups ps =
     (let n = length ps; inner = filter (\<lambda>i. ps ! i = '''') [1..<n - 1] in
      n \<le> 9 \<and> (case inner of
        [] \<Rightarrow> n = 8 \<and> list_all hextet ps
      | [k] \<Rightarrow>
          let hi = (if hd ps = '''' then k - 1 else k);
              lo = (if last ps = '''' then n - k - 2 else n - k - 1)
          in (hd ps \<noteq> '''' \<or> hi = 0) \<and> (last ps \<noteq> '''' \<or> lo = 0) \<and> hi + lo < 8
             \<and> list_all hextet (take hi ps) \<and> list_all hextet (drop (n - lo) ps)
      | _ \<Rightarrow> False))"

definition ipv6_parts :: "string list \<Rightarrow> bool" where
  "ipv6_parts ps = (3 \<le> length ps \<and>
     (if CHR ''.'' \<in> set (last ps)
      then ipv4_ok (last ps) \<and> ipv6_groups (butlast ps @ [''0'', ''0''])
      else ipv6_groups ps))"

text \<open>\<open>ipaddress.IPv6Address\<close>, with its optional scope after a percent sign.\<close>

definition ipv6_ok :: "string \<Rightarrow> bool" where
  "ipv6_ok s = (CHR ''/'' \<notin> set s
     \<and> (CHR ''%'' \<in> set s \<longrightarrow> after (CHR ''%'') s \<noteq> '''' \<and> CHR ''%'' \<notin> set (after (CHR ''%'') s))
     \<and> ipv6_parts (split_on (CHR '':'') (before (CHR ''%'') s)))"

text \<open>\<open>\Av[a-fA-F0-9]+\..+\Z\<close>, where the dot of the pattern stands for any character but a newline.\<close>

definition ipv_future :: "string \<Rightarrow> bool" where
  "ipv_future s = (let version = takeWhile hex_digit (tl s); rest = drop (length version + 1) s in
     version \<noteq> '''' \<and> rest \<noteq> '''' \<and> hd rest = CHR ''.'' \<and> tl rest \<noteq> ''''
     \<and> CHR 0x0A \<notin> set (tl rest))"

definition bracketed_host_ok :: "string \<Rightarrow> bool" where
  "bracketed_host_ok host = (if is_prefix ''v'' host then ipv_future host else ipv6_ok host)"

subsection \<open>Splitting\<close>

record split_result =
  url_scheme :: string
  url_netloc :: string
  url_path :: string
  url_query :: string
  url_fragment :: string

definition scheme_char :: "char \<Rightarrow> bool" where
  "scheme_char c = (ascii_letter c \<or> ascii_digit c \<or> c \<in> {CHR ''+'', CHR ''-'', CHR ''.''})"

text \<open>Leading controls and blanks go, and every tab, carriage return and line feed.\<close>

definition clean_url :: "string \<Rightarrow> string" where
  "clean_url s = filter (\<lambda>c. c \<notin> {CHR 0x09, CHR 0x0D, CHR 0x0A}) (dropWhile (\<lambda>c. code c \<le> 32) s)"

definition split_scheme :: "string \<Rightarrow> string \<times> string" where
  "split_scheme s =
     (let head = before (CHR '':'') s in
      if CHR '':'' \<in> set s \<and> head \<noteq> '''' \<and> ascii_letter (hd head) \<and> list_all scheme_char head
      then (map ascii_lower head, after (CHR '':'') s)
      else ('''', s))"

definition split_netloc :: "string \<Rightarrow> string \<times> string" where
  "split_netloc s =
     (if is_prefix ''//'' s
      then let rest = drop 2 s; netloc = takeWhile (\<lambda>c. c \<notin> {CHR ''/'', CHR ''?'', CHR ''#''}) rest
        in (netloc, drop (length netloc) rest)
      else ('''', s))"

definition check_netloc :: "string \<Rightarrow> unit res" where
  "check_netloc netloc =
     (let opened = CHR ''['' \<in> set netloc; closed = CHR '']'' \<in> set netloc in checks
      [require (opened = closed) ''Invalid IPv6 URL'',
       require (opened \<longrightarrow> bracketed_host_ok (before (CHR '']'') (after (CHR ''['') netloc)))
         ''bracketed host is not an IPv6 address''])"

definition urlsplit :: "string \<Rightarrow> split_result res" where
  "urlsplit url =
     (let (scheme, s1) = split_scheme (clean_url url);
          (netloc, s2) = split_netloc s1
      in bindR (check_netloc netloc) (\<lambda>_.
           let fragment = after (CHR ''#'') s2; s3 = before (CHR ''#'') s2;
               query = after (CHR ''?'') s3
           in Inr \<lparr>url_scheme = scheme, url_netloc = netloc, url_path = before (CHR ''?'') s3,
                url_query = query, url_fragment = fragment\<rparr>))"

text \<open>\<open>.username\<close>: what stands before the last at sign, up to its first colon.\<close>

definition url_username :: "split_result \<Rightarrow> string option" where
  "url_username u =
     (if CHR ''@'' \<in> set (url_netloc u)
      then Some (before (CHR '':'') (rev (after (CHR ''@'') (rev (url_netloc u)))))
      else None)"

text \<open>\<open>.password\<close>: what follows that colon.\<close>

definition url_password :: "split_result \<Rightarrow> string option" where
  "url_password u =
     (let info = rev (after (CHR ''@'') (rev (url_netloc u))) in
      if CHR ''@'' \<in> set (url_netloc u) \<and> CHR '':'' \<in> set info then Some (after (CHR '':'') info) else None)"

text \<open>\<open>_hostinfo\<close>: the host and the text of the port after the user information.\<close>

definition url_hostinfo :: "split_result \<Rightarrow> string \<times> string" where
  "url_hostinfo u =
     (let info = rev (before (CHR ''@'') (rev (url_netloc u))) in
      if CHR ''['' \<in> set info
      then let bracketed = after (CHR ''['') info
        in (before (CHR '']'') bracketed, after (CHR '':'') (after (CHR '']'') bracketed))
      else (before (CHR '':'') info, after (CHR '':'') info))"

text \<open>\<open>.hostname\<close> as a truth value; lower-casing keeps it.\<close>

definition url_has_hostname :: "split_result \<Rightarrow> bool" where
  "url_has_hostname u = (fst (url_hostinfo u) \<noteq> '''')"

text \<open>\<open>.port\<close>\<close>

definition url_port :: "split_result \<Rightarrow> nat option res" where
  "url_port u =
     (let p = snd (url_hostinfo u) in
      if p = '''' then Inr None
      else if list_all ascii_digit p
        then (let n = foldl (\<lambda>n c. 10 * n + (code c - 48)) 0 p in
          if n \<le> 65535 then Inr (Some n) else Inl (ValueError ''Port out of range 0-65535''))
        else Inl (ValueError ''Port could not be cast to integer value''))"

end
