(* ===== verification/ProfileCodec.thy ===== *)
theory ProfileCodec
  imports Codec
begin

text \<open>
  \<open>decode_mineru_process_profile\<close> of \<open>application/contracts/mineru_process_profile.py\<close>.
\<close>

definition MAX_PROFILE_BYTES :: nat where
  "MAX_PROFILE_BYTES = 64 * 1024"

definition PROFILE_FIELDS :: "string list" where
  "PROFILE_FIELDS =
     [''contract_version'', ''runtime_bundle_identity_sha256'',
      ''orchestrator_image_identity_sha256'', ''inference_image_identity_sha256'',
      ''model_snapshot_identity_sha256'', ''host_runtime_identity_sha256'',
      ''vllm_engine_args_sha256'', ''api_task_slots'', ''api_max_pending_tasks'',
      ''registry_nonterminal_cap'', ''registry_terminal_cap'', ''processing_window_size'',
      ''raster_stage_slots'', ''layout_stage_slots'', ''postprocess_stage_slots'',
      ''native_owner_slots'', ''cpu_worker_threads'', ''omp_thread_count'',
      ''requested_hybrid_batch_ratio'', ''effective_hybrid_batch_ratio'',
      ''hybrid_ocr_override'', ''inference_concurrency'', ''vllm_max_num_seqs'',
      ''vllm_max_model_len'', ''vllm_max_num_batched_tokens'',
      ''vllm_gpu_memory_utilization_millionths'', ''vllm_tensor_parallel_size'',
      ''vllm_pipeline_parallel_size'', ''vllm_mm_processor_cache_bytes'', ''vllm_enforce_eager'',
      ''vllm_enable_prefix_caching'', ''pipeline_inference_locks'', ''finalizer_slots'',
      ''result_reservation_bytes'', ''max_unacked_result_bytes'', ''source_pdf_bytes_limit'',
      ''resident_pages_limit'', ''rasterized_page_bytes_limit'', ''decoded_payload_bytes_limit'',
      ''cpu_working_set_bytes_limit'', ''gpu_allocated_bytes_limit'', ''gpu_request_slots'',
      ''reorder_buffer_bytes_limit'', ''terminal_output_bytes_limit'',
      ''temporary_disk_bytes_limit'', ''db_staged_bytes_limit'', ''unpublished_pages_limit'',
      ''container_memory_limit_bytes'', ''host_runtime_memory_limit_bytes'',
      ''task_retention_seconds'', ''task_cleanup_interval_seconds'']"

definition profile_of_obj :: "obj \<Rightarrow> mineru_process_profile res" where
  "profile_of_obj d =
     bindR (get d ''contract_version'' as_str) (\<lambda>x1.
     bindR (get d ''runtime_bundle_identity_sha256'' as_str) (\<lambda>x2.
     bindR (get d ''orchestrator_image_identity_sha256'' as_str) (\<lambda>x3.
     bindR (get d ''inference_image_identity_sha256'' as_str) (\<lambda>x4.
     bindR (get d ''model_snapshot_identity_sha256'' as_str) (\<lambda>x5.
     bindR (get d ''host_runtime_identity_sha256'' as_str) (\<lambda>x6.
     bindR (get d ''vllm_engine_args_sha256'' as_str) (\<lambda>x7.
     bindR (get d ''api_task_slots'' as_int) (\<lambda>x8.
     bindR (get d ''api_max_pending_tasks'' as_int) (\<lambda>x9.
     bindR (get d ''registry_nonterminal_cap'' as_int) (\<lambda>x10.
     bindR (get d ''registry_terminal_cap'' as_int) (\<lambda>x11.
     bindR (get d ''processing_window_size'' as_int) (\<lambda>x12.
     bindR (get d ''raster_stage_slots'' as_int) (\<lambda>x13.
     bindR (get d ''layout_stage_slots'' as_int) (\<lambda>x14.
     bindR (get d ''postprocess_stage_slots'' as_int) (\<lambda>x15.
     bindR (get d ''native_owner_slots'' as_int) (\<lambda>x16.
     bindR (get d ''cpu_worker_threads'' as_int) (\<lambda>x17.
     bindR (get d ''omp_thread_count'' as_int) (\<lambda>x18.
     bindR (get d ''requested_hybrid_batch_ratio'' as_int) (\<lambda>x19.
     bindR (get d ''effective_hybrid_batch_ratio'' as_int) (\<lambda>x20.
     bindR (get d ''hybrid_ocr_override'' as_bool) (\<lambda>x21.
     bindR (get d ''inference_concurrency'' as_int) (\<lambda>x22.
     bindR (get d ''vllm_max_num_seqs'' as_int) (\<lambda>x23.
     bindR (get d ''vllm_max_model_len'' as_int) (\<lambda>x24.
     bindR (get d ''vllm_max_num_batched_tokens'' (as_opt as_int)) (\<lambda>x25.
     bindR (get d ''vllm_gpu_memory_utilization_millionths'' as_int) (\<lambda>x26.
     bindR (get d ''vllm_tensor_parallel_size'' as_int) (\<lambda>x27.
     bindR (get d ''vllm_pipeline_parallel_size'' as_int) (\<lambda>x28.
     bindR (get d ''vllm_mm_processor_cache_bytes'' as_int) (\<lambda>x29.
     bindR (get d ''vllm_enforce_eager'' as_bool) (\<lambda>x30.
     bindR (get d ''vllm_enable_prefix_caching'' as_bool) (\<lambda>x31.
     bindR (get d ''pipeline_inference_locks'' as_bool) (\<lambda>x32.
     bindR (get d ''finalizer_slots'' as_int) (\<lambda>x33.
     bindR (get d ''result_reservation_bytes'' as_int) (\<lambda>x34.
     bindR (get d ''max_unacked_result_bytes'' as_int) (\<lambda>x35.
     bindR (get d ''source_pdf_bytes_limit'' as_int) (\<lambda>x36.
     bindR (get d ''resident_pages_limit'' as_int) (\<lambda>x37.
     bindR (get d ''rasterized_page_bytes_limit'' as_int) (\<lambda>x38.
     bindR (get d ''decoded_payload_bytes_limit'' as_int) (\<lambda>x39.
     bindR (get d ''cpu_working_set_bytes_limit'' as_int) (\<lambda>x40.
     bindR (get d ''gpu_allocated_bytes_limit'' as_int) (\<lambda>x41.
     bindR (get d ''gpu_request_slots'' as_int) (\<lambda>x42.
     bindR (get d ''reorder_buffer_bytes_limit'' as_int) (\<lambda>x43.
     bindR (get d ''terminal_output_bytes_limit'' as_int) (\<lambda>x44.
     bindR (get d ''temporary_disk_bytes_limit'' as_int) (\<lambda>x45.
     bindR (get d ''db_staged_bytes_limit'' as_int) (\<lambda>x46.
     bindR (get d ''unpublished_pages_limit'' as_int) (\<lambda>x47.
     bindR (get d ''container_memory_limit_bytes'' as_int) (\<lambda>x48.
     bindR (get d ''host_runtime_memory_limit_bytes'' as_int) (\<lambda>x49.
     bindR (get d ''task_retention_seconds'' as_int) (\<lambda>x50.
     bindR (get d ''task_cleanup_interval_seconds'' as_int) (\<lambda>x51.
       mk_profile
         \<lparr>profile_contract_version = x1, runtime_bundle_identity_sha256 = x2,
          orchestrator_image_identity_sha256 = x3, inference_image_identity_sha256 = x4,
          model_snapshot_identity_sha256 = x5, host_runtime_identity_sha256 = x6,
          vllm_engine_args_sha256 = x7, api_task_slots = x8, api_max_pending_tasks = x9,
          registry_nonterminal_cap = x10, registry_terminal_cap = x11,
          processing_window_size = x12, raster_stage_slots = x13, layout_stage_slots = x14,
          postprocess_stage_slots = x15, native_owner_slots = x16, cpu_worker_threads = x17,
          omp_thread_count = x18, requested_hybrid_batch_ratio = x19,
          effective_hybrid_batch_ratio = x20, hybrid_ocr_override = x21,
          inference_concurrency = x22, vllm_max_num_seqs = x23, vllm_max_model_len = x24,
          vllm_max_num_batched_tokens = x25, vllm_gpu_memory_utilization_millionths = x26,
          vllm_tensor_parallel_size = x27, vllm_pipeline_parallel_size = x28,
          vllm_mm_processor_cache_bytes = x29, vllm_enforce_eager = x30,
          vllm_enable_prefix_caching = x31, pipeline_inference_locks = x32,
          finalizer_slots = x33, result_reservation_bytes = x34,
          max_unacked_result_bytes = x35, source_pdf_bytes_limit = x36,
          resident_pages_limit = x37, rasterized_page_bytes_limit = x38,
          decoded_payload_bytes_limit = x39, cpu_working_set_bytes_limit = x40,
          gpu_allocated_bytes_limit = x41, gpu_request_slots = x42,
          reorder_buffer_bytes_limit = x43, terminal_output_bytes_limit = x44,
          temporary_disk_bytes_limit = x45, db_staged_bytes_limit = x46,
          unpublished_pages_limit = x47, container_memory_limit_bytes = x48,
          host_runtime_memory_limit_bytes = x49, task_retention_seconds = x50,
          task_cleanup_interval_seconds = x51\<rparr>)))))))))))))))))))))))))))))))))))))))))))))))))))"

text \<open>Every \<open>ValueError\<close> of the strict decoder, also for bytes that are no UTF-8, is replaced by one message.\<close>

definition read_profile_object :: "string \<Rightarrow> obj res" where
  "read_profile_object exact =
     bindR (require (exact \<noteq> [] \<and> length exact \<le> MAX_PROFILE_BYTES)
       ''MinerU process profile bytes are outside the closed envelope'') (\<lambda>_.
     case strict_json_loads exact of
       Inl _ \<Rightarrow> Inl (ValueError ''MinerU process profile is not strict UTF-8 JSON'')
     | Inr v \<Rightarrow> (case v of
         PDict d \<Rightarrow> Inr d
       | _ \<Rightarrow> Inl (ValueError ''MinerU process profile fields are not closed'')))"

definition decode_mineru_process_profile :: "string \<Rightarrow> mineru_process_profile res" where
  "decode_mineru_process_profile exact =
     bindR (read_profile_object exact) (\<lambda>d.
     bindR (closed d PROFILE_FIELDS ''MinerU process profile'') (\<lambda>_.
     bindR (profile_of_obj d) (\<lambda>p.
     bindR (require (profile_exact_bytes p = exact) ''MinerU process profile bytes are not canonical'') (\<lambda>_.
       Inr p))))"

subsection \<open>Decoding inverts encoding\<close>

lemma mk_profile_Inr [simp]: "mk_profile p = Inr q \<longleftrightarrow> valid_profile p \<and> q = p"
  by (simp add: mk_profile_def valid_profile_def)

lemma profile_of_obj_members:
  assumes "valid_profile p"
  shows "profile_of_obj (obj_of (members_of (profile_payload p))) = Inr p"
proof -
  define kvs where "kvs = members_of (profile_payload p)"
  have opt: "as_opt as_int (pyval_of (case v of None \<Rightarrow> JNull | Some n \<Rightarrow> JInt n)) = Inr v" for v
    by (cases v) (simp_all add: as_opt_def)
  have "list_all (\<lambda>kv. attr (obj_of kvs) (fst kv) = Some (pyval_of (snd kv))) (members_of (profile_payload p))"
    by (rule attrs_obj_of [OF kvs_def]) (simp add: profile_payload_def)
  then have "profile_of_obj (obj_of kvs) = mk_profile p"
    by (cases p) (simp add: profile_payload_def profile_of_obj_def get_attr opt)
  with assms show ?thesis by (simp add: kvs_def)
qed

lemma profile_int_digits:
  assumes "valid_profile p"
  shows "list_all (\<lambda>(name, v). int_digits v \<le> MAX_STR_DIGITS) (profile_int32s p)"
    and "list_all (\<lambda>(name, v). int_digits v \<le> MAX_STR_DIGITS) (profile_int64s p)"
proof -
  have "int_digits v \<le> MAX_STR_DIGITS" if "1 \<le> v" "v \<le> MAX_INT32" for v
    using that MAX_INT32_le by (intro int_digits_bounded) simp_all
  then show "list_all (\<lambda>(name, v). int_digits v \<le> MAX_STR_DIGITS) (profile_int32s p)"
    using valid_profile_int32s [OF assms] by (auto simp: list_all_iff)
  show "list_all (\<lambda>(name, v). int_digits v \<le> MAX_STR_DIGITS) (profile_int64s p)"
    using valid_profile_int64s [OF assms] by (auto simp: list_all_iff intro!: int_digits_bounded)
qed

lemma profile_other_digits:
  assumes "valid_profile p"
  shows "int_digits (vllm_mm_processor_cache_bytes p) \<le> MAX_STR_DIGITS"
    and "int_digits (requested_hybrid_batch_ratio p) \<le> MAX_STR_DIGITS"
    and "int_digits (effective_hybrid_batch_ratio p) \<le> MAX_STR_DIGITS"
    and "vllm_max_num_batched_tokens p = Some n \<Longrightarrow> int_digits n \<le> MAX_STR_DIGITS"
proof -
  note parts = assms [unfolded valid_profile_def profile_post_init_def checks_Cons_Inr]
  show "int_digits (vllm_mm_processor_cache_bytes p) \<le> MAX_STR_DIGITS"
    using parts by (auto simp: validate_nonnegative_bounded_int_def intro!: int_digits_bounded)
  show "int_digits (requested_hybrid_batch_ratio p) \<le> MAX_STR_DIGITS"
    "int_digits (effective_hybrid_batch_ratio p) \<le> MAX_STR_DIGITS"
    using parts by (auto simp: MAX_INT_def intro!: int_digits_bounded)
  show "int_digits n \<le> MAX_STR_DIGITS" if "vllm_max_num_batched_tokens p = Some n"
    using parts that order_trans [OF _ MAX_INT32_le]
    by (auto simp: profile_check_batched_tokens_def validate_positive_bounded_int_def intro!: int_digits_bounded)
qed

lemma json_ok_profile:
  assumes "valid_profile p"
  shows "json_ok (profile_payload p)"
proof -
  have opt: "json_ok (case vllm_max_num_batched_tokens p of None \<Rightarrow> JNull | Some n \<Rightarrow> JInt n)"
    using profile_other_digits(4) [OF assms] by (simp split: option.split)
  note i32 = profile_int_digits(1) [OF assms, unfolded profile_int32s_def list.pred_inject split_conv]
  note i64 = profile_int_digits(2) [OF assms, unfolded profile_int64s_def list.pred_inject split_conv]
  have "distinct (map fst (members_of (profile_payload p)))" by (simp add: profile_payload_def)
  moreover have "list_all (\<lambda>kv. json_ok (snd kv)) (members_of (profile_payload p))"
    using i32 i64 opt profile_other_digits(1-3) [OF assms] by (simp add: profile_payload_def)
  ultimately show ?thesis by (simp add: profile_payload_def)
qed


lemma profile_text_digits:
  assumes "valid_profile p"
  shows "list_all (\<lambda>(name, v). length (int_text v) \<le> 19) (profile_int32s p)"
    and "list_all (\<lambda>(name, v). length (int_text v) \<le> 19) (profile_int64s p)"
    and "length (int_text (vllm_mm_processor_cache_bytes p)) \<le> 19"
    and "length (int_text (requested_hybrid_batch_ratio p)) \<le> 19"
    and "length (int_text (effective_hybrid_batch_ratio p)) \<le> 19"
    and "vllm_max_num_batched_tokens p = Some n \<Longrightarrow> length (int_text n) \<le> 19"
    and "list_all (\<lambda>(name, v). length v = 71) (profile_shas p)"
    and "length (profile_contract_version p) \<le> 25"
proof -
  note parts = assms [unfolded valid_profile_def profile_post_init_def checks_Cons_Inr]
  have int32: "length (int_text v) \<le> 19" if "1 \<le> v" "v \<le> MAX_INT32" for v
    using that MAX_INT32_le by (intro length_int_text) simp_all
  show "list_all (\<lambda>(name, v). length (int_text v) \<le> 19) (profile_int32s p)"
    using valid_profile_int32s [OF assms] int32 by (auto simp: list_all_iff)
  show "list_all (\<lambda>(name, v). length (int_text v) \<le> 19) (profile_int64s p)"
    using valid_profile_int64s [OF assms] by (auto simp: list_all_iff intro!: length_int_text)
  show "length (int_text (vllm_mm_processor_cache_bytes p)) \<le> 19"
    using parts by (auto simp: validate_nonnegative_bounded_int_def intro!: length_int_text)
  show "length (int_text (requested_hybrid_batch_ratio p)) \<le> 19"
    "length (int_text (effective_hybrid_batch_ratio p)) \<le> 19"
    using parts by (auto simp: MAX_INT_def intro!: length_int_text)
  show "length (int_text n) \<le> 19" if "vllm_max_num_batched_tokens p = Some n"
    using parts that int32 by (auto simp: profile_check_batched_tokens_def validate_positive_bounded_int_def)
  show "list_all (\<lambda>(name, v). length v = 71) (profile_shas p)"
    using parts by (auto simp: profile_check_shas_def list_all_iff is_sha_def)
  show "length (profile_contract_version p) \<le> 25"
    using parts by (auto simp: PROCESS_PROFILE_CONTRACT_def EXPLICIT_PROCESS_PROFILE_CONTRACT_def)
qed

lemma profile_bytes_bound:
  assumes "valid_profile p"
  shows "length (profile_exact_bytes p) \<le> MAX_PROFILE_BYTES"
proof -
  note facts = profile_text_digits [OF assms]
  note i32 = facts(1) [unfolded profile_int32s_def list.pred_inject split_conv]
  note i64 = facts(2) [unfolded profile_int64s_def list.pred_inject split_conv]
  note shas = facts(7) [unfolded profile_shas_def list.pred_inject split_conv]
  have opt: "text_bound (case vllm_max_num_batched_tokens p of None \<Rightarrow> JNull | Some n \<Rightarrow> JInt n) \<le> 19"
    using facts(6) by (simp split: option.split)
  have "text_bound (profile_payload p) \<le> 20000"
    using i32 i64 shas opt facts(3-5,8) by (simp add: profile_payload_def)
  then have "2 * text_bound (profile_payload p) \<le> MAX_PROFILE_BYTES" by (simp add: MAX_PROFILE_BYTES_def)
  with length_json_bytes [of "profile_payload p"] show ?thesis
    unfolding profile_exact_bytes_def by linarith
qed

lemma decode_profile_of:
  assumes "valid_profile p"
  shows "decode_mineru_process_profile (profile_exact_bytes p) = Inr p"
proof -
  let ?j = "profile_payload p"
  have "strict_json_loads (profile_exact_bytes p) = Inr (PDict (obj_of (members_of ?j)))"
    using loads_dumps [OF json_ok_profile [OF assms]] pyval_of_object [of "members_of ?j"]
    unfolding profile_exact_bytes_def profile_payload_def members_of.simps by (simp only:)
  moreover have "profile_exact_bytes p \<noteq> []"
    using json_bytes_nonempty [of ?j] by (auto simp: profile_exact_bytes_def)
  ultimately have "read_profile_object (profile_exact_bytes p) = Inr (obj_of (members_of ?j))"
    using profile_bytes_bound [OF assms] by (simp add: read_profile_object_def require_def)
  moreover have "closed (obj_of (members_of ?j)) PROFILE_FIELDS ''MinerU process profile'' = Inr ()"
    by (rule closed_members) (simp add: profile_payload_def PROFILE_FIELDS_def)
  ultimately show ?thesis
    using profile_of_obj_members [OF assms] by (simp add: decode_mineru_process_profile_def)
qed

interpretation profile: codec "\<lambda>p. Inr (profile_exact_bytes p)" decode_mineru_process_profile valid_profile
proof
  show "decode_mineru_process_profile bs = Inr p"
    if "valid_profile p" "(Inr (profile_exact_bytes p) :: string res) = Inr bs" for p bs
    using decode_profile_of [OF that(1)] that(2) by simp
  show "valid_profile p \<and> (Inr (profile_exact_bytes p) :: string res) = Inr bs"
    if "decode_mineru_process_profile bs = Inr p" for bs p
    using that by (auto simp: decode_mineru_process_profile_def profile_of_obj_def)
qed

end
