(* ===== verification/ExecutionSpec.thy ===== *)
theory ExecutionSpec
  imports PreparedSubmission WorkerProfile Base64 UrlSplit ProfileCodec
begin

text \<open>
  \<open>application/contracts/v4_prepared_execution_spec.py\<close>: everything that affects the execution of an
  attempt, fixed before the first request; with \<open>ParserOptions\<close> and \<open>ParserIdentity\<close> of
  \<open>application/ports/parser.py\<close>.
\<close>

subsection \<open>The parser options\<close>

record parser_identity =
  pn_name :: string
  pn_version :: string

record parser_options =
  po_method :: string
  po_backend :: string
  po_language :: string
  po_formula :: bool
  po_table :: bool
  po_effort :: string
  po_image_analysis :: bool
  po_start_page :: "int option"
  po_end_page :: "int option"
  po_timeout_seconds :: "int option"
  po_api_url :: "string option"
  po_api_drain_timeout_seconds :: int
  po_server_url :: "string option"
  po_http_request_concurrency :: "int option"
  po_runtime_bundle_identity_sha256 :: "string option"

definition effective_effort :: "parser_options \<Rightarrow> string option" where
  "effective_effort o' = (if is_prefix ''hybrid-'' (po_backend o') then Some (po_effort o') else None)"

definition effective_image_analysis :: "parser_options \<Rightarrow> bool" where
  "effective_image_analysis o' =
     (po_image_analysis o' \<and> po_backend o' \<noteq> ''pipeline''
       \<and> \<not> (is_prefix ''hybrid-'' (po_backend o') \<and> po_effort o' = ''medium''))"

text \<open>\<open>ParserOptions.target_identity\<close>\<close>

definition target_identity :: "parser_options \<Rightarrow> parser_identity \<Rightarrow> parser_target_identity res" where
  "target_identity o' who = mk_target
     \<lparr>pt_name = pn_name who, pt_package_version = pn_version who, pt_backend = po_backend o',
      pt_method = po_method o', pt_language = po_language o', pt_formula = po_formula o',
      pt_table = po_table o', pt_effort = effective_effort o',
      pt_image_analysis = effective_image_analysis o',
      pt_full_pdf = (po_start_page o' = None \<and> po_end_page o' = None),
      pt_start_page = po_start_page o', pt_end_page = po_end_page o',
      pt_runtime_bundle_identity_sha256 =
        (case po_runtime_bundle_identity_sha256 o' of None \<Rightarrow> '''' | Some v \<Rightarrow> v),
      pt_inline_equation_left = ''$'', pt_inline_equation_right = ''$'',
      pt_target_contract_version = PARSER_TARGET_CONTRACT_VERSION\<rparr>"

subsection \<open>The specification\<close>

definition V4_PREPARED_EXECUTION_SPEC_CONTRACT :: string where
  "V4_PREPARED_EXECUTION_SPEC_CONTRACT = ''v4-prepared-execution-spec.v2''"

definition MAX_V4_PREPARED_EXECUTION_SPEC_BYTES :: nat where
  "MAX_V4_PREPARED_EXECUTION_SPEC_BYTES = 512 * 1024"

definition SPEC_MAX_REQUEST_BYTES :: nat where
  "SPEC_MAX_REQUEST_BYTES = 64 * 1024"

definition SPEC_MAX_IDENTITY_BYTES :: nat where
  "SPEC_MAX_IDENTITY_BYTES = 1024"

definition SPEC_MAX_ARCHIVE_MEMBERS :: int where
  "SPEC_MAX_ARCHIVE_MEMBERS = 100000"

record execution_spec =
  xs_contract_version :: string
  xs_prepared_submission :: prepared_submission
  xs_parser_identity :: parser_identity
  xs_parser_options :: parser_options
  xs_api_origin :: string
  xs_server_url :: string
  xs_request_exact_bytes :: string
  xs_request_sha256 :: string
  xs_process_profile_exact_bytes :: string
  xs_process_profile_sha256 :: string
  xs_worker_profile :: worker_profile
  xs_result_lease_seconds :: int
  xs_remote_runaway_seconds :: int
  xs_archive_member_count_limit :: int
  xs_archive_uncompressed_byte_limit :: int

definition require_exact_bytes :: "string \<Rightarrow> string \<Rightarrow> nat \<Rightarrow> unit res" where
  "require_exact_bytes v label maximum =
     require (\<not> (v = '''' \<or> length v > maximum)) (label @ '' bytes are outside the closed envelope'')"

definition positive_bounded :: "int \<Rightarrow> string \<Rightarrow> int \<Rightarrow> unit res" where
  "positive_bounded v label maximum =
     require (1 \<le> v \<and> v \<le> maximum) (label @ '' must be within 1..'' @ int_text maximum)"

definition optional_bounded :: "int option \<Rightarrow> string \<Rightarrow> unit res" where
  "optional_bounded v label =
     (case v of None \<Rightarrow> Inr () | Some n \<Rightarrow> positive_bounded n label MAX_INT32)"

text \<open>\<open>_validate_parser\<close>\<close>

definition parser_text :: "string \<Rightarrow> string \<Rightarrow> unit res" where
  "parser_text v label =
     require (\<not> (v = '''' \<or> length (utf8 v) > SPEC_MAX_IDENTITY_BYTES)) (''V4 parser '' @ label @ '' is invalid'')"

definition validate_parser :: "parser_identity \<Rightarrow> parser_options \<Rightarrow> unit res" where
  "validate_parser who o' = checks
     [parser_text (pn_name who) ''name'',
      parser_text (pn_version who) ''version'',
      bindR (target_identity o' who) (\<lambda>_. Inr ()),
      optional_bounded (po_timeout_seconds o') ''V4 parser timeout'',
      optional_bounded (po_http_request_concurrency o') ''V4 parser HTTP request concurrency'',
      positive_bounded (po_api_drain_timeout_seconds o') ''V4 parser API drain timeout'' MAX_INT32,
      (case po_runtime_bundle_identity_sha256 o' of
         None \<Rightarrow> Inl (ValueError ''V4 parser runtime bundle must be canonical sha256'')
       | Some v \<Rightarrow> port_sha v ''V4 parser runtime bundle'')]"

text \<open>\<open>_validate_api_origin\<close> and \<open>_validate_server_url\<close>: they differ in whether a path is allowed.\<close>

definition closed_http_url :: "bool \<Rightarrow> split_result \<Rightarrow> bool" where
  "closed_http_url path_allowed u = (\<not>
     (url_scheme u \<notin> {''http'', ''https''}
      \<or> \<not> url_has_hostname u
      \<or> url_username u \<noteq> None
      \<or> url_password u \<noteq> None
      \<or> (\<not> path_allowed \<and> url_path u \<noteq> '''')
      \<or> url_query u \<noteq> ''''
      \<or> url_fragment u \<noteq> ''''))"

definition check_port :: "split_result \<Rightarrow> string \<Rightarrow> unit res" where
  "check_port u msg = (case url_port u of Inl _ \<Rightarrow> Inl (ValueError msg) | Inr _ \<Rightarrow> Inr ())"

definition validate_api_origin :: "string \<Rightarrow> unit res" where
  "validate_api_origin v =
     bindR (require (\<not> (v = '''' \<or> length v > 4096)) ''V4 API origin is invalid'') (\<lambda>_.
     bindR (urlsplit v) (\<lambda>u. checks
       [check_port u ''V4 API origin port is invalid'',
        require (closed_http_url False u) ''V4 API origin must be one closed HTTP origin'']))"

definition validate_server_url :: "string \<Rightarrow> unit res" where
  "validate_server_url v =
     bindR (require (\<not> (v = '''' \<or> length v > 4096)) ''V4 server URL is invalid'') (\<lambda>_.
     bindR (urlsplit v) (\<lambda>u. checks
       [check_port u ''V4 server URL port is invalid'',
        require (closed_http_url True u) ''V4 server URL must be one closed HTTP URL'']))"

subsection \<open>The checks of the constructor\<close>

definition check_spec_parser :: "execution_spec \<Rightarrow> unit res" where
  "check_spec_parser x = checks
     [require (\<not> xs_contract_version x \<noteq> V4_PREPARED_EXECUTION_SPEC_CONTRACT)
        ''V4 prepared execution spec contract is unsupported'',
      validate_parser (xs_parser_identity x) (xs_parser_options x),
      validate_api_origin (xs_api_origin x),
      validate_server_url (xs_server_url x),
      require (\<not> po_api_url (xs_parser_options x) \<noteq> Some (xs_api_origin x))
        ''V4 API origin drifted from parser options'',
      require (\<not> po_server_url (xs_parser_options x) \<noteq> Some (xs_server_url x))
        ''V4 server URL drifted from parser options'']"

definition check_spec_request :: "execution_spec \<Rightarrow> unit res" where
  "check_spec_request x = checks
     [require_exact_bytes (xs_request_exact_bytes x) ''V4 request'' SPEC_MAX_REQUEST_BYTES,
      port_sha (xs_request_sha256 x) ''V4 request'',
      require (\<not> xs_request_sha256 x \<noteq> digest (xs_request_exact_bytes x))
        ''V4 request exact bytes drifted from its digest'',
      require (\<not> ps_request_sha256 (xs_prepared_submission x) \<noteq> xs_request_sha256 x)
        ''V4 request drifted from prepared submission'']"

text \<open>The profile that the specification carries, and what must agree with it.\<close>

definition check_spec_profile :: "execution_spec \<Rightarrow> mineru_process_profile res" where
  "check_spec_profile x =
     bindR (checks
       [require_exact_bytes (xs_process_profile_exact_bytes x) ''V4 process profile'' (64 * 1024),
        port_sha (xs_process_profile_sha256 x) ''V4 process profile'',
        require (\<not> xs_process_profile_sha256 x \<noteq> digest (xs_process_profile_exact_bytes x))
          ''V4 process profile exact bytes drifted from its digest'']) (\<lambda>_.
     bindR (decode_mineru_process_profile (xs_process_profile_exact_bytes x)) (\<lambda>p.
     bindR (let runtime = po_runtime_bundle_identity_sha256 (xs_parser_options x) in checks
       [require (\<not> profile_sha256 p \<noteq> xs_process_profile_sha256 x)
          ''V4 process profile canonical identity drifted'',
        require (\<not> wp_process_profile_sha256 (xs_worker_profile x) \<noteq> profile_sha256 p)
          ''V4 worker composition does not bind the exact process profile'',
        require (\<not> (runtime \<noteq> Some (ps_runtime_bundle_identity_sha256 (xs_prepared_submission x))
            \<or> runtime \<noteq> Some (runtime_bundle_identity_sha256 p)))
          ''V4 runtime bundle identity is not closed'']) (\<lambda>_. Inr p)))"

text \<open>\<open>target_sha256\<close>: this module hashes the ASCII text of the target.\<close>

definition spec_target_sha256 :: "execution_spec \<Rightarrow> string res" where
  "spec_target_sha256 x =
     bindR (target_identity (xs_parser_options x) (xs_parser_identity x)) (\<lambda>t.
       digest_of (ascii_json (target_payload t)))"

definition check_spec_target :: "execution_spec \<Rightarrow> unit res" where
  "check_spec_target x =
     bindR (spec_target_sha256 x) (\<lambda>sha.
       require (\<not> sha \<noteq> ps_parser_target_identity_sha256 (xs_prepared_submission x))
         ''V4 parser target drifted from prepared submission'')"

definition check_spec_limits :: "execution_spec \<Rightarrow> mineru_process_profile \<Rightarrow> unit res" where
  "check_spec_limits x p = checks
     [positive_bounded (xs_result_lease_seconds x) ''V4 result lease'' 3600,
      positive_bounded (xs_remote_runaway_seconds x) ''V4 remote runaway'' MAX_INT32,
      positive_bounded (xs_archive_member_count_limit x) ''V4 archive member limit'' SPEC_MAX_ARCHIVE_MEMBERS,
      positive_bounded (xs_archive_uncompressed_byte_limit x) ''V4 archive uncompressed limit'' MAX_INT,
      require (\<not> xs_archive_uncompressed_byte_limit x > temporary_disk_bytes_limit p)
        ''V4 archive limit exceeds the frozen temporary-disk budget'']"

definition spec_post_init :: "execution_spec \<Rightarrow> unit res" where
  "spec_post_init x =
     bindR (checks [check_spec_parser x, check_spec_request x]) (\<lambda>_.
     bindR (check_spec_profile x) (\<lambda>p. checks [check_spec_target x, check_spec_limits x p]))"

definition mk_spec :: "execution_spec \<Rightarrow> execution_spec res" where
  "mk_spec x = construct (spec_post_init x) x"

subsection \<open>Canonical bytes\<close>

definition options_payload :: "parser_options \<Rightarrow> json" where
  "options_payload o' = JObj
     [(''method'', JStr (po_method o')),
      (''backend'', JStr (po_backend o')),
      (''language'', JStr (po_language o')),
      (''formula'', JBool (po_formula o')),
      (''table'', JBool (po_table o')),
      (''effort'', JStr (po_effort o')),
      (''image_analysis'', JBool (po_image_analysis o')),
      (''start_page'', JOptInt (po_start_page o')),
      (''end_page'', JOptInt (po_end_page o')),
      (''timeout_seconds'', JOptInt (po_timeout_seconds o')),
      (''api_url'', JOpt (po_api_url o')),
      (''api_drain_timeout_seconds'', JInt (po_api_drain_timeout_seconds o')),
      (''server_url'', JOpt (po_server_url o')),
      (''http_request_concurrency'', JOptInt (po_http_request_concurrency o')),
      (''runtime_bundle_identity_sha256'', JOpt (po_runtime_bundle_identity_sha256 o'))]"

definition spec_payload :: "execution_spec \<Rightarrow> string \<Rightarrow> string \<Rightarrow> json" where
  "spec_payload x worker worker_sha = JObj
     [(''contract_version'', JStr (xs_contract_version x)),
      (''prepared_submission_exact_b64'', JStr (b64encode (ps_exact_bytes (xs_prepared_submission x)))),
      (''prepared_submission_sha256'', JStr (ps_sha256 (xs_prepared_submission x))),
      (''parser_identity'', JObj [(''name'', JStr (pn_name (xs_parser_identity x))),
        (''version'', JStr (pn_version (xs_parser_identity x)))]),
      (''parser_options'', options_payload (xs_parser_options x)),
      (''api_origin'', JStr (xs_api_origin x)),
      (''server_url'', JStr (xs_server_url x)),
      (''request_exact_b64'', JStr (b64encode (xs_request_exact_bytes x))),
      (''request_sha256'', JStr (xs_request_sha256 x)),
      (''process_profile_exact_b64'', JStr (b64encode (xs_process_profile_exact_bytes x))),
      (''process_profile_sha256'', JStr (xs_process_profile_sha256 x)),
      (''worker_profile_exact_b64'', JStr (b64encode worker)),
      (''worker_profile_sha256'', JStr worker_sha),
      (''result_lease_seconds'', JInt (xs_result_lease_seconds x)),
      (''remote_runaway_seconds'', JInt (xs_remote_runaway_seconds x)),
      (''archive_member_count_limit'', JInt (xs_archive_member_count_limit x)),
      (''archive_uncompressed_byte_limit'', JInt (xs_archive_uncompressed_byte_limit x))]"

text \<open>\<open>json.dumps(_, ensure_ascii=False)\<close> refuses a long integer, as in theory \<open>AsciiJson\<close>.\<close>

definition encode_v4_prepared_execution_spec :: "execution_spec \<Rightarrow> string res" where
  "encode_v4_prepared_execution_spec x =
     bindR (worker_exact_bytes (xs_worker_profile x)) (\<lambda>worker.
     bindR (worker_sha256 (xs_worker_profile x)) (\<lambda>sha.
     let payload = spec_payload x worker sha in
     bindR (dumpable payload) (\<lambda>_.
     bindR (require (\<not> length (json_bytes payload) > MAX_V4_PREPARED_EXECUTION_SPEC_BYTES)
       ''V4 prepared execution spec exceeds the closed envelope'') (\<lambda>_. Inr (json_bytes payload)))))"

definition spec_sha256 :: "execution_spec \<Rightarrow> string res" where
  "spec_sha256 x = digest_of (encode_v4_prepared_execution_spec x)"

definition spec_byte_count :: "execution_spec \<Rightarrow> int res" where
  "spec_byte_count x = bindR (encode_v4_prepared_execution_spec x) (\<lambda>exact. Inr (int (length exact)))"

definition spec_process_profile :: "execution_spec \<Rightarrow> mineru_process_profile res" where
  "spec_process_profile x = decode_mineru_process_profile (xs_process_profile_exact_bytes x)"

end
