(* ===== verification/SpecCodec.thy ===== *)
theory SpecCodec
  imports ExecutionSpec
begin

text \<open>
  The decoder of \<open>application/contracts/v4_prepared_execution_spec.py\<close>. Both directions of its round trip: the
  prepared submission and the worker profile travel as base64 of their own ASCII JSON inside the specification's
  UTF-8 JSON.
\<close>

subsection \<open>The decoders\<close>

text \<open>\<open>_decode_bytes\<close>: a text with a character outside ASCII is no base64.\<close>

definition spec_decode_bytes :: "string \<Rightarrow> nat \<Rightarrow> pyval \<Rightarrow> string res" where
  "spec_decode_bytes label maximum v =
     (let invalid = ValueError (label @ '' base64 is invalid'') in case v of
        PStr s \<Rightarrow>
          (if s = [] \<or> \<not> list_all (\<lambda>c. c < 256) s then Inl invalid
           else (case b64decode (map char_of s) of
               None \<Rightarrow> Inl invalid
             | Some bs \<Rightarrow>
                 bindR (require (\<not> b64encode bs \<noteq> map char_of s) (label @ '' base64 is not canonical'')) (\<lambda>_.
                 bindR (require_exact_bytes bs label maximum) (\<lambda>_. Inr bs))))
      | _ \<Rightarrow> Inl invalid)"

definition spec_read_sha :: "string \<Rightarrow> pyval \<Rightarrow> string res" where
  "spec_read_sha label v =
     (let invalid = ValueError (label @ '' must be canonical sha256'') in case v of
        PStr s \<Rightarrow> if list_all (\<lambda>c. c < 256) s \<and> is_sha (map char_of s) then Inr (map char_of s) else Inl invalid
      | _ \<Rightarrow> Inl invalid)"

text \<open>\<open>type(v) is dict and set(v) == fields\<close>\<close>

definition closed_object :: "string list \<Rightarrow> string \<Rightarrow> pyval \<Rightarrow> obj res" where
  "closed_object names msg v =
     (case v of
        PDict d \<Rightarrow> bindR (require (set (map fst d) = set (map cps names)) msg) (\<lambda>_. Inr d)
      | _ \<Rightarrow> Inl (ValueError msg))"

text \<open>The strict decoder behind one message.\<close>

definition spec_loads :: "string \<Rightarrow> string \<Rightarrow> pyval res" where
  "spec_loads msg payload = (case strict_json_loads payload of Inl _ \<Rightarrow> Inl (ValueError msg) | Inr v \<Rightarrow> Inr v)"

definition PREPARED_FIELDS :: "string list" where
  "PREPARED_FIELDS =
     [''schema'', ''attempt_identity'', ''fence_identity'', ''source_pdf_sha256'',
      ''parser_target_identity_sha256'', ''runtime_bundle_identity_sha256'', ''request_sha256'',
      ''client_submit_key'', ''submission_epoch_unix'']"

definition prepared_of_obj :: "string \<Rightarrow> string \<Rightarrow> obj \<Rightarrow> prepared_submission res" where
  "prepared_of_obj exact sha d =
     bindR (get d ''schema'' as_str) (\<lambda>x1.
     bindR (get d ''attempt_identity'' as_str) (\<lambda>x2.
     bindR (get d ''fence_identity'' as_str) (\<lambda>x3.
     bindR (get d ''source_pdf_sha256'' as_str) (\<lambda>x4.
     bindR (get d ''parser_target_identity_sha256'' as_str) (\<lambda>x5.
     bindR (get d ''runtime_bundle_identity_sha256'' as_str) (\<lambda>x6.
     bindR (get d ''request_sha256'' as_str) (\<lambda>x7.
     bindR (get d ''client_submit_key'' as_str) (\<lambda>x8.
     bindR (get d ''submission_epoch_unix'' as_int) (\<lambda>x9.
       mk_prepared \<lparr>ps_schema = x1, ps_attempt_identity = x2, ps_fence_identity = x3, ps_source_pdf_sha256 = x4,
         ps_parser_target_identity_sha256 = x5, ps_runtime_bundle_identity_sha256 = x6, ps_request_sha256 = x7,
         ps_client_submit_key = x8, ps_submission_epoch_unix = x9, ps_exact_bytes = exact, ps_sha256 = sha\<rparr>)))))))))"

definition decode_prepared_submission :: "string \<Rightarrow> string \<Rightarrow> prepared_submission res" where
  "decode_prepared_submission payload sha =
     bindR (spec_loads ''V4 prepared submission is not strict UTF-8 JSON'' payload) (\<lambda>v.
     bindR (closed_object PREPARED_FIELDS ''V4 prepared submission fields are not closed'' v) (\<lambda>d.
       prepared_of_obj payload sha d))"

definition parser_identity_of_obj :: "obj \<Rightarrow> parser_identity res" where
  "parser_identity_of_obj d =
     bindR (get d ''name'' as_str) (\<lambda>x1.
     bindR (get d ''version'' as_str) (\<lambda>x2. Inr \<lparr>pn_name = x1, pn_version = x2\<rparr>))"

definition PARSER_OPTIONS_FIELDS :: "string list" where
  "PARSER_OPTIONS_FIELDS =
     [''method'', ''backend'', ''language'', ''formula'', ''table'', ''effort'', ''image_analysis'', ''start_page'',
      ''end_page'', ''timeout_seconds'', ''api_url'', ''api_drain_timeout_seconds'', ''server_url'',
      ''http_request_concurrency'', ''runtime_bundle_identity_sha256'']"

definition parser_options_of_obj :: "obj \<Rightarrow> parser_options res" where
  "parser_options_of_obj d =
     bindR (get d ''method'' as_str) (\<lambda>x1.
     bindR (get d ''backend'' as_str) (\<lambda>x2.
     bindR (get d ''language'' as_str) (\<lambda>x3.
     bindR (get d ''formula'' as_bool) (\<lambda>x4.
     bindR (get d ''table'' as_bool) (\<lambda>x5.
     bindR (get d ''effort'' as_str) (\<lambda>x6.
     bindR (get d ''image_analysis'' as_bool) (\<lambda>x7.
     bindR (get d ''start_page'' (as_opt as_int)) (\<lambda>x8.
     bindR (get d ''end_page'' (as_opt as_int)) (\<lambda>x9.
     bindR (get d ''timeout_seconds'' (as_opt as_int)) (\<lambda>x10.
     bindR (get d ''api_url'' (as_opt as_str)) (\<lambda>x11.
     bindR (get d ''api_drain_timeout_seconds'' as_int) (\<lambda>x12.
     bindR (get d ''server_url'' (as_opt as_str)) (\<lambda>x13.
     bindR (get d ''http_request_concurrency'' (as_opt as_int)) (\<lambda>x14.
     bindR (get d ''runtime_bundle_identity_sha256'' (as_opt as_str)) (\<lambda>x15.
       Inr \<lparr>po_method = x1, po_backend = x2, po_language = x3, po_formula = x4, po_table = x5, po_effort = x6,
         po_image_analysis = x7, po_start_page = x8, po_end_page = x9, po_timeout_seconds = x10, po_api_url = x11,
         po_api_drain_timeout_seconds = x12, po_server_url = x13, po_http_request_concurrency = x14,
         po_runtime_bundle_identity_sha256 = x15\<rparr>)))))))))))))))"

definition SPEC_FIELDS :: "string list" where
  "SPEC_FIELDS =
     [''contract_version'', ''prepared_submission_exact_b64'', ''prepared_submission_sha256'', ''parser_identity'',
      ''parser_options'', ''api_origin'', ''server_url'', ''request_exact_b64'', ''request_sha256'',
      ''process_profile_exact_b64'', ''process_profile_sha256'', ''worker_profile_exact_b64'',
      ''worker_profile_sha256'', ''result_lease_seconds'', ''remote_runaway_seconds'',
      ''archive_member_count_limit'', ''archive_uncompressed_byte_limit'']"

definition read_spec_object :: "string \<Rightarrow> obj res" where
  "read_spec_object payload =
     bindR (require_exact_bytes payload ''V4 prepared execution spec'' MAX_V4_PREPARED_EXECUTION_SPEC_BYTES) (\<lambda>_.
     bindR (spec_loads ''V4 prepared execution spec is not strict UTF-8 JSON'' payload) (\<lambda>v.
       closed_object SPEC_FIELDS ''V4 prepared execution spec fields are not closed'' v))"

text \<open>The parts that the decoder makes before the constructor: the two objects, then the four byte strings.\<close>

definition read_worker_profile :: "obj \<Rightarrow> worker_profile res" where
  "read_worker_profile d =
     bindR (get d ''worker_profile_exact_b64'' (spec_decode_bytes ''V4 worker profile'' 4096)) (\<lambda>exact.
     bindR (decode_staged_worker_profile_v4 exact) (\<lambda>w.
     bindR (worker_sha256 w) (\<lambda>sha.
     bindR (require (\<not> attr d ''worker_profile_sha256'' \<noteq> Some (pyval_of (JStr sha)))
       ''V4 worker profile exact bytes drifted from its digest'') (\<lambda>_. Inr w))))"

definition read_prepared_submission :: "obj \<Rightarrow> prepared_submission res" where
  "read_prepared_submission d =
     bindR (get d ''prepared_submission_exact_b64'' (spec_decode_bytes ''V4 prepared submission'' 65536)) (\<lambda>exact.
     bindR (get d ''prepared_submission_sha256'' (spec_read_sha ''V4 prepared submission'')) (\<lambda>sha.
       decode_prepared_submission exact sha))"

definition spec_of_obj :: "obj \<Rightarrow> execution_spec res" where
  "spec_of_obj d =
     bindR (get d ''parser_identity'' (closed_object [''name'', ''version''] ''V4 parser identity fields are not closed''))
       (\<lambda>who.
     bindR (get d ''parser_options'' (closed_object PARSER_OPTIONS_FIELDS ''V4 parser option fields are not closed''))
       (\<lambda>options.
     bindR (read_prepared_submission d) (\<lambda>x1.
     bindR (get d ''request_exact_b64'' (spec_decode_bytes ''V4 request'' SPEC_MAX_REQUEST_BYTES)) (\<lambda>x2.
     bindR (get d ''process_profile_exact_b64'' (spec_decode_bytes ''V4 process profile'' (64 * 1024))) (\<lambda>x3.
     bindR (read_worker_profile d) (\<lambda>x4.
     bindR (parser_identity_of_obj who) (\<lambda>x5.
     bindR (parser_options_of_obj options) (\<lambda>x6.
     bindR (get d ''contract_version'' as_str) (\<lambda>x7.
     bindR (get d ''api_origin'' as_str) (\<lambda>x8.
     bindR (get d ''server_url'' as_str) (\<lambda>x9.
     bindR (get d ''request_sha256'' as_str) (\<lambda>x10.
     bindR (get d ''process_profile_sha256'' as_str) (\<lambda>x11.
     bindR (get d ''result_lease_seconds'' as_int) (\<lambda>x12.
     bindR (get d ''remote_runaway_seconds'' as_int) (\<lambda>x13.
     bindR (get d ''archive_member_count_limit'' as_int) (\<lambda>x14.
     bindR (get d ''archive_uncompressed_byte_limit'' as_int) (\<lambda>x15.
       mk_spec \<lparr>xs_contract_version = x7, xs_prepared_submission = x1, xs_parser_identity = x5,
         xs_parser_options = x6, xs_api_origin = x8, xs_server_url = x9, xs_request_exact_bytes = x2,
         xs_request_sha256 = x10, xs_process_profile_exact_bytes = x3, xs_process_profile_sha256 = x11,
         xs_worker_profile = x4, xs_result_lease_seconds = x12, xs_remote_runaway_seconds = x13,
         xs_archive_member_count_limit = x14, xs_archive_uncompressed_byte_limit = x15\<rparr>)))))))))))))))))"

definition decode_v4_prepared_execution_spec :: "string \<Rightarrow> execution_spec res" where
  "decode_v4_prepared_execution_spec payload =
     bindR (read_spec_object payload) (\<lambda>d.
     bindR (spec_of_obj d) (\<lambda>x.
     bindR (encode_v4_prepared_execution_spec x) (\<lambda>exact.
     bindR (require (\<not> exact \<noteq> payload) ''V4 prepared execution spec bytes are not canonical'') (\<lambda>_. Inr x))))"

subsection \<open>The parts are read back\<close>

lemma spec_decode_bytes_of:
  assumes "bs \<noteq> []" "length bs \<le> maximum"
  shows "spec_decode_bytes label maximum (PStr (cps (b64encode bs))) = Inr bs"
proof -
  have "list_all (\<lambda>c. c < 256) (cps (b64encode bs))" by (simp add: cps_def list_all_iff)
  moreover have "cps (b64encode bs) \<noteq> []" using assms(1) by (cases bs rule: b64encode.cases) simp_all
  ultimately show ?thesis
    using assms by (simp add: spec_decode_bytes_def map_char_of_cps b64decode_encode require_exact_bytes_def)
qed

lemma spec_read_sha_of: "is_sha s \<Longrightarrow> spec_read_sha label (PStr (cps s)) = Inr s"
  by (simp add: spec_read_sha_def map_char_of_cps Let_def) (simp add: cps_def list_all_iff)

lemma closed_object_of:
  "set (map fst kvs) = set names \<Longrightarrow> closed_object names msg (PDict (obj_of kvs)) = Inr (obj_of kvs)"
  using closed_obj_of [of kvs names msg] by (simp add: closed_object_def closed_def require_def split: if_splits)

lemma spec_opt_int_of [simp]: "as_opt as_int (pyval_of (JOptInt v)) = Inr v"
  by (cases v) (simp_all add: as_opt_def JOptInt_def)

text \<open>The worker profile.\<close>

lemma worker_of_obj_members:
  assumes "worker_post_init w = Inr ()"
  shows "worker_of_obj (obj_of (members_of (worker_payload w))) = Inr w"
    and "set (map fst (obj_of (members_of (worker_payload w))))
      = set (map cps (worker_fields_of (obj_of (members_of (worker_payload w)))))"
proof -
  define kvs where "kvs = members_of (worker_payload w)"
  have attrs: "list_all (\<lambda>kv. attr (obj_of kvs) (fst kv) = Some (pyval_of (snd kv))) (members_of (worker_payload w))"
    by (rule attrs_obj_of [OF kvs_def]) (simp add: worker_payload_def)
  then have version: "attr (obj_of kvs) ''contract_version'' = Some (PStr (cps (wp_contract_version w)))"
    by (simp add: worker_payload_def)
  have budget: "wp_contract_version w = STAGED_WORKER_PROFILE_V4_CONTRACT \<Longrightarrow> wp_commit_stage_seconds w = None"
    using assms by (simp add: worker_post_init_def worker_commit_budget_def)
  have first: "worker_fields_of (obj_of kvs) = WORKER_FIELDS \<longleftrightarrow> wp_contract_version w = STAGED_WORKER_PROFILE_V4_CONTRACT"
    using version by (simp add: worker_fields_of_def)
  have "worker_of_obj (obj_of kvs) = mk_worker w"
    using attrs first budget
    by (cases w) (simp add: worker_payload_def worker_of_obj_def get_attr split: if_splits)
  then show "worker_of_obj (obj_of (members_of (worker_payload w))) = Inr w"
    using assms by (simp add: kvs_def mk_worker_def)
  have "set (map fst (obj_of kvs)) = cps ` set (map fst kvs)" by (simp add: obj_of_def image_image)
  also have "set (map fst kvs) = set (worker_fields_of (obj_of kvs))"
    using version by (simp add: kvs_def worker_payload_def worker_fields_of_def WORKER_FIELDS_def)
  finally show "set (map fst (obj_of (members_of (worker_payload w))))
      = set (map cps (worker_fields_of (obj_of (members_of (worker_payload w)))))"
    by (simp add: kvs_def)
qed

lemma ascii_bytes_nonempty: "ascii_json_bytes j \<noteq> []"
proof -
  obtain c r where "cps (ascii_dumps j) = c # r" using ascii.write_head [of j] by blast
  then have "ascii_dumps j \<noteq> []" by (cases "ascii_dumps j") simp_all
  then show ?thesis using utf8_ge_length [of "ascii_dumps j"] by (auto simp: ascii_json_bytes_def)
qed

lemma worker_decode_exact:
  "decode_staged_worker_profile_v4 bs = Inr w \<longleftrightarrow>
     worker_post_init w = Inr () \<and> worker_exact_bytes w = Inr bs \<and> length bs \<le> 4096"
proof
  assume "decode_staged_worker_profile_v4 bs = Inr w"
  then show "worker_post_init w = Inr () \<and> worker_exact_bytes w = Inr bs \<and> length bs \<le> 4096"
    by (auto simp: decode_staged_worker_profile_v4_def read_worker_object_def worker_of_obj_def mk_worker_def
        split: pyval.splits)
next
  assume ok: "worker_post_init w = Inr () \<and> worker_exact_bytes w = Inr bs \<and> length bs \<le> 4096"
  let ?j = "worker_payload w"
  have ints: "ints_ok ?j" and bs: "bs = ascii_json_bytes ?j" using ok by (simp_all add: worker_exact_bytes_def)
  have "json_ok ?j" using ints by (simp add: worker_payload_def JOptInt_def split: option.splits if_splits)
  then have "strict_json_loads bs = Inr (PDict (obj_of (members_of ?j)))"
    unfolding bs using loads_ascii [of ?j] pyval_of_object [of "members_of ?j"] by (simp add: worker_payload_def)
  moreover have "0 < length bs" unfolding bs using ascii_bytes_nonempty by blast
  ultimately have "read_worker_object bs = Inr (obj_of (members_of ?j))"
    using ok worker_of_obj_members(2) by (simp add: read_worker_object_def)
  then show "decode_staged_worker_profile_v4 bs = Inr w"
    using ok worker_of_obj_members(1) by (simp add: decode_staged_worker_profile_v4_def)
qed

text \<open>The prepared submission: its exact bytes are the text of its own projection.\<close>

lemma prepared_decode_exact:
  "decode_prepared_submission exact sha = Inr p \<longleftrightarrow>
     prepared_post_init p = Inr () \<and> ps_exact_bytes p = exact \<and> ps_sha256 p = sha"
proof
  assume "decode_prepared_submission exact sha = Inr p"
  then show "prepared_post_init p = Inr () \<and> ps_exact_bytes p = exact \<and> ps_sha256 p = sha"
    by (auto simp: decode_prepared_submission_def prepared_of_obj_def)
next
  assume p: "prepared_post_init p = Inr () \<and> ps_exact_bytes p = exact \<and> ps_sha256 p = sha"
  define kvs where "kvs = members_of (prepared_projection p)"
  have "check_prepared_bytes p = Inr ()" using p by (simp add: prepared_post_init_def)
  then have ints: "ints_ok (prepared_projection p)" and exact: "exact = ascii_json_bytes (prepared_projection p)"
    using p by (auto simp: check_prepared_bytes_def)
  have "json_ok (prepared_projection p)" using ints by (simp add: prepared_projection_def)
  then have "strict_json_loads exact = Inr (PDict (obj_of kvs))"
    unfolding exact using loads_ascii [of "prepared_projection p"] pyval_of_object [of kvs]
    by (simp add: kvs_def prepared_projection_def)
  moreover have "closed_object PREPARED_FIELDS msg (PDict (obj_of kvs)) = Inr (obj_of kvs)" for msg
    by (rule closed_object_of) (simp add: kvs_def prepared_projection_def PREPARED_FIELDS_def)
  moreover have "prepared_of_obj exact sha (obj_of kvs) = Inr p"
  proof -
    have "list_all (\<lambda>kv. attr (obj_of kvs) (fst kv) = Some (pyval_of (snd kv))) (members_of (prepared_projection p))"
      by (rule attrs_obj_of [OF kvs_def]) (simp add: prepared_projection_def)
    then have "prepared_of_obj exact sha (obj_of kvs) = mk_prepared p"
      using p by (cases p) (simp add: prepared_projection_def prepared_of_obj_def get_attr)
    with p show ?thesis by simp
  qed
  ultimately show "decode_prepared_submission exact sha = Inr p"
    by (simp add: decode_prepared_submission_def spec_loads_def)
qed

text \<open>The parser's identity and options.\<close>

definition identity_payload :: "parser_identity \<Rightarrow> json" where
  "identity_payload who = JObj [(''name'', JStr (pn_name who)), (''version'', JStr (pn_version who))]"

lemma identity_read_back:
  "closed_object [''name'', ''version''] msg (pyval_of (identity_payload who)) = Inr (obj_of (members_of (identity_payload who)))"
  "parser_identity_of_obj (obj_of (members_of (identity_payload who))) = Inr who"
proof -
  define kvs where "kvs = members_of (identity_payload who)"
  have "pyval_of (identity_payload who) = PDict (obj_of kvs)"
    using pyval_of_object [of kvs] by (simp add: kvs_def identity_payload_def)
  moreover have "closed_object [''name'', ''version''] msg (PDict (obj_of kvs)) = Inr (obj_of kvs)"
    by (rule closed_object_of) (simp add: kvs_def identity_payload_def)
  ultimately show "closed_object [''name'', ''version''] msg (pyval_of (identity_payload who))
      = Inr (obj_of (members_of (identity_payload who)))" by (simp only: kvs_def)
  have "list_all (\<lambda>kv. attr (obj_of kvs) (fst kv) = Some (pyval_of (snd kv))) (members_of (identity_payload who))"
    by (rule attrs_obj_of [OF kvs_def]) (simp add: identity_payload_def)
  then have "parser_identity_of_obj (obj_of kvs) = Inr who"
    by (cases who) (simp add: identity_payload_def parser_identity_of_obj_def get_attr)
  then show "parser_identity_of_obj (obj_of (members_of (identity_payload who))) = Inr who" by (simp only: kvs_def)
qed

lemma options_read_back:
  "closed_object PARSER_OPTIONS_FIELDS msg (pyval_of (options_payload o')) = Inr (obj_of (members_of (options_payload o')))"
  "parser_options_of_obj (obj_of (members_of (options_payload o'))) = Inr o'"
proof -
  define kvs where "kvs = members_of (options_payload o')"
  have "pyval_of (options_payload o') = PDict (obj_of kvs)"
    using pyval_of_object [of kvs] by (simp add: kvs_def options_payload_def)
  moreover have "closed_object PARSER_OPTIONS_FIELDS msg (PDict (obj_of kvs)) = Inr (obj_of kvs)"
    by (rule closed_object_of) (simp add: kvs_def options_payload_def PARSER_OPTIONS_FIELDS_def)
  ultimately show "closed_object PARSER_OPTIONS_FIELDS msg (pyval_of (options_payload o'))
      = Inr (obj_of (members_of (options_payload o')))" by (simp only: kvs_def)
  have "list_all (\<lambda>kv. attr (obj_of kvs) (fst kv) = Some (pyval_of (snd kv))) (members_of (options_payload o'))"
    by (rule attrs_obj_of [OF kvs_def]) (simp add: options_payload_def)
  then have "parser_options_of_obj (obj_of kvs) = Inr o'"
    by (cases o') (simp add: options_payload_def parser_options_of_obj_def get_attr)
  then show "parser_options_of_obj (obj_of (members_of (options_payload o'))) = Inr o'" by (simp only: kvs_def)
qed

subsection \<open>The round trip\<close>

text \<open>What the constructors of a specification and of its two nested records have checked.\<close>

definition valid_spec :: "execution_spec \<Rightarrow> bool" where
  "valid_spec x \<longleftrightarrow> spec_post_init x = Inr () \<and> prepared_post_init (xs_prepared_submission x) = Inr ()
     \<and> worker_post_init (xs_worker_profile x) = Inr ()"

lemma valid_spec_bytes:
  assumes "valid_spec x"
  shows "ps_exact_bytes (xs_prepared_submission x) \<noteq> []" "length (ps_exact_bytes (xs_prepared_submission x)) \<le> 65536"
    and "xs_request_exact_bytes x \<noteq> []" "length (xs_request_exact_bytes x) \<le> SPEC_MAX_REQUEST_BYTES"
    and "xs_process_profile_exact_bytes x \<noteq> []" "length (xs_process_profile_exact_bytes x) \<le> 65536"
    and "is_sha (ps_sha256 (xs_prepared_submission x))"
proof -
  have "check_prepared_bytes (xs_prepared_submission x) = Inr ()" "is_sha (ps_sha256 (xs_prepared_submission x))"
    using assms by (simp_all add: valid_spec_def prepared_post_init_def)
  then show "ps_exact_bytes (xs_prepared_submission x) \<noteq> []" "length (ps_exact_bytes (xs_prepared_submission x)) \<le> 65536"
    "is_sha (ps_sha256 (xs_prepared_submission x))"
    by (auto simp: check_prepared_bytes_def)
  have "check_spec_request x = Inr ()" using assms by (auto simp: valid_spec_def spec_post_init_def)
  then show "xs_request_exact_bytes x \<noteq> []" "length (xs_request_exact_bytes x) \<le> SPEC_MAX_REQUEST_BYTES"
    by (auto simp: check_spec_request_def require_exact_bytes_def)
  obtain p where "check_spec_profile x = Inr p" using assms by (auto simp: valid_spec_def spec_post_init_def)
  then show "xs_process_profile_exact_bytes x \<noteq> []" "length (xs_process_profile_exact_bytes x) \<le> 65536"
    by (auto simp: check_spec_profile_def require_exact_bytes_def)
qed

lemma spec_encode_Inr:
  "encode_v4_prepared_execution_spec x = Inr bs \<longleftrightarrow>
     (\<exists>worker. worker_exact_bytes (xs_worker_profile x) = Inr worker
       \<and> ints_ok (spec_payload x worker (digest worker))
       \<and> bs = json_bytes (spec_payload x worker (digest worker))
       \<and> length bs \<le> MAX_V4_PREPARED_EXECUTION_SPEC_BYTES)"
  by (auto simp: encode_v4_prepared_execution_spec_def worker_sha256_def digest_of_def dumpable_def Let_def)

lemma spec_parts_read_back:
  assumes "valid_spec x" and worker: "worker_exact_bytes (xs_worker_profile x) = Inr worker" "length worker \<le> 4096"
  shows "spec_of_obj (obj_of (members_of (spec_payload x worker (digest worker)))) = Inr x"
proof -
  define kvs where "kvs = members_of (spec_payload x worker (digest worker))"
  note bytes = valid_spec_bytes [OF assms(1)]
  have attrs: "list_all (\<lambda>kv. attr (obj_of kvs) (fst kv) = Some (pyval_of (snd kv)))
      (members_of (spec_payload x worker (digest worker)))"
    by (rule attrs_obj_of [OF kvs_def]) (simp add: spec_payload_def)
  have at: "attr (obj_of kvs) k = Some (pyval_of j)" if "(k, j) \<in> set (members_of (spec_payload x worker (digest worker)))"
    for k j using attrs that by (auto simp: list_all_iff)
  have worker_ok: "decode_staged_worker_profile_v4 worker = Inr (xs_worker_profile x)"
    using assms by (simp add: worker_decode_exact valid_spec_def)
  have "worker \<noteq> []" using worker(1) ascii_bytes_nonempty by (auto simp: worker_exact_bytes_def)
  then have w: "read_worker_profile (obj_of kvs) = Inr (xs_worker_profile x)"
    using worker worker_ok at [of "''worker_profile_exact_b64''" "JStr (b64encode worker)"]
      at [of "''worker_profile_sha256''" "JStr (digest worker)"]
    by (simp add: read_worker_profile_def get_attr spec_decode_bytes_of worker_sha256_def digest_of_def spec_payload_def)
  have p: "read_prepared_submission (obj_of kvs) = Inr (xs_prepared_submission x)"
    using bytes assms(1)
      at [of "''prepared_submission_exact_b64''" "JStr (b64encode (ps_exact_bytes (xs_prepared_submission x)))"]
      at [of "''prepared_submission_sha256''" "JStr (ps_sha256 (xs_prepared_submission x))"]
    by (simp add: read_prepared_submission_def get_attr spec_decode_bytes_of spec_read_sha_of spec_payload_def
        prepared_decode_exact valid_spec_def)
  have objects: "attr (obj_of kvs) ''parser_identity'' = Some (pyval_of (identity_payload (xs_parser_identity x)))"
    "attr (obj_of kvs) ''parser_options'' = Some (pyval_of (options_payload (xs_parser_options x)))"
    by (rule at; simp add: spec_payload_def identity_payload_def)+
  have texts: "attr (obj_of kvs) ''request_exact_b64'' = Some (PStr (cps (b64encode (xs_request_exact_bytes x))))"
    "attr (obj_of kvs) ''process_profile_exact_b64'' = Some (PStr (cps (b64encode (xs_process_profile_exact_bytes x))))"
    "attr (obj_of kvs) ''contract_version'' = Some (PStr (cps (xs_contract_version x)))"
    "attr (obj_of kvs) ''api_origin'' = Some (PStr (cps (xs_api_origin x)))"
    "attr (obj_of kvs) ''server_url'' = Some (PStr (cps (xs_server_url x)))"
    "attr (obj_of kvs) ''request_sha256'' = Some (PStr (cps (xs_request_sha256 x)))"
    "attr (obj_of kvs) ''process_profile_sha256'' = Some (PStr (cps (xs_process_profile_sha256 x)))"
    "attr (obj_of kvs) ''result_lease_seconds'' = Some (PInt (xs_result_lease_seconds x))"
    "attr (obj_of kvs) ''remote_runaway_seconds'' = Some (PInt (xs_remote_runaway_seconds x))"
    "attr (obj_of kvs) ''archive_member_count_limit'' = Some (PInt (xs_archive_member_count_limit x))"
    "attr (obj_of kvs) ''archive_uncompressed_byte_limit'' = Some (PInt (xs_archive_uncompressed_byte_limit x))"
    using attrs by (simp_all add: spec_payload_def)
  have "mk_spec x = Inr x" using assms(1) by (simp add: mk_spec_def valid_spec_def)
  then have "spec_of_obj (obj_of kvs) = Inr x"
    using objects texts w p bytes
    by (cases x) (simp add: spec_of_obj_def get_attr identity_read_back options_read_back spec_decode_bytes_of)
  then show ?thesis by (simp only: kvs_def)
qed

lemma decode_spec_iff:
  "decode_v4_prepared_execution_spec bs = Inr x \<longleftrightarrow>
     valid_spec x \<and> encode_v4_prepared_execution_spec x = Inr bs
     \<and> (\<exists>worker. worker_exact_bytes (xs_worker_profile x) = Inr worker \<and> length worker \<le> 4096)"
proof
  assume l: "decode_v4_prepared_execution_spec bs = Inr x"
  then obtain d where d: "spec_of_obj d = Inr x" and enc: "encode_v4_prepared_execution_spec x = Inr bs"
    by (auto simp: decode_v4_prepared_execution_spec_def)
  from d have parts: "read_prepared_submission d = Inr (xs_prepared_submission x)"
      "read_worker_profile d = Inr (xs_worker_profile x)" and ok: "spec_post_init x = Inr ()"
    by (auto simp: spec_of_obj_def mk_spec_def)
  from parts(1) have "prepared_post_init (xs_prepared_submission x) = Inr ()"
    by (auto simp: read_prepared_submission_def prepared_decode_exact)
  moreover from parts(2) have "worker_post_init (xs_worker_profile x) = Inr ()
      \<and> (\<exists>worker. worker_exact_bytes (xs_worker_profile x) = Inr worker \<and> length worker \<le> 4096)"
    by (auto simp: read_worker_profile_def worker_decode_exact)
  ultimately show "valid_spec x \<and> encode_v4_prepared_execution_spec x = Inr bs
     \<and> (\<exists>worker. worker_exact_bytes (xs_worker_profile x) = Inr worker \<and> length worker \<le> 4096)"
    using ok enc by (simp add: valid_spec_def)
next
  assume r: "valid_spec x \<and> encode_v4_prepared_execution_spec x = Inr bs
     \<and> (\<exists>worker. worker_exact_bytes (xs_worker_profile x) = Inr worker \<and> length worker \<le> 4096)"
  then obtain worker where worker: "worker_exact_bytes (xs_worker_profile x) = Inr worker" "length worker \<le> 4096" by blast
  let ?j = "spec_payload x worker (digest worker)"
  have ints: "ints_ok ?j" and bs: "bs = json_bytes ?j" "length bs \<le> MAX_V4_PREPARED_EXECUTION_SPEC_BYTES"
    using r worker(1) by (auto simp: spec_encode_Inr)
  have "json_ok (options_payload (xs_parser_options x))"
    using ints by (simp add: spec_payload_def options_payload_def JOpt_def JOptInt_def split: option.splits)
  then have "json_ok ?j" using ints by (simp add: spec_payload_def)
  then have "strict_json_loads bs = Inr (PDict (obj_of (members_of ?j)))"
    unfolding bs using loads_dumps [of ?j] pyval_of_object [of "members_of ?j"] by (simp add: spec_payload_def)
  moreover have "bs \<noteq> []" using json_bytes_nonempty [of ?j] by (auto simp: bs)
  moreover have "closed_object SPEC_FIELDS msg (PDict (obj_of (members_of ?j))) = Inr (obj_of (members_of ?j))" for msg
    by (rule closed_object_of) (simp add: spec_payload_def SPEC_FIELDS_def)
  ultimately have "read_spec_object bs = Inr (obj_of (members_of ?j))"
    using bs(2) by (simp add: read_spec_object_def require_exact_bytes_def spec_loads_def)
  then show "decode_v4_prepared_execution_spec bs = Inr x"
    using r worker spec_parts_read_back [of x worker] by (simp add: decode_v4_prepared_execution_spec_def)
qed

definition readable_spec :: "execution_spec \<Rightarrow> bool" where
  "readable_spec x \<longleftrightarrow> valid_spec x
     \<and> (\<exists>worker. worker_exact_bytes (xs_worker_profile x) = Inr worker \<and> length worker \<le> 4096)"

interpretation execution_spec: codec encode_v4_prepared_execution_spec decode_v4_prepared_execution_spec readable_spec
  by unfold_locales (auto simp: decode_spec_iff readable_spec_def)


end
