(* ===== verification/Reservation.thy ===== *)
theory Reservation
  imports Checkpoint ParserTarget
begin

text \<open>
  The records of \<open>application/contracts/remote_parse_lifecycle_v4.py\<close> that an attempt is prepared
  with: \<open>ResourceReservationV4\<close>, its builder and its binding to a checkpoint, the first checkpoint,
  and \<open>ProviderEnvelopeContextV4\<close>.
\<close>

definition RESOURCE_RESERVATION_V4_CONTRACT :: string where
  "RESOURCE_RESERVATION_V4_CONTRACT = ''remote-parse-resource-reservation.v4''"

definition PROVIDER_ENVELOPE_CONTEXT_V4_CONTRACT :: string where
  "PROVIDER_ENVELOPE_CONTEXT_V4_CONTRACT = ''provider-envelope-context.v4''"

subsection \<open>The reservation\<close>

record resource_reservation = attempt_identity +
  rv_attempt_generation :: int
  rv_source_pdf_sha256 :: string
  rv_source_byte_count :: int
  rv_source_page_count :: int
  rv_prepared_submission_identity_sha256 :: string
  rv_request_sha256 :: string
  rv_runtime_epoch_sha256 :: string
  rv_process_profile_sha256 :: string
  rv_credit_policy_sha256 :: string
  rv_reservation_bucket :: bucket
  rv_reservation_input_sha256 :: string
  rv_snapshot_relpath :: string
  rv_snapshot_part_relpath :: string
  rv_snapshot_part_owner_relpath :: string
  rv_snapshot_lock_relpath :: string
  rv_reserved_credit :: resource_credit_vector
  rv_contract_version :: string

definition check_reservation_facts :: "resource_reservation \<Rightarrow> unit res" where
  "check_reservation_facts r = checks
     [require (rv_contract_version r = RESOURCE_RESERVATION_V4_CONTRACT)
        ''resource reservation contract is unsupported'',
      identity_tuple (identities r),
      require_sha (rv_source_pdf_sha256 r) ''source PDF'',
      require_sha (rv_prepared_submission_identity_sha256 r) ''prepared submission'',
      require_sha (rv_request_sha256 r) ''request'',
      require_sha (rv_runtime_epoch_sha256 r) ''runtime epoch'',
      require_sha (rv_process_profile_sha256 r) ''process profile'',
      require_sha (rv_credit_policy_sha256 r) ''credit policy'',
      require_sha (rv_reservation_input_sha256 r) ''reservation input'',
      positive (rv_source_byte_count r) ''source byte count'',
      positive (rv_source_page_count r) ''source page count'',
      positive (rv_attempt_generation r) ''attempt generation'',
      relative_path (rv_snapshot_relpath r) ''snapshot'',
      relative_path (rv_snapshot_part_relpath r) ''snapshot part'',
      relative_path (rv_snapshot_part_owner_relpath r) ''snapshot part owner'',
      relative_path (rv_snapshot_lock_relpath r) ''snapshot lock'',
      rcv_post_init (rv_reserved_credit r)]"

definition reservation_input_of :: "resource_reservation \<Rightarrow> encoded_reservation_input res" where
  "reservation_input_of r =
     bindR (mk_reservation_input
       \<lparr>ri_source_pdf_sha256 = rv_source_pdf_sha256 r, ri_source_byte_count = rv_source_byte_count r,
        ri_source_page_count = rv_source_page_count r,
        ri_process_profile_sha256 = rv_process_profile_sha256 r,
        ri_credit_policy_sha256 = rv_credit_policy_sha256 r, ri_bucket = rv_reservation_bucket r,
        ri_reservation = rv_reserved_credit r,
        ri_contract_version = STAGED_RESOURCE_RESERVATION_INPUT_CONTRACT\<rparr>)
       encode_resource_reservation_input"

definition check_reservation_input :: "resource_reservation \<Rightarrow> unit res" where
  "check_reservation_input r =
     bindR (reservation_input_of r) (\<lambda>input.
       require (\<not> rv_reservation_input_sha256 r \<noteq> eri_sha256 input)
         ''resource reservation input hash does not close'')"

definition check_reservation_paths :: "resource_reservation \<Rightarrow> unit res" where
  "check_reservation_paths r =
     bindR (deterministic_local_resource_paths_v4 (attempt_id r) (fence_identity r)
       (rv_source_pdf_sha256 r) None None None) (\<lambda>expected.
     bindR (path_at expected ''snapshot'') (\<lambda>snapshot.
     bindR (path_at expected ''snapshot_part'') (\<lambda>part.
     bindR (path_at expected ''snapshot_part_owner'') (\<lambda>owner.
     bindR (path_at expected ''snapshot_lock'') (\<lambda>lock.
       require (\<not> (rv_snapshot_relpath r \<noteq> snapshot
           \<or> rv_snapshot_part_relpath r \<noteq> part
           \<or> rv_snapshot_part_owner_relpath r \<noteq> owner
           \<or> rv_snapshot_lock_relpath r \<noteq> lock))
         ''snapshot paths are not deterministic'')))))"

definition whole_pdf_credit :: "resource_credit_vector \<Rightarrow> int \<Rightarrow> int \<Rightarrow> bool" where
  "whole_pdf_credit v source_byte_count source_page_count = (\<not>
     (documents v \<noteq> 1
      \<or> snapshot_items v \<noteq> 1
      \<or> snapshot_bytes v \<noteq> source_byte_count
      \<or> remote_waits v \<noteq> 1
      \<or> provider_tasks v \<noteq> 1
      \<or> provider_result_bytes v < 1
      \<or> materialization_items v \<noteq> 1
      \<or> compressed_bytes v \<noteq> provider_result_bytes v
      \<or> decoded_bytes v < 1
      \<or> temp_disk_bytes v < 1
      \<or> output_items v \<noteq> 1
      \<or> output_bytes v < 1
      \<or> output_pages v \<noteq> source_page_count
      \<or> ack_items v \<noteq> 1))"

definition reservation_post_init :: "resource_reservation \<Rightarrow> unit res" where
  "reservation_post_init r = checks
     [check_reservation_facts r, check_reservation_input r, check_reservation_paths r,
      require (whole_pdf_credit (rv_reserved_credit r) (rv_source_byte_count r) (rv_source_page_count r))
        ''resource reservation does not bind whole-PDF facts'']"

definition mk_reservation :: "resource_reservation \<Rightarrow> resource_reservation res" where
  "mk_reservation r = construct (reservation_post_init r) r"

definition reservation_payload :: "resource_reservation \<Rightarrow> json" where
  "reservation_payload r = JObj (identity_members r @
     [(''attempt_generation'', JInt (rv_attempt_generation r)),
      (''source_pdf_sha256'', JStr (rv_source_pdf_sha256 r)),
      (''source_byte_count'', JInt (rv_source_byte_count r)),
      (''source_page_count'', JInt (rv_source_page_count r)),
      (''prepared_submission_identity_sha256'', JStr (rv_prepared_submission_identity_sha256 r)),
      (''request_sha256'', JStr (rv_request_sha256 r)),
      (''runtime_epoch_sha256'', JStr (rv_runtime_epoch_sha256 r)),
      (''process_profile_sha256'', JStr (rv_process_profile_sha256 r)),
      (''credit_policy_sha256'', JStr (rv_credit_policy_sha256 r)),
      (''reservation_bucket'', JStr (bucket_name (rv_reservation_bucket r))),
      (''reservation_input_sha256'', JStr (rv_reservation_input_sha256 r)),
      (''snapshot_relpath'', JStr (rv_snapshot_relpath r)),
      (''snapshot_part_relpath'', JStr (rv_snapshot_part_relpath r)),
      (''snapshot_part_owner_relpath'', JStr (rv_snapshot_part_owner_relpath r)),
      (''snapshot_lock_relpath'', JStr (rv_snapshot_lock_relpath r)),
      (''reserved_credit'', rcv_json (rv_reserved_credit r)),
      (''contract_version'', JStr (rv_contract_version r))])"

definition reservation_sha256 :: "resource_reservation \<Rightarrow> string res" where
  "reservation_sha256 r = digest_of (lifecycle_json (reservation_payload r))"

text \<open>\<open>build_resource_reservation_v4\<close>: its arguments are the reservation without its paths.\<close>

definition build_resource_reservation_v4 ::
  "attempt_identity \<Rightarrow> int \<Rightarrow> string \<Rightarrow> int \<Rightarrow> int \<Rightarrow> string \<Rightarrow> string \<Rightarrow> string \<Rightarrow> string \<Rightarrow> string
     \<Rightarrow> bucket \<Rightarrow> string \<Rightarrow> resource_credit_vector \<Rightarrow> resource_reservation res" where
  "build_resource_reservation_v4 who generation pdf bytes pages prepared request epoch profile policy
       bucket input reserved =
     bindR (deterministic_local_resource_paths_v4 (attempt_id who) (fence_identity who) pdf None None None) (\<lambda>paths.
     bindR (path_at paths ''snapshot'') (\<lambda>snapshot.
     bindR (path_at paths ''snapshot_part'') (\<lambda>part.
     bindR (path_at paths ''snapshot_part_owner'') (\<lambda>owner.
     bindR (path_at paths ''snapshot_lock'') (\<lambda>lock.
       mk_reservation (attempt_identity.extend who
         \<lparr>rv_attempt_generation = generation, rv_source_pdf_sha256 = pdf,
          rv_source_byte_count = bytes, rv_source_page_count = pages,
          rv_prepared_submission_identity_sha256 = prepared, rv_request_sha256 = request,
          rv_runtime_epoch_sha256 = epoch, rv_process_profile_sha256 = profile,
          rv_credit_policy_sha256 = policy, rv_reservation_bucket = bucket,
          rv_reservation_input_sha256 = input, rv_snapshot_relpath = snapshot,
          rv_snapshot_part_relpath = part, rv_snapshot_part_owner_relpath = owner,
          rv_snapshot_lock_relpath = lock, rv_reserved_credit = reserved,
          rv_contract_version = RESOURCE_RESERVATION_V4_CONTRACT\<rparr>))))))"

text \<open>\<open>validate_resource_reservation_checkpoint_binding_v4\<close>\<close>

definition reservation_binds :: "resource_reservation \<Rightarrow> remote_parse_checkpoint \<Rightarrow> bool" where
  "reservation_binds r c \<longleftrightarrow>
     identities r = identities c
     \<and> rv_attempt_generation r = cp_attempt_generation c
     \<and> rv_source_pdf_sha256 r = cp_source_pdf_sha256 c
     \<and> rv_source_byte_count r = cp_source_byte_count c
     \<and> rv_source_page_count r = cp_source_page_count c
     \<and> rv_request_sha256 r = cp_request_sha256 c
     \<and> rv_runtime_epoch_sha256 r = cp_runtime_epoch_sha256 c
     \<and> rv_process_profile_sha256 r = cp_process_profile_sha256 c
     \<and> rv_credit_policy_sha256 r = cp_credit_policy_sha256 c
     \<and> rv_reservation_input_sha256 r = cp_reservation_input_sha256 c"

definition validate_resource_reservation_checkpoint_binding_v4 ::
  "resource_reservation \<Rightarrow> remote_parse_checkpoint \<Rightarrow> unit res" where
  "validate_resource_reservation_checkpoint_binding_v4 r c =
     require (reservation_binds r c) ''resource reservation drifted from checkpoint immutable facts''"

definition build_initial_remote_parse_checkpoint_v4 ::
  "resource_reservation \<Rightarrow> string \<Rightarrow> resource_credit_vector \<Rightarrow> string option \<Rightarrow> remote_parse_checkpoint res" where
  "build_initial_remote_parse_checkpoint_v4 r preparation held snapshot_receipt =
     mk_checkpoint (attempt_identity.extend (attempt_identity.truncate r)
       \<lparr>cp_attempt_generation = rv_attempt_generation r, cp_state = Prepared, cp_lifecycle_version = 0,
        cp_previous_checkpoint_sha256 = None, cp_source_pdf_sha256 = rv_source_pdf_sha256 r,
        cp_source_byte_count = rv_source_byte_count r, cp_source_page_count = rv_source_page_count r,
        cp_request_sha256 = rv_request_sha256 r, cp_runtime_epoch_sha256 = rv_runtime_epoch_sha256 r,
        cp_process_profile_sha256 = rv_process_profile_sha256 r,
        cp_credit_policy_sha256 = rv_credit_policy_sha256 r,
        cp_reservation_input_sha256 = rv_reservation_input_sha256 r,
        cp_held_resource_credit = held,
        cp_evidence = (\<lambda>_. None)(Preparation_intent := Some preparation, Snapshot_receipt := snapshot_receipt),
        cp_contract_version = CHECKPOINT_V4_CONTRACT\<rparr>)"

subsection \<open>The provider-envelope context\<close>

record provider_envelope_context =
  cx_document_id :: string
  cx_processing_run_id :: string
  cx_provider :: string
  cx_provider_document_id :: string
  cx_source_pdf_relpath :: string
  cx_source_pdf_sha256 :: string
  cx_source_page_count :: int
  cx_parser_artifact_root_relpath :: string
  cx_parser_target_identity :: parser_target_identity
  cx_contract_version :: string

definition source_digest_name :: "provider_envelope_context \<Rightarrow> string" where
  "source_digest_name c = ''sha256_'' @ removeprefix ''sha256:'' (cx_source_pdf_sha256 c)"

definition source_path_ok :: "provider_envelope_context \<Rightarrow> bool" where
  "source_path_ok c = (let parts = posix_parts (cx_source_pdf_relpath c) in \<not>
     (length parts \<noteq> 6
      \<or> parts ! 0 \<noteq> ''raw_documents''
      \<or> parts ! 1 \<noteq> cx_provider c
      \<or> parts ! 4 \<noteq> cx_provider_document_id c
      \<or> parts ! 5 \<noteq> source_digest_name c @ ''.pdf''))"

text \<open>\<open>backend.split("-", 1)[0] + "_" + method\<close>\<close>

definition target_profile :: "parser_target_identity \<Rightarrow> string" where
  "target_profile t = hd (split_on (CHR ''-'') (pt_backend t)) @ ''_'' @ pt_method t"

definition artifact_path_ok :: "provider_envelope_context \<Rightarrow> bool" where
  "artifact_path_ok c =
     (let source = posix_parts (cx_source_pdf_relpath c);
          parts = posix_parts (cx_parser_artifact_root_relpath c)
      in \<not> (length parts \<noteq> 7
        \<or> parts ! 0 \<noteq> ''parser_artifacts''
        \<or> parts ! 1 \<noteq> cx_provider c
        \<or> parts ! 2 \<noteq> source ! 2
        \<or> parts ! 3 \<noteq> cx_provider_document_id c
        \<or> parts ! 4 \<noteq> cx_processing_run_id c
        \<or> parts ! 5 \<noteq> source_digest_name c
        \<or> parts ! 6 \<noteq> target_profile (cx_parser_target_identity c)))"

text \<open>The lists are indexed only after the length test, as in the source.\<close>

definition context_post_init :: "provider_envelope_context \<Rightarrow> unit res" where
  "context_post_init c = checks
     [require (cx_contract_version c = PROVIDER_ENVELOPE_CONTEXT_V4_CONTRACT)
        ''provider envelope context contract is unsupported'',
      identity_tuple [cx_document_id c, cx_processing_run_id c, cx_provider c, cx_provider_document_id c],
      require_sha (cx_source_pdf_sha256 c) ''provider envelope source PDF'',
      positive (cx_source_page_count c) ''provider envelope source page count'',
      relative_path (cx_source_pdf_relpath c) ''provider envelope source PDF'',
      relative_path (cx_parser_artifact_root_relpath c) ''provider envelope parser artifact root'',
      validate_target (cx_parser_target_identity c),
      require (source_path_ok c) ''provider envelope source path identity drifted'',
      require (artifact_path_ok c) ''provider envelope parser artifact path identity drifted'']"

definition mk_context :: "provider_envelope_context \<Rightarrow> provider_envelope_context res" where
  "mk_context c = construct (context_post_init c) c"

definition context_parser_target_sha256 :: "provider_envelope_context \<Rightarrow> string res" where
  "context_parser_target_sha256 c = digest_of (lifecycle_json (target_payload (cx_parser_target_identity c)))"

definition context_payload :: "provider_envelope_context \<Rightarrow> json" where
  "context_payload c = JObj
     [(''document_id'', JStr (cx_document_id c)),
      (''processing_run_id'', JStr (cx_processing_run_id c)),
      (''provider'', JStr (cx_provider c)),
      (''provider_document_id'', JStr (cx_provider_document_id c)),
      (''source_pdf_relpath'', JStr (cx_source_pdf_relpath c)),
      (''source_pdf_sha256'', JStr (cx_source_pdf_sha256 c)),
      (''source_page_count'', JInt (cx_source_page_count c)),
      (''parser_artifact_root_relpath'', JStr (cx_parser_artifact_root_relpath c)),
      (''parser_target_identity'', target_payload (cx_parser_target_identity c)),
      (''contract_version'', JStr (cx_contract_version c))]"

end
