(* ===== verification/MaterializationManifest.thy ===== *)
theory MaterializationManifest
  imports LifecycleBase
begin

text \<open>
  \<open>application/contracts/local_materialization_manifest_v4.py\<close>: the canonical manifest of one
  materialised output tree. Its own copies of the small validators differ from those of the
  lifecycle module (identities up to 1024 bytes) and are kept apart. The tests that the parts are
  exact instances of their classes are the tests that they are values their constructors return.
\<close>

definition LOCAL_MATERIALIZATION_MANIFEST_V4_SCHEMA :: string where
  "LOCAL_MATERIALIZATION_MANIFEST_V4_SCHEMA = ''local-materialization-manifest.v4''"

definition LOCAL_MATERIALIZATION_MANIFEST_V4_FILENAME :: string where
  "LOCAL_MATERIALIZATION_MANIFEST_V4_FILENAME = ''.agent-materialization-manifest.v4.json''"

definition PROVIDER_DOCUMENT_FILENAME :: string where
  "PROVIDER_DOCUMENT_FILENAME = ''provider_document.v1.json''"

definition inflight_marker_filenames :: "string list" where
  "inflight_marker_filenames =
     [''.agent-materialization-inflight.v1.json'', ''.agent-materialization-inflight.v4.json'']"

text \<open>
  \<open>str.casefold\<close> on code points below 256: ASCII capitals and the capitals from 192 to 222 (but
  the sign 215) move up by 32, and 223 becomes two letters. The micro sign 181 folds to a code
  point above 255, which no other modelled character folds to, so keeping it changes no comparison.
\<close>

definition casefold_char :: "char \<Rightarrow> string" where
  "casefold_char c = (let n = code c in
     if 65 \<le> n \<and> n \<le> 90 \<or> 192 \<le> n \<and> n \<le> 222 \<and> n \<noteq> 215 then [char_of (n + 32)]
     else if n = 223 then ''ss''
     else [c])"

definition casefold :: "string \<Rightarrow> string" where
  "casefold s = concat (map casefold_char s)"

definition reserved_management_filenames_casefold :: "string list" where
  "reserved_management_filenames_casefold =
     map casefold (LOCAL_MATERIALIZATION_MANIFEST_V4_FILENAME # inflight_marker_filenames)"

definition manifest_identity_ok :: "string \<Rightarrow> bool" where
  "manifest_identity_ok v = (\<not> (v = '''' \<or> v \<noteq> py_strip v \<or> length (utf8 v) > 1024 \<or> list_ex control v))"

definition manifest_identity :: "string \<Rightarrow> string \<Rightarrow> unit res" where
  "manifest_identity v label = require (manifest_identity_ok v) (label @ '' identity is invalid'')"

lemma manifest_identity_Inr [simp]: "manifest_identity v label = Inr u \<longleftrightarrow> manifest_identity_ok v"
  by (simp add: manifest_identity_def)

fun manifest_checked_sum_from :: "int \<Rightarrow> int list \<Rightarrow> int res" where
  "manifest_checked_sum_from acc [] = Inr acc"
| "manifest_checked_sum_from acc (v # vs) =
     bindR (nonnegative v ''materialization payload byte count'') (\<lambda>_.
       if acc > MAX_INT - v then Inl (ValueError ''materialization payload byte count overflowed'')
       else manifest_checked_sum_from (acc + v) vs)"

definition manifest_checked_sum :: "int list \<Rightarrow> int res" where
  "manifest_checked_sum vs = manifest_checked_sum_from 0 vs"

definition manifest_json :: "json \<Rightarrow> string res" where
  "manifest_json = canonical_json MAX_BYTES ''local materialization manifest bytes are outside the envelope''"

definition canonical_path_key :: "string \<Rightarrow> string list" where
  "canonical_path_key v = map casefold (posix_parts v)"

subsection \<open>Payload files and observations\<close>

datatype payload_role =
    Provider_envelope
  | Parser_artifact

fun role_name :: "payload_role \<Rightarrow> string" where
  "role_name Provider_envelope = ''provider_envelope''"
| "role_name Parser_artifact = ''parser_artifact''"

record payload_file =
  pf_role :: payload_role
  pf_relpath :: string
  pf_sha256 :: string
  pf_byte_count :: int

definition payload_file_post_init :: "payload_file \<Rightarrow> unit res" where
  "payload_file_post_init f = checks
     [relative_path (pf_relpath f) ''materialization payload file'',
      require_sha (pf_sha256 f) ''materialization payload file'',
      nonnegative (pf_byte_count f) ''materialization payload file byte count'',
      require (casefold (posix_name (pf_relpath f)) \<notin> set reserved_management_filenames_casefold)
        ''materialization management file cannot be payload'']"

definition payload_file_json :: "payload_file \<Rightarrow> json" where
  "payload_file_json f = JObj
     [(''role'', JStr (role_name (pf_role f))), (''relpath'', JStr (pf_relpath f)),
      (''sha256'', JStr (pf_sha256 f)), (''byte_count'', JInt (pf_byte_count f))]"

record observations =
  ob_member_count :: int
  ob_uncompressed_byte_count :: int
  ob_decoded_byte_count :: int
  ob_temporary_disk_peak_byte_count :: int
  ob_output_file_count :: int
  ob_output_byte_count :: int

definition observations_post_init :: "observations \<Rightarrow> unit res" where
  "observations_post_init o1 = checks
     [positive (ob_member_count o1) ''archive member count'',
      positive (ob_uncompressed_byte_count o1) ''uncompressed byte count'',
      positive (ob_decoded_byte_count o1) ''decoded byte count'',
      positive (ob_temporary_disk_peak_byte_count o1) ''temporary disk peak byte count'',
      positive (ob_output_file_count o1) ''output file count'',
      positive (ob_output_byte_count o1) ''output byte count'']"

definition observations_json :: "observations \<Rightarrow> json" where
  "observations_json o1 = JObj
     [(''member_count'', JInt (ob_member_count o1)),
      (''uncompressed_byte_count'', JInt (ob_uncompressed_byte_count o1)),
      (''decoded_byte_count'', JInt (ob_decoded_byte_count o1)),
      (''temporary_disk_peak_byte_count'', JInt (ob_temporary_disk_peak_byte_count o1)),
      (''output_file_count'', JInt (ob_output_file_count o1)),
      (''output_byte_count'', JInt (ob_output_byte_count o1))]"

subsection \<open>The manifest\<close>

record materialization_manifest = attempt_identity +
  mm_materialization_intent_sha256 :: string
  mm_terminal_receipt_sha256 :: string
  mm_remote_task_identity :: string
  mm_artifact_owner_identity :: string
  mm_artifact_sha256 :: string
  mm_artifact_byte_count :: int
  mm_source_pdf_sha256 :: string
  mm_source_page_count :: int
  mm_parser_target_sha256 :: string
  mm_spool_relpath :: string
  mm_output_relpath :: string
  mm_provider_envelope_relpath :: string
  mm_provider_envelope_sha256 :: string
  mm_provider_envelope_byte_count :: int
  mm_observations :: observations
  mm_payload_files :: "payload_file list"
  mm_schema :: string

definition check_manifest_facts :: "materialization_manifest \<Rightarrow> unit res" where
  "check_manifest_facts m = checks
     [require (mm_schema m = LOCAL_MATERIALIZATION_MANIFEST_V4_SCHEMA)
        ''local materialization manifest schema is unsupported'',
      manifest_identity (attempt_id m) ''attempt'',
      manifest_identity (fence_identity m) ''fence'',
      manifest_identity (document_id m) ''document'',
      manifest_identity (processing_run_id m) ''processing run'',
      manifest_identity (mm_remote_task_identity m) ''remote task'',
      manifest_identity (mm_artifact_owner_identity m) ''artifact owner'',
      require_sha (mm_materialization_intent_sha256 m) ''materialization intent'',
      require_sha (mm_terminal_receipt_sha256 m) ''terminal receipt'',
      require_sha (mm_artifact_sha256 m) ''terminal artifact'',
      require_sha (mm_source_pdf_sha256 m) ''source PDF'',
      require_sha (mm_parser_target_sha256 m) ''parser target'',
      require_sha (mm_provider_envelope_sha256 m) ''provider envelope'',
      positive (mm_artifact_byte_count m) ''terminal artifact byte count'',
      positive (mm_source_page_count m) ''source page count'',
      positive (mm_provider_envelope_byte_count m) ''provider envelope byte count'',
      relative_path (mm_spool_relpath m) ''retained spool'',
      relative_path (mm_output_relpath m) ''materialized output'',
      relative_path (mm_provider_envelope_relpath m) ''provider envelope'',
      require (\<not> mm_spool_relpath m = mm_output_relpath m)
        ''materialization spool and output paths must differ'',
      observations_post_init (mm_observations m)]"

text \<open>Two keys where one is a proper prefix of the other: a file below another file.\<close>

definition ancestor_conflict :: "string list \<Rightarrow> string list \<Rightarrow> bool" where
  "ancestor_conflict left right =
     (left \<noteq> right \<and> (take (length right) left = right \<or> take (length left) right = left))"

definition check_payload_files :: "payload_file list \<Rightarrow> unit res" where
  "check_payload_files files =
     (let paths = map pf_relpath files;
          keys = map canonical_path_key paths
      in checks
       [checks (map payload_file_post_init files),
        require (\<not> files = []) ''materialization payload files are empty'',
        require (\<not> sort_key pf_relpath files \<noteq> files)
          ''materialization payload files are not canonically ordered'',
        require (\<not> (\<not> distinct paths \<or> \<not> distinct keys))
          ''materialization payload files contain duplicate paths'',
        require (\<not> list_ex (\<lambda>left. list_ex (ancestor_conflict left) keys) keys)
          ''materialization payload files contain ancestor path conflicts''])"

definition check_manifest_envelope :: "materialization_manifest \<Rightarrow> unit res" where
  "check_manifest_envelope m =
     (case filter (\<lambda>f. pf_role f = Provider_envelope) (mm_payload_files m) of
        [envelope] \<Rightarrow> checks
          [require (\<not>
             (posix_name (mm_provider_envelope_relpath m) \<noteq> PROVIDER_DOCUMENT_FILENAME
              \<or> pf_relpath envelope \<noteq> mm_provider_envelope_relpath m
              \<or> pf_sha256 envelope \<noteq> mm_provider_envelope_sha256 m
              \<or> pf_byte_count envelope \<noteq> mm_provider_envelope_byte_count m))
             ''provider envelope evidence triple drifted'',
           require (\<not> \<not> list_ex (\<lambda>f. pf_role f = Parser_artifact) (mm_payload_files m))
             ''materialization payload lacks parser artifacts'']
      | _ \<Rightarrow> Inl (ValueError ''materialization payload lacks one provider envelope''))"

text \<open>\<open>or\<close> evaluates the sum only when the counts agree.\<close>

definition check_manifest_observations :: "materialization_manifest \<Rightarrow> unit res" where
  "check_manifest_observations m =
     (if ob_output_file_count (mm_observations m) \<noteq> int (length (mm_payload_files m))
      then Inl (ValueError ''materialization payload observations do not close'')
      else bindR (manifest_checked_sum (map pf_byte_count (mm_payload_files m))) (\<lambda>total_bytes.
        require (\<not> ob_output_byte_count (mm_observations m) \<noteq> total_bytes)
          ''materialization payload observations do not close''))"

definition manifest_post_init :: "materialization_manifest \<Rightarrow> unit res" where
  "manifest_post_init m = checks
     [check_manifest_facts m, check_payload_files (mm_payload_files m),
      check_manifest_envelope m, check_manifest_observations m]"

definition seal_local_materialization_manifest_v4 ::
  "materialization_manifest \<Rightarrow> materialization_manifest res" where
  "seal_local_materialization_manifest_v4 m =
     (let sealed = m\<lparr>mm_schema := LOCAL_MATERIALIZATION_MANIFEST_V4_SCHEMA\<rparr>
      in construct (manifest_post_init sealed) sealed)"

definition manifest_payload :: "materialization_manifest \<Rightarrow> json" where
  "manifest_payload m = JObj (identity_members m @
     [(''materialization_intent_sha256'', JStr (mm_materialization_intent_sha256 m)),
      (''terminal_receipt_sha256'', JStr (mm_terminal_receipt_sha256 m)),
      (''remote_task_identity'', JStr (mm_remote_task_identity m)),
      (''artifact_owner_identity'', JStr (mm_artifact_owner_identity m)),
      (''artifact_sha256'', JStr (mm_artifact_sha256 m)),
      (''artifact_byte_count'', JInt (mm_artifact_byte_count m)),
      (''source_pdf_sha256'', JStr (mm_source_pdf_sha256 m)),
      (''source_page_count'', JInt (mm_source_page_count m)),
      (''parser_target_sha256'', JStr (mm_parser_target_sha256 m)),
      (''spool_relpath'', JStr (mm_spool_relpath m)),
      (''output_relpath'', JStr (mm_output_relpath m)),
      (''provider_envelope_relpath'', JStr (mm_provider_envelope_relpath m)),
      (''provider_envelope_sha256'', JStr (mm_provider_envelope_sha256 m)),
      (''provider_envelope_byte_count'', JInt (mm_provider_envelope_byte_count m)),
      (''observations'', observations_json (mm_observations m)),
      (''payload_files'', JArr (map payload_file_json (mm_payload_files m))),
      (''schema'', JStr (mm_schema m))])"

definition manifest_canonical_bytes :: "materialization_manifest \<Rightarrow> string res" where
  "manifest_canonical_bytes m = manifest_json (manifest_payload m)"

definition manifest_sha256 :: "materialization_manifest \<Rightarrow> string res" where
  "manifest_sha256 m = digest_of (manifest_canonical_bytes m)"

end
