(* ===== verification/Materialization.thy ===== *)
theory Materialization
  imports Reservation MaterializationManifest
begin

text \<open>
  The materialization records of \<open>application/contracts/remote_parse_lifecycle_v4.py\<close>:
  \<open>MaterializationIntentV4\<close>, \<open>LocalOutputFileV4\<close> and \<open>LocalMaterializationReceiptV4\<close> with their
  builders. A credit, a context or an output file occurs in a record only as a value that its
  own constructor returns, so each record's validation includes theirs.
\<close>

definition MATERIALIZATION_INTENT_V4_CONTRACT :: string where
  "MATERIALIZATION_INTENT_V4_CONTRACT = ''remote-parse-materialization-intent.v4''"

definition LOCAL_MATERIALIZATION_V4_CONTRACT :: string where
  "LOCAL_MATERIALIZATION_V4_CONTRACT = ''local-materialization-receipt.v4''"

subsection \<open>The intent\<close>

record materialization_intent = attempt_identity +
  mi_source_checkpoint_sha256 :: string
  mi_source_lifecycle_version :: int
  mi_source_pdf_sha256 :: string
  mi_reservation_sha256 :: string
  mi_terminal_receipt_sha256 :: string
  mi_remote_task_identity :: string
  mi_artifact_owner_identity :: string
  mi_artifact_sha256 :: string
  mi_artifact_byte_count :: int
  mi_source_page_count :: int
  mi_parser_target_sha256 :: string
  mi_provider_envelope_context :: provider_envelope_context
  mi_allowance_sha256 :: string
  mi_provider_capability_kind :: string
  mi_provider_capability_sha256 :: string
  mi_provider_capability_byte_count :: int
  mi_held_resource_credit :: resource_credit_vector
  mi_snapshot_relpath :: string
  mi_spool_relpath :: string
  mi_spool_part_relpath :: string
  mi_spool_part_owner_relpath :: string
  mi_spool_lock_relpath :: string
  mi_staging_relpath :: string
  mi_staging_marker_relpath :: string
  mi_staging_lock_relpath :: string
  mi_output_relpath :: string
  mi_output_dir_name :: string
  mi_provider_envelope_relpath :: string
  mi_output_manifest_relpath :: string
  mi_result_byte_limit :: int
  mi_member_count_limit :: int
  mi_uncompressed_byte_limit :: int
  mi_decoded_byte_limit :: int
  mi_temporary_disk_byte_limit :: int
  mi_output_byte_limit :: int
  mi_output_page_limit :: int
  mi_contract_version :: string

definition check_intent_facts :: "materialization_intent \<Rightarrow> unit res" where
  "check_intent_facts i = checks
     [require (mi_contract_version i = MATERIALIZATION_INTENT_V4_CONTRACT)
        ''materialization intent contract is unsupported'',
      identity_tuple (identities i @ [mi_remote_task_identity i, mi_artifact_owner_identity i,
        mi_output_dir_name i, mi_provider_capability_kind i]),
      require_sha (mi_source_checkpoint_sha256 i) ''source checkpoint'',
      require_sha (mi_source_pdf_sha256 i) ''source PDF'',
      require_sha (mi_reservation_sha256 i) ''resource reservation'',
      require_sha (mi_terminal_receipt_sha256 i) ''terminal receipt'',
      require_sha (mi_artifact_sha256 i) ''retained artifact'',
      require_sha (mi_parser_target_sha256 i) ''parser target'',
      require_sha (mi_allowance_sha256 i) ''attempt allowance'',
      require_sha (mi_provider_capability_sha256 i) ''provider capability'',
      nonnegative (mi_source_lifecycle_version i) ''source lifecycle version'',
      positive (mi_artifact_byte_count i) ''artifact byte count'',
      positive (mi_source_page_count i) ''source page count'',
      positive (mi_provider_capability_byte_count i) ''provider capability byte count'',
      rcv_post_init (mi_held_resource_credit i),
      context_post_init (mi_provider_envelope_context i)]"

definition check_intent_context :: "materialization_intent \<Rightarrow> unit res" where
  "check_intent_context i =
     (let context = mi_provider_envelope_context i;
          drifted = ValueError ''provider envelope context drifted from intent''
      in if cx_document_id context \<noteq> document_id i
          \<or> cx_processing_run_id context \<noteq> processing_run_id i
          \<or> cx_source_pdf_sha256 context \<noteq> mi_source_pdf_sha256 i
          \<or> cx_source_page_count context \<noteq> mi_source_page_count i
         then Inl drifted
         else bindR (context_parser_target_sha256 context) (\<lambda>target.
           if target \<noteq> mi_parser_target_sha256 i then Inl drifted else Inr ()))"

definition check_intent_paths :: "materialization_intent \<Rightarrow> unit res" where
  "check_intent_paths i = checks
     [relative_path (mi_snapshot_relpath i) ''snapshot'',
      relative_path (mi_spool_relpath i) ''spool'',
      relative_path (mi_spool_part_relpath i) ''spool part'',
      relative_path (mi_spool_part_owner_relpath i) ''spool owner'',
      relative_path (mi_spool_lock_relpath i) ''spool lock'',
      relative_path (mi_staging_relpath i) ''staging'',
      relative_path (mi_staging_marker_relpath i) ''staging marker'',
      relative_path (mi_staging_lock_relpath i) ''staging lock'',
      relative_path (mi_output_relpath i) ''output'',
      relative_path (mi_provider_envelope_relpath i) ''provider envelope'',
      relative_path (mi_output_manifest_relpath i) ''output manifest'',
      require (\<not> mi_staging_relpath i = mi_output_relpath i) ''staging and output paths must differ'',
      require (distinct [mi_provider_envelope_relpath i, mi_output_manifest_relpath i, mi_staging_marker_relpath i])
        ''materialization metadata paths collide'',
      require (posix_name (mi_provider_envelope_relpath i) = PROVIDER_DOCUMENT_FILENAME)
        ''provider envelope filename is not fixed'',
      require (posix_name (mi_output_manifest_relpath i) = LOCAL_MATERIALIZATION_MANIFEST_V4_FILENAME)
        ''output manifest filename is not fixed'']"

definition check_intent_limits :: "materialization_intent \<Rightarrow> unit res" where
  "check_intent_limits i = checks
     [positive (mi_result_byte_limit i) ''result byte limit'',
      positive (mi_member_count_limit i) ''member count limit'',
      positive (mi_uncompressed_byte_limit i) ''uncompressed byte limit'',
      positive (mi_decoded_byte_limit i) ''decoded byte limit'',
      positive (mi_temporary_disk_byte_limit i) ''temporary disk byte limit'',
      positive (mi_output_byte_limit i) ''output byte limit'',
      positive (mi_output_page_limit i) ''output page limit'',
      require (\<not> mi_artifact_byte_count i > mi_result_byte_limit i)
        ''retained artifact exceeds materialization byte limit'',
      require (\<not> mi_source_page_count i > mi_output_page_limit i)
        ''source pages exceed materialization page limit'']"

definition intent_paths :: "materialization_intent \<Rightarrow> (string \<times> string) list" where
  "intent_paths i =
     [(''spool'', mi_spool_relpath i), (''spool_part'', mi_spool_part_relpath i),
      (''spool_part_owner'', mi_spool_part_owner_relpath i), (''spool_lock'', mi_spool_lock_relpath i),
      (''staging'', mi_staging_relpath i), (''staging_marker'', mi_staging_marker_relpath i),
      (''staging_lock'', mi_staging_lock_relpath i), (''output'', mi_output_relpath i)]"

definition check_intent_determinism :: "materialization_intent \<Rightarrow> unit res" where
  "check_intent_determinism i =
     bindR (deterministic_local_resource_paths_v4 (attempt_id i) (fence_identity i)
       (mi_source_pdf_sha256 i) (Some (mi_artifact_owner_identity i)) (Some (mi_artifact_sha256 i))
       (Some (mi_output_dir_name i))) (\<lambda>expected.
     bindR (path_at expected ''snapshot'') (\<lambda>snapshot.
     checks (require (\<not> mi_snapshot_relpath i \<noteq> snapshot)
         ''materialization snapshot path is not deterministic''
       # map (\<lambda>(name, path). bindR (path_at expected name) (\<lambda>p.
           require (\<not> path \<noteq> p) ''materialization paths are not deterministic'')) (intent_paths i))))"

definition intent_post_init :: "materialization_intent \<Rightarrow> unit res" where
  "intent_post_init i = checks
     [check_intent_facts i, check_intent_context i, check_intent_paths i, check_intent_limits i,
      check_intent_determinism i]"

definition mk_intent :: "materialization_intent \<Rightarrow> materialization_intent res" where
  "mk_intent i = construct (intent_post_init i) i"

definition intent_payload :: "materialization_intent \<Rightarrow> json" where
  "intent_payload i = JObj (identity_members i @
     [(''source_checkpoint_sha256'', JStr (mi_source_checkpoint_sha256 i)),
      (''source_lifecycle_version'', JInt (mi_source_lifecycle_version i)),
      (''source_pdf_sha256'', JStr (mi_source_pdf_sha256 i)),
      (''reservation_sha256'', JStr (mi_reservation_sha256 i)),
      (''terminal_receipt_sha256'', JStr (mi_terminal_receipt_sha256 i)),
      (''remote_task_identity'', JStr (mi_remote_task_identity i)),
      (''artifact_owner_identity'', JStr (mi_artifact_owner_identity i)),
      (''artifact_sha256'', JStr (mi_artifact_sha256 i)),
      (''artifact_byte_count'', JInt (mi_artifact_byte_count i)),
      (''source_page_count'', JInt (mi_source_page_count i)),
      (''parser_target_sha256'', JStr (mi_parser_target_sha256 i)),
      (''provider_envelope_context'', context_payload (mi_provider_envelope_context i)),
      (''allowance_sha256'', JStr (mi_allowance_sha256 i)),
      (''provider_capability_kind'', JStr (mi_provider_capability_kind i)),
      (''provider_capability_sha256'', JStr (mi_provider_capability_sha256 i)),
      (''provider_capability_byte_count'', JInt (mi_provider_capability_byte_count i)),
      (''held_resource_credit'', rcv_json (mi_held_resource_credit i)),
      (''snapshot_relpath'', JStr (mi_snapshot_relpath i))]
     @ map (\<lambda>(name, path). (name @ ''_relpath'', JStr path)) (intent_paths i)
     @ [(''output_dir_name'', JStr (mi_output_dir_name i)),
      (''provider_envelope_relpath'', JStr (mi_provider_envelope_relpath i)),
      (''output_manifest_relpath'', JStr (mi_output_manifest_relpath i)),
      (''result_byte_limit'', JInt (mi_result_byte_limit i)),
      (''member_count_limit'', JInt (mi_member_count_limit i)),
      (''uncompressed_byte_limit'', JInt (mi_uncompressed_byte_limit i)),
      (''decoded_byte_limit'', JInt (mi_decoded_byte_limit i)),
      (''temporary_disk_byte_limit'', JInt (mi_temporary_disk_byte_limit i)),
      (''output_byte_limit'', JInt (mi_output_byte_limit i)),
      (''output_page_limit'', JInt (mi_output_page_limit i)),
      (''contract_version'', JStr (mi_contract_version i))])"

definition intent_sha256 :: "materialization_intent \<Rightarrow> string res" where
  "intent_sha256 i = digest_of (lifecycle_json (intent_payload i))"

text \<open>The credit that the builder puts into an intent.\<close>

definition intent_credit :: "resource_reservation \<Rightarrow> int \<Rightarrow> resource_credit_vector" where
  "intent_credit r artifact_byte_count = rcv_zero
     \<lparr>documents := 1, snapshot_items := 1, snapshot_bytes := rv_source_byte_count r,
      provider_tasks := 1, provider_result_bytes := artifact_byte_count, materialization_items := 1,
      compressed_bytes := artifact_byte_count, decoded_bytes := decoded_bytes (rv_reserved_credit r),
      temp_disk_bytes := temp_disk_bytes (rv_reserved_credit r), ack_items := 1\<rparr>"

definition build_materialization_intent_v4 ::
  "resource_reservation \<Rightarrow> remote_parse_checkpoint \<Rightarrow> string \<Rightarrow> string \<Rightarrow> string \<Rightarrow> string \<Rightarrow> int
     \<Rightarrow> provider_envelope_context \<Rightarrow> string \<Rightarrow> string \<Rightarrow> string \<Rightarrow> int \<Rightarrow> string \<Rightarrow> string \<Rightarrow> string
     \<Rightarrow> int \<Rightarrow> int \<Rightarrow> materialization_intent res" where
  "build_materialization_intent_v4 r source terminal task owner artifact bytes context allowance
       kind capability capability_bytes dir envelope_path manifest_path members uncompressed =
     bindR (require (\<not> (cp_state source \<noteq> Remote_terminal \<or> cp_evidence source Terminal_receipt \<noteq> Some terminal))
       ''materialization intent lacks remote-terminal authority'') (\<lambda>_.
     bindR (validate_resource_reservation_checkpoint_binding_v4 r source) (\<lambda>_.
     bindR (deterministic_local_resource_paths_v4 (attempt_id r) (fence_identity r)
       (rv_source_pdf_sha256 r) (Some owner) (Some artifact) (Some dir)) (\<lambda>paths.
     bindR (checkpoint_sha256 source) (\<lambda>source_sha.
     bindR (reservation_sha256 r) (\<lambda>reservation_sha.
     bindR (context_parser_target_sha256 context) (\<lambda>target.
     bindR (rcv_post_init (intent_credit r bytes)) (\<lambda>_.
     bindR (path_at paths ''snapshot'') (\<lambda>snapshot.
     bindR (path_at paths ''spool'') (\<lambda>spool.
     bindR (path_at paths ''spool_part'') (\<lambda>spool_part.
     bindR (path_at paths ''spool_part_owner'') (\<lambda>spool_part_owner.
     bindR (path_at paths ''spool_lock'') (\<lambda>spool_lock.
     bindR (path_at paths ''staging'') (\<lambda>staging.
     bindR (path_at paths ''staging_marker'') (\<lambda>staging_marker.
     bindR (path_at paths ''staging_lock'') (\<lambda>staging_lock.
     bindR (path_at paths ''output'') (\<lambda>output_path.
       mk_intent (attempt_identity.extend (attempt_identity.truncate r)
         \<lparr>mi_source_checkpoint_sha256 = source_sha,
          mi_source_lifecycle_version = cp_lifecycle_version source,
          mi_source_pdf_sha256 = rv_source_pdf_sha256 r, mi_reservation_sha256 = reservation_sha,
          mi_terminal_receipt_sha256 = terminal, mi_remote_task_identity = task,
          mi_artifact_owner_identity = owner, mi_artifact_sha256 = artifact,
          mi_artifact_byte_count = bytes, mi_source_page_count = rv_source_page_count r,
          mi_parser_target_sha256 = target, mi_provider_envelope_context = context,
          mi_allowance_sha256 = allowance, mi_provider_capability_kind = kind,
          mi_provider_capability_sha256 = capability,
          mi_provider_capability_byte_count = capability_bytes,
          mi_held_resource_credit = intent_credit r bytes, mi_snapshot_relpath = snapshot,
          mi_spool_relpath = spool, mi_spool_part_relpath = spool_part,
          mi_spool_part_owner_relpath = spool_part_owner, mi_spool_lock_relpath = spool_lock,
          mi_staging_relpath = staging, mi_staging_marker_relpath = staging_marker,
          mi_staging_lock_relpath = staging_lock, mi_output_relpath = output_path,
          mi_output_dir_name = dir, mi_provider_envelope_relpath = envelope_path,
          mi_output_manifest_relpath = manifest_path,
          mi_result_byte_limit = provider_result_bytes (rv_reserved_credit r),
          mi_member_count_limit = members, mi_uncompressed_byte_limit = uncompressed,
          mi_decoded_byte_limit = decoded_bytes (rv_reserved_credit r),
          mi_temporary_disk_byte_limit = temp_disk_bytes (rv_reserved_credit r),
          mi_output_byte_limit = output_bytes (rv_reserved_credit r),
          mi_output_page_limit = rv_source_page_count r,
          mi_contract_version = MATERIALIZATION_INTENT_V4_CONTRACT\<rparr>)))))))))))))))))"

subsection \<open>The output files and the receipt\<close>

record local_output_file =
  lf_relpath :: string
  lf_sha256 :: string
  lf_byte_count :: int

definition output_file_post_init :: "local_output_file \<Rightarrow> unit res" where
  "output_file_post_init f = checks
     [relative_path (lf_relpath f) ''local output file'', require_sha (lf_sha256 f) ''local output file'',
      nonnegative (lf_byte_count f) ''local output file byte count'']"

definition output_file_json :: "local_output_file \<Rightarrow> json" where
  "output_file_json f = JObj
     [(''relpath'', JStr (lf_relpath f)), (''sha256'', JStr (lf_sha256 f)),
      (''byte_count'', JInt (lf_byte_count f))]"

definition local_output_files_sha256_v4 :: "local_output_file list \<Rightarrow> string res" where
  "local_output_files_sha256_v4 files = digest_of (lifecycle_json (JArr (map output_file_json files)))"

text \<open>\<open>{item.relpath: item for item in files}.get(path)\<close>: the last file with the path.\<close>

definition file_at :: "local_output_file list \<Rightarrow> string \<Rightarrow> local_output_file option" where
  "file_at files = map_of (rev (map (\<lambda>f. (lf_relpath f, f)) files))"

record local_materialization_receipt = attempt_identity +
  lr_materialization_intent_sha256 :: string
  lr_terminal_receipt_sha256 :: string
  lr_source_pdf_sha256 :: string
  lr_source_page_count :: int
  lr_parser_target_sha256 :: string
  lr_spool_relpath :: string
  lr_spool_sha256 :: string
  lr_spool_byte_count :: int
  lr_member_count :: int
  lr_uncompressed_byte_count :: int
  lr_decoded_byte_count :: int
  lr_temporary_disk_peak_byte_count :: int
  lr_output_relpath :: string
  lr_output_files :: "local_output_file list"
  lr_output_file_count :: int
  lr_output_byte_count :: int
  lr_output_files_sha256 :: string
  lr_provider_envelope_relpath :: string
  lr_provider_envelope_sha256 :: string
  lr_provider_envelope_byte_count :: int
  lr_output_manifest_relpath :: string
  lr_output_manifest_sha256 :: string
  lr_output_manifest_byte_count :: int
  lr_file_fsync_completed :: bool
  lr_output_parent_fsync_completed :: bool
  lr_marker_removed :: bool
  lr_spool_part_absent :: bool
  lr_spool_part_owner_absent :: bool
  lr_staging_absent :: bool
  lr_contract_version :: string

definition check_receipt_facts :: "local_materialization_receipt \<Rightarrow> unit res" where
  "check_receipt_facts r = checks
     [require (lr_contract_version r = LOCAL_MATERIALIZATION_V4_CONTRACT)
        ''local materialization contract is unsupported'',
      identity_tuple (identities r),
      require_sha (lr_materialization_intent_sha256 r) ''materialization intent'',
      require_sha (lr_terminal_receipt_sha256 r) ''terminal receipt'',
      require_sha (lr_source_pdf_sha256 r) ''source PDF'',
      require_sha (lr_parser_target_sha256 r) ''parser target'',
      require_sha (lr_spool_sha256 r) ''retained spool'',
      require_sha (lr_output_files_sha256 r) ''output files'',
      require_sha (lr_provider_envelope_sha256 r) ''provider envelope'',
      require_sha (lr_output_manifest_sha256 r) ''output manifest'',
      positive (lr_source_page_count r) ''source page count'',
      relative_path (lr_spool_relpath r) ''retained spool'',
      relative_path (lr_output_relpath r) ''output'',
      relative_path (lr_provider_envelope_relpath r) ''provider envelope'',
      relative_path (lr_output_manifest_relpath r) ''output manifest'',
      positive (lr_spool_byte_count r) ''spool byte count'',
      positive (lr_member_count r) ''member count'',
      positive (lr_uncompressed_byte_count r) ''uncompressed byte count'',
      positive (lr_decoded_byte_count r) ''decoded byte count'',
      positive (lr_temporary_disk_peak_byte_count r) ''temporary disk peak byte count'',
      positive (lr_output_file_count r) ''output file count'',
      positive (lr_output_byte_count r) ''output byte count'',
      positive (lr_provider_envelope_byte_count r) ''provider envelope byte count'',
      positive (lr_output_manifest_byte_count r) ''output manifest byte count'',
      checks (map output_file_post_init (lr_output_files r)),
      require (\<not> sort_key lf_relpath (lr_output_files r) \<noteq> lr_output_files r)
        ''output files are not canonically ordered'',
      require (distinct (map lf_relpath (lr_output_files r))) ''output files contain duplicate paths'']"

definition check_receipt_closure :: "local_materialization_receipt \<Rightarrow> unit res" where
  "check_receipt_closure r =
     bindR (local_output_files_sha256_v4 (lr_output_files r)) (\<lambda>expected_hash.
     bindR (lifecycle_checked_sum (map lf_byte_count (lr_output_files r))) (\<lambda>expected_bytes.
       require (\<not> (lr_output_file_count r \<noteq> int (length (lr_output_files r))
           \<or> lr_output_byte_count r \<noteq> expected_bytes
           \<or> lr_output_files_sha256 r \<noteq> expected_hash))
         ''output-file manifest does not close''))"

definition receipt_metadata_closes :: "local_materialization_receipt \<Rightarrow> bool" where
  "receipt_metadata_closes r =
     (case (file_at (lr_output_files r) (lr_output_manifest_relpath r),
            file_at (lr_output_files r) (lr_provider_envelope_relpath r)) of
        (Some manifest, Some envelope) \<Rightarrow> \<not>
          (lf_sha256 manifest \<noteq> lr_output_manifest_sha256 r
           \<or> lf_byte_count manifest \<noteq> lr_output_manifest_byte_count r
           \<or> lf_sha256 envelope \<noteq> lr_provider_envelope_sha256 r
           \<or> lf_byte_count envelope \<noteq> lr_provider_envelope_byte_count r)
      | _ \<Rightarrow> False)"

definition receipt_post_init :: "local_materialization_receipt \<Rightarrow> unit res" where
  "receipt_post_init r = checks
     [check_receipt_facts r, check_receipt_closure r,
      require (receipt_metadata_closes r) ''output manifest or provider envelope is not closed'',
      require (lr_file_fsync_completed r \<and> lr_output_parent_fsync_completed r \<and> lr_marker_removed r
          \<and> lr_spool_part_absent r \<and> lr_spool_part_owner_absent r \<and> lr_staging_absent r)
        ''local materialization lacks durable promotion evidence'']"

definition mk_receipt :: "local_materialization_receipt \<Rightarrow> local_materialization_receipt res" where
  "mk_receipt r = construct (receipt_post_init r) r"

definition receipt_payload :: "local_materialization_receipt \<Rightarrow> json" where
  "receipt_payload r = JObj (identity_members r @
     [(''materialization_intent_sha256'', JStr (lr_materialization_intent_sha256 r)),
      (''terminal_receipt_sha256'', JStr (lr_terminal_receipt_sha256 r)),
      (''source_pdf_sha256'', JStr (lr_source_pdf_sha256 r)),
      (''source_page_count'', JInt (lr_source_page_count r)),
      (''parser_target_sha256'', JStr (lr_parser_target_sha256 r)),
      (''spool_relpath'', JStr (lr_spool_relpath r)),
      (''spool_sha256'', JStr (lr_spool_sha256 r)),
      (''spool_byte_count'', JInt (lr_spool_byte_count r)),
      (''member_count'', JInt (lr_member_count r)),
      (''uncompressed_byte_count'', JInt (lr_uncompressed_byte_count r)),
      (''decoded_byte_count'', JInt (lr_decoded_byte_count r)),
      (''temporary_disk_peak_byte_count'', JInt (lr_temporary_disk_peak_byte_count r)),
      (''output_relpath'', JStr (lr_output_relpath r)),
      (''output_files'', JArr (map output_file_json (lr_output_files r))),
      (''output_file_count'', JInt (lr_output_file_count r)),
      (''output_byte_count'', JInt (lr_output_byte_count r)),
      (''output_files_sha256'', JStr (lr_output_files_sha256 r)),
      (''provider_envelope_relpath'', JStr (lr_provider_envelope_relpath r)),
      (''provider_envelope_sha256'', JStr (lr_provider_envelope_sha256 r)),
      (''provider_envelope_byte_count'', JInt (lr_provider_envelope_byte_count r)),
      (''output_manifest_relpath'', JStr (lr_output_manifest_relpath r)),
      (''output_manifest_sha256'', JStr (lr_output_manifest_sha256 r)),
      (''output_manifest_byte_count'', JInt (lr_output_manifest_byte_count r)),
      (''file_fsync_completed'', JBool (lr_file_fsync_completed r)),
      (''output_parent_fsync_completed'', JBool (lr_output_parent_fsync_completed r)),
      (''marker_removed'', JBool (lr_marker_removed r)),
      (''spool_part_absent'', JBool (lr_spool_part_absent r)),
      (''spool_part_owner_absent'', JBool (lr_spool_part_owner_absent r)),
      (''staging_absent'', JBool (lr_staging_absent r)),
      (''contract_version'', JStr (lr_contract_version r))])"

definition receipt_sha256 :: "local_materialization_receipt \<Rightarrow> string res" where
  "receipt_sha256 r = digest_of (lifecycle_json (receipt_payload r))"

subsection \<open>The receipt's builder\<close>

definition manifest_matches_intent :: "materialization_manifest \<Rightarrow> materialization_intent \<Rightarrow> string \<Rightarrow> bool" where
  "manifest_matches_intent m i intent_sha = (\<not>
     (attempt_id m \<noteq> attempt_id i
      \<or> fence_identity m \<noteq> fence_identity i
      \<or> document_id m \<noteq> document_id i
      \<or> processing_run_id m \<noteq> processing_run_id i
      \<or> mm_materialization_intent_sha256 m \<noteq> intent_sha
      \<or> mm_terminal_receipt_sha256 m \<noteq> mi_terminal_receipt_sha256 i
      \<or> mm_remote_task_identity m \<noteq> mi_remote_task_identity i
      \<or> mm_artifact_owner_identity m \<noteq> mi_artifact_owner_identity i
      \<or> mm_artifact_sha256 m \<noteq> mi_artifact_sha256 i
      \<or> mm_artifact_byte_count m \<noteq> mi_artifact_byte_count i
      \<or> mm_source_pdf_sha256 m \<noteq> mi_source_pdf_sha256 i
      \<or> mm_source_page_count m \<noteq> mi_source_page_count i
      \<or> mm_parser_target_sha256 m \<noteq> mi_parser_target_sha256 i
      \<or> mm_spool_relpath m \<noteq> mi_spool_relpath i
      \<or> mm_output_relpath m \<noteq> mi_output_relpath i
      \<or> mm_provider_envelope_relpath m \<noteq> mi_provider_envelope_relpath i))"

text \<open>The last five tests, of the context against the manifest; the hash last.\<close>

definition context_matches_manifest :: "provider_envelope_context \<Rightarrow> materialization_manifest \<Rightarrow> unit res" where
  "context_matches_manifest c m =
     (let drifted = ValueError ''local materialization manifest drifted from intent''
      in if cx_document_id c \<noteq> document_id m
          \<or> cx_processing_run_id c \<noteq> processing_run_id m
          \<or> cx_source_pdf_sha256 c \<noteq> mm_source_pdf_sha256 m
          \<or> cx_source_page_count c \<noteq> mm_source_page_count m
         then Inl drifted
         else bindR (context_parser_target_sha256 c) (\<lambda>target.
           if target \<noteq> mm_parser_target_sha256 m then Inl drifted else Inr ()))"

definition file_triple :: "local_output_file \<Rightarrow> string \<times> string \<times> int" where
  "file_triple f = (lf_relpath f, lf_sha256 f, lf_byte_count f)"

definition payload_triple :: "payload_file \<Rightarrow> string \<times> string \<times> int" where
  "payload_triple f = (pf_relpath f, pf_sha256 f, pf_byte_count f)"

text \<open>The facts that the worker observed: counts, then the durability flags.\<close>

record materialization_facts =
  mf_source_page_count :: int
  mf_member_count :: int
  mf_uncompressed_byte_count :: int
  mf_decoded_byte_count :: int
  mf_temporary_disk_peak_byte_count :: int
  mf_file_fsync_completed :: bool
  mf_output_parent_fsync_completed :: bool
  mf_marker_removed :: bool
  mf_spool_part_absent :: bool
  mf_spool_part_owner_absent :: bool
  mf_staging_absent :: bool

definition check_manifest_binding ::
  "materialization_intent \<Rightarrow> materialization_manifest \<Rightarrow> materialization_facts \<Rightarrow> local_output_file list
     \<Rightarrow> string \<Rightarrow> string \<Rightarrow> local_output_file \<Rightarrow> local_output_file \<Rightarrow> unit res" where
  "check_manifest_binding i m facts ordered envelope_path manifest_path envelope manifest_file =
     bindR (require (\<not> (envelope_path \<noteq> mi_provider_envelope_relpath i
         \<or> manifest_path \<noteq> mi_output_manifest_relpath i))
       ''materialization output identity drifted from intent'') (\<lambda>_.
     bindR (intent_sha256 i) (\<lambda>intent_sha.
     bindR (require (manifest_matches_intent m i intent_sha)
       ''local materialization manifest drifted from intent'') (\<lambda>_.
     bindR (context_matches_manifest (mi_provider_envelope_context i) m) (\<lambda>_.
     bindR (manifest_sha256 m) (\<lambda>manifest_sha.
     bindR (manifest_canonical_bytes m) (\<lambda>manifest_bytes. checks
       [require (\<not> (lf_sha256 manifest_file \<noteq> manifest_sha
            \<or> lf_byte_count manifest_file \<noteq> int (length manifest_bytes)))
          ''local materialization manifest bytes do not close'',
        require (file_triple ` {f \<in> set ordered. lf_relpath f \<noteq> manifest_path}
            = payload_triple ` set (mm_payload_files m))
          ''local materialization payload files drifted from manifest'',
        require (\<not> (mm_provider_envelope_relpath m \<noteq> envelope_path
            \<or> mm_provider_envelope_sha256 m \<noteq> lf_sha256 envelope
            \<or> mm_provider_envelope_byte_count m \<noteq> lf_byte_count envelope
            \<or> ob_member_count (mm_observations m) \<noteq> mf_member_count facts
            \<or> ob_uncompressed_byte_count (mm_observations m) \<noteq> mf_uncompressed_byte_count facts
            \<or> ob_decoded_byte_count (mm_observations m) \<noteq> mf_decoded_byte_count facts
            \<or> ob_temporary_disk_peak_byte_count (mm_observations m)
              \<noteq> mf_temporary_disk_peak_byte_count facts))
          ''local materialization observations drifted from manifest'']))))))"

definition build_local_materialization_receipt_v4 ::
  "materialization_intent \<Rightarrow> materialization_manifest \<Rightarrow> materialization_facts \<Rightarrow> local_output_file list
     \<Rightarrow> string \<Rightarrow> string \<Rightarrow> local_materialization_receipt res" where
  "build_local_materialization_receipt_v4 i m facts files envelope_path manifest_path =
     (let ordered = sort_key lf_relpath files in
      case (file_at ordered envelope_path, file_at ordered manifest_path) of
        (Some envelope, Some manifest_file) \<Rightarrow>
          bindR (check_manifest_binding i m facts ordered envelope_path manifest_path envelope manifest_file) (\<lambda>_.
          bindR (lifecycle_checked_sum (map lf_byte_count ordered)) (\<lambda>output_byte_count.
          bindR (require (\<not> (mf_source_page_count facts \<noteq> mi_source_page_count i
              \<or> mf_member_count facts > mi_member_count_limit i
              \<or> mf_uncompressed_byte_count facts > mi_uncompressed_byte_limit i
              \<or> mf_decoded_byte_count facts > mi_decoded_byte_limit i
              \<or> mf_temporary_disk_peak_byte_count facts > mi_temporary_disk_byte_limit i
              \<or> output_byte_count > mi_output_byte_limit i))
            ''materialization observation exceeds or drifts from intent'') (\<lambda>_.
          bindR (intent_sha256 i) (\<lambda>intent_sha.
          bindR (local_output_files_sha256_v4 ordered) (\<lambda>files_sha.
            mk_receipt (attempt_identity.extend (attempt_identity.truncate i)
              \<lparr>lr_materialization_intent_sha256 = intent_sha,
               lr_terminal_receipt_sha256 = mi_terminal_receipt_sha256 i,
               lr_source_pdf_sha256 = mi_source_pdf_sha256 i,
               lr_source_page_count = mf_source_page_count facts,
               lr_parser_target_sha256 = mi_parser_target_sha256 i,
               lr_spool_relpath = mi_spool_relpath i, lr_spool_sha256 = mi_artifact_sha256 i,
               lr_spool_byte_count = mi_artifact_byte_count i,
               lr_member_count = mf_member_count facts,
               lr_uncompressed_byte_count = mf_uncompressed_byte_count facts,
               lr_decoded_byte_count = mf_decoded_byte_count facts,
               lr_temporary_disk_peak_byte_count = mf_temporary_disk_peak_byte_count facts,
               lr_output_relpath = mi_output_relpath i, lr_output_files = ordered,
               lr_output_file_count = int (length ordered), lr_output_byte_count = output_byte_count,
               lr_output_files_sha256 = files_sha, lr_provider_envelope_relpath = envelope_path,
               lr_provider_envelope_sha256 = lf_sha256 envelope,
               lr_provider_envelope_byte_count = lf_byte_count envelope,
               lr_output_manifest_relpath = manifest_path,
               lr_output_manifest_sha256 = lf_sha256 manifest_file,
               lr_output_manifest_byte_count = lf_byte_count manifest_file,
               lr_file_fsync_completed = mf_file_fsync_completed facts,
               lr_output_parent_fsync_completed = mf_output_parent_fsync_completed facts,
               lr_marker_removed = mf_marker_removed facts,
               lr_spool_part_absent = mf_spool_part_absent facts,
               lr_spool_part_owner_absent = mf_spool_part_owner_absent facts,
               lr_staging_absent = mf_staging_absent facts,
               lr_contract_version = LOCAL_MATERIALIZATION_V4_CONTRACT\<rparr>))))))
      | _ \<Rightarrow> Inl (ValueError ''materialization output lacks manifest or envelope''))"

end
