(* ===== verification/Cleanup.thy ===== *)
theory Cleanup
  imports Materialization "HOL-Library.Product_Lexorder"
begin

text \<open>
  The cleanup records of \<open>application/contracts/remote_parse_lifecycle_v4.py\<close>: the entries and
  the plan that says what becomes of every local resource an attempt owns, the plan's builder
  from the durable evidence and its replay, the results, and the receipt.
\<close>

definition CLEANUP_PLAN_V4_CONTRACT :: string where
  "CLEANUP_PLAN_V4_CONTRACT = ''local-cleanup-plan.v4''"

definition CLEANUP_RECEIPT_V4_CONTRACT :: string where
  "CLEANUP_RECEIPT_V4_CONTRACT = ''local-cleanup-receipt.v4''"

subsection \<open>Entries\<close>

datatype cleanup_action = Delete | Transfer

fun action_name :: "cleanup_action \<Rightarrow> string" where
  "action_name Delete = ''delete''"
| "action_name Transfer = ''transfer''"

record cleanup_entry =
  ce_kind :: resource_kind
  ce_relpath :: string
  ce_ownership_basis_sha256 :: string
  ce_expected_sha256 :: "string option"
  ce_expected_byte_count :: "int option"
  ce_action :: cleanup_action
  ce_target_owner_identity :: "string option"
  ce_target_relpath :: "string option"

definition transient_kinds :: "resource_kind list" where
  "transient_kinds =
     [Snapshot_part, Snapshot_part_owner, Spool_part, Spool_part_owner, Staging, Staging_marker]"

definition check_target :: "string option \<Rightarrow> string option \<Rightarrow> string \<Rightarrow> unit res" where
  "check_target owner path msg =
     (case (owner, path) of
        (Some o1, Some p) \<Rightarrow> checks [identity o1 ''cleanup target owner'', relative_path p ''cleanup target'']
      | _ \<Rightarrow> Inl (ValueError msg))"

definition entry_post_init :: "cleanup_entry \<Rightarrow> unit res" where
  "entry_post_init e = checks
     [relative_path (ce_relpath e) ''cleanup resource'',
      require_sha (ce_ownership_basis_sha256 e) ''cleanup ownership basis'',
      optional_sha (ce_expected_sha256 e) ''cleanup resource'',
      require (\<not> (ce_expected_sha256 e = None) \<noteq> (ce_expected_byte_count e = None))
        ''cleanup exact identity is incomplete'',
      (case ce_expected_byte_count e of
         None \<Rightarrow> Inr () | Some n \<Rightarrow> nonnegative n ''cleanup resource byte count''),
      require (\<not> (ce_expected_sha256 e = None \<and> ce_kind e \<notin> set transient_kinds))
        ''cleanup exact identity is required for durable resources'',
      (case ce_action e of
         Delete \<Rightarrow> require (\<not> (ce_target_owner_identity e \<noteq> None \<or> ce_target_relpath e \<noteq> None))
           ''delete action cannot transfer ownership''
       | Transfer \<Rightarrow> checks
           [require (\<not> ce_kind e \<noteq> Output) ''only exact output may transfer ownership'',
            check_target (ce_target_owner_identity e) (ce_target_relpath e)
              ''transfer action lacks its target''])]"

definition entry_json :: "cleanup_entry \<Rightarrow> json" where
  "entry_json e = JObj
     [(''kind'', JStr (kind_name (ce_kind e))),
      (''relpath'', JStr (ce_relpath e)),
      (''ownership_basis_sha256'', JStr (ce_ownership_basis_sha256 e)),
      (''expected_sha256'', JOpt (ce_expected_sha256 e)),
      (''expected_byte_count'', JOptInt (ce_expected_byte_count e)),
      (''action'', JStr (action_name (ce_action e))),
      (''target_owner_identity'', JOpt (ce_target_owner_identity e)),
      (''target_relpath'', JOpt (ce_target_relpath e))]"

definition entry_key :: "cleanup_entry \<Rightarrow> resource_kind \<times> string" where
  "entry_key e = (ce_kind e, ce_relpath e)"

definition resources_digest :: "cleanup_entry list \<Rightarrow> string res" where
  "resources_digest es = digest_of (lifecycle_json (JArr (map entry_json es)))"

subsection \<open>The plan\<close>

record cleanup_plan = attempt_identity +
  pl_outcome :: cleanup_outcome
  pl_source_state :: checkpoint_state
  pl_source_lifecycle_version :: int
  pl_source_checkpoint_sha256 :: string
  pl_remote_task_identity :: "string option"
  pl_terminal_receipt_sha256 :: "string option"
  pl_materialization_intent_sha256 :: "string option"
  pl_local_materialization_receipt_sha256 :: "string option"
  pl_publication_winner_sha256 :: "string option"
  pl_failure_receipt_sha256 :: "string option"
  pl_supersession_receipt_sha256 :: "string option"
  pl_resources :: "cleanup_entry list"
  pl_resource_count :: int
  pl_resources_sha256 :: string
  pl_contract_version :: string

text \<open>\<open>state in STAGED_RESOURCE_STATE_TRANSITIONS and not in {"cleanup_pending", "ack_pending"}\<close>\<close>

definition resourceful_source :: "checkpoint_state \<Rightarrow> bool" where
  "resourceful_source s = (\<not>
     (staged_resource_state_transitions s = None \<or> s \<in> {Cleanup_pending, Ack_pending}))"

definition check_plan_facts :: "cleanup_plan \<Rightarrow> unit res" where
  "check_plan_facts p = checks
     [require (pl_contract_version p = CLEANUP_PLAN_V4_CONTRACT) ''cleanup plan contract is unsupported'',
      identity_tuple (identities p),
      require (resourceful_source (pl_source_state p)) ''cleanup source state is not resourceful'',
      nonnegative (pl_source_lifecycle_version p) ''cleanup source version'',
      require_sha (pl_source_checkpoint_sha256 p) ''cleanup source checkpoint'',
      optional_sha (pl_terminal_receipt_sha256 p) ''terminal receipt'',
      optional_sha (pl_materialization_intent_sha256 p) ''materialization intent'',
      optional_sha (pl_local_materialization_receipt_sha256 p) ''local receipt'',
      optional_sha (pl_publication_winner_sha256 p) ''publication winner'',
      optional_sha (pl_failure_receipt_sha256 p) ''failure receipt'',
      optional_sha (pl_supersession_receipt_sha256 p) ''supersession receipt'',
      (case pl_remote_task_identity p of None \<Rightarrow> Inr () | Some t \<Rightarrow> identity t ''remote task'')]"

definition failure_outcomes :: "cleanup_outcome set" where
  "failure_outcomes = {Pre_submission_failure, Remote_failure, Local_failure}"

definition check_plan_outcome :: "cleanup_plan \<Rightarrow> unit res" where
  "check_plan_outcome p = checks
     [require (\<not> (pl_outcome p = Success \<and>
          (pl_remote_task_identity p = None \<or> pl_terminal_receipt_sha256 p = None
           \<or> pl_materialization_intent_sha256 p = None
           \<or> pl_local_materialization_receipt_sha256 p = None
           \<or> pl_publication_winner_sha256 p = None)))
        ''successful cleanup lacks publication evidence'',
      require (\<not> (pl_outcome p = Pre_submission_failure \<and>
          (pl_remote_task_identity p \<noteq> None \<or> pl_terminal_receipt_sha256 p \<noteq> None)))
        ''pre-submission cleanup cannot own a provider task'',
      require (\<not> (pl_outcome p \<noteq> Success \<and> pl_publication_winner_sha256 p \<noteq> None))
        ''non-success cleanup cannot drain a committed publication'',
      require (\<not> (pl_outcome p \<in> failure_outcomes \<and> pl_failure_receipt_sha256 p = None))
        ''failure cleanup lacks exact failure evidence'',
      require (\<not> (pl_outcome p = Remote_failure \<and>
          (pl_remote_task_identity p = None \<or> pl_terminal_receipt_sha256 p \<noteq> None
           \<or> pl_materialization_intent_sha256 p \<noteq> None
           \<or> pl_local_materialization_receipt_sha256 p \<noteq> None
           \<or> pl_publication_winner_sha256 p \<noteq> None)))
        ''remote-failure cleanup evidence shape is invalid'',
      require (\<not> (pl_outcome p = Local_failure \<and>
          (pl_remote_task_identity p = None \<or> pl_terminal_receipt_sha256 p = None
           \<or> pl_publication_winner_sha256 p \<noteq> None)))
        ''local-failure cleanup evidence shape is invalid'',
      (if pl_outcome p = Superseded_outcome
       then require (\<not> (pl_supersession_receipt_sha256 p = None \<or> pl_failure_receipt_sha256 p \<noteq> None
            \<or> pl_publication_winner_sha256 p \<noteq> None))
         ''superseded cleanup evidence shape is invalid''
       else require (\<not> pl_supersession_receipt_sha256 p \<noteq> None)
         ''non-superseded cleanup has supersession evidence''),
      require (\<not> (pl_outcome p \<notin> failure_outcomes \<and> pl_failure_receipt_sha256 p \<noteq> None))
        ''non-failure cleanup has failure evidence'']"

definition check_plan_resources :: "cleanup_plan \<Rightarrow> unit res" where
  "check_plan_resources p = checks
     [checks (map entry_post_init (pl_resources p)),
      require (\<not> pl_resources p = []) ''resourceful cleanup plan cannot be empty'',
      require (\<not> sort_key entry_key (pl_resources p) \<noteq> pl_resources p)
        ''cleanup resources are not canonically ordered'',
      require (distinct (map ce_relpath (pl_resources p))) ''cleanup resources contain duplicate paths'',
      (if pl_resource_count p \<noteq> int (length (pl_resources p))
       then Inl (ValueError ''cleanup resource manifest does not close'')
       else bindR (resources_digest (pl_resources p)) (\<lambda>sha.
         require (\<not> pl_resources_sha256 p \<noteq> sha) ''cleanup resource manifest does not close''))]"

definition plan_post_init :: "cleanup_plan \<Rightarrow> unit res" where
  "plan_post_init p = checks [check_plan_facts p, check_plan_outcome p, check_plan_resources p]"

definition mk_plan :: "cleanup_plan \<Rightarrow> cleanup_plan res" where
  "mk_plan p = construct (plan_post_init p) p"

definition provider_ack_required :: "cleanup_plan \<Rightarrow> bool" where
  "provider_ack_required p = (pl_remote_task_identity p \<noteq> None)"

definition plan_payload :: "cleanup_plan \<Rightarrow> json" where
  "plan_payload p = JObj (identity_members p @
     [(''outcome'', JStr (outcome_name (pl_outcome p))),
      (''source_state'', JStr (state_name (pl_source_state p))),
      (''source_lifecycle_version'', JInt (pl_source_lifecycle_version p)),
      (''source_checkpoint_sha256'', JStr (pl_source_checkpoint_sha256 p)),
      (''remote_task_identity'', JOpt (pl_remote_task_identity p)),
      (''terminal_receipt_sha256'', JOpt (pl_terminal_receipt_sha256 p)),
      (''materialization_intent_sha256'', JOpt (pl_materialization_intent_sha256 p)),
      (''local_materialization_receipt_sha256'', JOpt (pl_local_materialization_receipt_sha256 p)),
      (''publication_winner_sha256'', JOpt (pl_publication_winner_sha256 p)),
      (''failure_receipt_sha256'', JOpt (pl_failure_receipt_sha256 p)),
      (''supersession_receipt_sha256'', JOpt (pl_supersession_receipt_sha256 p)),
      (''resources'', JArr (map entry_json (pl_resources p))),
      (''resource_count'', JInt (pl_resource_count p)),
      (''resources_sha256'', JStr (pl_resources_sha256 p)),
      (''contract_version'', JStr (pl_contract_version p))])"

definition plan_sha256 :: "cleanup_plan \<Rightarrow> string res" where
  "plan_sha256 p = digest_of (lifecycle_json (plan_payload p))"

subsection \<open>The plan's builder\<close>

text \<open>
  The names an attempt owns, with what each must be: the hash of the record that reserved the
  name, and the exact identity of its content where that is known. A dict of the source.
\<close>

type_synonym namespace = "((resource_kind \<times> string) \<times> (string \<times> string option \<times> int option)) list"

definition snapshot_namespace :: "resource_reservation \<Rightarrow> string \<Rightarrow> namespace" where
  "snapshot_namespace r sha =
     [((Snapshot, rv_snapshot_relpath r), (sha, Some (rv_source_pdf_sha256 r), Some (rv_source_byte_count r))),
      ((Snapshot_part, rv_snapshot_part_relpath r), (sha, None, None)),
      ((Snapshot_part_owner, rv_snapshot_part_owner_relpath r), (sha, None, None))]"

definition partial_namespace :: "materialization_intent \<Rightarrow> string \<Rightarrow> namespace" where
  "partial_namespace i sha =
     [((Spool_part, mi_spool_part_relpath i), (sha, None, None)),
      ((Spool_part_owner, mi_spool_part_owner_relpath i), (sha, None, None)),
      ((Staging, mi_staging_relpath i), (sha, None, None)),
      ((Staging_marker, mi_staging_marker_relpath i), (sha, None, None))]"

definition spool_namespace :: "materialization_intent \<Rightarrow> string \<Rightarrow> namespace" where
  "spool_namespace i sha =
     [((Spool, mi_spool_relpath i), (sha, Some (mi_artifact_sha256 i), Some (mi_artifact_byte_count i)))]"

definition output_namespace ::
  "materialization_intent \<Rightarrow> local_materialization_receipt \<Rightarrow> string \<Rightarrow> namespace" where
  "output_namespace i l sha =
     [((Output, mi_output_relpath i), (sha, Some (lr_output_files_sha256 l), Some (lr_output_byte_count l)))]"

definition snapshot_mandatory :: "resource_reservation \<Rightarrow> remote_parse_checkpoint \<Rightarrow> (resource_kind \<times> string) list" where
  "snapshot_mandatory r c = (Snapshot, rv_snapshot_relpath r) #
     (if cp_evidence c Snapshot_receipt = None
      then [(Snapshot_part, rv_snapshot_part_relpath r), (Snapshot_part_owner, rv_snapshot_part_owner_relpath r)]
      else [])"

text \<open>The allowed namespace and the mandatory names, from the evidence at hand.\<close>

definition cleanup_namespace ::
  "resource_reservation \<Rightarrow> remote_parse_checkpoint \<Rightarrow> materialization_intent option
     \<Rightarrow> local_materialization_receipt option \<Rightarrow> (namespace \<times> (resource_kind \<times> string) list) res" where
  "cleanup_namespace r c intent receipt =
     bindR (reservation_sha256 r) (\<lambda>rsha.
     case intent of
       None \<Rightarrow> Inr (snapshot_namespace r rsha, snapshot_mandatory r c)
     | Some i \<Rightarrow>
         bindR (same_identity i c) (\<lambda>_.
         bindR (intent_sha256 i) (\<lambda>isha.
         let allowed = snapshot_namespace r rsha @ partial_namespace i isha @ spool_namespace i isha;
             mandatory = snapshot_mandatory r c @ map fst (spool_namespace i isha)
         in case receipt of
             None \<Rightarrow> Inr (allowed, mandatory @ map fst (partial_namespace i isha))
           | Some l \<Rightarrow>
               bindR (same_identity l c) (\<lambda>_.
               bindR (receipt_sha256 l) (\<lambda>lsha.
                 Inr (allowed @ output_namespace i l lsha,
                      mandatory @ map fst (output_namespace i l lsha)))))))"

definition published_output_relpath ::
  "cleanup_outcome \<Rightarrow> materialization_intent option \<Rightarrow> string option" where
  "published_output_relpath outcome intent =
     (case intent of
        Some i \<Rightarrow> if outcome = Success
          then Some (cx_parser_artifact_root_relpath (mi_provider_envelope_context i)) else None
      | None \<Rightarrow> None)"

definition check_entry ::
  "namespace \<Rightarrow> cleanup_outcome \<Rightarrow> string \<Rightarrow> string option \<Rightarrow> cleanup_entry \<Rightarrow> unit res" where
  "check_entry allowed outcome run published e =
     (case map_of allowed (entry_key e) of
        None \<Rightarrow> Inl (KeyError (kind_name (ce_kind e) @ '','' @ ce_relpath e))
      | Some (basis, sha, bytes) \<Rightarrow> checks
          [require (\<not> (ce_ownership_basis_sha256 e \<noteq> basis \<or> ce_expected_sha256 e \<noteq> sha
              \<or> ce_expected_byte_count e \<noteq> bytes))
             ''cleanup resource identity drifted from durable evidence'',
           require (\<not> (ce_action e = Transfer \<and>
               (outcome \<noteq> Success \<or> ce_target_owner_identity e \<noteq> Some run
                \<or> ce_target_relpath e \<noteq> published)))
             ''cleanup transfer target is not the published run'',
           require (\<not> (ce_kind e = Output \<and> outcome = Success \<and> ce_action e \<noteq> Transfer))
             ''successful cleanup must transfer exact output''])"

text \<open>\<open>sha != (None if record is None else record.sha256)\<close>\<close>

definition digest_matches :: "string option \<Rightarrow> 'a option \<Rightarrow> ('a \<Rightarrow> string res) \<Rightarrow> bool res" where
  "digest_matches sha v sha_of =
     (case v of
        None \<Rightarrow> Inr (sha = None)
      | Some r \<Rightarrow> bindR (sha_of r) (\<lambda>d. Inr (sha = Some d)))"

definition check_cleanup_inputs ::
  "remote_parse_checkpoint \<Rightarrow> materialization_intent option \<Rightarrow> local_materialization_receipt option \<Rightarrow> unit res" where
  "check_cleanup_inputs c intent receipt =
     (let drifted = ValueError ''cleanup inputs drifted from source checkpoint'' in
      bindR (digest_matches (cp_evidence c Materialization_intent) intent intent_sha256) (\<lambda>same_intent.
      if \<not> same_intent then Inl drifted
      else bindR (digest_matches (cp_evidence c Local_materialization_receipt) receipt receipt_sha256) (\<lambda>same_receipt.
        if \<not> same_receipt then Inl drifted else Inr ())))"

text \<open>\<open>a or b\<close> for two optional strings: an empty text counts as missing.\<close>

definition or_else :: "string option \<Rightarrow> string option \<Rightarrow> string option" where
  "or_else a b = (if a = None \<or> a = Some '''' then b else a)"

definition build_local_cleanup_plan_v4 ::
  "resource_reservation \<Rightarrow> remote_parse_checkpoint \<Rightarrow> cleanup_outcome \<Rightarrow> cleanup_entry list
     \<Rightarrow> materialization_intent option \<Rightarrow> local_materialization_receipt option \<Rightarrow> string option
     \<Rightarrow> string option \<Rightarrow> string option \<Rightarrow> cleanup_plan res" where
  "build_local_cleanup_plan_v4 r c outcome resources intent receipt task failure supersession =
     (let published = published_output_relpath outcome intent in
      bindR (checks
        [require (resourceful_source (cp_state c)) ''cleanup plan requires a resourceful source checkpoint'',
         require (\<not> resources = []) ''resourceful cleanup plan cannot be empty'',
         validate_resource_reservation_checkpoint_binding_v4 r c,
         require (\<not> (outcome = Success \<and> published = None))
           ''successful cleanup lacks materialization target evidence'',
         require (\<not> (outcome \<noteq> Success \<and> cp_evidence c Publication_winner \<noteq> None))
           ''non-success cleanup cannot drain a committed publication'',
         check_cleanup_inputs c intent receipt]) (\<lambda>_.
      bindR (cleanup_namespace r c intent receipt) (\<lambda>(allowed, mandatory).
      let ordered = sort_key entry_key resources;
          observed = set (map entry_key ordered)
      in bindR (require (\<not> (\<not> set mandatory \<subseteq> observed \<or> \<not> observed \<subseteq> set (map fst allowed)))
           ''cleanup resources do not close the intent-owned namespace'') (\<lambda>_.
         bindR (checks (map (check_entry allowed outcome (processing_run_id c) published) ordered)) (\<lambda>_.
         bindR (checkpoint_sha256 c) (\<lambda>source_sha.
         bindR (resources_digest ordered) (\<lambda>sha.
           mk_plan (attempt_identity.extend (attempt_identity.truncate c)
             \<lparr>pl_outcome = outcome, pl_source_state = cp_state c,
              pl_source_lifecycle_version = cp_lifecycle_version c,
              pl_source_checkpoint_sha256 = source_sha, pl_remote_task_identity = task,
              pl_terminal_receipt_sha256 = cp_evidence c Terminal_receipt,
              pl_materialization_intent_sha256 = cp_evidence c Materialization_intent,
              pl_local_materialization_receipt_sha256 = cp_evidence c Local_materialization_receipt,
              pl_publication_winner_sha256 = cp_evidence c Publication_winner,
              pl_failure_receipt_sha256 = or_else failure (cp_evidence c Failure_receipt),
              pl_supersession_receipt_sha256 = supersession, pl_resources = ordered,
              pl_resource_count = int (length ordered), pl_resources_sha256 = sha,
              pl_contract_version = CLEANUP_PLAN_V4_CONTRACT\<rparr>))))))))"

definition validate_local_cleanup_plan_v4 ::
  "cleanup_plan \<Rightarrow> resource_reservation \<Rightarrow> remote_parse_checkpoint \<Rightarrow> materialization_intent option
     \<Rightarrow> local_materialization_receipt option \<Rightarrow> unit res" where
  "validate_local_cleanup_plan_v4 p r c intent receipt =
     bindR (build_local_cleanup_plan_v4 r c (pl_outcome p) (pl_resources p) intent receipt
       (pl_remote_task_identity p) (pl_failure_receipt_sha256 p) (pl_supersession_receipt_sha256 p)) (\<lambda>expected.
       require (\<not> p \<noteq> expected) ''cleanup plan drifted from exact durable inputs'')"

subsection \<open>Results and the receipt\<close>

datatype cleanup_disposition = Absent | Transferred

fun disposition_name :: "cleanup_disposition \<Rightarrow> string" where
  "disposition_name Absent = ''absent''"
| "disposition_name Transferred = ''transferred''"

record cleanup_result =
  cu_kind :: resource_kind
  cu_relpath :: string
  cu_disposition :: cleanup_disposition
  cu_target_owner_identity :: "string option"
  cu_target_relpath :: "string option"

definition result_post_init :: "cleanup_result \<Rightarrow> unit res" where
  "result_post_init u = checks
     [relative_path (cu_relpath u) ''cleanup result'',
      (case cu_disposition u of
         Absent \<Rightarrow> require (\<not> (cu_target_owner_identity u \<noteq> None \<or> cu_target_relpath u \<noteq> None))
           ''absent cleanup result cannot have a transfer target''
       | Transferred \<Rightarrow> check_target (cu_target_owner_identity u) (cu_target_relpath u)
           ''transferred cleanup result lacks its target'')]"

definition result_json :: "cleanup_result \<Rightarrow> json" where
  "result_json u = JObj
     [(''kind'', JStr (kind_name (cu_kind u))), (''relpath'', JStr (cu_relpath u)),
      (''disposition'', JStr (disposition_name (cu_disposition u))),
      (''target_owner_identity'', JOpt (cu_target_owner_identity u)),
      (''target_relpath'', JOpt (cu_target_relpath u))]"

definition result_key :: "cleanup_result \<Rightarrow> resource_kind \<times> string" where
  "result_key u = (cu_kind u, cu_relpath u)"

definition results_digest :: "cleanup_result list \<Rightarrow> string res" where
  "results_digest us = digest_of (lifecycle_json (JArr (map result_json us)))"

record cleanup_receipt = attempt_identity +
  ct_outcome :: cleanup_outcome
  ct_cleanup_plan_sha256 :: string
  ct_cleanup_pending_checkpoint_sha256 :: string
  ct_cleanup_pending_lifecycle_version :: int
  ct_results :: "cleanup_result list"
  ct_result_count :: int
  ct_results_sha256 :: string
  ct_parent_fsync_completed :: bool
  ct_contract_version :: string

definition cleanup_receipt_post_init :: "cleanup_receipt \<Rightarrow> unit res" where
  "cleanup_receipt_post_init r = checks
     [require (ct_contract_version r = CLEANUP_RECEIPT_V4_CONTRACT) ''cleanup receipt contract is unsupported'',
      identity_tuple (identities r),
      require_sha (ct_cleanup_plan_sha256 r) ''cleanup plan'',
      require_sha (ct_cleanup_pending_checkpoint_sha256 r) ''cleanup-pending checkpoint'',
      nonnegative (ct_cleanup_pending_lifecycle_version r) ''cleanup-pending lifecycle version'',
      checks (map result_post_init (ct_results r)),
      require (\<not> sort_key result_key (ct_results r) \<noteq> ct_results r)
        ''cleanup results are not canonically ordered'',
      require (distinct (map cu_relpath (ct_results r))) ''cleanup results contain duplicate paths'',
      (if ct_result_count r \<noteq> int (length (ct_results r))
       then Inl (ValueError ''cleanup result manifest does not close'')
       else bindR (results_digest (ct_results r)) (\<lambda>sha.
         require (\<not> ct_results_sha256 r \<noteq> sha) ''cleanup result manifest does not close'')),
      require (ct_parent_fsync_completed r) ''cleanup receipt lacks parent-directory fsync'']"

definition mk_cleanup_receipt :: "cleanup_receipt \<Rightarrow> cleanup_receipt res" where
  "mk_cleanup_receipt r = construct (cleanup_receipt_post_init r) r"

definition cleanup_receipt_payload :: "cleanup_receipt \<Rightarrow> json" where
  "cleanup_receipt_payload r = JObj (identity_members r @
     [(''outcome'', JStr (outcome_name (ct_outcome r))),
      (''cleanup_plan_sha256'', JStr (ct_cleanup_plan_sha256 r)),
      (''cleanup_pending_checkpoint_sha256'', JStr (ct_cleanup_pending_checkpoint_sha256 r)),
      (''cleanup_pending_lifecycle_version'', JInt (ct_cleanup_pending_lifecycle_version r)),
      (''results'', JArr (map result_json (ct_results r))),
      (''result_count'', JInt (ct_result_count r)),
      (''results_sha256'', JStr (ct_results_sha256 r)),
      (''parent_fsync_completed'', JBool (ct_parent_fsync_completed r)),
      (''contract_version'', JStr (ct_contract_version r))])"

definition cleanup_receipt_sha256 :: "cleanup_receipt \<Rightarrow> string res" where
  "cleanup_receipt_sha256 r = digest_of (lifecycle_json (cleanup_receipt_payload r))"

text \<open>What the plan asks of a resource, and what a result says was done to it.\<close>

definition planned_effect ::
  "cleanup_entry \<Rightarrow> resource_kind \<times> string \<times> cleanup_action \<times> string option \<times> string option" where
  "planned_effect e =
     (ce_kind e, ce_relpath e, ce_action e, ce_target_owner_identity e, ce_target_relpath e)"

definition observed_effect ::
  "cleanup_result \<Rightarrow> resource_kind \<times> string \<times> cleanup_action \<times> string option \<times> string option" where
  "observed_effect u =
     (cu_kind u, cu_relpath u, if cu_disposition u = Absent then Delete else Transfer,
      cu_target_owner_identity u, cu_target_relpath u)"

definition check_pending_checkpoint :: "cleanup_plan \<Rightarrow> remote_parse_checkpoint \<Rightarrow> unit res" where
  "check_pending_checkpoint p c =
     (let refused = ValueError ''cleanup receipt lacks its exact pending checkpoint'' in
      if cp_state c \<noteq> Cleanup_pending then Inl refused
      else bindR (plan_sha256 p) (\<lambda>sha.
        if cp_evidence c Cleanup_plan \<noteq> Some sha
          \<or> cp_previous_checkpoint_sha256 c \<noteq> Some (pl_source_checkpoint_sha256 p)
          \<or> cp_lifecycle_version c \<noteq> pl_source_lifecycle_version p + 1
        then Inl refused else Inr ()))"

definition build_local_cleanup_receipt_v4 ::
  "cleanup_plan \<Rightarrow> remote_parse_checkpoint \<Rightarrow> cleanup_result list \<Rightarrow> cleanup_receipt res" where
  "build_local_cleanup_receipt_v4 p c results =
     bindR (check_pending_checkpoint p c) (\<lambda>_.
     let ordered = sort_key result_key results in
     bindR (require (\<not> set (map planned_effect (pl_resources p)) \<noteq> set (map observed_effect ordered))
       ''cleanup results do not close the exact plan'') (\<lambda>_.
     bindR (plan_sha256 p) (\<lambda>plan_sha.
     bindR (checkpoint_sha256 c) (\<lambda>pending_sha.
     bindR (results_digest ordered) (\<lambda>sha.
       mk_cleanup_receipt (attempt_identity.extend (attempt_identity.truncate p)
         \<lparr>ct_outcome = pl_outcome p, ct_cleanup_plan_sha256 = plan_sha,
          ct_cleanup_pending_checkpoint_sha256 = pending_sha,
          ct_cleanup_pending_lifecycle_version = cp_lifecycle_version c, ct_results = ordered,
          ct_result_count = int (length ordered), ct_results_sha256 = sha,
          ct_parent_fsync_completed = True, ct_contract_version = CLEANUP_RECEIPT_V4_CONTRACT\<rparr>))))))"

end
