(* ===== verification/ProviderAck.thy ===== *)
theory ProviderAck
  imports LifecycleBase
begin

text \<open>
  The provider acknowledgement of \<open>application/contracts/remote_parse_lifecycle_v4.py\<close>: the one
  request projection that every layer uses, its identity, and \<open>ProviderAckReceiptV4\<close>.
\<close>

definition ACK_RECEIPT_V4_CONTRACT :: string where
  "ACK_RECEIPT_V4_CONTRACT = ''provider-ack-receipt.v4''"

text \<open>The outcomes for which a provider task exists, hence an acknowledgement.\<close>

definition ack_outcome :: "cleanup_outcome \<Rightarrow> bool" where
  "ack_outcome o1 = (o1 \<in> {Success, Remote_failure, Local_failure, Superseded_outcome})"

subsection \<open>The request\<close>

record ack_request = attempt_identity +
  aq_accepted_submission_sha256 :: string
  aq_ack_pending_checkpoint_sha256 :: string
  aq_cleanup_plan_sha256 :: string
  aq_cleanup_receipt_sha256 :: string
  aq_outcome :: cleanup_outcome
  aq_provider_protocol_version :: string
  aq_remote_task_identity :: string
  aq_result_owner_identity :: "string option"
  aq_terminal_receipt_sha256 :: "string option"

definition check_ack_request :: "ack_request \<Rightarrow> unit res" where
  "check_ack_request q = checks
     [require_sha (aq_accepted_submission_sha256 q) ''accepted submission'',
      require_sha (aq_ack_pending_checkpoint_sha256 q) ''ack-pending checkpoint'',
      require_sha (aq_cleanup_plan_sha256 q) ''cleanup plan'',
      require_sha (aq_cleanup_receipt_sha256 q) ''cleanup receipt'',
      optional_sha (aq_terminal_receipt_sha256 q) ''terminal receipt'',
      identity_tuple (identities q @ [aq_provider_protocol_version q, aq_remote_task_identity q]),
      (case aq_result_owner_identity q of None \<Rightarrow> Inr () | Some v \<Rightarrow> identity v ''result owner''),
      require (ack_outcome (aq_outcome q)) ''provider ACK request outcome is unsupported'']"

definition ack_request_payload :: "ack_request \<Rightarrow> json" where
  "ack_request_payload q = JObj
     [(''accepted_submission_sha256'', JStr (aq_accepted_submission_sha256 q)),
      (''ack_pending_checkpoint_sha256'', JStr (aq_ack_pending_checkpoint_sha256 q)),
      (''attempt_id'', JStr (attempt_id q)),
      (''cleanup_plan_sha256'', JStr (aq_cleanup_plan_sha256 q)),
      (''cleanup_receipt_sha256'', JStr (aq_cleanup_receipt_sha256 q)),
      (''document_id'', JStr (document_id q)),
      (''fence_identity'', JStr (fence_identity q)),
      (''outcome'', JStr (outcome_name (aq_outcome q))),
      (''processing_run_id'', JStr (processing_run_id q)),
      (''provider_protocol_version'', JStr (aq_provider_protocol_version q)),
      (''remote_task_identity'', JStr (aq_remote_task_identity q)),
      (''result_owner_identity'', JOpt (aq_result_owner_identity q)),
      (''schema'', JStr ''provider-ack-request.v4''),
      (''terminal_receipt_sha256'', JOpt (aq_terminal_receipt_sha256 q))]"

definition provider_ack_request_v4_bytes :: "ack_request \<Rightarrow> string res" where
  "provider_ack_request_v4_bytes q =
     bindR (check_ack_request q) (\<lambda>_. lifecycle_json (ack_request_payload q))"

definition provider_ack_request_v4_identity :: "string \<Rightarrow> string res" where
  "provider_ack_request_v4_identity sha =
     bindR (require_sha sha ''provider ACK request'') (\<lambda>_.
       Inr (''provider-ack-v4.'' @ removeprefix ''sha256:'' sha))"

subsection \<open>The receipt\<close>

text \<open>
  The kind is a string, as in the source, which refuses the unknown ones. The first validation
  loop of the source also accepts \<open>None\<close> for the accepted submission and the request hash, which
  their annotations exclude; the request projection refuses the former afterwards.
\<close>

record provider_ack_receipt = attempt_identity +
  ak_outcome :: cleanup_outcome
  ak_ack_pending_checkpoint_sha256 :: string
  ak_ack_pending_lifecycle_version :: int
  ak_accepted_submission_sha256 :: string
  ak_remote_task_identity :: string
  ak_result_owner_identity :: "string option"
  ak_terminal_receipt_sha256 :: "string option"
  ak_failure_receipt_sha256 :: "string option"
  ak_supersession_receipt_sha256 :: "string option"
  ak_local_materialization_receipt_sha256 :: "string option"
  ak_publication_winner_sha256 :: "string option"
  ak_cleanup_plan_sha256 :: string
  ak_cleanup_receipt_sha256 :: string
  ak_provider_protocol_version :: string
  ak_request_identity :: string
  ak_ack_request_sha256 :: string
  ak_ack_kind :: string
  ak_http_status :: int
  ak_provider_response_sha256 :: string
  ak_provider_response_byte_count :: int
  ak_provider_receipt_identity :: "string option"
  ak_contract_version :: string

definition check_ack_facts :: "provider_ack_receipt \<Rightarrow> unit res" where
  "check_ack_facts a = checks
     [require (ak_contract_version a = ACK_RECEIPT_V4_CONTRACT) ''provider ACK receipt contract is unsupported'',
      identity_tuple (identities a @ [ak_remote_task_identity a, ak_provider_protocol_version a, ak_request_identity a]),
      require (ack_outcome (ak_outcome a)) ''provider ACK outcome is unsupported'',
      require_sha (ak_ack_pending_checkpoint_sha256 a) ''ack-pending checkpoint'',
      require_sha (ak_accepted_submission_sha256 a) ''accepted submission'',
      optional_sha (ak_terminal_receipt_sha256 a) ''terminal receipt'',
      optional_sha (ak_failure_receipt_sha256 a) ''failure receipt'',
      optional_sha (ak_supersession_receipt_sha256 a) ''supersession receipt'',
      optional_sha (ak_local_materialization_receipt_sha256 a) ''local receipt'',
      optional_sha (ak_publication_winner_sha256 a) ''publication winner'',
      require_sha (ak_cleanup_plan_sha256 a) ''cleanup plan'',
      require_sha (ak_cleanup_receipt_sha256 a) ''cleanup receipt'',
      require_sha (ak_ack_request_sha256 a) ''ACK request'',
      require_sha (ak_provider_response_sha256 a) ''provider response'',
      nonnegative (ak_ack_pending_lifecycle_version a) ''ack-pending version'',
      nonnegative (ak_provider_response_byte_count a) ''provider response byte count'',
      (case ak_result_owner_identity a of None \<Rightarrow> Inr () | Some v \<Rightarrow> identity v ''result owner'')]"

definition check_ack_outcome :: "provider_ack_receipt \<Rightarrow> unit res" where
  "check_ack_outcome a = checks
     [require (\<not> (ak_outcome a = Success \<and>
          (ak_result_owner_identity a = None \<or> ak_terminal_receipt_sha256 a = None
           \<or> ak_local_materialization_receipt_sha256 a = None \<or> ak_publication_winner_sha256 a = None
           \<or> ak_failure_receipt_sha256 a \<noteq> None \<or> ak_supersession_receipt_sha256 a \<noteq> None)))
        ''successful ACK lacks exact publication evidence'',
      require (\<not> (ak_outcome a = Remote_failure \<and>
          (ak_failure_receipt_sha256 a = None \<or> ak_result_owner_identity a \<noteq> None
           \<or> ak_terminal_receipt_sha256 a \<noteq> None \<or> ak_local_materialization_receipt_sha256 a \<noteq> None
           \<or> ak_publication_winner_sha256 a \<noteq> None \<or> ak_supersession_receipt_sha256 a \<noteq> None)))
        ''remote-failure ACK evidence shape is invalid'',
      require (\<not> (ak_outcome a = Local_failure \<and>
          (ak_failure_receipt_sha256 a = None \<or> ak_terminal_receipt_sha256 a = None
           \<or> ak_result_owner_identity a = None \<or> ak_publication_winner_sha256 a \<noteq> None
           \<or> ak_supersession_receipt_sha256 a \<noteq> None)))
        ''local-failure ACK evidence shape is invalid'',
      require (\<not> (ak_outcome a = Superseded_outcome \<and>
          (ak_supersession_receipt_sha256 a = None \<or> ak_failure_receipt_sha256 a \<noteq> None
           \<or> ak_publication_winner_sha256 a \<noteq> None
           \<or> (ak_result_owner_identity a = None) \<noteq> (ak_terminal_receipt_sha256 a = None))))
        ''superseded ACK evidence shape is invalid'']"

definition check_ack_response :: "provider_ack_receipt \<Rightarrow> unit res" where
  "check_ack_response a =
     (if ak_ack_kind a = ''consumed'' then checks
        [require (\<not> ak_http_status a \<notin> {200, 204}) ''consumed ACK requires HTTP 200 or 204'',
         require (\<not> (ak_http_status a = 200 \<and> ak_provider_receipt_identity a = None))
           ''HTTP 200 ACK lacks provider receipt identity'',
         (case ak_provider_receipt_identity a of
            None \<Rightarrow> Inr () | Some v \<Rightarrow> identity v ''provider ACK receipt'')]
      else if ak_ack_kind a = ''absent''
      then require (\<not> (ak_http_status a \<noteq> 404 \<or> ak_provider_receipt_identity a \<noteq> None))
        ''absence ACK requires exact HTTP 404''
      else Inl (ValueError ''provider ACK kind is unsupported''))"

definition ack_request_of :: "provider_ack_receipt \<Rightarrow> ack_request" where
  "ack_request_of a = attempt_identity.extend (attempt_identity.truncate a)
     \<lparr>aq_accepted_submission_sha256 = ak_accepted_submission_sha256 a,
      aq_ack_pending_checkpoint_sha256 = ak_ack_pending_checkpoint_sha256 a,
      aq_cleanup_plan_sha256 = ak_cleanup_plan_sha256 a,
      aq_cleanup_receipt_sha256 = ak_cleanup_receipt_sha256 a, aq_outcome = ak_outcome a,
      aq_provider_protocol_version = ak_provider_protocol_version a,
      aq_remote_task_identity = ak_remote_task_identity a,
      aq_result_owner_identity = ak_result_owner_identity a,
      aq_terminal_receipt_sha256 = ak_terminal_receipt_sha256 a\<rparr>"

definition check_ack_identity :: "provider_ack_receipt \<Rightarrow> unit res" where
  "check_ack_identity a =
     bindR (digest_of (provider_ack_request_v4_bytes (ack_request_of a))) (\<lambda>expected.
       if ak_ack_request_sha256 a \<noteq> expected
       then Inl (ValueError ''provider ACK request identity does not close'')
       else bindR (provider_ack_request_v4_identity expected) (\<lambda>expected_identity.
         require (\<not> ak_request_identity a \<noteq> expected_identity)
           ''provider ACK request identity does not close''))"

definition ack_post_init :: "provider_ack_receipt \<Rightarrow> unit res" where
  "ack_post_init a = checks
     [check_ack_facts a, check_ack_outcome a, check_ack_response a, check_ack_identity a]"

definition mk_ack_receipt :: "provider_ack_receipt \<Rightarrow> provider_ack_receipt res" where
  "mk_ack_receipt a = construct (ack_post_init a) a"

definition ack_receipt_payload :: "provider_ack_receipt \<Rightarrow> json" where
  "ack_receipt_payload a = JObj (identity_members a @
     [(''outcome'', JStr (outcome_name (ak_outcome a))),
      (''ack_pending_checkpoint_sha256'', JStr (ak_ack_pending_checkpoint_sha256 a)),
      (''ack_pending_lifecycle_version'', JInt (ak_ack_pending_lifecycle_version a)),
      (''accepted_submission_sha256'', JStr (ak_accepted_submission_sha256 a)),
      (''remote_task_identity'', JStr (ak_remote_task_identity a)),
      (''result_owner_identity'', JOpt (ak_result_owner_identity a)),
      (''terminal_receipt_sha256'', JOpt (ak_terminal_receipt_sha256 a)),
      (''failure_receipt_sha256'', JOpt (ak_failure_receipt_sha256 a)),
      (''supersession_receipt_sha256'', JOpt (ak_supersession_receipt_sha256 a)),
      (''local_materialization_receipt_sha256'', JOpt (ak_local_materialization_receipt_sha256 a)),
      (''publication_winner_sha256'', JOpt (ak_publication_winner_sha256 a)),
      (''cleanup_plan_sha256'', JStr (ak_cleanup_plan_sha256 a)),
      (''cleanup_receipt_sha256'', JStr (ak_cleanup_receipt_sha256 a)),
      (''provider_protocol_version'', JStr (ak_provider_protocol_version a)),
      (''request_identity'', JStr (ak_request_identity a)),
      (''ack_request_sha256'', JStr (ak_ack_request_sha256 a)),
      (''ack_kind'', JStr (ak_ack_kind a)),
      (''http_status'', JInt (ak_http_status a)),
      (''provider_response_sha256'', JStr (ak_provider_response_sha256 a)),
      (''provider_response_byte_count'', JInt (ak_provider_response_byte_count a)),
      (''provider_receipt_identity'', JOpt (ak_provider_receipt_identity a)),
      (''contract_version'', JStr (ak_contract_version a))])"

definition ack_receipt_sha256 :: "provider_ack_receipt \<Rightarrow> string res" where
  "ack_receipt_sha256 a = digest_of (lifecycle_json (ack_receipt_payload a))"

end
