(* ===== verification/EvidenceRecords.thy ===== *)
theory EvidenceRecords
  imports Reservation Materialization Cleanup ProviderAck UrlSplit
begin

text \<open>
  The immutable evidence records of \<open>application/contracts/remote_parse_evidence_v4.py\<close>: preparation and
  submission intents, the snapshot, accepted-submission, terminal, failure and supersession receipts, the
  absence proof, the closed sum of the twelve evidence values, and the encoded value with its hash.
\<close>

definition PREPARATION_INTENT_V4_CONTRACT :: string where
  "PREPARATION_INTENT_V4_CONTRACT = ''remote-parse-preparation-intent.v4''"

definition SNAPSHOT_RECEIPT_V4_CONTRACT :: string where
  "SNAPSHOT_RECEIPT_V4_CONTRACT = ''remote-parse-snapshot-receipt.v4''"

definition SUBMISSION_INTENT_V4_CONTRACT :: string where
  "SUBMISSION_INTENT_V4_CONTRACT = ''remote-parse-submission-intent.v4''"

definition SUBMISSION_ABSENCE_PROOF_V4_CONTRACT :: string where
  "SUBMISSION_ABSENCE_PROOF_V4_CONTRACT = ''submission-absence-proof.v4''"

definition ACCEPTED_SUBMISSION_V4_CONTRACT :: string where
  "ACCEPTED_SUBMISSION_V4_CONTRACT = ''accepted-submission-receipt.v4''"

definition TERMINAL_RECEIPT_V4_CONTRACT :: string where
  "TERMINAL_RECEIPT_V4_CONTRACT = ''remote-terminal-receipt.v4''"

definition FAILURE_RECEIPT_V4_CONTRACT :: string where
  "FAILURE_RECEIPT_V4_CONTRACT = ''remote-parse-failure-receipt.v4''"

definition SUPERSESSION_RECEIPT_V4_CONTRACT :: string where
  "SUPERSESSION_RECEIPT_V4_CONTRACT = ''remote-parse-supersession-receipt.v4''"

definition ACCEPTED_SUBMISSION_SECRET_KIND_MAX_BYTES :: nat where
  "ACCEPTED_SUBMISSION_SECRET_KIND_MAX_BYTES = 128"

definition ACCEPTED_SUBMISSION_TOKEN_MAX_BYTES :: int where
  "ACCEPTED_SUBMISSION_TOKEN_MAX_BYTES = 65536"

subsection \<open>The module's helpers\<close>

text \<open>\<open>_contract\<close>, \<open>_identity\<close>, \<open>_identities\<close>, \<open>_positive\<close>, \<open>_nonnegative\<close> and \<open>_canonical\<close>;
  \<open>_sha\<close>, \<open>_optional_sha\<close> and \<open>_relpath\<close> are those of the lifecycle module.\<close>

definition evidence_contract :: "string \<Rightarrow> string \<Rightarrow> unit res" where
  "evidence_contract observed expected =
     require (observed = expected) ''remote-parse v4 evidence contract is unsupported''"

definition evidence_identity_ok :: "nat \<Rightarrow> string \<Rightarrow> bool" where
  "evidence_identity_ok max_bytes v =
     (\<not> (v = '''' \<or> v \<noteq> py_strip v \<or> length (utf8 v) > max_bytes \<or> list_ex control v))"

definition evidence_identity :: "nat \<Rightarrow> string \<Rightarrow> unit res" where
  "evidence_identity max_bytes v =
     require (evidence_identity_ok max_bytes v) ''remote-parse v4 evidence identity is invalid''"

definition evidence_identities :: "string list \<Rightarrow> unit res" where
  "evidence_identities vs = checks (map (evidence_identity 1024) vs)"

definition evidence_positive :: "int \<Rightarrow> string \<Rightarrow> unit res" where
  "evidence_positive v label = require (1 \<le> v \<and> v \<le> MAX_INT) (label @ '' must be positive'')"

definition evidence_nonnegative :: "int \<Rightarrow> string \<Rightarrow> unit res" where
  "evidence_nonnegative v label = require (in_range v) (label @ '' must be non-negative'')"

definition evidence_json :: "json \<Rightarrow> string res" where
  "evidence_json = canonical_json MAX_BYTES ''remote-parse v4 evidence bytes are outside envelope''"

lemma evidence_contract_Inr [simp]: "evidence_contract a b = Inr u \<longleftrightarrow> a = b"
  by (simp add: evidence_contract_def)

lemma evidence_identity_Inr [simp]: "evidence_identity n v = Inr u \<longleftrightarrow> evidence_identity_ok n v"
  by (simp add: evidence_identity_def)

lemma evidence_identities_Inr [simp]: "evidence_identities vs = Inr u \<longleftrightarrow> list_all (evidence_identity_ok 1024) vs"
  by (simp add: evidence_identities_def list_all_iff)

lemma evidence_positive_Inr [simp]: "evidence_positive v label = Inr u \<longleftrightarrow> 1 \<le> v \<and> v \<le> MAX_INT"
  by (simp add: evidence_positive_def)

lemma evidence_nonnegative_Inr [simp]: "evidence_nonnegative v label = Inr u \<longleftrightarrow> in_range v"
  by (simp add: evidence_nonnegative_def)

lemma identity_ok_evidence: "identity_ok v \<Longrightarrow> evidence_identity_ok 1024 v"
  by (auto simp: identity_ok_def evidence_identity_ok_def)

subsection \<open>The preparation intent\<close>

record preparation_intent = attempt_identity +
  pi_source_pdf_sha256 :: string
  pi_source_byte_count :: int
  pi_source_page_count :: int
  pi_parser_target_sha256 :: string
  pi_request_sha256 :: string
  pi_runtime_epoch_sha256 :: string
  pi_process_profile_sha256 :: string
  pi_execution_spec_sha256 :: string
  pi_execution_spec_byte_count :: int
  pi_reservation_sha256 :: string
  pi_snapshot_relpath :: string
  pi_snapshot_part_relpath :: string
  pi_snapshot_part_owner_relpath :: string
  pi_snapshot_lock_relpath :: string
  pi_contract_version :: string

definition preparation_post_init :: "preparation_intent \<Rightarrow> unit res" where
  "preparation_post_init p = checks
     [evidence_contract (pi_contract_version p) PREPARATION_INTENT_V4_CONTRACT,
      evidence_identities (identities p),
      require_sha (pi_source_pdf_sha256 p) ''source PDF'',
      require_sha (pi_parser_target_sha256 p) ''parser target'',
      require_sha (pi_request_sha256 p) ''request'',
      require_sha (pi_runtime_epoch_sha256 p) ''runtime epoch'',
      require_sha (pi_process_profile_sha256 p) ''process profile'',
      require_sha (pi_execution_spec_sha256 p) ''execution spec'',
      require_sha (pi_reservation_sha256 p) ''reservation'',
      evidence_positive (pi_source_byte_count p) ''source byte count'',
      evidence_positive (pi_source_page_count p) ''source page count'',
      evidence_positive (pi_execution_spec_byte_count p) ''execution spec byte count'',
      relative_path (pi_snapshot_relpath p) ''snapshot'',
      relative_path (pi_snapshot_part_relpath p) ''snapshot part'',
      relative_path (pi_snapshot_part_owner_relpath p) ''snapshot part owner'',
      relative_path (pi_snapshot_lock_relpath p) ''snapshot lock'']"

definition mk_preparation :: "preparation_intent \<Rightarrow> preparation_intent res" where
  "mk_preparation p = construct (preparation_post_init p) p"

definition preparation_payload :: "preparation_intent \<Rightarrow> json" where
  "preparation_payload p = JObj (identity_members p @
     [(''source_pdf_sha256'', JStr (pi_source_pdf_sha256 p)),
      (''source_byte_count'', JInt (pi_source_byte_count p)),
      (''source_page_count'', JInt (pi_source_page_count p)),
      (''parser_target_sha256'', JStr (pi_parser_target_sha256 p)),
      (''request_sha256'', JStr (pi_request_sha256 p)),
      (''runtime_epoch_sha256'', JStr (pi_runtime_epoch_sha256 p)),
      (''process_profile_sha256'', JStr (pi_process_profile_sha256 p)),
      (''execution_spec_sha256'', JStr (pi_execution_spec_sha256 p)),
      (''execution_spec_byte_count'', JInt (pi_execution_spec_byte_count p)),
      (''reservation_sha256'', JStr (pi_reservation_sha256 p)),
      (''snapshot_relpath'', JStr (pi_snapshot_relpath p)),
      (''snapshot_part_relpath'', JStr (pi_snapshot_part_relpath p)),
      (''snapshot_part_owner_relpath'', JStr (pi_snapshot_part_owner_relpath p)),
      (''snapshot_lock_relpath'', JStr (pi_snapshot_lock_relpath p)),
      (''contract_version'', JStr (pi_contract_version p))])"

definition build_preparation_intent_v4 ::
  "resource_reservation \<Rightarrow> string \<Rightarrow> string \<Rightarrow> int \<Rightarrow> preparation_intent res" where
  "build_preparation_intent_v4 r parser_target execution_spec execution_spec_bytes =
     bindR (reservation_sha256 r) (\<lambda>sha.
       mk_preparation (attempt_identity.extend (attempt_identity.truncate r)
         \<lparr>pi_source_pdf_sha256 = rv_source_pdf_sha256 r, pi_source_byte_count = rv_source_byte_count r,
          pi_source_page_count = rv_source_page_count r, pi_parser_target_sha256 = parser_target,
          pi_request_sha256 = rv_request_sha256 r, pi_runtime_epoch_sha256 = rv_runtime_epoch_sha256 r,
          pi_process_profile_sha256 = rv_process_profile_sha256 r,
          pi_execution_spec_sha256 = execution_spec, pi_execution_spec_byte_count = execution_spec_bytes,
          pi_reservation_sha256 = sha, pi_snapshot_relpath = rv_snapshot_relpath r,
          pi_snapshot_part_relpath = rv_snapshot_part_relpath r,
          pi_snapshot_part_owner_relpath = rv_snapshot_part_owner_relpath r,
          pi_snapshot_lock_relpath = rv_snapshot_lock_relpath r,
          pi_contract_version = PREPARATION_INTENT_V4_CONTRACT\<rparr>))"

subsection \<open>The records of one fence\<close>

text \<open>The two attributes that the other records of this module share.\<close>

record fenced_evidence =
  fe_attempt_id :: string
  fe_fence_identity :: string

definition fence_members :: "'a fenced_evidence_scheme \<Rightarrow> (string \<times> json) list" where
  "fence_members v =
     [(''attempt_id'', JStr (fe_attempt_id v)), (''fence_identity'', JStr (fe_fence_identity v))]"

record snapshot_receipt = fenced_evidence +
  sr_preparation_intent_sha256 :: string
  sr_snapshot_relpath :: string
  sr_snapshot_sha256 :: string
  sr_snapshot_byte_count :: int
  sr_part_path_absent :: bool
  sr_part_owner_path_absent :: bool
  sr_file_fsync_completed :: bool
  sr_parent_fsync_completed :: bool
  sr_contract_version :: string

definition snapshot_post_init :: "snapshot_receipt \<Rightarrow> unit res" where
  "snapshot_post_init s = checks
     [evidence_contract (sr_contract_version s) SNAPSHOT_RECEIPT_V4_CONTRACT,
      evidence_identities [fe_attempt_id s, fe_fence_identity s],
      require_sha (sr_preparation_intent_sha256 s) ''preparation intent'',
      require_sha (sr_snapshot_sha256 s) ''snapshot'',
      relative_path (sr_snapshot_relpath s) ''snapshot'',
      evidence_positive (sr_snapshot_byte_count s) ''snapshot byte count'',
      require (sr_part_path_absent s \<and> sr_part_owner_path_absent s \<and> sr_file_fsync_completed s
          \<and> sr_parent_fsync_completed s) ''snapshot receipt lacks durable closure'']"

definition mk_snapshot :: "snapshot_receipt \<Rightarrow> snapshot_receipt res" where
  "mk_snapshot s = construct (snapshot_post_init s) s"

definition snapshot_payload :: "snapshot_receipt \<Rightarrow> json" where
  "snapshot_payload s = JObj (fence_members s @
     [(''preparation_intent_sha256'', JStr (sr_preparation_intent_sha256 s)),
      (''snapshot_relpath'', JStr (sr_snapshot_relpath s)),
      (''snapshot_sha256'', JStr (sr_snapshot_sha256 s)),
      (''snapshot_byte_count'', JInt (sr_snapshot_byte_count s)),
      (''part_path_absent'', JBool (sr_part_path_absent s)),
      (''part_owner_path_absent'', JBool (sr_part_owner_path_absent s)),
      (''file_fsync_completed'', JBool (sr_file_fsync_completed s)),
      (''parent_fsync_completed'', JBool (sr_parent_fsync_completed s)),
      (''contract_version'', JStr (sr_contract_version s))])"

record submission_intent = fenced_evidence +
  si_snapshot_receipt_sha256 :: string
  si_source_pdf_sha256 :: string
  si_parser_target_sha256 :: string
  si_request_sha256 :: string
  si_runtime_epoch_sha256 :: string
  si_client_submit_key :: string
  si_submission_epoch_unix :: int
  si_provider_protocol_version :: string
  si_contract_version :: string

definition submission_post_init :: "submission_intent \<Rightarrow> unit res" where
  "submission_post_init s = checks
     [evidence_contract (si_contract_version s) SUBMISSION_INTENT_V4_CONTRACT,
      evidence_identities
        [fe_attempt_id s, fe_fence_identity s, si_client_submit_key s, si_provider_protocol_version s],
      require_sha (si_snapshot_receipt_sha256 s) ''snapshot receipt'',
      require_sha (si_source_pdf_sha256 s) ''source PDF'',
      require_sha (si_parser_target_sha256 s) ''parser target'',
      require_sha (si_request_sha256 s) ''request'',
      require_sha (si_runtime_epoch_sha256 s) ''runtime epoch'',
      evidence_nonnegative (si_submission_epoch_unix s) ''submission epoch'']"

definition mk_submission :: "submission_intent \<Rightarrow> submission_intent res" where
  "mk_submission s = construct (submission_post_init s) s"

definition submission_payload :: "submission_intent \<Rightarrow> json" where
  "submission_payload s = JObj (fence_members s @
     [(''snapshot_receipt_sha256'', JStr (si_snapshot_receipt_sha256 s)),
      (''source_pdf_sha256'', JStr (si_source_pdf_sha256 s)),
      (''parser_target_sha256'', JStr (si_parser_target_sha256 s)),
      (''request_sha256'', JStr (si_request_sha256 s)),
      (''runtime_epoch_sha256'', JStr (si_runtime_epoch_sha256 s)),
      (''client_submit_key'', JStr (si_client_submit_key s)),
      (''submission_epoch_unix'', JInt (si_submission_epoch_unix s)),
      (''provider_protocol_version'', JStr (si_provider_protocol_version s)),
      (''contract_version'', JStr (si_contract_version s))])"

record accepted_submission = fenced_evidence +
  as_submission_intent_sha256 :: string
  as_remote_task_identity :: string
  as_status_url :: string
  as_result_url :: string
  as_secret_kind :: string
  as_secret_version :: int
  as_token_sha256 :: string
  as_token_byte_count :: int
  as_provider_protocol_version :: string
  as_contract_version :: string

definition closed_origin :: "split_result \<Rightarrow> split_result \<Rightarrow> bool" where
  "closed_origin status result = (\<not>
     (url_scheme status \<notin> {''http'', ''https''}
      \<or> url_scheme status \<noteq> url_scheme result
      \<or> url_netloc status \<noteq> url_netloc result
      \<or> url_netloc status = ''''
      \<or> url_username status \<noteq> None
      \<or> url_username result \<noteq> None
      \<or> url_query status \<noteq> ''''
      \<or> url_query result \<noteq> ''''
      \<or> url_fragment status \<noteq> ''''
      \<or> url_fragment result \<noteq> ''''))"

definition check_urls :: "accepted_submission \<Rightarrow> unit res" where
  "check_urls a =
     bindR (urlsplit (as_status_url a)) (\<lambda>status.
     bindR (urlsplit (as_result_url a)) (\<lambda>result.
       require (closed_origin status result) ''accepted-submission URLs must share a closed HTTP origin''))"

definition accepted_post_init :: "accepted_submission \<Rightarrow> unit res" where
  "accepted_post_init a = checks
     [evidence_contract (as_contract_version a) ACCEPTED_SUBMISSION_V4_CONTRACT,
      evidence_identities
        [fe_attempt_id a, fe_fence_identity a, as_remote_task_identity a, as_status_url a, as_result_url a,
         as_provider_protocol_version a],
      evidence_identity ACCEPTED_SUBMISSION_SECRET_KIND_MAX_BYTES (as_secret_kind a),
      require_sha (as_submission_intent_sha256 a) ''submission intent'',
      require_sha (as_token_sha256 a) ''provider token'',
      evidence_positive (as_secret_version a) ''secret version'',
      evidence_positive (as_token_byte_count a) ''token byte count'',
      require (\<not> as_token_byte_count a > ACCEPTED_SUBMISSION_TOKEN_MAX_BYTES)
        ''accepted-submission token exceeds the durable envelope'',
      check_urls a]"

definition mk_accepted :: "accepted_submission \<Rightarrow> accepted_submission res" where
  "mk_accepted a = construct (accepted_post_init a) a"

definition accepted_payload :: "accepted_submission \<Rightarrow> json" where
  "accepted_payload a = JObj (fence_members a @
     [(''submission_intent_sha256'', JStr (as_submission_intent_sha256 a)),
      (''remote_task_identity'', JStr (as_remote_task_identity a)),
      (''status_url'', JStr (as_status_url a)),
      (''result_url'', JStr (as_result_url a)),
      (''secret_kind'', JStr (as_secret_kind a)),
      (''secret_version'', JInt (as_secret_version a)),
      (''token_sha256'', JStr (as_token_sha256 a)),
      (''token_byte_count'', JInt (as_token_byte_count a)),
      (''provider_protocol_version'', JStr (as_provider_protocol_version a)),
      (''contract_version'', JStr (as_contract_version a))])"

record terminal_receipt = fenced_evidence +
  tr_accepted_submission_receipt_sha256 :: string
  tr_remote_task_identity :: string
  tr_result_owner_identity :: string
  tr_artifact_sha256 :: string
  tr_artifact_byte_count :: int
  tr_provider_protocol_version :: string
  tr_contract_version :: string

definition terminal_post_init :: "terminal_receipt \<Rightarrow> unit res" where
  "terminal_post_init t = checks
     [evidence_contract (tr_contract_version t) TERMINAL_RECEIPT_V4_CONTRACT,
      evidence_identities
        [fe_attempt_id t, fe_fence_identity t, tr_remote_task_identity t, tr_result_owner_identity t,
         tr_provider_protocol_version t],
      require_sha (tr_accepted_submission_receipt_sha256 t) ''accepted submission'',
      require_sha (tr_artifact_sha256 t) ''terminal artifact'',
      evidence_positive (tr_artifact_byte_count t) ''terminal artifact byte count'']"

definition mk_terminal :: "terminal_receipt \<Rightarrow> terminal_receipt res" where
  "mk_terminal t = construct (terminal_post_init t) t"

definition terminal_payload :: "terminal_receipt \<Rightarrow> json" where
  "terminal_payload t = JObj (fence_members t @
     [(''accepted_submission_receipt_sha256'', JStr (tr_accepted_submission_receipt_sha256 t)),
      (''remote_task_identity'', JStr (tr_remote_task_identity t)),
      (''result_owner_identity'', JStr (tr_result_owner_identity t)),
      (''artifact_sha256'', JStr (tr_artifact_sha256 t)),
      (''artifact_byte_count'', JInt (tr_artifact_byte_count t)),
      (''provider_protocol_version'', JStr (tr_provider_protocol_version t)),
      (''contract_version'', JStr (tr_contract_version t))])"


subsection \<open>Failures\<close>

record absence_proof =
  ab_client_submit_key :: string
  ab_lookup_request_sha256 :: string
  ab_provider_protocol_version :: string
  ab_http_status :: int
  ab_response_sha256 :: string
  ab_response_byte_count :: int
  ab_contract_version :: string

definition absence_post_init :: "absence_proof \<Rightarrow> unit res" where
  "absence_post_init a = checks
     [evidence_contract (ab_contract_version a) SUBMISSION_ABSENCE_PROOF_V4_CONTRACT,
      evidence_identities [ab_client_submit_key a, ab_provider_protocol_version a],
      require_sha (ab_lookup_request_sha256 a) ''absence lookup request'',
      require_sha (ab_response_sha256 a) ''absence response'',
      require (\<not> ab_http_status a \<noteq> 404) ''submission absence proof requires exact HTTP 404'',
      evidence_nonnegative (ab_response_byte_count a) ''absence response byte count'']"

definition mk_absence :: "absence_proof \<Rightarrow> absence_proof res" where
  "mk_absence a = construct (absence_post_init a) a"

definition absence_payload :: "absence_proof \<Rightarrow> json" where
  "absence_payload a = JObj
     [(''client_submit_key'', JStr (ab_client_submit_key a)),
      (''lookup_request_sha256'', JStr (ab_lookup_request_sha256 a)),
      (''provider_protocol_version'', JStr (ab_provider_protocol_version a)),
      (''http_status'', JInt (ab_http_status a)),
      (''response_sha256'', JStr (ab_response_sha256 a)),
      (''response_byte_count'', JInt (ab_response_byte_count a)),
      (''contract_version'', JStr (ab_contract_version a))]"

datatype failure_outcome =
    Preparation_failure_outcome
  | Pre_submission_failure_outcome
  | Remote_failure_outcome
  | Local_failure_outcome

fun failure_outcome_name :: "failure_outcome \<Rightarrow> string" where
  "failure_outcome_name Preparation_failure_outcome = ''preparation_failure''"
| "failure_outcome_name Pre_submission_failure_outcome = ''pre_submission_failure''"
| "failure_outcome_name Remote_failure_outcome = ''remote_failure''"
| "failure_outcome_name Local_failure_outcome = ''local_failure''"

text \<open>The source state is a string here, as in the source, which compares it and never looks it up.\<close>

record failure_receipt = fenced_evidence +
  fr_outcome :: failure_outcome
  fr_source_state :: string
  fr_source_lifecycle_version :: int
  fr_source_checkpoint_sha256 :: "string option"
  fr_submission_was_attempted :: bool
  fr_submission_absence_proof :: "absence_proof option"
  fr_accepted_submission_receipt_sha256 :: "string option"
  fr_terminal_receipt_sha256 :: "string option"
  fr_materialization_intent_sha256 :: "string option"
  fr_local_materialization_receipt_sha256 :: "string option"
  fr_error_code :: string
  fr_error_stage :: string
  fr_error_class :: string
  fr_retryable :: bool
  fr_retry_budget_class :: string
  fr_message :: string
  fr_contract_version :: string

definition check_failure_facts :: "failure_receipt \<Rightarrow> unit res" where
  "check_failure_facts f = checks
     [evidence_contract (fr_contract_version f) FAILURE_RECEIPT_V4_CONTRACT,
      evidence_identities
        [fe_attempt_id f, fe_fence_identity f, fr_source_state f, fr_error_code f, fr_error_stage f,
         fr_error_class f, fr_retry_budget_class f],
      evidence_nonnegative (fr_source_lifecycle_version f) ''failure source version'',
      optional_sha (fr_source_checkpoint_sha256 f) ''failure source checkpoint'',
      optional_sha (fr_accepted_submission_receipt_sha256 f) ''accepted submission'',
      optional_sha (fr_terminal_receipt_sha256 f) ''terminal receipt'',
      optional_sha (fr_materialization_intent_sha256 f) ''materialization intent'',
      optional_sha (fr_local_materialization_receipt_sha256 f) ''local receipt'',
      require (\<not> (fr_message f = '''' \<or> length (fr_message f) > 4096)) ''failure receipt message is invalid'']"

definition check_failure_source :: "failure_receipt \<Rightarrow> unit res" where
  "check_failure_source f =
     (if fr_outcome f = Preparation_failure_outcome then checks
        [require (\<not> (fr_source_state f \<noteq> ''not_prepared'' \<or> fr_source_lifecycle_version f \<noteq> 0))
           ''preparation failure source state is not resource-free'',
         require (\<not> (fr_source_checkpoint_sha256 f \<noteq> None \<or> fr_submission_absence_proof f \<noteq> None
             \<or> fr_accepted_submission_receipt_sha256 f \<noteq> None \<or> fr_terminal_receipt_sha256 f \<noteq> None
             \<or> fr_materialization_intent_sha256 f \<noteq> None
             \<or> fr_local_materialization_receipt_sha256 f \<noteq> None
             \<or> fr_submission_was_attempted f))
           ''preparation failure is not resource-free'']
      else require (\<not> fr_source_checkpoint_sha256 f = None) ''resourceful failure lacks source checkpoint'')"

fun check_failure_outcome :: "failure_outcome \<Rightarrow> failure_receipt \<Rightarrow> unit res" where
  "check_failure_outcome Preparation_failure_outcome f = Inr ()"
| "check_failure_outcome Pre_submission_failure_outcome f = checks
     [require (\<not> (fr_accepted_submission_receipt_sha256 f \<noteq> None \<or> fr_terminal_receipt_sha256 f \<noteq> None
          \<or> fr_materialization_intent_sha256 f \<noteq> None
          \<or> fr_local_materialization_receipt_sha256 f \<noteq> None))
        ''pre-submission failure owns accepted resources'',
      (if fr_submission_was_attempted f
       then require (\<not> fr_submission_absence_proof f = None)
         ''ambiguous submission requires exact 404 absence proof''
       else require (\<not> fr_submission_absence_proof f \<noteq> None)
         ''never-POSTed failure cannot carry absence proof'')]"
| "check_failure_outcome Remote_failure_outcome f =
     require (\<not> (\<not> fr_submission_was_attempted f \<or> fr_accepted_submission_receipt_sha256 f = None
         \<or> fr_submission_absence_proof f \<noteq> None \<or> fr_terminal_receipt_sha256 f \<noteq> None
         \<or> fr_materialization_intent_sha256 f \<noteq> None
         \<or> fr_local_materialization_receipt_sha256 f \<noteq> None))
       ''remote failure evidence shape is invalid''"
| "check_failure_outcome Local_failure_outcome f =
     require (\<not> (\<not> fr_submission_was_attempted f \<or> fr_accepted_submission_receipt_sha256 f = None
         \<or> fr_terminal_receipt_sha256 f = None \<or> fr_submission_absence_proof f \<noteq> None))
       ''local failure evidence shape is invalid''"

definition failure_post_init :: "failure_receipt \<Rightarrow> unit res" where
  "failure_post_init f =
     checks [check_failure_facts f, check_failure_source f, check_failure_outcome (fr_outcome f) f]"

definition mk_failure :: "failure_receipt \<Rightarrow> failure_receipt res" where
  "mk_failure f = construct (failure_post_init f) f"

definition absence_json :: "absence_proof option \<Rightarrow> json" where
  "absence_json v = (case v of None \<Rightarrow> JNull | Some a \<Rightarrow> absence_payload a)"

definition failure_payload :: "failure_receipt \<Rightarrow> json" where
  "failure_payload f = JObj (fence_members f @
     [(''outcome'', JStr (failure_outcome_name (fr_outcome f))),
      (''source_state'', JStr (fr_source_state f)),
      (''source_lifecycle_version'', JInt (fr_source_lifecycle_version f)),
      (''source_checkpoint_sha256'', JOpt (fr_source_checkpoint_sha256 f)),
      (''submission_was_attempted'', JBool (fr_submission_was_attempted f)),
      (''submission_absence_proof'', absence_json (fr_submission_absence_proof f)),
      (''accepted_submission_receipt_sha256'', JOpt (fr_accepted_submission_receipt_sha256 f)),
      (''terminal_receipt_sha256'', JOpt (fr_terminal_receipt_sha256 f)),
      (''materialization_intent_sha256'', JOpt (fr_materialization_intent_sha256 f)),
      (''local_materialization_receipt_sha256'', JOpt (fr_local_materialization_receipt_sha256 f)),
      (''error_code'', JStr (fr_error_code f)),
      (''error_stage'', JStr (fr_error_stage f)),
      (''error_class'', JStr (fr_error_class f)),
      (''retryable'', JBool (fr_retryable f)),
      (''retry_budget_class'', JStr (fr_retry_budget_class f)),
      (''message'', JStr (fr_message f)),
      (''contract_version'', JStr (fr_contract_version f))])"

subsection \<open>Supersession\<close>

record supersession_receipt = fenced_evidence +
  ss_source_document_id :: string
  ss_source_attempt_generation :: int
  ss_source_state :: string
  ss_source_lifecycle_version :: int
  ss_source_checkpoint_sha256 :: "string option"
  ss_superseding_attempt_id :: string
  ss_superseding_attempt_generation :: int
  ss_superseding_document_id :: string
  ss_superseding_checkpoint_sha256 :: string
  ss_reason_code :: string
  ss_contract_version :: string

definition supersession_post_init :: "supersession_receipt \<Rightarrow> unit res" where
  "supersession_post_init s = checks
     [evidence_contract (ss_contract_version s) SUPERSESSION_RECEIPT_V4_CONTRACT,
      evidence_identities
        [fe_attempt_id s, fe_fence_identity s, ss_source_document_id s, ss_source_state s,
         ss_superseding_attempt_id s, ss_superseding_document_id s, ss_reason_code s],
      evidence_nonnegative (ss_source_lifecycle_version s) ''supersession source version'',
      evidence_positive (ss_source_attempt_generation s) ''supersession source generation'',
      optional_sha (ss_source_checkpoint_sha256 s) ''supersession source checkpoint'',
      evidence_positive (ss_superseding_attempt_generation s) ''superseding attempt generation'',
      require_sha (ss_superseding_checkpoint_sha256 s) ''superseding checkpoint'',
      require (\<not> ss_superseding_attempt_id s = fe_attempt_id s) ''supersession cannot supersede itself'',
      require (\<not> ss_superseding_attempt_generation s \<le> ss_source_attempt_generation s)
        ''superseding attempt generation did not advance'',
      require (\<not> ss_superseding_document_id s \<noteq> ss_source_document_id s)
        ''superseding attempt crossed the document chain'']"

definition mk_supersession :: "supersession_receipt \<Rightarrow> supersession_receipt res" where
  "mk_supersession s = construct (supersession_post_init s) s"

definition supersession_payload :: "supersession_receipt \<Rightarrow> json" where
  "supersession_payload s = JObj (fence_members s @
     [(''source_document_id'', JStr (ss_source_document_id s)),
      (''source_attempt_generation'', JInt (ss_source_attempt_generation s)),
      (''source_state'', JStr (ss_source_state s)),
      (''source_lifecycle_version'', JInt (ss_source_lifecycle_version s)),
      (''source_checkpoint_sha256'', JOpt (ss_source_checkpoint_sha256 s)),
      (''superseding_attempt_id'', JStr (ss_superseding_attempt_id s)),
      (''superseding_attempt_generation'', JInt (ss_superseding_attempt_generation s)),
      (''superseding_document_id'', JStr (ss_superseding_document_id s)),
      (''superseding_checkpoint_sha256'', JStr (ss_superseding_checkpoint_sha256 s)),
      (''reason_code'', JStr (ss_reason_code s)),
      (''contract_version'', JStr (ss_contract_version s))])"

end
