(* ===== verification/StateGraph.thy ===== *)
theory StateGraph
  imports Main
begin

text \<open>
  The contract of a lifecycle graph: the transition tables of the two credit policies are finite
  graphs in which every step climbs a bounded rank and exactly the final states have no successor. From it
  follow that no path is longer than the bound, that no state is visited twice, and that every
  state has a path to a final one.
\<close>

fun graph_path :: "('s \<Rightarrow> 's list) \<Rightarrow> 's list \<Rightarrow> bool" where
  "graph_path next [] = True"
| "graph_path next [s] = True"
| "graph_path next (s # t # ss) = (t \<in> set (next s) \<and> graph_path next (t # ss))"

locale state_graph =
  fixes "next" :: "'s \<Rightarrow> 's list"
    and final :: "'s \<Rightarrow> bool"
    and rank :: "'s \<Rightarrow> nat"
    and bound :: nat
  assumes step_climbs: "t \<in> set (next s) \<Longrightarrow> rank s < rank t"
    and rank_bound: "rank s \<le> bound"
    and final_iff: "final s \<longleftrightarrow> next s = []"
begin

lemma path_length: "graph_path next (s # ss) \<Longrightarrow> rank s + length ss \<le> bound"
proof (induction ss arbitrary: s)
  case Nil
  then show ?case by (simp add: rank_bound)
next
  case (Cons t ss)
  then have "rank t + length ss \<le> bound" "rank s < rank t"
    by (auto intro: step_climbs)
  then show ?case by simp
qed

lemma path_climbs: "graph_path next (s # ss) \<Longrightarrow> t \<in> set ss \<Longrightarrow> rank s < rank t"
proof (induction ss arbitrary: s)
  case (Cons u ss)
  then have "rank s < rank u" "graph_path next (u # ss)" by (auto intro: step_climbs)
  with Cons show ?case by force
qed simp

lemma path_distinct: "graph_path next ss \<Longrightarrow> distinct ss"
proof (induction ss)
  case (Cons s ss)
  have "graph_path next ss" using Cons.prems by (cases ss) auto
  with Cons show ?case using path_climbs [of s ss s] by auto
qed simp

lemma climb_induct [case_names step]:
  assumes "\<And>s. (\<And>t. t \<in> set (next s) \<Longrightarrow> P t) \<Longrightarrow> P s"
  shows "P s"
proof (induction "bound - rank s" arbitrary: s rule: less_induct)
  case less
  show ?case
  proof (rule assms)
    fix t assume "t \<in> set (next s)"
    then have "bound - rank t < bound - rank s"
      using step_climbs [of t s] rank_bound [of t] by simp
    then show "P t" by (rule less)
  qed
qed

lemma reaches_final: "\<exists>ss. graph_path next (s # ss) \<and> final (last (s # ss))"
proof (induction s rule: climb_induct)
  case (step s)
  show ?case
  proof (cases "final s")
    case True
    then show ?thesis by (intro exI [of _ "[]"]) simp
  next
    case False
    then obtain t ts where t: "next s = t # ts" by (cases "next s") (auto simp: final_iff)
    with step obtain ss where "graph_path next (t # ss)" "final (last (t # ss))" by fastforce
    with t show ?thesis by (intro exI [of _ "t # ss"]) simp
  qed
qed

end

end
