(* ===== verification/ResourceCreditEnvelope.thy ===== *)
theory ResourceCreditEnvelope
  imports ResourceCreditShape
begin

text \<open>
  Correctness of the reservation policy of
  \<open>application/contracts/staged_resource_credit.py\<close>: the capped arithmetic computes the formulas
  that the policy record documents, every admissible document gets an envelope, and the
  validator accepts exactly the envelopes that the builder returns.
\<close>

subsection \<open>Hashes and the bytes of the policy\<close>


lemma hex_lower_any: "c \<in> set hex_lower \<Longrightarrow> c \<in> set hex_any"
  by (auto simp: hex_lower_def hex_any_def)

lemma hex_lower_not_space: "c \<in> set hex_lower \<Longrightarrow> \<not> int_space c"
  by (auto simp: hex_lower_def int_space_def code_def)

lemma hex_run_True: "list_all (\<lambda>c. c \<in> set hex_any) cs \<Longrightarrow> hex_run True cs"
  by (induction cs) auto

lemma hex_run_hex: "list_all (\<lambda>c. c \<in> set hex_any) cs \<Longrightarrow> cs \<noteq> [] \<Longrightarrow> hex_run b cs"
  by (cases cs) (auto intro: hex_run_True)

lemma dropWhile_none: "list_all (\<lambda>c. \<not> P c) cs \<Longrightarrow> dropWhile P cs = cs"
  by (cases cs) auto

lemma hex_lower_x: "CHR ''x'' \<notin> set hex_lower" "CHR ''X'' \<notin> set hex_lower"
    "CHR ''+'' \<notin> set hex_lower" "CHR ''-'' \<notin> set hex_lower"
  by (auto simp: hex_lower_def)

lemma no_hex_prefix: "list_all (\<lambda>c. c \<in> set hex_lower) cs \<Longrightarrow> strip_hex_prefix cs = cs"
  by (cases cs; cases "tl cs") (auto simp: strip_hex_prefix_def is_prefix_def hex_lower_x)

lemma no_sign: "list_all (\<lambda>c. c \<in> set hex_lower) cs \<Longrightarrow> strip_sign cs = cs"
  by (cases cs) (auto simp: strip_sign_def hex_lower_x)

text \<open>Every canonical hash passes the test of this module.\<close>

lemma credit_sha_ok_of_is_sha: "is_sha v \<Longrightarrow> credit_sha_ok v"
proof -
  assume v: "is_sha v"
  then have hex: "list_all (\<lambda>c. c \<in> set hex_lower) (drop 7 v)" and ne: "drop 7 v \<noteq> []"
    by (auto simp: is_sha_def)
  have "list_all (\<lambda>c. \<not> int_space c) (drop 7 v)"
    using hex by (simp add: list_all_iff hex_lower_not_space)
  moreover from this have "list_all (\<lambda>c. \<not> int_space c) (rev (drop 7 v))"
    by (simp only: list_all_iff set_rev)
  moreover have "list_all (\<lambda>c. c \<in> set hex_any) (drop 7 v)"
    using hex by (simp only: list_all_iff) (blast intro: hex_lower_any)
  ultimately have "int16_accepts (drop 7 v)"
    using hex ne by (simp only: int16_accepts_def dropWhile_none rev_rev_ident no_sign no_hex_prefix)
       (rule hex_run_hex)
  with v show ?thesis by (simp add: credit_sha_ok_def is_sha_def)
qed

lemma credit_require_sha_Inr [simp]: "credit_require_sha v label = Inr u \<longleftrightarrow> credit_sha_ok v"
  by (simp add: credit_require_sha_def)

lemma text_bound_sorted: "text_bound (JArr (map JStr (sort xs))) = text_bound (JArr (map JStr xs))"
proof -
  have "sum_list (map (\<lambda>s. 1 + text_bound (JStr s)) (sort_key (\<lambda>s. s) xs)) = sum_list (map (\<lambda>s. 1 + text_bound (JStr s)) xs)"
    by (rule sum_list_sort_key)
  then show ?thesis by (simp add: comp_def)
qed

lemma transitions_bound: "text_bound transitions_payload \<le> 4000"
  unfolding transitions_payload_def all_states_def
  by (simp add: text_bound_sorted del: sort_key_simps) simp

lemma mechanics_bounds:
  "text_bound (JObj reservation_mechanics) \<le> 10000"
  "text_bound (JObj state_mechanics) \<le> 7000"
  "text_bound (JObj reader_policy) \<le> 2000"
  "text_bound (JArr (map bucket_payload buckets)) \<le> 4000"
  by (simp_all add: reservation_mechanics_def state_mechanics_def reader_policy_def buckets_def bucket_payload_def
     int_text_def nat_text.simps dec_digit_def)

lemma dimensions_bound: "text_bound (JArr (map (\<lambda>(name, _). JStr name) (rcv_items rcv_zero))) \<le> 2000"
  by (simp add: rcv_items_def)

lemma policy_bound: "2 * text_bound policy_payload \<le> MAX_CANONICAL_BYTES"
proof -
  have "text_bound policy_payload \<le> 32000"
    using transitions_bound mechanics_bounds length_int_text [of MAX_INT] dimensions_bound
    by (simp add: policy_payload_def STAGED_RESOURCE_CREDIT_POLICY_CONTRACT_def
       del: text_bound.simps(5,6) add: text_bound.simps(6) [of "(''contract_version'', _) # _"])
  then show ?thesis by (simp add: MAX_CANONICAL_BYTES_def)
qed

lemma policy_sha256_value: "policy_sha256 = Inr (digest (json_bytes policy_payload))"
  by (simp add: policy_sha256_def policy_exact_bytes_def credit_canonical_json_def
      canonical_json_total [OF policy_bound])


subsection \<open>The derived reservation\<close>

text \<open>The formulas that the policy record states, over unbounded integers.\<close>

definition documented_reservation ::
  "mineru_process_profile \<Rightarrow> int \<Rightarrow> int \<Rightarrow> int \<Rightarrow> int \<Rightarrow> resource_credit_vector" where
  "documented_reservation p bytes pages result_multiplier temp_multiplier =
     (let provider = min (result_reservation_bytes p * result_multiplier)
            (min (terminal_output_bytes_limit p) (max_unacked_result_bytes p));
          output = min (temporary_disk_bytes_limit p) (provider * temp_multiplier)
      in rcv_zero
        \<lparr>documents := 1, snapshot_items := 1, snapshot_bytes := bytes, remote_waits := 1,
         provider_tasks := 1, provider_result_bytes := provider, materialization_items := 1,
         compressed_bytes := provider,
         decoded_bytes := min (decoded_payload_bytes_limit p)
           (pages * ceil_div (rasterized_page_bytes_limit p) (resident_pages_limit p)),
         temp_disk_bytes := min (temporary_disk_bytes_limit p) (provider + output),
         output_items := 1, output_bytes := output, output_pages := pages, ack_items := 1\<rparr>)"

lemma provider_cap_min:
  assumes "valid_profile p" "1 \<le> rm"
  shows "provider_cap p rm = min (result_reservation_bytes p * rm)
    (min (terminal_output_bytes_limit p) (max_unacked_result_bytes p))"
proof -
  note ceilings = profile_ceilings [OF assms(1)]
  have "capped_mul (result_reservation_bytes p) rm (min (terminal_output_bytes_limit p) (max_unacked_result_bytes p))
      = min (min (terminal_output_bytes_limit p) (max_unacked_result_bytes p)) (result_reservation_bytes p * rm)"
    using ceilings assms(2) by (intro capped_mul_min) auto
  then show ?thesis by (simp add: provider_cap_def min.commute)
qed

lemma provider_cap_range:
  assumes "valid_profile p" "1 \<le> rm"
  shows "1 \<le> provider_cap p rm" "provider_cap p rm \<le> MAX_INT"
proof -
  note ceilings = profile_ceilings [OF assms(1)]
  have "1 * 1 \<le> result_reservation_bytes p * rm"
    using ceilings assms(2) by (intro mult_mono) auto
  with ceilings show "1 \<le> provider_cap p rm" "provider_cap p rm \<le> MAX_INT"
    unfolding provider_cap_min [OF assms] by auto
qed

lemma page_bytes_pos: "valid_profile p \<Longrightarrow> 0 < ceil_div (rasterized_page_bytes_limit p) (resident_pages_limit p)"
  using profile_ceilings [of p] by (auto intro!: ceil_div_pos)

lemma decoded_cap_min:
  assumes "valid_profile p" "1 \<le> pages"
  shows "decoded_cap p pages = min (decoded_payload_bytes_limit p)
    (pages * ceil_div (rasterized_page_bytes_limit p) (resident_pages_limit p))"
  using profile_ceilings [OF assms(1)] page_bytes_pos [OF assms(1)] assms(2)
  by (simp add: decoded_cap_def capped_mul_min)

lemma decoded_cap_range:
  assumes "valid_profile p" "1 \<le> pages"
  shows "1 \<le> decoded_cap p pages" "decoded_cap p pages \<le> MAX_INT"
proof -
  note ceilings = profile_ceilings [OF assms(1)]
  have "1 * 1 \<le> pages * ceil_div (rasterized_page_bytes_limit p) (resident_pages_limit p)"
    using page_bytes_pos [OF assms(1)] assms(2) by (intro mult_mono) auto
  with ceilings show "1 \<le> decoded_cap p pages" "decoded_cap p pages \<le> MAX_INT"
    unfolding decoded_cap_min [OF assms] by auto
qed

lemma output_cap_min:
  assumes "valid_profile p" "1 \<le> provider" "1 \<le> tm"
  shows "output_cap p provider tm = min (temporary_disk_bytes_limit p) (provider * tm)"
  using profile_ceilings [OF assms(1)] assms(2,3) by (simp add: output_cap_def capped_mul_min)

lemma output_cap_range:
  assumes "valid_profile p" "1 \<le> provider" "1 \<le> tm"
  shows "1 \<le> output_cap p provider tm" "output_cap p provider tm \<le> MAX_INT"
proof -
  have "1 * 1 \<le> provider * tm" using assms(2,3) by (intro mult_mono) auto
  with profile_ceilings [OF assms(1)] show "1 \<le> output_cap p provider tm" "output_cap p provider tm \<le> MAX_INT"
    unfolding output_cap_min [OF assms] by auto
qed

lemma temp_cap_min:
  "1 \<le> output \<Longrightarrow> temp_cap p provider output = min (temporary_disk_bytes_limit p) (provider + output)"
  by (simp add: temp_cap_def capped_add_min)

lemma temp_cap_range:
  assumes "valid_profile p" "1 \<le> provider" "1 \<le> output"
  shows "1 \<le> temp_cap p provider output" "temp_cap p provider output \<le> MAX_INT"
  using profile_ceilings [OF assms(1)] assms(2,3) by (auto simp: temp_cap_min)

lemma derived_reservation_documented:
  assumes "valid_profile p" "1 \<le> pages" "1 \<le> rm" "1 \<le> tm"
  shows "derived_reservation p bytes pages rm tm = documented_reservation p bytes pages rm tm"
proof -
  note provider = provider_cap_range [OF assms(1,3)]
  note out = output_cap_range [OF assms(1) provider(1) assms(4)]
  show ?thesis
    by (simp only: derived_reservation_def documented_reservation_def Let_def rcv_zero_def
      resource_credit_vector.simps
      provider_cap_min [OF assms(1,3), symmetric] output_cap_min [OF assms(1) provider(1) assms(4), symmetric]
      decoded_cap_min [OF assms(1,2), symmetric] temp_cap_min [OF out(1)])
qed

lemma derived_reservation_valid:
  assumes "valid_profile p" "1 \<le> pages" "pages \<le> MAX_INT" "1 \<le> bytes" "bytes \<le> MAX_INT" "1 \<le> rm" "1 \<le> tm"
  shows "valid_rcv (derived_reservation p bytes pages rm tm)"
proof -
  note provider = provider_cap_range [OF assms(1,6)]
  note out = output_cap_range [OF assms(1) provider(1) assms(7)]
  note temp = temp_cap_range [OF assms(1) provider(1) out(1)]
  note decoded = decoded_cap_range [OF assms(1,2)]
  show ?thesis
    using provider out temp decoded assms
    by (simp add: valid_rcv_fields derived_reservation_def Let_def) (simp add: in_range_def)
qed

text \<open>The full-fraction bucket admits every document the profile admits.\<close>

lemma select_bucket_total:
  assumes "bytes \<le> bl" "pages \<le> pl"
  shows "\<exists>b. select_bucket bytes pages bl pl buckets = Some b"
  using assms by (simp add: buckets_def)

lemma select_bucket_listed: "select_bucket b p bl pl bs = Some x \<Longrightarrow> x \<in> set bs"
  by (induction b p bl pl bs rule: select_bucket.induct) (auto split: if_splits)

lemma buckets_multipliers: "(name, n, d, rm, tm) \<in> set buckets \<Longrightarrow> 1 \<le> rm \<and> 1 \<le> tm"
  by (auto simp: buckets_def)

subsection \<open>The canonical bytes of a reservation input fit\<close>

lemma rcv_json_bound: "valid_rcv v \<Longrightarrow> text_bound (rcv_json v) \<le> 2000"
proof -
  assume "valid_rcv v"
  then have "list_all (\<lambda>i. length (int_text i) \<le> 19) (rcv_comps v)"
    by (auto simp: valid_rcv_iff list_all_iff in_range_def intro: length_int_text)
  then show ?thesis
    by (simp add: rcv_json_def rcv_items_def rcv_comps_def)
qed

lemma credit_sha_ok_length: "credit_sha_ok s \<Longrightarrow> length s = 71"
  by (simp add: credit_sha_ok_def)

lemma reservation_input_bound:
  assumes "reservation_input_post_init r = Inr ()"
  shows "2 * text_bound (reservation_input_payload r) \<le> MAX_CANONICAL_BYTES"
proof -
  note parts = assms [unfolded reservation_input_post_init_def checks_Cons_Inr]
  have "valid_rcv (ri_reservation r)"
    using parts by (simp add: valid_rcv_def)
  then have "text_bound (rcv_json (ri_reservation r)) \<le> 2000" by (rule rcv_json_bound)
  moreover have "length (int_text (ri_source_byte_count r)) \<le> 19" "length (int_text (ri_source_page_count r)) \<le> 19"
    using parts by (auto intro: length_int_text)
  moreover have "length (bucket_name (ri_bucket r)) \<le> 7" by (cases "ri_bucket r") auto
  moreover have "length (ri_source_pdf_sha256 r) = 71" "length (ri_process_profile_sha256 r) = 71"
     "length (ri_credit_policy_sha256 r) = 71"
     "ri_contract_version r = STAGED_RESOURCE_RESERVATION_INPUT_CONTRACT"
    using parts by (auto intro: credit_sha_ok_length)
  ultimately show ?thesis
    by (simp add: reservation_input_payload_def MAX_CANONICAL_BYTES_def
      STAGED_RESOURCE_RESERVATION_INPUT_CONTRACT_def)
qed

lemma encode_reservation_input_total:
  assumes "reservation_input_post_init r = Inr ()"
  shows "encode_resource_reservation_input r = Inr
     \<lparr>eri_value = r, eri_exact_bytes = json_bytes (reservation_input_payload r),
      eri_sha256 = digest (json_bytes (reservation_input_payload r)),
      eri_byte_count = int (length (json_bytes (reservation_input_payload r)))\<rparr>"
proof -
  have exact: "credit_canonical_json (reservation_input_payload r) = Inr (json_bytes (reservation_input_payload r))"
    unfolding credit_canonical_json_def
    by (rule canonical_json_total [OF reservation_input_bound [OF assms]])
  then have "length (json_bytes (reservation_input_payload r)) \<le> MAX_CANONICAL_BYTES"
    by (simp add: credit_canonical_json_def canonical_json_Inr)
  with exact json_bytes_nonempty [of "reservation_input_payload r"] show ?thesis
    by (simp add: encode_resource_reservation_input_def mk_encoded_reservation_input_def
       encoded_reservation_input_post_init_def)
qed


subsection \<open>Building and validating an envelope\<close>

text \<open>What the source facts must satisfy.\<close>

definition source_facts_ok :: "mineru_process_profile \<Rightarrow> string \<Rightarrow> int \<Rightarrow> int \<Rightarrow> bool" where
  "source_facts_ok p sha bytes pages =
     (credit_sha_ok sha \<and> 1 \<le> bytes \<and> bytes \<le> source_pdf_bytes_limit p
       \<and> 1 \<le> pages \<and> pages \<le> unpublished_pages_limit p)"

definition selected_bucket :: "mineru_process_profile \<Rightarrow> int \<Rightarrow> int \<Rightarrow> bucket \<times> int \<times> int \<times> int \<times> int" where
  "selected_bucket p bytes pages =
     the (select_bucket bytes pages (source_pdf_bytes_limit p) (unpublished_pages_limit p) buckets)"

text \<open>The reservation input of a document, in closed form.\<close>

definition expected_input ::
  "mineru_process_profile \<Rightarrow> string \<Rightarrow> int \<Rightarrow> int \<Rightarrow> resource_reservation_input" where
  "expected_input p sha bytes pages =
     (case selected_bucket p bytes pages of (name, _, _, rm, tm) \<Rightarrow>
       \<lparr>ri_source_pdf_sha256 = sha, ri_source_byte_count = bytes,
        ri_source_page_count = pages, ri_process_profile_sha256 = profile_sha256 p,
        ri_credit_policy_sha256 = digest (json_bytes policy_payload), ri_bucket = name,
        ri_reservation = documented_reservation p bytes pages rm tm,
        ri_contract_version = STAGED_RESOURCE_RESERVATION_INPUT_CONTRACT\<rparr>)"

definition expected_envelope ::
  "mineru_process_profile \<Rightarrow> string \<Rightarrow> int \<Rightarrow> int \<Rightarrow> resource_credit_envelope" where
  "expected_envelope p sha bytes pages =
     (let r = expected_input p sha bytes pages;
          exact = json_bytes (reservation_input_payload r)
      in \<lparr>env_process_profile_sha256 = profile_sha256 p,
          env_credit_policy_sha256 = digest (json_bytes policy_payload),
          env_reservation_input = \<lparr>eri_value = r, eri_exact_bytes = exact, eri_sha256 = digest exact,
            eri_byte_count = int (length exact)\<rparr>,
          env_reservation = ri_reservation r\<rparr>)"

lemma select_bucket_selected:
  assumes "source_facts_ok p sha bytes pages"
  shows "select_bucket bytes pages (source_pdf_bytes_limit p) (unpublished_pages_limit p) buckets
    = Some (selected_bucket p bytes pages)"
  using select_bucket_total [of bytes "source_pdf_bytes_limit p" pages "unpublished_pages_limit p"] assms
  by (auto simp: selected_bucket_def source_facts_ok_def)

lemma envelope_source_facts:
  assumes "build_staged_resource_credit_envelope p sha bytes pages = Inr e"
  shows "source_facts_ok p sha bytes pages"
  using assms by (auto simp: build_staged_resource_credit_envelope_def source_facts_ok_def)

lemma build_envelope_expected:
  assumes "valid_profile p" and ok: "source_facts_ok p sha bytes pages"
  shows "build_staged_resource_credit_envelope p sha bytes pages = Inr (expected_envelope p sha bytes pages)"
proof -
  obtain name n d rm tm where sel: "selected_bucket p bytes pages = (name, n, d, rm, tm)"
    by (cases "selected_bucket p bytes pages") auto
  have mem: "(name, n, d, rm, tm) \<in> set buckets"
    using select_bucket_listed [OF select_bucket_selected [OF ok]] sel by simp
  have mult: "1 \<le> rm" "1 \<le> tm" using buckets_multipliers [OF mem] by auto
  have bounds: "bytes \<le> MAX_INT" "pages \<le> MAX_INT" "1 \<le> bytes" "1 \<le> pages"
    using profile_ceilings [OF assms(1)] ok by (auto simp: source_facts_ok_def)
  have doc: "derived_reservation p bytes pages rm tm = documented_reservation p bytes pages rm tm"
    using derived_reservation_documented [OF assms(1) bounds(4) mult] .
  have valid: "valid_rcv (documented_reservation p bytes pages rm tm)"
    using derived_reservation_valid [OF assms(1) bounds(4,2,3,1) mult] doc by simp
  have "name \<in> set (map fst buckets)" using mem by force
  then have input: "reservation_input_post_init (expected_input p sha bytes pages) = Inr ()"
    using valid ok bounds
    by (simp add: expected_input_def sel reservation_input_post_init_def source_facts_ok_def
      valid_rcv_def credit_sha_ok_of_is_sha del: set_map)
  have built: "mk_reservation_input (expected_input p sha bytes pages) = Inr (expected_input p sha bytes pages)"
    using input by (simp add: mk_reservation_input_def)
  have pre: "checks
       [credit_require_sha sha ''source PDF'', positive bytes ''source byte count'',
        positive pages ''source page count'',
        require (\<not> (bytes > source_pdf_bytes_limit p \<or> pages > unpublished_pages_limit p))
          ''source facts exceed process profile global ceilings''] = Inr ()"
    using ok bounds by (simp add: source_facts_ok_def)
  show ?thesis
    unfolding build_staged_resource_credit_envelope_def pre select_bucket_selected [OF ok] sel
    using built encode_reservation_input_total [OF input]
    by (simp add: doc mk_rcv_def valid [unfolded valid_rcv_def] construct_def policy_sha256_value
      mk_envelope_def envelope_post_init_def expected_envelope_def expected_input_def sel Let_def)
qed

lemma build_envelope_iff:
  assumes "valid_profile p"
  shows "build_staged_resource_credit_envelope p sha bytes pages = Inr e \<longleftrightarrow>
    source_facts_ok p sha bytes pages \<and> e = expected_envelope p sha bytes pages"
  using build_envelope_expected [OF assms] envelope_source_facts by fastforce

lemma validate_envelope_iff:
  assumes "valid_profile p"
  shows "validate_staged_resource_credit_envelope e p = Inr () \<longleftrightarrow>
    (\<exists>sha bytes pages. build_staged_resource_credit_envelope p sha bytes pages = Inr e)"
proof
  assume "validate_staged_resource_credit_envelope e p = Inr ()"
  then show "\<exists>sha bytes pages. build_staged_resource_credit_envelope p sha bytes pages = Inr e"
    by (auto simp: validate_staged_resource_credit_envelope_def)
next
  assume "\<exists>sha bytes pages. build_staged_resource_credit_envelope p sha bytes pages = Inr e"
  then obtain sha bytes pages where built: "build_staged_resource_credit_envelope p sha bytes pages = Inr e"
    by blast
  then have e: "e = expected_envelope p sha bytes pages" using build_envelope_iff [OF assms] by blast
  obtain name n d rm tm where sel: "selected_bucket p bytes pages = (name, n, d, rm, tm)"
    by (cases "selected_bucket p bytes pages") auto
  from e have "ri_source_pdf_sha256 (eri_value (env_reservation_input e)) = sha"
    "ri_source_byte_count (eri_value (env_reservation_input e)) = bytes"
    "ri_source_page_count (eri_value (env_reservation_input e)) = pages"
    by (simp_all add: expected_envelope_def expected_input_def Let_def sel)
  with built show "validate_staged_resource_credit_envelope e p = Inr ()"
    by (simp add: validate_staged_resource_credit_envelope_def)
qed


subsection \<open>Properties\<close>

text \<open>A fraction of a ceiling covers the document, compared without rounding.\<close>

definition covers :: "int \<Rightarrow> int \<Rightarrow> int \<Rightarrow> int \<Rightarrow> (bucket \<times> int \<times> int \<times> int \<times> int) \<Rightarrow> bool" where
  "covers bytes pages byte_limit page_limit b =
     (case b of (_, n, d, _, _) \<Rightarrow> bytes * d \<le> byte_limit * n \<and> pages * d \<le> page_limit * n)"

lemma le_floor_fraction: "0 < d \<Longrightarrow> v \<le> floor_fraction l n d \<longleftrightarrow> v * d \<le> l * n"
  using div_less_iff_less_times [of d "l * n" v] by (auto simp: floor_fraction_eq not_less [symmetric])

lemma select_bucket_first:
  assumes "\<forall>(name, n, d, rm, tm) \<in> set bs. 0 < d"
  shows "select_bucket b p bl pl bs = find (covers b p bl pl) bs"
  using assms
proof (induction bs)
  case (Cons x bs)
  obtain name n d rm tm where "x = (name, n, d, rm, tm)" by (cases x) auto
  with Cons show ?case by (simp add: covers_def le_floor_fraction)
qed simp

text \<open>The bucket of a document is the first of regular, heavy and huge whose share of both
  profile ceilings covers it exactly, as a comparison of rationals; so a document larger than one
  eighth (one half) of either ceiling never gets the regular (heavy) bucket, and every document
  within the ceilings gets a bucket.\<close>

theorem bucket_selection:
  "select_bucket bytes pages byte_limit page_limit buckets =
     (if 8 * bytes \<le> byte_limit \<and> 8 * pages \<le> page_limit then Some (Regular, 1, 8, 1, 2)
      else if 2 * bytes \<le> byte_limit \<and> 2 * pages \<le> page_limit then Some (Heavy, 1, 2, 2, 3)
      else if bytes \<le> byte_limit \<and> pages \<le> page_limit then Some (Huge, 1, 1, 4, 4)
      else None)"
proof -
  have "select_bucket bytes pages byte_limit page_limit buckets
      = find (covers bytes pages byte_limit page_limit) buckets"
    by (rule select_bucket_first) (simp add: buckets_def)
  then show ?thesis by (simp add: buckets_def covers_def mult.commute)
qed

text \<open>C4: For a valid process profile, the builder of a credit envelope returns exactly when the
  source hash passes, and the byte and page counts are positive and within the profile's
  ceilings; what it returns is the envelope whose reservation is given by the formulas written in the
  policy record, over unbounded integers, so no capped or overflowing step distorts it and no
  admissible document is refused.\<close>

theorem envelope_reservation_documented:
  assumes "valid_profile p"
  shows "build_staged_resource_credit_envelope p sha bytes pages = Inr e \<longleftrightarrow>
    source_facts_ok p sha bytes pages \<and> e = expected_envelope p sha bytes pages"
  by (rule build_envelope_iff [OF assms])

theorem envelope_reservation_documented_witness:
  "\<exists>e. build_staged_resource_credit_envelope profile_example digest_example 5000 12 = Inr e"
proof -
  have "source_facts_ok profile_example digest_example 5000 12"
    by (simp add: source_facts_ok_def credit_sha_ok_of_is_sha profile_example_def)
  then show ?thesis
    using envelope_reservation_documented [OF valid_profile_example, of digest_example 5000 12] by blast
qed

text \<open>C19: For a valid profile, the validator accepts an envelope exactly when it is what the builder
  returns for some source document: any drift in its bytes, hash, reservation or
  identities is refused.\<close>

theorem envelope_validation_exact:
  assumes "valid_profile p"
  shows "validate_staged_resource_credit_envelope e p = Inr () \<longleftrightarrow>
    (\<exists>sha bytes pages. build_staged_resource_credit_envelope p sha bytes pages = Inr e)"
  by (rule validate_envelope_iff [OF assms])

theorem envelope_validation_exact_witness:
  "validate_staged_resource_credit_envelope
     (expected_envelope profile_example digest_example 5000 12) profile_example = Inr ()"
proof -
  have "source_facts_ok profile_example digest_example 5000 12"
    by (simp add: source_facts_ok_def credit_sha_ok_of_is_sha profile_example_def)
  then have "build_staged_resource_credit_envelope profile_example digest_example 5000 12
      = Inr (expected_envelope profile_example digest_example 5000 12)"
    by (rule build_envelope_expected [OF valid_profile_example])
  then show ?thesis
    using envelope_validation_exact [OF valid_profile_example] by blast
qed

lemma expected_reservation:
  obtains name n d rm tm where "selected_bucket p bytes pages = (name, n, d, rm, tm)"
    and "env_reservation (expected_envelope p sha bytes pages) = documented_reservation p bytes pages rm tm"
  by (cases "selected_bucket p bytes pages") (auto simp: expected_envelope_def expected_input_def Let_def)

text \<open>An envelope never reserves more than the process profile allows: its provider result fits
  the terminal-output and the unacknowledged-result ceilings, its output and temporary bytes the
  temporary-disk ceiling, its decoded bytes the decode ceiling; and the per-attempt
  allowance made from it admits an observation exactly when it fits that reservation.\<close>

theorem envelope_within_profile:
  assumes "valid_profile p"
    and "build_staged_resource_credit_envelope p sha bytes pages = Inr e"
  shows "provider_result_bytes (env_reservation e) \<le> terminal_output_bytes_limit p
    \<and> provider_result_bytes (env_reservation e) \<le> max_unacked_result_bytes p
    \<and> output_bytes (env_reservation e) \<le> temporary_disk_bytes_limit p
    \<and> temp_disk_bytes (env_reservation e) \<le> temporary_disk_bytes_limit p
    \<and> decoded_bytes (env_reservation e) \<le> decoded_payload_bytes_limit p
    \<and> (\<exists>a. per_attempt_resource_allowance e = Inr a \<and>
      (\<forall>observed. require_fits a observed = Inr () \<longleftrightarrow> rcv_fits observed (env_reservation e)))"
proof -
  have e: "e = expected_envelope p sha bytes pages" using assms by (simp add: build_envelope_iff)
  obtain rm tm where r: "env_reservation e = documented_reservation p bytes pages rm tm"
    unfolding e by (rule expected_reservation)
  have "\<exists>a. per_attempt_resource_allowance e = Inr a \<and>
      (\<forall>observed. require_fits a observed = Inr () \<longleftrightarrow> rcv_fits observed (env_reservation e))"
    by (simp add: per_attempt_resource_allowance_def mk_allowance_def allowance_post_init_def require_fits_def)
       (simp add: e expected_envelope_def Let_def credit_sha_ok_of_is_sha)
  moreover have "provider_result_bytes (env_reservation e) \<le> terminal_output_bytes_limit p"
    "provider_result_bytes (env_reservation e) \<le> max_unacked_result_bytes p"
    "output_bytes (env_reservation e) \<le> temporary_disk_bytes_limit p"
    "temp_disk_bytes (env_reservation e) \<le> temporary_disk_bytes_limit p"
    "decoded_bytes (env_reservation e) \<le> decoded_payload_bytes_limit p"
    by (simp_all add: r documented_reservation_def Let_def)
  ultimately show ?thesis by blast
qed

theorem envelope_within_profile_witness:
  "provider_result_bytes (env_reservation (expected_envelope profile_example digest_example 5000 12))
     \<le> 268435456"
proof -
  have "source_facts_ok profile_example digest_example 5000 12"
    by (simp add: source_facts_ok_def credit_sha_ok_of_is_sha profile_example_def)
  then have "build_staged_resource_credit_envelope profile_example digest_example 5000 12
      = Inr (expected_envelope profile_example digest_example 5000 12)"
    by (rule build_envelope_expected [OF valid_profile_example])
  from envelope_within_profile [OF valid_profile_example this] show ?thesis
    by (simp add: profile_example_def)
qed

text \<open>C20: The hash test of this module accepts every canonical hash, and also texts that the
  canonical form excludes: upper-case digits, a \<open>0x\<close> prefix, an underscore, a sign and surrounding
  blanks all pass, because the remainder is only handed to \<open>int(_, 16)\<close>.\<close>

theorem credit_sha_weaker_than_canonical:
  "(is_sha v \<longrightarrow> credit_sha_ok v)
   \<and> (\<forall>s \<in> {''0xABCDEF'' @ replicate 56 (CHR ''0''), ''+'' @ replicate 63 (CHR ''1''),
              replicate 31 (CHR ''a'') @ ''_'' @ replicate 32 (CHR ''b''), '' '' @ replicate 63 (CHR ''c'')}.
        credit_sha_ok (''sha256:'' @ s) \<and> \<not> is_sha (''sha256:'' @ s))"
proof -
  have "list_all (\<lambda>s. credit_sha_ok (''sha256:'' @ s) \<and> \<not> is_sha (''sha256:'' @ s))
     [''0xABCDEF'' @ replicate 56 (CHR ''0''), ''+'' @ replicate 63 (CHR ''1''),
      replicate 31 (CHR ''a'') @ ''_'' @ replicate 32 (CHR ''b''), '' '' @ replicate 63 (CHR ''c'')]"
    by code_simp
  then show ?thesis using credit_sha_ok_of_is_sha [of v] by simp
qed

theorem credit_sha_weaker_than_canonical_witness: 
  "credit_sha_ok (''sha256:'' @ '' '' @ replicate 63 (CHR ''c''))"
  using credit_sha_weaker_than_canonical [of "''''"] by simp

end
