(* ===== verification/CheckpointLifecycle.thy ===== *)
theory CheckpointLifecycle
  imports Checkpoint StateGraph ResourceCreditEnvelope
begin

text \<open>
  Correctness of the checkpoint chain: canonical bytes never overflow their envelope, the exact
  conditions under which a transition succeeds, and the invariants of every chain of checkpoints that
  the builders and \<open>advance_remote_parse_checkpoint_v4\<close> can produce.
\<close>

subsection \<open>The graph of states\<close>

fun state_rank :: "checkpoint_state \<Rightarrow> nat" where
  "state_rank Prepared = 0"
| "state_rank Reconciling = 1"
| "state_rank Submitted = 2"
| "state_rank Remote_terminal = 3"
| "state_rank Materializing = 4"
| "state_rank Local_materialized = 5"
| "state_rank Publish_committed = 6"
| "state_rank Cleanup_pending = 7"
| "state_rank Ack_pending = 8"
| "state_rank _ = 9"

interpretation v4: state_graph next_states is_final state_rank 9
proof
  fix s t :: checkpoint_state
  show "t \<in> set (next_states s) \<Longrightarrow> state_rank s < state_rank t"
    by (cases s) (auto simp: next_states_def)
  show "state_rank s \<le> 9" by (cases s) auto
  show "is_final s \<longleftrightarrow> next_states s = []"
    by (cases s) (auto simp: next_states_def is_final_def final_states_def)
qed

text \<open>The evidence table has a key for every transition of the graph, so its lookup never raises.\<close>

lemma allowed_new_evidence_total:
  assumes "t \<in> set (next_states s)"
  obtains a where "allowed_new_evidence (s, t) = Some a"
  using assms
  by (cases s) (auto simp: next_states_def allowed_new_evidence_def allowed_new_evidence_table_def)

subsection \<open>Canonical bytes\<close>

lemma JOpt_bound: "optional_sha v label = Inr () \<Longrightarrow> text_bound (JOpt v) \<le> 428"
  by (cases v) (auto simp: JOpt_def is_sha_def)

lemma evidence_bound:
  assumes "check_evidence_hashes c = Inr ()"
  shows "sum_list (map (\<lambda>kv. 4 + 6 * length (fst kv) + text_bound (snd kv))
      (map (\<lambda>e. (evidence_name e, JOpt (cp_evidence c e))) evidence_fields)) \<le> 9000"
proof -
  have "text_bound (JOpt (cp_evidence c e)) \<le> 428" for e
  proof -
    have "e \<in> set evidence_fields" by (cases e) (simp_all add: evidence_fields_def)
    with assms show ?thesis
      by (auto simp: check_evidence_hashes_def intro!: JOpt_bound [of _ "evidence_name e"])
  qed
  note b = this
  show ?thesis
    using b [of Preparation_intent] b [of Snapshot_receipt] b [of Submission_intent]
      b [of Accepted_submission] b [of Terminal_receipt] b [of Materialization_intent]
      b [of Local_materialization_receipt] b [of Publication_winner] b [of Failure_receipt]
      b [of Supersession_receipt] b [of Cleanup_plan] b [of Cleanup_receipt] b [of Ack_receipt]
    by (simp add: evidence_fields_def)
qed


lemma valid_checkpoint_iff: "valid_checkpoint c \<longleftrightarrow>
    check_checkpoint_facts c = Inr () \<and> check_evidence_hashes c = Inr () \<and>
    validate_state_evidence c = Inr () \<and> validate_evidence_frontier c = Inr () \<and>
    checkpoint_credit_shape c = Inr ()"
  by (simp add: valid_checkpoint_def checkpoint_post_init_def)

lemma mk_checkpoint_Inr [simp]: "mk_checkpoint c = Inr d \<longleftrightarrow> valid_checkpoint c \<and> d = c"
  by (simp add: mk_checkpoint_def valid_checkpoint_def)

lemma state_name_length: "length (state_name s) \<le> 21"
  by (cases s) auto

lemma is_sha_length: "is_sha s \<Longrightarrow> length s = 71"
  by (simp add: is_sha_def)

lemma checkpoint_payload_bound:
  assumes "valid_checkpoint c"
  shows "2 * text_bound (checkpoint_payload c) \<le> MAX_BYTES"
proof -
  have facts: "check_checkpoint_facts c = Inr ()" and hashes: "check_evidence_hashes c = Inr ()"
    using assms by (simp_all add: valid_checkpoint_iff)
  note parts = facts [unfolded check_checkpoint_facts_def checks_Cons_Inr]
  have ids: "sum_list (map (\<lambda>kv. 4 + 6 * length (fst kv) + text_bound (snd kv)) (identity_members c)) \<le> 13000"
    using parts by (intro identity_members_bound) simp
  have evidence: "sum_list (map (\<lambda>kv. 4 + 6 * length (fst kv) + text_bound (snd kv))
      (map (\<lambda>e. (evidence_name e, JOpt (cp_evidence c e))) evidence_fields)) \<le> 9000"
    by (rule evidence_bound [OF hashes])
  have credit: "text_bound (rcv_json (cp_held_resource_credit c)) \<le> 2000"
    using parts by (intro rcv_json_bound) (simp add: valid_rcv_def)
  have prev: "text_bound (JOpt (cp_previous_checkpoint_sha256 c)) \<le> 428"
    using parts by (intro JOpt_bound) simp
  have ints: "length (int_text (cp_attempt_generation c)) \<le> 19" "length (int_text (cp_lifecycle_version c)) \<le> 19"
    "length (int_text (cp_source_byte_count c)) \<le> 19" "length (int_text (cp_source_page_count c)) \<le> 19"
    using parts by (auto simp: in_range_def intro!: length_int_text)
  have shas: "length (cp_source_pdf_sha256 c) = 71" "length (cp_request_sha256 c) = 71"
    "length (cp_runtime_epoch_sha256 c) = 71" "length (cp_process_profile_sha256 c) = 71"
    "length (cp_credit_policy_sha256 c) = 71" "length (cp_reservation_input_sha256 c) = 71"
    "cp_contract_version c = CHECKPOINT_V4_CONTRACT"
    using parts by (auto intro: is_sha_length)
  have "text_bound (checkpoint_payload c) \<le> 50000"
    using ids evidence credit prev ints shas state_name_length [of "cp_state c"]
    by (simp add: checkpoint_payload_def CHECKPOINT_V4_CONTRACT_def del: map_map)
  then show ?thesis by (simp add: MAX_BYTES_def)
qed

lemma checkpoint_bytes_total:
  assumes "valid_checkpoint c"
  shows "checkpoint_canonical_bytes c = Inr (json_bytes (checkpoint_payload c))"
  unfolding checkpoint_canonical_bytes_def lifecycle_json_def
  by (rule canonical_json_total [OF checkpoint_payload_bound [OF assms]])

definition checkpoint_digest :: "remote_parse_checkpoint \<Rightarrow> string" where
  "checkpoint_digest c = digest (json_bytes (checkpoint_payload c))"

lemma checkpoint_sha256_total: "valid_checkpoint c \<Longrightarrow> checkpoint_sha256 c = Inr (checkpoint_digest c)"
  by (simp add: checkpoint_sha256_def checkpoint_bytes_total digest_of_def checkpoint_digest_def)

subsection \<open>When a transition succeeds\<close>

lemma evidence_of_name [simp]: "evidence_of_name (evidence_name e) = Some e"
  by (cases e) (simp_all add: evidence_of_name_def evidence_fields_def)

lemma evidence_of_name_Some: "evidence_of_name n = Some e \<Longrightarrow> evidence_name e = n"
  by (auto simp: evidence_of_name_def find_Some_iff)

lemma in_evidence_fields [simp]: "e \<in> set evidence_fields"
  by (cases e) (simp_all add: evidence_fields_def)

text \<open>The updates only add evidence.\<close>

lemma apply_updates_extends:
  "apply_updates us vals = Inr new \<Longrightarrow> vals e \<noteq> None \<Longrightarrow> new e = vals e"
proof (induction us arbitrary: vals)
  case (Cons u us)
  obtain n v where u: "u = (n, v)" by (cases u) auto
  from Cons.prems(1) obtain f where f: "evidence_of_name n = Some f" "vals f \<noteq> None \<longrightarrow> v = vals f"
      and rest: "apply_updates us (vals(f := v)) = Inr new"
    unfolding u by (auto split: option.splits if_splits simp del: fun_upd_apply)
  have "(vals(f := v)) e = vals e" using f Cons.prems(2) by auto
  with Cons.IH [OF rest] Cons.prems(2) show ?case by simp
qed simp

definition admissible_successor :: "remote_parse_checkpoint \<Rightarrow> remote_parse_checkpoint \<Rightarrow> bool" where
  "admissible_successor p c \<longleftrightarrow>
     cp_state c \<in> set (next_states (cp_state p))
     \<and> (\<forall>e. has p e \<longrightarrow> cp_evidence c e = cp_evidence p e)
     \<and> (\<forall>e. has c e \<longrightarrow> has p e \<or> e \<in> set (the (allowed_new_evidence (cp_state p, cp_state c))))
     \<and> (cp_state c = Cleanup_pending \<longrightarrow> cp_held_resource_credit c = cp_held_resource_credit p)"

definition linked :: "remote_parse_checkpoint \<Rightarrow> remote_parse_checkpoint \<Rightarrow> bool" where
  "linked p c \<longleftrightarrow>
     cp_lifecycle_version c = cp_lifecycle_version p + 1
     \<and> cp_previous_checkpoint_sha256 c = Some (checkpoint_digest p)
     \<and> attempt_identity.truncate c = attempt_identity.truncate p
     \<and> cp_attempt_generation c = cp_attempt_generation p
     \<and> same_source p c"

lemma successor_valid_iff:
  assumes "valid_checkpoint p"
  shows "validate_remote_parse_checkpoint_successor_v4 p c = Inr () \<longleftrightarrow> linked p c \<and> admissible_successor p c"
proof (cases "cp_state c \<in> set (next_states (cp_state p))")
  case False
  then show ?thesis by (simp add: validate_remote_parse_checkpoint_successor_v4_def admissible_successor_def)
next
  case True
  then obtain a where a: "allowed_new_evidence (cp_state p, cp_state c) = Some a"
    by (rule allowed_new_evidence_total)
  have "set (introduced p c) \<subseteq> set a \<longleftrightarrow> (\<forall>e. has c e \<longrightarrow> has p e \<or> e \<in> set a)"
    by (auto simp: introduced_def)
  moreover have "checks (map (\<lambda>e. require (\<not> (has p e \<and> cp_evidence p e \<noteq> cp_evidence c e))
         ''checkpoint-v4 immutable evidence drifted'') evidence_fields) = Inr () \<longleftrightarrow>
       (\<forall>e. has p e \<longrightarrow> cp_evidence c e = cp_evidence p e)"
    by auto
  ultimately show ?thesis
    using True a checkpoint_sha256_total [OF assms]
    by (auto simp: validate_remote_parse_checkpoint_successor_v4_def admissible_successor_def linked_def
        same_checkpoint_identity_def attempt_identity.truncate_def)
qed

lemma successor_of_linked: "linked p (successor_of p (checkpoint_digest p) s credit values)"
  by (simp add: linked_def successor_of_def attempt_identity.truncate_def same_source_def)

lemma apply_updates_known:
  "apply_updates us vals = Inr new \<Longrightarrow> list_all (\<lambda>(n, _). evidence_of_name n \<noteq> None) us"
proof (induction us arbitrary: vals)
  case (Cons u us)
  obtain n v where u: "u = (n, v)" by (cases u) auto
  from Cons.prems obtain e where e: "evidence_of_name n = Some e" and "apply_updates us (vals(e := v)) = Inr new"
    unfolding u by (auto split: option.splits if_splits simp del: fun_upd_apply)
  then show ?case using Cons.IH by (simp add: u)
qed simp

lemma advance_Inr_iff:
  assumes "valid_checkpoint p"
  shows "advance_remote_parse_checkpoint_v4 p s credit updates = Inr c \<longleftrightarrow>
    (\<exists>values. apply_updates updates (cp_evidence p) = Inr values
      \<and> c = successor_of p (checkpoint_digest p) s credit values
      \<and> valid_checkpoint c \<and> admissible_successor p c)"
proof -
  show ?thesis
    using apply_updates_known successor_valid_iff [OF assms] successor_of_linked [of p]
    by (auto simp: advance_remote_parse_checkpoint_v4_def checkpoint_sha256_total [OF assms]
        admissible_successor_def [of p "successor_of p _ _ _ _"])
       (auto simp: successor_of_def)
qed


subsection \<open>Histories\<close>

text \<open>
  The checkpoints of one attempt, newest first: a first checkpoint that passes validation with
  lifecycle version 0, then any number of successful transitions.
\<close>

inductive history :: "remote_parse_checkpoint list \<Rightarrow> bool" where
  genesis: "valid_checkpoint c \<Longrightarrow> cp_lifecycle_version c = 0 \<Longrightarrow> history [c]"
| advanced: "history (p # h) \<Longrightarrow> advance_remote_parse_checkpoint_v4 p s credit updates = Inr c
    \<Longrightarrow> history (c # p # h)"

inductive_cases history_Cons: "history (c # h)"
inductive_simps history_single: "history [c]"

lemma history_valid: "history (c # h) \<Longrightarrow> valid_checkpoint c"
proof (induction "c # h" arbitrary: c h rule: history.induct)
  case (advanced p h s credit updates c)
  then show ?case by (auto simp: advance_Inr_iff)
qed

lemma history_step:
  assumes "history (c # p # h)"
  shows "history (p # h)" "valid_checkpoint p" "valid_checkpoint c" "linked p c" "admissible_successor p c"
proof -
  from assms obtain s credit updates where h: "history (p # h)"
      and a: "advance_remote_parse_checkpoint_v4 p s credit updates = Inr c"
    by (auto elim: history_Cons)
  then have "valid_checkpoint p" by (rule_tac history_valid)
  with h a show "history (p # h)" "valid_checkpoint p" "valid_checkpoint c" "linked p c" "admissible_successor p c"
    by (auto simp: advance_Inr_iff successor_of_linked)
qed

lemma history_nonempty: "\<not> history []"
  by (auto elim: history.cases)

lemma history_induct [consumes 1, case_names genesis step]:
  assumes "history (c # h)"
    and "\<And>c. valid_checkpoint c \<Longrightarrow> cp_lifecycle_version c = 0 \<Longrightarrow> P c []"
    and "\<And>c p h. history (c # p # h) \<Longrightarrow> P p h \<Longrightarrow> P c (p # h)"
  shows "P c h"
  using assms(1)
proof (induction h arbitrary: c)
  case Nil
  then show ?case using assms(2) by (simp add: history_single)
next
  case (Cons p h)
  then show ?case using assms(3) history_step(1) by blast
qed

lemma history_path: "history (c # h) \<Longrightarrow> graph_path next_states (rev (map cp_state (c # h)))"
proof (induction rule: history_induct)
  case (step c p h)
  have app: "graph_path next_states xs \<Longrightarrow> xs \<noteq> [] \<Longrightarrow> t \<in> set (next_states (last xs))
      \<Longrightarrow> graph_path next_states (xs @ [t])" for xs t
    by (induction xs rule: induct_list012) auto
  from step history_step(5) [OF step(1)] show ?case
    using app [of "rev (map cp_state (p # h))" "cp_state c"]
    by (simp add: admissible_successor_def)
qed simp

lemma history_version: "history (c # h) \<Longrightarrow> cp_lifecycle_version c = int (length h)"
proof (induction rule: history_induct)
  case (step c p h)
  then show ?case using history_step(4) [OF step(1)] by (simp add: linked_def)
qed simp

lemma history_length: "history (c # h) \<Longrightarrow> length h \<le> 9"
proof -
  assume "history (c # h)"
  then have path: "graph_path next_states (rev (map cp_state (c # h)))" by (rule history_path)
  obtain s ss where s: "rev (map cp_state (c # h)) = s # ss"
    by (cases "rev (map cp_state (c # h))") auto
  have "state_rank s + length ss \<le> 9"
    using path v4.path_length [of s ss] unfolding s by simp
  moreover have "length (s # ss) = length (c # h)" by (simp flip: s)
  ultimately show ?thesis by simp
qed

subsection \<open>The evidence a state carries\<close>

text \<open>Each kind of ordinary evidence presupposes the kind before it.\<close>

definition evidence_ordered :: "remote_parse_checkpoint \<Rightarrow> bool" where
  "evidence_ordered c \<longleftrightarrow>
     (has c Submission_intent \<longrightarrow> has c Snapshot_receipt)
     \<and> (has c Accepted_submission \<longrightarrow> has c Submission_intent)
     \<and> (has c Terminal_receipt \<longrightarrow> has c Accepted_submission)
     \<and> (has c Materialization_intent \<longrightarrow> has c Terminal_receipt)
     \<and> (has c Local_materialization_receipt \<longrightarrow> has c Materialization_intent)
     \<and> (has c Publication_winner \<longrightarrow> has c Local_materialization_receipt)
     \<and> (has c Cleanup_receipt \<longrightarrow> has c Cleanup_plan)
     \<and> (has c Ack_receipt \<longrightarrow> has c Cleanup_receipt)"

lemma frontier_Inr: "validate_evidence_frontier c = Inr () \<longleftrightarrow> (\<forall>e. has c e \<longrightarrow> e \<in> set (frontier_allowed c))"
  by (auto simp: validate_evidence_frontier_def filter_empty_conv)

lemma valid_frontier: "valid_checkpoint c \<Longrightarrow> has c e \<Longrightarrow> e \<in> set (frontier_allowed c)"
  by (simp add: valid_checkpoint_iff frontier_Inr)

lemma valid_conflicts:
  "valid_checkpoint c \<Longrightarrow> \<not> (has c Failure_receipt \<and> has c Supersession_receipt)"
  "valid_checkpoint c \<Longrightarrow> has c Publication_winner \<Longrightarrow> \<not> has c Failure_receipt \<and> \<not> has c Supersession_receipt"
  by (auto simp: valid_checkpoint_iff validate_state_evidence_def check_conflicts_def)

lemma valid_resourceful:
  assumes "valid_checkpoint c" "\<not> resource_free c"
  shows "check_lifecycle_zero c = Inr ()" "check_state_evidence c = Inr ()"
  using assms by (simp_all add: valid_checkpoint_iff validate_state_evidence_def)

lemma valid_resource_free: "valid_checkpoint c \<Longrightarrow> resource_free c \<Longrightarrow> check_resource_free c = Inr ()"
  by (simp add: valid_checkpoint_iff validate_state_evidence_def)

lemma valid_required:
  assumes "valid_checkpoint c" "\<not> resource_free c" "e \<in> set (required_by_state (cp_state c))"
  shows "has c e"
  using valid_resourceful(2) [OF assms(1,2)] assms(3) by (simp add: check_state_evidence_def)

lemma evolved_resourceful: "valid_checkpoint c \<Longrightarrow> 0 < cp_lifecycle_version c \<Longrightarrow> \<not> resource_free c"
  by (simp add: resource_free_def)

text \<open>What a transition adds, state by state.\<close>

lemma genesis_state:
  assumes "valid_checkpoint c" "cp_lifecycle_version c = 0"
  shows "cp_state c = Prepared \<and> \<not> resource_free c \<or> resource_free c \<and> is_final (cp_state c)"
proof (cases "resource_free c")
  case True
  then show ?thesis by (auto simp: resource_free_def is_final_def final_states_def)
next
  case False
  then show ?thesis
    using valid_resourceful(1) [OF assms(1) False] assms(2) by (simp add: check_lifecycle_zero_def)
qed

lemma genesis_ordered:
  assumes "valid_checkpoint c" "cp_lifecycle_version c = 0"
  shows "evidence_ordered c"
proof -
  have "\<not> has c e" if "e \<notin> {Preparation_intent, Snapshot_receipt, Failure_receipt, Supersession_receipt}" for e
    using valid_frontier [OF assms(1), of e] genesis_state [OF assms] that
    by (auto simp: frontier_allowed_def ordinary_order_def ordinary_fields_def split: if_splits)
  then show ?thesis by (simp add: evidence_ordered_def)
qed

text \<open>Which transition may introduce a kind of evidence.\<close>

lemma introduced_at:
  assumes "t \<in> set (next_states s)" "e \<in> set (the (allowed_new_evidence (s, t)))"
  shows "(case e of
      Preparation_intent \<Rightarrow> False
    | Snapshot_receipt \<Rightarrow> t = Reconciling
    | Submission_intent \<Rightarrow> t = Reconciling
    | Accepted_submission \<Rightarrow> t = Submitted
    | Terminal_receipt \<Rightarrow> t = Remote_terminal
    | Materialization_intent \<Rightarrow> t = Materializing
    | Local_materialization_receipt \<Rightarrow> t = Local_materialized
    | Publication_winner \<Rightarrow> t = Publish_committed
    | Failure_receipt \<Rightarrow> t = Cleanup_pending
    | Supersession_receipt \<Rightarrow> t = Cleanup_pending
    | Cleanup_plan \<Rightarrow> t = Cleanup_pending
    | Cleanup_receipt \<Rightarrow> s = Cleanup_pending
    | Ack_receipt \<Rightarrow> s = Ack_pending)"
  using assms
  by (cases s) (auto simp: next_states_def allowed_new_evidence_def allowed_new_evidence_table_def)

lemma history_ordered:
  assumes "history (c # h)"
  shows "evidence_ordered c"
  using assms
proof (induction rule: history_induct)
  case (genesis c)
  then show ?case by (rule genesis_ordered)
next
  case (step c p h)
  note facts = history_step [OF step(1)]
  have trans: "cp_state c \<in> set (next_states (cp_state p))"
    and keep: "\<And>e. has p e \<Longrightarrow> has c e"
    and new: "\<And>e. has c e \<Longrightarrow> has p e \<or> e \<in> set (the (allowed_new_evidence (cp_state p, cp_state c)))"
    using facts(5) by (auto simp: admissible_successor_def has_def)
  have res: "\<not> resource_free c" 
    using facts(4) history_version [OF step(1)] by (simp add: resource_free_def)
  have resp: "\<not> resource_free p" 
    using trans by (auto simp: resource_free_def next_states_def)
  have at: "has p e \<or> (case e of
      Preparation_intent \<Rightarrow> False | Snapshot_receipt \<Rightarrow> cp_state c = Reconciling
    | Submission_intent \<Rightarrow> cp_state c = Reconciling | Accepted_submission \<Rightarrow> cp_state c = Submitted
    | Terminal_receipt \<Rightarrow> cp_state c = Remote_terminal | Materialization_intent \<Rightarrow> cp_state c = Materializing
    | Local_materialization_receipt \<Rightarrow> cp_state c = Local_materialized
    | Publication_winner \<Rightarrow> cp_state c = Publish_committed
    | Failure_receipt \<Rightarrow> cp_state c = Cleanup_pending | Supersession_receipt \<Rightarrow> cp_state c = Cleanup_pending
    | Cleanup_plan \<Rightarrow> cp_state c = Cleanup_pending | Cleanup_receipt \<Rightarrow> cp_state p = Cleanup_pending
    | Ack_receipt \<Rightarrow> cp_state p = Ack_pending)" if "has c e" for e
    using new [OF that] introduced_at [OF trans, of e] by blast
  note needp = valid_required [OF facts(2) resp]
  have ord: "has c Y" if "has c X" "has p X \<longrightarrow> has p Y" "\<not> has p X \<Longrightarrow> Y \<in> set (required_by_state (cp_state c))" for X Y
    using that keep valid_required [OF facts(3) res] by blast
  note p = step(2) [unfolded evidence_ordered_def]
  have 1: "has c Snapshot_receipt" if "has c Submission_intent"
    by (rule ord [OF that]) (use p at [OF that] in auto)
  have 2: "has c Submission_intent" if "has c Accepted_submission"
    by (rule ord [OF that]) (use p at [OF that] in auto)
  have 3: "has c Accepted_submission" if "has c Terminal_receipt"
    by (rule ord [OF that]) (use p at [OF that] in auto)
  have 4: "has c Terminal_receipt" if "has c Materialization_intent"
    by (rule ord [OF that]) (use p at [OF that] in auto)
  have 5: "has c Materialization_intent" if "has c Local_materialization_receipt"
    by (rule ord [OF that]) (use p at [OF that] in auto)
  have 6: "has c Local_materialization_receipt" if "has c Publication_winner"
    by (rule ord [OF that]) (use p at [OF that] in auto)
  have 7: "has c Cleanup_plan" if "has c Cleanup_receipt"
    using p at [OF that] needp [of Cleanup_plan] keep by auto
  have 8: "has c Cleanup_receipt" if "has c Ack_receipt"
    using p at [OF that] needp [of Cleanup_receipt] keep by auto
  show ?case
    unfolding evidence_ordered_def using 1 2 3 4 5 6 7 8 by blast
qed


subsection \<open>Invariants of a history\<close>

definition evolves :: "remote_parse_checkpoint \<Rightarrow> remote_parse_checkpoint \<Rightarrow> bool" where
  "evolves q c \<longleftrightarrow>
     attempt_identity.truncate c = attempt_identity.truncate q
     \<and> cp_attempt_generation c = cp_attempt_generation q
     \<and> same_source q c
     \<and> (\<forall>e. has q e \<longrightarrow> cp_evidence c e = cp_evidence q e)"

lemma evolves_refl: "evolves c c"
  by (simp add: evolves_def same_source_def)

lemma evolves_trans: "evolves p q \<Longrightarrow> evolves q c \<Longrightarrow> evolves p c"
  by (auto simp: evolves_def same_source_def has_def)

lemma evolves_step: "linked p c \<Longrightarrow> admissible_successor p c \<Longrightarrow> evolves p c"
  by (simp add: linked_def admissible_successor_def evolves_def)

lemma history_evolves: "history (c # h) \<Longrightarrow> q \<in> set (c # h) \<Longrightarrow> evolves q c"
proof (induction rule: history_induct)
  case (step c p h)
  then show ?case
    using history_step(4,5) [OF step(1)] by (auto intro: evolves_refl evolves_trans evolves_step)
qed (simp add: evolves_refl)

lemma evolves_has: "evolves q c \<Longrightarrow> has q e \<Longrightarrow> has c e"
  by (auto simp: evolves_def has_def)

lemma history_resource_free:
  assumes "history (c # h)" "resource_free c"
  shows "h = []"
  using history_version [OF assms(1)] assms(2) by (simp add: resource_free_def)

lemma resource_free_has:
  assumes "valid_checkpoint c" "resource_free c" "has c e"
  shows "e = (if cp_state c = Preparation_failed then Failure_receipt else Supersession_receipt)"
  using valid_frontier [OF assms(1,3)] assms(2) by (simp add: frontier_allowed_def)

text \<open>How a final checkpoint of a resourceful attempt looks.\<close>

lemma final_evidence:
  assumes "history (c # h)" "is_final (cp_state c)" "\<not> resource_free c"
  shows "(case cp_state c of
      Acked \<Rightarrow> has c Publication_winner \<and> \<not> has c Failure_receipt \<and> \<not> has c Supersession_receipt
        \<and> has c Accepted_submission \<and> has c Ack_receipt
    | Remote_failed \<Rightarrow> has c Failure_receipt \<and> \<not> has c Publication_winner \<and> \<not> has c Supersession_receipt
        \<and> has c Accepted_submission \<and> has c Ack_receipt
    | Local_failed \<Rightarrow> has c Failure_receipt \<and> \<not> has c Publication_winner \<and> \<not> has c Supersession_receipt
        \<and> has c Accepted_submission \<and> has c Ack_receipt
    | Pre_submission_failed \<Rightarrow> has c Failure_receipt \<and> \<not> has c Publication_winner \<and> \<not> has c Supersession_receipt
        \<and> \<not> has c Accepted_submission \<and> \<not> has c Ack_receipt
    | Superseded \<Rightarrow> has c Supersession_receipt \<and> \<not> has c Publication_winner \<and> \<not> has c Failure_receipt
        \<and> (has c Accepted_submission \<longleftrightarrow> has c Ack_receipt)
    | _ \<Rightarrow> False) \<and> has c Cleanup_plan \<and> has c Cleanup_receipt"
proof -
  have valid: "valid_checkpoint c" using assms(1) by (rule history_valid)
  have "h \<noteq> []"
    using genesis_state [OF valid] history_version [OF assms(1)] assms(2,3)
    by (auto simp: is_final_def final_states_def)
  then obtain p h' where h: "h = p # h'" by (cases h) auto
  have trans: "cp_state c \<in> set (next_states (cp_state p))" and keep: "\<And>e. has p e \<Longrightarrow> has c e"
    using history_step(5) [OF assms(1) [unfolded h]] by (auto simp: admissible_successor_def has_def)
  have validp: "valid_checkpoint p" and resp: "\<not> resource_free p"
    using history_step(2) [OF assms(1) [unfolded h]] trans by (auto simp: resource_free_def next_states_def)
  note state = valid_resourceful(2) [OF valid assms(3), unfolded check_state_evidence_def checks_Cons_Inr]
  have pre: "cp_state c = Pre_submission_failed \<Longrightarrow> \<not> has c Accepted_submission \<and> \<not> has c Ack_receipt"
    and sup: "cp_state c = Superseded \<Longrightarrow> has c Accepted_submission \<longleftrightarrow> has c Ack_receipt"
    using state by simp_all
  note need = valid_required [OF valid assms(3)]
  note conflicts = valid_conflicts [OF valid]
  have plan: "has c Cleanup_receipt \<Longrightarrow> has c Cleanup_plan"
    and winner: "has c Publication_winner \<Longrightarrow> has c Accepted_submission"
    using history_ordered [OF assms(1)] unfolding evidence_ordered_def by blast+
  have ack: "has c Accepted_submission" if "cp_state p = Ack_pending"
    using valid_resourceful(2) [OF validp resp] that keep by (simp add: check_state_evidence_def)
  have from_ack: "cp_state c \<in> {Acked, Remote_failed, Local_failed} \<Longrightarrow> cp_state p = Ack_pending"
    and not_prep: "cp_state c \<noteq> Preparation_failed"
    using trans by (cases "cp_state p"; auto simp: next_states_def)+
  show ?thesis
  proof (cases "cp_state c")
    case Acked
    with need [of Publication_winner] need [of Ack_receipt] need [of Cleanup_receipt] conflicts plan winner
    show ?thesis by simp
  next
    case Remote_failed
    with need [of Failure_receipt] need [of Ack_receipt] need [of Cleanup_receipt] conflicts plan from_ack ack
    show ?thesis by auto
  next
    case Local_failed
    with need [of Failure_receipt] need [of Ack_receipt] need [of Cleanup_receipt] conflicts plan from_ack ack
    show ?thesis by auto
  next
    case Pre_submission_failed
    with need [of Failure_receipt] need [of Cleanup_receipt] conflicts plan pre
    show ?thesis by auto
  next
    case Superseded
    with need [of Supersession_receipt] need [of Cleanup_receipt] conflicts plan sup
    show ?thesis by auto
  qed (use assms(2) not_prep in \<open>simp_all add: is_final_def final_states_def\<close>)
qed

text \<open>After a publication is committed no failure or supersession is reachable.\<close>

lemma winner_states:
  assumes "history (c # h)" "has c Publication_winner"
  shows "cp_state c \<in> {Publish_committed, Cleanup_pending, Ack_pending, Acked}"
proof -
  have valid: "valid_checkpoint c" using assms(1) by (rule history_valid)
  have res: "\<not> resource_free c"
    using resource_free_has [OF valid _ assms(2)] by (auto split: if_splits)
  have "cp_state c \<notin> {Prepared, Reconciling, Submitted, Remote_terminal, Materializing, Local_materialized}"
    using valid_frontier [OF valid assms(2)] res
    by (auto simp: frontier_allowed_def ordinary_order_def ordinary_fields_def)
  moreover have "cp_state c \<notin> {Remote_failed, Local_failed, Pre_submission_failed, Preparation_failed, Superseded}"
    using final_evidence [OF assms(1) _ res] assms(2)
    by (auto simp: is_final_def final_states_def)
  ultimately show ?thesis by (cases "cp_state c") auto
qed

lemma history_document_credit:
  assumes "valid_checkpoint c"
  shows "documents (cp_held_resource_credit c) = (if is_final (cp_state c) then 0 else 1)"
proof -
  have "checkpoint_credit_shape c = Inr ()" using assms by (simp add: valid_checkpoint_iff)
  then show ?thesis
    by (auto simp: checkpoint_credit_shape_def validate_credit_shape_def ack_pending_credit_def split: if_splits)
qed


subsection \<open>No dead ends\<close>

lemma has_successor: "has (successor_of p sha s credit vals) e \<longleftrightarrow> vals e \<noteq> None"
  by (simp add: has_def successor_of_def)

lemma successor_sel [simp]:
  "cp_state (successor_of p sha s credit vals) = s"
  "cp_held_resource_credit (successor_of p sha s credit vals) = credit"
  "cp_lifecycle_version (successor_of p sha s credit vals) = cp_lifecycle_version p + 1"
  "cp_previous_checkpoint_sha256 (successor_of p sha s credit vals) = Some sha"
  "cp_evidence (successor_of p sha s credit vals) = vals"
  "cp_source_byte_count (successor_of p sha s credit vals) = cp_source_byte_count p"
  "cp_source_page_count (successor_of p sha s credit vals) = cp_source_page_count p"
  by (simp_all add: successor_of_def)

lemma successor_resourceful: "0 \<le> cp_lifecycle_version p \<Longrightarrow> \<not> resource_free (successor_of p sha s credit vals)"
  by (simp add: resource_free_def)

lemma successor_facts:
  assumes "valid_checkpoint p" "cp_lifecycle_version p < MAX_INT" "valid_rcv credit"
  shows "check_checkpoint_facts (successor_of p (checkpoint_digest p) s credit vals) = Inr ()"
  using assms
  by (auto simp: valid_checkpoint_iff check_checkpoint_facts_def valid_rcv_def identities_def
     successor_of_def checkpoint_digest_def in_range_def)

text \<open>A transition succeeds when the new evidence, state and credit fit together.\<close>

lemma advance_succeeds:
  assumes "history (p # h)"
    and "apply_updates updates (cp_evidence p) = Inr vals"
    and "\<forall>e. vals e \<noteq> None \<longrightarrow> cp_evidence p e = vals e \<or> is_sha (the (vals e))"
    and "\<not> is_final (cp_state p)" and "s \<in> set (next_states (cp_state p))" and "s \<notin> {Prepared, Preparation_failed}"
    and "valid_rcv credit"
    and "validate_credit_shape s credit (vals Terminal_receipt \<noteq> None) (cp_source_byte_count p) (cp_source_page_count p) = Inr ()"
    and "s = Cleanup_pending \<longrightarrow> credit = cp_held_resource_credit p"
    and "\<forall>e. vals e \<noteq> None \<longrightarrow> has p e \<or> e \<in> set (the (allowed_new_evidence (cp_state p, s)))"
    and "check_conflicts (successor_of p (checkpoint_digest p) s credit vals) = Inr ()"
    and "check_state_evidence (successor_of p (checkpoint_digest p) s credit vals) = Inr ()"
    and "\<forall>e. vals e \<noteq> None \<longrightarrow> e \<in> set (frontier_allowed (successor_of p (checkpoint_digest p) s credit vals))"
  shows "advance_remote_parse_checkpoint_v4 p s credit updates
    = Inr (successor_of p (checkpoint_digest p) s credit vals)" (is "_ = Inr ?c")
proof -
  have valid: "valid_checkpoint p" using assms(1) by (rule history_valid)
  have version: "0 \<le> cp_lifecycle_version p" "cp_lifecycle_version p < MAX_INT"
    using history_version [OF assms(1)] history_length [OF assms(1)] by (simp_all add: MAX_INT_def)
  have "\<not> resource_free p" using assms(4) by (auto simp: resource_free_def is_final_def final_states_def)
  then have prep: "has p Preparation_intent"
    using valid_resourceful(1) [OF valid] by (simp add: check_lifecycle_zero_def)
  then have prep': "vals Preparation_intent \<noteq> None"
    using apply_updates_extends [OF assms(2)] by (simp add: has_def)
  have hashes: "check_evidence_hashes ?c = Inr ()"
    using assms(3) valid by (auto simp: valid_checkpoint_iff check_evidence_hashes_def)
  have lifecycle: "check_lifecycle_zero ?c = Inr ()"
    using assms(6) version prep' by (simp add: check_lifecycle_zero_def has_successor)
  have "valid_checkpoint ?c"
    using successor_facts [OF valid version(2) assms(7)] hashes lifecycle assms(8,11,12,13) successor_resourceful [OF version(1)]
    by (simp add: valid_checkpoint_iff validate_state_evidence_def frontier_Inr checkpoint_credit_shape_def has_successor)
  moreover have "admissible_successor p ?c"
    using assms(5,9,10) apply_updates_extends [OF assms(2)]
    by (auto simp: admissible_successor_def has_successor) (auto simp: has_def)
  ultimately show ?thesis using assms(2) by (auto simp: advance_Inr_iff [OF valid])
qed

lemma ordinary_has:
  assumes "valid_checkpoint p" "cp_state p \<in> set ordinary_order" "has p e"
  shows "e \<in> {Preparation_intent, Snapshot_receipt, Submission_intent, Accepted_submission, Terminal_receipt,
    Materialization_intent, Local_materialization_receipt, Publication_winner}"
  using valid_frontier [OF assms(1,3)] assms(2)
  by (auto simp: frontier_allowed_def resource_free_def ordinary_order_def ordinary_fields_def split: if_splits)

lemma ordinary_snapshot_credit:
  assumes "valid_checkpoint p" "cp_state p \<in> set ordinary_order"
  shows "documents (cp_held_resource_credit p) = 1" "snapshot_items (cp_held_resource_credit p) = 1"
    "snapshot_bytes (cp_held_resource_credit p) = cp_source_byte_count p" "valid_rcv (cp_held_resource_credit p)"
  using assms
  by (auto simp: valid_checkpoint_iff checkpoint_credit_shape_def validate_credit_shape_def
     check_checkpoint_facts_def valid_rcv_def ordinary_order_def is_final_def final_states_def)

definition drain_updates :: "remote_parse_checkpoint \<Rightarrow> string \<Rightarrow> evidence_updates" where
  "drain_updates p h =
     (if has p Publication_winner then [(''cleanup_plan_sha256'', Some h)]
      else [(''supersession_receipt_sha256'', Some h), (''cleanup_plan_sha256'', Some h)])"

lemma evidence_names [simp]:
  "evidence_of_name ''supersession_receipt_sha256'' = Some Supersession_receipt"
  "evidence_of_name ''cleanup_plan_sha256'' = Some Cleanup_plan"
  "evidence_of_name ''cleanup_receipt_sha256'' = Some Cleanup_receipt"
  "evidence_of_name ''ack_receipt_sha256'' = Some Ack_receipt"
  by (simp_all add: evidence_of_name_def evidence_fields_def)

lemma drain_succeeds:
  assumes "history (p # h)" "cp_state p \<in> set ordinary_order" "is_sha sha"
  shows "\<exists>c. advance_remote_parse_checkpoint_v4 p Cleanup_pending (cp_held_resource_credit p) (drain_updates p sha) = Inr c"
proof -
  have valid: "valid_checkpoint p" using assms(1) by (rule history_valid)
  note only = ordinary_has [OF valid assms(2)]
  have none: "cp_evidence p e = None" if "e \<in> {Failure_receipt, Supersession_receipt, Cleanup_plan, Cleanup_receipt, Ack_receipt}" for e
    using only [of e] that by (cases "cp_evidence p e") (auto simp: has_def)
  define vals where "vals = (if has p Publication_winner then (cp_evidence p)(Cleanup_plan := Some sha)
     else (cp_evidence p)(Supersession_receipt := Some sha, Cleanup_plan := Some sha))"
  have upd: "apply_updates (drain_updates p sha) (cp_evidence p) = Inr vals"
    using none by (simp add: drain_updates_def vals_def)
  have table: "allowed_new_evidence (cp_state p, Cleanup_pending) = Some [Failure_receipt, Supersession_receipt, Cleanup_plan]"
    using assms(2) by (auto simp: allowed_new_evidence_def allowed_new_evidence_table_def ordinary_order_def)
  have nonfinal: "\<not> is_final (cp_state p)" and nxt: "Cleanup_pending \<in> set (next_states (cp_state p))"
    using assms(2) by (auto simp: ordinary_order_def is_final_def final_states_def next_states_def)
  have present: "vals e \<noteq> None \<longleftrightarrow> has p e \<or> e = Cleanup_plan \<or> e = Supersession_receipt \<and> \<not> has p Publication_winner" for e
    by (auto simp: vals_def has_def)
  have hasc: "has (successor_of p (checkpoint_digest p) Cleanup_pending (cp_held_resource_credit p) vals) e \<longleftrightarrow>
      has p e \<or> e = Cleanup_plan \<or> e = Supersession_receipt \<and> \<not> has p Publication_winner" for e
    unfolding has_successor by (rule present)
  note free = successor_resourceful [of p "checkpoint_digest p" Cleanup_pending "cp_held_resource_credit p" vals]
  have version: "0 \<le> cp_lifecycle_version p" using history_version [OF assms(1)] by simp
  note credit = ordinary_snapshot_credit [OF valid assms(2)]
  have "advance_remote_parse_checkpoint_v4 p Cleanup_pending (cp_held_resource_credit p) (drain_updates p sha)
      = Inr (successor_of p (checkpoint_digest p) Cleanup_pending (cp_held_resource_credit p) vals)"
  proof (rule advance_succeeds [OF assms(1) upd _ nonfinal nxt])
    show "\<forall>e. vals e \<noteq> None \<longrightarrow> cp_evidence p e = vals e \<or> is_sha (the (vals e))"
      using assms(3) by (auto simp: vals_def)
    show "\<forall>e. vals e \<noteq> None \<longrightarrow> has p e \<or> e \<in> set (the (allowed_new_evidence (cp_state p, Cleanup_pending)))"
      unfolding present table by auto
    show "validate_credit_shape Cleanup_pending (cp_held_resource_credit p) (vals Terminal_receipt \<noteq> None)
        (cp_source_byte_count p) (cp_source_page_count p) = Inr ()"
      using credit by (simp add: validate_credit_shape_def is_final_def final_states_def)
    show "check_conflicts (successor_of p (checkpoint_digest p) Cleanup_pending (cp_held_resource_credit p) vals) = Inr ()"
      using only [of Failure_receipt] only [of Supersession_receipt] by (auto simp: check_conflicts_def hasc)
    show "check_state_evidence (successor_of p (checkpoint_digest p) Cleanup_pending (cp_held_resource_credit p) vals) = Inr ()"
      using only [of Failure_receipt] only [of Supersession_receipt]
      by (auto simp: check_state_evidence_def hasc outcome_evidence_fields_def is_final_def final_states_def)
    show "\<forall>e. vals e \<noteq> None \<longrightarrow> e \<in> set (frontier_allowed
        (successor_of p (checkpoint_digest p) Cleanup_pending (cp_held_resource_credit p) vals))"
    proof (intro allI impI)
      fix e assume "vals e \<noteq> None"
      then have "has p e \<or> e = Cleanup_plan \<or> e = Supersession_receipt" unfolding present by blast
      then show "e \<in> set (frontier_allowed
        (successor_of p (checkpoint_digest p) Cleanup_pending (cp_held_resource_credit p) vals))"
        using only [of e] free [OF version]
        by (auto simp: frontier_allowed_def ordinary_order_def ordinary_fields_def)
    qed
  qed (use credit in auto)
  then show ?thesis by blast
qed


text \<open>The two states of the drain that are not final.\<close>

definition closing_state :: "remote_parse_checkpoint \<Rightarrow> checkpoint_state" where
  "closing_state p =
     (if cp_state p = Cleanup_pending
      then (if has p Accepted_submission then Ack_pending
        else if has p Failure_receipt then Pre_submission_failed else Superseded)
      else (if has p Publication_winner then Acked
        else if has p Failure_receipt then Remote_failed else Superseded))"

definition closing_credit :: "remote_parse_checkpoint \<Rightarrow> resource_credit_vector" where
  "closing_credit p =
     (if closing_state p = Ack_pending
      then rcv_zero\<lparr>documents := 1, provider_tasks := 1, ack_items := 1,
        provider_result_bytes := (if has p Terminal_receipt then 1 else 0)\<rparr>
      else rcv_zero)"

definition closing_field :: "remote_parse_checkpoint \<Rightarrow> evidence_field" where
  "closing_field p = (if cp_state p = Cleanup_pending then Cleanup_receipt else Ack_receipt)"

lemma drained_has:
  assumes "valid_checkpoint p" "cp_state p \<in> {Cleanup_pending, Ack_pending}"
  shows "\<not> has p Ack_receipt" "cp_state p = Cleanup_pending \<Longrightarrow> \<not> has p Cleanup_receipt"
  using valid_frontier [OF assms(1)] assms(2)
  by (auto simp: frontier_allowed_def resource_free_def ordinary_order_def ordinary_fields_def is_final_def final_states_def
      dest!: valid_frontier [OF assms(1)])

lemma drained_outcome:
  assumes "valid_checkpoint p" "cp_state p \<in> {Cleanup_pending, Ack_pending}"
  shows "has p Publication_winner \<or> has p Failure_receipt \<or> has p Supersession_receipt"
    and "\<not> (has p Failure_receipt \<and> has p Supersession_receipt)"
    and "has p Publication_winner \<Longrightarrow> \<not> has p Failure_receipt \<and> \<not> has p Supersession_receipt"
proof -
  have "\<not> resource_free p" using assms(2) by (auto simp: resource_free_def)
  from valid_resourceful(2) [OF assms(1) this] assms(2)
  have "length (filter (has p) outcome_evidence_fields) = 1"
    by (auto simp: check_state_evidence_def)
  then show "has p Publication_winner \<or> has p Failure_receipt \<or> has p Supersession_receipt"
    by (auto simp: outcome_evidence_fields_def split: if_splits)
qed (use valid_conflicts [OF assms(1)] in blast)+

lemma closing_succeeds:
  assumes "history (p # h)" "cp_state p \<in> {Cleanup_pending, Ack_pending}" "is_sha sha"
  shows "\<exists>c. advance_remote_parse_checkpoint_v4 p (closing_state p) (closing_credit p)
     [(evidence_name (closing_field p), Some sha)] = Inr c"
proof -
  have valid: "valid_checkpoint p" using assms(1) by (rule history_valid)
  note outcome = drained_outcome [OF valid assms(2)]
  note absent = drained_has [OF valid assms(2)]
  have res: "\<not> resource_free p" using assms(2) by (auto simp: resource_free_def)
  have ordered: "has p Publication_winner \<Longrightarrow> has p Accepted_submission"
    "has p Ack_receipt \<Longrightarrow> has p Cleanup_receipt"
    using history_ordered [OF assms(1)] unfolding evidence_ordered_def by blast+
  note need = valid_required [OF valid res]
  have accepted: "cp_state p = Ack_pending \<Longrightarrow> has p Accepted_submission"
    using valid_resourceful(2) [OF valid res] by (simp add: check_state_evidence_def)
  let ?e = "closing_field p" and ?s = "closing_state p" and ?v = "closing_credit p"
  define vals where "vals = (cp_evidence p)(?e := Some sha)"
  let ?c = "successor_of p (checkpoint_digest p) ?s ?v vals"
  have none: "cp_evidence p ?e = None"
    using absent assms(2) by (auto simp: closing_field_def has_def)
  then have upd: "apply_updates [(evidence_name ?e, Some sha)] (cp_evidence p) = Inr vals"
    by (simp add: vals_def)
  have nonfinal: "\<not> is_final (cp_state p)"
    using assms(2) by (auto simp: is_final_def final_states_def)
  have nxt: "?s \<in> set (next_states (cp_state p))"
    using assms(2) by (auto simp: closing_state_def next_states_def)
  have present: "vals e \<noteq> None \<longleftrightarrow> has p e \<or> e = ?e" for e
    by (auto simp: vals_def has_def)
  have table: "?e \<in> set (the (allowed_new_evidence (cp_state p, ?s)))"
    using assms(2) by (auto simp: closing_state_def closing_field_def allowed_new_evidence_def allowed_new_evidence_table_def)
  have version: "0 \<le> cp_lifecycle_version p" using history_version [OF assms(1)] by simp
  have hasc: "has (successor_of p sha' s v vals) e \<longleftrightarrow> has p e \<or> e = ?e" for sha' s v e
    unfolding has_successor by (rule present)
  note free = successor_resourceful [OF version, of "checkpoint_digest p" ?s ?v vals]
  have "advance_remote_parse_checkpoint_v4 p ?s ?v [(evidence_name ?e, Some sha)] = Inr ?c"
  proof (rule advance_succeeds [OF assms(1) upd _ nonfinal nxt])
    show "\<forall>e. vals e \<noteq> None \<longrightarrow> cp_evidence p e = vals e \<or> is_sha (the (vals e))"
      using assms(3) by (auto simp: vals_def)
    show "?s \<notin> {Prepared, Preparation_failed}" "?s = Cleanup_pending \<longrightarrow> ?v = cp_held_resource_credit p"
      by (auto simp: closing_state_def)
    show "valid_rcv ?v" by (simp add: closing_credit_def valid_rcv_fields)
    show "\<forall>e. vals e \<noteq> None \<longrightarrow> has p e \<or> e \<in> set (the (allowed_new_evidence (cp_state p, ?s)))"
      unfolding present using table by auto
    show "validate_credit_shape ?s ?v (vals Terminal_receipt \<noteq> None) (cp_source_byte_count p) (cp_source_page_count p) = Inr ()"
      unfolding present by (auto simp: validate_credit_shape_def closing_credit_def closing_state_def closing_field_def
         is_final_def final_states_def ack_pending_credit_def)
    show "check_conflicts ?c = Inr ()"
      using outcome by (auto simp: check_conflicts_def hasc closing_field_def)
    show "check_state_evidence ?c = Inr ()"
    proof (cases "cp_state p = Cleanup_pending")
      case True
      with need [of Cleanup_plan] outcome ordered absent show ?thesis
        by (auto simp: check_state_evidence_def hasc outcome_evidence_fields_def is_final_def final_states_def
            closing_state_def closing_credit_def closing_field_def)
    next
      case False
      then have ack: "cp_state p = Ack_pending" using assms(2) by simp
      with need [of Cleanup_plan] need [of Cleanup_receipt] outcome ordered absent accepted show ?thesis
        by (auto simp: check_state_evidence_def hasc outcome_evidence_fields_def is_final_def final_states_def
            closing_state_def closing_credit_def closing_field_def)
    qed
    show "\<forall>e. vals e \<noteq> None \<longrightarrow> e \<in> set (frontier_allowed ?c)"
    proof (intro allI impI)
      fix e assume "vals e \<noteq> None"
      then have "has p e \<or> e = ?e" by (simp only: present)
      moreover have "e \<in> set (frontier_allowed p)" if "has p e"
        using valid that by (rule valid_frontier)
      ultimately show "e \<in> set (frontier_allowed ?c)"
        using assms(2) free res
        by (auto simp: frontier_allowed_def ordinary_order_def ordinary_fields_def closing_state_def
            closing_field_def is_final_def final_states_def)
    qed
  qed
  then show ?thesis by blast
qed


text \<open>Whatever happened before, an attempt can be driven to a final checkpoint.\<close>

lemma history_can_finish:
  assumes "history (c # h)" "is_sha sha"
  shows "\<exists>h'. history (h' @ c # h) \<and> is_final (cp_state (hd (h' @ c # h)))"
  using assms(1)
proof (induction "cp_state c" arbitrary: c h rule: v4.climb_induct)
  case step
  show ?case
  proof (cases "is_final (cp_state c)")
    case True
    then show ?thesis using step(2) by (intro exI [of _ "[]"]) simp
  next
    case False
    have valid: "valid_checkpoint c" using step(2) by (rule history_valid)
    have "\<exists>s v u d. advance_remote_parse_checkpoint_v4 c s v u = Inr d"
    proof (cases "cp_state c \<in> set ordinary_order")
      case True
      then show ?thesis using drain_succeeds [OF step(2) _ assms(2)] by blast
    next
      case nord: False
      then have "cp_state c \<in> {Cleanup_pending, Ack_pending}"
        using False by (cases "cp_state c") (auto simp: ordinary_order_def is_final_def final_states_def)
      then show ?thesis using closing_succeeds [OF step(2) _ assms(2)] by blast
    qed
    then obtain s v u d where adv: "advance_remote_parse_checkpoint_v4 c s v u = Inr d" by blast
    then have h: "history (d # c # h)" using step(2) by (rule_tac history.advanced)
    have "cp_state d \<in> set (next_states (cp_state c))"
      using history_step(5) [OF h] by (simp add: admissible_successor_def)
    from step(1) [OF this h] obtain h' where
      h': "history (h' @ d # c # h)" "is_final (cp_state (hd (h' @ d # c # h)))" by blast
    show ?thesis
    proof (intro exI conjI)
      show "history ((h' @ [d]) @ c # h)" using h'(1) by simp
      show "is_final (cp_state (hd ((h' @ [d]) @ c # h)))" using h'(2) by (cases h') auto
    qed
  qed
qed


subsection \<open>The ordinary path\<close>

fun forward :: "checkpoint_state \<Rightarrow> checkpoint_state" where
  "forward Prepared = Reconciling"
| "forward Reconciling = Submitted"
| "forward Submitted = Remote_terminal"
| "forward Remote_terminal = Materializing"
| "forward Materializing = Local_materialized"
| "forward s = Publish_committed"

fun forward_fields :: "checkpoint_state \<Rightarrow> evidence_field list" where
  "forward_fields Prepared = [Snapshot_receipt, Submission_intent]"
| "forward_fields Reconciling = [Accepted_submission]"
| "forward_fields Submitted = [Terminal_receipt]"
| "forward_fields Remote_terminal = [Materialization_intent]"
| "forward_fields Materializing = [Local_materialization_receipt]"
| "forward_fields s = [Publication_winner]"

text \<open>A vector that each ordinary state accepts.\<close>

definition sample_credit :: "checkpoint_state \<Rightarrow> int \<Rightarrow> int \<Rightarrow> resource_credit_vector" where
  "sample_credit s bytes pages =
     (let base = snapshot_credit bytes;
          task = base\<lparr>provider_tasks := 1, ack_items := 1\<rparr>
      in if s = Prepared then base
         else if s = Reconciling then base\<lparr>remote_waits := 1\<rparr>
         else if s = Submitted then task\<lparr>remote_waits := 1\<rparr>
         else if s = Remote_terminal then task\<lparr>provider_result_bytes := 1\<rparr>
         else if s = Materializing
         then task\<lparr>provider_result_bytes := 1, materialization_items := 1, compressed_bytes := 1,
           decoded_bytes := 1, temp_disk_bytes := 1\<rparr>
         else task\<lparr>provider_result_bytes := 1, compressed_bytes := 1, output_items := 1,
           output_bytes := 1, output_pages := pages\<rparr>)"

definition forward_states :: "checkpoint_state set" where
  "forward_states = {Prepared, Reconciling, Submitted, Remote_terminal, Materializing, Local_materialized}"

lemma sample_credit_shape:
  assumes "1 \<le> bytes" "bytes \<le> MAX_INT" "1 \<le> pages" "pages \<le> MAX_INT" "s \<in> set ordinary_order"
  shows "valid_rcv (sample_credit s bytes pages)"
    and "validate_credit_shape s (sample_credit s bytes pages) terminal bytes pages = Inr ()"
  using assms
  by (auto simp: sample_credit_def Let_def snapshot_credit_def valid_rcv_fields in_range_def mk_rcv_Inr
     validate_credit_shape_def provider_credit_def is_final_def final_states_def ordinary_order_def)

definition prefix_of :: "checkpoint_state \<Rightarrow> evidence_field list" where
  "prefix_of s = concat (take (index_of s ordinary_order + 1) ordinary_fields)"

lemma prefix_forward:
  "s \<in> forward_states \<Longrightarrow> set (prefix_of s) \<union> set (forward_fields s) \<subseteq> set (prefix_of (forward s))"
  unfolding forward_states_def
  by (elim insertE; simp add: prefix_of_def ordinary_order_def ordinary_fields_def)

lemma required_forward:
  "s \<in> forward_states \<Longrightarrow> set (required_by_state (forward s)) \<subseteq> set (forward_fields s) \<union> set (required_by_state s)"
  unfolding forward_states_def by (elim insertE; simp)

lemma ordinary_frontier:
  "cp_state c \<in> set ordinary_order \<Longrightarrow> frontier_allowed c = prefix_of (cp_state c)"
  by (auto simp: frontier_allowed_def prefix_of_def resource_free_def ordinary_order_def)

lemma ordinary_prefix:
  assumes "valid_checkpoint p" "cp_state p \<in> set ordinary_order" "has p e"
  shows "e \<in> set (prefix_of (cp_state p))"
  using valid_frontier [OF assms(1,3)] ordinary_frontier [OF assms(2)] by simp

definition add_all :: "evidence_field list \<Rightarrow> string \<Rightarrow> (evidence_field \<Rightarrow> string option) \<Rightarrow> (evidence_field \<Rightarrow> string option)" where
  "add_all es sha vals = (\<lambda>e. if e \<in> set es then Some sha else vals e)"

lemma apply_all:
  assumes "distinct es" "\<forall>e \<in> set es. vals e = None"
  shows "apply_updates (map (\<lambda>e. (evidence_name e, Some sha)) es) vals = Inr (add_all es sha vals)"
  using assms
proof (induction es arbitrary: vals)
  case (Cons e es)
  have "\<forall>x \<in> set es. (vals(e := Some sha)) x = None" "distinct es" using Cons.prems by auto
  then have "apply_updates (map (\<lambda>e. (evidence_name e, Some sha)) es) (vals(e := Some sha))
      = Inr (add_all es sha (vals(e := Some sha)))" by (rule_tac Cons.IH)
  moreover have "add_all es sha (vals(e := Some sha)) = add_all (e # es) sha vals"
    by (auto simp: add_all_def)
  ultimately show ?case using Cons.prems by simp
qed (simp add: add_all_def)

lemma forward_succeeds:
  assumes "history (p # h)" "cp_state p \<in> forward_states" "is_sha sha"
    and "\<forall>e \<in> set (forward_fields (cp_state p)). \<not> has p e"
  shows "\<exists>c. advance_remote_parse_checkpoint_v4 p (forward (cp_state p))
      (sample_credit (forward (cp_state p)) (cp_source_byte_count p) (cp_source_page_count p))
      (map (\<lambda>e. (evidence_name e, Some sha)) (forward_fields (cp_state p))) = Inr c
    \<and> cp_state c = forward (cp_state p)"
proof -
  have valid: "valid_checkpoint p" using assms(1) by (rule history_valid)
  let ?s = "forward (cp_state p)" and ?es = "forward_fields (cp_state p)"
  let ?v = "sample_credit ?s (cp_source_byte_count p) (cp_source_page_count p)"
  define vals where "vals = add_all ?es sha (cp_evidence p)"
  have ord: "cp_state p \<in> set ordinary_order" and ords: "?s \<in> set ordinary_order"
    using assms(2) by (auto simp: ordinary_order_def forward_states_def)
  have counts: "1 \<le> cp_source_byte_count p" "cp_source_byte_count p \<le> MAX_INT"
      "1 \<le> cp_source_page_count p" "cp_source_page_count p \<le> MAX_INT"
    using valid by (auto simp: valid_checkpoint_iff check_checkpoint_facts_def)
  have none: "\<forall>e \<in> set ?es. cp_evidence p e = None"
    using assms(4) by (auto simp: has_def)
  have upd: "apply_updates (map (\<lambda>e. (evidence_name e, Some sha)) ?es) (cp_evidence p) = Inr vals"
    unfolding vals_def using assms(2) none by (intro apply_all) (auto simp: forward_states_def)
  have res: "\<not> resource_free p" using ord by (auto simp: resource_free_def ordinary_order_def)
  have version: "0 \<le> cp_lifecycle_version p" using history_version [OF assms(1)] by simp
  have hasc: "has (successor_of p sha' s v vals) e \<longleftrightarrow> has p e \<or> e \<in> set ?es" for sha' s v e
    unfolding has_successor by (auto simp: vals_def add_all_def has_def)
  have present: "vals e \<noteq> None \<longleftrightarrow> has p e \<or> e \<in> set ?es" for e
    using hasc unfolding has_successor .
  note only = ordinary_has [OF valid ord]
  note prefix = ordinary_prefix [OF valid ord]
  note need = valid_required [OF valid res]
  let ?c = "successor_of p (checkpoint_digest p) ?s ?v vals"
  have "advance_remote_parse_checkpoint_v4 p ?s ?v (map (\<lambda>e. (evidence_name e, Some sha)) ?es) = Inr ?c"
  proof (rule advance_succeeds [OF assms(1) upd])
    show "\<forall>e. vals e \<noteq> None \<longrightarrow> cp_evidence p e = vals e \<or> is_sha (the (vals e))"
      using assms(3) by (auto simp: vals_def add_all_def)
    show "\<not> is_final (cp_state p)" "?s \<in> set (next_states (cp_state p))" "?s \<notin> {Prepared, Preparation_failed}"
      "?s = Cleanup_pending \<longrightarrow> ?v = cp_held_resource_credit p"
      using assms(2) by (auto simp: forward_states_def is_final_def final_states_def next_states_def)
    show "valid_rcv ?v" "validate_credit_shape ?s ?v (vals Terminal_receipt \<noteq> None)
        (cp_source_byte_count p) (cp_source_page_count p) = Inr ()"
      using sample_credit_shape [OF counts ords] by auto
    show "\<forall>e. vals e \<noteq> None \<longrightarrow> has p e \<or> e \<in> set (the (allowed_new_evidence (cp_state p, ?s)))"
      unfolding present using assms(2)
      by (auto simp: forward_states_def allowed_new_evidence_def allowed_new_evidence_table_def)
    show "check_conflicts ?c = Inr ()"
      using only [of Failure_receipt] only [of Supersession_receipt] assms(2)
      by (auto simp: check_conflicts_def hasc forward_states_def)
    show "check_state_evidence ?c = Inr ()"
    proof -
      have "has ?c e" if "e \<in> set (required_by_state ?s)" for e
        using that required_forward [OF assms(2)] need by (auto simp: hasc)
      moreover have "?s \<notin> {Ack_pending, Cleanup_pending, Pre_submission_failed, Superseded}" "\<not> is_final ?s"
        using ords by (auto simp: ordinary_order_def is_final_def final_states_def)
      ultimately show ?thesis by (simp add: check_state_evidence_def)
    qed
    show "\<forall>e. vals e \<noteq> None \<longrightarrow> e \<in> set (frontier_allowed ?c)"
    proof (intro allI impI)
      fix e assume "vals e \<noteq> None"
      then have "has p e \<or> e \<in> set ?es" unfolding present .
      then show "e \<in> set (frontier_allowed ?c)"
        using prefix [of e] prefix_forward [OF assms(2)] ordinary_frontier [of ?c] ords by auto
    qed
  qed
  then show ?thesis by (intro exI [of _ ?c]) simp
qed


lemma forward_new: "s \<in> forward_states \<Longrightarrow> s \<noteq> Prepared \<Longrightarrow> set (forward_fields s) \<inter> set (prefix_of s) = {}"
  unfolding forward_states_def
  by (elim insertE; simp add: prefix_of_def ordinary_order_def ordinary_fields_def)

lemma forward_step:
  assumes "history (p # h)" "cp_state p \<in> forward_states" "is_sha sha"
    and "cp_state p = Prepared \<Longrightarrow> \<not> has p Snapshot_receipt"
  shows "\<exists>c. history (c # p # h) \<and> cp_state c = forward (cp_state p)"
proof -
  have valid: "valid_checkpoint p" using assms(1) by (rule history_valid)
  have ord: "cp_state p \<in> set ordinary_order"
    using assms(2) by (auto simp: ordinary_order_def forward_states_def)
  have "\<not> has p e" if "e \<in> set (forward_fields (cp_state p))" for e
  proof (cases "cp_state p = Prepared")
    case True
    then show ?thesis
      using that assms(4) ordinary_prefix [OF valid ord, of e]
      by (auto simp: prefix_of_def ordinary_order_def ordinary_fields_def)
  next
    case False
    then show ?thesis
      using that forward_new [OF assms(2)] ordinary_prefix [OF valid ord, of e] by blast
  qed
  then show ?thesis
    using forward_succeeds [OF assms(1-3)] history.advanced [OF assms(1)] by blast
qed

lemma closing_step:
  assumes "history (p # h)" "cp_state p \<in> {Cleanup_pending, Ack_pending}" "is_sha sha"
  shows "\<exists>c. history (c # p # h) \<and> cp_state c = closing_state p"
proof -
  obtain c where adv: "advance_remote_parse_checkpoint_v4 p (closing_state p) (closing_credit p)
     [(evidence_name (closing_field p), Some sha)] = Inr c"
    using closing_succeeds [OF assms] by blast
  moreover have "cp_state c = closing_state p"
    using adv history_valid [OF assms(1)] by (auto simp: advance_Inr_iff)
  ultimately show ?thesis using history.advanced [OF assms(1)] by blast
qed

lemma drain_step:
  assumes "history (p # h)" "cp_state p \<in> set ordinary_order" "is_sha sha"
  shows "\<exists>c. history (c # p # h) \<and> cp_state c = Cleanup_pending \<and> (has p Publication_winner \<longrightarrow> has c Publication_winner)"
proof -
  obtain c where adv: "advance_remote_parse_checkpoint_v4 p Cleanup_pending (cp_held_resource_credit p) (drain_updates p sha) = Inr c"
    using drain_succeeds [OF assms] by blast
  moreover have "cp_state c = Cleanup_pending" "has p Publication_winner \<longrightarrow> has c Publication_winner"
    using adv history_valid [OF assms(1)] by (auto simp: advance_Inr_iff admissible_successor_def has_def)
  ultimately show ?thesis using history.advanced [OF assms(1)] by blast
qed

text \<open>The states of a successful attempt, newest first.\<close>

definition success_states :: "checkpoint_state list" where
  "success_states = [Acked, Ack_pending, Cleanup_pending, Publish_committed, Local_materialized,
     Materializing, Remote_terminal, Submitted, Reconciling, Prepared]"

lemma success_run:
  assumes "valid_checkpoint c" "cp_state c = Prepared" "cp_lifecycle_version c = 0"
    and "\<not> has c Snapshot_receipt" "is_sha sha"
  shows "\<exists>h. history (h @ [c]) \<and> map cp_state (h @ [c]) = success_states"
proof -
  have "history [c]" using assms by (intro history.genesis)
  then obtain c1 where 1: "history [c1, c]" "cp_state c1 = Reconciling"
    using forward_step [of c "[]" sha] assms by (auto simp: forward_states_def)
  then obtain c2 where 2: "history [c2, c1, c]" "cp_state c2 = Submitted"
    using forward_step [of c1 _ sha] assms(5) by (auto simp: forward_states_def)
  then obtain c3 where 3: "history [c3, c2, c1, c]" "cp_state c3 = Remote_terminal"
    using forward_step [of c2 _ sha] assms(5) by (auto simp: forward_states_def)
  then obtain c4 where 4: "history [c4, c3, c2, c1, c]" "cp_state c4 = Materializing"
    using forward_step [of c3 _ sha] assms(5) by (auto simp: forward_states_def)
  then obtain c5 where 5: "history [c5, c4, c3, c2, c1, c]" "cp_state c5 = Local_materialized"
    using forward_step [of c4 _ sha] assms(5) by (auto simp: forward_states_def)
  then obtain c6 where 6: "history [c6, c5, c4, c3, c2, c1, c]" "cp_state c6 = Publish_committed"
    using forward_step [of c5 _ sha] assms(5) by (auto simp: forward_states_def)
  have "\<not> resource_free c6" using 6(2) by (simp add: resource_free_def)
  then have "has c6 Publication_winner"
    using valid_required [OF history_valid [OF 6(1)]] 6(2) by simp
  then obtain c7 where 7: "history [c7, c6, c5, c4, c3, c2, c1, c]" "cp_state c7 = Cleanup_pending"
      "has c7 Publication_winner"
    using drain_step [OF 6(1) _ assms(5)] 6(2) by (auto simp: ordinary_order_def)
  have "has c7 Accepted_submission"
    using history_ordered [OF 7(1)] 7(3) unfolding evidence_ordered_def by blast
  then have "closing_state c7 = Ack_pending" using 7(2) by (simp add: closing_state_def)
  then obtain c8 where 8: "history [c8, c7, c6, c5, c4, c3, c2, c1, c]" "cp_state c8 = Ack_pending"
    using closing_step [OF 7(1) _ assms(5)] 7(2) by auto
  have "evolves c7 c8" using history_evolves [OF 8(1)] by simp
  then have "has c8 Publication_winner" using 7(3) by (rule evolves_has)
  then have "closing_state c8 = Acked" using 8(2) by (simp add: closing_state_def)
  then obtain c9 where 9: "history [c9, c8, c7, c6, c5, c4, c3, c2, c1, c]" "cp_state c9 = Acked"
    using closing_step [OF 8(1) _ assms(5)] 8(2) by auto
  then show ?thesis
    using 1(2) 2(2) 3(2) 4(2) 5(2) 6(2) 7(2) 8(2) assms(2)
    by (intro exI [of _ "[c9, c8, c7, c6, c5, c4, c3, c2, c1]"]) (simp add: success_states_def)
qed

subsection \<open>A concrete attempt\<close>

definition genesis_example :: remote_parse_checkpoint where
  "genesis_example = \<lparr>attempt_id = ''attempt-7'', fence_identity = ''fence-7'', document_id = ''doc-1'',
     processing_run_id = ''run-1'', cp_attempt_generation = 1, cp_state = Prepared,
     cp_lifecycle_version = 0, cp_previous_checkpoint_sha256 = None,
     cp_source_pdf_sha256 = digest_example, cp_source_byte_count = 5000, cp_source_page_count = 12,
     cp_request_sha256 = digest_example, cp_runtime_epoch_sha256 = digest_example,
     cp_process_profile_sha256 = digest_example, cp_credit_policy_sha256 = digest_example,
     cp_reservation_input_sha256 = digest_example,
     cp_held_resource_credit = snapshot_credit 5000,
     cp_evidence = (\<lambda>_. None)(Preparation_intent := Some digest_example),
     cp_contract_version = CHECKPOINT_V4_CONTRACT\<rparr>"

lemma identity_examples: "identity_ok ''attempt-7''" "identity_ok ''fence-7''" "identity_ok ''doc-1''" "identity_ok ''run-1''"
  by code_simp+

lemma valid_genesis_example: "valid_checkpoint genesis_example"
proof -
  have "check_checkpoint_facts genesis_example = Inr ()"
    using identity_examples
    by (simp add: check_checkpoint_facts_def genesis_example_def identities_def in_range_def MAX_INT_def
        valid_rcv_def [symmetric] valid_rcv_fields snapshot_credit_def)
  moreover have "check_evidence_hashes genesis_example = Inr ()"
    by (auto simp: check_evidence_hashes_def genesis_example_def)
  moreover have "validate_state_evidence genesis_example = Inr ()"
    by (simp add: validate_state_evidence_def check_conflicts_def check_lifecycle_zero_def check_state_evidence_def
      resource_free_def genesis_example_def has_def is_final_def final_states_def)
  moreover have "validate_evidence_frontier genesis_example = Inr ()"
    by (auto simp: frontier_Inr frontier_allowed_def genesis_example_def has_def resource_free_def
       ordinary_order_def ordinary_fields_def split: if_splits)
  moreover have "checkpoint_credit_shape genesis_example = Inr ()"
    by (simp add: checkpoint_credit_shape_def validate_credit_shape_def genesis_example_def mk_rcv_Inr
       snapshot_credit_def valid_rcv_fields in_range_def MAX_INT_def is_final_def final_states_def)
  ultimately show ?thesis by (simp add: valid_checkpoint_iff)
qed

lemma history_example: "history [genesis_example]"
  by (rule history.genesis) (rule valid_genesis_example, simp add: genesis_example_def)

lemma success_example: "\<exists>h. history (h @ [genesis_example]) \<and> map cp_state (h @ [genesis_example]) = success_states"
  by (rule success_run [OF valid_genesis_example _ _ _ is_sha_digest_example])
     (simp_all add: genesis_example_def has_def)


lemma acked_example:
  obtains c h where "history (c # h)" "genesis_example \<in> set h" "cp_state c = Acked"
proof -
  obtain h where h: "history (h @ [genesis_example])" "map cp_state (h @ [genesis_example]) = success_states"
    using success_example by blast
  obtain c h' where c: "h = c # h'"
    using h(2) by (cases h) (simp_all add: success_states_def)
  with h have "history (c # h' @ [genesis_example])" "cp_state c = Acked"
    by (simp_all add: success_states_def)
  then show thesis by (intro that [of c "h' @ [genesis_example]"]) simp_all
qed

text \<open>The successor test raises no \<open>KeyError\<close>.\<close>

definition no_key :: "'a res \<Rightarrow> bool" where
  "no_key r = (\<forall>k. r \<noteq> Inl (KeyError k))"

lemma no_key_simps [simp]:
  "no_key (Inr v)" "no_key (require b m)" "no_key (Inl (ValueError m))"
  by (auto simp: no_key_def)

lemma no_key_bind: "no_key r \<Longrightarrow> (\<And>v. r = Inr v \<Longrightarrow> no_key (f v)) \<Longrightarrow> no_key (bindR r f)"
  by (cases r) (auto simp: no_key_def)

lemma no_key_checks: "\<forall>c \<in> set cs. no_key c \<Longrightarrow> no_key (checks cs)"
  by (induction cs) (auto simp: no_key_def checks.simps split: sum.splits)

lemma successor_no_key:
  assumes "valid_checkpoint p"
  shows "no_key (validate_remote_parse_checkpoint_successor_v4 p c)"
proof (cases "cp_state c \<in> set (next_states (cp_state p))")
  case False
  then show ?thesis
    by (simp add: validate_remote_parse_checkpoint_successor_v4_def require_def)
next
  case True
  then obtain a where "allowed_new_evidence (cp_state p, cp_state c) = Some a"
    by (rule allowed_new_evidence_total)
  then show ?thesis
    unfolding validate_remote_parse_checkpoint_successor_v4_def same_checkpoint_identity_def same_identity_def
      checkpoint_sha256_total [OF assms]
    by (intro no_key_bind) (auto intro!: no_key_checks)
qed

end
