(* ===== verification/CheckpointCodec.thy ===== *)
theory CheckpointCodec
  imports Codec CheckpointLifecycle
begin

text \<open>
  \<open>decode_remote_parse_checkpoint_v4\<close> of \<open>application/contracts/remote_parse_lifecycle_v4.py\<close>: the
  checkpoint that a row's exact bytes stand for. The decoder and the canonical bytes are an instance
  of the codec contract.
\<close>

subsection \<open>The credit vector inside a record\<close>

definition RCV_FIELDS :: "string list" where
  "RCV_FIELDS =
     [''documents'', ''snapshot_items'', ''snapshot_bytes'', ''remote_waits'', ''provider_tasks'',
      ''provider_result_bytes'', ''materialization_items'', ''compressed_bytes'', ''decoded_bytes'',
      ''temp_disk_bytes'', ''output_items'', ''output_bytes'', ''output_pages'', ''ack_items'']"

text \<open>\<open>ResourceCreditVector(**nested)\<close>\<close>

definition rcv_of_obj :: "obj \<Rightarrow> resource_credit_vector res" where
  "rcv_of_obj d =
     bindR (get d ''documents'' as_int) (\<lambda>x1.
     bindR (get d ''snapshot_items'' as_int) (\<lambda>x2.
     bindR (get d ''snapshot_bytes'' as_int) (\<lambda>x3.
     bindR (get d ''remote_waits'' as_int) (\<lambda>x4.
     bindR (get d ''provider_tasks'' as_int) (\<lambda>x5.
     bindR (get d ''provider_result_bytes'' as_int) (\<lambda>x6.
     bindR (get d ''materialization_items'' as_int) (\<lambda>x7.
     bindR (get d ''compressed_bytes'' as_int) (\<lambda>x8.
     bindR (get d ''decoded_bytes'' as_int) (\<lambda>x9.
     bindR (get d ''temp_disk_bytes'' as_int) (\<lambda>x10.
     bindR (get d ''output_items'' as_int) (\<lambda>x11.
     bindR (get d ''output_bytes'' as_int) (\<lambda>x12.
     bindR (get d ''output_pages'' as_int) (\<lambda>x13.
     bindR (get d ''ack_items'' as_int) (\<lambda>x14.
       mk_rcv \<lparr>documents = x1, snapshot_items = x2, snapshot_bytes = x3, remote_waits = x4,
         provider_tasks = x5, provider_result_bytes = x6, materialization_items = x7,
         compressed_bytes = x8, decoded_bytes = x9, temp_disk_bytes = x10, output_items = x11,
         output_bytes = x12, output_pages = x13, ack_items = x14\<rparr>))))))))))))))"

text \<open>\<open>_mapping\<close>, \<open>_closed\<close> and the constructor, for the attribute \<open>name\<close>.\<close>

definition get_rcv :: "obj \<Rightarrow> string \<Rightarrow> string \<Rightarrow> resource_credit_vector res" where
  "get_rcv d name label =
     bindR (get d name (as_mapping label)) (\<lambda>nested.
     bindR (closed nested RCV_FIELDS ''ResourceCreditVector'') (\<lambda>_. rcv_of_obj nested))"

abbreviation rcv_members :: "resource_credit_vector \<Rightarrow> (string \<times> json) list" where
  "rcv_members v \<equiv> map (\<lambda>(name, value). (name, JInt value)) (rcv_items v)"

lemma rcv_of_obj_members:
  assumes "valid_rcv v"
  shows "rcv_of_obj (obj_of (rcv_members v)) = Inr v"
proof -
  define kvs where "kvs = rcv_members v"
  have "list_all (\<lambda>kv. attr (obj_of kvs) (fst kv) = Some (pyval_of (snd kv))) (rcv_members v)"
    by (rule attrs_obj_of [OF kvs_def]) (simp add: rcv_items_def)
  then have "rcv_of_obj (obj_of kvs) = mk_rcv v"
    by (cases v) (simp add: rcv_items_def rcv_of_obj_def get_attr)
  with assms show ?thesis by (simp add: kvs_def mk_rcv_Inr)
qed

lemma closed_rcv_members [simp]: "closed (obj_of (rcv_members v)) RCV_FIELDS cls = Inr ()"
  by (rule closed_members) (simp add: RCV_FIELDS_def rcv_items_def)

lemma get_rcv_of:
  assumes "distinct (map fst kvs)" "map_of kvs k = Some (rcv_json v)" "valid_rcv v"
  shows "get_rcv (obj_of kvs) k label = Inr v"
  using assms rcv_of_obj_members
  by (simp add: get_rcv_def get_def attr_obj_of rcv_json_def pyval_of_object del: pyval_of.simps)

lemma json_ok_rcv:
  assumes "valid_rcv v"
  shows "json_ok (rcv_json v)"
proof -
  have "in_range x" if "x \<in> set (map snd (rcv_items v))" for x
    using assms that unfolding rcv_valid_bounded rcv_items_comps by (simp add: bounded_def list_all_iff)
  then have "list_all (\<lambda>kv. json_ok (snd kv)) (rcv_members v)"
    by (force simp: list_all_iff intro: int_digits_range)
  then show ?thesis by (simp add: rcv_json_def) (simp add: rcv_items_def)
qed

subsection \<open>The checkpoint\<close>

definition CHECKPOINT_FIELDS :: "string list" where
  "CHECKPOINT_FIELDS =
     [''attempt_id'', ''attempt_generation'', ''fence_identity'', ''document_id'', ''processing_run_id'',
      ''state'', ''lifecycle_version'', ''previous_checkpoint_sha256'', ''source_pdf_sha256'',
      ''source_byte_count'', ''source_page_count'', ''request_sha256'', ''runtime_epoch_sha256'',
      ''process_profile_sha256'', ''credit_policy_sha256'', ''reservation_input_sha256'',
      ''held_resource_credit''] @ map evidence_name evidence_fields @ [''contract_version'']"

text \<open>The thirteen optional hashes: all of them are read, then looked up by name.\<close>

definition get_evidence :: "obj \<Rightarrow> (evidence_field \<Rightarrow> string option) res" where
  "get_evidence d =
     bindR (checks (map (\<lambda>e. bindR (get d (evidence_name e) (as_opt as_str)) (\<lambda>_. Inr ())) evidence_fields)) (\<lambda>_.
       Inr (\<lambda>e. case get d (evidence_name e) (as_opt as_str) of Inl _ \<Rightarrow> None | Inr v \<Rightarrow> v))"

text \<open>The four identities that all records share.\<close>

definition get_identity :: "obj \<Rightarrow> attempt_identity res" where
  "get_identity d =
     bindR (get d ''attempt_id'' as_str) (\<lambda>attempt.
     bindR (get d ''fence_identity'' as_str) (\<lambda>fence.
     bindR (get d ''document_id'' as_str) (\<lambda>document.
     bindR (get d ''processing_run_id'' as_str) (\<lambda>run.
       Inr \<lparr>attempt_id = attempt, fence_identity = fence, document_id = document, processing_run_id = run\<rparr>))))"

definition checkpoint_of_obj :: "obj \<Rightarrow> resource_credit_vector \<Rightarrow> remote_parse_checkpoint res" where
  "checkpoint_of_obj d credit =
     bindR (get_identity d) (\<lambda>who.
     bindR (get d ''attempt_generation'' as_int) (\<lambda>generation.
     bindR (get d ''state'' (as_enum state_name all_states ''checkpoint-v4 state is unsupported'')) (\<lambda>s.
     bindR (get d ''lifecycle_version'' as_int) (\<lambda>version.
     bindR (get d ''previous_checkpoint_sha256'' (as_opt as_str)) (\<lambda>previous.
     bindR (get d ''source_pdf_sha256'' as_str) (\<lambda>pdf.
     bindR (get d ''source_byte_count'' as_int) (\<lambda>bytes.
     bindR (get d ''source_page_count'' as_int) (\<lambda>pages.
     bindR (get d ''request_sha256'' as_str) (\<lambda>request.
     bindR (get d ''runtime_epoch_sha256'' as_str) (\<lambda>epoch.
     bindR (get d ''process_profile_sha256'' as_str) (\<lambda>profile.
     bindR (get d ''credit_policy_sha256'' as_str) (\<lambda>policy.
     bindR (get d ''reservation_input_sha256'' as_str) (\<lambda>input.
     bindR (get_evidence d) (\<lambda>evidence.
     bindR (get d ''contract_version'' as_str) (\<lambda>contract.
       mk_checkpoint (attempt_identity.extend who
         \<lparr>cp_attempt_generation = generation, cp_state = s, cp_lifecycle_version = version,
          cp_previous_checkpoint_sha256 = previous, cp_source_pdf_sha256 = pdf,
          cp_source_byte_count = bytes, cp_source_page_count = pages, cp_request_sha256 = request,
          cp_runtime_epoch_sha256 = epoch, cp_process_profile_sha256 = profile,
          cp_credit_policy_sha256 = policy, cp_reservation_input_sha256 = input,
          cp_held_resource_credit = credit, cp_evidence = evidence,
          cp_contract_version = contract\<rparr>))))))))))))))))"

text \<open>The nested vector is built before the checkpoint.\<close>

definition build_checkpoint :: "obj \<Rightarrow> remote_parse_checkpoint res" where
  "build_checkpoint d =
     bindR (get_rcv d ''held_resource_credit'' ''held resource credit'') (\<lambda>credit. checkpoint_of_obj d credit)"

definition decode_remote_parse_checkpoint_v4 :: "string \<Rightarrow> remote_parse_checkpoint res" where
  "decode_remote_parse_checkpoint_v4 =
     decode_record checkpoint_payload CHECKPOINT_FIELDS ''RemoteParseCheckpointV4'' build_checkpoint"

subsection \<open>Decoding inverts encoding\<close>

lemma get_identity_of:
  assumes "distinct (map fst kvs)" and "set (identity_members r) \<subseteq> set kvs"
  shows "get_identity (obj_of kvs) = Inr (attempt_identity.truncate r)"
  using assms(2) attr_member [OF assms(1)]
  by (auto simp: get_identity_def identity_members_def get_attr attempt_identity.truncate_def)

lemma state_name_inject: "state_name s = state_name t \<longleftrightarrow> s = t"
  by (cases s; cases t) simp_all

lemma as_state_of [simp]: "as_enum state_name all_states msg (PStr (cps (state_name s))) = Inr s"
proof (rule as_enum_of)
  show "s \<in> set all_states" by (cases s) (simp_all add: all_states_def)
qed (simp add: state_name_inject)

lemma get_evidence_of:
  assumes "\<And>e. attr d (evidence_name e) = Some (pyval_of (JOpt (v e)))"
  shows "get_evidence d = Inr v"
proof -
  have "get d (evidence_name e) (as_opt as_str) = Inr (v e)" for e
    using assms [of e] by (simp add: get_attr)
  then show ?thesis by (simp add: get_evidence_def) 
qed

lemma build_checkpoint_members:
  assumes "valid_checkpoint c"
  shows "build_checkpoint (obj_of (members_of (checkpoint_payload c))) = Inr c"
proof -
  define kvs where "kvs = members_of (checkpoint_payload c)"
  have dist: "distinct (map fst kvs)"
    unfolding kvs_def by (simp add: checkpoint_payload_def identity_members_def evidence_fields_def)
  have mem: "set (members_of (checkpoint_payload c)) \<subseteq> set kvs" by (simp add: kvs_def)
  have who: "get_identity (obj_of kvs) = Inr (attempt_identity.truncate c)"
    by (rule get_identity_of [OF dist]) (auto simp: kvs_def checkpoint_payload_def)
  have evidence: "get_evidence (obj_of kvs) = Inr (cp_evidence c)"
  proof (rule get_evidence_of)
    fix e show "attr (obj_of kvs) (evidence_name e) = Some (pyval_of (JOpt (cp_evidence c e)))"
      by (rule attr_member [OF dist]) (cases e; simp add: kvs_def checkpoint_payload_def evidence_fields_def)
  qed
  have credit: "get_rcv (obj_of kvs) ''held_resource_credit'' ''held resource credit'' = Inr (cp_held_resource_credit c)"
    by (rule get_rcv_of [OF dist])
       (use assms in \<open>simp_all add: kvs_def checkpoint_payload_def identity_members_def valid_checkpoint_iff
          check_checkpoint_facts_def valid_rcv_def\<close>)
  have "list_all (\<lambda>kv. attr (obj_of kvs) (fst kv) = Some (pyval_of (snd kv))) (members_of (checkpoint_payload c))"
    by (rule attrs_obj_of [OF kvs_def]) (use dist in \<open>simp only: kvs_def\<close>)
  then have "checkpoint_of_obj (obj_of kvs) (cp_held_resource_credit c) = mk_checkpoint c"
    using who evidence
    by (cases c) (simp add: checkpoint_payload_def checkpoint_of_obj_def get_attr attempt_identity.defs)
  with credit assms show ?thesis by (simp add: kvs_def build_checkpoint_def)
qed

lemma json_ok_checkpoint:
  assumes "valid_checkpoint c"
  shows "json_ok (checkpoint_payload c)"
proof -
  have facts: "check_checkpoint_facts c = Inr ()"
    using assms by (simp add: valid_checkpoint_iff)
  note parts = facts [unfolded check_checkpoint_facts_def checks_Cons_Inr]
  have credit: "json_ok (rcv_json (cp_held_resource_credit c))"
    using parts by (intro json_ok_rcv) (simp add: valid_rcv_def)
  have ints: "int_digits (cp_attempt_generation c) \<le> MAX_STR_DIGITS"
    "int_digits (cp_lifecycle_version c) \<le> MAX_STR_DIGITS"
    "int_digits (cp_source_byte_count c) \<le> MAX_STR_DIGITS"
    "int_digits (cp_source_page_count c) \<le> MAX_STR_DIGITS"
    using parts by (auto simp: in_range_def intro!: int_digits_bounded)
  show ?thesis
    using credit ints
    by (simp add: checkpoint_payload_def identity_members_def evidence_fields_def)
qed

lemma checkpoint_fields: "set (map fst (members_of (checkpoint_payload c))) = set CHECKPOINT_FIELDS"
  by (auto simp: checkpoint_payload_def identity_members_def CHECKPOINT_FIELDS_def)

interpretation checkpoint: codec checkpoint_canonical_bytes decode_remote_parse_checkpoint_v4 valid_checkpoint
  unfolding decode_remote_parse_checkpoint_v4_def checkpoint_canonical_bytes_def [abs_def]
  by (rule codec_record)
     (use checkpoint_fields json_ok_checkpoint build_checkpoint_members in
        \<open>auto simp: checkpoint_payload_def build_checkpoint_def checkpoint_of_obj_def\<close>)

subsection \<open>Properties\<close>

text \<open>Two records whose hashes agree although their canonical bytes differ: a collision of SHA-256.\<close>

definition checkpoints_collide :: "remote_parse_checkpoint \<Rightarrow> remote_parse_checkpoint \<Rightarrow> bool" where
  "checkpoints_collide p q \<longleftrightarrow>
     checkpoint_canonical_bytes p \<noteq> checkpoint_canonical_bytes q \<and> checkpoint_sha256 p = checkpoint_sha256 q"

lemma same_digest:
  assumes "valid_checkpoint p" "valid_checkpoint q" "checkpoint_digest p = checkpoint_digest q"
  shows "p = q \<or> checkpoints_collide p q"
proof -
  obtain b c where bytes: "checkpoint_canonical_bytes p = Inr b" "checkpoint_canonical_bytes q = Inr c"
    using assms(1,2) by (simp add: checkpoint_bytes_total)
  show ?thesis
  proof (cases "b = c")
    case True
    with bytes checkpoint.encode_inject [OF assms(1,2)] show ?thesis by simp
  next
    case False
    with bytes assms show ?thesis by (simp add: checkpoints_collide_def checkpoint_sha256_total)
  qed
qed

lemma history_unique:
  assumes "history (c # h)" and "history (c # h')"
  shows "h = h' \<or> (\<exists>p \<in> set h. \<exists>q \<in> set h'. checkpoints_collide p q)"
  using assms
proof (induction h arbitrary: c h')
  case Nil
  then have "length h' = 0"
    using history_version [OF Nil(1)] history_version [OF Nil(2)] by simp
  then show ?case by simp
next
  case (Cons p h)
  have "length h' = Suc (length h)"
    using history_version [OF Cons.prems(1)] history_version [OF Cons.prems(2)] by simp
  then obtain q k where h': "h' = q # k" by (cases h') auto
  note p = history_step [OF Cons.prems(1)] and q = history_step [OF Cons.prems(2) [unfolded h']]
  have "checkpoint_digest p = checkpoint_digest q"
    using p(4) q(4) by (simp add: linked_def)
  from same_digest [OF p(2) q(2) this] show ?case
  proof
    assume "p = q"
    with Cons.IH [OF p(1)] q(1) show ?thesis unfolding h' by auto
  qed (auto simp: h')
qed

text \<open>C23: Decoding is exact: the decoder accepts some bytes and returns a checkpoint just when that
  checkpoint passes every check of its constructor and the bytes are its canonical bytes. So no
  alias is accepted (another member order, blanks, escapes), and what was written is read back.\<close>

theorem checkpoint_decode_exact:
  "decode_remote_parse_checkpoint_v4 bs = Inr c \<longleftrightarrow> valid_checkpoint c \<and> checkpoint_canonical_bytes c = Inr bs"
  by (rule checkpoint.decode_iff)

text \<open>C25: The chain of checkpoints is tamper-evident: a checkpoint determines its whole history back to the
  first record, unless two of the records compared have different canonical bytes with the same SHA-256.\<close>

theorem history_determined_by_head:
  assumes "history (c # h)" and "history (c # h')"
  shows "h = h' \<or> (\<exists>p \<in> set h. \<exists>q \<in> set h'. checkpoints_collide p q)"
  using assms by (rule history_unique)

theorem history_determined_by_head_witness:
  "\<exists>c h. history (c # h) \<and> length h = 9
    \<and> {h'. history (c # h') \<and> \<not> (\<exists>p \<in> set h. \<exists>q \<in> set h'. checkpoints_collide p q)} \<subseteq> {h}"
proof -
  obtain h where h: "history (h @ [genesis_example])" "map cp_state (h @ [genesis_example]) = success_states"
    using success_example by blast
  obtain c k where c: "h @ [genesis_example] = c # k" by (cases h) auto
  have "length k = 9"
    using arg_cong [OF h(2), of length] c by (simp add: success_states_def)
  moreover have "history (c # k)" using h(1) c by simp
  moreover from history_determined_by_head [OF this]
  have "{h'. history (c # h') \<and> \<not> (\<exists>p \<in> set k. \<exists>q \<in> set h'. checkpoints_collide p q)} \<subseteq> {k}" by blast
  ultimately show ?thesis by blast
qed

end
