(* ===== verification/MaterializationCodec.thy ===== *)
theory MaterializationCodec
  imports CheckpointCodec Materialization
begin

text \<open>
  The decoders of the materialization records: \<open>decode_materialization_intent_v4\<close> and
  \<open>decode_local_materialization_receipt_v4\<close> of \<open>application/contracts/remote_parse_lifecycle_v4.py\<close>, with
  \<open>ParserTargetIdentity.from_payload\<close> of \<open>application/contracts/parser_target.py\<close>.
\<close>

subsection \<open>Parser target and provider-envelope context\<close>

definition TARGET_FIELDS :: "string list" where
  "TARGET_FIELDS =
     [''name'', ''package_version'', ''backend'', ''method'', ''language'', ''formula'',
      ''table'', ''effort'', ''image_analysis'', ''full_pdf'', ''start_page'', ''end_page'',
      ''runtime_bundle_identity_sha256'', ''inline_equation_left'', ''inline_equation_right'',
      ''target_contract_version'']"

definition target_of_obj :: "obj \<Rightarrow> parser_target_identity res" where
  "target_of_obj d =
     bindR (get d ''name'' as_str) (\<lambda>x1.
     bindR (get d ''package_version'' as_str) (\<lambda>x2.
     bindR (get d ''backend'' as_str) (\<lambda>x3.
     bindR (get d ''method'' as_str) (\<lambda>x4.
     bindR (get d ''language'' as_str) (\<lambda>x5.
     bindR (get d ''formula'' as_bool) (\<lambda>x6.
     bindR (get d ''table'' as_bool) (\<lambda>x7.
     bindR (get d ''effort'' (as_opt as_str)) (\<lambda>x8.
     bindR (get d ''image_analysis'' as_bool) (\<lambda>x9.
     bindR (get d ''full_pdf'' as_bool) (\<lambda>x10.
     bindR (get d ''start_page'' (as_opt as_int)) (\<lambda>x11.
     bindR (get d ''end_page'' (as_opt as_int)) (\<lambda>x12.
     bindR (get d ''runtime_bundle_identity_sha256'' as_str) (\<lambda>x13.
     bindR (get d ''inline_equation_left'' as_str) (\<lambda>x14.
     bindR (get d ''inline_equation_right'' as_str) (\<lambda>x15.
     bindR (get d ''target_contract_version'' as_str) (\<lambda>x16.
       mk_target
         \<lparr>pt_name = x1, pt_package_version = x2, pt_backend = x3, pt_method = x4,
          pt_language = x5, pt_formula = x6, pt_table = x7, pt_effort = x8,
          pt_image_analysis = x9, pt_full_pdf = x10, pt_start_page = x11, pt_end_page = x12,
          pt_runtime_bundle_identity_sha256 = x13, pt_inline_equation_left = x14,
          pt_inline_equation_right = x15, pt_target_contract_version = x16\<rparr>))))))))))))))))"

text \<open>\<open>ParserTargetIdentity.from_payload\<close>\<close>

definition target_from_payload :: "pyval \<Rightarrow> parser_target_identity res" where
  "target_from_payload v = (case v of
     PDict d \<Rightarrow> bindR (target_require (set (map fst d) = set (map cps TARGET_FIELDS)) ''parser fields are not closed'') (\<lambda>_.
       target_of_obj d)
   | _ \<Rightarrow> Inl (ParserTargetIdentityError ''parser target identity must be an object''))"

definition CONTEXT_FIELDS :: "string list" where
  "CONTEXT_FIELDS =
     [''document_id'', ''processing_run_id'', ''provider'', ''provider_document_id'',
      ''source_pdf_relpath'', ''source_pdf_sha256'', ''source_page_count'',
      ''parser_artifact_root_relpath'', ''parser_target_identity'', ''contract_version'']"

definition context_of_obj :: "obj \<Rightarrow> parser_target_identity \<Rightarrow> provider_envelope_context res" where
  "context_of_obj d target =
     bindR (get d ''document_id'' as_str) (\<lambda>x1.
     bindR (get d ''processing_run_id'' as_str) (\<lambda>x2.
     bindR (get d ''provider'' as_str) (\<lambda>x3.
     bindR (get d ''provider_document_id'' as_str) (\<lambda>x4.
     bindR (get d ''source_pdf_relpath'' as_str) (\<lambda>x5.
     bindR (get d ''source_pdf_sha256'' as_str) (\<lambda>x6.
     bindR (get d ''source_page_count'' as_int) (\<lambda>x7.
     bindR (get d ''parser_artifact_root_relpath'' as_str) (\<lambda>x8.
     bindR (get d ''contract_version'' as_str) (\<lambda>x10.
       mk_context
         \<lparr>cx_document_id = x1, cx_processing_run_id = x2, cx_provider = x3,
          cx_provider_document_id = x4, cx_source_pdf_relpath = x5, cx_source_pdf_sha256 = x6,
          cx_source_page_count = x7, cx_parser_artifact_root_relpath = x8,
          cx_parser_target_identity = target, cx_contract_version = x10\<rparr>)))))))))"

subsection \<open>The intent\<close>

definition INTENT_FIELDS :: "string list" where
  "INTENT_FIELDS =
     [''attempt_id'', ''fence_identity'', ''document_id'', ''processing_run_id'',
      ''source_checkpoint_sha256'', ''source_lifecycle_version'', ''source_pdf_sha256'',
      ''reservation_sha256'', ''terminal_receipt_sha256'', ''remote_task_identity'',
      ''artifact_owner_identity'', ''artifact_sha256'', ''artifact_byte_count'',
      ''source_page_count'', ''parser_target_sha256'', ''provider_envelope_context'',
      ''allowance_sha256'', ''provider_capability_kind'', ''provider_capability_sha256'',
      ''provider_capability_byte_count'', ''held_resource_credit'', ''snapshot_relpath'',
      ''spool_relpath'', ''spool_part_relpath'', ''spool_part_owner_relpath'',
      ''spool_lock_relpath'', ''staging_relpath'', ''staging_marker_relpath'',
      ''staging_lock_relpath'', ''output_relpath'', ''output_dir_name'',
      ''provider_envelope_relpath'', ''output_manifest_relpath'', ''result_byte_limit'',
      ''member_count_limit'', ''uncompressed_byte_limit'', ''decoded_byte_limit'',
      ''temporary_disk_byte_limit'', ''output_byte_limit'', ''output_page_limit'',
      ''contract_version'']"

definition intent_of_obj :: "obj \<Rightarrow> provider_envelope_context \<Rightarrow> resource_credit_vector \<Rightarrow> materialization_intent res" where
  "intent_of_obj d envelope credit =
     bindR (get_identity d) (\<lambda>who.
     bindR (get d ''source_checkpoint_sha256'' as_str) (\<lambda>x1.
     bindR (get d ''source_lifecycle_version'' as_int) (\<lambda>x2.
     bindR (get d ''source_pdf_sha256'' as_str) (\<lambda>x3.
     bindR (get d ''reservation_sha256'' as_str) (\<lambda>x4.
     bindR (get d ''terminal_receipt_sha256'' as_str) (\<lambda>x5.
     bindR (get d ''remote_task_identity'' as_str) (\<lambda>x6.
     bindR (get d ''artifact_owner_identity'' as_str) (\<lambda>x7.
     bindR (get d ''artifact_sha256'' as_str) (\<lambda>x8.
     bindR (get d ''artifact_byte_count'' as_int) (\<lambda>x9.
     bindR (get d ''source_page_count'' as_int) (\<lambda>x10.
     bindR (get d ''parser_target_sha256'' as_str) (\<lambda>x11.
     bindR (get d ''allowance_sha256'' as_str) (\<lambda>x13.
     bindR (get d ''provider_capability_kind'' as_str) (\<lambda>x14.
     bindR (get d ''provider_capability_sha256'' as_str) (\<lambda>x15.
     bindR (get d ''provider_capability_byte_count'' as_int) (\<lambda>x16.
     bindR (get d ''snapshot_relpath'' as_str) (\<lambda>x18.
     bindR (get d ''spool_relpath'' as_str) (\<lambda>x19.
     bindR (get d ''spool_part_relpath'' as_str) (\<lambda>x20.
     bindR (get d ''spool_part_owner_relpath'' as_str) (\<lambda>x21.
     bindR (get d ''spool_lock_relpath'' as_str) (\<lambda>x22.
     bindR (get d ''staging_relpath'' as_str) (\<lambda>x23.
     bindR (get d ''staging_marker_relpath'' as_str) (\<lambda>x24.
     bindR (get d ''staging_lock_relpath'' as_str) (\<lambda>x25.
     bindR (get d ''output_relpath'' as_str) (\<lambda>x26.
     bindR (get d ''output_dir_name'' as_str) (\<lambda>x27.
     bindR (get d ''provider_envelope_relpath'' as_str) (\<lambda>x28.
     bindR (get d ''output_manifest_relpath'' as_str) (\<lambda>x29.
     bindR (get d ''result_byte_limit'' as_int) (\<lambda>x30.
     bindR (get d ''member_count_limit'' as_int) (\<lambda>x31.
     bindR (get d ''uncompressed_byte_limit'' as_int) (\<lambda>x32.
     bindR (get d ''decoded_byte_limit'' as_int) (\<lambda>x33.
     bindR (get d ''temporary_disk_byte_limit'' as_int) (\<lambda>x34.
     bindR (get d ''output_byte_limit'' as_int) (\<lambda>x35.
     bindR (get d ''output_page_limit'' as_int) (\<lambda>x36.
     bindR (get d ''contract_version'' as_str) (\<lambda>x37.
       mk_intent (attempt_identity.extend who
         \<lparr>mi_source_checkpoint_sha256 = x1, mi_source_lifecycle_version = x2,
          mi_source_pdf_sha256 = x3, mi_reservation_sha256 = x4,
          mi_terminal_receipt_sha256 = x5, mi_remote_task_identity = x6,
          mi_artifact_owner_identity = x7, mi_artifact_sha256 = x8,
          mi_artifact_byte_count = x9, mi_source_page_count = x10,
          mi_parser_target_sha256 = x11, mi_provider_envelope_context = envelope,
          mi_allowance_sha256 = x13, mi_provider_capability_kind = x14,
          mi_provider_capability_sha256 = x15, mi_provider_capability_byte_count = x16,
          mi_held_resource_credit = credit, mi_snapshot_relpath = x18, mi_spool_relpath = x19,
          mi_spool_part_relpath = x20, mi_spool_part_owner_relpath = x21,
          mi_spool_lock_relpath = x22, mi_staging_relpath = x23,
          mi_staging_marker_relpath = x24, mi_staging_lock_relpath = x25,
          mi_output_relpath = x26, mi_output_dir_name = x27,
          mi_provider_envelope_relpath = x28, mi_output_manifest_relpath = x29,
          mi_result_byte_limit = x30, mi_member_count_limit = x31,
          mi_uncompressed_byte_limit = x32, mi_decoded_byte_limit = x33,
          mi_temporary_disk_byte_limit = x34, mi_output_byte_limit = x35,
          mi_output_page_limit = x36, mi_contract_version = x37\<rparr>)))))))))))))))))))))))))))))))))))))"

text \<open>
  The page numbers of a parser target have no bound of their own, so \<open>json.dumps\<close> may meet an integer with more
  digits than Python converts to text, and raises.
\<close>

definition printable_target :: "parser_target_identity \<Rightarrow> bool" where
  "printable_target t = list_all (\<lambda>page. case page of None \<Rightarrow> True | Some p \<Rightarrow> int_digits p \<le> MAX_STR_DIGITS)
     [pt_start_page t, pt_end_page t]"

definition intent_canonical_bytes :: "materialization_intent \<Rightarrow> string res" where
  "intent_canonical_bytes i =
     bindR (require (printable_target (cx_parser_target_identity (mi_provider_envelope_context i)))
       ''Exceeds the limit for integer string conversion'') (\<lambda>_. lifecycle_json (intent_payload i))"

definition decode_materialization_intent_v4 :: "string \<Rightarrow> materialization_intent res" where
  "decode_materialization_intent_v4 exact =
     bindR (decode_canonical_object exact) (\<lambda>d.
     bindR (closed d INTENT_FIELDS ''MaterializationIntentV4'') (\<lambda>_.
     bindR (get d ''held_resource_credit'' (as_mapping ''held resource credit'')) (\<lambda>raw_credit.
     bindR (closed raw_credit RCV_FIELDS ''ResourceCreditVector'') (\<lambda>_.
     bindR (get d ''provider_envelope_context'' (as_mapping ''provider envelope context'')) (\<lambda>raw_context.
     bindR (closed raw_context CONTEXT_FIELDS ''ProviderEnvelopeContextV4'') (\<lambda>_.
     bindR (get raw_context ''parser_target_identity'' (as_mapping ''provider envelope parser target'')) (\<lambda>raw_target.
     bindR (target_from_payload (PDict raw_target)) (\<lambda>target.
     bindR (context_of_obj raw_context target) (\<lambda>envelope.
     bindR (rcv_of_obj raw_credit) (\<lambda>credit.
     bindR (intent_of_obj d envelope credit) (\<lambda>i.
       canonical_match intent_canonical_bytes exact i)))))))))))"

subsection \<open>The receipt\<close>

definition mk_output_file :: "local_output_file \<Rightarrow> local_output_file res" where
  "mk_output_file f = construct (output_file_post_init f) f"

definition OUTPUT_FILE_FIELDS :: "string list" where
  "OUTPUT_FILE_FIELDS =
     [''relpath'', ''sha256'', ''byte_count'']"

definition output_file_of_obj :: "obj \<Rightarrow> local_output_file res" where
  "output_file_of_obj d =
     bindR (get d ''relpath'' as_str) (\<lambda>x1.
     bindR (get d ''sha256'' as_str) (\<lambda>x2.
     bindR (get d ''byte_count'' as_int) (\<lambda>x3.
       mk_output_file
         \<lparr>lf_relpath = x1, lf_sha256 = x2, lf_byte_count = x3\<rparr>)))"

definition RECEIPT_FIELDS :: "string list" where
  "RECEIPT_FIELDS =
     [''attempt_id'', ''fence_identity'', ''document_id'', ''processing_run_id'',
      ''materialization_intent_sha256'', ''terminal_receipt_sha256'', ''source_pdf_sha256'',
      ''source_page_count'', ''parser_target_sha256'', ''spool_relpath'', ''spool_sha256'',
      ''spool_byte_count'', ''member_count'', ''uncompressed_byte_count'',
      ''decoded_byte_count'', ''temporary_disk_peak_byte_count'', ''output_relpath'',
      ''output_files'', ''output_file_count'', ''output_byte_count'', ''output_files_sha256'',
      ''provider_envelope_relpath'', ''provider_envelope_sha256'',
      ''provider_envelope_byte_count'', ''output_manifest_relpath'', ''output_manifest_sha256'',
      ''output_manifest_byte_count'', ''file_fsync_completed'',
      ''output_parent_fsync_completed'', ''marker_removed'', ''spool_part_absent'',
      ''spool_part_owner_absent'', ''staging_absent'', ''contract_version'']"

definition receipt_of_obj :: "obj \<Rightarrow> local_output_file list \<Rightarrow> local_materialization_receipt res" where
  "receipt_of_obj d files =
     bindR (get_identity d) (\<lambda>who.
     bindR (get d ''materialization_intent_sha256'' as_str) (\<lambda>x1.
     bindR (get d ''terminal_receipt_sha256'' as_str) (\<lambda>x2.
     bindR (get d ''source_pdf_sha256'' as_str) (\<lambda>x3.
     bindR (get d ''source_page_count'' as_int) (\<lambda>x4.
     bindR (get d ''parser_target_sha256'' as_str) (\<lambda>x5.
     bindR (get d ''spool_relpath'' as_str) (\<lambda>x6.
     bindR (get d ''spool_sha256'' as_str) (\<lambda>x7.
     bindR (get d ''spool_byte_count'' as_int) (\<lambda>x8.
     bindR (get d ''member_count'' as_int) (\<lambda>x9.
     bindR (get d ''uncompressed_byte_count'' as_int) (\<lambda>x10.
     bindR (get d ''decoded_byte_count'' as_int) (\<lambda>x11.
     bindR (get d ''temporary_disk_peak_byte_count'' as_int) (\<lambda>x12.
     bindR (get d ''output_relpath'' as_str) (\<lambda>x13.
     bindR (get d ''output_file_count'' as_int) (\<lambda>x15.
     bindR (get d ''output_byte_count'' as_int) (\<lambda>x16.
     bindR (get d ''output_files_sha256'' as_str) (\<lambda>x17.
     bindR (get d ''provider_envelope_relpath'' as_str) (\<lambda>x18.
     bindR (get d ''provider_envelope_sha256'' as_str) (\<lambda>x19.
     bindR (get d ''provider_envelope_byte_count'' as_int) (\<lambda>x20.
     bindR (get d ''output_manifest_relpath'' as_str) (\<lambda>x21.
     bindR (get d ''output_manifest_sha256'' as_str) (\<lambda>x22.
     bindR (get d ''output_manifest_byte_count'' as_int) (\<lambda>x23.
     bindR (get d ''file_fsync_completed'' as_bool) (\<lambda>x24.
     bindR (get d ''output_parent_fsync_completed'' as_bool) (\<lambda>x25.
     bindR (get d ''marker_removed'' as_bool) (\<lambda>x26.
     bindR (get d ''spool_part_absent'' as_bool) (\<lambda>x27.
     bindR (get d ''spool_part_owner_absent'' as_bool) (\<lambda>x28.
     bindR (get d ''staging_absent'' as_bool) (\<lambda>x29.
     bindR (get d ''contract_version'' as_str) (\<lambda>x30.
       mk_receipt (attempt_identity.extend who
         \<lparr>lr_materialization_intent_sha256 = x1, lr_terminal_receipt_sha256 = x2,
          lr_source_pdf_sha256 = x3, lr_source_page_count = x4, lr_parser_target_sha256 = x5,
          lr_spool_relpath = x6, lr_spool_sha256 = x7, lr_spool_byte_count = x8,
          lr_member_count = x9, lr_uncompressed_byte_count = x10, lr_decoded_byte_count = x11,
          lr_temporary_disk_peak_byte_count = x12, lr_output_relpath = x13,
          lr_output_files = files, lr_output_file_count = x15, lr_output_byte_count = x16,
          lr_output_files_sha256 = x17, lr_provider_envelope_relpath = x18,
          lr_provider_envelope_sha256 = x19, lr_provider_envelope_byte_count = x20,
          lr_output_manifest_relpath = x21, lr_output_manifest_sha256 = x22,
          lr_output_manifest_byte_count = x23, lr_file_fsync_completed = x24,
          lr_output_parent_fsync_completed = x25, lr_marker_removed = x26,
          lr_spool_part_absent = x27, lr_spool_part_owner_absent = x28,
          lr_staging_absent = x29, lr_contract_version = x30\<rparr>)))))))))))))))))))))))))))))))"

definition build_receipt :: "obj \<Rightarrow> local_materialization_receipt res" where
  "build_receipt d =
     bindR (get d ''output_files'' (decode_tuple output_file_of_obj OUTPUT_FILE_FIELDS ''LocalOutputFileV4'' ''output files''))
       (\<lambda>files. receipt_of_obj d files)"

definition decode_local_materialization_receipt_v4 :: "string \<Rightarrow> local_materialization_receipt res" where
  "decode_local_materialization_receipt_v4 =
     decode_record receipt_payload RECEIPT_FIELDS ''LocalMaterializationReceiptV4'' build_receipt"


subsection \<open>Decoding inverts encoding: the receipt\<close>

definition valid_receipt :: "local_materialization_receipt \<Rightarrow> bool" where
  "valid_receipt r = (receipt_post_init r = Inr ())"

lemma receipt_parts:
  assumes "valid_receipt r"
  shows "check_receipt_facts r = Inr ()"
    and "\<And>f. f \<in> set (lr_output_files r) \<Longrightarrow> output_file_post_init f = Inr ()"
  using assms by (simp_all add: valid_receipt_def receipt_post_init_def check_receipt_facts_def)

lemma output_file_of_obj_members:
  assumes "output_file_post_init f = Inr ()"
  shows "output_file_of_obj (obj_of (members_of (output_file_json f))) = Inr f"
proof -
  define kvs where "kvs = members_of (output_file_json f)"
  have "list_all (\<lambda>kv. attr (obj_of kvs) (fst kv) = Some (pyval_of (snd kv))) (members_of (output_file_json f))"
    by (rule attrs_obj_of [OF kvs_def]) (simp add: output_file_json_def)
  then have "output_file_of_obj (obj_of kvs) = mk_output_file f"
    by (cases f) (simp add: output_file_json_def output_file_of_obj_def get_attr)
  with assms show ?thesis by (simp add: kvs_def mk_output_file_def construct_def)
qed

lemma output_file_json_ok: "output_file_post_init f = Inr () \<Longrightarrow> json_ok (output_file_json f)"
  by (auto simp: output_file_json_def output_file_post_init_def intro: int_digits_range)

lemma pyval_of_output_files:
  "pyval_of (JArr (map output_file_json fs)) = PList (map (\<lambda>f. PDict (obj_of (members_of (output_file_json f)))) fs)"
proof -
  have "pyval_of (output_file_json f) = PDict (obj_of (members_of (output_file_json f)))" for f
    unfolding output_file_json_def members_of.simps by (rule pyval_of_object)
  then show ?thesis by simp
qed

lemma build_receipt_members:
  assumes "valid_receipt r"
  shows "build_receipt (obj_of (members_of (receipt_payload r))) = Inr r"
proof -
  define kvs where "kvs = members_of (receipt_payload r)"
  have dist: "distinct (map fst kvs)"
    unfolding kvs_def by (simp add: receipt_payload_def identity_members_def)
  have who: "get_identity (obj_of kvs) = Inr (attempt_identity.truncate r)"
    by (rule get_identity_of [OF dist]) (auto simp: kvs_def receipt_payload_def)
  have "attr (obj_of kvs) ''output_files'' = Some (pyval_of (JArr (map output_file_json (lr_output_files r))))"
    by (rule attr_member [OF dist]) (simp add: kvs_def receipt_payload_def)
  then have attr: "attr (obj_of kvs) ''output_files''
      = Some (PList (map (\<lambda>f. PDict (obj_of (members_of (output_file_json f)))) (lr_output_files r)))"
    unfolding pyval_of_output_files .
  have files: "decode_tuple output_file_of_obj OUTPUT_FILE_FIELDS ''LocalOutputFileV4'' ''output files''
      (PList (map (\<lambda>f. PDict (obj_of (members_of (output_file_json f)))) (lr_output_files r))) = Inr (lr_output_files r)"
    using output_file_of_obj_members receipt_parts(2) [OF assms]
    by (intro decode_items_of) (simp_all add: output_file_json_def OUTPUT_FILE_FIELDS_def)
  have "list_all (\<lambda>kv. attr (obj_of kvs) (fst kv) = Some (pyval_of (snd kv))) (members_of (receipt_payload r))"
    by (rule attrs_obj_of [OF kvs_def]) (use dist in \<open>simp only: kvs_def\<close>)
  then have "receipt_of_obj (obj_of kvs) (lr_output_files r) = mk_receipt r"
    using who
    by (cases r) (simp add: receipt_payload_def receipt_of_obj_def get_attr attempt_identity.defs)
  with files assms show ?thesis
    unfolding kvs_def [symmetric]
    by (simp add: build_receipt_def get_attr [OF attr] mk_receipt_def valid_receipt_def construct_def)
qed

lemma json_ok_receipt:
  assumes "valid_receipt r"
  shows "json_ok (receipt_payload r)"
proof -
  note parts = receipt_parts(1) [OF assms, unfolded check_receipt_facts_def checks_Cons_Inr]
  have "int_digits (lr_source_page_count r) \<le> MAX_STR_DIGITS"
    "int_digits (lr_spool_byte_count r) \<le> MAX_STR_DIGITS"
    "int_digits (lr_member_count r) \<le> MAX_STR_DIGITS"
    "int_digits (lr_uncompressed_byte_count r) \<le> MAX_STR_DIGITS"
    "int_digits (lr_decoded_byte_count r) \<le> MAX_STR_DIGITS"
    "int_digits (lr_temporary_disk_peak_byte_count r) \<le> MAX_STR_DIGITS"
    "int_digits (lr_output_file_count r) \<le> MAX_STR_DIGITS"
    "int_digits (lr_output_byte_count r) \<le> MAX_STR_DIGITS"
    "int_digits (lr_provider_envelope_byte_count r) \<le> MAX_STR_DIGITS"
    "int_digits (lr_output_manifest_byte_count r) \<le> MAX_STR_DIGITS"
    using parts by (auto intro!: int_digits_bounded)
  moreover have "list_all json_ok (map output_file_json (lr_output_files r))"
    using output_file_json_ok receipt_parts(2) [OF assms] by (simp add: list_all_iff)
  ultimately show ?thesis
    by (simp add: receipt_payload_def identity_members_def)
qed

lemma receipt_fields: "set (map fst (members_of (receipt_payload r))) = set RECEIPT_FIELDS"
  by (auto simp: receipt_payload_def identity_members_def RECEIPT_FIELDS_def)

interpretation receipt: codec
  "\<lambda>r. lifecycle_json (receipt_payload r)" decode_local_materialization_receipt_v4 valid_receipt
  unfolding decode_local_materialization_receipt_v4_def
proof (rule codec_record)
  show "receipt_payload r = JObj (members_of (receipt_payload r))" for r
    by (simp add: receipt_payload_def)
  show "valid_receipt r" if "build_receipt d = Inr r" for d r
    using that by (auto simp: build_receipt_def receipt_of_obj_def mk_receipt_def valid_receipt_def)
qed (simp_all only: receipt_fields json_ok_receipt build_receipt_members)

subsection \<open>Decoding inverts encoding: the intent\<close>

lemma as_opt_int_of [simp]: "as_opt as_int (pyval_of (JOptInt v)) = Inr v"
  by (cases v) (simp_all add: as_opt_def JOptInt_def)

lemma target_of_obj_members:
  assumes "validate_target t = Inr ()"
  shows "target_of_obj (obj_of (members_of (target_payload t))) = Inr t"
proof -
  define kvs where "kvs = members_of (target_payload t)"
  have "list_all (\<lambda>kv. attr (obj_of kvs) (fst kv) = Some (pyval_of (snd kv))) (members_of (target_payload t))"
    by (rule attrs_obj_of [OF kvs_def]) (simp add: target_payload_def)
  then have "target_of_obj (obj_of kvs) = mk_target t"
    by (cases t) (simp add: target_payload_def target_of_obj_def get_attr)
  with assms show ?thesis by (simp add: kvs_def mk_target_def construct_def)
qed

lemma target_from_payload_of:
  assumes "validate_target t = Inr ()"
  shows "target_from_payload (PDict (obj_of (members_of (target_payload t)))) = Inr t"
proof -
  have "closed (obj_of (members_of (target_payload t))) TARGET_FIELDS [] = Inr ()"
    by (rule closed_members) (simp add: target_payload_def TARGET_FIELDS_def)
  then have "set (map fst (obj_of (members_of (target_payload t)))) = set (map cps TARGET_FIELDS)"
    unfolding closed_def require_Inr .
  then show ?thesis
    using target_of_obj_members [OF assms]
    by (simp add: target_from_payload_def target_require_def del: set_map)
qed

lemma context_of_obj_members:
  assumes "context_post_init c = Inr ()"
  shows "context_of_obj (obj_of (members_of (context_payload c))) (cx_parser_target_identity c) = Inr c"
proof -
  define kvs where "kvs = members_of (context_payload c)"
  have "list_all (\<lambda>kv. attr (obj_of kvs) (fst kv) = Some (pyval_of (snd kv))) (members_of (context_payload c))"
    by (rule attrs_obj_of [OF kvs_def]) (simp add: context_payload_def)
  then have "context_of_obj (obj_of kvs) (cx_parser_target_identity c) = mk_context c"
    by (cases c) (simp add: context_payload_def context_of_obj_def get_attr)
  with assms show ?thesis by (simp add: kvs_def mk_context_def construct_def)
qed


definition valid_intent :: "materialization_intent \<Rightarrow> bool" where
  "valid_intent i = (intent_post_init i = Inr ())"

lemma intent_parts:
  assumes "valid_intent i"
  shows "check_intent_facts i = Inr ()" and "check_intent_limits i = Inr ()"
    and "valid_rcv (mi_held_resource_credit i)"
    and "context_post_init (mi_provider_envelope_context i) = Inr ()"
    and "validate_target (cx_parser_target_identity (mi_provider_envelope_context i)) = Inr ()"
  using assms
  by (simp_all add: valid_intent_def intent_post_init_def check_intent_facts_def valid_rcv_def context_post_init_def)

lemma target_payload_ok: "printable_target t \<Longrightarrow> json_ok (target_payload t)"
  by (simp add: printable_target_def target_payload_def JOptInt_def split: option.splits)

lemma context_payload_ok:
  assumes "context_post_init c = Inr ()" and "printable_target (cx_parser_target_identity c)"
  shows "json_ok (context_payload c)"
proof -
  have "int_digits (cx_source_page_count c) \<le> MAX_STR_DIGITS"
    using assms(1) by (auto simp: context_post_init_def intro!: int_digits_bounded)
  with target_payload_ok [OF assms(2)] show ?thesis by (simp add: context_payload_def)
qed

lemma json_ok_intent:
  assumes "valid_intent i" and "printable_target (cx_parser_target_identity (mi_provider_envelope_context i))"
  shows "json_ok (intent_payload i)"
proof -
  note facts = intent_parts(1) [OF assms(1), unfolded check_intent_facts_def checks_Cons_Inr]
  note limits = intent_parts(2) [OF assms(1), unfolded check_intent_limits_def checks_Cons_Inr]
  have "int_digits (mi_source_lifecycle_version i) \<le> MAX_STR_DIGITS"
    "int_digits (mi_artifact_byte_count i) \<le> MAX_STR_DIGITS"
    "int_digits (mi_source_page_count i) \<le> MAX_STR_DIGITS"
    "int_digits (mi_provider_capability_byte_count i) \<le> MAX_STR_DIGITS"
    using facts by (auto simp: in_range_def intro!: int_digits_bounded)
  moreover have "int_digits (mi_result_byte_limit i) \<le> MAX_STR_DIGITS"
    "int_digits (mi_member_count_limit i) \<le> MAX_STR_DIGITS"
    "int_digits (mi_uncompressed_byte_limit i) \<le> MAX_STR_DIGITS"
    "int_digits (mi_decoded_byte_limit i) \<le> MAX_STR_DIGITS"
    "int_digits (mi_temporary_disk_byte_limit i) \<le> MAX_STR_DIGITS"
    "int_digits (mi_output_byte_limit i) \<le> MAX_STR_DIGITS"
    "int_digits (mi_output_page_limit i) \<le> MAX_STR_DIGITS"
    using limits by (auto intro!: int_digits_bounded)
  moreover have "json_ok (context_payload (mi_provider_envelope_context i))"
    by (rule context_payload_ok [OF intent_parts(4) [OF assms(1)] assms(2)])
  moreover have "json_ok (rcv_json (mi_held_resource_credit i))"
    by (rule json_ok_rcv [OF intent_parts(3) [OF assms(1)]])
  ultimately show ?thesis
    by (simp add: intent_payload_def identity_members_def intent_paths_def)
qed

lemma intent_distinct: "distinct (map fst (members_of (intent_payload i)))"
  by (simp add: intent_payload_def identity_members_def intent_paths_def)

lemma intent_of_obj_members:
  assumes "valid_intent i"
  shows "intent_of_obj (obj_of (members_of (intent_payload i))) (mi_provider_envelope_context i)
      (mi_held_resource_credit i) = Inr i"
proof -
  define kvs where "kvs = members_of (intent_payload i)"
  have dist: "distinct (map fst kvs)"
    unfolding kvs_def by (rule intent_distinct)
  have who: "get_identity (obj_of kvs) = Inr (attempt_identity.truncate i)"
    by (rule get_identity_of [OF dist]) (auto simp: kvs_def intent_payload_def)
  have "list_all (\<lambda>kv. attr (obj_of kvs) (fst kv) = Some (pyval_of (snd kv))) (members_of (intent_payload i))"
    by (rule attrs_obj_of [OF kvs_def]) (use dist in \<open>simp only: kvs_def\<close>)
  then have "intent_of_obj (obj_of kvs) (mi_provider_envelope_context i) (mi_held_resource_credit i) = mk_intent i"
    using who
    by (cases i)
       (simp add: intent_payload_def intent_paths_def intent_of_obj_def get_attr attempt_identity.defs)
  with assms show ?thesis by (simp add: kvs_def mk_intent_def valid_intent_def construct_def)
qed

lemma decode_intent_of:
  assumes valid: "valid_intent i" and bs: "intent_canonical_bytes i = Inr bs"
  shows "decode_materialization_intent_v4 bs = Inr i"
proof -
  let ?kvs = "members_of (intent_payload i)" and ?ctx = "mi_provider_envelope_context i"
  let ?ckvs = "members_of (context_payload ?ctx)"
  let ?target = "cx_parser_target_identity ?ctx"
  have printable: "printable_target ?target" and json: "lifecycle_json (intent_payload i) = Inr bs"
    using bs by (simp_all add: intent_canonical_bytes_def)
  have "intent_payload i = JObj ?kvs" by (simp add: intent_payload_def)
  then have read: "decode_canonical_object bs = Inr (obj_of ?kvs)"
    using json_ok_intent [OF valid printable] json by (intro decode_canonical_object_of) simp_all
  have "attr (obj_of ?kvs) ''held_resource_credit'' = Some (pyval_of (rcv_json (mi_held_resource_credit i)))"
    by (rule attr_member [OF intent_distinct]) (simp add: intent_payload_def)
  then have credit: "attr (obj_of ?kvs) ''held_resource_credit''
      = Some (PDict (obj_of (rcv_members (mi_held_resource_credit i))))"
    by (simp add: rcv_json_def pyval_of_object del: pyval_of.simps)
  have "attr (obj_of ?kvs) ''provider_envelope_context'' = Some (pyval_of (context_payload ?ctx))"
    by (rule attr_member [OF intent_distinct]) (simp add: intent_payload_def)
  then have envelope: "attr (obj_of ?kvs) ''provider_envelope_context'' = Some (PDict (obj_of ?ckvs))"
    using pyval_of_object [of ?ckvs] unfolding context_payload_def members_of.simps by (simp only:)
  have "distinct (map fst ?ckvs)" by (simp add: context_payload_def)
  then have "attr (obj_of ?ckvs) ''parser_target_identity'' = Some (pyval_of (target_payload ?target))"
    by (rule attr_member) (simp add: context_payload_def)
  then have target: "attr (obj_of ?ckvs) ''parser_target_identity''
      = Some (PDict (obj_of (members_of (target_payload ?target))))"
    using pyval_of_object [of "members_of (target_payload ?target)"]
    unfolding target_payload_def members_of.simps by (simp only:)
  have "closed (obj_of ?kvs) INTENT_FIELDS cls = Inr ()" for cls
    unfolding closed_obj_of
    by (auto simp: intent_payload_def identity_members_def intent_paths_def INTENT_FIELDS_def)
  moreover have "closed (obj_of ?ckvs) CONTEXT_FIELDS cls = Inr ()" for cls
    by (rule closed_members) (simp add: context_payload_def CONTEXT_FIELDS_def)
  ultimately show ?thesis
    using bs intent_of_obj_members [OF valid] rcv_of_obj_members [OF intent_parts(3) [OF valid]]
      context_of_obj_members [OF intent_parts(4) [OF valid]] target_from_payload_of [OF intent_parts(5) [OF valid]]
    by (simp add: decode_materialization_intent_v4_def read get_attr [OF credit] get_attr [OF envelope]
        get_attr [OF target])
qed

interpretation intent: codec intent_canonical_bytes decode_materialization_intent_v4 valid_intent
proof
  show "decode_materialization_intent_v4 bs = Inr i"
    if "valid_intent i" "intent_canonical_bytes i = Inr bs" for i bs
    using that by (rule decode_intent_of)
  show "valid_intent i \<and> intent_canonical_bytes i = Inr bs"
    if "decode_materialization_intent_v4 bs = Inr i" for i bs
    using that
    by (auto simp: decode_materialization_intent_v4_def intent_of_obj_def mk_intent_def valid_intent_def)
qed

end
