(* ===== verification/CleanupCodec.thy ===== *)
theory CleanupCodec
  imports MaterializationCodec Cleanup ProviderAck
begin

text \<open>
  The decoders of the records that end an attempt: \<open>decode_local_cleanup_plan_v4\<close>,
  \<open>decode_local_cleanup_receipt_v4\<close> and \<open>decode_provider_ack_receipt_v4\<close> of
  \<open>application/contracts/remote_parse_lifecycle_v4.py\<close>.
\<close>

definition all_outcomes :: "cleanup_outcome list" where
  "all_outcomes = [Success, Remote_failure, Local_failure, Pre_submission_failure, Superseded_outcome]"

lemma outcome_name_inject: "outcome_name a = outcome_name b \<longleftrightarrow> a = b"
  by (cases a; cases b) simp_all

lemma as_outcome_of [simp]: "as_enum outcome_name all_outcomes msg (PStr (cps (outcome_name a))) = Inr a"
proof (rule as_enum_of)
  show "a \<in> set all_outcomes" by (cases a) (simp_all add: all_outcomes_def)
qed (simp add: outcome_name_inject)

lemma kind_name_inject: "kind_name a = kind_name b \<longleftrightarrow> a = b"
  by (cases a; cases b) simp_all

lemma as_kind_of [simp]: "as_enum kind_name resource_kinds msg (PStr (cps (kind_name a))) = Inr a"
proof (rule as_enum_of)
  show "a \<in> set resource_kinds" by (cases a) (simp_all add: resource_kinds_def)
qed (simp add: kind_name_inject)

lemma as_action_of [simp]: "as_enum action_name [Delete, Transfer] msg (PStr (cps (action_name a))) = Inr a"
  by (rule as_enum_of; cases a) (auto, (case_tac b; simp)+)

lemma as_disposition_of [simp]:
  "as_enum disposition_name [Absent, Transferred] msg (PStr (cps (disposition_name a))) = Inr a"
  by (rule as_enum_of; cases a) (auto, (case_tac b; simp)+)

subsection \<open>The plan\<close>

definition mk_entry :: "cleanup_entry \<Rightarrow> cleanup_entry res" where
  "mk_entry e = construct (entry_post_init e) e"

definition ENTRY_FIELDS :: "string list" where
  "ENTRY_FIELDS =
     [''kind'', ''relpath'', ''ownership_basis_sha256'', ''expected_sha256'',
      ''expected_byte_count'', ''action'', ''target_owner_identity'', ''target_relpath'']"

definition entry_of_obj :: "obj \<Rightarrow> cleanup_entry res" where
  "entry_of_obj d =
     bindR (get d ''kind'' (as_enum kind_name resource_kinds ''cleanup resource kind is unsupported'')) (\<lambda>x1.
     bindR (get d ''relpath'' as_str) (\<lambda>x2.
     bindR (get d ''ownership_basis_sha256'' as_str) (\<lambda>x3.
     bindR (get d ''expected_sha256'' (as_opt as_str)) (\<lambda>x4.
     bindR (get d ''expected_byte_count'' (as_opt as_int)) (\<lambda>x5.
     bindR (get d ''action'' (as_enum action_name [Delete, Transfer] ''cleanup action is unsupported'')) (\<lambda>x6.
     bindR (get d ''target_owner_identity'' (as_opt as_str)) (\<lambda>x7.
     bindR (get d ''target_relpath'' (as_opt as_str)) (\<lambda>x8.
       mk_entry
         \<lparr>ce_kind = x1, ce_relpath = x2, ce_ownership_basis_sha256 = x3,
          ce_expected_sha256 = x4, ce_expected_byte_count = x5, ce_action = x6,
          ce_target_owner_identity = x7, ce_target_relpath = x8\<rparr>))))))))"

definition PLAN_FIELDS :: "string list" where
  "PLAN_FIELDS =
     [''attempt_id'', ''fence_identity'', ''document_id'', ''processing_run_id'', ''outcome'',
      ''source_state'', ''source_lifecycle_version'', ''source_checkpoint_sha256'',
      ''remote_task_identity'', ''terminal_receipt_sha256'', ''materialization_intent_sha256'',
      ''local_materialization_receipt_sha256'', ''publication_winner_sha256'',
      ''failure_receipt_sha256'', ''supersession_receipt_sha256'', ''resources'',
      ''resource_count'', ''resources_sha256'', ''contract_version'']"

definition plan_of_obj :: "obj \<Rightarrow> cleanup_entry list \<Rightarrow> cleanup_plan res" where
  "plan_of_obj d resources =
     bindR (get_identity d) (\<lambda>who.
     bindR (get d ''outcome'' (as_enum outcome_name all_outcomes ''cleanup outcome is unsupported'')) (\<lambda>x1.
     bindR (get d ''source_state'' (as_enum state_name all_states ''cleanup source state is not resourceful'')) (\<lambda>x2.
     bindR (get d ''source_lifecycle_version'' as_int) (\<lambda>x3.
     bindR (get d ''source_checkpoint_sha256'' as_str) (\<lambda>x4.
     bindR (get d ''remote_task_identity'' (as_opt as_str)) (\<lambda>x5.
     bindR (get d ''terminal_receipt_sha256'' (as_opt as_str)) (\<lambda>x6.
     bindR (get d ''materialization_intent_sha256'' (as_opt as_str)) (\<lambda>x7.
     bindR (get d ''local_materialization_receipt_sha256'' (as_opt as_str)) (\<lambda>x8.
     bindR (get d ''publication_winner_sha256'' (as_opt as_str)) (\<lambda>x9.
     bindR (get d ''failure_receipt_sha256'' (as_opt as_str)) (\<lambda>x10.
     bindR (get d ''supersession_receipt_sha256'' (as_opt as_str)) (\<lambda>x11.
     bindR (get d ''resource_count'' as_int) (\<lambda>x13.
     bindR (get d ''resources_sha256'' as_str) (\<lambda>x14.
     bindR (get d ''contract_version'' as_str) (\<lambda>x15.
       mk_plan (attempt_identity.extend who
         \<lparr>pl_outcome = x1, pl_source_state = x2, pl_source_lifecycle_version = x3,
          pl_source_checkpoint_sha256 = x4, pl_remote_task_identity = x5,
          pl_terminal_receipt_sha256 = x6, pl_materialization_intent_sha256 = x7,
          pl_local_materialization_receipt_sha256 = x8, pl_publication_winner_sha256 = x9,
          pl_failure_receipt_sha256 = x10, pl_supersession_receipt_sha256 = x11,
          pl_resources = resources, pl_resource_count = x13, pl_resources_sha256 = x14,
          pl_contract_version = x15\<rparr>))))))))))))))))"

definition build_plan :: "obj \<Rightarrow> cleanup_plan res" where
  "build_plan d =
     bindR (get d ''resources'' (decode_tuple entry_of_obj ENTRY_FIELDS ''CleanupResourceEntryV4'' ''cleanup resources''))
       (\<lambda>resources. plan_of_obj d resources)"

definition decode_local_cleanup_plan_v4 :: "string \<Rightarrow> cleanup_plan res" where
  "decode_local_cleanup_plan_v4 = decode_record plan_payload PLAN_FIELDS ''LocalCleanupPlanV4'' build_plan"

subsection \<open>The cleanup receipt\<close>

definition mk_result :: "cleanup_result \<Rightarrow> cleanup_result res" where
  "mk_result u = construct (result_post_init u) u"

definition RESULT_FIELDS :: "string list" where
  "RESULT_FIELDS =
     [''kind'', ''relpath'', ''disposition'', ''target_owner_identity'', ''target_relpath'']"

definition result_of_obj :: "obj \<Rightarrow> cleanup_result res" where
  "result_of_obj d =
     bindR (get d ''kind'' (as_enum kind_name resource_kinds ''cleanup result kind is unsupported'')) (\<lambda>x1.
     bindR (get d ''relpath'' as_str) (\<lambda>x2.
     bindR (get d ''disposition'' (as_enum disposition_name [Absent, Transferred] ''cleanup disposition is unsupported'')) (\<lambda>x3.
     bindR (get d ''target_owner_identity'' (as_opt as_str)) (\<lambda>x4.
     bindR (get d ''target_relpath'' (as_opt as_str)) (\<lambda>x5.
       mk_result
         \<lparr>cu_kind = x1, cu_relpath = x2, cu_disposition = x3, cu_target_owner_identity = x4,
          cu_target_relpath = x5\<rparr>)))))"

definition CLEANUP_RECEIPT_FIELDS :: "string list" where
  "CLEANUP_RECEIPT_FIELDS =
     [''attempt_id'', ''fence_identity'', ''document_id'', ''processing_run_id'', ''outcome'',
      ''cleanup_plan_sha256'', ''cleanup_pending_checkpoint_sha256'',
      ''cleanup_pending_lifecycle_version'', ''results'', ''result_count'', ''results_sha256'',
      ''parent_fsync_completed'', ''contract_version'']"

definition cleanup_receipt_of_obj :: "obj \<Rightarrow> cleanup_result list \<Rightarrow> cleanup_receipt res" where
  "cleanup_receipt_of_obj d results =
     bindR (get_identity d) (\<lambda>who.
     bindR (get d ''outcome'' (as_enum outcome_name all_outcomes ''cleanup receipt outcome is unsupported'')) (\<lambda>x1.
     bindR (get d ''cleanup_plan_sha256'' as_str) (\<lambda>x2.
     bindR (get d ''cleanup_pending_checkpoint_sha256'' as_str) (\<lambda>x3.
     bindR (get d ''cleanup_pending_lifecycle_version'' as_int) (\<lambda>x4.
     bindR (get d ''result_count'' as_int) (\<lambda>x6.
     bindR (get d ''results_sha256'' as_str) (\<lambda>x7.
     bindR (get d ''parent_fsync_completed'' as_bool) (\<lambda>x8.
     bindR (get d ''contract_version'' as_str) (\<lambda>x9.
       mk_cleanup_receipt (attempt_identity.extend who
         \<lparr>ct_outcome = x1, ct_cleanup_plan_sha256 = x2,
          ct_cleanup_pending_checkpoint_sha256 = x3, ct_cleanup_pending_lifecycle_version = x4,
          ct_results = results, ct_result_count = x6, ct_results_sha256 = x7,
          ct_parent_fsync_completed = x8, ct_contract_version = x9\<rparr>))))))))))"

definition build_cleanup_receipt :: "obj \<Rightarrow> cleanup_receipt res" where
  "build_cleanup_receipt d =
     bindR (get d ''results'' (decode_tuple result_of_obj RESULT_FIELDS ''LocalCleanupResourceResultV4'' ''cleanup results''))
       (\<lambda>results. cleanup_receipt_of_obj d results)"

definition decode_local_cleanup_receipt_v4 :: "string \<Rightarrow> cleanup_receipt res" where
  "decode_local_cleanup_receipt_v4 =
     decode_record cleanup_receipt_payload CLEANUP_RECEIPT_FIELDS ''LocalCleanupReceiptV4'' build_cleanup_receipt"

subsection \<open>The acknowledgement\<close>

definition ACK_RECEIPT_FIELDS :: "string list" where
  "ACK_RECEIPT_FIELDS =
     [''attempt_id'', ''fence_identity'', ''document_id'', ''processing_run_id'', ''outcome'',
      ''ack_pending_checkpoint_sha256'', ''ack_pending_lifecycle_version'',
      ''accepted_submission_sha256'', ''remote_task_identity'', ''result_owner_identity'',
      ''terminal_receipt_sha256'', ''failure_receipt_sha256'', ''supersession_receipt_sha256'',
      ''local_materialization_receipt_sha256'', ''publication_winner_sha256'',
      ''cleanup_plan_sha256'', ''cleanup_receipt_sha256'', ''provider_protocol_version'',
      ''request_identity'', ''ack_request_sha256'', ''ack_kind'', ''http_status'',
      ''provider_response_sha256'', ''provider_response_byte_count'',
      ''provider_receipt_identity'', ''contract_version'']"

definition ack_receipt_of_obj :: "obj \<Rightarrow> provider_ack_receipt res" where
  "ack_receipt_of_obj d =
     bindR (get_identity d) (\<lambda>who.
     bindR (get d ''outcome'' (as_enum outcome_name all_outcomes ''provider ACK outcome is unsupported'')) (\<lambda>x1.
     bindR (get d ''ack_pending_checkpoint_sha256'' as_str) (\<lambda>x2.
     bindR (get d ''ack_pending_lifecycle_version'' as_int) (\<lambda>x3.
     bindR (get d ''accepted_submission_sha256'' as_str) (\<lambda>x4.
     bindR (get d ''remote_task_identity'' as_str) (\<lambda>x5.
     bindR (get d ''result_owner_identity'' (as_opt as_str)) (\<lambda>x6.
     bindR (get d ''terminal_receipt_sha256'' (as_opt as_str)) (\<lambda>x7.
     bindR (get d ''failure_receipt_sha256'' (as_opt as_str)) (\<lambda>x8.
     bindR (get d ''supersession_receipt_sha256'' (as_opt as_str)) (\<lambda>x9.
     bindR (get d ''local_materialization_receipt_sha256'' (as_opt as_str)) (\<lambda>x10.
     bindR (get d ''publication_winner_sha256'' (as_opt as_str)) (\<lambda>x11.
     bindR (get d ''cleanup_plan_sha256'' as_str) (\<lambda>x12.
     bindR (get d ''cleanup_receipt_sha256'' as_str) (\<lambda>x13.
     bindR (get d ''provider_protocol_version'' as_str) (\<lambda>x14.
     bindR (get d ''request_identity'' as_str) (\<lambda>x15.
     bindR (get d ''ack_request_sha256'' as_str) (\<lambda>x16.
     bindR (get d ''ack_kind'' as_str) (\<lambda>x17.
     bindR (get d ''http_status'' as_int) (\<lambda>x18.
     bindR (get d ''provider_response_sha256'' as_str) (\<lambda>x19.
     bindR (get d ''provider_response_byte_count'' as_int) (\<lambda>x20.
     bindR (get d ''provider_receipt_identity'' (as_opt as_str)) (\<lambda>x21.
     bindR (get d ''contract_version'' as_str) (\<lambda>x22.
       mk_ack_receipt (attempt_identity.extend who
         \<lparr>ak_outcome = x1, ak_ack_pending_checkpoint_sha256 = x2,
          ak_ack_pending_lifecycle_version = x3, ak_accepted_submission_sha256 = x4,
          ak_remote_task_identity = x5, ak_result_owner_identity = x6,
          ak_terminal_receipt_sha256 = x7, ak_failure_receipt_sha256 = x8,
          ak_supersession_receipt_sha256 = x9, ak_local_materialization_receipt_sha256 = x10,
          ak_publication_winner_sha256 = x11, ak_cleanup_plan_sha256 = x12,
          ak_cleanup_receipt_sha256 = x13, ak_provider_protocol_version = x14,
          ak_request_identity = x15, ak_ack_request_sha256 = x16, ak_ack_kind = x17,
          ak_http_status = x18, ak_provider_response_sha256 = x19,
          ak_provider_response_byte_count = x20, ak_provider_receipt_identity = x21,
          ak_contract_version = x22\<rparr>))))))))))))))))))))))))"

definition decode_provider_ack_receipt_v4 :: "string \<Rightarrow> provider_ack_receipt res" where
  "decode_provider_ack_receipt_v4 =
     decode_record ack_receipt_payload ACK_RECEIPT_FIELDS ''ProviderAckReceiptV4'' ack_receipt_of_obj"


subsection \<open>Decoding inverts encoding: the plan\<close>

definition valid_plan :: "cleanup_plan \<Rightarrow> bool" where
  "valid_plan p = (plan_post_init p = Inr ())"

lemma plan_parts:
  assumes "valid_plan p"
  shows "check_plan_facts p = Inr ()" and "pl_resource_count p = int (length (pl_resources p))"
    and "\<And>e. e \<in> set (pl_resources p) \<Longrightarrow> entry_post_init e = Inr ()"
  using assms
  by (simp_all add: valid_plan_def plan_post_init_def check_plan_resources_def split: if_splits)

lemma entry_of_obj_members:
  assumes "entry_post_init e = Inr ()"
  shows "entry_of_obj (obj_of (members_of (entry_json e))) = Inr e"
proof -
  define kvs where "kvs = members_of (entry_json e)"
  have "list_all (\<lambda>kv. attr (obj_of kvs) (fst kv) = Some (pyval_of (snd kv))) (members_of (entry_json e))"
    by (rule attrs_obj_of [OF kvs_def]) (simp add: entry_json_def)
  then have "entry_of_obj (obj_of kvs) = mk_entry e"
    by (cases e) (simp add: entry_json_def entry_of_obj_def get_attr)
  with assms show ?thesis by (simp add: kvs_def mk_entry_def construct_def)
qed

lemma entry_json_ok: "entry_post_init e = Inr () \<Longrightarrow> json_ok (entry_json e)"
  by (auto simp: entry_json_def entry_post_init_def JOptInt_def intro: int_digits_range split: option.splits)

lemma pyval_of_entries:
  "pyval_of (JArr (map entry_json es)) = PList (map (\<lambda>e. PDict (obj_of (members_of (entry_json e)))) es)"
proof -
  have "pyval_of (entry_json e) = PDict (obj_of (members_of (entry_json e)))" for e
    unfolding entry_json_def members_of.simps by (rule pyval_of_object)
  then show ?thesis by simp
qed

lemma build_plan_members:
  assumes "valid_plan p"
  shows "build_plan (obj_of (members_of (plan_payload p))) = Inr p"
proof -
  define kvs where "kvs = members_of (plan_payload p)"
  have dist: "distinct (map fst kvs)"
    unfolding kvs_def by (simp add: plan_payload_def identity_members_def)
  have who: "get_identity (obj_of kvs) = Inr (attempt_identity.truncate p)"
    by (rule get_identity_of [OF dist]) (auto simp: kvs_def plan_payload_def)
  have "attr (obj_of kvs) ''resources'' = Some (pyval_of (JArr (map entry_json (pl_resources p))))"
    by (rule attr_member [OF dist]) (simp add: kvs_def plan_payload_def)
  then have attr: "attr (obj_of kvs) ''resources''
      = Some (PList (map (\<lambda>e. PDict (obj_of (members_of (entry_json e)))) (pl_resources p)))"
    unfolding pyval_of_entries .
  have items: "decode_tuple entry_of_obj ENTRY_FIELDS ''CleanupResourceEntryV4'' ''cleanup resources''
      (PList (map (\<lambda>e. PDict (obj_of (members_of (entry_json e)))) (pl_resources p))) = Inr (pl_resources p)"
    using entry_of_obj_members plan_parts(3) [OF assms]
    by (intro decode_items_of) (simp_all add: entry_json_def ENTRY_FIELDS_def)
  have "list_all (\<lambda>kv. attr (obj_of kvs) (fst kv) = Some (pyval_of (snd kv))) (members_of (plan_payload p))"
    by (rule attrs_obj_of [OF kvs_def]) (use dist in \<open>simp only: kvs_def\<close>)
  then have "plan_of_obj (obj_of kvs) (pl_resources p) = mk_plan p"
    using who
    by (cases p) (simp add: plan_payload_def plan_of_obj_def get_attr attempt_identity.defs)
  with items assms show ?thesis
    unfolding kvs_def [symmetric]
    by (simp add: build_plan_def get_attr [OF attr] mk_plan_def valid_plan_def construct_def)
qed

lemma json_ok_plan:
  assumes "valid_plan p" and "length (json_bytes (plan_payload p)) \<le> MAX_BYTES"
  shows "json_ok (plan_payload p)"
proof -
  note parts = plan_parts(1) [OF assms(1), unfolded check_plan_facts_def checks_Cons_Inr]
  have "int_digits (pl_source_lifecycle_version p) \<le> MAX_STR_DIGITS"
    using parts by (auto simp: in_range_def intro!: int_digits_bounded)
  moreover have "int_digits (int (length (map entry_json (pl_resources p)))) \<le> MAX_STR_DIGITS"
    by (rule int_digits_items [OF assms(2) [unfolded plan_payload_def], of "''resources''"]) simp
  moreover have "list_all json_ok (map entry_json (pl_resources p))"
    using entry_json_ok plan_parts(3) [OF assms(1)] by (simp add: list_all_iff)
  ultimately show ?thesis
    by (simp add: plan_payload_def identity_members_def plan_parts(2) [OF assms(1)])
qed

lemma plan_fields: "set (map fst (members_of (plan_payload p))) = set PLAN_FIELDS"
  by (auto simp: plan_payload_def identity_members_def PLAN_FIELDS_def)

interpretation plan: codec "\<lambda>p. lifecycle_json (plan_payload p)" decode_local_cleanup_plan_v4 valid_plan
  unfolding decode_local_cleanup_plan_v4_def
proof (rule codec_record)
  show "plan_payload p = JObj (members_of (plan_payload p))" for p
    by (simp add: plan_payload_def)
  show "valid_plan p" if "build_plan d = Inr p" for d p
    using that by (auto simp: build_plan_def plan_of_obj_def mk_plan_def valid_plan_def)
qed (simp_all only: plan_fields json_ok_plan build_plan_members)


subsection \<open>Decoding inverts encoding: the cleanup receipt\<close>

definition valid_cleanup_receipt :: "cleanup_receipt \<Rightarrow> bool" where
  "valid_cleanup_receipt r = (cleanup_receipt_post_init r = Inr ())"

lemma cleanup_receipt_parts:
  assumes "valid_cleanup_receipt r"
  shows "in_range (ct_cleanup_pending_lifecycle_version r)" and "ct_result_count r = int (length (ct_results r))"
    and "\<And>u. u \<in> set (ct_results r) \<Longrightarrow> result_post_init u = Inr ()"
  using assms
  by (simp_all add: valid_cleanup_receipt_def cleanup_receipt_post_init_def split: if_splits)

lemma result_of_obj_members:
  assumes "result_post_init u = Inr ()"
  shows "result_of_obj (obj_of (members_of (result_json u))) = Inr u"
proof -
  define kvs where "kvs = members_of (result_json u)"
  have "list_all (\<lambda>kv. attr (obj_of kvs) (fst kv) = Some (pyval_of (snd kv))) (members_of (result_json u))"
    by (rule attrs_obj_of [OF kvs_def]) (simp add: result_json_def)
  then have "result_of_obj (obj_of kvs) = mk_result u"
    by (cases u) (simp add: result_json_def result_of_obj_def get_attr)
  with assms show ?thesis by (simp add: kvs_def mk_result_def construct_def)
qed

lemma pyval_of_results:
  "pyval_of (JArr (map result_json us)) = PList (map (\<lambda>u. PDict (obj_of (members_of (result_json u)))) us)"
proof -
  have "pyval_of (result_json u) = PDict (obj_of (members_of (result_json u)))" for u
    unfolding result_json_def members_of.simps by (rule pyval_of_object)
  then show ?thesis by simp
qed

lemma build_cleanup_receipt_members:
  assumes "valid_cleanup_receipt r"
  shows "build_cleanup_receipt (obj_of (members_of (cleanup_receipt_payload r))) = Inr r"
proof -
  define kvs where "kvs = members_of (cleanup_receipt_payload r)"
  have dist: "distinct (map fst kvs)"
    unfolding kvs_def by (simp add: cleanup_receipt_payload_def identity_members_def)
  have who: "get_identity (obj_of kvs) = Inr (attempt_identity.truncate r)"
    by (rule get_identity_of [OF dist]) (auto simp: kvs_def cleanup_receipt_payload_def)
  have "attr (obj_of kvs) ''results'' = Some (pyval_of (JArr (map result_json (ct_results r))))"
    by (rule attr_member [OF dist]) (simp add: kvs_def cleanup_receipt_payload_def)
  then have attr: "attr (obj_of kvs) ''results''
      = Some (PList (map (\<lambda>u. PDict (obj_of (members_of (result_json u)))) (ct_results r)))"
    unfolding pyval_of_results .
  have items: "decode_tuple result_of_obj RESULT_FIELDS ''LocalCleanupResourceResultV4'' ''cleanup results''
      (PList (map (\<lambda>u. PDict (obj_of (members_of (result_json u)))) (ct_results r))) = Inr (ct_results r)"
    using result_of_obj_members cleanup_receipt_parts(3) [OF assms]
    by (intro decode_items_of) (simp_all add: result_json_def RESULT_FIELDS_def)
  have "list_all (\<lambda>kv. attr (obj_of kvs) (fst kv) = Some (pyval_of (snd kv))) (members_of (cleanup_receipt_payload r))"
    by (rule attrs_obj_of [OF kvs_def]) (use dist in \<open>simp only: kvs_def\<close>)
  then have "cleanup_receipt_of_obj (obj_of kvs) (ct_results r) = mk_cleanup_receipt r"
    using who
    by (cases r)
       (simp add: cleanup_receipt_payload_def cleanup_receipt_of_obj_def get_attr attempt_identity.defs)
  with items assms show ?thesis
    unfolding kvs_def [symmetric]
    by (simp add: build_cleanup_receipt_def get_attr [OF attr] mk_cleanup_receipt_def
        valid_cleanup_receipt_def construct_def)
qed

lemma json_ok_cleanup_receipt:
  assumes "valid_cleanup_receipt r" and "length (json_bytes (cleanup_receipt_payload r)) \<le> MAX_BYTES"
  shows "json_ok (cleanup_receipt_payload r)"
proof -
  have "int_digits (ct_cleanup_pending_lifecycle_version r) \<le> MAX_STR_DIGITS"
    by (rule int_digits_range [OF cleanup_receipt_parts(1) [OF assms(1)]])
  moreover have "int_digits (int (length (map result_json (ct_results r)))) \<le> MAX_STR_DIGITS"
    by (rule int_digits_items [OF assms(2) [unfolded cleanup_receipt_payload_def], of "''results''"]) simp
  moreover have "list_all json_ok (map result_json (ct_results r))"
    by (simp add: list_all_iff result_json_def)
  ultimately show ?thesis
    by (simp add: cleanup_receipt_payload_def identity_members_def cleanup_receipt_parts(2) [OF assms(1)])
qed

lemma cleanup_receipt_fields: "set (map fst (members_of (cleanup_receipt_payload r))) = set CLEANUP_RECEIPT_FIELDS"
  by (auto simp: cleanup_receipt_payload_def identity_members_def CLEANUP_RECEIPT_FIELDS_def)

interpretation cleanup_receipt: codec
  "\<lambda>r. lifecycle_json (cleanup_receipt_payload r)" decode_local_cleanup_receipt_v4 valid_cleanup_receipt
  unfolding decode_local_cleanup_receipt_v4_def
proof (rule codec_record)
  show "cleanup_receipt_payload r = JObj (members_of (cleanup_receipt_payload r))" for r
    by (simp add: cleanup_receipt_payload_def)
  show "valid_cleanup_receipt r" if "build_cleanup_receipt d = Inr r" for d r
    using that
    by (auto simp: build_cleanup_receipt_def cleanup_receipt_of_obj_def mk_cleanup_receipt_def valid_cleanup_receipt_def)
qed (simp_all only: cleanup_receipt_fields json_ok_cleanup_receipt build_cleanup_receipt_members)

subsection \<open>Decoding inverts encoding: the acknowledgement\<close>

definition valid_ack_receipt :: "provider_ack_receipt \<Rightarrow> bool" where
  "valid_ack_receipt a = (ack_post_init a = Inr ())"

lemma ack_receipt_of_obj_members:
  assumes "valid_ack_receipt a"
  shows "ack_receipt_of_obj (obj_of (members_of (ack_receipt_payload a))) = Inr a"
proof -
  define kvs where "kvs = members_of (ack_receipt_payload a)"
  have dist: "distinct (map fst kvs)"
    unfolding kvs_def by (simp add: ack_receipt_payload_def identity_members_def)
  have who: "get_identity (obj_of kvs) = Inr (attempt_identity.truncate a)"
    by (rule get_identity_of [OF dist]) (auto simp: kvs_def ack_receipt_payload_def)
  have "list_all (\<lambda>kv. attr (obj_of kvs) (fst kv) = Some (pyval_of (snd kv))) (members_of (ack_receipt_payload a))"
    by (rule attrs_obj_of [OF kvs_def]) (use dist in \<open>simp only: kvs_def\<close>)
  then have "ack_receipt_of_obj (obj_of kvs) = mk_ack_receipt a"
    using who
    by (cases a) (simp add: ack_receipt_payload_def ack_receipt_of_obj_def get_attr attempt_identity.defs)
  with assms show ?thesis by (simp add: kvs_def mk_ack_receipt_def valid_ack_receipt_def construct_def)
qed

lemma json_ok_ack_receipt:
  assumes "valid_ack_receipt a"
  shows "json_ok (ack_receipt_payload a)"
proof -
  have parts: "check_ack_facts a = Inr ()" "check_ack_response a = Inr ()"
    using assms by (simp_all add: valid_ack_receipt_def ack_post_init_def)
  have "ak_http_status a \<in> {200, 204, 404}"
    using parts(2) by (auto simp: check_ack_response_def split: if_splits)
  then have "int_digits (ak_http_status a) \<le> MAX_STR_DIGITS"
    by (auto simp: MAX_INT_def intro!: int_digits_bounded)
  moreover have "int_digits (ak_ack_pending_lifecycle_version a) \<le> MAX_STR_DIGITS"
    "int_digits (ak_provider_response_byte_count a) \<le> MAX_STR_DIGITS"
    using parts(1) by (auto simp: check_ack_facts_def intro!: int_digits_range)
  ultimately show ?thesis by (simp add: ack_receipt_payload_def identity_members_def)
qed

lemma ack_receipt_fields: "set (map fst (members_of (ack_receipt_payload a))) = set ACK_RECEIPT_FIELDS"
  by (auto simp: ack_receipt_payload_def identity_members_def ACK_RECEIPT_FIELDS_def)

interpretation ack_receipt: codec
  "\<lambda>a. lifecycle_json (ack_receipt_payload a)" decode_provider_ack_receipt_v4 valid_ack_receipt
  unfolding decode_provider_ack_receipt_v4_def
proof (rule codec_record)
  show "ack_receipt_payload a = JObj (members_of (ack_receipt_payload a))" for a
    by (simp add: ack_receipt_payload_def)
  show "valid_ack_receipt a" if "ack_receipt_of_obj d = Inr a" for d a
    using that by (auto simp: ack_receipt_of_obj_def mk_ack_receipt_def valid_ack_receipt_def)
qed (simp_all only: ack_receipt_fields json_ok_ack_receipt ack_receipt_of_obj_members)

end
