(* ===== verification/EvidenceCodec.thy ===== *)
theory EvidenceCodec
  imports EvidenceRecords CleanupCodec
begin

text \<open>
  The decoders of \<open>application/contracts/remote_parse_evidence_v4.py\<close> (\<open>_decode_dataclass\<close>,
  \<open>_decode_failure\<close>) for the records of \<open>EvidenceRecords\<close>; each is an instance of the
  codec contract.
\<close>

text \<open>\<open>_decode_object\<close> and \<open>_decode_dataclass\<close>\<close>

definition decode_object :: "string \<Rightarrow> obj res" where
  "decode_object exact =
     bindR (require (1 \<le> length exact \<and> length exact \<le> MAX_BYTES)
       ''remote-parse v4 evidence bytes are outside envelope'') (\<lambda>_.
     bindR (strict_json_loads exact) (\<lambda>v.
       case v of PDict d \<Rightarrow> Inr d | _ \<Rightarrow> Inl (ValueError ''remote-parse v4 evidence must be an object'')))"

definition decode_dataclass ::
  "('r \<Rightarrow> json) \<Rightarrow> string list \<Rightarrow> string \<Rightarrow> (obj \<Rightarrow> 'r res) \<Rightarrow> string \<Rightarrow> string \<Rightarrow> 'r res" where
  "decode_dataclass payload names cls build msg exact =
     bindR (decode_object exact) (\<lambda>d.
     bindR (closed d names cls) (\<lambda>_.
     bindR (build d) (\<lambda>r.
     bindR (evidence_json (payload r)) (\<lambda>observed.
     bindR (require (observed = exact) msg) (\<lambda>_. Inr r)))))"

definition NOT_CANONICAL :: string where
  "NOT_CANONICAL = ''remote-parse v4 evidence JSON is not canonical''"

definition get_fence :: "obj \<Rightarrow> fenced_evidence res" where
  "get_fence d =
     bindR (get d ''attempt_id'' as_str) (\<lambda>attempt.
     bindR (get d ''fence_identity'' as_str) (\<lambda>fence.
       Inr \<lparr>fe_attempt_id = attempt, fe_fence_identity = fence\<rparr>))"

definition failure_receipt_outcomes :: "failure_outcome list" where
  "failure_receipt_outcomes =
     [Preparation_failure_outcome, Pre_submission_failure_outcome, Remote_failure_outcome, Local_failure_outcome]"

subsection \<open>The constructors on parsed objects\<close>

definition PREPARATION_FIELDS :: "string list" where
  "PREPARATION_FIELDS =
     [''attempt_id'', ''fence_identity'', ''document_id'', ''processing_run_id'',
      ''source_pdf_sha256'', ''source_byte_count'', ''source_page_count'',
      ''parser_target_sha256'', ''request_sha256'', ''runtime_epoch_sha256'',
      ''process_profile_sha256'', ''execution_spec_sha256'', ''execution_spec_byte_count'',
      ''reservation_sha256'', ''snapshot_relpath'', ''snapshot_part_relpath'',
      ''snapshot_part_owner_relpath'', ''snapshot_lock_relpath'', ''contract_version'']"

definition preparation_of_obj :: "obj \<Rightarrow> preparation_intent res" where
  "preparation_of_obj d =
     bindR (get_identity d) (\<lambda>who.
     bindR (get d ''source_pdf_sha256'' as_str) (\<lambda>x1.
     bindR (get d ''source_byte_count'' as_int) (\<lambda>x2.
     bindR (get d ''source_page_count'' as_int) (\<lambda>x3.
     bindR (get d ''parser_target_sha256'' as_str) (\<lambda>x4.
     bindR (get d ''request_sha256'' as_str) (\<lambda>x5.
     bindR (get d ''runtime_epoch_sha256'' as_str) (\<lambda>x6.
     bindR (get d ''process_profile_sha256'' as_str) (\<lambda>x7.
     bindR (get d ''execution_spec_sha256'' as_str) (\<lambda>x8.
     bindR (get d ''execution_spec_byte_count'' as_int) (\<lambda>x9.
     bindR (get d ''reservation_sha256'' as_str) (\<lambda>x10.
     bindR (get d ''snapshot_relpath'' as_str) (\<lambda>x11.
     bindR (get d ''snapshot_part_relpath'' as_str) (\<lambda>x12.
     bindR (get d ''snapshot_part_owner_relpath'' as_str) (\<lambda>x13.
     bindR (get d ''snapshot_lock_relpath'' as_str) (\<lambda>x14.
     bindR (get d ''contract_version'' as_str) (\<lambda>x15.
       mk_preparation (attempt_identity.extend who
         \<lparr>pi_source_pdf_sha256 = x1, pi_source_byte_count = x2, pi_source_page_count = x3,
          pi_parser_target_sha256 = x4, pi_request_sha256 = x5, pi_runtime_epoch_sha256 = x6,
          pi_process_profile_sha256 = x7, pi_execution_spec_sha256 = x8,
          pi_execution_spec_byte_count = x9, pi_reservation_sha256 = x10,
          pi_snapshot_relpath = x11, pi_snapshot_part_relpath = x12,
          pi_snapshot_part_owner_relpath = x13, pi_snapshot_lock_relpath = x14,
          pi_contract_version = x15\<rparr>)))))))))))))))))"

definition SNAPSHOT_FIELDS :: "string list" where
  "SNAPSHOT_FIELDS =
     [''attempt_id'', ''fence_identity'', ''preparation_intent_sha256'', ''snapshot_relpath'',
      ''snapshot_sha256'', ''snapshot_byte_count'', ''part_path_absent'',
      ''part_owner_path_absent'', ''file_fsync_completed'', ''parent_fsync_completed'',
      ''contract_version'']"

definition snapshot_of_obj :: "obj \<Rightarrow> snapshot_receipt res" where
  "snapshot_of_obj d =
     bindR (get_fence d) (\<lambda>who.
     bindR (get d ''preparation_intent_sha256'' as_str) (\<lambda>x1.
     bindR (get d ''snapshot_relpath'' as_str) (\<lambda>x2.
     bindR (get d ''snapshot_sha256'' as_str) (\<lambda>x3.
     bindR (get d ''snapshot_byte_count'' as_int) (\<lambda>x4.
     bindR (get d ''part_path_absent'' as_bool) (\<lambda>x5.
     bindR (get d ''part_owner_path_absent'' as_bool) (\<lambda>x6.
     bindR (get d ''file_fsync_completed'' as_bool) (\<lambda>x7.
     bindR (get d ''parent_fsync_completed'' as_bool) (\<lambda>x8.
     bindR (get d ''contract_version'' as_str) (\<lambda>x9.
       mk_snapshot (fenced_evidence.extend who
         \<lparr>sr_preparation_intent_sha256 = x1, sr_snapshot_relpath = x2, sr_snapshot_sha256 = x3,
          sr_snapshot_byte_count = x4, sr_part_path_absent = x5,
          sr_part_owner_path_absent = x6, sr_file_fsync_completed = x7,
          sr_parent_fsync_completed = x8, sr_contract_version = x9\<rparr>)))))))))))"

definition SUBMISSION_FIELDS :: "string list" where
  "SUBMISSION_FIELDS =
     [''attempt_id'', ''fence_identity'', ''snapshot_receipt_sha256'', ''source_pdf_sha256'',
      ''parser_target_sha256'', ''request_sha256'', ''runtime_epoch_sha256'',
      ''client_submit_key'', ''submission_epoch_unix'', ''provider_protocol_version'',
      ''contract_version'']"

definition submission_of_obj :: "obj \<Rightarrow> submission_intent res" where
  "submission_of_obj d =
     bindR (get_fence d) (\<lambda>who.
     bindR (get d ''snapshot_receipt_sha256'' as_str) (\<lambda>x1.
     bindR (get d ''source_pdf_sha256'' as_str) (\<lambda>x2.
     bindR (get d ''parser_target_sha256'' as_str) (\<lambda>x3.
     bindR (get d ''request_sha256'' as_str) (\<lambda>x4.
     bindR (get d ''runtime_epoch_sha256'' as_str) (\<lambda>x5.
     bindR (get d ''client_submit_key'' as_str) (\<lambda>x6.
     bindR (get d ''submission_epoch_unix'' as_int) (\<lambda>x7.
     bindR (get d ''provider_protocol_version'' as_str) (\<lambda>x8.
     bindR (get d ''contract_version'' as_str) (\<lambda>x9.
       mk_submission (fenced_evidence.extend who
         \<lparr>si_snapshot_receipt_sha256 = x1, si_source_pdf_sha256 = x2,
          si_parser_target_sha256 = x3, si_request_sha256 = x4, si_runtime_epoch_sha256 = x5,
          si_client_submit_key = x6, si_submission_epoch_unix = x7,
          si_provider_protocol_version = x8, si_contract_version = x9\<rparr>)))))))))))"

definition ACCEPTED_FIELDS :: "string list" where
  "ACCEPTED_FIELDS =
     [''attempt_id'', ''fence_identity'', ''submission_intent_sha256'', ''remote_task_identity'',
      ''status_url'', ''result_url'', ''secret_kind'', ''secret_version'', ''token_sha256'',
      ''token_byte_count'', ''provider_protocol_version'', ''contract_version'']"

definition accepted_of_obj :: "obj \<Rightarrow> accepted_submission res" where
  "accepted_of_obj d =
     bindR (get_fence d) (\<lambda>who.
     bindR (get d ''submission_intent_sha256'' as_str) (\<lambda>x1.
     bindR (get d ''remote_task_identity'' as_str) (\<lambda>x2.
     bindR (get d ''status_url'' as_str) (\<lambda>x3.
     bindR (get d ''result_url'' as_str) (\<lambda>x4.
     bindR (get d ''secret_kind'' as_str) (\<lambda>x5.
     bindR (get d ''secret_version'' as_int) (\<lambda>x6.
     bindR (get d ''token_sha256'' as_str) (\<lambda>x7.
     bindR (get d ''token_byte_count'' as_int) (\<lambda>x8.
     bindR (get d ''provider_protocol_version'' as_str) (\<lambda>x9.
     bindR (get d ''contract_version'' as_str) (\<lambda>x10.
       mk_accepted (fenced_evidence.extend who
         \<lparr>as_submission_intent_sha256 = x1, as_remote_task_identity = x2, as_status_url = x3,
          as_result_url = x4, as_secret_kind = x5, as_secret_version = x6,
          as_token_sha256 = x7, as_token_byte_count = x8, as_provider_protocol_version = x9,
          as_contract_version = x10\<rparr>))))))))))))"

definition TERMINAL_FIELDS :: "string list" where
  "TERMINAL_FIELDS =
     [''attempt_id'', ''fence_identity'', ''accepted_submission_receipt_sha256'',
      ''remote_task_identity'', ''result_owner_identity'', ''artifact_sha256'',
      ''artifact_byte_count'', ''provider_protocol_version'', ''contract_version'']"

definition terminal_of_obj :: "obj \<Rightarrow> terminal_receipt res" where
  "terminal_of_obj d =
     bindR (get_fence d) (\<lambda>who.
     bindR (get d ''accepted_submission_receipt_sha256'' as_str) (\<lambda>x1.
     bindR (get d ''remote_task_identity'' as_str) (\<lambda>x2.
     bindR (get d ''result_owner_identity'' as_str) (\<lambda>x3.
     bindR (get d ''artifact_sha256'' as_str) (\<lambda>x4.
     bindR (get d ''artifact_byte_count'' as_int) (\<lambda>x5.
     bindR (get d ''provider_protocol_version'' as_str) (\<lambda>x6.
     bindR (get d ''contract_version'' as_str) (\<lambda>x7.
       mk_terminal (fenced_evidence.extend who
         \<lparr>tr_accepted_submission_receipt_sha256 = x1, tr_remote_task_identity = x2,
          tr_result_owner_identity = x3, tr_artifact_sha256 = x4, tr_artifact_byte_count = x5,
          tr_provider_protocol_version = x6, tr_contract_version = x7\<rparr>)))))))))"

definition ABSENCE_FIELDS :: "string list" where
  "ABSENCE_FIELDS =
     [''client_submit_key'', ''lookup_request_sha256'', ''provider_protocol_version'',
      ''http_status'', ''response_sha256'', ''response_byte_count'', ''contract_version'']"

definition absence_of_obj :: "obj \<Rightarrow> absence_proof res" where
  "absence_of_obj d =
     bindR (get d ''client_submit_key'' as_str) (\<lambda>x1.
     bindR (get d ''lookup_request_sha256'' as_str) (\<lambda>x2.
     bindR (get d ''provider_protocol_version'' as_str) (\<lambda>x3.
     bindR (get d ''http_status'' as_int) (\<lambda>x4.
     bindR (get d ''response_sha256'' as_str) (\<lambda>x5.
     bindR (get d ''response_byte_count'' as_int) (\<lambda>x6.
     bindR (get d ''contract_version'' as_str) (\<lambda>x7.
       mk_absence
         \<lparr>ab_client_submit_key = x1, ab_lookup_request_sha256 = x2,
          ab_provider_protocol_version = x3, ab_http_status = x4, ab_response_sha256 = x5,
          ab_response_byte_count = x6, ab_contract_version = x7\<rparr>)))))))"

definition FAILURE_FIELDS :: "string list" where
  "FAILURE_FIELDS =
     [''attempt_id'', ''fence_identity'', ''outcome'', ''source_state'',
      ''source_lifecycle_version'', ''source_checkpoint_sha256'', ''submission_was_attempted'',
      ''submission_absence_proof'', ''accepted_submission_receipt_sha256'',
      ''terminal_receipt_sha256'', ''materialization_intent_sha256'',
      ''local_materialization_receipt_sha256'', ''error_code'', ''error_stage'', ''error_class'',
      ''retryable'', ''retry_budget_class'', ''message'', ''contract_version'']"

definition failure_of_obj :: "obj \<Rightarrow> absence_proof option \<Rightarrow> failure_receipt res" where
  "failure_of_obj d absence =
     bindR (get_fence d) (\<lambda>who.
     bindR (get d ''outcome'' (as_enum failure_outcome_name failure_receipt_outcomes ''failure receipt outcome is unsupported'')) (\<lambda>x1.
     bindR (get d ''source_state'' as_str) (\<lambda>x2.
     bindR (get d ''source_lifecycle_version'' as_int) (\<lambda>x3.
     bindR (get d ''source_checkpoint_sha256'' (as_opt as_str)) (\<lambda>x4.
     bindR (get d ''submission_was_attempted'' as_bool) (\<lambda>x5.
     bindR (get d ''accepted_submission_receipt_sha256'' (as_opt as_str)) (\<lambda>x7.
     bindR (get d ''terminal_receipt_sha256'' (as_opt as_str)) (\<lambda>x8.
     bindR (get d ''materialization_intent_sha256'' (as_opt as_str)) (\<lambda>x9.
     bindR (get d ''local_materialization_receipt_sha256'' (as_opt as_str)) (\<lambda>x10.
     bindR (get d ''error_code'' as_str) (\<lambda>x11.
     bindR (get d ''error_stage'' as_str) (\<lambda>x12.
     bindR (get d ''error_class'' as_str) (\<lambda>x13.
     bindR (get d ''retryable'' as_bool) (\<lambda>x14.
     bindR (get d ''retry_budget_class'' as_str) (\<lambda>x15.
     bindR (get d ''message'' as_str) (\<lambda>x16.
     bindR (get d ''contract_version'' as_str) (\<lambda>x17.
       mk_failure (fenced_evidence.extend who
         \<lparr>fr_outcome = x1, fr_source_state = x2, fr_source_lifecycle_version = x3,
          fr_source_checkpoint_sha256 = x4, fr_submission_was_attempted = x5,
          fr_submission_absence_proof = absence, fr_accepted_submission_receipt_sha256 = x7,
          fr_terminal_receipt_sha256 = x8, fr_materialization_intent_sha256 = x9,
          fr_local_materialization_receipt_sha256 = x10, fr_error_code = x11,
          fr_error_stage = x12, fr_error_class = x13, fr_retryable = x14,
          fr_retry_budget_class = x15, fr_message = x16, fr_contract_version = x17\<rparr>))))))))))))))))))"

definition SUPERSESSION_FIELDS :: "string list" where
  "SUPERSESSION_FIELDS =
     [''attempt_id'', ''fence_identity'', ''source_document_id'', ''source_attempt_generation'',
      ''source_state'', ''source_lifecycle_version'', ''source_checkpoint_sha256'',
      ''superseding_attempt_id'', ''superseding_attempt_generation'',
      ''superseding_document_id'', ''superseding_checkpoint_sha256'', ''reason_code'',
      ''contract_version'']"

definition supersession_of_obj :: "obj \<Rightarrow> supersession_receipt res" where
  "supersession_of_obj d =
     bindR (get_fence d) (\<lambda>who.
     bindR (get d ''source_document_id'' as_str) (\<lambda>x1.
     bindR (get d ''source_attempt_generation'' as_int) (\<lambda>x2.
     bindR (get d ''source_state'' as_str) (\<lambda>x3.
     bindR (get d ''source_lifecycle_version'' as_int) (\<lambda>x4.
     bindR (get d ''source_checkpoint_sha256'' (as_opt as_str)) (\<lambda>x5.
     bindR (get d ''superseding_attempt_id'' as_str) (\<lambda>x6.
     bindR (get d ''superseding_attempt_generation'' as_int) (\<lambda>x7.
     bindR (get d ''superseding_document_id'' as_str) (\<lambda>x8.
     bindR (get d ''superseding_checkpoint_sha256'' as_str) (\<lambda>x9.
     bindR (get d ''reason_code'' as_str) (\<lambda>x10.
     bindR (get d ''contract_version'' as_str) (\<lambda>x11.
       mk_supersession (fenced_evidence.extend who
         \<lparr>ss_source_document_id = x1, ss_source_attempt_generation = x2, ss_source_state = x3,
          ss_source_lifecycle_version = x4, ss_source_checkpoint_sha256 = x5,
          ss_superseding_attempt_id = x6, ss_superseding_attempt_generation = x7,
          ss_superseding_document_id = x8, ss_superseding_checkpoint_sha256 = x9,
          ss_reason_code = x10, ss_contract_version = x11\<rparr>)))))))))))))"

text \<open>The nested proof of \<open>_decode_failure\<close>\<close>

definition get_absence :: "obj \<Rightarrow> absence_proof option res" where
  "get_absence d = get d ''submission_absence_proof'' (\<lambda>v. case v of
       PNone \<Rightarrow> Inr None
     | PDict nested \<Rightarrow>
         bindR (closed nested ABSENCE_FIELDS ''SubmissionAbsenceProofV4'') (\<lambda>_.
         bindR (absence_of_obj nested) (\<lambda>a. Inr (Some a)))
     | _ \<Rightarrow> Inl (ValueError ''submission absence proof must be an object''))"

definition build_failure :: "obj \<Rightarrow> failure_receipt res" where
  "build_failure d = bindR (get_absence d) (\<lambda>absence. failure_of_obj d absence)"

subsection \<open>The decoders\<close>

definition decode_preparation :: "string \<Rightarrow> preparation_intent res" where
  "decode_preparation =
     decode_dataclass preparation_payload PREPARATION_FIELDS ''PreparationIntentV4'' preparation_of_obj NOT_CANONICAL"

definition decode_snapshot :: "string \<Rightarrow> snapshot_receipt res" where
  "decode_snapshot =
     decode_dataclass snapshot_payload SNAPSHOT_FIELDS ''SnapshotReceiptV4'' snapshot_of_obj NOT_CANONICAL"

definition decode_submission :: "string \<Rightarrow> submission_intent res" where
  "decode_submission =
     decode_dataclass submission_payload SUBMISSION_FIELDS ''SubmissionIntentV4'' submission_of_obj NOT_CANONICAL"

definition decode_accepted :: "string \<Rightarrow> accepted_submission res" where
  "decode_accepted =
     decode_dataclass accepted_payload ACCEPTED_FIELDS ''AcceptedSubmissionReceiptV4'' accepted_of_obj NOT_CANONICAL"

definition decode_terminal :: "string \<Rightarrow> terminal_receipt res" where
  "decode_terminal =
     decode_dataclass terminal_payload TERMINAL_FIELDS ''TerminalReceiptV4'' terminal_of_obj NOT_CANONICAL"

definition decode_failure :: "string \<Rightarrow> failure_receipt res" where
  "decode_failure =
     decode_dataclass failure_payload FAILURE_FIELDS ''FailureReceiptV4'' build_failure
       ''remote-parse v4 failure JSON is not canonical''"

definition decode_supersession :: "string \<Rightarrow> supersession_receipt res" where
  "decode_supersession =
     decode_dataclass supersession_payload SUPERSESSION_FIELDS ''SupersessionReceiptV4'' supersession_of_obj NOT_CANONICAL"

subsection \<open>Decoding inverts encoding\<close>

lemma evidence_json_Inr: "evidence_json j = Inr bs \<longleftrightarrow> lifecycle_json j = Inr bs"
  by (simp add: evidence_json_def lifecycle_json_def canonical_json_Inr)

lemma decode_object_Inr: "decode_object bs = Inr d \<longleftrightarrow> decode_canonical_object bs = Inr d"
  by (auto simp: decode_object_def decode_canonical_object_def split: pyval.splits)

lemma decode_dataclass_Inr:
  "decode_dataclass payload names cls build msg bs = Inr r \<longleftrightarrow> decode_record payload names cls build bs = Inr r"
  by (auto simp: decode_dataclass_def decode_record_def decode_object_Inr evidence_json_Inr)

text \<open>The rule for the decoders of this module, from the one for the lifecycle records.\<close>

lemma codec_dataclass:
  assumes "\<And>r. payload r = JObj (members_of (payload r))"
    and "\<And>r. set (map fst (members_of (payload r))) = set names"
    and "\<And>r. ok r \<Longrightarrow> json_ok (payload r)"
    and "\<And>r. ok r \<Longrightarrow> build (obj_of (members_of (payload r))) = Inr r"
    and "\<And>d r. build d = Inr r \<Longrightarrow> ok r"
  shows "codec (\<lambda>r. evidence_json (payload r)) (decode_dataclass payload names cls build msg) ok"
proof -
  have "codec (\<lambda>r. lifecycle_json (payload r)) (decode_record payload names cls build) ok"
    by (rule codec_record, rule assms(1), rule assms(2), erule assms(3), erule assms(4), erule assms(5))
  then show ?thesis unfolding codec_def decode_dataclass_Inr evidence_json_Inr .
qed

lemma get_fence_of:
  assumes "distinct (map fst kvs)" and "set (fence_members r) \<subseteq> set kvs"
  shows "get_fence (obj_of kvs) = Inr (fenced_evidence.truncate r)"
  using assms(2) attr_member [OF assms(1)]
  by (auto simp: get_fence_def fence_members_def get_attr fenced_evidence.truncate_def)


subsection \<open>Reading the written attributes\<close>

lemma get_identity_read:
  assumes "kvs = members" and "distinct (map fst members)" and "set (identity_members r) \<subseteq> set kvs"
  shows "get_identity (obj_of kvs) = Inr (attempt_identity.truncate r)
    \<and> list_all (\<lambda>kv. attr (obj_of kvs) (fst kv) = Some (pyval_of (snd kv))) members"
  using get_identity_of [OF _ assms(3)] attrs_obj_of [OF assms(1,2)] assms(1,2) by simp

lemma get_fence_read:
  assumes "kvs = members" and "distinct (map fst members)" and "set (fence_members r) \<subseteq> set kvs"
  shows "get_fence (obj_of kvs) = Inr (fenced_evidence.truncate r)
    \<and> list_all (\<lambda>kv. attr (obj_of kvs) (fst kv) = Some (pyval_of (snd kv))) members"
  using get_fence_of [OF _ assms(3)] attrs_obj_of [OF assms(1,2)] assms(1,2) by simp

subsection \<open>Preparation intent\<close>

definition valid_preparation :: "preparation_intent \<Rightarrow> bool" where
  "valid_preparation p = (preparation_post_init p = Inr ())"

lemma preparation_of_obj_members:
  assumes "valid_preparation p"
  shows "preparation_of_obj (obj_of (members_of (preparation_payload p))) = Inr p"
proof -
  define kvs where "kvs = members_of (preparation_payload p)"
  have dist: "distinct (map fst (members_of (preparation_payload p)))" and shared: "set (identity_members p) \<subseteq> set kvs"
    by (simp add: preparation_payload_def identity_members_def) (auto simp: kvs_def preparation_payload_def)
  from get_identity_read [OF kvs_def dist shared] have "preparation_of_obj (obj_of kvs) = mk_preparation p"
    by (cases p) (simp add: preparation_payload_def preparation_of_obj_def get_attr attempt_identity.defs)
  with assms show ?thesis by (simp add: kvs_def mk_preparation_def valid_preparation_def)
qed

lemma json_ok_preparation:
  assumes "valid_preparation p"
  shows "json_ok (preparation_payload p)"
proof -
  have "int_digits (pi_source_byte_count p) \<le> MAX_STR_DIGITS" "int_digits (pi_source_page_count p) \<le> MAX_STR_DIGITS" "int_digits (pi_execution_spec_byte_count p) \<le> MAX_STR_DIGITS"
    using assms by (auto simp: valid_preparation_def preparation_post_init_def in_range_def intro!: int_digits_bounded)
  then show ?thesis by (simp add: preparation_payload_def identity_members_def)
qed

lemma preparation_fields: "set (map fst (members_of (preparation_payload p))) = set PREPARATION_FIELDS"
  by (auto simp: preparation_payload_def identity_members_def PREPARATION_FIELDS_def)

interpretation preparation: codec "\<lambda>p. evidence_json (preparation_payload p)" decode_preparation valid_preparation
  unfolding decode_preparation_def
proof (rule codec_dataclass)
  show "preparation_payload p = JObj (members_of (preparation_payload p))" for p
    by (simp add: preparation_payload_def)
  show "valid_preparation p" if "preparation_of_obj d = Inr p" for d p
    using that by (auto simp: preparation_of_obj_def mk_preparation_def valid_preparation_def)
qed (simp_all only: preparation_fields json_ok_preparation preparation_of_obj_members)

subsection \<open>Snapshot receipt\<close>

definition valid_snapshot :: "snapshot_receipt \<Rightarrow> bool" where
  "valid_snapshot s = (snapshot_post_init s = Inr ())"

lemma snapshot_of_obj_members:
  assumes "valid_snapshot s"
  shows "snapshot_of_obj (obj_of (members_of (snapshot_payload s))) = Inr s"
proof -
  define kvs where "kvs = members_of (snapshot_payload s)"
  have dist: "distinct (map fst (members_of (snapshot_payload s)))" and shared: "set (fence_members s) \<subseteq> set kvs"
    by (simp add: snapshot_payload_def fence_members_def) (auto simp: kvs_def snapshot_payload_def)
  from get_fence_read [OF kvs_def dist shared] have "snapshot_of_obj (obj_of kvs) = mk_snapshot s"
    by (cases s) (simp add: snapshot_payload_def snapshot_of_obj_def get_attr fenced_evidence.defs)
  with assms show ?thesis by (simp add: kvs_def mk_snapshot_def valid_snapshot_def)
qed

lemma json_ok_snapshot:
  assumes "valid_snapshot s"
  shows "json_ok (snapshot_payload s)"
proof -
  have "int_digits (sr_snapshot_byte_count s) \<le> MAX_STR_DIGITS"
    using assms by (auto simp: valid_snapshot_def snapshot_post_init_def in_range_def intro!: int_digits_bounded)
  then show ?thesis by (simp add: snapshot_payload_def fence_members_def)
qed

lemma snapshot_fields: "set (map fst (members_of (snapshot_payload s))) = set SNAPSHOT_FIELDS"
  by (auto simp: snapshot_payload_def fence_members_def SNAPSHOT_FIELDS_def)

interpretation snapshot: codec "\<lambda>s. evidence_json (snapshot_payload s)" decode_snapshot valid_snapshot
  unfolding decode_snapshot_def
proof (rule codec_dataclass)
  show "snapshot_payload s = JObj (members_of (snapshot_payload s))" for s
    by (simp add: snapshot_payload_def)
  show "valid_snapshot s" if "snapshot_of_obj d = Inr s" for d s
    using that by (auto simp: snapshot_of_obj_def mk_snapshot_def valid_snapshot_def)
qed (simp_all only: snapshot_fields json_ok_snapshot snapshot_of_obj_members)

subsection \<open>Submission intent\<close>

definition valid_submission :: "submission_intent \<Rightarrow> bool" where
  "valid_submission s = (submission_post_init s = Inr ())"

lemma submission_of_obj_members:
  assumes "valid_submission s"
  shows "submission_of_obj (obj_of (members_of (submission_payload s))) = Inr s"
proof -
  define kvs where "kvs = members_of (submission_payload s)"
  have dist: "distinct (map fst (members_of (submission_payload s)))" and shared: "set (fence_members s) \<subseteq> set kvs"
    by (simp add: submission_payload_def fence_members_def) (auto simp: kvs_def submission_payload_def)
  from get_fence_read [OF kvs_def dist shared] have "submission_of_obj (obj_of kvs) = mk_submission s"
    by (cases s) (simp add: submission_payload_def submission_of_obj_def get_attr fenced_evidence.defs)
  with assms show ?thesis by (simp add: kvs_def mk_submission_def valid_submission_def)
qed

lemma json_ok_submission:
  assumes "valid_submission s"
  shows "json_ok (submission_payload s)"
proof -
  have "int_digits (si_submission_epoch_unix s) \<le> MAX_STR_DIGITS"
    using assms by (auto simp: valid_submission_def submission_post_init_def in_range_def intro!: int_digits_bounded)
  then show ?thesis by (simp add: submission_payload_def fence_members_def)
qed

lemma submission_fields: "set (map fst (members_of (submission_payload s))) = set SUBMISSION_FIELDS"
  by (auto simp: submission_payload_def fence_members_def SUBMISSION_FIELDS_def)

interpretation submission: codec "\<lambda>s. evidence_json (submission_payload s)" decode_submission valid_submission
  unfolding decode_submission_def
proof (rule codec_dataclass)
  show "submission_payload s = JObj (members_of (submission_payload s))" for s
    by (simp add: submission_payload_def)
  show "valid_submission s" if "submission_of_obj d = Inr s" for d s
    using that by (auto simp: submission_of_obj_def mk_submission_def valid_submission_def)
qed (simp_all only: submission_fields json_ok_submission submission_of_obj_members)

subsection \<open>Accepted submission\<close>

definition valid_accepted :: "accepted_submission \<Rightarrow> bool" where
  "valid_accepted a = (accepted_post_init a = Inr ())"

lemma accepted_of_obj_members:
  assumes "valid_accepted a"
  shows "accepted_of_obj (obj_of (members_of (accepted_payload a))) = Inr a"
proof -
  define kvs where "kvs = members_of (accepted_payload a)"
  have dist: "distinct (map fst (members_of (accepted_payload a)))" and shared: "set (fence_members a) \<subseteq> set kvs"
    by (simp add: accepted_payload_def fence_members_def) (auto simp: kvs_def accepted_payload_def)
  from get_fence_read [OF kvs_def dist shared] have "accepted_of_obj (obj_of kvs) = mk_accepted a"
    by (cases a) (simp add: accepted_payload_def accepted_of_obj_def get_attr fenced_evidence.defs)
  with assms show ?thesis by (simp add: kvs_def mk_accepted_def valid_accepted_def)
qed

lemma json_ok_accepted:
  assumes "valid_accepted a"
  shows "json_ok (accepted_payload a)"
proof -
  have "int_digits (as_secret_version a) \<le> MAX_STR_DIGITS" "int_digits (as_token_byte_count a) \<le> MAX_STR_DIGITS"
    using assms by (auto simp: valid_accepted_def accepted_post_init_def in_range_def intro!: int_digits_bounded)
  then show ?thesis by (simp add: accepted_payload_def fence_members_def)
qed

lemma accepted_fields: "set (map fst (members_of (accepted_payload a))) = set ACCEPTED_FIELDS"
  by (auto simp: accepted_payload_def fence_members_def ACCEPTED_FIELDS_def)

interpretation accepted: codec "\<lambda>a. evidence_json (accepted_payload a)" decode_accepted valid_accepted
  unfolding decode_accepted_def
proof (rule codec_dataclass)
  show "accepted_payload a = JObj (members_of (accepted_payload a))" for a
    by (simp add: accepted_payload_def)
  show "valid_accepted a" if "accepted_of_obj d = Inr a" for d a
    using that by (auto simp: accepted_of_obj_def mk_accepted_def valid_accepted_def)
qed (simp_all only: accepted_fields json_ok_accepted accepted_of_obj_members)

subsection \<open>Terminal receipt\<close>

definition valid_terminal :: "terminal_receipt \<Rightarrow> bool" where
  "valid_terminal t = (terminal_post_init t = Inr ())"

lemma terminal_of_obj_members:
  assumes "valid_terminal t"
  shows "terminal_of_obj (obj_of (members_of (terminal_payload t))) = Inr t"
proof -
  define kvs where "kvs = members_of (terminal_payload t)"
  have dist: "distinct (map fst (members_of (terminal_payload t)))" and shared: "set (fence_members t) \<subseteq> set kvs"
    by (simp add: terminal_payload_def fence_members_def) (auto simp: kvs_def terminal_payload_def)
  from get_fence_read [OF kvs_def dist shared] have "terminal_of_obj (obj_of kvs) = mk_terminal t"
    by (cases t) (simp add: terminal_payload_def terminal_of_obj_def get_attr fenced_evidence.defs)
  with assms show ?thesis by (simp add: kvs_def mk_terminal_def valid_terminal_def)
qed

lemma json_ok_terminal:
  assumes "valid_terminal t"
  shows "json_ok (terminal_payload t)"
proof -
  have "int_digits (tr_artifact_byte_count t) \<le> MAX_STR_DIGITS"
    using assms by (auto simp: valid_terminal_def terminal_post_init_def in_range_def intro!: int_digits_bounded)
  then show ?thesis by (simp add: terminal_payload_def fence_members_def)
qed

lemma terminal_fields: "set (map fst (members_of (terminal_payload t))) = set TERMINAL_FIELDS"
  by (auto simp: terminal_payload_def fence_members_def TERMINAL_FIELDS_def)

interpretation terminal: codec "\<lambda>t. evidence_json (terminal_payload t)" decode_terminal valid_terminal
  unfolding decode_terminal_def
proof (rule codec_dataclass)
  show "terminal_payload t = JObj (members_of (terminal_payload t))" for t
    by (simp add: terminal_payload_def)
  show "valid_terminal t" if "terminal_of_obj d = Inr t" for d t
    using that by (auto simp: terminal_of_obj_def mk_terminal_def valid_terminal_def)
qed (simp_all only: terminal_fields json_ok_terminal terminal_of_obj_members)

subsection \<open>Supersession receipt\<close>

definition valid_supersession :: "supersession_receipt \<Rightarrow> bool" where
  "valid_supersession s = (supersession_post_init s = Inr ())"

lemma supersession_of_obj_members:
  assumes "valid_supersession s"
  shows "supersession_of_obj (obj_of (members_of (supersession_payload s))) = Inr s"
proof -
  define kvs where "kvs = members_of (supersession_payload s)"
  have dist: "distinct (map fst (members_of (supersession_payload s)))" and shared: "set (fence_members s) \<subseteq> set kvs"
    by (simp add: supersession_payload_def fence_members_def) (auto simp: kvs_def supersession_payload_def)
  from get_fence_read [OF kvs_def dist shared] have "supersession_of_obj (obj_of kvs) = mk_supersession s"
    by (cases s) (simp add: supersession_payload_def supersession_of_obj_def get_attr fenced_evidence.defs)
  with assms show ?thesis by (simp add: kvs_def mk_supersession_def valid_supersession_def)
qed

lemma json_ok_supersession:
  assumes "valid_supersession s"
  shows "json_ok (supersession_payload s)"
proof -
  have "int_digits (ss_source_attempt_generation s) \<le> MAX_STR_DIGITS" "int_digits (ss_source_lifecycle_version s) \<le> MAX_STR_DIGITS" "int_digits (ss_superseding_attempt_generation s) \<le> MAX_STR_DIGITS"
    using assms by (auto simp: valid_supersession_def supersession_post_init_def in_range_def intro!: int_digits_bounded)
  then show ?thesis by (simp add: supersession_payload_def fence_members_def)
qed

lemma supersession_fields: "set (map fst (members_of (supersession_payload s))) = set SUPERSESSION_FIELDS"
  by (auto simp: supersession_payload_def fence_members_def SUPERSESSION_FIELDS_def)

interpretation supersession: codec "\<lambda>s. evidence_json (supersession_payload s)" decode_supersession valid_supersession
  unfolding decode_supersession_def
proof (rule codec_dataclass)
  show "supersession_payload s = JObj (members_of (supersession_payload s))" for s
    by (simp add: supersession_payload_def)
  show "valid_supersession s" if "supersession_of_obj d = Inr s" for d s
    using that by (auto simp: supersession_of_obj_def mk_supersession_def valid_supersession_def)
qed (simp_all only: supersession_fields json_ok_supersession supersession_of_obj_members)


subsection \<open>Failure receipt\<close>

definition valid_failure :: "failure_receipt \<Rightarrow> bool" where
  "valid_failure f = (failure_post_init f = Inr ()
     \<and> (\<forall>a. fr_submission_absence_proof f = Some a \<longrightarrow> absence_post_init a = Inr ()))"

lemma failure_outcome_name_inject: "failure_outcome_name a = failure_outcome_name b \<longleftrightarrow> a = b"
  by (cases a; cases b) simp_all

lemma as_failure_outcome_of [simp]:
  "as_enum failure_outcome_name failure_receipt_outcomes msg (PStr (cps (failure_outcome_name a))) = Inr a"
proof (rule as_enum_of)
  show "a \<in> set failure_receipt_outcomes" by (cases a) (simp_all add: failure_receipt_outcomes_def)
qed (simp add: failure_outcome_name_inject)

lemma absence_of_obj_members:
  assumes "absence_post_init a = Inr ()"
  shows "absence_of_obj (obj_of (members_of (absence_payload a))) = Inr a"
proof -
  define kvs where "kvs = members_of (absence_payload a)"
  have "list_all (\<lambda>kv. attr (obj_of kvs) (fst kv) = Some (pyval_of (snd kv))) (members_of (absence_payload a))"
    by (rule attrs_obj_of [OF kvs_def]) (simp add: absence_payload_def)
  then have "absence_of_obj (obj_of kvs) = mk_absence a"
    by (cases a) (simp add: absence_payload_def absence_of_obj_def get_attr)
  with assms show ?thesis by (simp add: kvs_def mk_absence_def)
qed

lemma get_absence_of:
  assumes "attr d ''submission_absence_proof'' = Some (pyval_of (absence_json v))"
    and "\<And>a. v = Some a \<Longrightarrow> absence_post_init a = Inr ()"
  shows "get_absence d = Inr v"
proof (cases v)
  case None
  with assms(1) show ?thesis by (simp add: get_absence_def get_attr absence_json_def)
next
  case (Some a)
  have object: "pyval_of (absence_payload a) = PDict (obj_of (members_of (absence_payload a)))"
    unfolding absence_payload_def members_of.simps by (rule pyval_of_object)
  have "closed (obj_of (members_of (absence_payload a))) ABSENCE_FIELDS cls = Inr ()" for cls
    by (rule closed_members) (simp add: absence_payload_def ABSENCE_FIELDS_def)
  with Some assms absence_of_obj_members [of a] show ?thesis
    by (simp add: get_absence_def get_attr absence_json_def object)
qed

lemma build_failure_members:
  assumes "valid_failure f"
  shows "build_failure (obj_of (members_of (failure_payload f))) = Inr f"
proof -
  define kvs where "kvs = members_of (failure_payload f)"
  have dist: "distinct (map fst (members_of (failure_payload f)))" and shared: "set (fence_members f) \<subseteq> set kvs"
    by (simp add: failure_payload_def fence_members_def) (auto simp: kvs_def failure_payload_def)
  have "attr (obj_of kvs) ''submission_absence_proof'' = Some (pyval_of (absence_json (fr_submission_absence_proof f)))"
    using dist by (intro attr_member) (simp_all add: kvs_def failure_payload_def)
  then have "get_absence (obj_of kvs) = Inr (fr_submission_absence_proof f)"
    using assms by (intro get_absence_of) (simp_all add: valid_failure_def)
  moreover from get_fence_read [OF kvs_def dist shared]
  have "failure_of_obj (obj_of kvs) (fr_submission_absence_proof f) = mk_failure f"
    by (cases f) (simp add: failure_payload_def failure_of_obj_def get_attr fenced_evidence.defs)
  ultimately show ?thesis
    using assms by (simp add: build_failure_def kvs_def mk_failure_def valid_failure_def)
qed

lemma json_ok_failure:
  assumes "valid_failure f"
  shows "json_ok (failure_payload f)"
proof -
  have "int_digits (fr_source_lifecycle_version f) \<le> MAX_STR_DIGITS"
    using assms by (auto simp: valid_failure_def failure_post_init_def check_failure_facts_def intro!: int_digits_range)
  moreover have "in_range 404" by (simp add: in_range_def MAX_INT_def)
  with assms have "json_ok (absence_json (fr_submission_absence_proof f))"
    by (auto simp: valid_failure_def absence_json_def absence_payload_def absence_post_init_def
        intro!: int_digits_range int_digits_bounded split: option.splits)
  ultimately show ?thesis by (simp add: failure_payload_def fence_members_def)
qed

lemma failure_fields: "set (map fst (members_of (failure_payload f))) = set FAILURE_FIELDS"
  by (auto simp: failure_payload_def fence_members_def FAILURE_FIELDS_def)

lemma get_absence_valid:
  assumes "get_absence d = Inr (Some a)"
  shows "absence_post_init a = Inr ()"
proof -
  obtain nested where "absence_of_obj nested = Inr a"
    using assms by (auto simp: get_absence_def get_def split: option.splits pyval.splits)
  then show ?thesis by (auto simp: absence_of_obj_def mk_absence_def)
qed

lemma failure_of_obj_valid:
  "failure_of_obj d v = Inr f \<Longrightarrow> failure_post_init f = Inr () \<and> fr_submission_absence_proof f = v"
  by (auto simp: failure_of_obj_def mk_failure_def fenced_evidence.defs)

lemma build_failure_valid: "build_failure d = Inr f \<Longrightarrow> valid_failure f"
  using failure_of_obj_valid get_absence_valid by (fastforce simp: build_failure_def valid_failure_def)

interpretation failure: codec "\<lambda>f. evidence_json (failure_payload f)" decode_failure valid_failure
  unfolding decode_failure_def
proof (rule codec_dataclass)
  show "failure_payload f = JObj (members_of (failure_payload f))" for f
    by (simp add: failure_payload_def)
qed (simp_all only: failure_fields json_ok_failure build_failure_members build_failure_valid)

end
