(* ===== verification/Evidence.thy ===== *)
theory Evidence
  imports EvidenceCodec
begin

text \<open>
  The closed sum of the evidence values of \<open>application/contracts/remote_parse_evidence_v4.py\<close>, the
  encoded value (\<open>EncodedRemoteParseEvidenceV4\<close>) and its encoder and decoder.
\<close>

datatype evidence_kind =
    Preparation_kind
  | Snapshot_kind
  | Submission_kind
  | Accepted_kind
  | Terminal_kind
  | Intent_kind
  | Local_kind
  | Failure_kind
  | Supersession_kind
  | Plan_kind
  | Cleanup_kind
  | Ack_kind

datatype evidence_value =
    Preparation_value preparation_intent
  | Snapshot_value snapshot_receipt
  | Submission_value submission_intent
  | Accepted_value accepted_submission
  | Terminal_value terminal_receipt
  | Intent_value materialization_intent
  | Local_value local_materialization_receipt
  | Failure_value failure_receipt
  | Supersession_value supersession_receipt
  | Plan_value cleanup_plan
  | Cleanup_value cleanup_receipt
  | Ack_value provider_ack_receipt

text \<open>\<open>_EVIDENCE_TYPES\<close> and its inverse \<open>_TYPE_KINDS\<close>\<close>

fun kind_of :: "evidence_value \<Rightarrow> evidence_kind" where
  "kind_of (Preparation_value _) = Preparation_kind"
| "kind_of (Snapshot_value _) = Snapshot_kind"
| "kind_of (Submission_value _) = Submission_kind"
| "kind_of (Accepted_value _) = Accepted_kind"
| "kind_of (Terminal_value _) = Terminal_kind"
| "kind_of (Intent_value _) = Intent_kind"
| "kind_of (Local_value _) = Local_kind"
| "kind_of (Failure_value _) = Failure_kind"
| "kind_of (Supersession_value _) = Supersession_kind"
| "kind_of (Plan_value _) = Plan_kind"
| "kind_of (Cleanup_value _) = Cleanup_kind"
| "kind_of (Ack_value _) = Ack_kind"

text \<open>\<open>value.canonical_bytes\<close>\<close>

fun value_bytes :: "evidence_value \<Rightarrow> string res" where
  "value_bytes (Preparation_value v) = evidence_json (preparation_payload v)"
| "value_bytes (Snapshot_value v) = evidence_json (snapshot_payload v)"
| "value_bytes (Submission_value v) = evidence_json (submission_payload v)"
| "value_bytes (Accepted_value v) = evidence_json (accepted_payload v)"
| "value_bytes (Terminal_value v) = evidence_json (terminal_payload v)"
| "value_bytes (Intent_value v) = intent_canonical_bytes v"
| "value_bytes (Local_value v) = lifecycle_json (receipt_payload v)"
| "value_bytes (Failure_value v) = evidence_json (failure_payload v)"
| "value_bytes (Supersession_value v) = evidence_json (supersession_payload v)"
| "value_bytes (Plan_value v) = lifecycle_json (plan_payload v)"
| "value_bytes (Cleanup_value v) = lifecycle_json (cleanup_receipt_payload v)"
| "value_bytes (Ack_value v) = lifecycle_json (ack_receipt_payload v)"

record encoded_evidence =
  ev_kind :: evidence_kind
  ev_value :: evidence_value
  ev_exact_bytes :: string
  ev_sha256 :: string
  ev_byte_count :: int

definition encoded_post_init :: "encoded_evidence \<Rightarrow> unit res" where
  "encoded_post_init e = checks
     [require (\<not> kind_of (ev_value e) \<noteq> ev_kind e) ''remote-parse v4 evidence kind/type drifted'',
      require (1 \<le> length (ev_exact_bytes e) \<and> length (ev_exact_bytes e) \<le> MAX_BYTES)
        ''remote-parse v4 evidence bytes are outside envelope'',
      require (\<not> ev_byte_count e \<noteq> int (length (ev_exact_bytes e)))
        ''remote-parse v4 evidence byte count drifted'',
      require (\<not> ev_sha256 e \<noteq> digest (ev_exact_bytes e)) ''remote-parse v4 evidence hash drifted'',
      bindR (value_bytes (ev_value e)) (\<lambda>exact.
        require (\<not> ev_exact_bytes e \<noteq> exact) ''remote-parse v4 evidence projection drifted'')]"

definition mk_encoded :: "encoded_evidence \<Rightarrow> encoded_evidence res" where
  "mk_encoded e = construct (encoded_post_init e) e"

definition encode_remote_parse_evidence_v4 :: "evidence_value \<Rightarrow> encoded_evidence res" where
  "encode_remote_parse_evidence_v4 v =
     bindR (value_bytes v) (\<lambda>exact.
       mk_encoded \<lparr>ev_kind = kind_of v, ev_value = v, ev_exact_bytes = exact, ev_sha256 = digest exact,
         ev_byte_count = int (length exact)\<rparr>)"

fun evidence_decoder :: "evidence_kind \<Rightarrow> string \<Rightarrow> evidence_value res" where
  "evidence_decoder Preparation_kind bs = bindR (decode_preparation bs) (\<lambda>v. Inr (Preparation_value v))"
| "evidence_decoder Snapshot_kind bs = bindR (decode_snapshot bs) (\<lambda>v. Inr (Snapshot_value v))"
| "evidence_decoder Submission_kind bs = bindR (decode_submission bs) (\<lambda>v. Inr (Submission_value v))"
| "evidence_decoder Accepted_kind bs = bindR (decode_accepted bs) (\<lambda>v. Inr (Accepted_value v))"
| "evidence_decoder Terminal_kind bs = bindR (decode_terminal bs) (\<lambda>v. Inr (Terminal_value v))"
| "evidence_decoder Intent_kind bs = bindR (decode_materialization_intent_v4 bs) (\<lambda>v. Inr (Intent_value v))"
| "evidence_decoder Local_kind bs =
     bindR (decode_local_materialization_receipt_v4 bs) (\<lambda>v. Inr (Local_value v))"
| "evidence_decoder Failure_kind bs = bindR (decode_failure bs) (\<lambda>v. Inr (Failure_value v))"
| "evidence_decoder Supersession_kind bs =
     bindR (decode_supersession bs) (\<lambda>v. Inr (Supersession_value v))"
| "evidence_decoder Plan_kind bs = bindR (decode_local_cleanup_plan_v4 bs) (\<lambda>v. Inr (Plan_value v))"
| "evidence_decoder Cleanup_kind bs = bindR (decode_local_cleanup_receipt_v4 bs) (\<lambda>v. Inr (Cleanup_value v))"
| "evidence_decoder Ack_kind bs = bindR (decode_provider_ack_receipt_v4 bs) (\<lambda>v. Inr (Ack_value v))"

definition decode_remote_parse_evidence_v4 :: "evidence_kind \<Rightarrow> string \<Rightarrow> encoded_evidence res" where
  "decode_remote_parse_evidence_v4 kind exact =
     bindR (evidence_decoder kind exact) (\<lambda>v.
     bindR (encode_remote_parse_evidence_v4 v) (\<lambda>e.
     bindR (require (\<not> (ev_kind e \<noteq> kind \<or> ev_exact_bytes e \<noteq> exact))
       ''remote-parse v4 evidence is not canonical'') (\<lambda>_. Inr e)))"

subsection \<open>Decoding inverts encoding\<close>

text \<open>What the constructors accept.\<close>

fun valid_value :: "evidence_value \<Rightarrow> bool" where
  "valid_value (Preparation_value v) = valid_preparation v"
| "valid_value (Snapshot_value v) = valid_snapshot v"
| "valid_value (Submission_value v) = valid_submission v"
| "valid_value (Accepted_value v) = valid_accepted v"
| "valid_value (Terminal_value v) = valid_terminal v"
| "valid_value (Intent_value v) = valid_intent v"
| "valid_value (Local_value v) = valid_receipt v"
| "valid_value (Failure_value v) = valid_failure v"
| "valid_value (Supersession_value v) = valid_supersession v"
| "valid_value (Plan_value v) = valid_plan v"
| "valid_value (Cleanup_value v) = valid_cleanup_receipt v"
| "valid_value (Ack_value v) = valid_ack_receipt v"

lemma value_bytes_bounds: "value_bytes v = Inr bs \<Longrightarrow> 1 \<le> length bs \<and> length bs \<le> MAX_BYTES"
  by (cases v)
     (auto simp: evidence_json_def lifecycle_json_def intent_canonical_bytes_def canonical_json_Inr
        intro: json_bytes_nonempty [simplified])

lemma encode_evidence_Inr:
  "encode_remote_parse_evidence_v4 v = Inr e \<longleftrightarrow>
     encoded_post_init e = Inr () \<and> ev_value e = v"
proof -
  have "encode_remote_parse_evidence_v4 v = Inr e \<longleftrightarrow> (\<exists>exact. value_bytes v = Inr exact
      \<and> e = \<lparr>ev_kind = kind_of v, ev_value = v, ev_exact_bytes = exact, ev_sha256 = digest exact,
         ev_byte_count = int (length exact)\<rparr>)"
    using value_bytes_bounds [of v]
    by (auto simp: encode_remote_parse_evidence_v4_def mk_encoded_def encoded_post_init_def)
  also have "\<dots> \<longleftrightarrow> encoded_post_init e = Inr () \<and> ev_value e = v"
    using value_bytes_bounds [of v] by (cases e) (auto simp: encoded_post_init_def)
  finally show ?thesis .
qed

lemma decoder_valid:
  "evidence_decoder kind bs = Inr v \<longleftrightarrow> kind_of v = kind \<and> valid_value v \<and> value_bytes v = Inr bs"
  by (cases kind; cases v)
     (simp_all add: preparation.decode_iff snapshot.decode_iff submission.decode_iff accepted.decode_iff
       terminal.decode_iff intent.decode_iff receipt.decode_iff failure.decode_iff supersession.decode_iff
       plan.decode_iff cleanup_receipt.decode_iff ack_receipt.decode_iff)

definition valid_evidence :: "encoded_evidence \<Rightarrow> bool" where
  "valid_evidence e = (encoded_post_init e = Inr () \<and> valid_value (ev_value e))"

lemma encoded_parts:
  assumes "encoded_post_init e = Inr ()"
  shows "ev_kind e = kind_of (ev_value e)" and "value_bytes (ev_value e) = Inr (ev_exact_bytes e)"
    and "ev_sha256 e = digest (ev_exact_bytes e)"
  using assms by (auto simp: encoded_post_init_def)

lemma decode_evidence_Inr:
  "decode_remote_parse_evidence_v4 kind bs = Inr e \<longleftrightarrow>
     ev_kind e = kind \<and> ev_exact_bytes e = bs \<and> valid_evidence e"
  by (auto simp: decode_remote_parse_evidence_v4_def encode_evidence_Inr decoder_valid valid_evidence_def
      encoded_parts)

interpretation evidence: codec
  "\<lambda>e. Inr (ev_exact_bytes e)" "\<lambda>bs. decode_remote_parse_evidence_v4 kind bs"
  "\<lambda>e. valid_evidence e \<and> ev_kind e = kind" for kind
  by unfold_locales (auto simp: decode_evidence_Inr)

subsection \<open>Properties\<close>


end
