(* ===== verification/EvidenceBundle.thy ===== *)
theory EvidenceBundle
  imports Evidence
begin

text \<open>
  The replay of durable evidence in \<open>application/contracts/remote_parse_evidence_v4.py\<close>: the credit that
  the evidence justifies (\<open>_expected_held_resource_credit_v4\<close>), the replay of an ordinary prefix
  (\<open>_validate_resourceful_checkpoint_history_v4\<close>), the seed of a superseding attempt, and
  \<open>validate_durable_remote_parse_evidence_bundle_v4\<close>, that is the shared engine without filesystem
  evidence. The branch with filesystem evidence needs the provider document and is not modelled.
\<close>

subsection \<open>The credit that the evidence justifies\<close>

definition expected_held_resource_credit_v4 ::
  "checkpoint_state \<Rightarrow> int \<Rightarrow> accepted_submission option \<Rightarrow> terminal_receipt option
     \<Rightarrow> materialization_intent option \<Rightarrow> local_materialization_receipt option
     \<Rightarrow> resource_credit_vector option res" where
  "expected_held_resource_credit_v4 s bytes accepted terminal intent receipt =
     (let some = (\<lambda>v. bindR (mk_rcv v) (\<lambda>w. Inr (Some w))) in
      bindR (mk_rcv (snapshot_credit bytes)) (\<lambda>base.
      case s of
        Prepared \<Rightarrow> Inr (Some base)
      | Reconciling \<Rightarrow> some (base\<lparr>remote_waits := 1\<rparr>)
      | Submitted \<Rightarrow> some (base\<lparr>remote_waits := 1, provider_tasks := 1, ack_items := 1\<rparr>)
      | Remote_terminal \<Rightarrow>
          (case terminal of
             None \<Rightarrow> Inl (ValueError ''remote-terminal credit lacks exact terminal evidence'')
           | Some t \<Rightarrow> some (base\<lparr>provider_tasks := 1, provider_result_bytes := tr_artifact_byte_count t,
               ack_items := 1\<rparr>))
      | Materializing \<Rightarrow>
          (case intent of
             None \<Rightarrow> Inl (ValueError ''materializing credit lacks exact intent evidence'')
           | Some i \<Rightarrow> Inr (Some (mi_held_resource_credit i)))
      | Ack_pending \<Rightarrow>
          (case accepted of
             None \<Rightarrow> Inl (ValueError ''ack-pending credit lacks accepted-task evidence'')
           | Some _ \<Rightarrow> some (rcv_zero\<lparr>documents := 1, provider_tasks := 1,
               provider_result_bytes := (case terminal of None \<Rightarrow> 0 | Some t \<Rightarrow> tr_artifact_byte_count t),
               ack_items := 1\<rparr>))
      | _ \<Rightarrow>
          (if s \<in> {Local_materialized, Publish_committed} then
             (case (intent, receipt) of
                (Some i, Some l) \<Rightarrow> some (base\<lparr>provider_tasks := 1,
                  provider_result_bytes := mi_artifact_byte_count i,
                  compressed_bytes := mi_artifact_byte_count i, output_items := 1,
                  output_bytes := lr_output_byte_count l, output_pages := lr_source_page_count l,
                  ack_items := 1\<rparr>)
              | _ \<Rightarrow> Inl (ValueError ''closed-output credit lacks exact local evidence''))
           else Inr None)))"

subsection \<open>The replay of an ordinary prefix\<close>

definition resourceful_prefix_states :: "checkpoint_state list" where
  "resourceful_prefix_states =
     [Prepared, Reconciling, Submitted, Remote_terminal, Materializing, Local_materialized, Publish_committed]"

text \<open>\<open>_RESOURCEFUL_PREFIX_STATES.index(state)\<close>\<close>

definition prefix_index :: "checkpoint_state \<Rightarrow> nat option" where
  "prefix_index s = map_of (zip resourceful_prefix_states [0..<length resourceful_prefix_states]) s"

text \<open>The typed roots of a replay: the keyword arguments of the source.\<close>

record replay_roots =
  rr_reservation :: resource_reservation
  rr_preparation :: preparation_intent
  rr_snapshot :: "snapshot_receipt option"
  rr_submission :: "submission_intent option"
  rr_accepted :: "accepted_submission option"
  rr_terminal :: "terminal_receipt option"
  rr_intent :: "materialization_intent option"
  rr_local :: "local_materialization_receipt option"
  rr_winner :: "string option"

definition roots_credit :: "replay_roots \<Rightarrow> checkpoint_state \<Rightarrow> resource_credit_vector option res" where
  "roots_credit R s = expected_held_resource_credit_v4 s (rv_source_byte_count (rr_reservation R))
     (rr_accepted R) (rr_terminal R) (rr_intent R) (rr_local R)"

definition value_sha :: "evidence_value \<Rightarrow> string res" where
  "value_sha v = digest_of (value_bytes v)"

text \<open>One entry of the loop over \<open>required\<close>.\<close>

definition required_from :: "nat \<Rightarrow> nat \<Rightarrow> bool \<Rightarrow> string \<Rightarrow> unit res" where
  "required_from n index present label = checks
     [require (\<not> (n \<ge> index \<and> \<not> present)) (''resourceful checkpoint history lacks exact '' @ label),
      require (\<not> (n < index \<and> present)) (''resourceful checkpoint history contains future '' @ label)]"

definition check_roots :: "nat \<Rightarrow> replay_roots \<Rightarrow> unit res" where
  "check_roots n R = checks
     [require (\<not> (n \<ge> 1 \<and> rr_snapshot R = None)) ''resourceful checkpoint history lacks exact snapshot receipt'',
      required_from n 1 (rr_submission R \<noteq> None) ''submission intent'',
      required_from n 2 (rr_accepted R \<noteq> None) ''accepted submission'',
      required_from n 3 (rr_terminal R \<noteq> None) ''terminal receipt'',
      required_from n 4 (rr_intent R \<noteq> None) ''materialization intent'',
      required_from n 5 (rr_local R \<noteq> None) ''local materialization receipt'',
      (if n = 6 then
         (case rr_winner R of
            None \<Rightarrow> Inl (ValueError ''resourceful checkpoint history lacks publication winner'')
          | Some w \<Rightarrow> require_sha w ''publication winner'')
       else require (\<not> rr_winner R \<noteq> None) ''resourceful checkpoint history contains a future winner'')]"

text \<open>
  \<open>updates\<close>: the evidence that each state adds. A snapshot that the first checkpoint does not name is added
  to the entry of the reconciling state; without a submission intent there is no such entry.
\<close>

definition one_update :: "evidence_field \<Rightarrow> 'a option \<Rightarrow> ('a \<Rightarrow> evidence_value) \<Rightarrow> evidence_updates option res" where
  "one_update f v inject =
     (case v of
        None \<Rightarrow> Inr None
      | Some x \<Rightarrow> bindR (value_sha (inject x)) (\<lambda>sha. Inr (Some [(evidence_name f, Some sha)])))"

definition submission_update :: "replay_roots \<Rightarrow> string option \<Rightarrow> evidence_updates option res" where
  "submission_update R initial =
     bindR (one_update Submission_intent (rr_submission R) Submission_value) (\<lambda>us.
     case (rr_snapshot R, initial) of
       (Some s, None) \<Rightarrow>
         bindR (value_sha (Snapshot_value s)) (\<lambda>sha.
         case us of
           None \<Rightarrow> Inl (KeyError ''reconciling'')
         | Some u \<Rightarrow> Inr (Some (u @ [(evidence_name Snapshot_receipt, Some sha)])))
     | _ \<Rightarrow> Inr us)"

definition roots_update :: "replay_roots \<Rightarrow> string option \<Rightarrow> checkpoint_state \<Rightarrow> evidence_updates option res" where
  "roots_update R initial s =
     (case s of
        Reconciling \<Rightarrow> submission_update R initial
      | Submitted \<Rightarrow> one_update Accepted_submission (rr_accepted R) Accepted_value
      | Remote_terminal \<Rightarrow> one_update Terminal_receipt (rr_terminal R) Terminal_value
      | Materializing \<Rightarrow> one_update Materialization_intent (rr_intent R) Intent_value
      | Local_materialized \<Rightarrow> one_update Local_materialization_receipt (rr_local R) Local_value
      | Publish_committed \<Rightarrow>
          Inr (map_option (\<lambda>w. [(evidence_name Publication_winner, Some w)]) (rr_winner R))
      | _ \<Rightarrow> Inr None)"

text \<open>The dictionary is built before the loop, so a hash that cannot be computed is raised first.\<close>

definition all_updates :: "replay_roots \<Rightarrow> string option \<Rightarrow> unit res" where
  "all_updates R initial = checks
     (map (\<lambda>s. bindR (roots_update R initial s) (\<lambda>_. Inr ())) (tl resourceful_prefix_states))"

fun replay_states ::
  "replay_roots \<Rightarrow> string option \<Rightarrow> remote_parse_checkpoint \<Rightarrow> checkpoint_state list
     \<Rightarrow> remote_parse_checkpoint list res" where
  "replay_states R initial current [] = Inr []"
| "replay_states R initial current (s # ss) =
     bindR (roots_credit R s) (\<lambda>credit.
     bindR (roots_update R initial s) (\<lambda>updates.
     case (credit, updates) of
       (Some v, Some us) \<Rightarrow>
         bindR (advance_remote_parse_checkpoint_v4 current s v us) (\<lambda>c.
         bindR (replay_states R initial c ss) (\<lambda>cs. Inr (c # cs)))
     | _ \<Rightarrow> Inl (ValueError ''resourceful checkpoint history evidence is incomplete'')))"

text \<open>\<open>snapshot_receipt.sha256\<close> when the first checkpoint of the history names a snapshot\<close>

definition initial_snapshot :: "remote_parse_checkpoint list \<Rightarrow> replay_roots \<Rightarrow> string option res" where
  "initial_snapshot h R =
     (case rr_snapshot R of
        Some s \<Rightarrow>
          if cp_evidence (hd h) Snapshot_receipt \<noteq> None
          then bindR (value_sha (Snapshot_value s)) (\<lambda>sha. Inr (Some sha)) else Inr None
      | None \<Rightarrow> Inr None)"

definition replay_history ::
  "remote_parse_checkpoint list \<Rightarrow> replay_roots \<Rightarrow> nat \<Rightarrow> remote_parse_checkpoint list res" where
  "replay_history h R n =
     bindR (mk_rcv (snapshot_credit (rv_source_byte_count (rr_reservation R)))) (\<lambda>credit.
     bindR (initial_snapshot h R) (\<lambda>initial.
     bindR (value_sha (Preparation_value (rr_preparation R))) (\<lambda>preparation.
     bindR (build_initial_remote_parse_checkpoint_v4 (rr_reservation R) preparation credit initial) (\<lambda>first.
     bindR (all_updates R initial) (\<lambda>_.
     bindR (replay_states R initial first (tl (take (n + 1) resourceful_prefix_states))) (\<lambda>cs.
       Inr (first # cs)))))))"

definition validate_resourceful_checkpoint_history_v4 ::
  "remote_parse_checkpoint list \<Rightarrow> remote_parse_checkpoint \<Rightarrow> replay_roots \<Rightarrow> unit res" where
  "validate_resourceful_checkpoint_history_v4 h target R =
     bindR (require (\<not> h = []) ''resourceful checkpoint history must be a non-empty tuple'') (\<lambda>_.
     case prefix_index (cp_state target) of
       None \<Rightarrow> Inl (ValueError ''history target is not an ordinary resourceful checkpoint'')
     | Some n \<Rightarrow>
         bindR (checks
           [require (\<not> length h \<noteq> n + 1) ''resourceful checkpoint history length drifted'',
            check_roots n R]) (\<lambda>_.
         bindR (replay_history h R n) (\<lambda>expected.
           require (\<not> (h \<noteq> expected \<or> target \<noteq> last expected))
             ''resourceful checkpoint history drifted from exact replay'')))"


subsection \<open>The seed of a superseding attempt\<close>

text \<open>\<open>preparation_facts == reservation_facts\<close>\<close>

definition preparation_of_reservation :: "preparation_intent \<Rightarrow> resource_reservation \<Rightarrow> string \<Rightarrow> bool" where
  "preparation_of_reservation p r sha \<longleftrightarrow>
     identities p = identities r
     \<and> pi_source_pdf_sha256 p = rv_source_pdf_sha256 r
     \<and> pi_source_byte_count p = rv_source_byte_count r
     \<and> pi_source_page_count p = rv_source_page_count r
     \<and> pi_request_sha256 p = rv_request_sha256 r
     \<and> pi_runtime_epoch_sha256 p = rv_runtime_epoch_sha256 r
     \<and> pi_process_profile_sha256 p = rv_process_profile_sha256 r
     \<and> pi_reservation_sha256 p = sha
     \<and> pi_snapshot_relpath p = rv_snapshot_relpath r
     \<and> pi_snapshot_part_relpath p = rv_snapshot_part_relpath r
     \<and> pi_snapshot_part_owner_relpath p = rv_snapshot_part_owner_relpath r
     \<and> pi_snapshot_lock_relpath p = rv_snapshot_lock_relpath r"

text \<open>\<open>snapshot_facts == expected_snapshot_facts\<close>\<close>

definition snapshot_of_reservation :: "snapshot_receipt \<Rightarrow> resource_reservation \<Rightarrow> string \<Rightarrow> bool" where
  "snapshot_of_reservation s r sha \<longleftrightarrow>
     fe_attempt_id s = attempt_id r
     \<and> fe_fence_identity s = fence_identity r
     \<and> sr_preparation_intent_sha256 s = sha
     \<and> sr_snapshot_relpath s = rv_snapshot_relpath r
     \<and> sr_snapshot_sha256 s = rv_source_pdf_sha256 r
     \<and> sr_snapshot_byte_count s = rv_source_byte_count r"

definition validate_superseding_checkpoint_seed_evidence_v4 ::
  "remote_parse_checkpoint \<Rightarrow> resource_reservation \<Rightarrow> preparation_intent \<Rightarrow> snapshot_receipt \<Rightarrow> unit res" where
  "validate_superseding_checkpoint_seed_evidence_v4 c r p s =
     bindR (require (\<not> (cp_state c = Preparation_failed \<or> (cp_state c = Superseded \<and> cp_lifecycle_version c = 0)))
       ''superseding checkpoint seed is resource-free'') (\<lambda>_.
     bindR (validate_resource_reservation_checkpoint_binding_v4 r c) (\<lambda>_.
     bindR (reservation_sha256 r) (\<lambda>rsha.
     bindR (value_sha (Preparation_value p)) (\<lambda>psha.
     bindR (value_sha (Snapshot_value s)) (\<lambda>ssha.
       require (\<not> (cp_evidence c Preparation_intent \<noteq> Some psha
           \<or> cp_evidence c Snapshot_receipt \<noteq> Some ssha
           \<or> \<not> preparation_of_reservation p r rsha
           \<or> \<not> snapshot_of_reservation s r psha))
         ''superseding checkpoint seed evidence drifted'')))))"

subsection \<open>The evidence of a bundle\<close>

text \<open>The evidence kinds and the checkpoint attribute that refers to each (\<open>refs\<close>).\<close>

definition evidence_kinds :: "evidence_kind list" where
  "evidence_kinds =
     [Preparation_kind, Snapshot_kind, Submission_kind, Accepted_kind, Terminal_kind, Intent_kind, Local_kind,
      Failure_kind, Supersession_kind, Plan_kind, Cleanup_kind, Ack_kind]"

fun kind_field :: "evidence_kind \<Rightarrow> evidence_field" where
  "kind_field Preparation_kind = Preparation_intent"
| "kind_field Snapshot_kind = Snapshot_receipt"
| "kind_field Submission_kind = Submission_intent"
| "kind_field Accepted_kind = Accepted_submission"
| "kind_field Terminal_kind = Terminal_receipt"
| "kind_field Intent_kind = Materialization_intent"
| "kind_field Local_kind = Local_materialization_receipt"
| "kind_field Failure_kind = Failure_receipt"
| "kind_field Supersession_kind = Supersession_receipt"
| "kind_field Plan_kind = Cleanup_plan"
| "kind_field Cleanup_kind = Cleanup_receipt"
| "kind_field Ack_kind = Ack_receipt"

text \<open>The attributes \<open>attempt_id\<close>, \<open>fence_identity\<close>, \<open>document_id\<close> and \<open>processing_run_id\<close> of a
  value, as far as its class has them (\<open>hasattr\<close>).\<close>

definition own_fence :: "'a fenced_evidence_scheme \<Rightarrow> string option list" where
  "own_fence v = [Some (fe_attempt_id v), Some (fe_fence_identity v), None, None]"

fun value_identity :: "evidence_value \<Rightarrow> string option list" where
  "value_identity (Preparation_value v) = map Some (identities v)"
| "value_identity (Snapshot_value v) = own_fence v"
| "value_identity (Submission_value v) = own_fence v"
| "value_identity (Accepted_value v) = own_fence v"
| "value_identity (Terminal_value v) = own_fence v"
| "value_identity (Intent_value v) = map Some (identities v)"
| "value_identity (Local_value v) = map Some (identities v)"
| "value_identity (Failure_value v) = own_fence v"
| "value_identity (Supersession_value v) = own_fence v"
| "value_identity (Plan_value v) = map Some (identities v)"
| "value_identity (Cleanup_value v) = map Some (identities v)"
| "value_identity (Ack_value v) = map Some (identities v)"

definition check_value_identity :: "remote_parse_checkpoint \<Rightarrow> evidence_value \<Rightarrow> unit res" where
  "check_value_identity c v = checks
     (map (\<lambda>(own, expected, label).
        require (\<not> (own \<noteq> None \<and> own \<noteq> Some expected)) (''remote-parse v4 evidence '' @ label @ '' drifted''))
      (zip (value_identity v) (zip (identities c) [''attempt'', ''fence'', ''document'', ''run''])))"

definition check_evidence_set :: "remote_parse_checkpoint \<Rightarrow> encoded_evidence list \<Rightarrow> unit res" where
  "check_evidence_set c es = checks
     [require (distinct (map ev_kind es)) ''remote-parse v4 evidence bundle repeats a kind'',
      require (set (map ev_kind es) = set (filter (\<lambda>k. cp_evidence c (kind_field k) \<noteq> None) evidence_kinds))
        ''remote-parse v4 evidence bundle kind set drifted'',
      require (list_all (\<lambda>e. cp_evidence c (kind_field (ev_kind e)) = Some (ev_sha256 e)) es)
        ''remote-parse v4 evidence bundle hash drifted'',
      checks (map (\<lambda>e. check_value_identity c (ev_value e)) es)]"

definition item_of :: "encoded_evidence list \<Rightarrow> evidence_kind \<Rightarrow> encoded_evidence option" where
  "item_of es k = find (\<lambda>e. ev_kind e = k) es"

definition item_sha :: "encoded_evidence list \<Rightarrow> evidence_kind \<Rightarrow> string option" where
  "item_sha es k = map_option ev_sha256 (item_of es k)"

text \<open>The typed values of the items: \<open>cast(PreparationIntentV4, by_kind["preparation_intent"].value)\<close> and so on.\<close>

record bundle_values =
  bv_preparation :: "preparation_intent option"
  bv_snapshot :: "snapshot_receipt option"
  bv_submission :: "submission_intent option"
  bv_accepted :: "accepted_submission option"
  bv_terminal :: "terminal_receipt option"
  bv_intent :: "materialization_intent option"
  bv_local :: "local_materialization_receipt option"
  bv_failure :: "failure_receipt option"
  bv_supersession :: "supersession_receipt option"
  bv_plan :: "cleanup_plan option"
  bv_cleanup :: "cleanup_receipt option"
  bv_ack :: "provider_ack_receipt option"

definition typed_item :: "encoded_evidence list \<Rightarrow> evidence_kind \<Rightarrow> (evidence_value \<Rightarrow> 'a option) \<Rightarrow> 'a option" where
  "typed_item es k view = (case item_of es k of None \<Rightarrow> None | Some e \<Rightarrow> view (ev_value e))"

definition bundle_values_of :: "encoded_evidence list \<Rightarrow> bundle_values" where
  "bundle_values_of es =
     \<lparr>bv_preparation = typed_item es Preparation_kind (\<lambda>v. case v of Preparation_value x \<Rightarrow> Some x | _ \<Rightarrow> None),
      bv_snapshot = typed_item es Snapshot_kind (\<lambda>v. case v of Snapshot_value x \<Rightarrow> Some x | _ \<Rightarrow> None),
      bv_submission = typed_item es Submission_kind (\<lambda>v. case v of Submission_value x \<Rightarrow> Some x | _ \<Rightarrow> None),
      bv_accepted = typed_item es Accepted_kind (\<lambda>v. case v of Accepted_value x \<Rightarrow> Some x | _ \<Rightarrow> None),
      bv_terminal = typed_item es Terminal_kind (\<lambda>v. case v of Terminal_value x \<Rightarrow> Some x | _ \<Rightarrow> None),
      bv_intent = typed_item es Intent_kind (\<lambda>v. case v of Intent_value x \<Rightarrow> Some x | _ \<Rightarrow> None),
      bv_local = typed_item es Local_kind (\<lambda>v. case v of Local_value x \<Rightarrow> Some x | _ \<Rightarrow> None),
      bv_failure = typed_item es Failure_kind (\<lambda>v. case v of Failure_value x \<Rightarrow> Some x | _ \<Rightarrow> None),
      bv_supersession = typed_item es Supersession_kind (\<lambda>v. case v of Supersession_value x \<Rightarrow> Some x | _ \<Rightarrow> None),
      bv_plan = typed_item es Plan_kind (\<lambda>v. case v of Plan_value x \<Rightarrow> Some x | _ \<Rightarrow> None),
      bv_cleanup = typed_item es Cleanup_kind (\<lambda>v. case v of Cleanup_value x \<Rightarrow> Some x | _ \<Rightarrow> None),
      bv_ack = typed_item es Ack_kind (\<lambda>v. case v of Ack_value x \<Rightarrow> Some x | _ \<Rightarrow> None)\<rparr>"


subsection \<open>The chain of the ordinary evidence\<close>

text \<open>\<open>source_reservation.sha256\<close>; a valid resource-free checkpoint refers to no evidence that asks for it.\<close>

definition source_sha :: "resource_reservation option \<Rightarrow> string res" where
  "source_sha r = (case r of
     None \<Rightarrow> Inl (AttributeError ''NoneType has no attribute sha256'')
   | Some x \<Rightarrow> reservation_sha256 x)"

definition check_preparation :: "remote_parse_checkpoint \<Rightarrow> resource_reservation option \<Rightarrow> bundle_values \<Rightarrow> unit res" where
  "check_preparation c r b = (case bv_preparation b of
     None \<Rightarrow> Inr ()
   | Some p \<Rightarrow>
       bindR (require (\<not> (pi_source_pdf_sha256 p \<noteq> cp_source_pdf_sha256 c
           \<or> pi_source_byte_count p \<noteq> cp_source_byte_count c
           \<or> pi_source_page_count p \<noteq> cp_source_page_count c
           \<or> pi_request_sha256 p \<noteq> cp_request_sha256 c
           \<or> pi_runtime_epoch_sha256 p \<noteq> cp_runtime_epoch_sha256 c
           \<or> pi_process_profile_sha256 p \<noteq> cp_process_profile_sha256 c))
         ''preparation evidence drifted from checkpoint'') (\<lambda>_.
       bindR (source_sha r) (\<lambda>sha.
         require (\<not> pi_reservation_sha256 p \<noteq> sha) ''preparation evidence drifted from reservation'')))"

definition check_snapshot :: "remote_parse_checkpoint \<Rightarrow> encoded_evidence list \<Rightarrow> bundle_values \<Rightarrow> unit res" where
  "check_snapshot c es b = (case bv_snapshot b of
     None \<Rightarrow> Inr ()
   | Some s \<Rightarrow> require (\<not> (item_sha es Preparation_kind \<noteq> Some (sr_preparation_intent_sha256 s)
         \<or> sr_snapshot_sha256 s \<noteq> cp_source_pdf_sha256 c
         \<or> sr_snapshot_byte_count s \<noteq> cp_source_byte_count c
         \<or> map_option pi_snapshot_relpath (bv_preparation b) \<noteq> Some (sr_snapshot_relpath s)))
       ''snapshot evidence chain drifted'')"

definition check_submission :: "remote_parse_checkpoint \<Rightarrow> encoded_evidence list \<Rightarrow> bundle_values \<Rightarrow> unit res" where
  "check_submission c es b = (case bv_submission b of
     None \<Rightarrow> Inr ()
   | Some s \<Rightarrow> require (\<not> (item_sha es Snapshot_kind \<noteq> Some (si_snapshot_receipt_sha256 s)
         \<or> si_source_pdf_sha256 s \<noteq> cp_source_pdf_sha256 c
         \<or> si_request_sha256 s \<noteq> cp_request_sha256 c
         \<or> si_runtime_epoch_sha256 s \<noteq> cp_runtime_epoch_sha256 c
         \<or> map_option pi_parser_target_sha256 (bv_preparation b) \<noteq> Some (si_parser_target_sha256 s)))
       ''submission evidence chain drifted'')"

definition check_accepted :: "encoded_evidence list \<Rightarrow> bundle_values \<Rightarrow> unit res" where
  "check_accepted es b = (case bv_accepted b of
     None \<Rightarrow> Inr ()
   | Some a \<Rightarrow> require (\<not> (item_sha es Submission_kind \<noteq> Some (as_submission_intent_sha256 a)
         \<or> map_option si_provider_protocol_version (bv_submission b) \<noteq> Some (as_provider_protocol_version a)))
       ''accepted-submission evidence chain drifted'')"

definition check_terminal :: "encoded_evidence list \<Rightarrow> bundle_values \<Rightarrow> unit res" where
  "check_terminal es b = (case bv_terminal b of
     None \<Rightarrow> Inr ()
   | Some t \<Rightarrow> require (\<not> (item_sha es Accepted_kind \<noteq> Some (tr_accepted_submission_receipt_sha256 t)
         \<or> map_option as_remote_task_identity (bv_accepted b) \<noteq> Some (tr_remote_task_identity t)
         \<or> map_option as_provider_protocol_version (bv_accepted b) \<noteq> Some (tr_provider_protocol_version t)))
       ''terminal evidence chain drifted'')"

definition intent_follows ::
  "remote_parse_checkpoint \<Rightarrow> encoded_evidence list \<Rightarrow> bundle_values \<Rightarrow> materialization_intent \<Rightarrow> bool" where
  "intent_follows c es b i = (\<not>
     (item_sha es Terminal_kind \<noteq> Some (mi_terminal_receipt_sha256 i)
      \<or> mi_source_pdf_sha256 i \<noteq> cp_source_pdf_sha256 c
      \<or> mi_source_page_count i \<noteq> cp_source_page_count c
      \<or> map_option tr_remote_task_identity (bv_terminal b) \<noteq> Some (mi_remote_task_identity i)
      \<or> map_option tr_result_owner_identity (bv_terminal b) \<noteq> Some (mi_artifact_owner_identity i)
      \<or> map_option tr_artifact_sha256 (bv_terminal b) \<noteq> Some (mi_artifact_sha256 i)
      \<or> map_option tr_artifact_byte_count (bv_terminal b) \<noteq> Some (mi_artifact_byte_count i)
      \<or> map_option as_secret_kind (bv_accepted b) \<noteq> Some (mi_provider_capability_kind i)
      \<or> map_option as_token_sha256 (bv_accepted b) \<noteq> Some (mi_provider_capability_sha256 i)
      \<or> map_option as_token_byte_count (bv_accepted b) \<noteq> Some (mi_provider_capability_byte_count i)
      \<or> map_option pi_parser_target_sha256 (bv_preparation b) \<noteq> Some (mi_parser_target_sha256 i)))"

definition check_intent ::
  "remote_parse_checkpoint \<Rightarrow> resource_reservation option \<Rightarrow> encoded_evidence list \<Rightarrow> bundle_values \<Rightarrow> unit res" where
  "check_intent c r es b = (case bv_intent b of
     None \<Rightarrow> Inr ()
   | Some i \<Rightarrow>
       bindR (require (intent_follows c es b i) ''materialization-intent evidence chain drifted'') (\<lambda>_.
       bindR (source_sha r) (\<lambda>sha.
         require (\<not> mi_reservation_sha256 i \<noteq> sha) ''materialization-intent evidence chain drifted'')))"

definition receipt_follows ::
  "remote_parse_checkpoint \<Rightarrow> materialization_intent \<Rightarrow> local_materialization_receipt \<Rightarrow> bool" where
  "receipt_follows c i l = (\<not>
     (lr_terminal_receipt_sha256 l \<noteq> mi_terminal_receipt_sha256 i
      \<or> lr_source_pdf_sha256 l \<noteq> cp_source_pdf_sha256 c
      \<or> lr_source_page_count l \<noteq> cp_source_page_count c
      \<or> lr_parser_target_sha256 l \<noteq> mi_parser_target_sha256 i
      \<or> lr_spool_relpath l \<noteq> mi_spool_relpath i
      \<or> lr_spool_sha256 l \<noteq> mi_artifact_sha256 i
      \<or> lr_spool_byte_count l \<noteq> mi_artifact_byte_count i
      \<or> lr_output_relpath l \<noteq> mi_output_relpath i
      \<or> lr_provider_envelope_relpath l \<noteq> mi_provider_envelope_relpath i
      \<or> lr_output_manifest_relpath l \<noteq> mi_output_manifest_relpath i
      \<or> lr_member_count l > mi_member_count_limit i
      \<or> lr_uncompressed_byte_count l > mi_uncompressed_byte_limit i
      \<or> lr_decoded_byte_count l > mi_decoded_byte_limit i
      \<or> lr_temporary_disk_peak_byte_count l > mi_temporary_disk_byte_limit i
      \<or> lr_output_byte_count l > mi_output_byte_limit i))"

text \<open>With no manifest and no envelope: the caller without filesystem evidence.\<close>

definition check_local :: "remote_parse_checkpoint \<Rightarrow> encoded_evidence list \<Rightarrow> bundle_values \<Rightarrow> unit res" where
  "check_local c es b = (case bv_local b of
     None \<Rightarrow> Inr ()
   | Some l \<Rightarrow> require (item_sha es Intent_kind = Some (lr_materialization_intent_sha256 l)
         \<and> (case bv_intent b of None \<Rightarrow> False | Some i \<Rightarrow> receipt_follows c i l))
       ''local-materialization evidence chain drifted'')"

definition check_credit :: "remote_parse_checkpoint \<Rightarrow> bundle_values \<Rightarrow> unit res" where
  "check_credit c b =
     bindR (if cp_state c = Cleanup_pending
       then (case bv_plan b of
           None \<Rightarrow> Inl (ValueError ''cleanup-pending credit lacks its exact cleanup plan'')
         | Some p \<Rightarrow> Inr (pl_source_state p))
       else Inr (cp_state c)) (\<lambda>s.
     bindR (expected_held_resource_credit_v4 s (cp_source_byte_count c) (bv_accepted b) (bv_terminal b)
       (bv_intent b) (bv_local b)) (\<lambda>expected.
       require (\<not> (expected \<noteq> None \<and> Some (cp_held_resource_credit c) \<noteq> expected))
         ''checkpoint held resource credit drifted from exact evidence''))"

subsection \<open>Failure and supersession\<close>

definition check_failure_chain :: "remote_parse_checkpoint \<Rightarrow> encoded_evidence list \<Rightarrow> bundle_values \<Rightarrow> unit res" where
  "check_failure_chain c es b = (case bv_failure b of
     None \<Rightarrow> Inr ()
   | Some f \<Rightarrow> checks
       [require (\<not> (fr_accepted_submission_receipt_sha256 f \<noteq> item_sha es Accepted_kind
           \<or> fr_terminal_receipt_sha256 f \<noteq> item_sha es Terminal_kind
           \<or> fr_materialization_intent_sha256 f \<noteq> item_sha es Intent_kind
           \<or> fr_local_materialization_receipt_sha256 f \<noteq> item_sha es Local_kind
           \<or> fr_source_lifecycle_version f > cp_lifecycle_version c))
          ''failure evidence chain drifted'',
        (case fr_submission_absence_proof f of
           None \<Rightarrow> Inr ()
         | Some a \<Rightarrow> require (\<not> (map_option si_client_submit_key (bv_submission b) \<noteq> Some (ab_client_submit_key a)
               \<or> map_option si_provider_protocol_version (bv_submission b) \<noteq> Some (ab_provider_protocol_version a)))
             ''submission absence proof drifted from intent'')])"

record bundle_inputs =
  bi_checkpoint :: remote_parse_checkpoint
  bi_evidence :: "encoded_evidence list"
  bi_reservation :: "resource_reservation option"
  bi_cleanup_source :: "remote_parse_checkpoint option"
  bi_history :: "remote_parse_checkpoint list option"
  bi_cleanup_pending :: "remote_parse_checkpoint option"
  bi_ack_pending :: "remote_parse_checkpoint option"
  bi_superseding_checkpoint :: "remote_parse_checkpoint option"
  bi_superseding_reservation :: "resource_reservation option"
  bi_superseding_preparation :: "preparation_intent option"
  bi_superseding_snapshot :: "snapshot_receipt option"

definition check_superseding_checkpoint ::
  "remote_parse_checkpoint \<Rightarrow> supersession_receipt \<Rightarrow> remote_parse_checkpoint \<Rightarrow> unit res" where
  "check_superseding_checkpoint c s n =
     bindR (checkpoint_sha256 n) (\<lambda>nsha.
     bindR (checkpoint_sha256 c) (\<lambda>csha.
       require (\<not> (ss_superseding_checkpoint_sha256 s \<noteq> nsha
           \<or> ss_superseding_attempt_id s \<noteq> attempt_id n
           \<or> ss_superseding_attempt_generation s \<noteq> cp_attempt_generation n
           \<or> ss_superseding_document_id s \<noteq> document_id n
           \<or> attempt_id n = attempt_id c
           \<or> cp_attempt_generation n \<le> cp_attempt_generation c
           \<or> nsha = csha
           \<or> Some nsha = ss_source_checkpoint_sha256 s))
         ''superseding checkpoint drifted or reused the source''))"

definition check_supersession_chain :: "bundle_inputs \<Rightarrow> bundle_values \<Rightarrow> unit res" where
  "check_supersession_chain I b =
     (let c = bi_checkpoint I in
      case bv_supersession b of
        None \<Rightarrow> require (\<not> (bi_superseding_checkpoint I \<noteq> None \<or> bi_superseding_reservation I \<noteq> None
            \<or> bi_superseding_preparation I \<noteq> None \<or> bi_superseding_snapshot I \<noteq> None))
          ''superseding seed evidence supplied without supersession''
      | Some s \<Rightarrow>
          bindR (checks
            [require (\<not> (ss_source_document_id s \<noteq> document_id c
                \<or> ss_superseding_document_id s \<noteq> document_id c
                \<or> ss_source_attempt_generation s \<noteq> cp_attempt_generation c))
               ''supersession source attempt chain drifted'',
             require (\<not> ss_source_lifecycle_version s > cp_lifecycle_version c)
               ''supersession evidence source version is in the future'']) (\<lambda>_.
          case (bi_superseding_checkpoint I, bi_superseding_reservation I, bi_superseding_preparation I,
              bi_superseding_snapshot I) of
            (Some n, Some r, Some p, Some sn) \<Rightarrow> checks
              [check_superseding_checkpoint c s n,
               validate_superseding_checkpoint_seed_evidence_v4 n r p sn,
               require (\<not> (cp_state c = Superseded \<and> cp_lifecycle_version c = 0
                   \<and> (ss_source_state s \<noteq> ''not_prepared'' \<or> ss_source_checkpoint_sha256 s \<noteq> None
                      \<or> ss_source_lifecycle_version s \<noteq> 0)))
                 ''resource-free supersession source state drifted'']
          | _ \<Rightarrow> Inl (ValueError ''supersession lacks its exact superseding seed evidence'')))"

subsection \<open>The replay of the source checkpoint\<close>

definition roots_of :: "bundle_inputs \<Rightarrow> bundle_values \<Rightarrow> resource_reservation \<Rightarrow> preparation_intent \<Rightarrow> replay_roots" where
  "roots_of I b r p =
     \<lparr>rr_reservation = r, rr_preparation = p, rr_snapshot = bv_snapshot b, rr_submission = bv_submission b,
      rr_accepted = bv_accepted b, rr_terminal = bv_terminal b, rr_intent = bv_intent b,
      rr_local = bv_local b, rr_winner = cp_evidence (bi_checkpoint I) Publication_winner\<rparr>"

text \<open>\<open>history_target\<close>\<close>

definition history_target :: "bundle_inputs \<Rightarrow> bundle_values \<Rightarrow> remote_parse_checkpoint res" where
  "history_target I b = (case bv_plan b of
     Some _ \<Rightarrow>
       (case bi_cleanup_source I of
          None \<Rightarrow> Inl (ValueError ''cleanup plan lacks its exact source checkpoint'')
        | Some s \<Rightarrow> Inr s)
   | None \<Rightarrow>
       bindR (require (\<not> bi_cleanup_source I \<noteq> None) ''cleanup source checkpoint supplied without cleanup plan'')
         (\<lambda>_. Inr (bi_checkpoint I)))"

definition check_history :: "bundle_inputs \<Rightarrow> bundle_values \<Rightarrow> unit res" where
  "check_history I b =
     (if resource_free (bi_checkpoint I)
      then require (\<not> (bi_history I \<noteq> None \<or> bi_cleanup_source I \<noteq> None))
        ''resource-free lifecycle cannot carry resourceful history or a cleanup source checkpoint''
      else
        bindR (history_target I b) (\<lambda>target.
        case bi_history I of
          None \<Rightarrow> Inl (ValueError ''resourceful bundle lacks exact checkpoint history'')
        | Some h \<Rightarrow>
            (case (bi_reservation I, bv_preparation b) of
               (Some r, Some p) \<Rightarrow> validate_resourceful_checkpoint_history_v4 h target (roots_of I b r p)
             | _ \<Rightarrow> Inl (ValueError ''resourceful history lacks exact preparation evidence''))))"


subsection \<open>The cleanup plan\<close>

definition plan_follows :: "remote_parse_checkpoint \<Rightarrow> encoded_evidence list \<Rightarrow> cleanup_plan \<Rightarrow> bool" where
  "plan_follows c es p = (\<not>
     (pl_terminal_receipt_sha256 p \<noteq> item_sha es Terminal_kind
      \<or> pl_materialization_intent_sha256 p \<noteq> item_sha es Intent_kind
      \<or> pl_local_materialization_receipt_sha256 p \<noteq> item_sha es Local_kind
      \<or> pl_failure_receipt_sha256 p \<noteq> item_sha es Failure_kind
      \<or> pl_supersession_receipt_sha256 p \<noteq> item_sha es Supersession_kind
      \<or> pl_publication_winner_sha256 p \<noteq> cp_evidence c Publication_winner
      \<or> pl_source_lifecycle_version p \<ge> cp_lifecycle_version c))"

definition plan_of_failure :: "cleanup_plan \<Rightarrow> failure_receipt \<Rightarrow> bool" where
  "plan_of_failure p f = (\<not>
     (Some (pl_source_checkpoint_sha256 p) \<noteq> fr_source_checkpoint_sha256 f
      \<or> state_name (pl_source_state p) \<noteq> fr_source_state f
      \<or> pl_source_lifecycle_version p \<noteq> fr_source_lifecycle_version f))"

definition plan_of_supersession :: "cleanup_plan \<Rightarrow> supersession_receipt \<Rightarrow> bool" where
  "plan_of_supersession p s = (\<not>
     (Some (pl_source_checkpoint_sha256 p) \<noteq> ss_source_checkpoint_sha256 s
      \<or> state_name (pl_source_state p) \<noteq> ss_source_state s
      \<or> pl_source_lifecycle_version p \<noteq> ss_source_lifecycle_version s))"

definition check_plan_task :: "cleanup_plan \<Rightarrow> bundle_values \<Rightarrow> unit res" where
  "check_plan_task p b = (case bv_accepted b of
     None \<Rightarrow> require (\<not> pl_remote_task_identity p \<noteq> None) ''cleanup plan invented a provider task''
   | Some a \<Rightarrow> require (\<not> pl_remote_task_identity p \<noteq> Some (as_remote_task_identity a))
       ''cleanup plan provider task drifted'')"

definition check_plan_source_credit :: "remote_parse_checkpoint \<Rightarrow> bundle_values \<Rightarrow> unit res" where
  "check_plan_source_credit source b =
     bindR (expected_held_resource_credit_v4 (cp_state source) (cp_source_byte_count source) (bv_accepted b)
       (bv_terminal b) (bv_intent b) (bv_local b)) (\<lambda>expected.
       require (\<not> (expected = None \<or> Some (cp_held_resource_credit source) \<noteq> expected))
         ''cleanup source held resource credit drifted from exact evidence'')"

text \<open>
  \<open>source_reservation\<close> is \<open>None\<close> only for a resource-free checkpoint, which refers to no plan; the
  replay then has no reservation to read.
\<close>

definition check_plan :: "bundle_inputs \<Rightarrow> bundle_values \<Rightarrow> unit res" where
  "check_plan I b = (case bv_plan b of
     None \<Rightarrow> Inr ()
   | Some p \<Rightarrow>
       let c = bi_checkpoint I; es = bi_evidence I in
       (case (bi_cleanup_source I, bi_reservation I) of
          (None, _) \<Rightarrow> Inl (AssertionError '''')
        | (Some source, None) \<Rightarrow> Inl (AttributeError ''NoneType has no attribute attempt_id'')
        | (Some source, Some r) \<Rightarrow> checks
            [validate_local_cleanup_plan_v4 p r source (bv_intent b) (bv_local b),
             check_plan_source_credit source b,
             require (plan_follows c es p) ''cleanup-plan evidence chain drifted'',
             (case bv_failure b of None \<Rightarrow> Inr () | Some f \<Rightarrow>
                require (plan_of_failure p f) ''failure cleanup source checkpoint drifted''),
             (case bv_supersession b of None \<Rightarrow> Inr () | Some s \<Rightarrow>
                require (plan_of_supersession p s) ''supersession cleanup source checkpoint drifted''),
             check_plan_task p b,
             require (\<not> (cp_state c = Cleanup_pending
                 \<and> (cp_previous_checkpoint_sha256 c \<noteq> Some (pl_source_checkpoint_sha256 p)
                    \<or> cp_lifecycle_version c \<noteq> pl_source_lifecycle_version p + 1)))
               ''cleanup-pending checkpoint chain drifted'']))"

subsection \<open>The cleanup receipt\<close>

text \<open>\<open>planned\<close> and \<open>observed\<close>\<close>

definition planned_disposition ::
  "cleanup_entry \<Rightarrow> resource_kind \<times> string \<times> cleanup_disposition \<times> string option \<times> string option" where
  "planned_disposition e =
     (ce_kind e, ce_relpath e, if ce_action e = Delete then Absent else Transferred,
      ce_target_owner_identity e, ce_target_relpath e)"

definition observed_disposition ::
  "cleanup_result \<Rightarrow> resource_kind \<times> string \<times> cleanup_disposition \<times> string option \<times> string option" where
  "observed_disposition u =
     (cu_kind u, cu_relpath u, cu_disposition u, cu_target_owner_identity u, cu_target_relpath u)"

definition expected_cleanup_pending :: "remote_parse_checkpoint \<Rightarrow> cleanup_plan \<Rightarrow> remote_parse_checkpoint res" where
  "expected_cleanup_pending source p =
     bindR (plan_sha256 p) (\<lambda>sha.
       advance_remote_parse_checkpoint_v4 source Cleanup_pending (cp_held_resource_credit source)
         [(''failure_receipt_sha256'', pl_failure_receipt_sha256 p),
          (''supersession_receipt_sha256'', pl_supersession_receipt_sha256 p),
          (''cleanup_plan_sha256'', Some sha)])"

definition check_pending :: "cleanup_receipt \<Rightarrow> cleanup_plan \<Rightarrow> remote_parse_checkpoint \<Rightarrow> remote_parse_checkpoint \<Rightarrow> unit res" where
  "check_pending t p source pending =
     bindR (expected_cleanup_pending source p) (\<lambda>expected.
     bindR (checkpoint_sha256 pending) (\<lambda>sha.
       require (\<not> (pending \<noteq> expected
           \<or> ct_cleanup_pending_checkpoint_sha256 t \<noteq> sha
           \<or> ct_cleanup_pending_lifecycle_version t \<noteq> cp_lifecycle_version pending))
         ''cleanup receipt lacks its exact cleanup-pending checkpoint''))"

definition check_cleanup :: "bundle_inputs \<Rightarrow> bundle_values \<Rightarrow> unit res" where
  "check_cleanup I b = (let c = bi_checkpoint I; es = bi_evidence I in
     case bv_cleanup b of
       None \<Rightarrow> require (\<not> bi_cleanup_pending I \<noteq> None)
         ''cleanup-pending checkpoint supplied without cleanup receipt''
     | Some t \<Rightarrow>
         (case (bv_plan b, bi_cleanup_pending I, bi_cleanup_source I) of
            (Some p, Some pending, Some source) \<Rightarrow> checks
              [require (\<not> (item_sha es Plan_kind \<noteq> Some (ct_cleanup_plan_sha256 t)
                  \<or> ct_outcome t \<noteq> pl_outcome p
                  \<or> ct_cleanup_pending_lifecycle_version t \<noteq> pl_source_lifecycle_version p + 1))
                 ''cleanup-receipt evidence chain drifted'',
               (case bi_reservation I of
                  None \<Rightarrow> Inl (AttributeError ''NoneType has no attribute attempt_id'')
                | Some r \<Rightarrow> validate_resource_reservation_checkpoint_binding_v4 r pending),
               check_pending t p source pending,
               require (\<not> set (map planned_disposition (pl_resources p)) \<noteq> set (map observed_disposition (ct_results t)))
                 ''cleanup receipt does not close the exact plan'',
               require (\<not> (cp_state c = Ack_pending
                   \<and> (cp_previous_checkpoint_sha256 c \<noteq> Some (ct_cleanup_pending_checkpoint_sha256 t)
                      \<or> cp_lifecycle_version c \<noteq> ct_cleanup_pending_lifecycle_version t + 1)))
                 ''ack-pending checkpoint chain drifted'']
          | _ \<Rightarrow> Inl (ValueError ''cleanup-receipt evidence chain drifted'')))"

subsection \<open>The acknowledgement\<close>

definition ack_follows ::
  "bundle_inputs \<Rightarrow> bundle_values \<Rightarrow> provider_ack_receipt \<Rightarrow> accepted_submission \<Rightarrow> cleanup_plan
     \<Rightarrow> cleanup_receipt \<Rightarrow> remote_parse_checkpoint \<Rightarrow> string \<Rightarrow> bool" where
  "ack_follows I b k a p t pending sha =
     (let c = bi_checkpoint I; es = bi_evidence I in \<not>
     (ak_ack_pending_checkpoint_sha256 k \<noteq> sha
      \<or> ak_ack_pending_lifecycle_version k \<noteq> cp_lifecycle_version pending
      \<or> item_sha es Accepted_kind \<noteq> Some (ak_accepted_submission_sha256 k)
      \<or> ak_remote_task_identity k \<noteq> as_remote_task_identity a
      \<or> ak_provider_protocol_version k \<noteq> as_provider_protocol_version a
      \<or> item_sha es Plan_kind \<noteq> Some (ak_cleanup_plan_sha256 k)
      \<or> item_sha es Cleanup_kind \<noteq> Some (ak_cleanup_receipt_sha256 k)
      \<or> ak_outcome k \<noteq> pl_outcome p
      \<or> ak_terminal_receipt_sha256 k \<noteq> item_sha es Terminal_kind
      \<or> ak_failure_receipt_sha256 k \<noteq> item_sha es Failure_kind
      \<or> ak_supersession_receipt_sha256 k \<noteq> item_sha es Supersession_kind
      \<or> ak_local_materialization_receipt_sha256 k \<noteq> item_sha es Local_kind
      \<or> ak_publication_winner_sha256 k \<noteq> cp_evidence c Publication_winner
      \<or> ak_ack_pending_lifecycle_version k \<noteq> ct_cleanup_pending_lifecycle_version t + 1
      \<or> ak_result_owner_identity k \<noteq> map_option tr_result_owner_identity (bv_terminal b)))"

text \<open>The table of final states; the pre-submission outcome is not a key.\<close>

fun final_state_of :: "cleanup_outcome \<Rightarrow> checkpoint_state res" where
  "final_state_of Success = Inr Acked"
| "final_state_of Remote_failure = Inr Remote_failed"
| "final_state_of Local_failure = Inr Local_failed"
| "final_state_of Superseded_outcome = Inr Superseded"
| "final_state_of Pre_submission_failure = Inl (KeyError ''pre_submission_failure'')"

text \<open>\<open>assert expected_ack_pending_credit is not None\<close>\<close>

definition ack_credit :: "remote_parse_checkpoint \<Rightarrow> bundle_values \<Rightarrow> resource_credit_vector res" where
  "ack_credit pending b =
     bindR (expected_held_resource_credit_v4 Ack_pending (cp_source_byte_count pending) (bv_accepted b)
       (bv_terminal b) (bv_intent b) (bv_local b)) (\<lambda>credit.
     case credit of None \<Rightarrow> Inl (AssertionError '''') | Some v \<Rightarrow> Inr v)"

definition check_ack_chain ::
  "bundle_inputs \<Rightarrow> bundle_values \<Rightarrow> provider_ack_receipt \<Rightarrow> accepted_submission \<Rightarrow> cleanup_plan
     \<Rightarrow> cleanup_receipt \<Rightarrow> remote_parse_checkpoint \<Rightarrow> remote_parse_checkpoint \<Rightarrow> unit res" where
  "check_ack_chain I b k a p t cleanup_pending pending =
     bindR (case bi_reservation I of
         None \<Rightarrow> Inl (AttributeError ''NoneType has no attribute attempt_id'')
       | Some r \<Rightarrow> validate_resource_reservation_checkpoint_binding_v4 r pending) (\<lambda>_.
     bindR (ack_credit pending b) (\<lambda>credit.
     bindR (cleanup_receipt_sha256 t) (\<lambda>tsha.
     bindR (advance_remote_parse_checkpoint_v4 cleanup_pending Ack_pending credit
       [(''cleanup_receipt_sha256'', Some tsha)]) (\<lambda>expected_pending.
     bindR (checkpoint_sha256 pending) (\<lambda>psha.
     bindR (require (\<not> (pending \<noteq> expected_pending \<or> \<not> ack_follows I b k a p t pending psha))
       ''provider ACK evidence chain drifted'') (\<lambda>_.
     bindR (final_state_of (ak_outcome k)) (\<lambda>final.
     bindR (ack_receipt_sha256 k) (\<lambda>ksha.
     bindR (advance_remote_parse_checkpoint_v4 pending final rcv_zero [(''ack_receipt_sha256'', Some ksha)])
       (\<lambda>expected_final.
       require (\<not> bi_checkpoint I \<noteq> expected_final) ''final ACK checkpoint chain drifted'')))))))))"

definition check_ack :: "bundle_inputs \<Rightarrow> bundle_values \<Rightarrow> unit res" where
  "check_ack I b = (case bv_ack b of
     None \<Rightarrow> require (\<not> bi_ack_pending I \<noteq> None) ''ack-pending checkpoint supplied without provider ACK''
   | Some k \<Rightarrow>
       (case (bv_accepted b, bv_plan b, bv_cleanup b, bi_cleanup_pending I, bi_ack_pending I) of
          (Some a, Some p, Some t, Some cleanup_pending, Some pending) \<Rightarrow>
            check_ack_chain I b k a p t cleanup_pending pending
        | _ \<Rightarrow> Inl (ValueError ''provider ACK lacks its accepted cleanup chain'')))"

subsection \<open>The final state\<close>

definition expected_final_outcome :: "checkpoint_state \<Rightarrow> cleanup_outcome option" where
  "expected_final_outcome s = (case s of
     Acked \<Rightarrow> Some Success
   | Remote_failed \<Rightarrow> Some Remote_failure
   | Local_failed \<Rightarrow> Some Local_failure
   | Pre_submission_failed \<Rightarrow> Some Pre_submission_failure
   | Superseded \<Rightarrow> Some Superseded_outcome
   | _ \<Rightarrow> None)"

definition check_final :: "remote_parse_checkpoint \<Rightarrow> encoded_evidence list \<Rightarrow> bundle_values \<Rightarrow> unit res" where
  "check_final c es b = checks
     [(case (expected_final_outcome (cp_state c), bv_plan b) of
         (Some outcome, Some p) \<Rightarrow> require (\<not> pl_outcome p \<noteq> outcome) ''final checkpoint cleanup outcome drifted''
       | _ \<Rightarrow> Inr ()),
      (case bv_cleanup b of
         None \<Rightarrow> Inr ()
       | Some t \<Rightarrow> require (\<not> ((cp_state c = Pre_submission_failed
             \<or> (cp_state c = Superseded \<and> item_of es Accepted_kind = None))
           \<and> (cp_previous_checkpoint_sha256 c \<noteq> Some (ct_cleanup_pending_checkpoint_sha256 t)
             \<or> cp_lifecycle_version c \<noteq> ct_cleanup_pending_lifecycle_version t + 1)))
           ''non-ACK final cleanup checkpoint chain drifted''),
      require (\<not> (cp_state c = Pre_submission_failed \<and> item_of es Ack_kind \<noteq> None))
        ''pre-submission failure cannot carry provider ACK'',
      require (\<not> (cp_state c = Superseded \<and> item_of es Accepted_kind \<noteq> None \<and> item_of es Ack_kind = None))
        ''accepted supersession lacks provider ACK'']"

subsection \<open>The bundle\<close>

definition check_bundle_reservation :: "remote_parse_checkpoint \<Rightarrow> resource_reservation option \<Rightarrow> unit res" where
  "check_bundle_reservation c r =
     (if resource_free c
      then require (\<not> r \<noteq> None) ''resource-free v4 evidence bundle invented a source reservation''
      else (case r of
          None \<Rightarrow> Inl (ValueError ''remote-parse v4 evidence bundle lacks exact reservation'')
        | Some x \<Rightarrow> require (reservation_binds x c)
            ''remote-parse v4 evidence bundle reservation drifted from checkpoint''))"

definition validate_durable_remote_parse_evidence_bundle_v4 :: "bundle_inputs \<Rightarrow> unit res" where
  "validate_durable_remote_parse_evidence_bundle_v4 I =
     (let c = bi_checkpoint I; es = bi_evidence I; r = bi_reservation I; b = bundle_values_of es in checks
        [check_bundle_reservation c r, check_evidence_set c es, check_preparation c r b, check_snapshot c es b,
         check_submission c es b, check_accepted es b, check_terminal es b, check_intent c r es b,
         check_local c es b, check_credit c b, check_failure_chain c es b, check_supersession_chain I b,
         check_history I b, check_plan I b, check_cleanup I b, check_ack I b, check_final c es b])"

end
