(* ===== verification/BundleProperties.thy ===== *)
theory BundleProperties
  imports EvidenceBundle CheckpointCodec
begin

text \<open>
  What an accepted evidence bundle proves: the checkpoint it is about lies on a lawful history, which the
  bundle's own checkpoints spell out.
\<close>

subsection \<open>The items of an accepted bundle\<close>

definition encoded_items :: "encoded_evidence list \<Rightarrow> bool" where
  "encoded_items es = list_all (\<lambda>e. encoded_post_init e = Inr ()) es"

lemma item_of_Some: "item_of es k = Some e \<Longrightarrow> e \<in> set es \<and> ev_kind e = k"
  by (auto simp: item_of_def find_Some_iff)

lemma item_of_None: "item_of es k = None \<longleftrightarrow> k \<notin> set (map ev_kind es)"
  by (auto simp: item_of_def find_None_iff)

lemma evidence_kinds_all: "k \<in> set evidence_kinds"
  by (cases k) (simp_all add: evidence_kinds_def)

lemma present_iff:
  assumes "check_evidence_set c es = Inr ()"
  shows "has c (kind_field k) \<longleftrightarrow> item_of es k \<noteq> None"
proof -
  have "set (map ev_kind es) = set (filter (\<lambda>k. cp_evidence c (kind_field k) \<noteq> None) evidence_kinds)"
    using assms unfolding check_evidence_set_def checks_Cons_Inr require_Inr by blast
  then show ?thesis using evidence_kinds_all [of k] by (simp add: item_of_None has_def)
qed

lemma typed_item_iff:
  assumes "encoded_items es" and "\<And>v. kind_of v = k \<Longrightarrow> view v \<noteq> None"
  shows "typed_item es k view \<noteq> None \<longleftrightarrow> item_of es k \<noteq> None"
proof (cases "item_of es k")
  case (Some e)
  with item_of_Some [OF Some] assms(1) have "kind_of (ev_value e) = k"
    by (auto simp: encoded_items_def list_all_iff encoded_parts)
  with Some assms(2) show ?thesis by (simp add: typed_item_def)
qed (simp add: typed_item_def)

lemma bundle_present:
  assumes "encoded_items es"
  shows "bv_plan (bundle_values_of es) \<noteq> None \<longleftrightarrow> item_of es Plan_kind \<noteq> None"
    and "bv_cleanup (bundle_values_of es) \<noteq> None \<longleftrightarrow> item_of es Cleanup_kind \<noteq> None"
    and "bv_ack (bundle_values_of es) \<noteq> None \<longleftrightarrow> item_of es Ack_kind \<noteq> None"
  unfolding bundle_values_of_def bundle_values.simps
  by (rule typed_item_iff [OF assms]; case_tac v; simp)+

subsection \<open>The replay is a history\<close>

lemma initial_history:
  assumes "build_initial_remote_parse_checkpoint_v4 r preparation credit snapshot = Inr c"
  shows "history [c]"
proof (rule history.genesis)
  show "valid_checkpoint c" "cp_lifecycle_version c = 0"
    using assms by (auto simp: build_initial_remote_parse_checkpoint_v4_def attempt_identity.defs)
qed

lemma replay_states_history:
  "replay_states R initial c ss = Inr cs \<Longrightarrow> history (c # h) \<Longrightarrow> history (rev cs @ c # h)"
proof (induction R initial c ss arbitrary: cs h rule: replay_states.induct)
  case (2 R initial current s ss)
  then obtain credit updates where step: "roots_credit R s = Inr credit" "roots_update R initial s = Inr updates"
      and body: "(case (credit, updates) of
          (Some v, Some us) \<Rightarrow> bindR (advance_remote_parse_checkpoint_v4 current s v us) (\<lambda>c.
            bindR (replay_states R initial c ss) (\<lambda>cs. Inr (c # cs)))
        | _ \<Rightarrow> Inl (ValueError ''resourceful checkpoint history evidence is incomplete'')) = Inr cs"
    by auto
  then obtain v us c cs' where some: "credit = Some v" "updates = Some us"
      and adv: "advance_remote_parse_checkpoint_v4 current s v us = Inr c"
      and rest: "replay_states R initial c ss = Inr cs'" and cs: "cs = c # cs'"
    by (cases credit; cases updates) auto
  have "history (c # current # h)"
    using 2(3) adv by (rule history.advanced)
  from "2.IH" [OF refl some rest this] show ?case by (simp add: cs)
qed simp

lemma replay_history_history:
  assumes "replay_history h R n = Inr cs"
  shows "history (rev cs)"
proof -
  obtain preparation credit snapshot first rest initial where
      "build_initial_remote_parse_checkpoint_v4 (rr_reservation R) preparation credit snapshot = Inr first"
      and "replay_states R initial first (tl (take (n + 1) resourceful_prefix_states)) = Inr rest"
      and cs: "cs = first # rest"
    using assms unfolding replay_history_def bindR_Inr_iff by auto
  with replay_states_history initial_history show ?thesis by (simp add: cs)
qed

lemma validated_history:
  assumes "validate_resourceful_checkpoint_history_v4 h target R = Inr ()"
  shows "history (rev h)" and "target = last h" and "h \<noteq> []"
proof -
  obtain n where "replay_history h R n = Inr h" and "target = last h" and "h \<noteq> []"
    using assms by (auto simp: validate_resourceful_checkpoint_history_v4_def split: option.splits)
  then show "history (rev h)" "target = last h" "h \<noteq> []" by (auto intro: replay_history_history)
qed

text \<open>The parts of the validator, by name.\<close>

lemma bundle_checks:
  assumes "validate_durable_remote_parse_evidence_bundle_v4 I = Inr ()"
  shows "check_bundle_reservation (bi_checkpoint I) (bi_reservation I) = Inr ()"
    and "check_evidence_set (bi_checkpoint I) (bi_evidence I) = Inr ()"
    and "check_history I (bundle_values_of (bi_evidence I)) = Inr ()"
    and "check_plan I (bundle_values_of (bi_evidence I)) = Inr ()"
    and "check_cleanup I (bundle_values_of (bi_evidence I)) = Inr ()"
    and "check_ack I (bundle_values_of (bi_evidence I)) = Inr ()"
    and "check_final (bi_checkpoint I) (bi_evidence I) (bundle_values_of (bi_evidence I)) = Inr ()"
    and "check_credit (bi_checkpoint I) (bundle_values_of (bi_evidence I)) = Inr ()"
  using assms by (simp_all add: validate_durable_remote_parse_evidence_bundle_v4_def Let_def)

lemma checked_history:
  assumes "check_history I b = Inr ()" and "\<not> resource_free (bi_checkpoint I)"
  obtains h where "bi_history I = Some h" "history (rev h)" "h \<noteq> []"
    "history_target I b = Inr (last h)"
proof -
  obtain target h R where target: "history_target I b = Inr target" and h: "bi_history I = Some h"
      and v: "validate_resourceful_checkpoint_history_v4 h target R = Inr ()"
    using assms
    by (cases "bi_history I"; cases "bi_reservation I"; cases "bv_preparation b") (auto simp: check_history_def)
  from validated_history [OF v] that [OF h] target show thesis by blast
qed

lemma checked_cleanup:
  assumes "check_cleanup I b = Inr ()" and "bv_cleanup b \<noteq> None" and "bi_cleanup_source I = Some s"
    and "history (s # h)"
  obtains q where "bi_cleanup_pending I = Some q" "history (q # s # h)"
proof -
  obtain t p q where q: "bi_cleanup_pending I = Some q" and "check_pending t p s q = Inr ()"
    using assms(1-3) by (auto simp: check_cleanup_def Let_def split: option.splits)
  then have "expected_cleanup_pending s p = Inr q" by (auto simp: check_pending_def)
  then obtain credit us where "advance_remote_parse_checkpoint_v4 s Cleanup_pending credit us = Inr q"
    by (auto simp: expected_cleanup_pending_def)
  from that [OF q history.advanced [OF assms(4) this]] show thesis .
qed

lemma checked_ack:
  assumes "check_ack I b = Inr ()" and "bv_ack b \<noteq> None" and "bi_cleanup_pending I = Some q"
    and "history (q # h)"
  obtains k where "bi_ack_pending I = Some k" "history (bi_checkpoint I # k # q # h)"
proof -
  obtain a p t rec k where k: "bi_ack_pending I = Some k" and chain: "check_ack_chain I b rec a p t q k = Inr ()"
    using assms(1-3) by (auto simp: check_ack_def split: option.splits)
  obtain c1 u1 s2 c2 u2 where "advance_remote_parse_checkpoint_v4 q Ack_pending c1 u1 = Inr k"
      and "advance_remote_parse_checkpoint_v4 k s2 c2 u2 = Inr (bi_checkpoint I)"
    using chain by (auto simp: check_ack_chain_def)
  then have "history (bi_checkpoint I # k # q # h)"
    using assms(4) by (blast intro: history.advanced)
  with that [OF k] show thesis .
qed

subsection \<open>Properties\<close>

text \<open>C31: An accepted bundle proves where its checkpoint comes from. When the durable validator accepts the
  evidence of a resourceful attempt, the checkpoints given as history are a lawful history from a
  first record (each one the result of the transition function on the one before). Without a cleanup plan the
  checkpoint itself is the last of them; with a plan, the last is the exact source of the cleanup; with a cleanup
  receipt, the cleanup-pending checkpoint continues that history; and with an acknowledgement, the whole
  chain up to the checkpoint itself is lawful.\<close>

theorem accepted_bundle_replays:
  assumes "validate_durable_remote_parse_evidence_bundle_v4 I = Inr ()"
    and "encoded_items (bi_evidence I)" and "\<not> resource_free (bi_checkpoint I)"
  shows "\<exists>h s. bi_history I = Some (h @ [s]) \<and> history (s # rev h)
    \<and> (if \<not> has (bi_checkpoint I) Cleanup_plan then s = bi_checkpoint I
       else bi_cleanup_source I = Some s
         \<and> (has (bi_checkpoint I) Cleanup_receipt \<longrightarrow>
             (\<exists>q. bi_cleanup_pending I = Some q \<and> history (q # s # rev h)
               \<and> (has (bi_checkpoint I) Ack_receipt \<longrightarrow>
                   (\<exists>k. bi_ack_pending I = Some k \<and> history (bi_checkpoint I # k # q # s # rev h))))))"
proof -
  let ?c = "bi_checkpoint I" and ?b = "bundle_values_of (bi_evidence I)"
  note checked = bundle_checks [OF assms(1)]
  note present = present_iff [OF checked(2)] and typed = bundle_present [OF assms(2)]
  have plan: "has ?c Cleanup_plan \<longleftrightarrow> bv_plan ?b \<noteq> None" and cleanup: "has ?c Cleanup_receipt \<longleftrightarrow> bv_cleanup ?b \<noteq> None"
    and ack: "has ?c Ack_receipt \<longleftrightarrow> bv_ack ?b \<noteq> None"
    using present [of Plan_kind] present [of Cleanup_kind] present [of Ack_kind] typed by simp_all
  obtain h' where h': "bi_history I = Some h'" "history (rev h')" "h' \<noteq> []" and target: "history_target I ?b = Inr (last h')"
    using checked_history [OF checked(3) assms(3)] .
  obtain h s where hs: "h' = h @ [s]" using h'(3) by (cases h' rule: rev_exhaust) auto
  have lawful: "history (s # rev h)" using h'(2) by (simp add: hs)
  show ?thesis
  proof (intro exI conjI)
    show "bi_history I = Some (h @ [s])" using h'(1) by (simp add: hs)
    show "history (s # rev h)" by (rule lawful)
    show "if \<not> has ?c Cleanup_plan then s = ?c
       else bi_cleanup_source I = Some s \<and> (has ?c Cleanup_receipt \<longrightarrow>
             (\<exists>q. bi_cleanup_pending I = Some q \<and> history (q # s # rev h) \<and> (has ?c Ack_receipt \<longrightarrow>
                   (\<exists>k. bi_ack_pending I = Some k \<and> history (?c # k # q # s # rev h)))))"
    proof (cases "bv_plan ?b")
      case None
      with target plan show ?thesis by (simp add: history_target_def hs)
    next
      case (Some p)
      then have source: "bi_cleanup_source I = Some s"
        using target by (simp add: history_target_def hs split: option.splits)
      have "\<exists>q. bi_cleanup_pending I = Some q \<and> history (q # s # rev h) \<and> (has ?c Ack_receipt \<longrightarrow>
          (\<exists>k. bi_ack_pending I = Some k \<and> history (?c # k # q # s # rev h)))" if receipt: "has ?c Cleanup_receipt"
      proof -
        obtain q where q: "bi_cleanup_pending I = Some q" "history (q # s # rev h)"
          using checked_cleanup [OF checked(5) _ source lawful] receipt cleanup by blast
        with checked_ack [OF checked(6) _ q] ack show ?thesis by blast
      qed
      with Some plan source show ?thesis by simp
    qed
  qed
qed

end
