(* ===== verification/ReservationCodec.thy ===== *)
theory ReservationCodec
  imports CheckpointCodec Reservation ResourceCreditEnvelope
begin

text \<open>
  The decoders of what an attempt is prepared with: \<open>decode_resource_reservation_input\<close> of
  \<open>application/contracts/staged_resource_credit.py\<close> and \<open>decode_resource_reservation_v4\<close> of
  \<open>application/contracts/remote_parse_lifecycle_v4.py\<close>.
\<close>

lemma bucket_name_inject: "bucket_name a = bucket_name b \<longleftrightarrow> a = b"
  by (cases a; cases b) simp_all

lemma as_bucket_of [simp]: "as_enum bucket_name (map fst buckets) msg (PStr (cps (bucket_name b))) = Inr b"
proof (rule as_enum_of)
  show "b \<in> set (map fst buckets)" by (cases b) (simp_all add: buckets_def)
qed (simp add: bucket_name_inject)

subsection \<open>The reservation input\<close>

definition RESERVATION_INPUT_FIELDS :: "string list" where
  "RESERVATION_INPUT_FIELDS =
     [''source_pdf_sha256'', ''source_byte_count'', ''source_page_count'',
      ''process_profile_sha256'', ''credit_policy_sha256'', ''bucket'', ''reservation'',
      ''contract_version'']"

definition reservation_input_of_obj :: "obj \<Rightarrow> resource_credit_vector \<Rightarrow> resource_reservation_input res" where
  "reservation_input_of_obj d credit =
     bindR (get d ''source_pdf_sha256'' as_str) (\<lambda>x1.
     bindR (get d ''source_byte_count'' as_int) (\<lambda>x2.
     bindR (get d ''source_page_count'' as_int) (\<lambda>x3.
     bindR (get d ''process_profile_sha256'' as_str) (\<lambda>x4.
     bindR (get d ''credit_policy_sha256'' as_str) (\<lambda>x5.
     bindR (get d ''bucket'' (as_enum bucket_name (map fst buckets) ''resource reservation bucket is unsupported'')) (\<lambda>x6.
     bindR (get d ''contract_version'' as_str) (\<lambda>x8.
       mk_reservation_input
         \<lparr>ri_source_pdf_sha256 = x1, ri_source_byte_count = x2, ri_source_page_count = x3,
          ri_process_profile_sha256 = x4, ri_credit_policy_sha256 = x5, ri_bucket = x6,
          ri_reservation = credit, ri_contract_version = x8\<rparr>)))))))"

text \<open>
  The decoder of the credit module has messages of its own. Its \<open>get("reservation")\<close> cannot miss, because
  the fields are closed before.
\<close>

definition read_credit_object :: "string \<Rightarrow> obj res" where
  "read_credit_object exact =
     bindR (require (1 \<le> length exact \<and> length exact \<le> MAX_CANONICAL_BYTES)
       ''resource reservation bytes are outside the envelope'') (\<lambda>_.
     bindR (strict_json_loads exact) (\<lambda>v. case v of
         PDict d \<Rightarrow> Inr d
       | _ \<Rightarrow> Inl (ValueError ''resource reservation fields are not closed'')))"

definition decode_resource_reservation_input :: "string \<Rightarrow> encoded_reservation_input res" where
  "decode_resource_reservation_input exact =
     bindR (read_credit_object exact) (\<lambda>d.
     bindR (closed d RESERVATION_INPUT_FIELDS ''resource reservation'') (\<lambda>_.
     bindR (get d ''reservation'' (\<lambda>v. case v of
         PDict nested \<Rightarrow> if set (map fst nested) = set (map cps RCV_FIELDS) then Inr nested
           else Inl (ValueError ''resource reservation credit vector is not closed'')
       | _ \<Rightarrow> Inl (ValueError ''resource reservation credit vector is not closed''))) (\<lambda>nested.
     bindR (rcv_of_obj nested) (\<lambda>credit.
     bindR (reservation_input_of_obj d credit) (\<lambda>value.
     bindR (encode_resource_reservation_input value) (\<lambda>encoded.
     bindR (require (eri_exact_bytes encoded = exact) ''resource reservation JSON is not canonical'') (\<lambda>_.
       Inr encoded)))))))"

subsection \<open>The reservation\<close>

definition RESERVATION_FIELDS :: "string list" where
  "RESERVATION_FIELDS =
     [''attempt_id'', ''fence_identity'', ''document_id'', ''processing_run_id'',
      ''attempt_generation'', ''source_pdf_sha256'', ''source_byte_count'',
      ''source_page_count'', ''prepared_submission_identity_sha256'', ''request_sha256'',
      ''runtime_epoch_sha256'', ''process_profile_sha256'', ''credit_policy_sha256'',
      ''reservation_bucket'', ''reservation_input_sha256'', ''snapshot_relpath'',
      ''snapshot_part_relpath'', ''snapshot_part_owner_relpath'', ''snapshot_lock_relpath'',
      ''reserved_credit'', ''contract_version'']"

definition reservation_of_obj :: "obj \<Rightarrow> resource_credit_vector \<Rightarrow> resource_reservation res" where
  "reservation_of_obj d credit =
     bindR (get_identity d) (\<lambda>who.
     bindR (get d ''attempt_generation'' as_int) (\<lambda>x1.
     bindR (get d ''source_pdf_sha256'' as_str) (\<lambda>x2.
     bindR (get d ''source_byte_count'' as_int) (\<lambda>x3.
     bindR (get d ''source_page_count'' as_int) (\<lambda>x4.
     bindR (get d ''prepared_submission_identity_sha256'' as_str) (\<lambda>x5.
     bindR (get d ''request_sha256'' as_str) (\<lambda>x6.
     bindR (get d ''runtime_epoch_sha256'' as_str) (\<lambda>x7.
     bindR (get d ''process_profile_sha256'' as_str) (\<lambda>x8.
     bindR (get d ''credit_policy_sha256'' as_str) (\<lambda>x9.
     bindR (get d ''reservation_bucket'' (as_enum bucket_name (map fst buckets) ''resource reservation bucket is unsupported'')) (\<lambda>x10.
     bindR (get d ''reservation_input_sha256'' as_str) (\<lambda>x11.
     bindR (get d ''snapshot_relpath'' as_str) (\<lambda>x12.
     bindR (get d ''snapshot_part_relpath'' as_str) (\<lambda>x13.
     bindR (get d ''snapshot_part_owner_relpath'' as_str) (\<lambda>x14.
     bindR (get d ''snapshot_lock_relpath'' as_str) (\<lambda>x15.
     bindR (get d ''contract_version'' as_str) (\<lambda>x17.
       mk_reservation (attempt_identity.extend who
         \<lparr>rv_attempt_generation = x1, rv_source_pdf_sha256 = x2, rv_source_byte_count = x3,
          rv_source_page_count = x4, rv_prepared_submission_identity_sha256 = x5,
          rv_request_sha256 = x6, rv_runtime_epoch_sha256 = x7, rv_process_profile_sha256 = x8,
          rv_credit_policy_sha256 = x9, rv_reservation_bucket = x10,
          rv_reservation_input_sha256 = x11, rv_snapshot_relpath = x12,
          rv_snapshot_part_relpath = x13, rv_snapshot_part_owner_relpath = x14,
          rv_snapshot_lock_relpath = x15, rv_reserved_credit = credit,
          rv_contract_version = x17\<rparr>))))))))))))))))))"

definition build_reservation :: "obj \<Rightarrow> resource_reservation res" where
  "build_reservation d =
     bindR (get_rcv d ''reserved_credit'' ''reserved credit'') (\<lambda>credit. reservation_of_obj d credit)"

definition decode_resource_reservation_v4 :: "string \<Rightarrow> resource_reservation res" where
  "decode_resource_reservation_v4 =
     decode_record reservation_payload RESERVATION_FIELDS ''ResourceReservationV4'' build_reservation"

subsection \<open>Decoding inverts encoding\<close>

definition valid_reservation :: "resource_reservation \<Rightarrow> bool" where
  "valid_reservation r = (reservation_post_init r = Inr ())"

lemma mk_reservation_Inr [simp]: "mk_reservation r = Inr s \<longleftrightarrow> valid_reservation r \<and> s = r"
  by (simp add: mk_reservation_def valid_reservation_def)

lemma reservation_parts:
  assumes "valid_reservation r"
  shows "check_reservation_facts r = Inr ()" and "valid_rcv (rv_reserved_credit r)"
  using assms by (simp_all add: valid_reservation_def reservation_post_init_def check_reservation_facts_def valid_rcv_def)

lemma build_reservation_members:
  assumes "valid_reservation r"
  shows "build_reservation (obj_of (members_of (reservation_payload r))) = Inr r"
proof -
  define kvs where "kvs = members_of (reservation_payload r)"
  have dist: "distinct (map fst kvs)"
    unfolding kvs_def by (simp add: reservation_payload_def identity_members_def)
  have who: "get_identity (obj_of kvs) = Inr (attempt_identity.truncate r)"
    by (rule get_identity_of [OF dist]) (auto simp: kvs_def reservation_payload_def)
  have credit: "get_rcv (obj_of kvs) ''reserved_credit'' ''reserved credit'' = Inr (rv_reserved_credit r)"
    by (rule get_rcv_of [OF dist])
       (use reservation_parts [OF assms] in \<open>simp_all add: kvs_def reservation_payload_def identity_members_def\<close>)
  have "list_all (\<lambda>kv. attr (obj_of kvs) (fst kv) = Some (pyval_of (snd kv))) (members_of (reservation_payload r))"
    by (rule attrs_obj_of [OF kvs_def]) (use dist in \<open>simp only: kvs_def\<close>)
  then have "reservation_of_obj (obj_of kvs) (rv_reserved_credit r) = mk_reservation r"
    using who
    by (cases r) (simp add: reservation_payload_def reservation_of_obj_def get_attr attempt_identity.defs)
  with credit assms show ?thesis by (simp add: kvs_def build_reservation_def)
qed

lemma json_ok_reservation:
  assumes "valid_reservation r"
  shows "json_ok (reservation_payload r)"
proof -
  note parts = reservation_parts(1) [OF assms, unfolded check_reservation_facts_def checks_Cons_Inr]
  have "int_digits (rv_attempt_generation r) \<le> MAX_STR_DIGITS"
    "int_digits (rv_source_byte_count r) \<le> MAX_STR_DIGITS"
    "int_digits (rv_source_page_count r) \<le> MAX_STR_DIGITS"
    using parts by (auto intro!: int_digits_bounded)
  then show ?thesis
    using json_ok_rcv [OF reservation_parts(2) [OF assms]]
    by (simp add: reservation_payload_def identity_members_def)
qed

lemma reservation_fields: "set (map fst (members_of (reservation_payload r))) = set RESERVATION_FIELDS"
  by (auto simp: reservation_payload_def identity_members_def RESERVATION_FIELDS_def)

interpretation reservation: codec
  "\<lambda>r. lifecycle_json (reservation_payload r)" decode_resource_reservation_v4 valid_reservation
  unfolding decode_resource_reservation_v4_def
proof (rule codec_record)
  show "reservation_payload r = JObj (members_of (reservation_payload r))" for r
    by (simp add: reservation_payload_def)
  show "valid_reservation r" if "build_reservation d = Inr r" for d r
    using that by (auto simp: build_reservation_def reservation_of_obj_def)
qed (simp_all only: reservation_fields json_ok_reservation build_reservation_members)

lemma reservation_input_parts:
  assumes "reservation_input_post_init r = Inr ()"
  shows "valid_rcv (ri_reservation r)" and "int_digits (ri_source_byte_count r) \<le> MAX_STR_DIGITS"
    and "int_digits (ri_source_page_count r) \<le> MAX_STR_DIGITS"
  using assms by (auto simp: reservation_input_post_init_def valid_rcv_def intro!: int_digits_bounded)

lemma reservation_input_of_obj_members:
  assumes "reservation_input_post_init r = Inr ()"
  shows "reservation_input_of_obj (obj_of (members_of (reservation_input_payload r))) (ri_reservation r) = Inr r"
proof -
  define kvs where "kvs = members_of (reservation_input_payload r)"
  have "list_all (\<lambda>kv. attr (obj_of kvs) (fst kv) = Some (pyval_of (snd kv))) (members_of (reservation_input_payload r))"
    by (rule attrs_obj_of [OF kvs_def]) (simp add: reservation_input_payload_def)
  then have "reservation_input_of_obj (obj_of kvs) (ri_reservation r) = mk_reservation_input r"
    by (cases r) (simp add: reservation_input_payload_def reservation_input_of_obj_def get_attr)
  with assms show ?thesis by (simp add: kvs_def mk_reservation_input_def construct_def)
qed

lemma read_credit_object_of:
  assumes "reservation_input_post_init r = Inr ()"
  shows "read_credit_object (json_bytes (reservation_input_payload r))
    = Inr (obj_of (members_of (reservation_input_payload r)))"
proof -
  let ?j = "reservation_input_payload r"
  have "json_ok ?j"
    using json_ok_rcv [OF reservation_input_parts(1) [OF assms]] reservation_input_parts [OF assms]
    by (simp add: reservation_input_payload_def)
  then have "strict_json_loads (json_bytes ?j) = Inr (PDict (obj_of (members_of ?j)))"
    by (simp add: loads_dumps reservation_input_payload_def pyval_of_object del: pyval_of.simps)
  moreover have "length (json_bytes ?j) \<le> MAX_CANONICAL_BYTES"
    using canonical_json_total [OF reservation_input_bound [OF assms]] unfolding canonical_json_Inr by blast
  ultimately show ?thesis
    using json_bytes_nonempty [of ?j] by (simp add: read_credit_object_def require_def)
qed

text \<open>An encoded input that the module can produce.\<close>

definition valid_encoded_input :: "encoded_reservation_input \<Rightarrow> bool" where
  "valid_encoded_input e \<longleftrightarrow> reservation_input_post_init (eri_value e) = Inr ()
     \<and> encode_resource_reservation_input (eri_value e) = Inr e"

lemma decode_reservation_input_of:
  assumes "valid_encoded_input e"
  shows "decode_resource_reservation_input (eri_exact_bytes e) = Inr e"
proof -
  let ?r = "eri_value e"
  let ?kvs = "members_of (reservation_input_payload ?r)"
  have r: "reservation_input_post_init ?r = Inr ()" and e: "encode_resource_reservation_input ?r = Inr e"
    using assms by (simp_all add: valid_encoded_input_def)
  have bytes: "eri_exact_bytes e = json_bytes (reservation_input_payload ?r)"
    using encode_reservation_input_total [OF r] e by (auto dest: arg_cong [of _ _ eri_exact_bytes])
  have dist: "distinct (map fst ?kvs)" by (simp add: reservation_input_payload_def)
  have "attr (obj_of ?kvs) ''reservation'' = Some (pyval_of (rcv_json (ri_reservation ?r)))"
    by (rule attr_member [OF dist]) (simp add: reservation_input_payload_def)
  then have nested: "attr (obj_of ?kvs) ''reservation'' = Some (PDict (obj_of (rcv_members (ri_reservation ?r))))"
    by (simp add: rcv_json_def pyval_of_object del: pyval_of.simps)
  have keys: "set (map fst (obj_of (rcv_members (ri_reservation ?r)))) = set (map cps RCV_FIELDS)"
    using closed_rcv_members [of "ri_reservation ?r" "[]"] unfolding closed_def require_Inr .
  have fields: "closed (obj_of ?kvs) RESERVATION_INPUT_FIELDS ''resource reservation'' = Inr ()"
    unfolding closed_obj_of by (auto simp: reservation_input_payload_def RESERVATION_INPUT_FIELDS_def)
  show ?thesis
    using keys fields rcv_of_obj_members [OF reservation_input_parts(1) [OF r]]
      reservation_input_of_obj_members [OF r] e
    by (simp add: decode_resource_reservation_input_def bytes [symmetric] read_credit_object_of [OF r, folded bytes]
        get_attr [OF nested] del: set_map)
qed

interpretation reservation_input: codec
  "\<lambda>e. Inr (eri_exact_bytes e)" decode_resource_reservation_input valid_encoded_input
proof
  show "decode_resource_reservation_input bs = Inr e"
    if "valid_encoded_input e" "(Inr (eri_exact_bytes e) :: string res) = Inr bs" for e bs
    using decode_reservation_input_of [OF that(1)] that(2) by simp
  show "valid_encoded_input e \<and> (Inr (eri_exact_bytes e) :: string res) = Inr bs"
    if decoded: "decode_resource_reservation_input bs = Inr e" for bs e
  proof -
    obtain d credit v where v: "reservation_input_of_obj d credit = Inr v"
        "encode_resource_reservation_input v = Inr e" "eri_exact_bytes e = bs"
      using decoded by (auto simp: decode_resource_reservation_input_def)
    have "reservation_input_post_init v = Inr ()"
      using v(1) by (auto simp: reservation_input_of_obj_def mk_reservation_input_def)
    moreover have "eri_value e = v"
      using v(2) by (auto simp: encode_resource_reservation_input_def mk_encoded_reservation_input_def)
    ultimately show ?thesis using v(2,3) by (simp add: valid_encoded_input_def)
  qed
qed

end
