(* ===== verification/ManifestCodec.thy ===== *)
theory ManifestCodec
  imports CheckpointCodec MaterializationManifest
begin

text \<open>
  \<open>decode_local_materialization_manifest_v4\<close> of \<open>application/contracts/local_materialization_manifest_v4.py\<close>.
\<close>

definition mk_payload_file :: "payload_file \<Rightarrow> payload_file res" where
  "mk_payload_file f = construct (payload_file_post_init f) f"

definition mk_observations :: "observations \<Rightarrow> observations res" where
  "mk_observations v = construct (observations_post_init v) v"

definition mk_manifest :: "materialization_manifest \<Rightarrow> materialization_manifest res" where
  "mk_manifest m = construct (manifest_post_init m) m"

definition PAYLOAD_FILE_FIELDS :: "string list" where
  "PAYLOAD_FILE_FIELDS =
     [''role'', ''relpath'', ''sha256'', ''byte_count'']"

definition payload_file_of_obj :: "obj \<Rightarrow> payload_file res" where
  "payload_file_of_obj d =
     bindR (get d ''role'' (as_enum role_name [Provider_envelope, Parser_artifact] ''materialization payload file role is unsupported'')) (\<lambda>x1.
     bindR (get d ''relpath'' as_str) (\<lambda>x2.
     bindR (get d ''sha256'' as_str) (\<lambda>x3.
     bindR (get d ''byte_count'' as_int) (\<lambda>x4.
       mk_payload_file
         \<lparr>pf_role = x1, pf_relpath = x2, pf_sha256 = x3, pf_byte_count = x4\<rparr>))))"

definition OBSERVATIONS_FIELDS :: "string list" where
  "OBSERVATIONS_FIELDS =
     [''member_count'', ''uncompressed_byte_count'', ''decoded_byte_count'',
      ''temporary_disk_peak_byte_count'', ''output_file_count'', ''output_byte_count'']"

definition observations_of_obj :: "obj \<Rightarrow> observations res" where
  "observations_of_obj d =
     bindR (get d ''member_count'' as_int) (\<lambda>x1.
     bindR (get d ''uncompressed_byte_count'' as_int) (\<lambda>x2.
     bindR (get d ''decoded_byte_count'' as_int) (\<lambda>x3.
     bindR (get d ''temporary_disk_peak_byte_count'' as_int) (\<lambda>x4.
     bindR (get d ''output_file_count'' as_int) (\<lambda>x5.
     bindR (get d ''output_byte_count'' as_int) (\<lambda>x6.
       mk_observations
         \<lparr>ob_member_count = x1, ob_uncompressed_byte_count = x2, ob_decoded_byte_count = x3,
          ob_temporary_disk_peak_byte_count = x4, ob_output_file_count = x5,
          ob_output_byte_count = x6\<rparr>))))))"

definition MANIFEST_FIELDS :: "string list" where
  "MANIFEST_FIELDS =
     [''attempt_id'', ''fence_identity'', ''document_id'', ''processing_run_id'',
      ''materialization_intent_sha256'', ''terminal_receipt_sha256'', ''remote_task_identity'',
      ''artifact_owner_identity'', ''artifact_sha256'', ''artifact_byte_count'',
      ''source_pdf_sha256'', ''source_page_count'', ''parser_target_sha256'', ''spool_relpath'',
      ''output_relpath'', ''provider_envelope_relpath'', ''provider_envelope_sha256'',
      ''provider_envelope_byte_count'', ''observations'', ''payload_files'', ''schema'']"

definition manifest_of_obj :: "obj \<Rightarrow> observations \<Rightarrow> payload_file list \<Rightarrow> materialization_manifest res" where
  "manifest_of_obj d observed files =
     bindR (get_identity d) (\<lambda>who.
     bindR (get d ''materialization_intent_sha256'' as_str) (\<lambda>x1.
     bindR (get d ''terminal_receipt_sha256'' as_str) (\<lambda>x2.
     bindR (get d ''remote_task_identity'' as_str) (\<lambda>x3.
     bindR (get d ''artifact_owner_identity'' as_str) (\<lambda>x4.
     bindR (get d ''artifact_sha256'' as_str) (\<lambda>x5.
     bindR (get d ''artifact_byte_count'' as_int) (\<lambda>x6.
     bindR (get d ''source_pdf_sha256'' as_str) (\<lambda>x7.
     bindR (get d ''source_page_count'' as_int) (\<lambda>x8.
     bindR (get d ''parser_target_sha256'' as_str) (\<lambda>x9.
     bindR (get d ''spool_relpath'' as_str) (\<lambda>x10.
     bindR (get d ''output_relpath'' as_str) (\<lambda>x11.
     bindR (get d ''provider_envelope_relpath'' as_str) (\<lambda>x12.
     bindR (get d ''provider_envelope_sha256'' as_str) (\<lambda>x13.
     bindR (get d ''provider_envelope_byte_count'' as_int) (\<lambda>x14.
     bindR (get d ''schema'' as_str) (\<lambda>x17.
       mk_manifest (attempt_identity.extend who
         \<lparr>mm_materialization_intent_sha256 = x1, mm_terminal_receipt_sha256 = x2,
          mm_remote_task_identity = x3, mm_artifact_owner_identity = x4,
          mm_artifact_sha256 = x5, mm_artifact_byte_count = x6, mm_source_pdf_sha256 = x7,
          mm_source_page_count = x8, mm_parser_target_sha256 = x9, mm_spool_relpath = x10,
          mm_output_relpath = x11, mm_provider_envelope_relpath = x12,
          mm_provider_envelope_sha256 = x13, mm_provider_envelope_byte_count = x14,
          mm_observations = observed, mm_payload_files = files, mm_schema = x17\<rparr>)))))))))))))))))"

text \<open>The decoder of this module, with its own messages.\<close>

definition read_manifest_object :: "string \<Rightarrow> obj res" where
  "read_manifest_object exact =
     bindR (require (1 \<le> length exact \<and> length exact \<le> MAX_BYTES)
       ''local materialization manifest bytes are outside the envelope'') (\<lambda>_.
     bindR (strict_json_loads exact) (as_mapping ''local materialization manifest''))"

fun decode_payload_files :: "pyval list \<Rightarrow> payload_file list res" where
  "decode_payload_files [] = Inr []"
| "decode_payload_files (v # vs) =
     bindR (as_mapping ''materialization payload file'' v) (\<lambda>d.
     bindR (closed d PAYLOAD_FILE_FIELDS ''LocalMaterializationPayloadFileV4'') (\<lambda>_.
     bindR (payload_file_of_obj d) (\<lambda>f.
     bindR (decode_payload_files vs) (\<lambda>fs. Inr (f # fs)))))"

definition decode_local_materialization_manifest_v4 :: "string \<Rightarrow> materialization_manifest res" where
  "decode_local_materialization_manifest_v4 exact =
     bindR (read_manifest_object exact) (\<lambda>root.
     bindR (closed root MANIFEST_FIELDS ''LocalMaterializationManifestV4'') (\<lambda>_.
     bindR (get root ''observations'' (as_mapping ''materialization observations'')) (\<lambda>raw_observations.
     bindR (closed raw_observations OBSERVATIONS_FIELDS ''LocalMaterializationObservationsV4'') (\<lambda>_.
     bindR (get root ''payload_files'' (\<lambda>v. case v of
         PList raw_files \<Rightarrow> decode_payload_files raw_files
       | _ \<Rightarrow> Inl (ValueError ''materialization payload files must be an array''))) (\<lambda>files.
     bindR (observations_of_obj raw_observations) (\<lambda>observed.
     bindR (manifest_of_obj root observed files) (\<lambda>m.
     bindR (manifest_canonical_bytes m) (\<lambda>bytes.
     bindR (require (bytes = exact) ''local materialization manifest JSON is not canonical'') (\<lambda>_.
       Inr m)))))))))"

subsection \<open>Decoding inverts encoding\<close>

definition valid_manifest :: "materialization_manifest \<Rightarrow> bool" where
  "valid_manifest m = (manifest_post_init m = Inr ())"

lemma manifest_parts:
  assumes "valid_manifest m"
  shows "check_manifest_facts m = Inr ()" and "observations_post_init (mm_observations m) = Inr ()"
    and "\<And>f. f \<in> set (mm_payload_files m) \<Longrightarrow> payload_file_post_init f = Inr ()"
  using assms
  by (simp_all add: valid_manifest_def manifest_post_init_def check_manifest_facts_def
      check_payload_files_def Let_def)

lemma role_name_inject: "role_name a = role_name b \<longleftrightarrow> a = b"
  by (cases a; cases b) simp_all

lemma as_role_of [simp]: "as_enum role_name [Provider_envelope, Parser_artifact] msg (PStr (cps (role_name a))) = Inr a"
proof (rule as_enum_of)
  show "a \<in> set [Provider_envelope, Parser_artifact]" by (cases a) simp_all
qed (simp add: role_name_inject)

lemma payload_file_of_obj_members:
  assumes "payload_file_post_init f = Inr ()"
  shows "payload_file_of_obj (obj_of (members_of (payload_file_json f))) = Inr f"
proof -
  define kvs where "kvs = members_of (payload_file_json f)"
  have "list_all (\<lambda>kv. attr (obj_of kvs) (fst kv) = Some (pyval_of (snd kv))) (members_of (payload_file_json f))"
    by (rule attrs_obj_of [OF kvs_def]) (simp add: payload_file_json_def)
  then have "payload_file_of_obj (obj_of kvs) = mk_payload_file f"
    by (cases f) (simp add: payload_file_json_def payload_file_of_obj_def get_attr)
  with assms show ?thesis by (simp add: kvs_def mk_payload_file_def construct_def)
qed

lemma observations_of_obj_members:
  assumes "observations_post_init v = Inr ()"
  shows "observations_of_obj (obj_of (members_of (observations_json v))) = Inr v"
proof -
  define kvs where "kvs = members_of (observations_json v)"
  have "list_all (\<lambda>kv. attr (obj_of kvs) (fst kv) = Some (pyval_of (snd kv))) (members_of (observations_json v))"
    by (rule attrs_obj_of [OF kvs_def]) (simp add: observations_json_def)
  then have "observations_of_obj (obj_of kvs) = mk_observations v"
    by (cases v) (simp add: observations_json_def observations_of_obj_def get_attr)
  with assms show ?thesis by (simp add: kvs_def mk_observations_def construct_def)
qed

lemma decode_payload_files_of:
  assumes "\<And>f. f \<in> set fs \<Longrightarrow> payload_file_post_init f = Inr ()"
  shows "decode_payload_files (map (\<lambda>f. pyval_of (payload_file_json f)) fs) = Inr fs"
  using assms
proof (induction fs)
  case (Cons f fs)
  have "pyval_of (payload_file_json f) = PDict (obj_of (members_of (payload_file_json f)))"
    unfolding payload_file_json_def members_of.simps by (rule pyval_of_object)
  moreover have "closed (obj_of (members_of (payload_file_json f))) PAYLOAD_FILE_FIELDS
      ''LocalMaterializationPayloadFileV4'' = Inr ()"
    by (rule closed_members) (simp add: payload_file_json_def PAYLOAD_FILE_FIELDS_def)
  ultimately show ?case
    using Cons payload_file_of_obj_members [of f] by simp
qed simp


lemma payload_file_json_ok:
  "payload_file_post_init f = Inr () \<Longrightarrow> json_ok (payload_file_json f)"
  by (auto simp: payload_file_json_def payload_file_post_init_def intro: int_digits_range)

lemma observations_json_ok:
  "observations_post_init v = Inr () \<Longrightarrow> json_ok (observations_json v)"
  by (auto simp: observations_json_def observations_post_init_def intro: int_digits_bounded)

lemma json_ok_manifest:
  assumes "valid_manifest m"
  shows "json_ok (manifest_payload m)"
proof -
  note parts = manifest_parts(1) [OF assms, unfolded check_manifest_facts_def checks_Cons_Inr]
  have "int_digits (mm_artifact_byte_count m) \<le> MAX_STR_DIGITS"
    "int_digits (mm_source_page_count m) \<le> MAX_STR_DIGITS"
    "int_digits (mm_provider_envelope_byte_count m) \<le> MAX_STR_DIGITS"
    using parts by (auto intro!: int_digits_bounded)
  moreover have "list_all json_ok (map payload_file_json (mm_payload_files m))"
    using payload_file_json_ok manifest_parts(3) [OF assms] by (simp add: list_all_iff)
  ultimately show ?thesis
    using observations_json_ok [OF manifest_parts(2) [OF assms]]
    by (simp add: manifest_payload_def identity_members_def)
qed

lemma manifest_of_obj_members:
  assumes "valid_manifest m"
  shows "manifest_of_obj (obj_of (members_of (manifest_payload m))) (mm_observations m) (mm_payload_files m) = Inr m"
proof -
  define kvs where "kvs = members_of (manifest_payload m)"
  have dist: "distinct (map fst kvs)"
    unfolding kvs_def by (simp add: manifest_payload_def identity_members_def)
  have who: "get_identity (obj_of kvs) = Inr (attempt_identity.truncate m)"
    by (rule get_identity_of [OF dist]) (auto simp: kvs_def manifest_payload_def)
  have "list_all (\<lambda>kv. attr (obj_of kvs) (fst kv) = Some (pyval_of (snd kv))) (members_of (manifest_payload m))"
    by (rule attrs_obj_of [OF kvs_def]) (use dist in \<open>simp only: kvs_def\<close>)
  then have "manifest_of_obj (obj_of kvs) (mm_observations m) (mm_payload_files m) = mk_manifest m"
    using who
    by (cases m) (simp add: manifest_payload_def manifest_of_obj_def get_attr attempt_identity.defs)
  with assms show ?thesis by (simp add: kvs_def mk_manifest_def valid_manifest_def construct_def)
qed

lemma read_manifest_object_of:
  assumes "valid_manifest m" and "manifest_canonical_bytes m = Inr bs"
  shows "read_manifest_object bs = Inr (obj_of (members_of (manifest_payload m)))"
proof -
  have bs: "bs = json_bytes (manifest_payload m)" and len: "length bs \<le> MAX_BYTES"
    using assms(2) unfolding manifest_canonical_bytes_def manifest_json_def canonical_json_Inr by blast+
  have "strict_json_loads bs = Inr (PDict (obj_of (members_of (manifest_payload m))))"
    using loads_dumps [OF json_ok_manifest [OF assms(1)]] pyval_of_object [of "members_of (manifest_payload m)"]
    unfolding bs manifest_payload_def members_of.simps by (simp only:)
  moreover have "1 \<le> length bs" unfolding bs by (rule json_bytes_nonempty)
  ultimately show ?thesis using len by (simp add: read_manifest_object_def require_def)
qed

lemma decode_manifest_of:
  assumes valid: "valid_manifest m" and bs: "manifest_canonical_bytes m = Inr bs"
  shows "decode_local_materialization_manifest_v4 bs = Inr m"
proof -
  let ?kvs = "members_of (manifest_payload m)"
  have dist: "distinct (map fst ?kvs)"
    by (simp add: manifest_payload_def identity_members_def)
  have "attr (obj_of ?kvs) ''observations'' = Some (pyval_of (observations_json (mm_observations m)))"
    by (rule attr_member [OF dist]) (simp add: manifest_payload_def)
  then have obs: "attr (obj_of ?kvs) ''observations'' = Some (PDict (obj_of (members_of (observations_json (mm_observations m)))))"
    using pyval_of_object [of "members_of (observations_json (mm_observations m))"]
    unfolding observations_json_def members_of.simps by (simp only:)
  have "attr (obj_of ?kvs) ''payload_files'' = Some (pyval_of (JArr (map payload_file_json (mm_payload_files m))))"
    by (rule attr_member [OF dist]) (simp add: manifest_payload_def)
  then have files: "attr (obj_of ?kvs) ''payload_files''
      = Some (PList (map (\<lambda>f. pyval_of (payload_file_json f)) (mm_payload_files m)))"
    by (simp add: comp_def)
  have closed: "closed (obj_of ?kvs) MANIFEST_FIELDS cls = Inr ()"
      "closed (obj_of (members_of (observations_json (mm_observations m)))) OBSERVATIONS_FIELDS cls = Inr ()" for cls
    by (rule closed_members, simp add: manifest_payload_def identity_members_def MANIFEST_FIELDS_def
        observations_json_def OBSERVATIONS_FIELDS_def)+
  show ?thesis
    using closed decode_payload_files_of [OF manifest_parts(3) [OF valid]]
      observations_of_obj_members [OF manifest_parts(2) [OF valid]] manifest_of_obj_members [OF valid] bs
    by (simp add: decode_local_materialization_manifest_v4_def read_manifest_object_of [OF valid bs]
        get_attr [OF obs] get_attr [OF files])
qed

interpretation manifest: codec manifest_canonical_bytes decode_local_materialization_manifest_v4 valid_manifest
proof
  show "decode_local_materialization_manifest_v4 bs = Inr m"
    if "valid_manifest m" "manifest_canonical_bytes m = Inr bs" for m bs
    using that by (rule decode_manifest_of)
  show "valid_manifest m \<and> manifest_canonical_bytes m = Inr bs"
    if "decode_local_materialization_manifest_v4 bs = Inr m" for m bs
    using that
    by (auto simp: decode_local_materialization_manifest_v4_def manifest_of_obj_def mk_manifest_def valid_manifest_def)
qed

end
