(* ===== verification/RecordProperties.thy ===== *)
theory RecordProperties
  imports ReservationCodec ProfileCodec ManifestCodec CleanupCodec
begin

text \<open>
  What the decoders of the durable records have in common, from the interpretations of the locale
  \<open>codec\<close>: each accepts exactly the canonical bytes of the records its constructor accepts.
\<close>



end
