(* ===== verification/CheckpointProperties.thy ===== *)
theory CheckpointProperties
  imports CheckpointLifecycle
begin

text \<open>
  The properties of the checkpoint chain of \<open>remote_parse_lifecycle_v4.py\<close>, each followed by an
  instance on a concrete attempt, and the relation between the credit a checkpoint must hold and
  the projection \<open>resource_credit_shape\<close> of \<open>staged_resource_credit.py\<close>.
\<close>

subsection \<open>Transitions\<close>

text \<open>C1: From a valid checkpoint, a transition succeeds exactly when the updates name known
  evidence without replacing any, and the record they give is valid and is an admissible
  successor: an edge of the state graph, evidence kept, only the evidence of that edge
  added, and credit unchanged on entry to cleanup. No lookup of the evidence table raises, the
  hash of the predecessor always exists, and the tests on version, predecessor, identity and
  source never fail on its result.\<close>

theorem advance_exact:
  assumes "valid_checkpoint p"
  shows "advance_remote_parse_checkpoint_v4 p s credit updates = Inr c \<longleftrightarrow>
    (\<exists>values. apply_updates updates (cp_evidence p) = Inr values
      \<and> c = successor_of p (checkpoint_digest p) s credit values
      \<and> valid_checkpoint c \<and> admissible_successor p c)"
  by (rule advance_Inr_iff [OF assms])

theorem advance_exact_witness:
  "\<exists>c. advance_remote_parse_checkpoint_v4 genesis_example Cleanup_pending
      (cp_held_resource_credit genesis_example) (drain_updates genesis_example digest_example) = Inr c
    \<and> admissible_successor genesis_example c"
proof -
  have "cp_state genesis_example \<in> set ordinary_order"
    by (simp add: genesis_example_def ordinary_order_def)
  then obtain c where "advance_remote_parse_checkpoint_v4 genesis_example Cleanup_pending
      (cp_held_resource_credit genesis_example) (drain_updates genesis_example digest_example) = Inr c"
    using drain_succeeds [OF history_example _ is_sha_digest_example] by blast
  then show ?thesis
    using advance_exact [OF valid_genesis_example] by blast
qed

text \<open>C12: For a valid predecessor, the successor test accepts a record exactly when it is linked to
  the predecessor (version plus one, its hash, its identity, generation and source facts) and
  admissible; it returns no \<open>KeyError\<close> for any pair of records.\<close>

theorem successor_test_exact:
  assumes "valid_checkpoint p"
  shows "(validate_remote_parse_checkpoint_successor_v4 p c = Inr () \<longleftrightarrow> linked p c \<and> admissible_successor p c)
    \<and> (\<forall>k. validate_remote_parse_checkpoint_successor_v4 p c \<noteq> Inl (KeyError k))"
  using successor_valid_iff [OF assms] successor_no_key [OF assms, of c] by (auto simp: no_key_def)

theorem successor_test_exact_witness:
  "validate_remote_parse_checkpoint_successor_v4 genesis_example genesis_example \<noteq> Inr ()"
  using successor_test_exact [OF valid_genesis_example, of genesis_example] by (simp add: linked_def)

text \<open>C13: The canonical bytes of every valid checkpoint stay inside the one-mebibyte envelope, so its
  bytes and its hash always exist.\<close>

theorem checkpoint_bytes_fit:
  assumes "valid_checkpoint c"
  shows "checkpoint_canonical_bytes c = Inr (json_bytes (checkpoint_payload c))
    \<and> length (json_bytes (checkpoint_payload c)) \<le> 1048576
    \<and> checkpoint_sha256 c = Inr (checkpoint_digest c)"
  using checkpoint_bytes_total [OF assms] checkpoint_sha256_total [OF assms]
  by (auto simp: checkpoint_canonical_bytes_def lifecycle_json_def canonical_json_Inr MAX_BYTES_def)

theorem checkpoint_bytes_fit_witness:
  "checkpoint_sha256 genesis_example = Inr (checkpoint_digest genesis_example)"
  using checkpoint_bytes_fit [OF valid_genesis_example] by blast

subsection \<open>Histories\<close>

text \<open>C7: Every attempt ends: a history has at most ten checkpoints, never visits a state twice,
  follows the edges of the state graph, and the lifecycle version counts its transitions, so the
  version can never leave its bounded range.\<close>

theorem history_bounded:
  assumes "history (c # h)"
  shows "length (c # h) \<le> 10 \<and> distinct (map cp_state (c # h))
    \<and> graph_path next_states (rev (map cp_state (c # h)))
    \<and> cp_lifecycle_version c = int (length h)"
proof -
  have path: "graph_path next_states (rev (map cp_state (c # h)))"
    using assms by (rule history_path)
  then have "distinct (rev (map cp_state (c # h)))" by (rule v4.path_distinct)
  then have "distinct (map cp_state (c # h))" by (simp only: distinct_rev)
  with path history_version [OF assms] history_length [OF assms] show ?thesis by simp
qed

theorem history_bounded_witness: "cp_lifecycle_version genesis_example = 0"
  using history_bounded [OF history_example] by simp

text \<open>C8: What was once recorded is never changed: along a history the identity of the attempt, its
  generation, the facts of its source and every hash already present stay the same.\<close>

theorem history_immutable:
  assumes "history (c # h)" and "q \<in> set h"
  shows "attempt_identity.truncate c = attempt_identity.truncate q
    \<and> cp_attempt_generation c = cp_attempt_generation q \<and> same_source q c
    \<and> (\<forall>e. cp_evidence q e \<noteq> None \<longrightarrow> cp_evidence c e = cp_evidence q e)"
proof -
  have "evolves q c" using history_evolves [OF assms(1)] assms(2) by simp
  then show ?thesis unfolding evolves_def has_def .
qed

theorem history_immutable_witness:
  "\<exists>c h. history (c # h) \<and> cp_state c = Acked \<and> cp_evidence c Preparation_intent = Some digest_example"
proof -
  obtain c h where c: "history (c # h)" "genesis_example \<in> set h" "cp_state c = Acked"
    by (rule acked_example)
  have "cp_evidence genesis_example Preparation_intent = Some digest_example"
    by (simp add: genesis_example_def)
  then have "cp_evidence c Preparation_intent = Some digest_example"
    using history_immutable [OF c(1,2)] by simp
  with c(1,3) show ?thesis by blast
qed

text \<open>Evidence is complete: in every checkpoint of a history each kind of evidence presupposes
  the kind before it (snapshot, submission intent, accepted submission, terminal receipt,
  materialization intent, local receipt, publication winner; plan, cleanup receipt, acknowledgement), although
  the validation of a single record demands only a part of it.\<close>

theorem history_evidence_ordered:
  assumes "history (c # h)"
  shows "(has c Submission_intent \<longrightarrow> has c Snapshot_receipt)
     \<and> (has c Accepted_submission \<longrightarrow> has c Submission_intent)
     \<and> (has c Terminal_receipt \<longrightarrow> has c Accepted_submission)
     \<and> (has c Materialization_intent \<longrightarrow> has c Terminal_receipt)
     \<and> (has c Local_materialization_receipt \<longrightarrow> has c Materialization_intent)
     \<and> (has c Publication_winner \<longrightarrow> has c Local_materialization_receipt)
     \<and> (has c Cleanup_receipt \<longrightarrow> has c Cleanup_plan)
     \<and> (has c Ack_receipt \<longrightarrow> has c Cleanup_receipt)"
  using history_ordered [OF assms] by (simp add: evidence_ordered_def)

theorem history_evidence_ordered_witness:
  "\<exists>c h. history (c # h) \<and> cp_state c = Acked \<and> has c Publication_winner \<and> has c Materialization_intent
    \<and> has c Accepted_submission \<and> has c Snapshot_receipt"
proof -
  obtain c h where c: "history (c # h)" "cp_state c = Acked"
    by (rule acked_example)
  then have "is_final (cp_state c)" "\<not> resource_free c"
    by (simp_all add: is_final_def final_states_def resource_free_def)
  from final_evidence [OF c(1) this] c(2) have "has c Publication_winner" by auto
  with history_evidence_ordered [OF c(1)] c show ?thesis by blast
qed

text \<open>C5: No accepted provider task is abandoned and no failed attempt is published. A final
  checkpoint of an attempt that owned resources has a cleanup plan and receipt; it is acknowledged exactly
  when the provider had accepted a task; \<open>acked\<close> has a publication winner and neither failure nor
  supersession evidence; the failure states have failure evidence and no winner; \<open>superseded\<close> has
  supersession evidence only.\<close>

theorem final_outcome_consistent:
  assumes "history (c # h)" and "is_final (cp_state c)" and "\<not> resource_free c"
  shows "has c Cleanup_plan \<and> has c Cleanup_receipt
    \<and> (has c Accepted_submission \<longleftrightarrow> has c Ack_receipt)
    \<and> (has c Publication_winner \<longleftrightarrow> cp_state c = Acked)
    \<and> (has c Failure_receipt \<longleftrightarrow> cp_state c \<in> {Remote_failed, Local_failed, Pre_submission_failed})
    \<and> (has c Supersession_receipt \<longleftrightarrow> cp_state c = Superseded)"
  using final_evidence [OF assms] valid_conflicts [OF history_valid [OF assms(1)]]
  by (cases "cp_state c") auto

theorem final_outcome_consistent_witness:
  "\<exists>c h. history (c # h) \<and> cp_state c = Acked \<and> has c Ack_receipt \<and> has c Publication_winner"
proof -
  obtain c h where c: "history (c # h)" "cp_state c = Acked"
    by (rule acked_example)
  then have "is_final (cp_state c)" "\<not> resource_free c"
    by (simp_all add: is_final_def final_states_def resource_free_def)
  from final_outcome_consistent [OF c(1) this] c(2)
  have "has c Publication_winner" "has c Ack_receipt = has c Accepted_submission" by auto
  moreover have "has c Accepted_submission"
    using history_ordered [OF c(1)] \<open>has c Publication_winner\<close> unfolding evidence_ordered_def by blast
  ultimately show ?thesis using c by blast
qed

text \<open>C9: A committed publication is final: once a checkpoint carries the publication winner, every later
  checkpoint of the attempt is in cleanup, waiting for acknowledgement, or acknowledged as a success;
  it can no longer fail or be superseded.\<close>

theorem publication_never_undone:
  assumes "history (c # h)" and "q \<in> set (c # h)" and "has q Publication_winner"
  shows "cp_state c \<in> {Publish_committed, Cleanup_pending, Ack_pending, Acked}
    \<and> \<not> has c Failure_receipt \<and> \<not> has c Supersession_receipt"
proof -
  have "has c Publication_winner"
    using history_evolves [OF assms(1,2)] assms(3) by (rule evolves_has)
  then show ?thesis
    using winner_states [OF assms(1)] valid_conflicts(2) [OF history_valid [OF assms(1)]] by blast
qed

theorem publication_never_undone_witness:
  "\<exists>c h. history (c # h) \<and> has c Publication_winner \<and> \<not> has c Failure_receipt"
proof -
  obtain c h where c: "history (c # h)" "cp_state c = Acked"
    by (rule acked_example)
  have "\<not> resource_free c" using c(2) by (simp add: resource_free_def)
  then have w: "has c Publication_winner"
    using valid_required [OF history_valid [OF c(1)]] c(2) by simp
  from publication_never_undone [OF c(1) _ w] c(1) w show ?thesis by auto
qed

text \<open>C10: No attempt gets stuck: from the newest checkpoint of any history a sequence of successful
  transitions leads to a final checkpoint, given one canonical hash to record as evidence.\<close>

theorem attempt_can_finish:
  assumes "history (c # h)" and "is_sha sha"
  shows "\<exists>h'. history (h' @ c # h) \<and> is_final (cp_state (hd (h' @ c # h)))"
  by (rule history_can_finish [OF assms])

theorem attempt_can_finish_witness:
  "\<exists>h'. history (h' @ [genesis_example]) \<and> is_final (cp_state (hd (h' @ [genesis_example])))"
  by (rule attempt_can_finish [OF history_example is_sha_digest_example])

text \<open>A final checkpoint is the end and holds nothing: it has no successor, and its credit is zero;
  every other valid checkpoint holds exactly one document credit.\<close>

theorem final_absorbing:
  assumes "valid_checkpoint c"
  shows "(is_final (cp_state c) \<longrightarrow> cp_held_resource_credit c = rcv_zero
      \<and> (\<forall>s credit updates. \<not> returns (advance_remote_parse_checkpoint_v4 c s credit updates)))
    \<and> documents (cp_held_resource_credit c) = (if is_final (cp_state c) then 0 else 1)"
proof -
  have "cp_held_resource_credit c = rcv_zero" if "is_final (cp_state c)"
    using assms that by (simp add: valid_checkpoint_iff checkpoint_credit_shape_def validate_credit_shape_def)
  moreover have "\<not> returns (advance_remote_parse_checkpoint_v4 c s credit updates)" if "is_final (cp_state c)" for s credit updates
    using that by (auto simp: returns_iff advance_Inr_iff [OF assms] admissible_successor_def v4.final_iff)
  ultimately show ?thesis using history_document_credit [OF assms] by blast
qed

theorem final_absorbing_witness: "documents (cp_held_resource_credit genesis_example) = 1"
  using final_absorbing [OF valid_genesis_example] by (simp add: genesis_example_def is_final_def final_states_def)

text \<open>C11: The path to success is open: from every valid first checkpoint without a snapshot receipt
  the attempt can pass through all seven working states, cleanup and acknowledgement to \<open>acked\<close>.\<close>

theorem success_reachable:
  assumes "valid_checkpoint c" and "cp_state c = Prepared" and "cp_lifecycle_version c = 0"
    and "\<not> has c Snapshot_receipt" and "is_sha sha"
  shows "\<exists>h. history (h @ [c]) \<and> map cp_state (h @ [c]) = success_states"
  by (rule success_run [OF assms])

theorem success_reachable_witness:
  "\<exists>h. history (h @ [genesis_example]) \<and> map cp_state (h @ [genesis_example]) = success_states"
  by (rule success_reachable [OF valid_genesis_example _ _ _ is_sha_digest_example])
     (simp_all add: genesis_example_def has_def)


subsection \<open>The credit of a checkpoint and the projection of its facts\<close>

text \<open>The facts persisted about an attempt agree with its checkpoint.\<close>

definition facts_match :: "resource_credit_facts \<Rightarrow> checkpoint_state \<Rightarrow> bool \<Rightarrow> int \<Rightarrow> int \<Rightarrow> bool" where
  "facts_match f s terminal bytes pages \<longleftrightarrow>
     rf_snapshot_byte_count f = bytes
     \<and> (rf_local_materialization_completed f \<longrightarrow> rf_source_page_count f = pages)
     \<and> (s = Ack_pending \<longrightarrow> (terminal \<longleftrightarrow> 1 \<le> rf_provider_result_byte_count f))"

lemma owned_valid_nonneg: "valid_rcv (owned w l t f) \<Longrightarrow> 0 \<le> provider_result_bytes (owned w l t f)"
  by (simp add: valid_rcv_fields in_range_def)

lemma ack_pending_valid: "ack_pending_vector f = Inr v \<Longrightarrow> valid_rcv v"
  by (auto simp: ack_pending_vector_def mk_rcv_Inr)

lemma snapshot_ok: "validate_credit_shape Prepared (snapshot_credit b) t b p = Inr () \<longleftrightarrow> in_range b"
  by (auto simp: validate_credit_shape_def mk_rcv_Inr snapshot_credit_def valid_rcv_fields is_final_def final_states_def)

lemma shape_accepted_waiting:
  assumes "shape_of s f = Inr v" "s \<in> {Prepared, Reconciling, Submitted}" "rf_snapshot_byte_count f = bytes"
  shows "validate_credit_shape s v terminal bytes pages = Inr ()"
  using assms
  by (auto simp: validate_credit_shape_def provider_credit_def is_final_def final_states_def
      shape_vectors shape_tasks addR_Inr rcv_map2_def rcv_zero_def mk_rcv_Inr snapshot_credit_def valid_rcv_fields
      base_vec_def)

lemma shape_accepted_result:
  assumes "shape_of s f = Inr v" "s \<in> {Remote_terminal, Local_materialized, Publish_committed}"
    and "facts_match f s terminal bytes pages"
  shows "validate_credit_shape s v terminal bytes pages = Inr ()"
  using assms
  by (auto simp: validate_credit_shape_def provider_credit_def is_final_def final_states_def facts_match_def
      shape_vectors shape_tasks rcv_map2_def rcv_zero_def mk_rcv_Inr snapshot_credit_def valid_rcv_fields
      base_vec_def require_local_output_def)

lemma materializing_limits:
  assumes "require_materializing b f = Inr ()"
  shows "\<exists>e. rf_reservation_input f = Some e \<and> 1 \<le> decoded_bytes (ri_reservation (eri_value e))
    \<and> 1 \<le> temp_disk_bytes (ri_reservation (eri_value e))
    \<and> rf_compressed_byte_count f = rf_provider_result_byte_count f"
proof -
  from assms obtain e where e: "rf_reservation_input f = Some e"
      "rcv_fits (materializing_observed f) (ri_reservation (eri_value e))"
    and f: "1 \<le> rf_decoded_byte_count f" "1 \<le> rf_uncompressed_byte_count f"
      "rf_temporary_disk_byte_count f = rf_compressed_byte_count f + rf_uncompressed_byte_count f"
      "valid_rcv (materializing_observed f)"
      "rf_compressed_byte_count f = rf_provider_result_byte_count f"
    by (auto simp: require_materializing_Inr)
  have "rf_decoded_byte_count f \<le> decoded_bytes (ri_reservation (eri_value e))"
    "rf_temporary_disk_byte_count f \<le> temp_disk_bytes (ri_reservation (eri_value e))"
    "0 \<le> rf_compressed_byte_count f"
    using e(2) f(4) by (auto simp: rcv_fits_def rcv_comps_def materializing_observed_def valid_rcv_fields in_range_def)
  with e f show ?thesis by auto
qed

lemma shape_accepted_materializing:
  assumes "shape_of Materializing f = Inr v" "rf_snapshot_byte_count f = bytes"
  shows "validate_credit_shape Materializing v terminal bytes pages = Inr ()"
proof -
  from assms have "require_materializing False f = Inr ()" "1 \<le> rf_provider_result_byte_count f"
    by (auto simp: require_provider_result_def)
  from materializing_limits [OF this(1)] this(2) assms show ?thesis
    by (auto simp: validate_credit_shape_def provider_credit_def is_final_def final_states_def
      shape_vectors shape_tasks rcv_map2_def rcv_zero_def mk_rcv_Inr snapshot_credit_def valid_rcv_fields
      base_vec_def)
qed

lemma shape_accepted_drain:
  assumes "shape_of s f = Inr v" "s \<in> {Cleanup_pending, Ack_pending}" "facts_match f s terminal bytes pages"
    and "0 \<le> rf_provider_result_byte_count f"
  shows "validate_credit_shape s v terminal bytes pages = Inr ()"
proof (cases "s = Cleanup_pending")
  case True
  with assms(1) have "v = owned False True (rf_provider_task_retained f) f"
    by (simp add: cleanup_pending_owned)
  with True assms(3) show ?thesis
    by (simp add: validate_credit_shape_def is_final_def final_states_def facts_match_def owned_def Let_def)
next
  case False
  with assms(2) have s: "s = Ack_pending" by simp
  with assms(1) ack_pending_owned have "v = owned False False True f" by simp
  with s assms(3,4) show ?thesis
    by (auto simp: validate_credit_shape_def ack_pending_credit_def is_final_def final_states_def facts_match_def owned_def Let_def)
qed

text \<open>C6: The two descriptions of what an attempt owns agree: whenever the projection
  \<open>resource_credit_shape\<close> gives a vector for facts that match a checkpoint (same snapshot bytes,
  same pages, a result exactly when there is a terminal receipt), the checkpoint's own credit test
  accepts that vector in the same state.\<close>

theorem shape_refines_checkpoint_credit:
  assumes "shape_of s f = Inr v" and "facts_post_init f = Inr ()" and "facts_match f s terminal bytes pages"
  shows "validate_credit_shape s v terminal bytes pages = Inr ()"
proof (cases "is_final s")
  case True
  then show ?thesis using shape_of_final [OF assms(1)] by (simp add: validate_credit_shape_def)
next
  case False
  have "0 \<le> rf_provider_result_byte_count f"
    using assms(2) by (simp add: facts_post_init_def rf_counts_def in_range_def)
  then consider "s \<in> {Prepared, Reconciling, Submitted}" | "s \<in> {Remote_terminal, Local_materialized, Publish_committed}"
    | "s = Materializing" | "s \<in> {Cleanup_pending, Ack_pending}"
    using False by (cases s) (auto simp: is_final_def final_states_def)
  then show ?thesis
  proof cases
    case 1
    then show ?thesis using shape_accepted_waiting [OF assms(1) 1] assms(3) by (simp add: facts_match_def)
  next
    case 2
    then show ?thesis by (rule shape_accepted_result [OF assms(1) _ assms(3)])
  next
    case 3
    then show ?thesis using shape_accepted_materializing assms(1,3) by (simp add: facts_match_def del: shape_of.simps)
  next
    case 4
    then show ?thesis
      using shape_accepted_drain [OF assms(1) _ assms(3)] \<open>0 \<le> rf_provider_result_byte_count f\<close> by blast
  qed
qed

theorem shape_refines_checkpoint_credit_witness:
  "\<exists>v. shape_of Publish_committed published_facts = Inr v
     \<and> validate_credit_shape Publish_committed v True 5000 12 = Inr ()"
proof -
  obtain v where v: "shape_of Publish_committed published_facts = Inr v"
    using shape_published_example by (auto simp: returns_iff)
  moreover have "facts_post_init published_facts = Inr ()" by code_simp
  moreover have "facts_match published_facts Publish_committed True 5000 12"
    by (simp add: facts_match_def published_facts_def)
  ultimately show ?thesis using shape_refines_checkpoint_credit by blast
qed

text \<open>C14: On entry to cleanup the two modules disagree about the remote wait. While a provider wait is
  open (reconciling, submitted), the projection gives the cleanup-pending state a vector without
  the wait, but the chain demands that the credit be the one of the source checkpoint: a checkpoint
  that holds the projected vector of its state has no successor that holds the projected
  cleanup vector.\<close>

theorem cleanup_projection_disagrees:
  assumes "cp_state p \<in> {Reconciling, Submitted}"
    and "shape_of (cp_state p) f = Inr (cp_held_resource_credit p)"
    and "shape_of Cleanup_pending (f\<lparr>rf_cleanup_outcome := Some out\<rparr>) = Inr (cp_held_resource_credit c)"
    and "cp_state c = Cleanup_pending"
  shows "\<not> admissible_successor p c"
proof -
  have "\<not> is_final (cp_state p)" "waiting (cp_state p)" "cp_state p \<noteq> Ack_pending"
    using assms(1) by (auto simp: is_final_def final_states_def)
  then have "remote_waits (cp_held_resource_credit p) = 1"
    using shape_of_owned [OF assms(2)] by (simp add: owned_def Let_def)
  moreover have "remote_waits (cp_held_resource_credit c) = 0"
    using shape_of_owned [OF assms(3)] by (simp add: is_final_def final_states_def owned_def Let_def)
  ultimately show ?thesis using assms(4) by (auto simp: admissible_successor_def)
qed

theorem cleanup_projection_disagrees_witness:
  "\<exists>v w. shape_of Submitted waiting_facts = Inr v
     \<and> shape_of Cleanup_pending (waiting_facts\<lparr>rf_cleanup_outcome := Some Superseded_outcome\<rparr>) = Inr w
     \<and> (\<forall>p c. cp_state p = Submitted \<and> cp_held_resource_credit p = v \<and> cp_state c = Cleanup_pending
          \<and> cp_held_resource_credit c = w \<longrightarrow> \<not> admissible_successor p c)"
proof -
  obtain v where v: "shape_of Submitted waiting_facts = Inr v"
    using shape_submitted_example by (auto simp: returns_iff)
  have "returns (shape_of Cleanup_pending (waiting_facts\<lparr>rf_cleanup_outcome := Some Superseded_outcome\<rparr>))"
    by code_simp
  then obtain w where w: "shape_of Cleanup_pending (waiting_facts\<lparr>rf_cleanup_outcome := Some Superseded_outcome\<rparr>) = Inr w"
    by (auto simp: returns_iff)
  have "\<not> admissible_successor p c"
    if "cp_state p = Submitted" "cp_held_resource_credit p = v" "cp_state c = Cleanup_pending"
      "cp_held_resource_credit c = w" for p c
    using cleanup_projection_disagrees [of p waiting_facts Superseded_outcome c] that v w by (simp del: shape_of.simps)
  with v w show ?thesis by blast
qed

end
