(* ===== verification/ServiceController.thy ===== *)
theory ServiceController
  imports Complex_Main ResourceCreditVector "HOL-Library.Multiset"
begin

text \<open>
  \<open>application/services/m6_service_controller.py\<close>: the loop of \<open>run_service_controller\<close>, which
  supplies a finite list of attempts to a thread pool under a credit limit.

  The loop runs on one thread; what it does not decide itself is an observation of its
  environment: whether a future is done and with what result, whether a callback raises, what
  \<open>stop_requested\<close> answers. One \<open>observation\<close> carries all of them for one block of the loop, and the
  loop is a function of the state and the next observation, so an execution is a list of
  observations. The program counter names the blocks of the source. \<open>submission_guard\<close> runs on the
  worker threads and changes nothing here. The finite floating-point interval is a rational.
\<close>

subsection \<open>Work, completions and results\<close>

record service_work =
  sw_attempt_id :: string
  sw_reservation :: resource_credit_vector
  sw_retained_after_disposal :: resource_credit_vector

definition service_work_post_init :: "service_work \<Rightarrow> unit res" where
  "service_work_post_init w = checks
     [require (\<not> (sw_attempt_id w = '''' \<or> length (sw_attempt_id w) > 128
         \<or> list_ex (\<lambda>c. code c \<le> 32 \<or> code c = 127) (sw_attempt_id w)))
        ''service work requires an opaque attempt identity'',
      require (valid_rcv (sw_reservation w) \<and> valid_rcv (sw_retained_after_disposal w)
         \<and> \<not> (documents (sw_reservation w) \<noteq> 1
           \<or> documents (sw_retained_after_disposal w) \<noteq> 0
           \<or> \<not> rcv_fits (sw_retained_after_disposal w) (sw_reservation w)))
        ''service reservation/retained resources are inconsistent'']"

definition valid_work :: "service_work \<Rightarrow> bool" where
  "valid_work w = (service_work_post_init w = Inr ())"

datatype service_outcome = Service_completed | Service_failed

record service_completion =
  sc_attempt_id :: string
  sc_outcome :: service_outcome
  sc_disposal_receipt_sha256 :: string

definition service_completion_post_init :: "service_completion \<Rightarrow> unit res" where
  "service_completion_post_init c =
     require (\<not> (sc_attempt_id c = '''' \<or> \<not> is_sha (sc_disposal_receipt_sha256 c)))
       ''service completion requires an actual disposal reference''"

datatype controller_terminal = Exhausted | Stopped | Failed

record controller_result =
  cr_terminal :: controller_terminal
  cr_completed :: "service_completion list"
  cr_not_started :: "string list"
  cr_unresolved :: "string list"
  cr_retained_credits :: resource_credit_vector

subsection \<open>The state of the loop\<close>

record controller_config =
  cf_work :: "service_work list"
  cf_max_in_flight :: int
  cf_credits_limit :: resource_credit_vector
  cf_poll_seconds :: rat

record controller_state =
  cs_stopped :: bool
  cs_pending :: "service_work list"
  cs_active :: "service_work list"
  cs_completed :: "(string \<times> service_completion) list"
  cs_unresolved :: "string list"
  cs_failures :: nat
  cs_credits :: resource_credit_vector

datatype future_status =
    Running
  | Returned service_completion
  | Raised

datatype stop_answer = Stop_no | Stop_yes | Stop_raises

text \<open>What the environment shows to one block of the loop.\<close>

record observation =
  ob_future :: "string \<Rightarrow> future_status"
  ob_delivered :: "string \<Rightarrow> bool"
  ob_stop :: stop_answer
  ob_dispatched :: bool

definition controller_inputs :: "controller_config \<Rightarrow> unit res" where
  "controller_inputs cf = checks
     [require (\<not> (\<not> (1 \<le> length (cf_work cf) \<and> length (cf_work cf) \<le> 10000)
         \<or> \<not> distinct (map sw_attempt_id (cf_work cf))
         \<or> \<not> (1 \<le> cf_max_in_flight cf \<and> cf_max_in_flight cf \<le> 64)
         \<or> \<not> (0 < cf_poll_seconds cf \<and> cf_poll_seconds cf \<le> 1)))
        ''service controller inputs or finite bounds are invalid'',
      require (\<not> list_ex (\<lambda>item. \<not> rcv_fits (sw_reservation item) (cf_credits_limit cf)) (cf_work cf))
        ''a service attempt cannot fit the declared resource envelope'']"

definition controller_start :: "controller_config \<Rightarrow> controller_state" where
  "controller_start cf =
     \<lparr>cs_stopped = False, cs_pending = cf_work cf, cs_active = [], cs_completed = [],
      cs_unresolved = [], cs_failures = 0, cs_credits = rcv_zero\<rparr>"

text \<open>\<open>failures.append(exc); stopped.set()\<close>\<close>

definition record_failure :: "controller_state \<Rightarrow> controller_state" where
  "record_failure st = st\<lparr>cs_failures := cs_failures st + 1, cs_stopped := True\<rparr>"

text \<open>
  \<open>harvest\<close>: the futures of the snapshot in submission order. Its boolean is False when the
  credit arithmetic raised, which leaves the function in the middle of its loop.
\<close>

fun harvest :: "observation \<Rightarrow> service_work list \<Rightarrow> controller_state \<Rightarrow> controller_state \<times> bool" where
  "harvest ob [] st = (st, True)"
| "harvest ob (item # items) st =
     (case ob_future ob (sw_attempt_id item) of
        Running \<Rightarrow> harvest ob items st
      | Raised \<Rightarrow> harvest ob items
          (record_failure (st\<lparr>cs_active := remove1 item (cs_active st),
             cs_unresolved := sw_attempt_id item # cs_unresolved st\<rparr>))
      | Returned result \<Rightarrow>
          if sc_attempt_id result \<noteq> sw_attempt_id item
          then harvest ob items
            (record_failure (st\<lparr>cs_active := remove1 item (cs_active st),
               cs_unresolved := sw_attempt_id item # cs_unresolved st\<rparr>))
          else
            (let st' = st\<lparr>cs_active := remove1 item (cs_active st),
                 cs_completed := cs_completed st @ [(sw_attempt_id item, result)]\<rparr> in
             case bindR (rcv_sub (cs_credits st) (sw_reservation item))
                 (\<lambda>rest. rcv_add rest (sw_retained_after_disposal item)) of
               Inl _ \<Rightarrow> (st', False)
             | Inr credits \<Rightarrow>
                 let st'' = st'\<lparr>cs_credits := credits\<rparr> in
                 if ob_delivered ob (sw_attempt_id item) then harvest ob items st''
                 else harvest ob items (record_failure st'')))"

text \<open>The index of the oldest pending item that fits \<open>credits_limit - credits\<close>.\<close>

fun first_fitting ::
  "resource_credit_vector res \<Rightarrow> nat \<Rightarrow> service_work list \<Rightarrow> nat option res" where
  "first_fitting room i [] = Inr None"
| "first_fitting room i (item # items) =
     bindR room (\<lambda>r. if rcv_fits (sw_reservation item) r then Inr (Some i)
       else first_fitting room (i + 1) items)"

datatype controller_point =
    Loop_test
  | Refill
  | After_dispatch
  | Wait_block
  | Join
  | Finished controller_result
  | Escaped

definition observe_stop :: "observation \<Rightarrow> controller_state \<Rightarrow> controller_state \<times> bool" where
  "observe_stop ob st =
     (if cs_stopped st then (st, True)
      else case ob_stop ob of
        Stop_no \<Rightarrow> (st, True)
      | Stop_yes \<Rightarrow> (st\<lparr>cs_stopped := True\<rparr>, True)
      | Stop_raises \<Rightarrow> (st, False))"

text \<open>\<open>harvest()\<close> and the stop test, then a block of the loop, or the exception handler.\<close>

definition harvest_and_stop ::
  "observation \<Rightarrow> controller_state \<Rightarrow> controller_point \<Rightarrow> controller_point \<times> controller_state" where
  "harvest_and_stop ob st continue =
     (case harvest ob (cs_active st) st of
        (st1, False) \<Rightarrow> (Loop_test, record_failure st1)
      | (st1, True) \<Rightarrow> (case observe_stop ob st1 of
          (st2, False) \<Rightarrow> (Loop_test, record_failure st2)
        | (st2, True) \<Rightarrow> (continue, st2)))"

definition drop_nth :: "nat \<Rightarrow> 'a list \<Rightarrow> 'a list" where
  "drop_nth i xs = take i xs @ drop (Suc i) xs"

text \<open>One turn of the inner \<open>while\<close>.\<close>

definition refill :: "controller_config \<Rightarrow> observation \<Rightarrow> controller_state \<Rightarrow> controller_point \<times> controller_state" where
  "refill cf ob st =
     (if \<not> cs_stopped st \<and> cs_pending st \<noteq> [] \<and> int (length (cs_active st)) < cf_max_in_flight cf
      then (case first_fitting (rcv_sub (cf_credits_limit cf) (cs_credits st)) 0 (cs_pending st) of
          Inl _ \<Rightarrow> (Loop_test, record_failure st)
        | Inr None \<Rightarrow>
            if cs_active st = [] then (Loop_test, record_failure st) else (Wait_block, st)
        | Inr (Some i) \<Rightarrow>
            (let item = cs_pending st ! i; st1 = st\<lparr>cs_pending := drop_nth i (cs_pending st)\<rparr> in
             case rcv_add (cs_credits st) (sw_reservation item) of
               Inl _ \<Rightarrow> (Loop_test, record_failure st1)
             | Inr credits \<Rightarrow>
                 if ob_dispatched ob
                 then (After_dispatch, st1\<lparr>cs_credits := credits, cs_active := cs_active st @ [item]\<rparr>)
                 else (Loop_test, record_failure (st1\<lparr>cs_credits := credits,
                   cs_unresolved := sw_attempt_id item # cs_unresolved st\<rparr>))))
      else (Wait_block, st))"

definition controller_result_of :: "controller_config \<Rightarrow> controller_state \<Rightarrow> controller_result" where
  "controller_result_of cf st =
     \<lparr>cr_terminal = (if cs_failures st > 0 then Failed else if cs_pending st \<noteq> [] then Stopped else Exhausted),
      cr_completed = concat (map (\<lambda>item. case map_of (cs_completed st) (sw_attempt_id item) of
         None \<Rightarrow> [] | Some c \<Rightarrow> [c]) (cf_work cf)),
      cr_not_started = map sw_attempt_id (cs_pending st),
      cr_unresolved = filter (\<lambda>a. a \<in> set (cs_unresolved st)) (map sw_attempt_id (cf_work cf)),
      cr_retained_credits = cs_credits st\<rparr>"

text \<open>
  One block. At \<^const>\<open>Join\<close> the pool has been joined, so every future is done: an observation
  that still shows one running is not possible there, and the block waits for the next one.
\<close>

definition controller_step ::
  "controller_config \<Rightarrow> controller_point \<times> controller_state \<Rightarrow> observation
     \<Rightarrow> controller_point \<times> controller_state" where
  "controller_step cf = (\<lambda>(point, st) ob. case point of
     Loop_test \<Rightarrow>
       if cs_active st \<noteq> [] \<or> (cs_pending st \<noteq> [] \<and> \<not> cs_stopped st)
       then harvest_and_stop ob st Refill
       else (Join, st\<lparr>cs_stopped := True\<rparr>)
   | Refill \<Rightarrow> refill cf ob st
   | After_dispatch \<Rightarrow> harvest_and_stop ob st Refill
   | Wait_block \<Rightarrow> (Loop_test, st)
   | Join \<Rightarrow>
       if list_ex (\<lambda>item. ob_future ob (sw_attempt_id item) = Running) (cs_active st) then (Join, st)
       else (case harvest ob (cs_active st) st of
           (st1, False) \<Rightarrow> (Escaped, st1)
         | (st1, True) \<Rightarrow> (Finished (controller_result_of cf st1), st1))
   | Finished r \<Rightarrow> (Finished r, st)
   | Escaped \<Rightarrow> (Escaped, st))"

definition run_service_controller ::
  "controller_config \<Rightarrow> observation list \<Rightarrow> (controller_point \<times> controller_state) res" where
  "run_service_controller cf obs =
     bindR (controller_inputs cf) (\<lambda>_. Inr (foldl (controller_step cf) (Loop_test, controller_start cf) obs))"


subsection \<open>Accounting\<close>

text \<open>
  The accounting invariant: every attempt is in exactly one of pending, active, done and lost, and
  the credits are the sum of the reservations of the active and lost attempts and of what the
  done ones retain.
\<close>

definition accounted :: "controller_config \<Rightarrow> controller_state \<Rightarrow> service_work list \<Rightarrow> service_work list \<Rightarrow> bool" where
  "accounted cf st finished lost \<longleftrightarrow>
     mset (cs_pending st @ cs_active st @ finished @ lost) = mset (cf_work cf)
     \<and> map fst (cs_completed st) = map sw_attempt_id finished
     \<and> (\<forall>(a, c) \<in> set (cs_completed st). sc_attempt_id c = a)
     \<and> cs_unresolved st = map sw_attempt_id lost
     \<and> valid_rcv (cs_credits st)
     \<and> rcv.is_total (cs_credits st)
         (map sw_reservation (cs_active st) @ map sw_reservation lost @ map sw_retained_after_disposal finished)
     \<and> rcv_fits (cs_credits st) (cf_credits_limit cf)
     \<and> int (length (cs_active st)) \<le> cf_max_in_flight cf
     \<and> (lost \<noteq> [] \<longrightarrow> 0 < cs_failures st)
     \<and> (0 < cs_failures st \<longrightarrow> cs_stopped st)"

definition config_ok :: "controller_config \<Rightarrow> bool" where
  "config_ok cf \<longleftrightarrow> controller_inputs cf = Inr () \<and> valid_rcv (cf_credits_limit cf)
     \<and> list_all valid_work (cf_work cf)"

lemma config_work:
  assumes "config_ok cf" "w \<in> set (cf_work cf)"
  shows "valid_rcv (sw_reservation w)" "valid_rcv (sw_retained_after_disposal w)"
    "rcv_fits (sw_retained_after_disposal w) (sw_reservation w)"
  using assms by (auto simp: config_ok_def list_all_iff valid_work_def service_work_post_init_def)

lemma accounted_start: "config_ok cf \<Longrightarrow> accounted cf (controller_start cf) [] []"
  by (auto simp: accounted_def controller_start_def rcv.is_total_zero config_ok_def controller_inputs_def
      intro: rcv.zero_fits)

lemma is_total_mset: "mset vs = mset ws \<Longrightarrow> rcv.is_total u vs \<Longrightarrow> rcv.is_total u ws"
proof -
  assume *: "mset vs = mset ws" "rcv.is_total u vs"
  have "component_total rcv_comps vs i = component_total rcv_comps ws i" for i
  proof -
    have "mset (map (\<lambda>v. rcv_comps v ! i) vs) = mset (map (\<lambda>v. rcv_comps v ! i) ws)" using *(1) by simp
    then show ?thesis unfolding component_total_def by (metis sum_mset_sum_list)
  qed
  with *(2) show ?thesis by (simp add: rcv.is_total_def)
qed

lemma accounted_failure:
  "accounted cf st finished lost \<Longrightarrow> accounted cf (record_failure st) finished lost"
  by (simp add: accounted_def record_failure_def)

lemma accounted_member:
  assumes "accounted cf st finished lost" "item \<in> set (cs_active st)"
  shows "item \<in> set (cf_work cf)"
proof -
  have "set (cs_pending st @ cs_active st @ finished @ lost) = set (cf_work cf)"
    using assms(1) by (metis accounted_def set_mset_mset)
  with assms(2) show ?thesis by auto
qed

text \<open>An active attempt whose future raised moves to the lost ones and keeps its reservation.\<close>

lemma accounted_lost:
  assumes "accounted cf st finished lost" "item \<in> set (cs_active st)"
  shows "accounted cf (record_failure (st\<lparr>cs_active := remove1 item (cs_active st),
    cs_unresolved := sw_attempt_id item # cs_unresolved st\<rparr>)) finished (item # lost)"
proof -
  have m: "mset (cs_active st) = mset (item # remove1 item (cs_active st))" using assms(2) by simp
  have "rcv.is_total (cs_credits st) (map sw_reservation (remove1 item (cs_active st)) @
      map sw_reservation (item # lost) @ map sw_retained_after_disposal finished)"
    by (rule is_total_mset [of "map sw_reservation (cs_active st) @ map sw_reservation lost @ map sw_retained_after_disposal finished"])
       (use assms(1) arg_cong [OF m, of "image_mset sw_reservation"] in \<open>auto simp: accounted_def\<close>)
  moreover have "length (remove1 item (cs_active st)) \<le> length (cs_active st)"
    by (simp add: length_remove1)
  ultimately show ?thesis
    using assms by (auto simp: accounted_def record_failure_def)
qed

text \<open>A completed attempt frees its reservation and keeps charging what it retains; the arithmetic
  cannot raise.\<close>

lemma accounted_done:
  assumes "config_ok cf" "accounted cf st finished lost" "item \<in> set (cs_active st)"
    and "sc_attempt_id result = sw_attempt_id item"
  shows "\<exists>credits. bindR (rcv_sub (cs_credits st) (sw_reservation item))
        (\<lambda>rest. rcv_add rest (sw_retained_after_disposal item)) = Inr credits
    \<and> accounted cf (st\<lparr>cs_active := remove1 item (cs_active st),
        cs_completed := cs_completed st @ [(sw_attempt_id item, result)], cs_credits := credits\<rparr>) (finished @ [item]) lost"
proof -
  note work = config_work [OF assms(1) accounted_member [OF assms(2,3)]]
  have m: "mset (cs_active st) = mset (item # remove1 item (cs_active st))" using assms(3) by simp
  let ?rest = "map sw_reservation (remove1 item (cs_active st)) @ map sw_reservation lost @ map sw_retained_after_disposal finished"
  have total: "rcv.is_total (cs_credits st) (sw_reservation item # ?rest)"
    by (rule is_total_mset [of "map sw_reservation (cs_active st) @ map sw_reservation lost @ map sw_retained_after_disposal finished"])
       (use assms(2) arg_cong [OF m, of "image_mset sw_reservation"] in \<open>auto simp: accounted_def\<close>)
  have members: "\<forall>v \<in> set (sw_reservation item # ?rest). valid_rcv v"
  proof -
    have "set (cs_pending st @ cs_active st @ finished @ lost) = set (cf_work cf)"
      using assms(2) by (metis accounted_def set_mset_mset)
    then show ?thesis
      using config_work(1,2) [OF assms(1)] work set_remove1_subset [of item "cs_active st"] by auto
  qed
  have credits: "valid_rcv (cs_credits st)" "rcv_fits (cs_credits st) (cf_credits_limit cf)"
    using assms(2) by (simp_all add: accounted_def)
  obtain rest where rest: "rcv_sub (cs_credits st) (sw_reservation item) = Inr rest" "rcv.is_total rest ?rest"
    using rcv.is_total_release [of "cs_credits st" "[]" "sw_reservation item" ?rest] total credits(1) members by auto
  have "in_range (rcv_comps rest ! i + rcv_comps (sw_retained_after_disposal item) ! i)" if "i < 14" for i
    using rest(1) work(2,3) credits(1) that rcv.sub_valid [OF rest(1)]
    by (force simp: rcv.sub_nth rcv.fits_nth rcv.valid_nth in_range_def)
  then have "returns (rcv_add rest (sw_retained_after_disposal item))"
    by (simp only: rcv.add_returns_iff) blast
  then obtain new where new: "rcv_add rest (sw_retained_after_disposal item) = Inr new"
    by (auto simp: returns_iff)
  have "rcv_fits new (cs_credits st)"
    using rest(1) new work(3) by (force simp: rcv.sub_nth rcv.add_nth rcv.fits_nth)
  then have fits: "rcv_fits new (cf_credits_limit cf)" using credits(2) by (rule rcv.fits_trans)
  have "rcv.is_total new (sw_retained_after_disposal item # ?rest)"
    using rest(2) new by (rule rcv.is_total_add)
  then have "rcv.is_total new (map sw_reservation (remove1 item (cs_active st)) @ map sw_reservation lost @
      map sw_retained_after_disposal (finished @ [item]))"
    by (rule is_total_mset [rotated]) simp
  moreover have "length (remove1 item (cs_active st)) \<le> length (cs_active st)" by (simp add: length_remove1)
  ultimately show ?thesis
    using rest(1) new fits assms(2-4) rcv.add_valid [OF new]
    by (intro exI [of _ new]) (auto simp: accounted_def)
qed

lemma accounted_distinct:
  assumes "config_ok cf" "accounted cf st finished lost"
  shows "distinct (map sw_attempt_id (cs_pending st @ cs_active st @ finished @ lost))"
proof -
  have "mset (map sw_attempt_id (cs_pending st @ cs_active st @ finished @ lost)) = mset (map sw_attempt_id (cf_work cf))"
    using assms(2) unfolding accounted_def by (metis mset_map)
  moreover have "distinct (map sw_attempt_id (cf_work cf))"
    using assms(1) by (simp add: config_ok_def controller_inputs_def)
  ultimately show ?thesis by (metis mset_eq_imp_distinct_iff)
qed

lemma harvest_accounted:
  assumes "config_ok cf" "accounted cf st finished lost" "distinct items" "set items \<subseteq> set (cs_active st)"
  shows "\<exists>st' finished' lost'. harvest ob items st = (st', True) \<and> accounted cf st' finished' lost'
    \<and> cs_pending st' = cs_pending st \<and> (cs_stopped st \<longrightarrow> cs_stopped st')"
  using assms(2-4)
proof (induction items arbitrary: st finished lost)
  case Nil
  then show ?case by auto
next
  case (Cons item items)
  have active: "item \<in> set (cs_active st)" using Cons.prems by simp
  have rest: "set items \<subseteq> set (remove1 item (cs_active st))"
  proof
    fix x assume "x \<in> set items"
    with Cons.prems have "x \<noteq> item" "x \<in> set (cs_active st)" by auto
    then show "x \<in> set (remove1 item (cs_active st))" by (simp add: in_set_remove1)
  qed
  have fail: "\<exists>st' finished' lost'. harvest ob items (record_failure (st\<lparr>cs_active := remove1 item (cs_active st),
        cs_unresolved := sw_attempt_id item # cs_unresolved st\<rparr>)) = (st', True)
      \<and> accounted cf st' finished' lost' \<and> cs_pending st' = cs_pending st \<and> (cs_stopped st \<longrightarrow> cs_stopped st')"
    using Cons.IH [OF accounted_lost [OF Cons.prems(1) active]] Cons.prems(2) rest
    by (simp add: record_failure_def) blast
  show ?case
  proof (cases "ob_future ob (sw_attempt_id item)")
    case Running
    with Cons.IH [OF Cons.prems(1)] Cons.prems show ?thesis by simp
  next
    case Raised
    with fail show ?thesis by simp
  next
    case (Returned result)
    show ?thesis
    proof (cases "sc_attempt_id result = sw_attempt_id item")
      case False
      with Returned fail show ?thesis by simp
    next
      case True
      obtain credits where c: "bindR (rcv_sub (cs_credits st) (sw_reservation item))
          (\<lambda>rest. rcv_add rest (sw_retained_after_disposal item)) = Inr credits"
        and acc: "accounted cf (st\<lparr>cs_active := remove1 item (cs_active st),
          cs_completed := cs_completed st @ [(sw_attempt_id item, result)], cs_credits := credits\<rparr>) (finished @ [item]) lost"
        using accounted_done [OF assms(1) Cons.prems(1) active True] by blast
      show ?thesis
      proof (cases "ob_delivered ob (sw_attempt_id item)")
        case True': True
        with Cons.IH [OF acc] Cons.prems(2) rest Returned True c show ?thesis
          by (simp add: Let_def del: bindR_Inr_iff)
      next
        case False
        with Cons.IH [OF accounted_failure [OF acc]] Cons.prems(2) rest Returned True c show ?thesis
          by (simp add: Let_def record_failure_def del: bindR_Inr_iff) blast
      qed
    qed
  qed
qed


lemma observe_stop_accounted:
  assumes "accounted cf st finished lost" "observe_stop ob st = (st', ok)"
  shows "accounted cf st' finished lost"
  using assms by (auto simp: observe_stop_def accounted_def split: if_splits stop_answer.splits)

lemma active_distinct: "config_ok cf \<Longrightarrow> accounted cf st finished lost \<Longrightarrow> distinct (cs_active st)"
  using accounted_distinct [of cf st finished lost] by (auto simp: distinct_map)

lemma harvest_and_stop_accounted:
  assumes "config_ok cf" "accounted cf st finished lost" "harvest_and_stop ob st point = (point', st')"
  shows "(\<exists>finished' lost'. accounted cf st' finished' lost') \<and> point' \<in> {point, Loop_test}"
proof -
  obtain st1 finished' lost' where h: "harvest ob (cs_active st) st = (st1, True)" "accounted cf st1 finished' lost'"
    using harvest_accounted [OF assms(1,2) active_distinct [OF assms(1,2)] subset_refl] by blast
  obtain st2 ok where o: "observe_stop ob st1 = (st2, ok)" by (cases "observe_stop ob st1") auto
  have "accounted cf st2 finished' lost'" using h(2) o by (rule observe_stop_accounted)
  with accounted_failure [OF this] h(1) o assms(3) show ?thesis
    by (cases ok) (auto simp: harvest_and_stop_def)
qed

lemma drop_nth_mset: "i < length xs \<Longrightarrow> mset xs = mset (xs ! i # drop_nth i xs)"
  by (metis drop_nth_def id_take_nth_drop mset.simps(2) mset_append union_mset_add_mset_right)

lemma first_fitting_Some:
  "first_fitting room i items = Inr (Some j) \<Longrightarrow>
     \<exists>r. room = Inr r \<and> i \<le> j \<and> j < i + length items \<and> rcv_fits (sw_reservation (items ! (j - i))) r
       \<and> (\<forall>k < j - i. \<not> rcv_fits (sw_reservation (items ! k)) r)"
proof (induction items arbitrary: i)
  case (Cons item items)
  then obtain r where r: "room = Inr r" by auto
  show ?case
  proof (cases "rcv_fits (sw_reservation item) r")
    case True
    with Cons.prems r show ?thesis by auto
  next
    case False
    with Cons.prems r have "first_fitting room (i + 1) items = Inr (Some j)" by simp
    from Cons.IH [OF this] r obtain le: "i + 1 \<le> j" "j < i + 1 + length items"
        "rcv_fits (sw_reservation (items ! (j - (i + 1)))) r"
        "\<forall>k < j - (i + 1). \<not> rcv_fits (sw_reservation (items ! k)) r" by auto
    have "\<not> rcv_fits (sw_reservation ((item # items) ! k)) r" if "k < j - i" for k
      using le(4) that False by (cases k) auto
    moreover have "(item # items) ! (j - i) = items ! (j - (i + 1))"
      using le(1) by (simp add: nth_Cons')
    ultimately show ?thesis using le r by auto
  qed
qed simp

lemma accounted_pending: "accounted cf st finished lost \<Longrightarrow> set (cs_pending st) \<subseteq> set (cf_work cf)"
proof -
  assume "accounted cf st finished lost"
  then have "set (cs_pending st @ cs_active st @ finished @ lost) = set (cf_work cf)"
    by (metis accounted_def set_mset_mset)
  then show ?thesis by auto
qed

lemma refill_accounted:
  assumes "config_ok cf" "accounted cf st finished lost" "refill cf ob st = (point', st')"
  shows "(\<exists>lost'. accounted cf st' finished lost') \<and> point' \<in> {Loop_test, After_dispatch, Wait_block}"
proof (cases "\<not> cs_stopped st \<and> cs_pending st \<noteq> [] \<and> int (length (cs_active st)) < cf_max_in_flight cf")
  case False
  with assms show ?thesis by (auto simp: refill_def)
next
  case go: True
  let ?room = "rcv_sub (cf_credits_limit cf) (cs_credits st)"
  show ?thesis
  proof (cases "first_fitting ?room 0 (cs_pending st)")
    case (Inl e)
    with go assms accounted_failure [OF assms(2)] show ?thesis by (auto simp: refill_def)
  next
    case (Inr sel)
    show ?thesis
    proof (cases sel)
      case None
      with Inr go assms accounted_failure [OF assms(2)] show ?thesis
        by (auto simp: refill_def split: if_splits)
    next
      case (Some i)
      with Inr first_fitting_Some [of ?room 0 "cs_pending st" i] obtain r where
        r: "?room = Inr r" "i < length (cs_pending st)" "rcv_fits (sw_reservation (cs_pending st ! i)) r" by auto
      let ?item = "cs_pending st ! i"
      have mem: "?item \<in> set (cf_work cf)"
        using accounted_pending [OF assms(2)] nth_mem [OF r(2)] by blast
      note work = config_work [OF assms(1) mem]
      have credits: "valid_rcv (cs_credits st)" and limit: "valid_rcv (cf_credits_limit cf)"
        using assms by (simp_all add: accounted_def config_ok_def)
      obtain new where new: "rcv_add (cs_credits st) (sw_reservation ?item) = Inr new" "rcv_fits new (cf_credits_limit cf)"
        using rcv.admission_test [OF limit credits work(1) r(1)] r(3) by blast
      have pend: "mset (cs_pending st) = mset (?item # drop_nth i (cs_pending st))"
        using r(2) by (rule drop_nth_mset)
      have total: "rcv.is_total new (sw_reservation ?item # map sw_reservation (cs_active st) @ map sw_reservation lost
          @ map sw_retained_after_disposal finished)"
      proof (rule rcv.is_total_add [OF _ new(1)])
        show "rcv.is_total (cs_credits st) (map sw_reservation (cs_active st) @ map sw_reservation lost
          @ map sw_retained_after_disposal finished)"
          using assms(2) unfolding accounted_def by blast
      qed
      let ?st = "st\<lparr>cs_pending := drop_nth i (cs_pending st), cs_credits := new\<rparr>"
      have run_total: "rcv.is_total new (map sw_reservation (cs_active st @ [?item]) @ map sw_reservation lost
          @ map sw_retained_after_disposal finished)"
        by (rule is_total_mset [OF _ total]) simp
      have lose_total: "rcv.is_total new (map sw_reservation (cs_active st) @ map sw_reservation (?item # lost)
          @ map sw_retained_after_disposal finished)"
        by (rule is_total_mset [OF _ total]) simp
      have run: "accounted cf (?st\<lparr>cs_active := cs_active st @ [?item]\<rparr>) finished lost"
        using assms(2) pend new(2) go run_total rcv.add_valid [OF new(1)]
        by (simp add: accounted_def) auto
      have lose: "accounted cf (record_failure (?st\<lparr>cs_unresolved := sw_attempt_id ?item # cs_unresolved st\<rparr>)) finished (?item # lost)"
        using assms(2) pend new(2) lose_total rcv.add_valid [OF new(1)]
        by (simp add: accounted_def record_failure_def)
      show ?thesis
        using assms(3) go Inr Some new(1) run lose by (auto simp: refill_def Let_def split: if_splits)
    qed
  qed
qed


text \<open>The invariant of the whole loop, with its program counter.\<close>

definition loop_ok :: "controller_config \<Rightarrow> controller_point \<times> controller_state \<Rightarrow> bool" where
  "loop_ok cf = (\<lambda>(point, st). (\<exists>finished lost. accounted cf st finished lost)
     \<and> point \<noteq> Escaped
     \<and> (point = Join \<longrightarrow> cs_active st = [])
     \<and> (\<forall>r. point = Finished r \<longrightarrow> cs_active st = [] \<and> r = controller_result_of cf st))"

lemma controller_step_ok:
  assumes "config_ok cf" "loop_ok cf (point, st)"
  shows "loop_ok cf (controller_step cf (point, st) ob)"
proof -
  obtain finished lost where acc: "accounted cf st finished lost"
    using assms(2) by (auto simp: loop_ok_def)
  have stop: "accounted cf (st\<lparr>cs_stopped := True\<rparr>) finished lost"
    using acc by (simp add: accounted_def)
  have hs: "loop_ok cf (harvest_and_stop ob st Refill)"
    using harvest_and_stop_accounted [OF assms(1) acc, of ob Refill]
    by (cases "harvest_and_stop ob st Refill") (fastforce simp: loop_ok_def)
  have rf: "loop_ok cf (refill cf ob st)"
    using refill_accounted [OF assms(1) acc, of ob]
    by (cases "refill cf ob st") (fastforce simp: loop_ok_def)
  show ?thesis
    using assms(2) acc stop hs rf
    by (cases point) (auto simp: controller_step_def loop_ok_def)
qed

lemma controller_run_ok:
  assumes "config_ok cf"
  shows "loop_ok cf (foldl (controller_step cf) (Loop_test, controller_start cf) obs)"
proof (induction obs rule: rev_induct)
  case Nil
  then show ?case using accounted_start [OF assms] by (auto simp: loop_ok_def)
next
  case (snoc ob obs)
  then show ?case
    using controller_step_ok [OF assms, of "fst (foldl (controller_step cf) (Loop_test, controller_start cf) obs)"
        "snd (foldl (controller_step cf) (Loop_test, controller_start cf) obs)" ob]
    by simp
qed


subsection \<open>Termination once the futures are done\<close>

definition all_done :: "observation \<Rightarrow> bool" where
  "all_done ob = (\<forall>a. ob_future ob a \<noteq> Running)"

lemma harvest_active:
  assumes "all_done ob" "harvest ob items st = (st', True)"
  shows "cs_active st' = fold remove1 items (cs_active st)"
  using assms(2)
proof (induction items arbitrary: st)
  case (Cons item items)
  have "ob_future ob (sw_attempt_id item) \<noteq> Running" using assms(1) by (simp add: all_done_def)
  then show ?case
    using Cons.prems
    by (auto simp: record_failure_def Let_def split: future_status.splits if_splits sum.splits dest: Cons.IH)
qed simp

lemma fold_remove1_self: "fold remove1 xs xs = []"
proof -
  have "mset (fold remove1 ys xs) = mset xs - mset ys" for ys xs :: "'a list"
    by (induction ys arbitrary: xs) auto
  from this [of xs xs] show ?thesis by simp
qed

lemma harvest_pending: "harvest ob items st = (st', ok) \<Longrightarrow> cs_pending st' = cs_pending st"
proof (induction items arbitrary: st)
  case (Cons item items)
  from Cons.prems show ?case
    by (auto simp: record_failure_def Let_def split: future_status.splits if_splits sum.splits dest: Cons.IH)
qed simp

text \<open>What holds at each point when every observation shows finished futures.\<close>

fun point_ok :: "controller_point \<Rightarrow> controller_state \<Rightarrow> bool" where
  "point_ok Refill st = (cs_active st = [])"
| "point_ok Wait_block st = (cs_active st = [] \<and> (cs_pending st = [] \<or> cs_stopped st))"
| "point_ok After_dispatch st = (length (cs_active st) = 1)"
| "point_ok Join st = (cs_active st = [])"
| "point_ok _ st = True"

fun point_weight :: "controller_point \<Rightarrow> controller_state \<Rightarrow> nat" where
  "point_weight Loop_test st =
     (if cs_active st = [] \<and> (cs_pending st = [] \<or> cs_stopped st) then 2 else 5)"
| "point_weight Refill st = 4"
| "point_weight After_dispatch st = 3"
| "point_weight Wait_block st = 3"
| "point_weight Join st = 1"
| "point_weight _ st = 0"

definition remaining :: "controller_point \<times> controller_state \<Rightarrow> nat" where
  "remaining = (\<lambda>(point, st).
     6 * length (cs_pending st) + 6 * length (cs_active st) + point_weight point st)"

definition finished_point :: "controller_point \<Rightarrow> bool" where
  "finished_point p = (case p of Finished _ \<Rightarrow> True | _ \<Rightarrow> False)"

lemma harvest_and_stop_done:
  assumes "config_ok cf" "accounted cf st finished lost" "all_done ob"
    and "harvest_and_stop ob st Refill = (point', st')"
  shows "cs_active st' = [] \<and> cs_pending st' = cs_pending st \<and>
    (point' = Refill \<or> point' = Loop_test \<and> cs_stopped st')"
proof -
  obtain st1 finished' lost' where h: "harvest ob (cs_active st) st = (st1, True)"
    using harvest_accounted [OF assms(1,2) active_distinct [OF assms(1,2)] subset_refl] by blast
  have "cs_active st1 = []" "cs_pending st1 = cs_pending st"
    using harvest_active [OF assms(3) h] fold_remove1_self harvest_pending [OF h] by auto
  then show ?thesis
    using assms(4) h
    by (auto simp: harvest_and_stop_def observe_stop_def record_failure_def split: if_splits stop_answer.splits)
qed

lemma drop_nth_length: "i < length xs \<Longrightarrow> Suc (length (drop_nth i xs)) = length xs"
  by (simp add: drop_nth_def)

lemma refill_done:
  assumes "config_ok cf" "accounted cf st finished lost" "cs_active st = []"
    and "refill cf ob st = (point', st')"
  shows "point_ok point' st' \<and> remaining (point', st') < remaining (Refill, st)"
proof (cases "\<not> cs_stopped st \<and> cs_pending st \<noteq> [] \<and> int (length (cs_active st)) < cf_max_in_flight cf")
  case False
  moreover have "1 \<le> cf_max_in_flight cf" using assms(1) by (simp add: config_ok_def controller_inputs_def)
  ultimately show ?thesis using assms(3,4) by (auto simp: refill_def remaining_def)
next
  case go: True
  let ?room = "rcv_sub (cf_credits_limit cf) (cs_credits st)"
  show ?thesis
  proof (cases "first_fitting ?room 0 (cs_pending st)")
    case (Inl e)
    with go assms(3,4) show ?thesis by (auto simp: refill_def record_failure_def remaining_def)
  next
    case (Inr sel)
    show ?thesis
    proof (cases sel)
      case None
      with Inr go assms(3,4) show ?thesis
        by (auto simp: refill_def record_failure_def remaining_def)
    next
      case (Some i)
      with Inr first_fitting_Some [of ?room 0 "cs_pending st" i] have i: "i < length (cs_pending st)" by auto
      show ?thesis
        using Inr Some go assms(3,4) drop_nth_length [OF i]
        by (auto simp: refill_def record_failure_def remaining_def Let_def split: sum.splits if_splits)
    qed
  qed
qed

lemma controller_step_done:
  assumes "config_ok cf" "loop_ok cf (point, st)" "point_ok point st" "all_done ob" "\<not> finished_point point"
    and "controller_step cf (point, st) ob = (point', st')"
  shows "point_ok point' st' \<and> remaining (point', st') < remaining (point, st)"
proof -
  obtain finished lost where acc: "accounted cf st finished lost"
    using assms(2) by (auto simp: loop_ok_def)
  have hs: "cs_active st2 = [] \<and> cs_pending st2 = cs_pending st \<and> (p2 = Refill \<or> p2 = Loop_test \<and> cs_stopped st2)"
    if "harvest_and_stop ob st Refill = (p2, st2)" for p2 st2
    using harvest_and_stop_done [OF assms(1) acc assms(4) that] .
  show ?thesis
  proof (cases point)
    case Loop_test
    show ?thesis
    proof (cases "cs_active st \<noteq> [] \<or> (cs_pending st \<noteq> [] \<and> \<not> cs_stopped st)")
      case True
      with Loop_test assms(6) hs [of point' st'] show ?thesis
        by (auto simp: controller_step_def remaining_def)
    next
      case False
      with Loop_test assms(6) show ?thesis by (auto simp: controller_step_def remaining_def)
    qed
  next
    case Refill
    with assms(3,6) refill_done [OF assms(1) acc, of ob point' st'] show ?thesis
      by (simp add: controller_step_def)
  next
    case After_dispatch
    with assms(3,6) hs [of point' st'] show ?thesis
      by (auto simp: controller_step_def remaining_def)
  next
    case Wait_block
    with assms(3,6) show ?thesis by (auto simp: controller_step_def remaining_def)
  next
    case Join
    with assms(3,6) show ?thesis by (auto simp: controller_step_def remaining_def)
  next
    case (Finished r)
    with assms(5) show ?thesis by (simp add: finished_point_def)
  next
    case Escaped
    with assms(2) show ?thesis by (simp add: loop_ok_def)
  qed
qed

lemma controller_finishes:
  assumes "config_ok cf" "list_all all_done obs" "loop_ok cf (point, st)" "point_ok point st"
    and "remaining (point, st) \<le> length obs"
  shows "finished_point (fst (foldl (controller_step cf) (point, st) obs))"
  using assms(2-)
proof (induction obs arbitrary: point st)
  case Nil
  then have "point_weight point st = 0" by (simp add: remaining_def)
  with Nil.prems(2) show ?case
    by (cases point) (auto simp: finished_point_def loop_ok_def split: if_splits)
next
  case (Cons ob obs)
  obtain point' st' where s: "controller_step cf (point, st) ob = (point', st')"
    by (cases "controller_step cf (point, st) ob") auto
  have ok: "loop_ok cf (point', st')"
    using controller_step_ok [OF assms(1) Cons.prems(2), of ob] s by simp
  show ?case
  proof (cases "finished_point point")
    case True
    then have "foldl (controller_step cf) (point, st) (ob # obs) = (point, st)"
    proof -
      have "foldl (controller_step cf) (point, st) os = (point, st)" for os
        using True by (induction os) (auto simp: controller_step_def finished_point_def split: controller_point.splits)
      then show ?thesis .
    qed
    with True show ?thesis by simp
  next
    case False
    have "all_done ob" using Cons.prems(1) by simp
    from controller_step_done [OF assms(1) Cons.prems(2,3) this False s]
    show ?thesis using Cons.IH [OF _ ok] Cons.prems(1,4) s by simp
  qed
qed


subsection \<open>Properties\<close>

definition controller_run :: "controller_config \<Rightarrow> observation list \<Rightarrow> controller_point \<times> controller_state" where
  "controller_run cf obs = foldl (controller_step cf) (Loop_test, controller_start cf) obs"

text \<open>A concrete supply of two attempts, and observations of finished futures.\<close>

definition work_example :: "string \<Rightarrow> service_work" where
  "work_example a = \<lparr>sw_attempt_id = a,
     sw_reservation = rcv_zero\<lparr>documents := 1, temp_disk_bytes := 100, output_bytes := 50\<rparr>,
     sw_retained_after_disposal = rcv_zero\<lparr>output_bytes := 5\<rparr>\<rparr>"

definition config_example :: controller_config where
  "config_example = \<lparr>cf_work = [work_example ''a-1'', work_example ''a-2''], cf_max_in_flight = 1,
     cf_credits_limit = rcv_zero\<lparr>documents := 1, temp_disk_bytes := 150, output_bytes := 60\<rparr>,
     cf_poll_seconds = 1 / 10\<rparr>"

definition observation_example :: observation where
  "observation_example = \<lparr>ob_future = (\<lambda>a. Returned \<lparr>sc_attempt_id = a, sc_outcome = Service_completed,
       sc_disposal_receipt_sha256 = ''sha256:'' @ replicate 64 (CHR ''a'')\<rparr>),
     ob_delivered = (\<lambda>_. True), ob_stop = Stop_no, ob_dispatched = True\<rparr>"

lemma valid_work_example: "valid_work (work_example ''a-1'')" "valid_work (work_example ''a-2'')"
  by code_simp+

lemma config_example_ok: "config_ok config_example"
proof -
  have "valid_rcv (cf_credits_limit config_example)"
    by (simp add: config_example_def valid_rcv_iff rcv_comps_def in_range_def MAX_INT_def)
  moreover have "controller_inputs config_example = Inr ()"
    by (simp add: controller_inputs_def config_example_def work_example_def rcv_fits_def rcv_comps_def)
  ultimately show ?thesis
    using valid_work_example by (simp add: config_ok_def config_example_def)
qed

lemma run_ok:
  assumes "config_ok cf" "controller_run cf obs = (point, st)"
  obtains finished lost where "accounted cf st finished lost" "loop_ok cf (point, st)"
  using controller_run_ok [OF assms(1), of obs] assms(2)
  by (auto simp: controller_run_def loop_ok_def)

lemma accounted_partition:
  assumes "accounted cf st finished lost"
  shows "mset (map sw_attempt_id (cs_pending st) @ map sw_attempt_id (cs_active st)
      @ map fst (cs_completed st) @ cs_unresolved st) = mset (map sw_attempt_id (cf_work cf))"
proof -
  have "map fst (cs_completed st) = map sw_attempt_id finished" "cs_unresolved st = map sw_attempt_id lost"
    and m: "mset (cs_pending st @ cs_active st @ finished @ lost) = mset (cf_work cf)"
    using assms by (simp_all only: accounted_def)
  then have "mset (map sw_attempt_id (cs_pending st) @ map sw_attempt_id (cs_active st)
      @ map fst (cs_completed st) @ cs_unresolved st) = mset (map sw_attempt_id (cs_pending st @ cs_active st @ finished @ lost))"
    by simp
  also have "\<dots> = mset (map sw_attempt_id (cf_work cf))" using m by (metis mset_map)
  finally show ?thesis .
qed

lemma completed_ids:
  assumes "\<forall>(a, c) \<in> set cs. sc_attempt_id c = a"
  shows "map sc_attempt_id (concat (map (\<lambda>item. case map_of cs (sw_attempt_id item) of None \<Rightarrow> [] | Some c \<Rightarrow> [c]) ws))
    = filter (\<lambda>a. a \<in> set (map fst cs)) (map sw_attempt_id ws)"
proof (induction ws)
  case (Cons w ws)
  show ?case
  proof (cases "map_of cs (sw_attempt_id w)")
    case None
    then have "sw_attempt_id w \<notin> set (map fst cs)" by (simp add: map_of_eq_None_iff)
    with None Cons show ?thesis by simp
  next
    case (Some c)
    then have "(sw_attempt_id w, c) \<in> set cs" by (rule map_of_SomeD)
    with assms have "sc_attempt_id c = sw_attempt_id w" "sw_attempt_id w \<in> set (map fst cs)" by force+
    with Some Cons show ?thesis by simp
  qed
qed simp

lemma filter_members:
  assumes "distinct ws" "distinct cs" "set cs \<subseteq> set ws"
  shows "mset (filter (\<lambda>a. a \<in> set cs) ws) = mset cs"
  using assms by (subst set_eq_iff_mset_eq_distinct [symmetric]) auto

lemma controller_run_finishes:
  assumes "config_ok cf" "list_all all_done obs" "6 * length (cf_work cf) + 5 \<le> length obs"
  shows "finished_point (fst (controller_run cf obs))"
  unfolding controller_run_def
proof (rule controller_finishes [OF assms(1,2)])
  show "loop_ok cf (Loop_test, controller_start cf)" using accounted_start [OF assms(1)] by (auto simp: loop_ok_def)
  show "point_ok Loop_test (controller_start cf)" by simp
  show "remaining (Loop_test, controller_start cf) \<le> length obs"
    using assms(3) by (simp add: remaining_def controller_start_def)
qed

text \<open>C15: The service controller loses and duplicates no attempt: at every point of every execution
  each attempt is in exactly one of pending, active, completed and unresolved.\<close>

theorem controller_partitions_work:
  assumes "config_ok cf" and "controller_run cf obs = (point, st)"
  shows "mset (map sw_attempt_id (cs_pending st) @ map sw_attempt_id (cs_active st)
      @ map fst (cs_completed st) @ cs_unresolved st) = mset (map sw_attempt_id (cf_work cf))"
  using accounted_partition run_ok [OF assms] by metis

theorem controller_partitions_work_witness:
  "\<exists>point st. controller_run config_example [observation_example, observation_example] = (point, st)
     \<and> mset (map sw_attempt_id (cs_pending st) @ map sw_attempt_id (cs_active st)
      @ map fst (cs_completed st) @ cs_unresolved st) = {#''a-1'', ''a-2''#}"
proof -
  obtain point st where r: "controller_run config_example [observation_example, observation_example] = (point, st)"
    by (cases "controller_run config_example [observation_example, observation_example]") auto
  have "mset (map sw_attempt_id (cf_work config_example)) = {#''a-1'', ''a-2''#}"
    by (simp add: config_example_def work_example_def)
  with controller_partitions_work [OF config_example_ok r] r show ?thesis by simp
qed

text \<open>C2: The credit charged is always exactly the reservations of the active and unresolved attempts
  plus what the completed ones retain; it stays within the limit in every dimension, and no more
  attempts run than the configured number. No arithmetic step of the loop can raise.\<close>

theorem controller_credits_exact:
  assumes "config_ok cf" and "controller_run cf obs = (point, st)"
  shows "point \<noteq> Escaped
    \<and> rcv_fits (cs_credits st) (cf_credits_limit cf)
    \<and> int (length (cs_active st)) \<le> cf_max_in_flight cf
    \<and> (\<exists>finished lost. map sw_attempt_id finished = map fst (cs_completed st)
        \<and> map sw_attempt_id lost = cs_unresolved st \<and> set finished \<union> set lost \<subseteq> set (cf_work cf)
        \<and> (\<forall>i < 14. rcv_comps (cs_credits st) ! i =
             sum_list (map (\<lambda>w. rcv_comps (sw_reservation w) ! i) (cs_active st @ lost))
             + sum_list (map (\<lambda>w. rcv_comps (sw_retained_after_disposal w) ! i) finished)))"
proof -
  obtain finished lost where acc: "accounted cf st finished lost" and ok: "loop_ok cf (point, st)"
    using assms by (rule run_ok)
  have "set (cs_pending st @ cs_active st @ finished @ lost) = set (cf_work cf)"
    using acc by (metis accounted_def set_mset_mset)
  then have sub: "set finished \<union> set lost \<subseteq> set (cf_work cf)" by auto
  have total: "rcv_comps (cs_credits st) ! i = sum_list (map (\<lambda>w. rcv_comps (sw_reservation w) ! i) (cs_active st @ lost))
      + sum_list (map (\<lambda>w. rcv_comps (sw_retained_after_disposal w) ! i) finished)" if "i < 14" for i
    using acc that by (simp add: accounted_def rcv.is_total_def component_total_def comp_def)
  have "map sw_attempt_id finished = map fst (cs_completed st)" "map sw_attempt_id lost = cs_unresolved st"
    "rcv_fits (cs_credits st) (cf_credits_limit cf)" "int (length (cs_active st)) \<le> cf_max_in_flight cf"
    using acc by (simp_all add: accounted_def)
  with ok sub total show ?thesis unfolding loop_ok_def by blast
qed

theorem controller_credits_exact_witness:
  "rcv_fits (cs_credits (snd (controller_run config_example [observation_example]))) (cf_credits_limit config_example)"
  using controller_credits_exact [OF config_example_ok, of "[observation_example]"]
  by (metis prod.collapse)

text \<open>C16: The reported result is honest: when the controller finishes, every attempt is reported
  once as completed, not started or unresolved; \<open>exhausted\<close> means that all attempts completed, \<open>stopped\<close>
  that some were not started and none is unresolved, and an unresolved attempt always makes the
  result a failure.\<close>

theorem controller_result_honest:
  assumes "config_ok cf" and "controller_run cf obs = (Finished r, st)"
  shows "mset (map sc_attempt_id (cr_completed r) @ cr_not_started r @ cr_unresolved r)
      = mset (map sw_attempt_id (cf_work cf))
    \<and> (cr_unresolved r \<noteq> [] \<longrightarrow> cr_terminal r = Failed)
    \<and> (cr_terminal r = Exhausted \<longrightarrow> cr_not_started r = [] \<and> cr_unresolved r = [])
    \<and> (cr_terminal r = Stopped \<longrightarrow> cr_not_started r \<noteq> [] \<and> cr_unresolved r = [])"
proof -
  obtain finished lost where acc: "accounted cf st finished lost" and ok: "loop_ok cf (Finished r, st)"
    using assms by (rule run_ok)
  from ok have active: "cs_active st = []" and r: "r = controller_result_of cf st" by (auto simp: loop_ok_def)
  let ?W = "map sw_attempt_id (cf_work cf)" and ?C = "map fst (cs_completed st)"
  have part: "mset (map sw_attempt_id (cs_pending st)) + mset ?C + mset (cs_unresolved st) = mset ?W"
    using accounted_partition [OF acc] active by (simp add: ac_simps)
  have ids: "distinct ?W"
    using assms(1) by (simp add: config_ok_def controller_inputs_def)
  have "distinct (map sw_attempt_id (cs_pending st) @ ?C @ cs_unresolved st)"
    using part ids by (metis add.assoc mset_append mset_eq_imp_distinct_iff)
  then have dist: "distinct ?C" "distinct (cs_unresolved st)" by auto
  have "set ?W = set (map sw_attempt_id (cs_pending st)) \<union> set ?C \<union> set (cs_unresolved st)"
    using arg_cong [OF part, of set_mset] by (simp only: set_mset_union set_mset_mset)
  then have sub: "set ?C \<subseteq> set ?W" "set (cs_unresolved st) \<subseteq> set ?W" by auto
  have "\<forall>(a, c) \<in> set (cs_completed st). sc_attempt_id c = a" using acc by (simp add: accounted_def)
  then have completed: "map sc_attempt_id (cr_completed r) = filter (\<lambda>a. a \<in> set ?C) ?W"
    unfolding r controller_result_of_def by (simp add: completed_ids)
  have "mset (map sc_attempt_id (cr_completed r)) = mset ?C"
    unfolding completed by (rule filter_members [OF ids dist(1) sub(1)])
  moreover have "mset (cr_unresolved r) = mset (cs_unresolved st)"
    using filter_members [OF ids dist(2) sub(2)] by (simp add: r controller_result_of_def)
  moreover have "cr_not_started r = map sw_attempt_id (cs_pending st)"
    by (simp add: r controller_result_of_def)
  ultimately have all: "mset (map sc_attempt_id (cr_completed r) @ cr_not_started r @ cr_unresolved r) = mset ?W"
    using part by (simp add: ac_simps)
  have "cr_unresolved r = []" if "cs_failures st = 0"
    using acc that by (auto simp: accounted_def r controller_result_of_def)
  then have "cr_unresolved r \<noteq> [] \<longrightarrow> cr_terminal r = Failed"
    "cr_terminal r = Exhausted \<longrightarrow> cr_not_started r = [] \<and> cr_unresolved r = []"
    "cr_terminal r = Stopped \<longrightarrow> cr_not_started r \<noteq> [] \<and> cr_unresolved r = []"
    by (auto simp: r controller_result_of_def)
  with all show ?thesis by blast
qed

theorem controller_result_honest_witness:
  "\<exists>r st. controller_run config_example (replicate 20 observation_example) = (Finished r, st)
     \<and> (cr_terminal r = Exhausted \<longrightarrow> cr_unresolved r = [])"
proof -
  have "finished_point (fst (controller_run config_example (replicate 20 observation_example)))"
    by (rule controller_run_finishes [OF config_example_ok])
      (auto simp: all_done_def observation_example_def config_example_def list_all_iff)
  then obtain r st where "controller_run config_example (replicate 20 observation_example) = (Finished r, st)"
    by (cases "controller_run config_example (replicate 20 observation_example)")
       (auto simp: finished_point_def split: controller_point.splits)
  with controller_result_honest [OF config_example_ok this] show ?thesis by blast
qed

text \<open>C17: The controller terminates: once every future it looks at is done, it finishes within
  \<open>6 * n + 5\<close> blocks for \<open>n\<close> attempts, whatever the callbacks, the stop test and the
  dispatches answer.\<close>

theorem controller_terminates:
  assumes "config_ok cf" and "list_all all_done obs" and "6 * length (cf_work cf) + 5 \<le> length obs"
  shows "\<exists>r st. controller_run cf obs = (Finished r, st)"
proof -
  have "finished_point (fst (controller_run cf obs))"
    by (rule controller_run_finishes [OF assms])
  then show ?thesis
    by (cases "controller_run cf obs") (auto simp: finished_point_def split: controller_point.splits)
qed

theorem controller_terminates_witness:
  "\<exists>r st. controller_run config_example (replicate 20 observation_example) = (Finished r, st)"
  by (rule controller_terminates [OF config_example_ok])
     (auto simp: all_done_def observation_example_def config_example_def list_all_iff)

text \<open>Refilling is oldest-first among what fits: the index it selects is the first pending attempt
  whose reservation fits the free credit, and it selects none only when none fits.\<close>

theorem refill_oldest_fitting:
  assumes "rcv_sub limit credits = Inr room"
  shows "first_fitting (rcv_sub limit credits) 0 pending =
    Inr (if \<exists>i < length pending. rcv_fits (sw_reservation (pending ! i)) room
         then Some (LEAST i. rcv_fits (sw_reservation (pending ! i)) room \<and> i < length pending) else None)"
proof (cases "first_fitting (rcv_sub limit credits) 0 pending")
  case (Inl e)
  have "first_fitting (Inr room) i ps \<noteq> Inl e" for i ps
    by (induction ps arbitrary: i) auto
  with Inl assms show ?thesis by auto
next
  case (Inr sel)
  show ?thesis
  proof (cases sel)
    case (Some i)
    from first_fitting_Some [OF Inr [unfolded Some]] assms
    have i: "i < length pending" "rcv_fits (sw_reservation (pending ! i)) room"
        "\<forall>k < i. \<not> rcv_fits (sw_reservation (pending ! k)) room" by auto
    then have "(LEAST i. rcv_fits (sw_reservation (pending ! i)) room \<and> i < length pending) = i"
      by (intro Least_equality) (auto simp: not_less [symmetric])
    with i Inr Some show ?thesis by auto
  next
    case None
    have "\<forall>p \<in> set ps. \<not> rcv_fits (sw_reservation p) room" if "first_fitting (Inr room) i ps = Inr None" for i ps
      using that by (induction ps arbitrary: i) (auto split: if_splits)
    with Inr None assms show ?thesis by auto
  qed
qed

theorem refill_oldest_fitting_witness:
  "first_fitting (rcv_sub (cf_credits_limit config_example) rcv_zero) 0 (cf_work config_example) = Inr (Some 0)"
proof -
  have v: "valid_rcv (cf_credits_limit config_example)" using config_example_ok by (simp add: config_ok_def)
  have fits: "rcv_fits (sw_reservation (cf_work config_example ! 0)) (cf_credits_limit config_example)"
    by (simp add: config_example_def work_example_def rcv_fits_def rcv_comps_def)
  have least: "(LEAST i. rcv_fits (sw_reservation (cf_work config_example ! i)) (cf_credits_limit config_example)
      \<and> i < length (cf_work config_example)) = 0"
    using fits by (intro Least_equality) (auto simp: config_example_def)
  have ex: "\<exists>i < length (cf_work config_example). rcv_fits (sw_reservation (cf_work config_example ! i)) (cf_credits_limit config_example)"
    using fits by (intro exI [of _ 0]) (simp add: config_example_def)
  show ?thesis
    by (simp only: refill_oldest_fitting [OF rcv.sub_zero [OF v]] least if_P [OF ex])
qed

end
