(* ===== verification/PathProperties.thy ===== *)
theory PathProperties
  imports LifecycleBase
begin

text \<open>
  What the deterministic resource paths guarantee: each of them is a canonical safe relative
  path, those of one attempt are pairwise distinct, and equal paths mean equal identities unless
  SHA-256 collides on the two named inputs.
\<close>

subsection \<open>Canonical safe relative paths\<close>

definition safe_char :: "char \<Rightarrow> bool" where
  "safe_char c \<longleftrightarrow> c \<noteq> CHR ''/'' \<and> c \<noteq> CHR 0x5C \<and> c \<noteq> CHR '':'' \<and> \<not> control c"

definition safe_part :: "string \<Rightarrow> bool" where
  "safe_part p \<longleftrightarrow> p \<noteq> '''' \<and> p \<noteq> ''.'' \<and> p \<noteq> ''..'' \<and> list_all safe_char p"

lemma split_join: "ps \<noteq> [] \<Longrightarrow> (\<And>p. p \<in> set ps \<Longrightarrow> d \<notin> set p) \<Longrightarrow> split_on d (join_with [d] ps) = ps"
proof (induction ps rule: induct_list012)
  case (3 p q ps)
  then have "split_on d (join_with [d] (q # ps)) = q # ps" by simp
  with "3.prems" show ?case by (simp add: split_on_append)
qed (auto simp: split_on_free)

lemma dropWhile_hd: "v = [] \<or> \<not> P (hd v) \<Longrightarrow> dropWhile P v = v"
  by (cases v) auto

lemma py_strip_ends: "py_strip v = v \<longleftrightarrow> v = [] \<or> \<not> py_space (hd v) \<and> \<not> py_space (last v)"
proof
  assume strip: "py_strip v = v"
  show "v = [] \<or> \<not> py_space (hd v) \<and> \<not> py_space (last v)"
  proof (cases "v = []")
    case False
    let ?u = "dropWhile py_space v"
    let ?w = "dropWhile py_space (rev ?u)"
    from strip have w: "rev ?w = v" by (simp add: py_strip_def)
    then have "length v = length ?w" by (metis length_rev)
    then have u: "length v \<le> length ?u"
      using length_dropWhile_le [of py_space "rev ?u"] by simp
    have "\<not> py_space (hd v)"
    proof
      assume "py_space (hd v)"
      then have "?u = dropWhile py_space (tl v)" using False by (cases v) auto
      then show False using u False length_dropWhile_le [of py_space "tl v"] by (cases v) auto
    qed
    moreover have "?w \<noteq> []" using w False by (metis rev.simps(1))
    then have "\<not> py_space (last (rev ?w))" using hd_dropWhile [of py_space "rev ?u"] by (simp add: last_rev)
    ultimately show ?thesis using w by simp
  qed simp
next
  assume "v = [] \<or> \<not> py_space (hd v) \<and> \<not> py_space (last v)"
  then show "py_strip v = v"
    by (auto simp: py_strip_def dropWhile_hd hd_rev)
qed

lemma safe_part_no_slash: "safe_part p \<Longrightarrow> CHR ''/'' \<notin> set p"
  by (auto simp: safe_part_def safe_char_def list_all_iff)

lemma set_join: "c \<in> set (join_with d ps) \<Longrightarrow> c \<in> set d \<or> (\<exists>p \<in> set ps. c \<in> set p)"
  by (induction d ps rule: join_with.induct) auto

lemma hd_join: "ps \<noteq> [] \<Longrightarrow> hd ps \<noteq> [] \<Longrightarrow> hd (join_with d ps) = hd (hd ps)"
  by (cases ps; cases "tl ps") auto

lemma join_nonempty: "ps \<noteq> [] \<Longrightarrow> hd ps \<noteq> [] \<Longrightarrow> join_with d ps \<noteq> []"
  by (cases ps; cases "tl ps") auto

lemma last_join:
  "ps \<noteq> [] \<Longrightarrow> last ps \<noteq> [] \<Longrightarrow> join_with d ps \<noteq> [] \<and> last (join_with d ps) = last (last ps)"
  by (induction d ps rule: join_with.induct) (auto simp: last_append)

lemma safe_path:
  assumes "ps \<noteq> []" "list_all safe_part ps" "\<not> py_space (hd (hd ps))" "\<not> py_space (last (last ps))"
  shows "validate_relative_resource_path_v4 (join_with ''/'' ps) label = Inr ()"
proof -
  let ?v = "join_with ''/'' ps"
  have part: "safe_part p" if "p \<in> set ps" for p
    using assms(2) that by (simp add: list_all_iff)
  have ne: "hd ps \<noteq> []" "last ps \<noteq> []"
    using part [of "hd ps"] part [of "last ps"] assms(1) by (auto simp: safe_part_def)
  have split: "split_on (CHR ''/'') ?v = ps"
    using split_join [of ps "CHR ''/''"] part safe_part_no_slash assms(1) by auto
  have relative: "posix_relative_parts ?v = ps"
    using part by (auto simp: posix_relative_parts_def split filter_id_conv safe_part_def)
  have head: "hd ?v = hd (hd ps)" "?v \<noteq> []"
    using ne assms(1) by (simp_all add: hd_join join_nonempty)
  have "hd ?v \<noteq> CHR ''/''"
    using head safe_part_no_slash [OF part [of "hd ps"]] assms(1) ne by (metis hd_in_set)
  then have root: "\<not> is_prefix ''/'' ?v" "posix_root ?v = ''''"
    using head(2) by (cases ?v; auto simp: is_prefix_def posix_root_def)+
  have chars: "c = CHR ''/'' \<or> safe_char c" if "c \<in> set ?v" for c
    using set_join [OF that] part by (auto simp: safe_part_def list_all_iff)
  have strip: "py_strip ?v = ?v"
    using head ne assms by (simp add: py_strip_ends last_join)
  have slash: "\<not> control (CHR ''/'')" by (simp add: control_def code_def)
  have "\<not> list_ex control ?v" "CHR 0x5C \<notin> set ?v" "CHR '':'' \<notin> set ?v"
    using chars slash by (auto simp: list_ex_iff safe_char_def)
  moreover have "\<not> list_ex (\<lambda>p. p = '''' \<or> p = ''.'' \<or> p = ''..'') ps"
    using part by (auto simp: list_ex_iff safe_part_def)
  ultimately show ?thesis
    using strip head(2) root
    by (simp add: validate_relative_resource_path_v4_def split posix_str_def relative)
qed


subsection \<open>The paths of an attempt\<close>

lemma hex_safe: "c \<in> set hex_lower \<Longrightarrow> safe_char c \<and> \<not> py_space c"
  by (auto simp: hex_lower_def safe_char_def control_def py_space_def code_def Let_def)

lemma token_safe: "list_all safe_char (sha256_hex m)"
  using hex_safe sha256_hex_hex by (auto simp: list_all_iff)

lemma literal_safe:
  "safe_char c" if "c \<in> set ''abcdefghijklmnopqrstuvwxyz0123456789.-_''"
  using that by (auto simp: safe_char_def control_def code_def)

lemma component_safe: "path_component_ok v \<Longrightarrow> list_all safe_char v \<and> v \<noteq> '''' \<and> v \<noteq> ''.'' \<and> v \<noteq> ''..''
    \<and> \<not> py_space (hd v) \<and> \<not> py_space (last v)"
  using py_strip_ends [of v]
  by (auto simp: path_component_ok_def safe_char_def list_all_iff list_ex_iff control_def)

lemma token_nonempty: "sha256_hex m \<noteq> []"
  using length_sha256_hex [of m] by (metis list.size(3) zero_neq_numeral)

lemma last_token: "\<not> py_space (last (sha256_hex m))"
  using token_nonempty sha256_hex_hex hex_safe last_in_set by blast

lemmas safe_part_simps = safe_part_def token_safe literal_safe

text \<open>The three families, with their tokens named.\<close>

definition snapshot_paths :: "string \<Rightarrow> relpaths" where
  "snapshot_paths token =
     [(''snapshot'', ''spool/.upload-'' @ token @ ''.pdf''),
      (''snapshot_part'', ''spool/.upload-'' @ token @ ''.pdf.part''),
      (''snapshot_part_owner'', ''spool/.upload-'' @ token @ ''.pdf.part.owner.json''),
      (''snapshot_lock'', ''spool/.upload-'' @ token @ ''.lock'')]"

definition retained_paths :: "string \<Rightarrow> relpaths" where
  "retained_paths token =
     [(''spool'', ''spool/.retained-'' @ token @ ''.zip''),
      (''spool_part'', ''spool/.retained-'' @ token @ ''.zip.part''),
      (''spool_part_owner'', ''spool/.retained-'' @ token @ ''.zip.part.owner.json''),
      (''spool_lock'', ''spool/.retained-'' @ token @ ''.zip.lock'')]"

definition materialization_paths :: "string \<Rightarrow> string \<Rightarrow> relpaths" where
  "materialization_paths dir token =
     [(''staging'', ''materialization/.'' @ dir @ ''.materializing-'' @ token),
      (''staging_marker'', ''materialization/.'' @ dir @ ''.materializing-'' @ token
         @ ''/.agent-materialization-inflight.v1.json''),
      (''staging_lock'', ''spool/.materialization-locks/.'' @ dir @ ''.lock''),
      (''output'', ''materialization/'' @ dir)]"

lemma snapshot_relpaths_Inr:
  "staged_snapshot_relpaths a f s = Inr ps \<longleftrightarrow>
     is_sha s \<and> list_all (\<lambda>v. py_strip v \<noteq> '''') [a, f, drop 7 s]
     \<and> ps = snapshot_paths (sha256_hex (path_preimage [a, f, drop 7 s]))"
  by (auto simp: staged_snapshot_relpaths_def sha_hex_def path_digest_def snapshot_paths_def
      split: if_splits)

lemma retained_relpaths_Inr:
  "staged_retained_relpaths a f w s = Inr ps \<longleftrightarrow>
     is_sha s \<and> list_all (\<lambda>v. py_strip v \<noteq> '''') [a, f, w, drop 7 s]
     \<and> ps = retained_paths (sha256_hex (path_preimage [a, f, w, drop 7 s]))"
  by (auto simp: staged_retained_relpaths_def sha_hex_def path_digest_def retained_paths_def Let_def
      split: if_splits)

lemma materialization_relpaths_Inr:
  "staged_materialization_relpaths d a f s = Inr ps \<longleftrightarrow>
     path_component_ok d \<and> is_sha s \<and> list_all (\<lambda>v. py_strip v \<noteq> '''') [d, a, f, drop 7 s]
     \<and> ps = materialization_paths d (sha256_hex (path_preimage [d, a, f, drop 7 s]))"
  by (auto simp: staged_materialization_relpaths_def path_component_def sha_hex_def path_digest_def
      materialization_paths_def Let_def split: if_splits)

lemma two_part_path:
  "safe_part p \<Longrightarrow> safe_part q \<Longrightarrow> \<not> py_space (hd p) \<Longrightarrow> \<not> py_space (last q) \<Longrightarrow>
     validate_relative_resource_path_v4 (p @ CHR ''/'' # q) label = Inr ()"
  using safe_path [of "[p, q]" label] by simp

lemma three_part_path:
  "safe_part p \<Longrightarrow> safe_part q \<Longrightarrow> safe_part r \<Longrightarrow> \<not> py_space (hd p) \<Longrightarrow> \<not> py_space (last r) \<Longrightarrow>
     validate_relative_resource_path_v4 (p @ CHR ''/'' # q @ CHR ''/'' # r) label = Inr ()"
  using safe_path [of "[p, q, r]" label] by simp

lemma literal_space: "\<not> py_space c" if "c \<in> set ''abcdefghijklmnopqrstuvwxyz0123456789.-_''"
  using that by (auto simp: py_space_def code_def Let_def)

lemma spool_path:
  assumes "list_all safe_char q" "2 < length q" "\<not> py_space (last q)"
  shows "validate_relative_resource_path_v4 (''spool/'' @ q) label = Inr ()"
proof -
  have "safe_part q" using assms by (auto simp: safe_part_def)
  then show ?thesis
    using two_part_path [of "''spool''" q label] assms by (simp add: safe_part_simps literal_space)
qed

lemma snapshot_paths_safe:
  "(n, p) \<in> set (snapshot_paths (sha256_hex m)) \<Longrightarrow> validate_relative_resource_path_v4 p label = Inr ()"
  using spool_path [of "''.upload-'' @ sha256_hex m @ ''.pdf''" label]
    spool_path [of "''.upload-'' @ sha256_hex m @ ''.pdf.part''" label]
    spool_path [of "''.upload-'' @ sha256_hex m @ ''.pdf.part.owner.json''" label]
    spool_path [of "''.upload-'' @ sha256_hex m @ ''.lock''" label]
  by (auto simp: snapshot_paths_def token_safe literal_safe literal_space)

lemma retained_paths_safe:
  "(n, p) \<in> set (retained_paths (sha256_hex m)) \<Longrightarrow> validate_relative_resource_path_v4 p label = Inr ()"
  using spool_path [of "''.retained-'' @ sha256_hex m @ ''.zip''" label]
    spool_path [of "''.retained-'' @ sha256_hex m @ ''.zip.part''" label]
    spool_path [of "''.retained-'' @ sha256_hex m @ ''.zip.part.owner.json''" label]
    spool_path [of "''.retained-'' @ sha256_hex m @ ''.zip.lock''" label]
  by (auto simp: retained_paths_def token_safe literal_safe literal_space)

lemma materialization_paths_safe:
  assumes d: "path_component_ok d" and "(n, p) \<in> set (materialization_paths d (sha256_hex m))"
  shows "validate_relative_resource_path_v4 p label = Inr ()"
proof -
  let ?s = "CHR ''.'' # d @ ''.materializing-'' @ sha256_hex m"
  note dir = component_safe [OF d]
  have s: "safe_part ?s" "\<not> py_space (last ?s)"
    using dir last_token token_nonempty by (auto simp: safe_part_simps)
  have l: "safe_part (CHR ''.'' # d @ ''.lock'')" and d': "safe_part d"
    using dir by (auto simp: safe_part_simps)
  show ?thesis
    using assms(2) two_part_path [of "''materialization''" ?s label] s
      three_part_path [of "''materialization''" ?s "''.agent-materialization-inflight.v1.json''" label]
      three_part_path [of "''spool''" "''.materialization-locks''" "CHR ''.'' # d @ ''.lock''" label] l
      two_part_path [of "''materialization''" d label] d' dir
    by (auto simp: materialization_paths_def safe_part_simps literal_space)
qed

lemma dir_not_inside: "d \<noteq> CHR ''.'' # d @ xs"
proof
  assume "d = CHR ''.'' # d @ xs"
  then have "length d = length (CHR ''.'' # d @ xs)" by simp
  then show False by simp
qed

lemma paths_distinct_parts:
  "distinct (map snd (snapshot_paths t1))"
  "distinct (map snd (snapshot_paths t1 @ retained_paths t2 @ materialization_paths d t3))"
  using dir_not_inside [of d] by (auto simp: snapshot_paths_def retained_paths_def materialization_paths_def)


text \<open>\<open>utf8\<close> and the token input are injective: no null character occurs in an identity.\<close>

lemma utf8_char_inject: "utf8_char c @ xs = utf8_char d @ ys \<Longrightarrow> c = d \<and> xs = ys"
proof -
  assume eq: "utf8_char c @ xs = utf8_char d @ ys"
  have small: "code c < 256" "code d < 256"
    using of_char_mod_256 [of c, where ?'a = nat] of_char_mod_256 [of d, where ?'a = nat] mod_less_divisor [of 256]
    unfolding code_def by (metis zero_less_numeral)+
  have byte: "code (char_of (n :: nat)) = n mod 256" for n by (simp add: code_def)
  have two: "u = v" if "code u < 256" "code v < 256" "\<not> code u < 128" "\<not> code v < 128"
      "char_of (192 + code u div 64) = (char_of (192 + code v div 64) :: char)"
      "char_of (128 + code u mod 64) = (char_of (128 + code v mod 64) :: char)" for u v
  proof -
    have "code u div 64 < 4" "code v div 64 < 4" using that(1,2) by simp_all
    then have "code u div 64 = code v div 64" "code u mod 64 = code v mod 64"
      using arg_cong [OF that(5), of code] arg_cong [OF that(6), of code] unfolding byte by simp_all
    then have "code u = code v" by (metis mult_div_mod_eq)
    then show ?thesis by (simp add: code_def)
  qed
  have big: "\<not> code (char_of (192 + n div 64)) < 128" if "n < 256" for n :: nat
    using that unfolding byte by simp
  show ?thesis
    using eq two [of c d] small big [of "code c"] big [of "code d"]
    by (auto simp: utf8_char_def Let_def split: if_splits)
qed

lemma utf8_inject [simp]: "utf8 xs = utf8 ys \<longleftrightarrow> xs = ys"
proof
  have nonempty: "utf8_char c \<noteq> []" for c by (simp add: utf8_char_def Let_def)
  show "utf8 xs = utf8 ys \<Longrightarrow> xs = ys"
  proof (induction xs arbitrary: ys)
    case Nil
    then show ?case using nonempty by (cases ys) auto
  next
    case (Cons c xs)
    then obtain d ds where ys: "ys = d # ds" using nonempty by (cases ys) auto
    with Cons.prems utf8_char_inject [of c "utf8 xs" d "utf8 ds"] Cons.IH show ?case by simp
  qed
qed simp

lemma path_preimage_inject:
  assumes "\<And>v. v \<in> set xs \<union> set ys \<Longrightarrow> CHR 0x00 \<notin> set v" "xs \<noteq> []" "ys \<noteq> []"
  shows "path_preimage xs = path_preimage ys \<longleftrightarrow> xs = ys"
proof
  have xs: "split_on (CHR 0x00) (join_with [CHR 0x00] xs) = xs"
    by (rule split_join) (use assms in auto)
  have ys: "split_on (CHR 0x00) (join_with [CHR 0x00] ys) = ys"
    by (rule split_join) (use assms in auto)
  assume "path_preimage xs = path_preimage ys"
  then have "join_with [CHR 0x00] xs = join_with [CHR 0x00] ys" by (simp add: path_preimage_def)
  with xs ys show "xs = ys" by metis
qed simp

lemma identity_no_null: "identity_ok v \<Longrightarrow> CHR 0x00 \<notin> set v"
  by (auto simp: identity_ok_def list_ex_iff control_def code_def)

lemma sha_no_null:
  assumes "is_sha s"
  shows "CHR 0x00 \<notin> set (drop 7 s)"
proof
  assume "CHR 0x00 \<in> set (drop 7 s)"
  with assms have "CHR 0x00 \<in> set hex_lower" unfolding is_sha_def list_all_iff by blast
  then show False by (simp add: hex_lower_def)
qed

lemma sha_split:
  assumes "is_sha s"
  shows "s = ''sha256:'' @ drop 7 s"
proof -
  have "length ''sha256:'' = 7" by simp
  with assms have "take 7 s = ''sha256:''" unfolding is_sha_def is_prefix_def by metis
  then show ?thesis by (metis append_take_drop_id)
qed

lemma sha_drop_inject:
  assumes "is_sha s" "is_sha s'"
  shows "drop 7 s = drop 7 s' \<longleftrightarrow> s = s'"
proof
  assume "drop 7 s = drop 7 s'"
  then have "''sha256:'' @ drop 7 s = ''sha256:'' @ drop 7 s'" by (rule arg_cong)
  then show "s = s'" using sha_split [OF assms(1)] sha_split [OF assms(2)] by metis
qed simp

lemma sha_strip: "is_sha s \<Longrightarrow> py_strip (drop 7 s) \<noteq> ''''"
proof -
  assume s: "is_sha s"
  then have len: "length (drop 7 s) = 64" by (simp add: is_sha_def)
  then have ne: "drop 7 s \<noteq> []" by (metis list.size(3) zero_neq_numeral)
  then have "hd (drop 7 s) \<in> set hex_lower" "last (drop 7 s) \<in> set hex_lower"
    using s hd_in_set [OF ne] last_in_set [OF ne] unfolding is_sha_def list_all_iff by blast+
  then have "py_strip (drop 7 s) = drop 7 s" using hex_safe by (simp add: py_strip_ends)
  with ne show ?thesis by simp
qed

lemma identity_strip: "identity_ok v \<Longrightarrow> py_strip v \<noteq> ''''"
  by (auto simp: identity_ok_def)

lemma paths_before:
  "deterministic_local_resource_paths_v4 a f s None None None = Inr ps \<longleftrightarrow>
     identity_ok a \<and> identity_ok f \<and> is_sha s
     \<and> ps = snapshot_paths (sha256_hex (path_preimage [a, f, drop 7 s]))"
  by (auto simp: deterministic_local_resource_paths_v4_def snapshot_relpaths_Inr identity_strip sha_strip)

lemma paths_after:
  "deterministic_local_resource_paths_v4 a f s (Some w) (Some r) (Some d) = Inr ps \<longleftrightarrow>
     identity_ok a \<and> identity_ok f \<and> is_sha s \<and> identity_ok w \<and> is_sha r \<and> identity_ok d \<and> path_component_ok d
     \<and> ps = snapshot_paths (sha256_hex (path_preimage [a, f, drop 7 s]))
         @ retained_paths (sha256_hex (path_preimage [a, f, w, drop 7 r]))
         @ materialization_paths d (sha256_hex (path_preimage [d, a, f, drop 7 r]))"
  by (auto simp: deterministic_local_resource_paths_v4_def snapshot_relpaths_Inr retained_relpaths_Inr
      materialization_relpaths_Inr identity_strip sha_strip)

lemma paths_cases:
  assumes "deterministic_local_resource_paths_v4 a f s w r d = Inr ps"
  obtains "w = None" "r = None" "d = None"
  | w' r' d' where "w = Some w'" "r = Some r'" "d = Some d'"
  using assms by (cases w; cases r; cases d) (auto simp: deterministic_local_resource_paths_v4_def)


lemma token_utf8: "utf8 (sha256_hex m) = sha256_hex m"
proof -
  have "utf8 v = v" if "list_all (\<lambda>c. c \<in> set hex_lower) v" for v
    using that
  proof (induction v)
    case (Cons c v)
    then have "c \<in> set hex_lower" by simp
    then have "utf8_char c = [c]" by (auto simp: hex_lower_def utf8_char_def code_def)
    with Cons show ?case by simp
  qed simp
  then show ?thesis using sha256_hex_hex by (simp add: list_all_iff)
qed

lemma staging_name:
  assumes "path_component_ok d"
  shows "posix_name (''materialization/.'' @ d @ ''.materializing-'' @ sha256_hex m)
    = CHR ''.'' # d @ ''.materializing-'' @ sha256_hex m"
proof -
  let ?s = "CHR ''.'' # d @ ''.materializing-'' @ sha256_hex m"
  have "CHR ''/'' \<notin> set d" using assms by (simp add: path_component_ok_def)
  moreover have "CHR ''/'' \<notin> set (sha256_hex m)" using token_safe by (auto simp: list_all_iff safe_char_def)
  ultimately have "CHR ''/'' \<notin> set ?s" by simp
  then have "split_on (CHR ''/'') (''materialization'' @ CHR ''/'' # ?s) = [''materialization'', ?s]"
    by (subst split_on_append) (simp_all add: split_on_free)
  then have "posix_relative_parts (''materialization'' @ CHR ''/'' # ?s) = [''materialization'', ?s]"
    by (simp add: posix_relative_parts_def)
  then show ?thesis by (simp add: posix_name_def)
qed

lemma paths_safe_parts:
  "list_all (\<lambda>(_, path). validate_relative_resource_path_v4 path label = Inr ()) (snapshot_paths (sha256_hex m))"
  "list_all (\<lambda>(_, path). validate_relative_resource_path_v4 path label = Inr ()) (retained_paths (sha256_hex m))"
  "path_component_ok d \<Longrightarrow>
     list_all (\<lambda>(_, path). validate_relative_resource_path_v4 path label = Inr ()) (materialization_paths d (sha256_hex m))"
  using snapshot_paths_safe retained_paths_safe materialization_paths_safe
  by (auto simp: list_all_iff simp del: snd_conv)

lemma path_names_distinct:
  "distinct (map fst (snapshot_paths t1))"
  "distinct (map fst (snapshot_paths t1 @ retained_paths t2 @ materialization_paths d t3))"
  by (simp_all add: snapshot_paths_def retained_paths_def materialization_paths_def)

lemma identity_example: "identity_ok ''a''" "identity_ok ''f''" "identity_ok ''w''"
  by (simp_all add: identity_ok_def py_strip_def py_space_def utf8_char_def control_def code_def Let_def)

subsection \<open>Properties\<close>

text \<open>
  C22: Every path that \<open>deterministic_local_resource_paths_v4\<close> returns, with or without the
  post-terminal inputs, passes the module's own test of a canonical safe relative path, the names
  are distinct keys, and no two names share a path.
\<close>

theorem paths_are_safe:
  assumes "deterministic_local_resource_paths_v4 attempt fence source owner artifact dir = Inr paths"
  shows "list_all (\<lambda>(_, path). validate_relative_resource_path_v4 path label = Inr ()) paths
    \<and> distinct (map fst paths) \<and> distinct (map snd paths)"
  using assms
proof (cases rule: paths_cases)
  case 1
  with assms show ?thesis
    by (auto simp: paths_before intro: paths_safe_parts path_names_distinct paths_distinct_parts)
next
  case (2 w r d)
  with assms obtain m1 m2 m3 where d: "path_component_ok d"
      and paths: "paths = snapshot_paths (sha256_hex m1) @ retained_paths (sha256_hex m2)
        @ materialization_paths d (sha256_hex m3)"
    by (auto simp: paths_after)
  show ?thesis
    unfolding paths list_all_append
    using paths_safe_parts d path_names_distinct(2) paths_distinct_parts(2) by blast
qed

theorem paths_are_safe_witness:
  "distinct (map snd (snapshot_paths (sha256_hex (path_preimage [''a'', ''f'', drop 7 (digest ''pdf'')]))))"
  using paths_are_safe [of "''a''" "''f''" "digest ''pdf''" None None None]
  by (simp add: paths_before identity_example)

text \<open>
  \<open>deterministic_local_resource_paths_v4\<close> returns exactly when its inputs are well formed: the
  attempt and its fence are identities and the PDF hash is canonical; the artifact owner, the
  artifact hash and the output name are all absent, or all present and well formed, the output
  name also being a safe path component. Anything in between is refused.
\<close>

theorem paths_returned_exactly:
  "returns (deterministic_local_resource_paths_v4 attempt fence source owner artifact dir) =
     (identity_ok attempt \<and> identity_ok fence \<and> is_sha source \<and>
     (case (owner, artifact, dir) of
        (None, None, None) \<Rightarrow> True
      | (Some w, Some r, Some d) \<Rightarrow> identity_ok w \<and> is_sha r \<and> identity_ok d \<and> path_component_ok d
      | _ \<Rightarrow> False))"
proof (cases "owner = None \<and> artifact = None \<and> dir = None
    \<or> owner \<noteq> None \<and> artifact \<noteq> None \<and> dir \<noteq> None")
  case True
  then show ?thesis by (auto simp: returns_iff paths_before paths_after)
next
  case False
  have "\<not> returns (deterministic_local_resource_paths_v4 attempt fence source owner artifact dir)"
    using False by (auto simp: returns_iff elim: paths_cases)
  with False show ?thesis by (auto split: option.splits)
qed

text \<open>
  The name of a snapshot identifies its attempt up to a SHA-256 collision. Two attempts get
  the same snapshot path exactly when the hashes of their token inputs agree, and the token
  inputs agree only when attempt, fence and source PDF do: joining the identities by a null
  character and encoding them loses nothing.
\<close>

theorem snapshot_path_identifies_attempt:
  assumes "deterministic_local_resource_paths_v4 a f s None None None = Inr ps"
    and "deterministic_local_resource_paths_v4 a' f' s' None None None = Inr ps'"
  shows "(path_at ps ''snapshot'' = path_at ps' ''snapshot'') =
      (sha256_hex (path_preimage [a, f, drop 7 s]) = sha256_hex (path_preimage [a', f', drop 7 s']))
    \<and> (path_preimage [a, f, drop 7 s] = path_preimage [a', f', drop 7 s']) = (a = a' \<and> f = f' \<and> s = s')"
proof
  show "(path_at ps ''snapshot'' = path_at ps' ''snapshot'') =
      (sha256_hex (path_preimage [a, f, drop 7 s]) = sha256_hex (path_preimage [a', f', drop 7 s']))"
    using assms by (auto simp: paths_before path_at_def snapshot_paths_def)
  have "path_preimage [a, f, drop 7 s] = path_preimage [a', f', drop 7 s']
      \<longleftrightarrow> [a, f, drop 7 s] = [a', f', drop 7 s']"
    using assms by (intro path_preimage_inject) (auto simp: paths_before identity_no_null sha_no_null)
  then show "(path_preimage [a, f, drop 7 s] = path_preimage [a', f', drop 7 s']) = (a = a' \<and> f = f' \<and> s = s')"
    using assms by (simp add: paths_before sha_drop_inject)
qed

theorem snapshot_path_identifies_attempt_witness:
  "path_preimage [''a'', ''f'', drop 7 (digest ''pdf'')] \<noteq> path_preimage [''f'', ''a'', drop 7 (digest ''pdf'')]"
  using snapshot_path_identifies_attempt
    [of "''a''" "''f''" "digest ''pdf''" _ "''f''" "''a''" "digest ''pdf''"]
  by (simp add: paths_before identity_example)

text \<open>
  The staging directory of an accepted output name is eighty bytes longer than the name. The
  component test allows 255 bytes, so it does not bound the directory that is created from it:
  the staging name is within 255 bytes exactly for output names of at most 175 bytes.
\<close>

theorem staging_component_length:
  assumes "deterministic_local_resource_paths_v4 a f s (Some w) (Some r) (Some d) = Inr ps"
    and "path_at ps ''staging'' = Inr p"
  shows "length (utf8 (posix_name p)) = length (utf8 d) + 80
    \<and> (length (utf8 (posix_name p)) \<le> 255) = (length (utf8 d) \<le> 175)"
proof -
  let ?m = "path_preimage [d, a, f, drop 7 r]"
  have p: "p = ''materialization/.'' @ d @ ''.materializing-'' @ sha256_hex ?m" and d: "path_component_ok d"
    using assms by (auto simp: paths_after path_at_def snapshot_paths_def retained_paths_def materialization_paths_def)
  have "length (utf8 (posix_name p)) = length (utf8 d) + 80"
    unfolding p staging_name [OF d] by (simp add: token_utf8 utf8_char_def code_def)
  then show ?thesis by simp
qed

text \<open>An output name of 200 letters: accepted, while its staging directory needs 280 bytes.\<close>

definition long_output_name :: string where
  "long_output_name = replicate 200 (CHR ''n'')"

lemma long_output_name_ok: "identity_ok long_output_name" "path_component_ok long_output_name"
    "length (utf8 long_output_name) = 200"
proof -
  have utf8: "utf8 (replicate n (CHR ''n'')) = replicate n (CHR ''n'')" for n
    by (induction n) (auto simp: utf8_char_def code_def)
  have strip: "py_strip long_output_name = long_output_name"
    by (simp add: py_strip_ends long_output_name_def literal_space)
  have chars: "set long_output_name = {CHR ''n''}" by (simp add: long_output_name_def)
  have "length long_output_name = 200" "length '''' \<noteq> (200 :: nat)" "length ''.'' \<noteq> (200 :: nat)"
      "length ''..'' \<noteq> (200 :: nat)" by (simp_all add: long_output_name_def)
  then have short: "long_output_name \<noteq> ''''" "long_output_name \<noteq> ''.''" "long_output_name \<noteq> ''..''" by metis+
  show len: "length (utf8 long_output_name) = 200" by (simp add: utf8 long_output_name_def)
  show "identity_ok long_output_name" "path_component_ok long_output_name"
    using strip short
    by (simp_all add: identity_ok_def path_component_ok_def chars len list_ex_iff control_def code_def)
qed

theorem staging_component_length_witness:
  "\<exists>ps p. deterministic_local_resource_paths_v4 ''a'' ''f'' (digest ''pdf'') (Some ''w'') (Some (digest ''zip''))
       (Some long_output_name) = Inr ps
     \<and> path_at ps ''staging'' = Inr p \<and> \<not> length (utf8 (posix_name p)) \<le> 255"
proof -
  obtain ps where ps: "deterministic_local_resource_paths_v4 ''a'' ''f'' (digest ''pdf'') (Some ''w'')
      (Some (digest ''zip'')) (Some long_output_name) = Inr ps"
    by (simp add: paths_after identity_example long_output_name_ok)
  moreover obtain p where p: "path_at ps ''staging'' = Inr p"
    using ps by (auto simp: paths_after path_at_def snapshot_paths_def retained_paths_def materialization_paths_def)
  ultimately show ?thesis
    using staging_component_length [OF ps p] long_output_name_ok(3) by auto
qed

end
