(* ===== verification/RepositoryPort.thy ===== *)
theory RepositoryPort
  imports ExecutionSpec EvidenceBundle ResourceCreditEnvelope
begin

text \<open>
  \<open>application/ports/remote_parse_v4_repository.py\<close>: the values that cross the port of the lifecycle
  repository. A proposal holds the facts of a first head that do not depend on its generation;
  \<open>bind_v4_prepared_proposal\<close> turns it into a creation, whose constructor replays the evidence bundle; the
  two resource-free creations do the same for attempts that own nothing.
\<close>

text \<open>The hash and key tests of this module.\<close>

definition repo_sha :: "string \<Rightarrow> string \<Rightarrow> unit res" where
  "repo_sha v label = require (is_sha v) (label @ '' is not canonical'')"

lemma repo_sha_Inr [simp]: "repo_sha v label = Inr u \<longleftrightarrow> is_sha v"
  by (simp add: repo_sha_def)

definition submit_key_ok :: "string \<Rightarrow> bool" where
  "submit_key_ok v = (\<not> (\<not> nonblank v \<or> length (utf8 v) > 128))"

definition require_creation_head_roots :: "string \<Rightarrow> string \<Rightarrow> unit res" where
  "require_creation_head_roots target key = checks
     [repo_sha target ''v4 parser target'',
      require (submit_key_ok key) ''v4 client submit key is invalid'']"

definition repo_text :: "string \<Rightarrow> string \<Rightarrow> unit res" where
  "repo_text v msg = require (\<not> \<not> nonblank v) msg"

lemma repo_text_Inr [simp]: "repo_text v msg = Inr u \<longleftrightarrow> nonblank v"
  by (simp add: repo_text_def)

subsection \<open>Heads and links\<close>

record head_expectation =
  he_attempt_id :: string
  he_fence_identity :: string
  he_state :: string
  he_lifecycle_version :: int
  he_checkpoint_sha256 :: string

definition head_post_init :: "head_expectation \<Rightarrow> unit res" where
  "head_post_init h = checks
     [repo_text (he_attempt_id h) ''v4 head attempt is invalid'',
      repo_text (he_fence_identity h) ''v4 head fence is invalid'',
      repo_text (he_state h) ''v4 head state is invalid'',
      require (in_range (he_lifecycle_version h)) ''v4 head lifecycle version is invalid'',
      repo_sha (he_checkpoint_sha256 h) ''v4 head checkpoint'']"

definition mk_head :: "head_expectation \<Rightarrow> head_expectation res" where
  "mk_head h = construct (head_post_init h) h"

record supersession_link =
  sl_source_attempt_id :: string
  sl_source_fence_identity :: string
  sl_source_supersession_receipt_sha256 :: string
  sl_superseding_attempt_id :: string
  sl_superseding_fence_identity :: string
  sl_superseding_checkpoint_sha256 :: string

definition link_post_init :: "supersession_link \<Rightarrow> unit res" where
  "link_post_init l = checks
     [repo_text (sl_source_attempt_id l) ''v4 supersession source attempt is invalid'',
      repo_text (sl_source_fence_identity l) ''v4 supersession source fence is invalid'',
      repo_text (sl_superseding_attempt_id l) ''v4 supersession superseding attempt is invalid'',
      repo_text (sl_superseding_fence_identity l) ''v4 supersession superseding fence is invalid'',
      require (\<not> sl_source_attempt_id l = sl_superseding_attempt_id l) ''v4 supersession link self-references'',
      repo_sha (sl_source_supersession_receipt_sha256 l) ''v4 supersession receipt'',
      repo_sha (sl_superseding_checkpoint_sha256 l) ''v4 superseding checkpoint'']"

definition mk_link :: "supersession_link \<Rightarrow> supersession_link res" where
  "mk_link l = construct (link_post_init l) l"

subsection \<open>The proposal\<close>

record prepared_proposal =
  pp_document_id :: string
  pp_processing_run_id :: string
  pp_prepared_submission :: prepared_submission
  pp_credit_envelope :: resource_credit_envelope
  pp_execution_spec :: execution_spec

definition proposal_post_init :: "prepared_proposal \<Rightarrow> unit res" where
  "proposal_post_init p = checks
     [repo_text (pp_document_id p) ''v4 prepared proposal document is invalid'',
      repo_text (pp_processing_run_id p) ''v4 prepared proposal processing run is invalid'',
      require (\<not> xs_prepared_submission (pp_execution_spec p) \<noteq> pp_prepared_submission p)
        ''v4 prepared proposal execution spec is invalid'',
      require (\<not> ps_source_pdf_sha256 (pp_prepared_submission p)
          \<noteq> ri_source_pdf_sha256 (eri_value (env_reservation_input (pp_credit_envelope p))))
        ''v4 prepared proposal source identity drifted'']"

definition mk_proposal :: "prepared_proposal \<Rightarrow> prepared_proposal res" where
  "mk_proposal p = construct (proposal_post_init p) p"

subsection \<open>The creation\<close>

record prepared_creation =
  cr_checkpoint :: remote_parse_checkpoint
  cr_reservation :: resource_reservation
  cr_preparation_intent :: preparation_intent
  cr_snapshot_receipt :: "snapshot_receipt option"
  cr_parser_target_sha256 :: string
  cr_client_submit_key :: string
  cr_execution_spec :: execution_spec

text \<open>\<open>require_v4_execution_spec_binding\<close>, whose hashes are computed before the comparison\<close>

definition spec_binds ::
  "execution_spec \<Rightarrow> resource_reservation \<Rightarrow> preparation_intent \<Rightarrow> string \<Rightarrow> string \<Rightarrow> string \<Rightarrow> int \<Rightarrow> string \<Rightarrow> bool"
where
  "spec_binds x r i target key sha bytes rsha =
     (let p = xs_prepared_submission x in \<not>
     (sha \<noteq> pi_execution_spec_sha256 i
      \<or> bytes \<noteq> pi_execution_spec_byte_count i
      \<or> ps_attempt_identity p \<noteq> attempt_id r
      \<or> ps_fence_identity p \<noteq> fence_identity r
      \<or> ps_source_pdf_sha256 p \<noteq> rv_source_pdf_sha256 r
      \<or> ps_sha256 p \<noteq> rv_prepared_submission_identity_sha256 r
      \<or> ps_request_sha256 p \<noteq> rv_request_sha256 r
      \<or> ps_runtime_bundle_identity_sha256 p \<noteq> rv_runtime_epoch_sha256 r
      \<or> ps_parser_target_identity_sha256 p \<noteq> target
      \<or> ps_client_submit_key p \<noteq> key
      \<or> xs_process_profile_sha256 x \<noteq> rv_process_profile_sha256 r
      \<or> pi_reservation_sha256 i \<noteq> rsha))"

definition require_v4_execution_spec_binding ::
  "execution_spec option \<Rightarrow> resource_reservation \<Rightarrow> preparation_intent \<Rightarrow> string \<Rightarrow> string \<Rightarrow> unit res" where
  "require_v4_execution_spec_binding x r i target key =
     (case x of
        None \<Rightarrow> Inl (ValueError ''resourceful v4 authority lacks an exact execution spec'')
      | Some x \<Rightarrow>
          bindR (spec_sha256 x) (\<lambda>sha.
          bindR (spec_byte_count x) (\<lambda>bytes.
          bindR (reservation_sha256 r) (\<lambda>rsha.
            require (spec_binds x r i target key sha bytes rsha)
              ''v4 execution spec drifted from immutable H0 authority''))))"

definition check_creation_shape :: "prepared_creation \<Rightarrow> unit res" where
  "check_creation_shape n =
     require (\<not> (cp_state (cr_checkpoint n) \<noteq> Prepared \<or> cp_lifecycle_version (cr_checkpoint n) \<noteq> 0))
       ''v4 prepared creation shape is invalid''"

text \<open>A checkpoint hash is never empty; the comparison with the empty text only forces it to exist.\<close>

definition check_creation_evidence :: "prepared_creation \<Rightarrow> unit res" where
  "check_creation_evidence n = (let c = cr_checkpoint n; i = cr_preparation_intent n in
     bindR (require (attempt_id c = attempt_id (cr_reservation n)) ''v4 prepared creation evidence drifted'') (\<lambda>_.
     bindR (checkpoint_sha256 c) (\<lambda>csha.
     bindR (value_sha (Preparation_value i)) (\<lambda>isha.
     bindR (case cr_snapshot_receipt n of None \<Rightarrow> Inr None
       | Some s \<Rightarrow> bindR (value_sha (Snapshot_value s)) (\<lambda>sha. Inr (Some sha))) (\<lambda>snapshot.
       require (\<not> (csha = ''''
           \<or> cp_evidence c Preparation_intent \<noteq> Some isha
           \<or> cp_evidence c Snapshot_receipt \<noteq> snapshot
           \<or> pi_parser_target_sha256 i \<noteq> cr_parser_target_sha256 n))
         ''v4 prepared creation evidence drifted'')))))"

definition creation_evidence :: "prepared_creation \<Rightarrow> encoded_evidence list res" where
  "creation_evidence n =
     bindR (encode_remote_parse_evidence_v4 (Preparation_value (cr_preparation_intent n))) (\<lambda>i.
     case cr_snapshot_receipt n of
       None \<Rightarrow> Inr [i]
     | Some s \<Rightarrow> bindR (encode_remote_parse_evidence_v4 (Snapshot_value s)) (\<lambda>e. Inr [i, e]))"

text \<open>The keyword arguments that a call of the bundle validator leaves out are \<open>None\<close>.\<close>

definition plain_bundle :: "remote_parse_checkpoint \<Rightarrow> encoded_evidence list \<Rightarrow> bundle_inputs" where
  "plain_bundle c es =
     \<lparr>bi_checkpoint = c, bi_evidence = es, bi_reservation = None, bi_cleanup_source = None, bi_history = None,
      bi_cleanup_pending = None, bi_ack_pending = None, bi_superseding_checkpoint = None,
      bi_superseding_reservation = None, bi_superseding_preparation = None, bi_superseding_snapshot = None\<rparr>"

definition creation_bundle :: "prepared_creation \<Rightarrow> encoded_evidence list \<Rightarrow> bundle_inputs" where
  "creation_bundle n es = (plain_bundle (cr_checkpoint n) es)
     \<lparr>bi_reservation := Some (cr_reservation n), bi_history := Some [cr_checkpoint n]\<rparr>"

definition creation_post_init :: "prepared_creation \<Rightarrow> unit res" where
  "creation_post_init n = checks
     [check_creation_shape n, check_creation_evidence n,
      require_creation_head_roots (cr_parser_target_sha256 n) (cr_client_submit_key n),
      bindR (creation_evidence n) (\<lambda>es. validate_durable_remote_parse_evidence_bundle_v4 (creation_bundle n es)),
      require_v4_execution_spec_binding (Some (cr_execution_spec n)) (cr_reservation n) (cr_preparation_intent n)
        (cr_parser_target_sha256 n) (cr_client_submit_key n)]"

definition mk_creation :: "prepared_creation \<Rightarrow> prepared_creation res" where
  "mk_creation n = construct (creation_post_init n) n"

subsection \<open>Binding a proposal to a generation\<close>

definition proposal_identity :: "prepared_proposal \<Rightarrow> attempt_identity" where
  "proposal_identity p =
     \<lparr>attempt_id = ps_attempt_identity (pp_prepared_submission p),
      fence_identity = ps_fence_identity (pp_prepared_submission p),
      document_id = pp_document_id p, processing_run_id = pp_processing_run_id p\<rparr>"

definition proposal_reservation :: "prepared_proposal \<Rightarrow> int \<Rightarrow> resource_reservation res" where
  "proposal_reservation p generation =
     (let e = pp_credit_envelope p; input = env_reservation_input e; source = eri_value input;
          s = pp_prepared_submission p
      in build_resource_reservation_v4 (proposal_identity p) generation (ri_source_pdf_sha256 source)
           (ri_source_byte_count source) (ri_source_page_count source) (ps_sha256 s) (ps_request_sha256 s)
           (ps_runtime_bundle_identity_sha256 s) (env_process_profile_sha256 e) (env_credit_policy_sha256 e)
           (ri_bucket source) (eri_sha256 input) (env_reservation e))"

definition bind_v4_prepared_proposal :: "prepared_proposal \<Rightarrow> int \<Rightarrow> prepared_creation res" where
  "bind_v4_prepared_proposal p generation =
     (let s = pp_prepared_submission p; x = pp_execution_spec p in
      bindR (proposal_reservation p generation) (\<lambda>r.
      bindR (spec_sha256 x) (\<lambda>sha.
      bindR (spec_byte_count x) (\<lambda>bytes.
      bindR (build_preparation_intent_v4 r (ps_parser_target_identity_sha256 s) sha bytes) (\<lambda>i.
      bindR (value_sha (Preparation_value i)) (\<lambda>isha.
      bindR (mk_rcv (snapshot_credit (ri_source_byte_count (eri_value (env_reservation_input (pp_credit_envelope p))))))
        (\<lambda>held.
      bindR (build_initial_remote_parse_checkpoint_v4 r isha held None) (\<lambda>c.
        mk_creation
          \<lparr>cr_checkpoint = c, cr_reservation = r, cr_preparation_intent = i, cr_snapshot_receipt = None,
           cr_parser_target_sha256 = ps_parser_target_identity_sha256 s,
           cr_client_submit_key = ps_client_submit_key s, cr_execution_spec = x\<rparr>))))))))"

subsection \<open>Attempts that own nothing\<close>

record failure_creation =
  fc_checkpoint :: remote_parse_checkpoint
  fc_failure_receipt :: failure_receipt
  fc_parser_target_sha256 :: string
  fc_client_submit_key :: string

definition check_failure_creation :: "failure_creation \<Rightarrow> unit res" where
  "check_failure_creation n = (let c = fc_checkpoint n; f = fc_failure_receipt n in
     bindR (require (cp_state c = Preparation_failed \<and> cp_lifecycle_version c = 0
         \<and> fr_outcome f = Preparation_failure_outcome)
       ''v4 resource-free failure creation drifted'') (\<lambda>_.
     bindR (value_sha (Failure_value f)) (\<lambda>sha.
       require (\<not> (cp_evidence c Failure_receipt \<noteq> Some sha
           \<or> fe_attempt_id f \<noteq> attempt_id c
           \<or> fe_fence_identity f \<noteq> fence_identity c))
         ''v4 resource-free failure creation drifted'')))"

definition failure_creation_post_init :: "failure_creation \<Rightarrow> unit res" where
  "failure_creation_post_init n = checks
     [check_failure_creation n,
      require_creation_head_roots (fc_parser_target_sha256 n) (fc_client_submit_key n),
      bindR (encode_remote_parse_evidence_v4 (Failure_value (fc_failure_receipt n))) (\<lambda>e.
        validate_durable_remote_parse_evidence_bundle_v4 (plain_bundle (fc_checkpoint n) [e]))]"

definition mk_failure_creation :: "failure_creation \<Rightarrow> failure_creation res" where
  "mk_failure_creation n = construct (failure_creation_post_init n) n"

record supersession_creation =
  sc_source_checkpoint :: remote_parse_checkpoint
  sc_supersession_receipt :: supersession_receipt
  sc_source_parser_target_sha256 :: string
  sc_source_client_submit_key :: string
  sc_superseding :: prepared_creation

definition supersession_names :: "supersession_creation \<Rightarrow> string \<Rightarrow> string \<Rightarrow> bool" where
  "supersession_names n ssha csha =
     (let c = sc_source_checkpoint n; s = sc_supersession_receipt n; d = cr_checkpoint (sc_superseding n) in \<not>
     (cp_evidence c Supersession_receipt \<noteq> Some ssha
      \<or> fe_attempt_id s \<noteq> attempt_id c
      \<or> fe_fence_identity s \<noteq> fence_identity c
      \<or> ss_source_document_id s \<noteq> document_id c
      \<or> ss_source_attempt_generation s \<noteq> cp_attempt_generation c
      \<or> ss_superseding_attempt_id s \<noteq> attempt_id d
      \<or> ss_superseding_attempt_generation s \<noteq> cp_attempt_generation d
      \<or> ss_superseding_document_id s \<noteq> document_id d
      \<or> ss_superseding_checkpoint_sha256 s \<noteq> csha))"

definition check_supersession_creation :: "supersession_creation \<Rightarrow> unit res" where
  "check_supersession_creation n = (let c = sc_source_checkpoint n in
     bindR (require (cp_state c = Superseded \<and> cp_lifecycle_version c = 0)
       ''v4 resource-free supersession creation drifted'') (\<lambda>_.
     bindR (value_sha (Supersession_value (sc_supersession_receipt n))) (\<lambda>ssha.
     bindR (checkpoint_sha256 (cr_checkpoint (sc_superseding n))) (\<lambda>csha.
       require (supersession_names n ssha csha) ''v4 resource-free supersession creation drifted''))))"

definition supersession_bundle :: "supersession_creation \<Rightarrow> encoded_evidence \<Rightarrow> bundle_inputs" where
  "supersession_bundle n e = (let d = sc_superseding n in
     (plain_bundle (sc_source_checkpoint n) [e])
       \<lparr>bi_superseding_checkpoint := Some (cr_checkpoint d),
        bi_superseding_reservation := Some (cr_reservation d),
        bi_superseding_preparation := Some (cr_preparation_intent d),
        bi_superseding_snapshot := cr_snapshot_receipt d\<rparr>)"

definition supersession_creation_post_init :: "supersession_creation \<Rightarrow> unit res" where
  "supersession_creation_post_init n = checks
     [check_supersession_creation n,
      require_creation_head_roots (sc_source_parser_target_sha256 n) (sc_source_client_submit_key n),
      bindR (encode_remote_parse_evidence_v4 (Supersession_value (sc_supersession_receipt n))) (\<lambda>e.
        validate_durable_remote_parse_evidence_bundle_v4 (supersession_bundle n e))]"

definition mk_supersession_creation :: "supersession_creation \<Rightarrow> supersession_creation res" where
  "mk_supersession_creation n = construct (supersession_creation_post_init n) n"

end
