(* ===== verification/ProviderSecret.thy ===== *)
theory ProviderSecret
  imports EvidenceRecords
begin

text \<open>
  \<open>application/contracts/provider_secret_envelope_v4.py\<close>: the binding of a provider token to the evidence
  of its attempt, the sealed envelope, the history of its rewraps, and the two associated-data texts that the
  cipher authenticates.
\<close>

definition PROVIDER_SECRET_BINDING_V4_CONTRACT :: string where
  "PROVIDER_SECRET_BINDING_V4_CONTRACT = ''provider-secret-binding.v4''"

definition SEALED_PROVIDER_SECRET_V4_CONTRACT :: string where
  "SEALED_PROVIDER_SECRET_V4_CONTRACT = ''sealed-provider-secret.v4''"

definition PROVIDER_SECRET_DATA_AAD_V4_CONTRACT :: string where
  "PROVIDER_SECRET_DATA_AAD_V4_CONTRACT = ''provider-secret-data-aad.v4''"

definition PROVIDER_SECRET_WRAP_AAD_V4_CONTRACT :: string where
  "PROVIDER_SECRET_WRAP_AAD_V4_CONTRACT = ''provider-secret-wrap-aad.v4''"

definition PROVIDER_SECRET_DEK_BYTES :: nat where "PROVIDER_SECRET_DEK_BYTES = 32"
definition PROVIDER_SECRET_KEK_BYTES :: nat where "PROVIDER_SECRET_KEK_BYTES = 32"
definition PROVIDER_SECRET_NONCE_BYTES :: nat where "PROVIDER_SECRET_NONCE_BYTES = 12"
definition PROVIDER_SECRET_TAG_BYTES :: nat where "PROVIDER_SECRET_TAG_BYTES = 16"

definition PROVIDER_SECRET_WRAPPED_DEK_BYTES :: nat where
  "PROVIDER_SECRET_WRAPPED_DEK_BYTES = PROVIDER_SECRET_DEK_BYTES + PROVIDER_SECRET_TAG_BYTES"

definition PROVIDER_SECRET_MAX_TOKEN_BYTES :: int where
  "PROVIDER_SECRET_MAX_TOKEN_BYTES = ACCEPTED_SUBMISSION_TOKEN_MAX_BYTES"

definition secret_contract :: "string \<Rightarrow> string \<Rightarrow> unit res" where
  "secret_contract observed expected = require (\<not> observed \<noteq> expected) ''provider secret contract is unsupported''"

definition secret_identity :: "nat \<Rightarrow> string \<Rightarrow> unit res" where
  "secret_identity n v = require (evidence_identity_ok n v) ''provider secret identity is invalid''"

definition secret_positive :: "int \<Rightarrow> string \<Rightarrow> unit res" where
  "secret_positive v label = require (1 \<le> v \<and> v \<le> MAX_INT) (label @ '' must be positive'')"

definition secret_bytes :: "string \<Rightarrow> int \<Rightarrow> string \<Rightarrow> unit res" where
  "secret_bytes v n label = require (\<not> int (length v) \<noteq> n) (label @ '' bytes are not exact'')"

text \<open>\<open>[a-z0-9][a-z0-9._-]{0,63}\<close>\<close>

definition kek_id_head :: string where
  "kek_id_head = ''abcdefghijklmnopqrstuvwxyz0123456789''"

definition kek_id_ok :: "string \<Rightarrow> bool" where
  "kek_id_ok v = (v \<noteq> '''' \<and> length v \<le> 64 \<and> hd v \<in> set kek_id_head
     \<and> list_all (\<lambda>c. c \<in> set (kek_id_head @ ''._-'')) (tl v))"

definition validate_provider_secret_kek_id_v4 :: "string \<Rightarrow> unit res" where
  "validate_provider_secret_kek_id_v4 v = require (kek_id_ok v) ''provider secret KEK identity is invalid''"

definition secret_json :: "json \<Rightarrow> string res" where
  "secret_json = canonical_json (1024 * 1024) ''provider secret canonical bytes are outside envelope''"

lemma secret_contract_Inr [simp]: "secret_contract a b = Inr u \<longleftrightarrow> a = b"
  by (simp add: secret_contract_def)

lemma secret_identity_Inr [simp]: "secret_identity n v = Inr u \<longleftrightarrow> evidence_identity_ok n v"
  by (simp add: secret_identity_def)

lemma secret_positive_Inr [simp]: "secret_positive v label = Inr u \<longleftrightarrow> 1 \<le> v \<and> v \<le> MAX_INT"
  by (simp add: secret_positive_def)

lemma secret_bytes_Inr [simp]: "secret_bytes v n label = Inr u \<longleftrightarrow> int (length v) = n"
  by (simp add: secret_bytes_def)

lemma kek_id_Inr [simp]: "validate_provider_secret_kek_id_v4 v = Inr u \<longleftrightarrow> kek_id_ok v"
  by (simp add: validate_provider_secret_kek_id_v4_def)

subsection \<open>The binding\<close>

record secret_binding =
  sb_attempt_id :: string
  sb_fence_identity :: string
  sb_secret_kind :: string
  sb_provider_secret_version :: int
  sb_token_sha256 :: string
  sb_token_byte_count :: int
  sb_contract_version :: string

definition binding_post_init :: "secret_binding \<Rightarrow> unit res" where
  "binding_post_init b = checks
     [secret_contract (sb_contract_version b) PROVIDER_SECRET_BINDING_V4_CONTRACT,
      secret_identity 1024 (sb_attempt_id b),
      secret_identity 1024 (sb_fence_identity b),
      secret_identity ACCEPTED_SUBMISSION_SECRET_KIND_MAX_BYTES (sb_secret_kind b),
      secret_positive (sb_provider_secret_version b) ''provider secret version'',
      require_sha (sb_token_sha256 b) ''provider token'',
      secret_positive (sb_token_byte_count b) ''provider token byte count'',
      require (\<not> sb_token_byte_count b > PROVIDER_SECRET_MAX_TOKEN_BYTES)
        ''provider token byte count is outside the envelope'']"

definition mk_binding :: "secret_binding \<Rightarrow> secret_binding res" where
  "mk_binding b = construct (binding_post_init b) b"

definition binding_payload :: "secret_binding \<Rightarrow> json" where
  "binding_payload b = JObj
     [(''attempt_id'', JStr (sb_attempt_id b)),
      (''fence_identity'', JStr (sb_fence_identity b)),
      (''secret_kind'', JStr (sb_secret_kind b)),
      (''provider_secret_version'', JInt (sb_provider_secret_version b)),
      (''token_sha256'', JStr (sb_token_sha256 b)),
      (''token_byte_count'', JInt (sb_token_byte_count b)),
      (''contract_version'', JStr (sb_contract_version b))]"

definition binding_sha256 :: "secret_binding \<Rightarrow> string res" where
  "binding_sha256 b = digest_of (secret_json (binding_payload b))"

definition bind_provider_secret_v4 :: "accepted_submission \<Rightarrow> secret_binding res" where
  "bind_provider_secret_v4 a = mk_binding
     \<lparr>sb_attempt_id = fe_attempt_id a, sb_fence_identity = fe_fence_identity a, sb_secret_kind = as_secret_kind a,
      sb_provider_secret_version = as_secret_version a, sb_token_sha256 = as_token_sha256 a,
      sb_token_byte_count = as_token_byte_count a, sb_contract_version = PROVIDER_SECRET_BINDING_V4_CONTRACT\<rparr>"

record secret_plaintext =
  sp_binding :: secret_binding
  sp_token :: string

definition plaintext_post_init :: "secret_plaintext \<Rightarrow> unit res" where
  "plaintext_post_init p = checks
     [require (\<not> int (length (sp_token p)) \<noteq> sb_token_byte_count (sp_binding p))
        ''provider token length differs from its binding'',
      require (\<not> digest (sp_token p) \<noteq> sb_token_sha256 (sp_binding p))
        ''provider token hash differs from its binding'']"

definition mk_plaintext :: "secret_plaintext \<Rightarrow> secret_plaintext res" where
  "mk_plaintext p = construct (plaintext_post_init p) p"

subsection \<open>The sealed envelope\<close>

record sealed_secret =
  se_binding :: secret_binding
  se_encryption_revision :: int
  se_kek_id :: string
  se_wrap_nonce :: string
  se_wrapped_dek :: string
  se_data_nonce :: string
  se_token_ciphertext :: string
  se_contract_version :: string

definition sealed_post_init :: "sealed_secret \<Rightarrow> unit res" where
  "sealed_post_init s = checks
     [secret_contract (se_contract_version s) SEALED_PROVIDER_SECRET_V4_CONTRACT,
      secret_positive (se_encryption_revision s) ''encryption revision'',
      validate_provider_secret_kek_id_v4 (se_kek_id s),
      secret_bytes (se_wrap_nonce s) (int PROVIDER_SECRET_NONCE_BYTES) ''wrap nonce'',
      secret_bytes (se_wrapped_dek s) (int PROVIDER_SECRET_WRAPPED_DEK_BYTES) ''wrapped DEK'',
      secret_bytes (se_data_nonce s) (int PROVIDER_SECRET_NONCE_BYTES) ''data nonce'',
      secret_bytes (se_token_ciphertext s)
        (sb_token_byte_count (se_binding s) + int PROVIDER_SECRET_TAG_BYTES) ''token ciphertext'']"

definition mk_sealed :: "sealed_secret \<Rightarrow> sealed_secret res" where
  "mk_sealed s = construct (sealed_post_init s) s"

text \<open>\<open>validate_provider_secret_revision_history_v4\<close>\<close>

definition validate_provider_secret_revision_history_v4 :: "sealed_secret list \<Rightarrow> unit res" where
  "validate_provider_secret_revision_history_v4 h = checks
     [require (\<not> h = []) ''provider secret revision history is invalid'',
      require (\<not> map se_encryption_revision h \<noteq> map int [1 ..< length h + 1])
        ''provider secret revisions are not contiguous'',
      require (\<not> list_ex (\<lambda>s. se_binding s \<noteq> se_binding (hd h)
          \<or> se_data_nonce s \<noteq> se_data_nonce (hd h)
          \<or> se_token_ciphertext s \<noteq> se_token_ciphertext (hd h)) (tl h))
        ''provider secret data layer drifted across revisions'']"

subsection \<open>Associated data\<close>

definition data_aad_payload :: "secret_binding \<Rightarrow> json" where
  "data_aad_payload b = JObj
     [(''aad_contract'', JStr PROVIDER_SECRET_DATA_AAD_V4_CONTRACT),
      (''attempt_id'', JStr (sb_attempt_id b)),
      (''fence_identity'', JStr (sb_fence_identity b)),
      (''provider_secret_version'', JInt (sb_provider_secret_version b)),
      (''secret_kind'', JStr (sb_secret_kind b)),
      (''token_byte_count'', JInt (sb_token_byte_count b)),
      (''token_sha256'', JStr (sb_token_sha256 b))]"

definition provider_secret_data_aad_v4 :: "secret_binding \<Rightarrow> string res" where
  "provider_secret_data_aad_v4 b = secret_json (data_aad_payload b)"

text \<open>\<open>bytes.hex()\<close>\<close>

definition bytes_hex :: "string \<Rightarrow> string" where
  "bytes_hex s = concat (map (\<lambda>c. [Sha256.hex_digit (code c div 16), Sha256.hex_digit (code c)]) s)"

definition wrap_aad_payload :: "secret_binding \<Rightarrow> int \<Rightarrow> string \<Rightarrow> string \<Rightarrow> string \<Rightarrow> json" where
  "wrap_aad_payload b revision kek_id data_nonce ciphertext = JObj
     [(''aad_contract'', JStr PROVIDER_SECRET_WRAP_AAD_V4_CONTRACT),
      (''attempt_id'', JStr (sb_attempt_id b)),
      (''data_nonce_hex'', JStr (bytes_hex data_nonce)),
      (''encryption_revision'', JInt revision),
      (''fence_identity'', JStr (sb_fence_identity b)),
      (''kek_id'', JStr kek_id),
      (''provider_secret_version'', JInt (sb_provider_secret_version b)),
      (''secret_kind'', JStr (sb_secret_kind b)),
      (''token_byte_count'', JInt (sb_token_byte_count b)),
      (''token_ciphertext_sha256'', JStr (digest ciphertext)),
      (''token_sha256'', JStr (sb_token_sha256 b))]"

definition provider_secret_wrap_aad_v4 ::
  "secret_binding \<Rightarrow> int \<Rightarrow> string \<Rightarrow> string \<Rightarrow> string \<Rightarrow> string res" where
  "provider_secret_wrap_aad_v4 b revision kek_id data_nonce ciphertext =
     bindR (checks
       [secret_positive revision ''encryption revision'',
        validate_provider_secret_kek_id_v4 kek_id,
        secret_bytes data_nonce (int PROVIDER_SECRET_NONCE_BYTES) ''data nonce'',
        secret_bytes ciphertext (sb_token_byte_count b + int PROVIDER_SECRET_TAG_BYTES) ''token ciphertext'']) (\<lambda>_.
       secret_json (wrap_aad_payload b revision kek_id data_nonce ciphertext))"

end
