(* ===== verification/SecretCipher.thy ===== *)
theory SecretCipher
  imports ProviderSecret Codec
begin

text \<open>
  \<open>adapters/security/provider_secret_cipher.py\<close> and \<open>provider_secret_keyring.py\<close>, with the errors and
  the keyring port of \<open>application/ports/provider_secret_cipher_v4.py\<close>: sealing a provider token under a
  fresh data key, opening the envelope, and rewrapping the data key under the current primary key.

  AES-256-GCM is library code: \<open>enc\<close> and \<open>dec\<close> (key, nonce, data, associated data) are parameters, a
  failed authentication is \<^term>\<open>None\<close>, and \<open>aead_correct\<close> is what the library documents. The entropy
  source is a parameter too: it takes a state and a byte count and returns bytes or raises. \<open>AESGCM\<close>
  refuses keys that are not 16, 24 or 32 bytes; the keys used here are 32 bytes long.
\<close>

datatype crypto_error =
    Contract_error py_error
  | Keyring_invalid string
  | Kek_unknown string
  | Seal_invalid string
  | Authentication_failed string

type_synonym 'a crypt = "crypto_error + 'a"

fun bindC :: "'a crypt \<Rightarrow> ('a \<Rightarrow> 'b crypt) \<Rightarrow> 'b crypt" where
  "bindC (Inl e) f = Inl e"
| "bindC (Inr a) f = f a"

lemma bindC_Inr_iff [simp]: "bindC m f = Inr b \<longleftrightarrow> (\<exists>a. m = Inr a \<and> f a = Inr b)"
  by (cases m) auto

text \<open>A call into the contracts, whose exceptions pass through.\<close>

definition contract :: "'a res \<Rightarrow> 'a crypt" where
  "contract r = (case r of Inl e \<Rightarrow> Inl (Contract_error e) | Inr v \<Rightarrow> Inr v)"

lemma contract_Inr [simp]: "contract r = Inr v \<longleftrightarrow> r = Inr v"
  by (cases r) (simp_all add: contract_def)

lemma contract_return [simp]: "contract (Inr v) = Inr v"
  by simp

definition demand :: "bool \<Rightarrow> crypto_error \<Rightarrow> unit crypt" where
  "demand c e = (if c then Inr () else Inl e)"

lemma demand_Inr [simp]: "demand c e = Inr u \<longleftrightarrow> c"
  by (simp add: demand_def)

subsection \<open>Keyrings\<close>

record keyring_port =
  kp_primary_kek_id :: "string crypt"
  kp_kek_bytes :: "string \<Rightarrow> string crypt"

record static_keyring =
  sk_primary_kek_id :: string
  sk_keks :: "(string \<times> string) list"

fun validate_keks :: "(string \<times> string) list \<Rightarrow> unit crypt" where
  "validate_keks [] = Inr ()"
| "validate_keks ((kek_id, key) # ks) =
     bindC (demand (kek_id_ok kek_id) (Keyring_invalid ''provider secret KEK identity is invalid'')) (\<lambda>_.
     bindC (demand (length key = PROVIDER_SECRET_KEK_BYTES)
         (Keyring_invalid ''provider secret KEK is not exactly 32 bytes'')) (\<lambda>_.
     validate_keks ks))"

definition mk_static_keyring :: "string \<Rightarrow> (string \<times> string) list \<Rightarrow> static_keyring crypt" where
  "mk_static_keyring primary keks =
     bindC (demand (\<not> keks = []) (Keyring_invalid ''provider secret keyring requires at least one KEK'')) (\<lambda>_.
     bindC (validate_keks keks) (\<lambda>_.
     bindC (demand (primary \<in> set (map fst keks))
         (Keyring_invalid ''provider secret primary KEK is absent from the keyring'')) (\<lambda>_.
     Inr \<lparr>sk_primary_kek_id = primary, sk_keks = keks\<rparr>)))"

definition static_port :: "static_keyring \<Rightarrow> keyring_port" where
  "static_port k =
     \<lparr>kp_primary_kek_id = Inr (sk_primary_kek_id k),
      kp_kek_bytes = (\<lambda>kek_id. case map_of (sk_keks k) kek_id of
        None \<Rightarrow> Inl (Kek_unknown ''provider secret KEK is unknown'') | Some key \<Rightarrow> Inr key)\<rparr>"

text \<open>
  \<open>_decode_keyring_payload\<close>. No text with a code point above 255 is a key identity, so such a text is
  read as the empty one, which is none either.
\<close>

definition PROVIDER_SECRET_KEYRING_FORMAT :: string where
  "PROVIDER_SECRET_KEYRING_FORMAT = ''disclosure-v4-secret-keyring.v1''"

definition kek_text :: "ucs \<Rightarrow> string" where
  "kek_text s = (if list_all (\<lambda>c. c < 256) s then map char_of s else '''')"

definition KEYRING_FIELDS :: "string list" where
  "KEYRING_FIELDS = [''format'', ''primary_kek_id'', ''keks'']"

definition hex_nibble :: "char \<Rightarrow> nat" where
  "hex_nibble c = length (takeWhile (\<lambda>d. d \<noteq> c) hex_lower)"

fun bytes_fromhex :: "string \<Rightarrow> string" where
  "bytes_fromhex (a # b # s) = char_of (16 * hex_nibble a + hex_nibble b) # bytes_fromhex s"
| "bytes_fromhex _ = []"

definition kek_hex_ok :: "string \<Rightarrow> bool" where
  "kek_hex_ok v = (length v = 64 \<and> list_all (\<lambda>c. c \<in> set hex_lower) v)"

fun read_keks :: "obj \<Rightarrow> (string \<times> string) list crypt" where
  "read_keks [] = Inr []"
| "read_keks ((kek_id, v) # ks) = (case v of
     PStr s \<Rightarrow>
       bindC (demand (kek_hex_ok (kek_text s))
           (Keyring_invalid ''provider secret KEK must be exactly 64 lowercase hex characters'')) (\<lambda>_.
       bindC (read_keks ks) (\<lambda>rest. Inr ((kek_text kek_id, bytes_fromhex (kek_text s)) # rest)))
   | _ \<Rightarrow> Inl (Keyring_invalid ''provider secret KEK must be exactly 64 lowercase hex characters''))"

definition read_keyring_object :: "obj \<Rightarrow> static_keyring crypt" where
  "read_keyring_object d =
     bindC (demand (set (map fst d) = set (map cps KEYRING_FIELDS))
         (Keyring_invalid ''provider secret keyring fields are not closed'')) (\<lambda>_.
     bindC (demand (attr d ''format'' = Some (PStr (cps PROVIDER_SECRET_KEYRING_FORMAT)))
         (Keyring_invalid ''provider secret keyring format is unsupported'')) (\<lambda>_.
     bindC (case attr d ''primary_kek_id'' of Some (PStr s) \<Rightarrow> Inr (kek_text s)
         | _ \<Rightarrow> Inl (Keyring_invalid ''provider secret primary KEK id must be a string'')) (\<lambda>primary.
     bindC (case attr d ''keks'' of Some (PDict ks) \<Rightarrow> Inr ks | _ \<Rightarrow> Inr []) (\<lambda>ks.
     bindC (demand (ks \<noteq> []) (Keyring_invalid ''provider secret keyring requires at least one KEK'')) (\<lambda>_.
     bindC (read_keks ks) (\<lambda>keks. mk_static_keyring primary keks))))))"

definition decode_keyring_payload :: "string \<Rightarrow> static_keyring crypt" where
  "decode_keyring_payload raw = (case strict_json_loads raw of
     Inl _ \<Rightarrow> Inl (Keyring_invalid ''provider secret keyring file is not strict JSON'')
   | Inr (PDict d) \<Rightarrow> read_keyring_object d
   | Inr _ \<Rightarrow> Inl (Keyring_invalid ''provider secret keyring fields are not closed''))"

subsection \<open>The cipher\<close>

text \<open>\<open>_random\<close>, \<open>_primary_kek_id\<close> and \<open>_kek_bytes\<close>\<close>

definition random_bytes :: "('g \<Rightarrow> nat \<Rightarrow> string option \<times> 'g) \<Rightarrow> 'g \<Rightarrow> nat \<Rightarrow> (string \<times> 'g) crypt" where
  "random_bytes rng g n = (case rng g n of
     (None, _) \<Rightarrow> Inl (Seal_invalid ''provider secret entropy source failed'')
   | (Some v, g') \<Rightarrow>
       bindC (demand (\<not> length v \<noteq> n)
         (Seal_invalid ''provider secret entropy source returned invalid bytes'')) (\<lambda>_. Inr (v, g')))"

definition primary_kek_id :: "keyring_port \<Rightarrow> string crypt" where
  "primary_kek_id port =
     (case bindC (kp_primary_kek_id port) (\<lambda>kek_id.
        bindC (contract (validate_provider_secret_kek_id_v4 kek_id)) (\<lambda>_. Inr kek_id)) of
        Inl (Contract_error _) \<Rightarrow> Inl (Keyring_invalid ''provider secret primary KEK identity is invalid'')
      | r \<Rightarrow> r)"

definition kek_bytes :: "keyring_port \<Rightarrow> string \<Rightarrow> string crypt" where
  "kek_bytes port kek_id =
     (case kp_kek_bytes port kek_id of
        Inl (Contract_error _) \<Rightarrow> Inl (Keyring_invalid ''provider secret keyring lookup failed'')
      | Inl e \<Rightarrow> Inl e
      | Inr kek \<Rightarrow>
          bindC (demand (\<not> length kek \<noteq> PROVIDER_SECRET_KEK_BYTES)
            (Keyring_invalid ''provider secret KEK is not exactly 32 bytes'')) (\<lambda>_. Inr kek))"

type_synonym encryptor = "string \<Rightarrow> string \<Rightarrow> string \<Rightarrow> string \<Rightarrow> string"
type_synonym decryptor = "string \<Rightarrow> string \<Rightarrow> string \<Rightarrow> string \<Rightarrow> string option"

text \<open>\<open>_wrap\<close>\<close>

definition wrap_secret ::
  "encryptor \<Rightarrow> keyring_port \<Rightarrow> ('g \<Rightarrow> nat \<Rightarrow> string option \<times> 'g) \<Rightarrow> 'g \<Rightarrow>
     secret_binding \<Rightarrow> int \<Rightarrow> string \<Rightarrow> string \<Rightarrow> string \<Rightarrow> (sealed_secret \<times> 'g) crypt" where
  "wrap_secret enc port rng g b revision dek data_nonce ciphertext =
     bindC (primary_kek_id port) (\<lambda>kek_id.
     bindC (kek_bytes port kek_id) (\<lambda>kek.
     bindC (random_bytes rng g PROVIDER_SECRET_NONCE_BYTES) (\<lambda>(wrap_nonce, g').
     bindC (contract (provider_secret_wrap_aad_v4 b revision kek_id data_nonce ciphertext)) (\<lambda>aad.
     bindC (contract (mk_sealed
       \<lparr>se_binding = b, se_encryption_revision = revision, se_kek_id = kek_id, se_wrap_nonce = wrap_nonce,
        se_wrapped_dek = enc kek wrap_nonce dek aad, se_data_nonce = data_nonce,
        se_token_ciphertext = ciphertext,
        se_contract_version = SEALED_PROVIDER_SECRET_V4_CONTRACT\<rparr>)) (\<lambda>s. Inr (s, g'))))))"

definition seal_secret ::
  "encryptor \<Rightarrow> keyring_port \<Rightarrow> ('g \<Rightarrow> nat \<Rightarrow> string option \<times> 'g) \<Rightarrow> 'g \<Rightarrow> secret_plaintext \<Rightarrow>
     (sealed_secret \<times> 'g) crypt" where
  "seal_secret enc port rng g p =
     bindC (random_bytes rng g PROVIDER_SECRET_DEK_BYTES) (\<lambda>(dek, g1).
     bindC (random_bytes rng g1 PROVIDER_SECRET_NONCE_BYTES) (\<lambda>(data_nonce, g2).
     bindC (contract (provider_secret_data_aad_v4 (sp_binding p))) (\<lambda>aad.
       wrap_secret enc port rng g2 (sp_binding p) 1 dek data_nonce (enc dek data_nonce (sp_token p) aad))))"

text \<open>\<open>_unwrap_dek\<close>\<close>

definition unwrap_dek :: "decryptor \<Rightarrow> keyring_port \<Rightarrow> sealed_secret \<Rightarrow> string crypt" where
  "unwrap_dek dec port s =
     bindC (kek_bytes port (se_kek_id s)) (\<lambda>kek.
     bindC (contract (provider_secret_wrap_aad_v4 (se_binding s) (se_encryption_revision s) (se_kek_id s)
       (se_data_nonce s) (se_token_ciphertext s))) (\<lambda>aad.
     case dec kek (se_wrap_nonce s) (se_wrapped_dek s) aad of
       None \<Rightarrow> Inl (Authentication_failed ''provider secret key wrap failed authentication'')
     | Some dek \<Rightarrow> Inr dek))"

definition open_secret :: "decryptor \<Rightarrow> keyring_port \<Rightarrow> sealed_secret \<Rightarrow> secret_plaintext crypt" where
  "open_secret dec port s =
     bindC (unwrap_dek dec port s) (\<lambda>dek.
     bindC (contract (provider_secret_data_aad_v4 (se_binding s))) (\<lambda>aad.
     case dec dek (se_data_nonce s) (se_token_ciphertext s) aad of
       None \<Rightarrow> Inl (Authentication_failed ''provider secret token layer failed authentication'')
     | Some token \<Rightarrow>
         bindC (demand (\<not> (int (length token) \<noteq> sb_token_byte_count (se_binding s)
               \<or> digest token \<noteq> sb_token_sha256 (se_binding s)))
             (Authentication_failed ''provider secret token differs from its binding after open'')) (\<lambda>_.
         contract (mk_plaintext \<lparr>sp_binding = se_binding s, sp_token = token\<rparr>))))"

definition rewrap_secret ::
  "encryptor \<Rightarrow> decryptor \<Rightarrow> keyring_port \<Rightarrow> ('g \<Rightarrow> nat \<Rightarrow> string option \<times> 'g) \<Rightarrow> 'g \<Rightarrow> sealed_secret \<Rightarrow>
     (sealed_secret \<times> 'g) crypt" where
  "rewrap_secret enc dec port rng g s =
     bindC (demand (\<not> se_encryption_revision s \<ge> MAX_INT)
         (Seal_invalid ''provider secret encryption revision is exhausted'')) (\<lambda>_.
     bindC (unwrap_dek dec port s) (\<lambda>dek.
       wrap_secret enc port rng g (se_binding s) (se_encryption_revision s + 1) dek (se_data_nonce s)
         (se_token_ciphertext s)))"

text \<open>What the library documents of AES-GCM with keys of 32 and nonces of 12 bytes.\<close>

definition aead_correct :: "encryptor \<Rightarrow> decryptor \<Rightarrow> bool" where
  "aead_correct enc dec = (\<forall>key nonce data aad.
     length key = PROVIDER_SECRET_KEK_BYTES \<longrightarrow> length nonce = PROVIDER_SECRET_NONCE_BYTES \<longrightarrow>
     dec key nonce (enc key nonce data aad) aad = Some data
     \<and> length (enc key nonce data aad) = length data + PROVIDER_SECRET_TAG_BYTES)"

end
