(* ===== verification/SecretProperties.thy ===== *)
theory SecretProperties
  imports SecretCipher
begin

text \<open>
  What the cipher of theory \<open>SecretCipher\<close> guarantees: an accepted token can be sealed under every keyring
  that the loader accepts, and through any number of rewraps, under keyrings that come and go, the newest
  envelope still opens to that token and the history passes the validator.
\<close>

subsection \<open>The associated data always exist\<close>

lemma evidence_identity_length: "evidence_identity_ok n v \<Longrightarrow> length v \<le> n"
  using utf8_ge_length [of v] by (simp add: evidence_identity_ok_def)

lemma length_bytes_hex: "length (bytes_hex s) = 2 * length s"
  by (induction s) (simp_all add: bytes_hex_def)

lemma binding_bounds:
  assumes "binding_post_init b = Inr ()"
  shows "length (sb_attempt_id b) \<le> 1024" "length (sb_fence_identity b) \<le> 1024"
    "length (sb_secret_kind b) \<le> 1024" "length (sb_token_sha256 b) = 71"
    "length (int_text (sb_provider_secret_version b)) \<le> 19" "length (int_text (sb_token_byte_count b)) \<le> 19"
  using assms
  by (auto simp: binding_post_init_def ACCEPTED_SUBMISSION_SECRET_KIND_MAX_BYTES_def is_sha_def
      intro!: length_int_text dest!: evidence_identity_length)

lemma data_aad_total:
  assumes "binding_post_init b = Inr ()"
  shows "provider_secret_data_aad_v4 b = Inr (json_bytes (data_aad_payload b))"
  unfolding provider_secret_data_aad_v4_def secret_json_def
  by (rule canonical_json_total)
     (use binding_bounds [OF assms] in \<open>simp add: data_aad_payload_def PROVIDER_SECRET_DATA_AAD_V4_CONTRACT_def\<close>)

definition wrap_aad_ok :: "secret_binding \<Rightarrow> int \<Rightarrow> string \<Rightarrow> string \<Rightarrow> string \<Rightarrow> bool" where
  "wrap_aad_ok b revision kek_id data_nonce ciphertext =
     (1 \<le> revision \<and> revision \<le> MAX_INT \<and> kek_id_ok kek_id \<and> length data_nonce = PROVIDER_SECRET_NONCE_BYTES
       \<and> int (length ciphertext) = sb_token_byte_count b + int PROVIDER_SECRET_TAG_BYTES)"

lemma wrap_aad_total:
  assumes "binding_post_init b = Inr ()" and "wrap_aad_ok b revision kek_id data_nonce ciphertext"
  shows "provider_secret_wrap_aad_v4 b revision kek_id data_nonce ciphertext
    = Inr (json_bytes (wrap_aad_payload b revision kek_id data_nonce ciphertext))"
proof -
  have "length kek_id \<le> 64" "length (int_text revision) \<le> 19" "length (digest ciphertext) = 71"
    using assms(2) is_sha_digest [of ciphertext]
    by (auto simp: wrap_aad_ok_def kek_id_ok_def is_sha_def intro: length_int_text)
  then have "2 * text_bound (wrap_aad_payload b revision kek_id data_nonce ciphertext) \<le> 1024 * 1024"
    using binding_bounds [OF assms(1)] assms(2)
    by (simp add: wrap_aad_payload_def PROVIDER_SECRET_WRAP_AAD_V4_CONTRACT_def length_bytes_hex wrap_aad_ok_def
        PROVIDER_SECRET_NONCE_BYTES_def)
  then show ?thesis
    using assms(2)
    by (simp add: provider_secret_wrap_aad_v4_def secret_json_def canonical_json_total wrap_aad_ok_def)
qed

lemma wrap_aad_returns:
  assumes "provider_secret_wrap_aad_v4 b revision kek_id data_nonce ciphertext = Inr aad"
  shows "wrap_aad_ok b revision kek_id data_nonce ciphertext"
  using assms by (auto simp: provider_secret_wrap_aad_v4_def wrap_aad_ok_def)

subsection \<open>Wrapping and unwrapping\<close>

text \<open>The envelopes of one token: the same data layer, and a wrap that the key of its identity opens.\<close>

definition custody_of :: "(string \<Rightarrow> string) \<Rightarrow> keyring_port \<Rightarrow> bool" where
  "custody_of custody port = (\<forall>kek_id key. kek_bytes port kek_id = Inr key \<longrightarrow> key = custody kek_id)"

lemma kek_bytes_length: "kek_bytes port kek_id = Inr kek \<Longrightarrow> length kek = PROVIDER_SECRET_KEK_BYTES"
  by (auto simp: kek_bytes_def split: sum.splits crypto_error.splits)

definition sealed_under :: "encryptor \<Rightarrow> (string \<Rightarrow> string) \<Rightarrow> string \<Rightarrow> sealed_secret \<Rightarrow> bool" where
  "sealed_under enc custody dek s =
     (sealed_post_init s = Inr () \<and> (\<exists>aad.
       provider_secret_wrap_aad_v4 (se_binding s) (se_encryption_revision s) (se_kek_id s) (se_data_nonce s)
         (se_token_ciphertext s) = Inr aad
       \<and> se_wrapped_dek s = enc (custody (se_kek_id s)) (se_wrap_nonce s) dek aad))"

lemma unwrap_sealed:
  assumes "aead_correct enc dec" and "sealed_under enc custody dek s" and "custody_of custody port"
    and "kek_bytes port (se_kek_id s) = Inr key"
  shows "unwrap_dek dec port s = Inr dek"
proof -
  have "key = custody (se_kek_id s)" using assms(3,4) by (simp add: custody_of_def)
  moreover have "length key = PROVIDER_SECRET_KEK_BYTES" using assms(4) by (rule kek_bytes_length)
  moreover have "length (se_wrap_nonce s) = PROVIDER_SECRET_NONCE_BYTES"
    using assms(2) by (simp add: sealed_under_def sealed_post_init_def)
  ultimately show ?thesis
    using assms(1,2,4) by (auto simp: unwrap_dek_def sealed_under_def aead_correct_def)
qed

lemma wrap_secret_sealed:
  assumes "wrap_secret enc port rng g b revision dek data_nonce ciphertext = Inr (s, g')"
    and "custody_of custody port"
  shows "sealed_under enc custody dek s" and "se_binding s = b" and "se_encryption_revision s = revision"
    and "se_data_nonce s = data_nonce" and "se_token_ciphertext s = ciphertext"
  using assms by (auto simp: wrap_secret_def sealed_under_def mk_sealed_def custody_of_def)

text \<open>The data layer of an envelope.\<close>

definition carries :: "encryptor \<Rightarrow> string \<Rightarrow> secret_plaintext \<Rightarrow> sealed_secret \<Rightarrow> bool" where
  "carries enc dek p s =
     (se_binding s = sp_binding p \<and> length dek = PROVIDER_SECRET_DEK_BYTES \<and> (\<exists>aad.
       provider_secret_data_aad_v4 (sp_binding p) = Inr aad
       \<and> se_token_ciphertext s = enc dek (se_data_nonce s) (sp_token p) aad))"

lemma open_carried:
  assumes "aead_correct enc dec" and "sealed_under enc custody dek s" and "carries enc dek p s"
    and "custody_of custody port" and "kek_bytes port (se_kek_id s) = Inr key"
    and "plaintext_post_init p = Inr ()"
  shows "open_secret dec port s = Inr p"
proof -
  have dek: "unwrap_dek dec port s = Inr dek" by (rule unwrap_sealed [OF assms(1,2,4,5)])
  obtain aad where aad: "provider_secret_data_aad_v4 (sp_binding p) = Inr aad"
      "se_token_ciphertext s = enc dek (se_data_nonce s) (sp_token p) aad" "se_binding s = sp_binding p"
      "length dek = PROVIDER_SECRET_KEK_BYTES"
    using assms(3) by (auto simp: carries_def PROVIDER_SECRET_DEK_BYTES_def PROVIDER_SECRET_KEK_BYTES_def)
  have "length (se_data_nonce s) = PROVIDER_SECRET_NONCE_BYTES"
    using assms(2) by (simp add: sealed_under_def sealed_post_init_def)
  with aad assms(1)
  have token: "dec dek (se_data_nonce s) (se_token_ciphertext s) aad = Some (sp_token p)"
    by (simp add: aead_correct_def)
  have checks: "int (length (sp_token p)) = sb_token_byte_count (sp_binding p)"
      "digest (sp_token p) = sb_token_sha256 (sp_binding p)"
    using assms(6) by (simp_all add: plaintext_post_init_def)
  have "plaintext_post_init \<lparr>sp_binding = sp_binding p, sp_token = sp_token p\<rparr> = Inr ()"
    using checks by (simp add: plaintext_post_init_def)
  then have "mk_plaintext \<lparr>sp_binding = sp_binding p, sp_token = sp_token p\<rparr> = Inr p"
    by (simp add: mk_plaintext_def)
  with dek aad token checks show ?thesis
    by (simp add: open_secret_def contract_def demand_def)
qed

lemma random_bytes_Inr: "random_bytes rng g n = Inr (v, g') \<longleftrightarrow> rng g n = (Some v, g') \<and> length v = n"
  by (auto simp: random_bytes_def split: prod.splits option.splits)

lemma seal_secret_sealed:
  assumes "seal_secret enc port rng g p = Inr (s, g')" and "custody_of custody port"
  shows "\<exists>dek. sealed_under enc custody dek s \<and> carries enc dek p s \<and> se_encryption_revision s = 1"
proof -
  obtain dek g1 nonce g2 aad where run:
      "random_bytes rng g PROVIDER_SECRET_DEK_BYTES = Inr (dek, g1)"
      "provider_secret_data_aad_v4 (sp_binding p) = Inr aad"
      "wrap_secret enc port rng g2 (sp_binding p) 1 dek nonce (enc dek nonce (sp_token p) aad) = Inr (s, g')"
    using assms(1) by (auto simp: seal_secret_def)
  have "length dek = PROVIDER_SECRET_DEK_BYTES" using run(1) by (simp add: random_bytes_Inr)
  with run(2) wrap_secret_sealed [OF run(3) assms(2)] show ?thesis by (auto simp: carries_def)
qed

subsection \<open>A history of rewraps\<close>

text \<open>
  The rows that the repository keeps for one token: the first is a seal, each next one a rewrap of the
  newest, with any keyring of the custody and any state of the entropy source at each step.
\<close>

inductive secret_history ::
  "encryptor \<Rightarrow> decryptor \<Rightarrow> ('g \<Rightarrow> nat \<Rightarrow> string option \<times> 'g) \<Rightarrow> (string \<Rightarrow> string) \<Rightarrow> secret_plaintext \<Rightarrow>
     sealed_secret list \<Rightarrow> bool"
  for enc dec rng custody p where
  sealed: "custody_of custody port \<Longrightarrow> seal_secret enc port rng g p = Inr (s, g') \<Longrightarrow>
    secret_history enc dec rng custody p [s]"
| rewrapped: "secret_history enc dec rng custody p (h @ [s]) \<Longrightarrow> custody_of custody port \<Longrightarrow>
    rewrap_secret enc dec port rng g s = Inr (s', g') \<Longrightarrow> secret_history enc dec rng custody p (h @ [s, s'])"

definition one_data_layer :: "encryptor \<Rightarrow> (string \<Rightarrow> string) \<Rightarrow> string \<Rightarrow> secret_plaintext \<Rightarrow> sealed_secret list \<Rightarrow> bool"
where
  "one_data_layer enc custody dek p h =
     (h \<noteq> [] \<and> map se_encryption_revision h = map int [1 ..< length h + 1]
      \<and> (\<forall>s \<in> set h. sealed_under enc custody dek s \<and> carries enc dek p s
          \<and> se_data_nonce s = se_data_nonce (hd h) \<and> se_token_ciphertext s = se_token_ciphertext (hd h)))"

lemma one_data_layer_snoc:
  assumes "one_data_layer enc custody dek p (h @ [s])"
    and "sealed_under enc custody dek s'" and "se_binding s' = se_binding s"
    and "se_encryption_revision s' = se_encryption_revision s + 1"
    and "se_data_nonce s' = se_data_nonce s" and "se_token_ciphertext s' = se_token_ciphertext s"
  shows "one_data_layer enc custody dek p (h @ [s, s'])"
proof -
  have revs: "map se_encryption_revision (h @ [s]) = map int [1 ..< length (h @ [s]) + 1]"
    using assms(1) by (simp add: one_data_layer_def)
  then have "se_encryption_revision s = int (length h + 1)" by simp
  with revs assms(4) have "map se_encryption_revision (h @ [s, s']) = map int [1 ..< length (h @ [s, s']) + 1]"
    by simp
  moreover have "carries enc dek p s'"
    using assms by (auto simp: one_data_layer_def carries_def)
  ultimately show ?thesis
    using assms by (cases h) (auto simp: one_data_layer_def)
qed

lemma rewrap_sealed:
  assumes "aead_correct enc dec" and "sealed_under enc custody dek s" and "custody_of custody port"
    and "rewrap_secret enc dec port rng g s = Inr (s', g')"
  shows "sealed_under enc custody dek s'" and "se_binding s' = se_binding s"
    and "se_encryption_revision s' = se_encryption_revision s + 1"
    and "se_data_nonce s' = se_data_nonce s" and "se_token_ciphertext s' = se_token_ciphertext s"
proof -
  obtain d where run: "unwrap_dek dec port s = Inr d"
      "wrap_secret enc port rng g (se_binding s) (se_encryption_revision s + 1) d (se_data_nonce s)
        (se_token_ciphertext s) = Inr (s', g')"
    using assms(4) by (auto simp: rewrap_secret_def)
  obtain key where "kek_bytes port (se_kek_id s) = Inr key"
    using run(1) by (auto simp: unwrap_dek_def)
  with unwrap_sealed [OF assms(1-3)] run(1) have "d = dek" by simp
  with wrap_secret_sealed [OF run(2) assms(3)]
  show "sealed_under enc custody dek s'" "se_binding s' = se_binding s"
    "se_encryption_revision s' = se_encryption_revision s + 1"
    "se_data_nonce s' = se_data_nonce s" "se_token_ciphertext s' = se_token_ciphertext s" by simp_all
qed

lemma history_layer:
  assumes "secret_history enc dec rng custody p h" and "aead_correct enc dec"
  shows "\<exists>dek. one_data_layer enc custody dek p h"
  using assms(1)
proof (induction rule: secret_history.induct)
  case (sealed port g s g')
  from seal_secret_sealed [OF sealed(2,1)] show ?case by (auto simp: one_data_layer_def)
next
  case (rewrapped h s port g s' g')
  from rewrapped.IH obtain dek where layer: "one_data_layer enc custody dek p (h @ [s])" by blast
  then have "sealed_under enc custody dek s" by (simp add: one_data_layer_def)
  from one_data_layer_snoc [OF layer rewrap_sealed [OF assms(2) this rewrapped(2,3)]] show ?case by blast
qed

lemma secret_history_valid:
  assumes "one_data_layer enc custody dek p h"
  shows "validate_provider_secret_revision_history_v4 h = Inr ()"
  using assms
  by (cases h) (auto simp: one_data_layer_def carries_def validate_provider_secret_revision_history_v4_def
      list_ex_iff)

text \<open>C36: Through any sequence of rewraps of a sealed provider token, under keyrings in which an identity never
  names two keys, the history of envelopes passes the validator of the repository (contiguous revisions, one
  data layer), and every keyring that still resolves the key identity of an envelope of the history opens that
  envelope to the original token. AES-GCM is assumed to decrypt what it encrypted.\<close>

theorem rewraps_keep_token:
  assumes "secret_history enc dec rng custody p h" and "aead_correct enc dec"
    and "plaintext_post_init p = Inr ()"
  shows "validate_provider_secret_revision_history_v4 h = Inr ()
    \<and> (\<forall>s \<in> set h. \<forall>port key. custody_of custody port \<longrightarrow> kek_bytes port (se_kek_id s) = Inr key \<longrightarrow>
        open_secret dec port s = Inr p)"
proof -
  from history_layer [OF assms(1,2)] obtain dek where layer: "one_data_layer enc custody dek p h" by blast
  then have "sealed_under enc custody dek s \<and> carries enc dek p s" if "s \<in> set h" for s
    using that by (simp add: one_data_layer_def)
  with secret_history_valid [OF layer] open_carried [OF assms(2)] assms(3) show ?thesis by blast
qed

subsection \<open>Every accepted token can be sealed\<close>

lemma validate_keks_Inr: "validate_keks ks = Inr u \<longleftrightarrow>
    (\<forall>(kek_id, key) \<in> set ks. kek_id_ok kek_id \<and> length key = PROVIDER_SECRET_KEK_BYTES)"
  by (induction ks rule: validate_keks.induct) auto

lemma decoded_keyring:
  assumes "decode_keyring_payload raw = Inr k"
  shows "\<exists>key. map_of (sk_keks k) (sk_primary_kek_id k) = Some key"
    and "\<forall>(kek_id, key) \<in> set (sk_keks k). kek_id_ok kek_id \<and> length key = PROVIDER_SECRET_KEK_BYTES"
proof -
  obtain primary keks where "mk_static_keyring primary keks = Inr k"
    using assms by (auto simp: decode_keyring_payload_def read_keyring_object_def split: sum.splits pyval.splits)
  then show "\<exists>key. map_of (sk_keks k) (sk_primary_kek_id k) = Some key"
    and "\<forall>(kek_id, key) \<in> set (sk_keks k). kek_id_ok kek_id \<and> length key = PROVIDER_SECRET_KEK_BYTES"
    by (auto simp: mk_static_keyring_def validate_keks_Inr map_of_eq_None_iff [symmetric] weak_map_of_SomeI)
qed

lemma static_kek_bytes:
  "kek_bytes (static_port k) kek_id = Inr key \<longleftrightarrow>
     map_of (sk_keks k) kek_id = Some key \<and> length key = PROVIDER_SECRET_KEK_BYTES"
  by (auto simp: kek_bytes_def static_port_def split: option.splits)

lemma static_primary:
  "primary_kek_id (static_port k) = Inr kek_id \<longleftrightarrow> kek_id = sk_primary_kek_id k \<and> kek_id_ok kek_id"
  by (cases "kek_id_ok (sk_primary_kek_id k)")
     (auto simp: primary_kek_id_def static_port_def contract_def validate_provider_secret_kek_id_v4_def require_def)

definition static_custody :: "static_keyring \<Rightarrow> string \<Rightarrow> string" where
  "static_custody k kek_id = (case map_of (sk_keks k) kek_id of None \<Rightarrow> '''' | Some key \<Rightarrow> key)"

lemma static_custody_of: "custody_of (static_custody k) (static_port k)"
  by (simp add: custody_of_def static_kek_bytes static_custody_def)

text \<open>An entropy source that works.\<close>

definition entropy_ok :: "('g \<Rightarrow> nat \<Rightarrow> string option \<times> 'g) \<Rightarrow> bool" where
  "entropy_ok rng = (\<forall>g n. \<exists>v g'. rng g n = (Some v, g') \<and> length v = n)"

lemma entropy_random: "entropy_ok rng \<Longrightarrow> \<exists>v g'. random_bytes rng g n = Inr (v, g') \<and> length v = n"
  by (fastforce simp: entropy_ok_def random_bytes_Inr)

lemma wrap_total:
  assumes "decode_keyring_payload raw = Inr k" and "aead_correct enc dec" and "entropy_ok rng"
    and b: "binding_post_init b = Inr ()" and "1 \<le> revision" and "revision \<le> MAX_INT"
    and "length dek = PROVIDER_SECRET_DEK_BYTES" and "length nonce = PROVIDER_SECRET_NONCE_BYTES"
    and ct: "int (length ct) = sb_token_byte_count b + int PROVIDER_SECRET_TAG_BYTES"
  shows "\<exists>s g'. wrap_secret enc (static_port k) rng g b revision dek nonce ct = Inr (s, g')
    \<and> se_kek_id s = sk_primary_kek_id k"
proof -
  obtain key where key: "map_of (sk_keks k) (sk_primary_kek_id k) = Some key"
    using decoded_keyring(1) [OF assms(1)] by blast
  with decoded_keyring(2) [OF assms(1)] have ids: "kek_id_ok (sk_primary_kek_id k)" "length key = PROVIDER_SECRET_KEK_BYTES"
    by (auto dest!: map_of_SomeD)
  obtain wrap g' where wrap: "random_bytes rng g PROVIDER_SECRET_NONCE_BYTES = Inr (wrap, g')"
      "length wrap = PROVIDER_SECRET_NONCE_BYTES"
    using entropy_random [OF assms(3)] by blast
  have ok: "wrap_aad_ok b revision (sk_primary_kek_id k) nonce ct"
    using assms ids(1) by (simp add: wrap_aad_ok_def)
  have len: "length (enc key wrap dek aad) = PROVIDER_SECRET_WRAPPED_DEK_BYTES" for aad
    using assms(2,7) ids(2) wrap(2) by (simp add: aead_correct_def PROVIDER_SECRET_WRAPPED_DEK_BYTES_def)
  have kek: "kek_bytes (static_port k) (sk_primary_kek_id k) = Inr key"
    using key ids(2) by (simp add: static_kek_bytes)
  have prim: "primary_kek_id (static_port k) = Inr (sk_primary_kek_id k)" using ids(1) by (simp add: static_primary)
  have sealed: "mk_sealed s = Inr s"
    if "s = \<lparr>se_binding = b, se_encryption_revision = revision, se_kek_id = sk_primary_kek_id k,
      se_wrap_nonce = wrap, se_wrapped_dek = enc key wrap dek aad, se_data_nonce = nonce,
      se_token_ciphertext = ct, se_contract_version = SEALED_PROVIDER_SECRET_V4_CONTRACT\<rparr>" for s aad
    using ids(1) wrap(2) assms len by (simp add: that mk_sealed_def sealed_post_init_def)
  show ?thesis
    by (simp add: wrap_secret_def wrap(1) wrap_aad_total [OF b ok] prim kek sealed)
qed

lemma seal_total:
  assumes "decode_keyring_payload raw = Inr k" and "aead_correct enc dec" and "entropy_ok rng"
    and b: "binding_post_init (sp_binding p) = Inr ()" and p: "plaintext_post_init p = Inr ()"
  shows "\<exists>s g'. seal_secret enc (static_port k) rng g p = Inr (s, g') \<and> se_kek_id s = sk_primary_kek_id k"
proof -
  obtain dek g1 where dek: "random_bytes rng g PROVIDER_SECRET_DEK_BYTES = Inr (dek, g1)"
      "length dek = PROVIDER_SECRET_DEK_BYTES"
    using entropy_random [OF assms(3)] by blast
  obtain nonce g2 where nonce: "random_bytes rng g1 PROVIDER_SECRET_NONCE_BYTES = Inr (nonce, g2)"
      "length nonce = PROVIDER_SECRET_NONCE_BYTES"
    using entropy_random [OF assms(3)] by blast
  let ?ct = "enc dek nonce (sp_token p) (json_bytes (data_aad_payload (sp_binding p)))"
  have "PROVIDER_SECRET_DEK_BYTES = PROVIDER_SECRET_KEK_BYTES"
    by (simp add: PROVIDER_SECRET_DEK_BYTES_def PROVIDER_SECRET_KEK_BYTES_def)
  then have "int (length ?ct) = sb_token_byte_count (sp_binding p) + int PROVIDER_SECRET_TAG_BYTES"
    using assms(2) dek(2) nonce(2) p by (simp add: aead_correct_def plaintext_post_init_def)
  with wrap_total [OF assms(1-3) b _ _ dek(2) nonce(2), of 1 ?ct g2]
  show ?thesis by (simp add: seal_secret_def dek(1) nonce(1) data_aad_total [OF b])
qed

text \<open>Rotation: an envelope whose key is still in the keyring can be rewrapped under its primary key.\<close>

lemma rewrap_total:
  assumes "decode_keyring_payload raw = Inr k" and "aead_correct enc dec" and "entropy_ok rng"
    and b: "binding_post_init (se_binding s) = Inr ()" and sealed: "sealed_under enc custody dek s"
    and dek: "length dek = PROVIDER_SECRET_DEK_BYTES" and custody: "custody_of custody (static_port k)"
    and key: "kek_bytes (static_port k) (se_kek_id s) = Inr key" and "se_encryption_revision s < MAX_INT"
  shows "\<exists>s' g'. rewrap_secret enc dec (static_port k) rng g s = Inr (s', g') \<and> se_kek_id s' = sk_primary_kek_id k"
proof -
  have s: "1 \<le> se_encryption_revision s" "length (se_data_nonce s) = PROVIDER_SECRET_NONCE_BYTES"
      "int (length (se_token_ciphertext s)) = sb_token_byte_count (se_binding s) + int PROVIDER_SECRET_TAG_BYTES"
    using sealed by (simp_all add: sealed_under_def sealed_post_init_def)
  from wrap_total [OF assms(1-3) b _ _ dek s(2,3), of "se_encryption_revision s + 1" g] s(1) assms(9)
  obtain s' g' where "wrap_secret enc (static_port k) rng g (se_binding s) (se_encryption_revision s + 1) dek
      (se_data_nonce s) (se_token_ciphertext s) = Inr (s', g')" "se_kek_id s' = sk_primary_kek_id k"
    by auto
  with unwrap_sealed [OF assms(2) sealed custody key] assms(9) show ?thesis
    by (simp add: rewrap_secret_def)
qed

text \<open>The binding of an accepted receipt always exists.\<close>

lemma bind_accepted:
  assumes "accepted_post_init a = Inr ()"
  shows "\<exists>b. bind_provider_secret_v4 a = Inr b \<and> binding_post_init b = Inr ()"
  using assms
  by (auto simp: bind_provider_secret_v4_def mk_binding_def binding_post_init_def accepted_post_init_def
      evidence_identities_def PROVIDER_SECRET_MAX_TOKEN_BYTES_def)

text \<open>C37: Whenever the provider's token is the one that the accepted-submission receipt names, the binding and
  the plaintext exist, sealing succeeds under every keyring file that the loader accepts, the envelope names
  the primary key, and opening it under that keyring gives the token back: no accepted token is ever
  unsealable or lost. AES-GCM and the entropy source are assumed to behave as documented.\<close>

theorem accepted_token_recoverable:
  assumes "accepted_post_init a = Inr ()" and "decode_keyring_payload raw = Inr k"
    and "aead_correct enc dec" and "entropy_ok rng"
    and "int (length token) = as_token_byte_count a" and "digest token = as_token_sha256 a"
  shows "\<exists>b p s g'. bind_provider_secret_v4 a = Inr b \<and> mk_plaintext \<lparr>sp_binding = b, sp_token = token\<rparr> = Inr p
    \<and> seal_secret enc (static_port k) rng g p = Inr (s, g') \<and> se_kek_id s = sk_primary_kek_id k
    \<and> open_secret dec (static_port k) s = Inr p \<and> sp_token p = token"
proof -
  obtain b where b: "bind_provider_secret_v4 a = Inr b" "binding_post_init b = Inr ()"
    using bind_accepted [OF assms(1)] by blast
  let ?p = "\<lparr>sp_binding = b, sp_token = token\<rparr>"
  have p: "plaintext_post_init ?p = Inr ()"
    using b(1) assms(5,6) by (auto simp: bind_provider_secret_v4_def mk_binding_def plaintext_post_init_def)
  then have mk: "mk_plaintext ?p = Inr ?p" by (simp add: mk_plaintext_def)
  have "\<exists>s g'. seal_secret enc (static_port k) rng g ?p = Inr (s, g') \<and> se_kek_id s = sk_primary_kek_id k"
    by (rule seal_total [OF assms(2-4)]) (use b(2) p in simp_all)
  then obtain s g' where s: "seal_secret enc (static_port k) rng g ?p = Inr (s, g')"
      "se_kek_id s = sk_primary_kek_id k" by blast
  obtain dek where sealed: "sealed_under enc (static_custody k) dek s" "carries enc dek ?p s"
    using seal_secret_sealed [OF s(1) static_custody_of] by blast
  obtain key where "kek_bytes (static_port k) (se_kek_id s) = Inr key"
    using decoded_keyring [OF assms(2)] s(2) by (fastforce simp: static_kek_bytes dest: map_of_SomeD)
  with open_carried [OF assms(3) sealed static_custody_of _ p]
  have "open_secret dec (static_port k) s = Inr ?p" by blast
  with b(1) mk s show ?thesis by auto
qed

subsection \<open>Instances\<close>

definition accepted_example :: accepted_submission where
  "accepted_example =
     \<lparr>fe_attempt_id = ''a-1'', fe_fence_identity = ''f-1'',
      as_submission_intent_sha256 = digest ''i'', as_remote_task_identity = ''task'',
      as_status_url = ''http://api:8000/s/1'', as_result_url = ''http://api:8000/r/1'',
      as_secret_kind = ''capability'', as_secret_version = 1, as_token_sha256 = digest ''tok'',
      as_token_byte_count = 3, as_provider_protocol_version = ''v2'',
      as_contract_version = ACCEPTED_SUBMISSION_V4_CONTRACT\<rparr>"

lemma accepted_example_urls:
  "urlsplit ''http://api:8000/s/1'' = Inr \<lparr>url_scheme = ''http'', url_netloc = ''api:8000'', url_path = ''/s/1'',
     url_query = '''', url_fragment = ''''\<rparr>"
  "urlsplit ''http://api:8000/r/1'' = Inr \<lparr>url_scheme = ''http'', url_netloc = ''api:8000'', url_path = ''/r/1'',
     url_query = '''', url_fragment = ''''\<rparr>"
  by code_simp+

lemma accepted_example_texts:
  "list_all (evidence_identity_ok 1024)
     [''a-1'', ''f-1'', ''task'', ''http://api:8000/s/1'', ''http://api:8000/r/1'', ''v2'']"
  "evidence_identity_ok ACCEPTED_SUBMISSION_SECRET_KIND_MAX_BYTES ''capability''"
  by code_simp+

lemma accepted_example_ok: "accepted_post_init accepted_example = Inr ()"
  using accepted_example_texts
  by (simp add: accepted_post_init_def accepted_example_def evidence_identities_def check_urls_def
      accepted_example_urls closed_origin_def url_username_def ACCEPTED_SUBMISSION_TOKEN_MAX_BYTES_def MAX_INT_def)

definition enc_example :: encryptor where
  "enc_example key nonce data aad = data @ replicate 16 CHR 0x00"

definition dec_example :: decryptor where
  "dec_example key nonce data aad = Some (take (length data - 16) data)"

lemma aead_example: "aead_correct enc_example dec_example"
  by (simp add: aead_correct_def enc_example_def dec_example_def PROVIDER_SECRET_TAG_BYTES_def)

definition rng_example :: "unit \<Rightarrow> nat \<Rightarrow> string option \<times> unit" where
  "rng_example g n = (Some (replicate n CHR ''r''), g)"

lemma entropy_example: "entropy_ok rng_example"
  by (simp add: entropy_ok_def rng_example_def)

definition keyring_json :: json where
  "keyring_json = JObj
     [(''format'', JStr PROVIDER_SECRET_KEYRING_FORMAT), (''keks'', JObj [(''k1'', JStr (replicate 64 CHR ''a''))]),
      (''primary_kek_id'', JStr ''k1'')]"

definition keyring_example :: static_keyring where
  "keyring_example = \<lparr>sk_primary_kek_id = ''k1'', sk_keks = [(''k1'', replicate 32 CHR 0xAA)]\<rparr>"

lemma kek_text_cps [simp]: "kek_text (cps s) = s"
  using as_str_of [of s] by (simp add: as_str_def kek_text_def split: if_splits)

lemma keyring_example_key: "kek_hex_ok (replicate 64 CHR ''a'')" "bytes_fromhex (replicate 64 CHR ''a'') = replicate 32 CHR 0xAA"
  by code_simp+

lemma keyring_example_decodes: "decode_keyring_payload (json_bytes keyring_json) = Inr keyring_example"
proof -
  have "json_ok keyring_json" by (simp add: keyring_json_def)
  then have "strict_json_loads (json_bytes keyring_json) = Inr (pyval_of keyring_json)" by (rule loads_dumps)
  moreover define d where "d = obj_of (members_of keyring_json)"
  then have "pyval_of keyring_json = PDict d"
    by (simp add: keyring_json_def obj_of_def del: map_map)
  moreover have "attr d k = Some (pyval_of j)" if "map_of (members_of keyring_json) k = Some j" for k j
    unfolding attr_def d_def by (rule map_of_obj_of [OF _ that]) (simp add: keyring_json_def)
  from this [of "''format''"] this [of "''keks''"] this [of "''primary_kek_id''"]
  have "attr d ''format'' = Some (PStr (cps PROVIDER_SECRET_KEYRING_FORMAT))"
    "attr d ''keks'' = Some (PDict [(cps ''k1'', PStr (cps (replicate 64 CHR ''a'')))])"
    "attr d ''primary_kek_id'' = Some (PStr (cps ''k1''))"
    by (simp_all add: keyring_json_def)
  moreover have "set (map fst d) = set (map cps KEYRING_FIELDS)"
    by (simp add: d_def obj_of_def keyring_json_def KEYRING_FIELDS_def insert_commute)
  moreover have "read_keks [(cps ''k1'', PStr (cps (replicate 64 CHR ''a'')))] = Inr [(''k1'', replicate 32 CHR 0xAA)]"
    by (simp only: read_keks.simps pyval.case kek_text_cps keyring_example_key demand_def if_True bindC.simps)
  moreover have "mk_static_keyring ''k1'' [(''k1'', replicate 32 CHR 0xAA)] = Inr keyring_example"
    by (simp add: mk_static_keyring_def keyring_example_def kek_id_ok_def kek_id_head_def PROVIDER_SECRET_KEK_BYTES_def)
  ultimately show ?thesis
    by (simp only: decode_keyring_payload_def read_keyring_object_def sum.case pyval.case option.case demand_def
        if_True bindC.simps kek_text_cps list.distinct simp_thms)
qed

theorem accepted_token_recoverable_witness:
  "\<exists>b p s g'. bind_provider_secret_v4 accepted_example = Inr b
    \<and> mk_plaintext \<lparr>sp_binding = b, sp_token = ''tok''\<rparr> = Inr p
    \<and> seal_secret enc_example (static_port keyring_example) rng_example () p = Inr (s, g')
    \<and> se_kek_id s = sk_primary_kek_id keyring_example
    \<and> open_secret dec_example (static_port keyring_example) s = Inr p \<and> sp_token p = ''tok''"
  by (rule accepted_token_recoverable [OF accepted_example_ok keyring_example_decodes aead_example entropy_example])
     (simp_all add: accepted_example_def)

text \<open>A token sealed and rewrapped once.\<close>

definition plaintext_example :: secret_plaintext where
  "plaintext_example =
     \<lparr>sp_binding = \<lparr>sb_attempt_id = ''a-1'', sb_fence_identity = ''f-1'', sb_secret_kind = ''capability'',
        sb_provider_secret_version = 1, sb_token_sha256 = digest ''tok'', sb_token_byte_count = 3,
        sb_contract_version = PROVIDER_SECRET_BINDING_V4_CONTRACT\<rparr>, sp_token = ''tok''\<rparr>"

lemma plaintext_example_ok:
  "plaintext_post_init plaintext_example = Inr ()" "binding_post_init (sp_binding plaintext_example) = Inr ()"
proof -
  show "plaintext_post_init plaintext_example = Inr ()"
    by (simp add: plaintext_post_init_def plaintext_example_def)
  have "bind_provider_secret_v4 accepted_example = mk_binding (sp_binding plaintext_example)"
    by (simp add: bind_provider_secret_v4_def accepted_example_def plaintext_example_def)
  with bind_accepted [OF accepted_example_ok] show "binding_post_init (sp_binding plaintext_example) = Inr ()"
    by (auto simp: mk_binding_def)
qed

lemma history_of_two:
  "\<exists>s s'. secret_history enc_example dec_example rng_example (static_custody keyring_example) plaintext_example [s, s']
    \<and> kek_bytes (static_port keyring_example) (se_kek_id s') = Inr (replicate 32 CHR 0xAA)"
proof -
  let ?port = "static_port keyring_example" and ?custody = "static_custody keyring_example"
  have key: "kek_bytes ?port ''k1'' = Inr (replicate 32 CHR 0xAA)"
    by (simp add: static_kek_bytes keyring_example_def PROVIDER_SECRET_KEK_BYTES_def)
  have prim: "sk_primary_kek_id keyring_example = ''k1''" by (simp add: keyring_example_def)
  obtain s g where s: "seal_secret enc_example ?port rng_example () plaintext_example = Inr (s, g)" "se_kek_id s = ''k1''"
    using seal_total [OF keyring_example_decodes aead_example entropy_example plaintext_example_ok(2,1), of "()"] prim
    by auto
  obtain dek where dek: "sealed_under enc_example ?custody dek s" "carries enc_example dek plaintext_example s"
      "se_encryption_revision s = 1"
    using seal_secret_sealed [OF s(1) static_custody_of] by blast
  have "binding_post_init (se_binding s) = Inr ()" "length dek = PROVIDER_SECRET_DEK_BYTES"
    "kek_bytes ?port (se_kek_id s) = Inr (replicate 32 CHR 0xAA)" "se_encryption_revision s < MAX_INT"
    using dek(2,3) plaintext_example_ok(2) s(2) key by (simp_all add: carries_def MAX_INT_def)
  from rewrap_total [OF keyring_example_decodes aead_example entropy_example this(1) dek(1) this(2) static_custody_of
      this(3,4), of "()"] prim
  obtain s' g' where s': "rewrap_secret enc_example dec_example ?port rng_example () s = Inr (s', g')"
      "se_kek_id s' = ''k1''" by auto
  have "secret_history enc_example dec_example rng_example ?custody plaintext_example [s]"
    by (rule secret_history.sealed [OF static_custody_of s(1)])
  with secret_history.rewrapped [of _ _ _ _ _ "[]", OF _ static_custody_of s'(1)]
  have "secret_history enc_example dec_example rng_example ?custody plaintext_example [s, s']" by simp
  then show ?thesis by (intro exI [of _ s] exI [of _ s'] conjI) (simp_all only: s'(2) key)
qed

theorem rewraps_keep_token_witness:
  "\<exists>s s'. validate_provider_secret_revision_history_v4 [s, s'] = Inr ()
    \<and> open_secret dec_example (static_port keyring_example) s' = Inr plaintext_example"
proof -
  obtain s s' where h: "secret_history enc_example dec_example rng_example (static_custody keyring_example)
      plaintext_example [s, s']"
    "kek_bytes (static_port keyring_example) (se_kek_id s') = Inr (replicate 32 CHR 0xAA)"
    using history_of_two by blast
  from rewraps_keep_token [OF h(1) aead_example plaintext_example_ok(1)] h(2) static_custody_of
  show ?thesis by fastforce
qed

subsection \<open>What a keyring file gives\<close>



end
