(* ===== verification/SpecExample.thy ===== *)
theory SpecExample
  imports ExecutionSpec
begin

text \<open>
  One complete execution specification, with a bound on JSON text that needs no escapes: the instance on which
  the properties of the repository port and of the specification's codec are evaluated.
\<close>

subsection \<open>The length of text without escapes\<close>

definition plain :: "string \<Rightarrow> bool" where
  "plain s = list_all (\<lambda>c. 32 \<le> code c \<and> code c < 127 \<and> c \<noteq> CHR 0x22 \<and> c \<noteq> CHR 0x5C) s"

fun plain_json :: "json \<Rightarrow> bool" where
  "plain_json (JStr s) = plain s"
| "plain_json (JArr js) = list_all plain_json js"
| "plain_json (JObj kvs) = list_all (\<lambda>kv. plain (fst kv) \<and> plain_json (snd kv)) kvs"
| "plain_json _ = True"

fun tight :: "json \<Rightarrow> nat" where
  "tight JNull = 4"
| "tight (JBool b) = 5"
| "tight (JInt i) = 2 * length (int_text i)"
| "tight (JStr s) = 2 + length s"
| "tight (JArr js) = 2 + sum_list (map (\<lambda>j. 1 + tight j) js)"
| "tight (JObj kvs) = 2 + sum_list (map (\<lambda>kv. 4 + length (fst kv) + tight (snd kv)) kvs)"

lemma plain_Cons [simp]: "plain (c # s) \<longleftrightarrow> 32 \<le> code c \<and> code c < 127 \<and> c \<noteq> CHR 0x22 \<and> c \<noteq> CHR 0x5C \<and> plain s"
  by (auto simp: plain_def)

lemma plain_Nil [simp]: "plain []"
  by (simp add: plain_def)

lemma plain_append [simp]: "plain (s @ t) \<longleftrightarrow> plain s \<and> plain t"
  by (simp add: plain_def)

lemma plain_str_text: "plain s \<Longrightarrow> length (utf8 (str_text s)) = 2 + length s"
proof -
  assume "plain s"
  then have "concat (map esc_char s) = s \<and> length (utf8 s) = length s"
    by (induction s) (auto simp: plain_def esc_char_def utf8_char_def code_def)
  then show ?thesis by (simp add: str_text_def) (simp add: utf8_char_def code_def)
qed

lemma plain_length: "plain_json j \<Longrightarrow> length (utf8 (dumps j)) \<le> tight j"
proof (induction j rule: plain_json.induct)
  case (1 s)
  then show ?case by (simp add: plain_str_text)
next
  case (2 js)
  then have "sum_list (map (\<lambda>j. length (utf8 (dumps j))) js) \<le> sum_list (map tight js)"
    by (intro sum_list_mono) (auto simp: list_all_iff)
  moreover have "sum_list (map (\<lambda>j. 1 + tight j) js) = length js + sum_list (map tight js)"
    by (induction js) auto
  ultimately show ?case
    by (simp add: length_utf8_join comp_def) (simp add: utf8_char_def code_def)
next
  case (3 kvs)
  let ?enc = "map (\<lambda>kv. (fst kv, dumps (snd kv))) kvs"
  have colon: "length (utf8 (member_text m)) = length (utf8 (str_text (fst m))) + 1 + length (utf8 (snd m))" for m
    by (simp add: member_text_def) (simp add: utf8_char_def code_def)
  have "sum_list (map (\<lambda>m. length (utf8 (member_text m))) (sort_key fst ?enc))
      = sum_list (map (\<lambda>m. length (utf8 (member_text m))) ?enc)" by (rule sum_list_sort_key)
  also have "\<dots> \<le> sum_list (map (\<lambda>kv. 3 + length (fst kv) + tight (snd kv)) kvs)"
    unfolding map_map using 3 by (intro sum_list_mono) (auto simp: list_all_iff colon plain_str_text)
  finally show ?case
    by (simp add: length_utf8_join comp_def sum_list_addf sum_list_triv)
       (simp add: utf8_char_def code_def)
qed (use length_utf8 in \<open>auto simp: utf8_char_def code_def\<close>)

lemma plain_json_bytes: "plain_json j \<Longrightarrow> length (json_bytes j) \<le> tight j"
  by (simp add: json_bytes_def plain_length)

lemma plain_low: "plain s \<Longrightarrow> low s"
  by (fastforce simp: plain_def low_def list_all_iff)

lemma plain_low_json: "plain_json j \<Longrightarrow> low_json j"
proof (induction j rule: low_json.induct)
  case (2 js)
  then show ?case unfolding low_json.simps plain_json.simps list_all_iff by blast
next
  case (3 kvs)
  then show ?case unfolding low_json.simps plain_json.simps list_all_iff using plain_low by blast
qed (simp_all add: plain_low)

lemma is_sha_plain: "is_sha s \<Longrightarrow> plain s"
proof -
  assume "is_sha s"
  then have "take 7 s = ''sha256:''" and digits: "list_all (\<lambda>c. c \<in> set hex_lower) (drop 7 s)"
    by (auto simp: is_sha_def is_prefix_def numeral_eq_Suc)
  then have "plain (take 7 s)" by (simp add: code_def)
  moreover have "plain t" if "list_all (\<lambda>c. c \<in> set hex_lower) t" for t
    using that by (induction t) (auto simp: hex_lower_def code_def)
  with digits have "plain (drop 7 s)" by blast
  ultimately have "plain (take 7 s @ drop 7 s)" unfolding plain_append by blast
  then show ?thesis by simp
qed

lemma b64encode_plain: "plain (b64encode s)"
proof (induction s rule: b64encode.induct)
  have alphabet: "plain [b64_char n]" if "n < 64" for n
  proof -
    have "plain base64_alphabet" by (simp add: base64_alphabet_def code_def)
    with b64_char_in [OF that] show ?thesis by (auto simp: plain_def list_all_iff)
  qed
  have eq: "plain [CHR ''='']" by (simp add: code_def)
  {
    case (1 a b c s)
    then show ?case using alphabet code_pieces by simp
  next
    case (2 a b)
    then show ?case using alphabet code_pieces eq by simp
  next
    case (3 a)
    then show ?case using alphabet code_pieces eq by simp
  }
qed simp

lemma length_b64encode: "length (b64encode s) \<le> 4 + 2 * length s"
  by (induction s rule: b64encode.induct) auto

subsection \<open>The instance\<close>

definition who_example :: parser_identity where
  "who_example = \<lparr>pn_name = ''mineru'', pn_version = ''3.4.4''\<rparr>"

definition options_example :: parser_options where
  "options_example =
     \<lparr>po_method = ''auto'', po_backend = ''hybrid-http-client'', po_language = ''ch'', po_formula = True,
      po_table = True, po_effort = ''medium'', po_image_analysis = False, po_start_page = None, po_end_page = None,
      po_timeout_seconds = None, po_api_url = Some ''http://api:8000'', po_api_drain_timeout_seconds = 86400,
      po_server_url = Some ''http://vlm:30000/v1'', po_http_request_concurrency = Some 4,
      po_runtime_bundle_identity_sha256 = Some digest_example\<rparr>"

definition target_example :: parser_target_identity where
  "target_example =
     \<lparr>pt_name = ''mineru'', pt_package_version = ''3.4.4'', pt_backend = ''hybrid-http-client'', pt_method = ''auto'',
      pt_language = ''ch'', pt_formula = True, pt_table = True, pt_effort = Some ''medium'',
      pt_image_analysis = False, pt_full_pdf = True, pt_start_page = None, pt_end_page = None,
      pt_runtime_bundle_identity_sha256 = digest_example, pt_inline_equation_left = ''$'',
      pt_inline_equation_right = ''$'', pt_target_contract_version = PARSER_TARGET_CONTRACT_VERSION\<rparr>"

lemma target_example_of: "target_identity options_example who_example = Inr target_example"
proof -
  have "validate_target target_example = Inr ()"
    by (simp add: validate_target_def target_example_def parser_backends_def parser_methods_def is_prefix_def page_ok_def)
  then show ?thesis
    by (simp add: target_identity_def mk_target_def)
       (simp add: options_example_def who_example_def target_example_def effective_effort_def
          effective_image_analysis_def is_prefix_def)
qed

definition request_example :: string where
  "request_example = ''request''"

definition submission_seed :: prepared_submission where
  "submission_seed =
     \<lparr>ps_schema = PREPARED_SUBMISSION_SCHEMA, ps_attempt_identity = ''attempt-7'', ps_fence_identity = ''fence-7'',
      ps_source_pdf_sha256 = digest_example,
      ps_parser_target_identity_sha256 = digest (ascii_json_bytes (target_payload target_example)),
      ps_runtime_bundle_identity_sha256 = digest_example, ps_request_sha256 = digest request_example,
      ps_client_submit_key = ''key-7'', ps_submission_epoch_unix = 1700000000, ps_exact_bytes = '''', ps_sha256 = ''''\<rparr>"

definition submission_example :: prepared_submission where
  "submission_example = submission_seed
     \<lparr>ps_exact_bytes := ascii_json_bytes (prepared_projection submission_seed),
      ps_sha256 := digest (ascii_json_bytes (prepared_projection submission_seed))\<rparr>"

lemma plain_object: "plain_json (JObj kvs) \<longleftrightarrow> list_all plain (map fst kvs) \<and> list_all plain_json (map snd kvs)"
  by (auto simp: list_all_iff)

lemmas plain_shas = is_sha_plain [OF is_sha_digest_example] is_sha_plain [OF is_sha_digest]

lemma plain_projection_names:
  "list_all plain [''schema'', ''attempt_identity'', ''fence_identity'', ''source_pdf_sha256'',
     ''parser_target_identity_sha256'', ''runtime_bundle_identity_sha256'', ''request_sha256'', ''client_submit_key'',
     ''submission_epoch_unix'']"
  "plain PREPARED_SUBMISSION_SCHEMA" "plain ''attempt-7''" "plain ''fence-7''" "plain ''key-7''"
  by code_simp+

lemma projection_plain: "plain_json (prepared_projection submission_seed)"
  unfolding prepared_projection_def submission_seed_def prepared_submission.simps plain_object list.map fst_conv snd_conv
  by (rule conjI, rule plain_projection_names, simp only: list.pred_inject plain_json.simps)
     (intro conjI TrueI; rule plain_projection_names plain_shas)

lemma projection_bytes:
  "ascii_json_bytes (prepared_projection submission_seed) = json_bytes (prepared_projection submission_seed)"
  "length (json_bytes (prepared_projection submission_seed)) \<le> 2000"
proof -
  show "ascii_json_bytes (prepared_projection submission_seed) = json_bytes (prepared_projection submission_seed)"
    using plain_low_json [OF projection_plain] by (simp add: ascii_json_bytes_eq)
  have len: "length digest_example = 71" "length (digest m) = 71" for m
    using is_sha_digest_example is_sha_digest [of m] by (simp_all add: is_sha_def)
  have "length (int_text 1700000000) \<le> 19" by (rule length_int_text) (simp_all add: MAX_INT_def)
  then have "tight (prepared_projection submission_seed) \<le> 2000"
    by (simp add: prepared_projection_def submission_seed_def len PREPARED_SUBMISSION_SCHEMA_def)
  with plain_json_bytes [OF projection_plain]
  show "length (json_bytes (prepared_projection submission_seed)) \<le> 2000" by simp
qed

lemma submission_example_ok: "prepared_post_init submission_example = Inr ()"
proof -
  have same: "prepared_projection submission_example = prepared_projection submission_seed"
    by (simp add: prepared_projection_def submission_example_def)
  have ids: "list_all prepared_identity_ok [''attempt-7'', ''fence-7'', ''key-7'']" by code_simp
  have "ints_ok (prepared_projection submission_seed)"
    by (simp add: prepared_projection_def submission_seed_def int_digits_def nat_text.simps MAX_STR_DIGITS_def)
  then have "check_prepared_bytes submission_example = Inr ()"
    using projection_bytes json_bytes_nonempty [of "prepared_projection submission_seed"]
    by (auto simp: check_prepared_bytes_def same) (auto simp: submission_example_def)
  with ids show ?thesis
    by (simp add: prepared_post_init_def) (simp add: submission_example_def submission_seed_def)
qed

subsection \<open>The specification\<close>

definition worker_example :: worker_profile where
  "worker_example =
     \<lparr>wp_process_profile_sha256 = profile_sha256 profile_example, wp_mac_preflight_workers = 2,
      wp_mac_finalize_workers = 2, wp_provider_poll_milliseconds = 500, wp_admission_probe_milliseconds = 1000,
      wp_contract_version = STAGED_WORKER_PROFILE_V4_CONTRACT, wp_commit_stage_seconds = None\<rparr>"

definition spec_example :: execution_spec where
  "spec_example =
     \<lparr>xs_contract_version = V4_PREPARED_EXECUTION_SPEC_CONTRACT, xs_prepared_submission = submission_example,
      xs_parser_identity = who_example, xs_parser_options = options_example, xs_api_origin = ''http://api:8000'',
      xs_server_url = ''http://vlm:30000/v1'', xs_request_exact_bytes = request_example,
      xs_request_sha256 = digest request_example, xs_process_profile_exact_bytes = profile_exact_bytes profile_example,
      xs_process_profile_sha256 = profile_sha256 profile_example, xs_worker_profile = worker_example,
      xs_result_lease_seconds = 600, xs_remote_runaway_seconds = 7200, xs_archive_member_count_limit = 1000,
      xs_archive_uncompressed_byte_limit = 1048576\<rparr>"

lemma api_origin_split:
  "urlsplit ''http://api:8000'' = Inr \<lparr>url_scheme = ''http'', url_netloc = ''api:8000'', url_path = '''',
     url_query = '''', url_fragment = ''''\<rparr>"
  by (simp add: urlsplit_def clean_url_def split_scheme_def split_netloc_def check_netloc_def before_def after_def
      ascii_letter_def ascii_digit_def ascii_lower_def scheme_char_def code_def Let_def is_prefix_def)

lemma server_url_split:
  "urlsplit ''http://vlm:30000/v1'' = Inr \<lparr>url_scheme = ''http'', url_netloc = ''vlm:30000'', url_path = ''/v1'',
     url_query = '''', url_fragment = ''''\<rparr>"
  by (simp add: urlsplit_def clean_url_def split_scheme_def split_netloc_def check_netloc_def before_def after_def
      ascii_letter_def ascii_digit_def ascii_lower_def scheme_char_def code_def Let_def is_prefix_def)

lemma api_origin_example: "validate_api_origin ''http://api:8000'' = Inr ()"
  by (simp add: validate_api_origin_def api_origin_split check_port_def url_port_def url_hostinfo_def before_def after_def
      ascii_digit_def code_def closed_http_url_def url_has_hostname_def url_username_def url_password_def Let_def)

lemma server_url_example: "validate_server_url ''http://vlm:30000/v1'' = Inr ()"
  by (simp add: validate_server_url_def server_url_split check_port_def url_port_def url_hostinfo_def before_def after_def
      ascii_digit_def code_def closed_http_url_def url_has_hostname_def url_username_def url_password_def Let_def)

lemma spec_parser_example: "check_spec_parser spec_example = Inr ()"
proof -
  have "validate_parser who_example options_example = Inr ()"
    by (simp add: validate_parser_def target_example_of optional_bounded_def positive_bounded_def parser_text_def)
       (simp add: who_example_def options_example_def utf8_char_def code_def SPEC_MAX_IDENTITY_BYTES_def
         MAX_INT32_def positive_bounded_def)
  then show ?thesis
    by (simp add: check_spec_parser_def spec_example_def api_origin_example server_url_example)
       (simp add: options_example_def)
qed

lemma spec_request_example: "check_spec_request spec_example = Inr ()"
  by (simp add: check_spec_request_def require_exact_bytes_def spec_example_def submission_example_def submission_seed_def)
     (simp add: request_example_def SPEC_MAX_REQUEST_BYTES_def)

lemma profile_bytes_nonempty: "profile_exact_bytes p \<noteq> ''''"
  using json_bytes_nonempty [of "profile_payload p"] by (auto simp: profile_exact_bytes_def)

lemma spec_profile_example: "check_spec_profile spec_example = Inr profile_example"
proof -
  have "length (profile_exact_bytes profile_example) \<le> 65536"
    using profile_bytes_bound [OF valid_profile_example] by (simp add: MAX_PROFILE_BYTES_def)
  then have "checks
       [require_exact_bytes (xs_process_profile_exact_bytes spec_example) ''V4 process profile'' (64 * 1024),
        port_sha (xs_process_profile_sha256 spec_example) ''V4 process profile'',
        require (\<not> xs_process_profile_sha256 spec_example \<noteq> digest (xs_process_profile_exact_bytes spec_example))
          ''V4 process profile exact bytes drifted from its digest''] = Inr ()"
    using profile_bytes_nonempty
    by (simp add: require_exact_bytes_def spec_example_def) (simp add: profile_sha256_def)
  moreover have "decode_mineru_process_profile (xs_process_profile_exact_bytes spec_example) = Inr profile_example"
    using decode_profile_of [OF valid_profile_example] by (simp add: spec_example_def)
  moreover have "wp_process_profile_sha256 (xs_worker_profile spec_example) = profile_sha256 profile_example"
    "xs_process_profile_sha256 spec_example = profile_sha256 profile_example"
    by (simp_all add: spec_example_def worker_example_def)
  moreover have "po_runtime_bundle_identity_sha256 (xs_parser_options spec_example) = Some digest_example"
    "ps_runtime_bundle_identity_sha256 (xs_prepared_submission spec_example) = digest_example"
    "runtime_bundle_identity_sha256 profile_example = digest_example"
    by (simp_all add: spec_example_def submission_example_def submission_seed_def)
       (simp_all add: options_example_def profile_example_def)
  ultimately show ?thesis by (simp add: check_spec_profile_def)
qed

lemma spec_example_ok: "spec_post_init spec_example = Inr ()"
proof -
  have "ints_ok (target_payload target_example)"
    by (simp add: target_payload_def target_example_def JOpt_def JOptInt_def)
  then have "check_spec_target spec_example = Inr ()"
    by (simp add: check_spec_target_def spec_target_sha256_def spec_example_def target_example_of digest_of_def)
       (simp add: submission_example_def submission_seed_def)
  moreover have "check_spec_limits spec_example profile_example = Inr ()"
    by (simp add: check_spec_limits_def positive_bounded_def spec_example_def profile_example_def MAX_INT32_def
        MAX_INT_def SPEC_MAX_ARCHIVE_MEMBERS_def)
  ultimately show ?thesis
    using spec_parser_example spec_request_example spec_profile_example by (simp add: spec_post_init_def)
qed

text \<open>Its canonical bytes exist: every text in it is plain, and their lengths are bounded.\<close>

lemmas digits_bounded = int_digits_bounded [unfolded MAX_INT_def]

lemma worker_example_bytes:
  obtains worker where "worker_exact_bytes worker_example = Inr worker" "length worker \<le> 1000"
proof
  let ?j = "worker_payload worker_example"
  have plain: "plain_json ?j"
    using is_sha_plain [of "profile_sha256 profile_example"]
    by (simp add: worker_payload_def)
       (simp add: worker_example_def profile_sha256_def STAGED_WORKER_PROFILE_V4_CONTRACT_def code_def)
  have ints: "ints_ok ?j" by (simp add: worker_payload_def) (simp add: worker_example_def digits_bounded)
  show "worker_exact_bytes worker_example = Inr (ascii_json_bytes ?j)" using ints by (simp add: worker_exact_bytes_def)
  have len: "length (profile_sha256 profile_example) = 71" by (simp add: profile_sha256_def)
  have ints: "length (int_text 2) \<le> 19" "length (int_text 500) \<le> 19" "length (int_text 1000) \<le> 19"
    by (simp_all add: length_int_text MAX_INT_def)
  have "tight ?j \<le> 1000"
    using ints by (simp add: worker_payload_def)
      (simp add: worker_example_def len STAGED_WORKER_PROFILE_V4_CONTRACT_def)
  moreover have "ascii_json_bytes ?j = json_bytes ?j"
    using plain_low_json [OF plain] by (simp add: ascii_json_bytes_eq)
  ultimately show "length (ascii_json_bytes ?j) \<le> 1000" using plain_json_bytes [OF plain] by simp
qed

lemma options_plain: "plain_json (options_payload options_example)"
  using plain_shas by (simp add: options_payload_def) (simp add: options_example_def JOpt_def JOptInt_def code_def)

lemma options_tight: "tight (options_payload options_example) \<le> 1000"
proof -
  have "length digest_example = 71" by (simp add: digest_example_def)
  moreover have "length (int_text 86400) \<le> 19" "length (int_text 4) \<le> 19"
    by (simp_all add: length_int_text MAX_INT_def)
  ultimately show ?thesis
    by (simp add: options_payload_def) (simp add: options_example_def JOpt_def JOptInt_def)
qed

lemma spec_payload_plain:
  assumes "is_sha sha"
  shows "plain_json (spec_payload spec_example worker sha)"
  using options_plain b64encode_plain plain_shas is_sha_plain [OF assms]
  by (simp add: spec_payload_def)
     (simp add: spec_example_def who_example_def submission_example_def profile_sha256_def code_def
        V4_PREPARED_EXECUTION_SPEC_CONTRACT_def)

lemma spec_example_encodes:
  obtains exact where "encode_v4_prepared_execution_spec spec_example = Inr exact"
proof -
  obtain worker where worker: "worker_exact_bytes worker_example = Inr worker" "length worker \<le> 1000"
    by (rule worker_example_bytes)
  let ?j = "spec_payload spec_example worker (digest worker)"
  have w: "xs_worker_profile spec_example = worker_example" by (simp add: spec_example_def)
  have ints: "ints_ok ?j"
    by (simp add: spec_payload_def options_payload_def)
       (simp add: spec_example_def options_example_def JOpt_def JOptInt_def digits_bounded)
  have lens: "length digest_example = 71" "length (digest m) = 71" for m
    by (simp_all add: digest_example_def)
  have exact: "length (ps_exact_bytes submission_example) \<le> 2000"
    using projection_bytes by (simp add: submission_example_def)
  have profile: "length (profile_exact_bytes profile_example) \<le> 65536"
    using profile_bytes_bound [OF valid_profile_example] by (simp add: MAX_PROFILE_BYTES_def)
  have b64: "length (b64encode (ps_exact_bytes submission_example)) \<le> 4004"
    "length (b64encode worker) \<le> 2004" "length (b64encode request_example) \<le> 100"
    "length (b64encode (profile_exact_bytes profile_example)) \<le> 131076"
    using length_b64encode [of "ps_exact_bytes submission_example"] length_b64encode [of worker]
      length_b64encode [of request_example] length_b64encode [of "profile_exact_bytes profile_example"]
      exact worker(2) profile by (simp_all add: request_example_def)
  have texts: "length (int_text 600) \<le> 19" "length (int_text 7200) \<le> 19" "length (int_text 1000) \<le> 19"
    "length (int_text 1048576) \<le> 19" by (simp_all add: length_int_text MAX_INT_def)
  have sha: "length (profile_sha256 profile_example) = 71" by (simp add: profile_sha256_def)
  have "tight ?j \<le> 300000"
    using b64 texts options_tight
    by (simp add: spec_payload_def)
       (simp add: spec_example_def who_example_def submission_example_def lens sha V4_PREPARED_EXECUTION_SPEC_CONTRACT_def)
  moreover have "plain_json ?j" by (rule spec_payload_plain) simp
  ultimately have "length (json_bytes ?j) \<le> 300000" using plain_json_bytes [of ?j] by linarith
  then show thesis
    using worker ints that
    by (simp add: encode_v4_prepared_execution_spec_def w worker_sha256_def digest_of_def dumpable_def
        MAX_V4_PREPARED_EXECUTION_SPEC_BYTES_def)
qed

end
