(* ===== verification/PreparationProperties.thy ===== *)
theory PreparationProperties
  imports BundleProperties PathProperties RepositoryPort ReservationCodec SpecExample
begin

text \<open>
  How the records of a first head fit together: the reservation made from a credit envelope, the preparation
  intent, the first checkpoint, the evidence bundle and the creation, with the exact conditions under which
  \<open>bind_v4_prepared_proposal\<close> returns one.
\<close>

subsection \<open>The reservation\<close>

text \<open>The reservation of a document, in closed form.\<close>

definition reservation_token :: "'a attempt_identity_scheme \<Rightarrow> string \<Rightarrow> string" where
  "reservation_token who pdf = sha256_hex (path_preimage [attempt_id who, fence_identity who, drop 7 pdf])"

definition expected_reservation_record ::
  "mineru_process_profile \<Rightarrow> string \<Rightarrow> int \<Rightarrow> int \<Rightarrow> attempt_identity \<Rightarrow> int \<Rightarrow> string \<Rightarrow> string \<Rightarrow> string
     \<Rightarrow> resource_reservation" where
  "expected_reservation_record f pdf bytes pages who generation prepared request epoch =
     (let e = expected_envelope f pdf bytes pages; input = eri_value (env_reservation_input e);
          token = reservation_token who pdf
      in attempt_identity.extend who
         \<lparr>rv_attempt_generation = generation, rv_source_pdf_sha256 = pdf,
          rv_source_byte_count = bytes, rv_source_page_count = pages,
          rv_prepared_submission_identity_sha256 = prepared, rv_request_sha256 = request,
          rv_runtime_epoch_sha256 = epoch, rv_process_profile_sha256 = env_process_profile_sha256 e,
          rv_credit_policy_sha256 = env_credit_policy_sha256 e, rv_reservation_bucket = ri_bucket input,
          rv_reservation_input_sha256 = eri_sha256 (env_reservation_input e),
          rv_snapshot_relpath = ''spool/.upload-'' @ token @ ''.pdf'',
          rv_snapshot_part_relpath = ''spool/.upload-'' @ token @ ''.pdf.part'',
          rv_snapshot_part_owner_relpath = ''spool/.upload-'' @ token @ ''.pdf.part.owner.json'',
          rv_snapshot_lock_relpath = ''spool/.upload-'' @ token @ ''.lock'',
          rv_reserved_credit = env_reservation e,
          rv_contract_version = RESOURCE_RESERVATION_V4_CONTRACT\<rparr>)"

lemma documented_whole_pdf:
  assumes "valid_profile f" "1 \<le> pages" "1 \<le> rm" "1 \<le> tm"
  shows "whole_pdf_credit (documented_reservation f bytes pages rm tm) bytes pages"
proof -
  note provider = provider_cap_range [OF assms(1,3)]
  note out = output_cap_range [OF assms(1) provider(1) assms(4)]
  note temp = temp_cap_range [OF assms(1) provider(1) out(1)]
  note decoded = decoded_cap_range [OF assms(1,2)]
  have "derived_reservation f bytes pages rm tm = documented_reservation f bytes pages rm tm"
    using assms by (rule derived_reservation_documented)
  moreover have "whole_pdf_credit (derived_reservation f bytes pages rm tm) bytes pages"
    using provider(1) out(1) temp(1) decoded(1) by (simp add: whole_pdf_credit_def derived_reservation_def Let_def)
  ultimately show ?thesis by simp
qed

text \<open>What an envelope of a valid profile fixes.\<close>

lemma envelope_facts:
  assumes "valid_profile f" and "source_facts_ok f pdf bytes pages"
  defines "e \<equiv> expected_envelope f pdf bytes pages"
  shows "valid_rcv (env_reservation e)" and "whole_pdf_credit (env_reservation e) bytes pages"
    and "encode_resource_reservation_input (eri_value (env_reservation_input e)) = Inr (env_reservation_input e)"
    and "mk_reservation_input (eri_value (env_reservation_input e)) = Inr (eri_value (env_reservation_input e))"
    and "eri_value (env_reservation_input e) =
      \<lparr>ri_source_pdf_sha256 = pdf, ri_source_byte_count = bytes, ri_source_page_count = pages,
       ri_process_profile_sha256 = env_process_profile_sha256 e,
       ri_credit_policy_sha256 = env_credit_policy_sha256 e,
       ri_bucket = ri_bucket (eri_value (env_reservation_input e)),
       ri_reservation = env_reservation e, ri_contract_version = STAGED_RESOURCE_RESERVATION_INPUT_CONTRACT\<rparr>"
    and "1 \<le> bytes" "bytes \<le> MAX_INT" "1 \<le> pages" "pages \<le> MAX_INT"
proof -
  obtain name n d rm tm where sel: "selected_bucket f bytes pages = (name, n, d, rm, tm)"
    by (cases "selected_bucket f bytes pages") auto
  have mem: "(name, n, d, rm, tm) \<in> set buckets"
    using select_bucket_listed [OF select_bucket_selected [OF assms(2)]] sel by simp
  have mult: "1 \<le> rm" "1 \<le> tm" using buckets_multipliers [OF mem] by auto
  have bounds: "bytes \<le> MAX_INT" "pages \<le> MAX_INT" "1 \<le> bytes" "1 \<le> pages"
    using profile_ceilings [OF assms(1)] assms(2) by (auto simp: source_facts_ok_def)
  then show "1 \<le> bytes" "bytes \<le> MAX_INT" "1 \<le> pages" "pages \<le> MAX_INT" by simp_all
  have res: "env_reservation e = documented_reservation f bytes pages rm tm"
    by (simp add: e_def expected_envelope_def expected_input_def sel Let_def)
  have "derived_reservation f bytes pages rm tm = documented_reservation f bytes pages rm tm"
    using derived_reservation_documented [OF assms(1) bounds(4) mult] .
  with derived_reservation_valid [OF assms(1) bounds(4,2,3,1) mult]
  show valid: "valid_rcv (env_reservation e)" by (simp add: res)
  show "whole_pdf_credit (env_reservation e) bytes pages"
    unfolding res by (rule documented_whole_pdf [OF assms(1) bounds(4) mult])
  have "name \<in> set (map fst buckets)" using mem by force
  then have input: "reservation_input_post_init (expected_input f pdf bytes pages) = Inr ()"
    using valid assms(2) bounds res
    by (simp add: expected_input_def sel reservation_input_post_init_def source_facts_ok_def
      valid_rcv_def credit_sha_ok_of_is_sha del: set_map)
  have val: "eri_value (env_reservation_input e) = expected_input f pdf bytes pages"
    by (simp add: e_def expected_envelope_def Let_def)
  show "mk_reservation_input (eri_value (env_reservation_input e)) = Inr (eri_value (env_reservation_input e))"
    using input by (simp add: val mk_reservation_input_def)
  show "encode_resource_reservation_input (eri_value (env_reservation_input e)) = Inr (env_reservation_input e)"
    using encode_reservation_input_total [OF input] unfolding val by (simp add: e_def expected_envelope_def Let_def)
  show "eri_value (env_reservation_input e) =
      \<lparr>ri_source_pdf_sha256 = pdf, ri_source_byte_count = bytes, ri_source_page_count = pages,
       ri_process_profile_sha256 = env_process_profile_sha256 e,
       ri_credit_policy_sha256 = env_credit_policy_sha256 e,
       ri_bucket = ri_bucket (eri_value (env_reservation_input e)),
       ri_reservation = env_reservation e, ri_contract_version = STAGED_RESOURCE_RESERVATION_INPUT_CONTRACT\<rparr>"
    by (simp add: e_def expected_envelope_def expected_input_def sel Let_def)
qed

text \<open>The hashes in an envelope are digests.\<close>

lemma envelope_shas:
  "is_sha (env_process_profile_sha256 (expected_envelope f pdf bytes pages))"
  "is_sha (env_credit_policy_sha256 (expected_envelope f pdf bytes pages))"
  "is_sha (eri_sha256 (env_reservation_input (expected_envelope f pdf bytes pages)))"
  by (simp_all add: expected_envelope_def Let_def profile_sha256_def)

lemma reservation_paths_ok:
  fixes pdf label :: string
  assumes "p \<in> set (map snd (snapshot_paths (reservation_token who pdf)))"
  shows "relative_path p label = Inr ()"
  using assms snapshot_paths_safe by (auto simp: relative_path_def reservation_token_def)

lemma path_at_snapshot:
  "path_at (snapshot_paths t) ''snapshot'' = Inr (''spool/.upload-'' @ t @ ''.pdf'')"
  "path_at (snapshot_paths t) ''snapshot_part'' = Inr (''spool/.upload-'' @ t @ ''.pdf.part'')"
  "path_at (snapshot_paths t) ''snapshot_part_owner'' = Inr (''spool/.upload-'' @ t @ ''.pdf.part.owner.json'')"
  "path_at (snapshot_paths t) ''snapshot_lock'' = Inr (''spool/.upload-'' @ t @ ''.lock'')"
  by (simp_all add: path_at_def snapshot_paths_def)

lemma expected_reservation_valid:
  assumes "valid_profile f" and "source_facts_ok f pdf bytes pages" and "is_sha pdf"
    and who: "list_all identity_ok (identities who)" and "1 \<le> generation" "generation \<le> MAX_INT"
    and "is_sha prepared" "is_sha request" "is_sha epoch"
  defines "r \<equiv> expected_reservation_record f pdf bytes pages who generation prepared request epoch"
  shows "valid_reservation r"
proof -
  let ?e = "expected_envelope f pdf bytes pages"
  note env = envelope_facts [OF assms(1,2)]
  have ids: "identities r = identities who" "attempt_id r = attempt_id who" "fence_identity r = fence_identity who"
    by (simp_all add: r_def expected_reservation_record_def attempt_identity.defs identities_def Let_def)
  have fields: "rv_source_pdf_sha256 r = pdf" "rv_source_byte_count r = bytes" "rv_source_page_count r = pages"
      "rv_reserved_credit r = env_reservation ?e"
      "rv_reservation_input_sha256 r = eri_sha256 (env_reservation_input ?e)"
    by (simp_all add: r_def expected_reservation_record_def attempt_identity.defs Let_def)
  let ?t = "reservation_token who pdf"
  have paths: "rv_snapshot_relpath r = ''spool/.upload-'' @ ?t @ ''.pdf''"
      "rv_snapshot_part_relpath r = ''spool/.upload-'' @ ?t @ ''.pdf.part''"
      "rv_snapshot_part_owner_relpath r = ''spool/.upload-'' @ ?t @ ''.pdf.part.owner.json''"
      "rv_snapshot_lock_relpath r = ''spool/.upload-'' @ ?t @ ''.lock''"
    by (simp_all add: r_def expected_reservation_record_def attempt_identity.defs Let_def)
  have safe: "relative_path (rv_snapshot_relpath r) l = Inr ()" "relative_path (rv_snapshot_part_relpath r) l = Inr ()"
      "relative_path (rv_snapshot_part_owner_relpath r) l = Inr ()" "relative_path (rv_snapshot_lock_relpath r) l = Inr ()"
    for l unfolding paths by (rule reservation_paths_ok [of _ who pdf]; simp add: snapshot_paths_def)+
  have "check_reservation_facts r = Inr ()"
    using safe who ids(1) fields env(1) env(6-9) assms(3-9) envelope_shas
    by (simp add: check_reservation_facts_def valid_rcv_def)
       (simp add: r_def expected_reservation_record_def attempt_identity.defs Let_def)
  moreover have "reservation_input_of r = Inr (env_reservation_input ?e)"
  proof -
    have "\<lparr>ri_source_pdf_sha256 = rv_source_pdf_sha256 r, ri_source_byte_count = rv_source_byte_count r,
        ri_source_page_count = rv_source_page_count r, ri_process_profile_sha256 = rv_process_profile_sha256 r,
        ri_credit_policy_sha256 = rv_credit_policy_sha256 r, ri_bucket = rv_reservation_bucket r,
        ri_reservation = rv_reserved_credit r,
        ri_contract_version = STAGED_RESOURCE_RESERVATION_INPUT_CONTRACT\<rparr> = eri_value (env_reservation_input ?e)"
      by (subst env(5)) (simp add: r_def expected_reservation_record_def attempt_identity.defs Let_def)
    then show ?thesis using env(3,4) by (simp add: reservation_input_of_def)
  qed
  then have "check_reservation_input r = Inr ()"
    by (simp add: check_reservation_input_def fields)
  moreover have "check_reservation_paths r = Inr ()"
  proof -
    have "deterministic_local_resource_paths_v4 (attempt_id r) (fence_identity r) (rv_source_pdf_sha256 r) None None None
        = Inr (snapshot_paths ?t)"
      using who assms(3) by (simp add: paths_before ids fields reservation_token_def identities_def)
    then show ?thesis by (simp add: check_reservation_paths_def path_at_snapshot paths)
  qed
  ultimately show ?thesis
    using env(2) by (simp add: valid_reservation_def reservation_post_init_def fields)
qed

lemma build_reservation_iff:
  fixes who :: attempt_identity
  assumes "valid_profile f" and "source_facts_ok f pdf bytes pages"
  defines "e \<equiv> expected_envelope f pdf bytes pages"
  shows "build_resource_reservation_v4 who generation pdf bytes pages prepared request epoch
      (env_process_profile_sha256 e) (env_credit_policy_sha256 e) (ri_bucket (eri_value (env_reservation_input e)))
      (eri_sha256 (env_reservation_input e)) (env_reservation e) = Inr r
    \<longleftrightarrow> list_all identity_ok (identities who) \<and> is_sha pdf \<and> 1 \<le> generation \<and> generation \<le> MAX_INT
      \<and> is_sha prepared \<and> is_sha request \<and> is_sha epoch
      \<and> r = expected_reservation_record f pdf bytes pages who generation prepared request epoch" (is "?l = ?r")
proof
  assume ?r
  then have "valid_reservation r" using expected_reservation_valid [OF assms(1,2)] by blast
  with \<open>?r\<close> show ?l
    by (simp add: build_resource_reservation_v4_def paths_before path_at_snapshot identities_def)
       (simp add: expected_reservation_record_def reservation_token_def e_def Let_def)
next
  assume l: ?l
  then have paths: "is_sha pdf"
      and v: "valid_reservation r" and r: "r = expected_reservation_record f pdf bytes pages who generation prepared request epoch"
    by (auto simp: build_resource_reservation_v4_def paths_before path_at_snapshot)
       (auto simp: expected_reservation_record_def reservation_token_def e_def Let_def)
  have "check_reservation_facts r = Inr ()" using v by (simp add: valid_reservation_def reservation_post_init_def)
  then show ?r
    using paths by (auto simp: check_reservation_facts_def r)
      (simp_all add: expected_reservation_record_def attempt_identity.defs identities_def Let_def)
qed

subsection \<open>Its hash, the intent and the first checkpoint\<close>

lemma length_token: "length (reservation_token who pdf) = 64"
  by (simp add: reservation_token_def)

lemma reservation_bytes_total:
  fixes who :: attempt_identity
  assumes "valid_profile f" and "source_facts_ok f pdf bytes pages" and "is_sha pdf"
    and who: "list_all identity_ok (identities who)" and gen: "1 \<le> generation" "generation \<le> MAX_INT"
    and shas: "is_sha prepared" "is_sha request" "is_sha epoch"
  defines "r \<equiv> expected_reservation_record f pdf bytes pages who generation prepared request epoch"
  shows "reservation_sha256 r = Inr (digest (json_bytes (reservation_payload r)))"
proof -
  let ?e = "expected_envelope f pdf bytes pages"
  note env = envelope_facts [OF assms(1,2)]
  have ids: "list_all identity_ok (identities r)"
    using who by (simp add: r_def expected_reservation_record_def attempt_identity.defs identities_def Let_def)
  have members: "sum_list (map (\<lambda>kv. 4 + 6 * length (fst kv) + text_bound (snd kv)) (identity_members r)) \<le> 13000"
    using ids by (rule identity_members_bound)
  have ints: "length (int_text generation) \<le> 19" "length (int_text bytes) \<le> 19" "length (int_text pages) \<le> 19"
    using gen env(6-9) by (auto intro!: length_int_text)
  have credit: "text_bound (rcv_json (env_reservation ?e)) \<le> 2000" by (rule rcv_json_bound [OF env(1)])
  have lens: "length pdf = 71" "length prepared = 71" "length request = 71" "length epoch = 71"
      "length (env_process_profile_sha256 ?e) = 71" "length (env_credit_policy_sha256 ?e) = 71"
      "length (eri_sha256 (env_reservation_input ?e)) = 71"
    using shas assms(3) envelope_shas by (auto intro: is_sha_length)
  have bucket: "length (bucket_name b) \<le> 7" for b by (cases b) auto
  have "text_bound (reservation_payload r) \<le> 50000"
    using members credit ints lens bucket [of "ri_bucket (eri_value (env_reservation_input ?e))"]
    by (simp add: reservation_payload_def RESOURCE_RESERVATION_V4_CONTRACT_def)
       (simp add: r_def expected_reservation_record_def attempt_identity.defs Let_def length_token
         RESOURCE_RESERVATION_V4_CONTRACT_def)
  then have "2 * text_bound (reservation_payload r) \<le> MAX_BYTES" by (simp add: MAX_BYTES_def)
  then show ?thesis by (simp add: reservation_sha256_def lifecycle_json_def canonical_json_total digest_of_def)
qed

definition expected_intent :: "resource_reservation \<Rightarrow> string \<Rightarrow> string \<Rightarrow> int \<Rightarrow> preparation_intent" where
  "expected_intent r target sha bytes = attempt_identity.extend (attempt_identity.truncate r)
     \<lparr>pi_source_pdf_sha256 = rv_source_pdf_sha256 r, pi_source_byte_count = rv_source_byte_count r,
      pi_source_page_count = rv_source_page_count r, pi_parser_target_sha256 = target,
      pi_request_sha256 = rv_request_sha256 r, pi_runtime_epoch_sha256 = rv_runtime_epoch_sha256 r,
      pi_process_profile_sha256 = rv_process_profile_sha256 r,
      pi_execution_spec_sha256 = sha, pi_execution_spec_byte_count = bytes,
      pi_reservation_sha256 = digest (json_bytes (reservation_payload r)), pi_snapshot_relpath = rv_snapshot_relpath r,
      pi_snapshot_part_relpath = rv_snapshot_part_relpath r,
      pi_snapshot_part_owner_relpath = rv_snapshot_part_owner_relpath r,
      pi_snapshot_lock_relpath = rv_snapshot_lock_relpath r,
      pi_contract_version = PREPARATION_INTENT_V4_CONTRACT\<rparr>"

text \<open>From here on, of a reservation only the following facts are used.\<close>

definition settled_reservation :: "resource_reservation \<Rightarrow> bool" where
  "settled_reservation r =
     (valid_reservation r \<and> reservation_sha256 r = Inr (digest (json_bytes (reservation_payload r)))
      \<and> length (rv_snapshot_relpath r) \<le> 200 \<and> length (rv_snapshot_part_relpath r) \<le> 200
      \<and> length (rv_snapshot_part_owner_relpath r) \<le> 200 \<and> length (rv_snapshot_lock_relpath r) \<le> 200)"

lemma expected_reservation_settled:
  fixes who :: attempt_identity
  assumes "valid_profile f" and "source_facts_ok f pdf bytes pages" and "is_sha pdf"
    and "list_all identity_ok (identities who)" and "1 \<le> generation" "generation \<le> MAX_INT"
    and "is_sha prepared" "is_sha request" "is_sha epoch"
  shows "settled_reservation (expected_reservation_record f pdf bytes pages who generation prepared request epoch)"
  using expected_reservation_valid [OF assms] reservation_bytes_total [OF assms]
  by (simp add: settled_reservation_def)
     (simp add: expected_reservation_record_def attempt_identity.defs Let_def length_token)

lemma settled_facts:
  assumes "settled_reservation r"
  shows "list_all identity_ok (identities r)" "1 \<le> rv_attempt_generation r" "rv_attempt_generation r \<le> MAX_INT"
    "is_sha (rv_source_pdf_sha256 r)" "is_sha (rv_request_sha256 r)" "is_sha (rv_runtime_epoch_sha256 r)"
    "is_sha (rv_process_profile_sha256 r)" "is_sha (rv_credit_policy_sha256 r)" "is_sha (rv_reservation_input_sha256 r)"
    "1 \<le> rv_source_byte_count r" "rv_source_byte_count r \<le> MAX_INT"
    "1 \<le> rv_source_page_count r" "rv_source_page_count r \<le> MAX_INT"
    "relative_path (rv_snapshot_relpath r) l = Inr ()" "relative_path (rv_snapshot_part_relpath r) l = Inr ()"
    "relative_path (rv_snapshot_part_owner_relpath r) l = Inr ()" "relative_path (rv_snapshot_lock_relpath r) l = Inr ()"
proof -
  have *: "check_reservation_facts r = Inr ()"
    using assms by (simp add: settled_reservation_def valid_reservation_def reservation_post_init_def)
  have any: "relative_path p a = Inr () \<Longrightarrow> relative_path p l = Inr ()" for p a
    by (simp add: relative_path_def validate_relative_resource_path_v4_def)
  from * show "list_all identity_ok (identities r)" "1 \<le> rv_attempt_generation r" "rv_attempt_generation r \<le> MAX_INT"
    "is_sha (rv_source_pdf_sha256 r)" "is_sha (rv_request_sha256 r)" "is_sha (rv_runtime_epoch_sha256 r)"
    "is_sha (rv_process_profile_sha256 r)" "is_sha (rv_credit_policy_sha256 r)" "is_sha (rv_reservation_input_sha256 r)"
    "1 \<le> rv_source_byte_count r" "rv_source_byte_count r \<le> MAX_INT"
    "1 \<le> rv_source_page_count r" "rv_source_page_count r \<le> MAX_INT"
    by (simp_all add: check_reservation_facts_def)
  from * show "relative_path (rv_snapshot_relpath r) l = Inr ()" "relative_path (rv_snapshot_part_relpath r) l = Inr ()"
    "relative_path (rv_snapshot_part_owner_relpath r) l = Inr ()" "relative_path (rv_snapshot_lock_relpath r) l = Inr ()"
    using any unfolding check_reservation_facts_def checks_Cons_Inr by blast+
qed

lemma build_intent_iff:
  assumes "settled_reservation r"
  shows "build_preparation_intent_v4 r target sha bytes = Inr i \<longleftrightarrow>
    is_sha target \<and> is_sha sha \<and> 1 \<le> bytes \<and> bytes \<le> MAX_INT \<and> i = expected_intent r target sha bytes"
proof -
  note facts = settled_facts [OF assms]
  have ids: "identities (expected_intent r target sha bytes) = identities r"
    by (simp add: expected_intent_def attempt_identity.defs identities_def)
  have eids: "list_all (evidence_identity_ok 1024) (identities r)"
    using facts(1) by (auto simp: list_all_iff identity_ok_evidence)
  have "preparation_post_init (expected_intent r target sha bytes) = Inr () \<longleftrightarrow>
      is_sha target \<and> is_sha sha \<and> 1 \<le> bytes \<and> bytes \<le> MAX_INT"
    using facts eids ids by (simp add: preparation_post_init_def) (simp add: expected_intent_def attempt_identity.defs)
  moreover have "build_preparation_intent_v4 r target sha bytes = mk_preparation (expected_intent r target sha bytes)"
    using assms by (simp add: build_preparation_intent_v4_def settled_reservation_def expected_intent_def)
  ultimately show ?thesis by (auto simp: mk_preparation_def)
qed

lemma intent_bytes_total:
  assumes "settled_reservation r" and "is_sha target" "is_sha sha" "1 \<le> bytes" "bytes \<le> MAX_INT"
  defines "i \<equiv> expected_intent r target sha bytes"
  shows "value_bytes (Preparation_value i) = Inr (json_bytes (preparation_payload i))"
proof -
  note facts = settled_facts [OF assms(1)]
  have ids: "list_all identity_ok (identities i)"
    using facts(1) by (simp add: i_def expected_intent_def attempt_identity.defs identities_def)
  have members: "sum_list (map (\<lambda>kv. 4 + 6 * length (fst kv) + text_bound (snd kv)) (identity_members i)) \<le> 13000"
    using ids by (rule identity_members_bound)
  have ints: "length (int_text bytes) \<le> 19" "length (int_text (rv_source_byte_count r)) \<le> 19"
      "length (int_text (rv_source_page_count r)) \<le> 19"
    using assms(4,5) facts(10-13) by (auto intro!: length_int_text)
  have lens: "length (rv_source_pdf_sha256 r) = 71" "length target = 71" "length sha = 71"
      "length (rv_request_sha256 r) = 71" "length (rv_runtime_epoch_sha256 r) = 71"
      "length (rv_process_profile_sha256 r) = 71"
      "length (digest (json_bytes (reservation_payload r))) = 71"
    using facts(4-9) assms(2,3) by (auto intro: is_sha_length)
  have paths: "length (rv_snapshot_relpath r) \<le> 200" "length (rv_snapshot_part_relpath r) \<le> 200"
      "length (rv_snapshot_part_owner_relpath r) \<le> 200" "length (rv_snapshot_lock_relpath r) \<le> 200"
    using assms(1) by (simp_all add: settled_reservation_def)
  have "text_bound (preparation_payload i) \<le> 50000"
    using members ints lens paths
    by (simp add: preparation_payload_def)
       (simp add: i_def expected_intent_def attempt_identity.defs PREPARATION_INTENT_V4_CONTRACT_def)
  then have "2 * text_bound (preparation_payload i) \<le> MAX_BYTES" by (simp add: MAX_BYTES_def)
  then show ?thesis by (simp add: evidence_json_def canonical_json_total)
qed

definition expected_checkpoint :: "resource_reservation \<Rightarrow> string \<Rightarrow> remote_parse_checkpoint" where
  "expected_checkpoint r sha = attempt_identity.extend (attempt_identity.truncate r)
     \<lparr>cp_attempt_generation = rv_attempt_generation r, cp_state = Prepared, cp_lifecycle_version = 0,
      cp_previous_checkpoint_sha256 = None, cp_source_pdf_sha256 = rv_source_pdf_sha256 r,
      cp_source_byte_count = rv_source_byte_count r, cp_source_page_count = rv_source_page_count r,
      cp_request_sha256 = rv_request_sha256 r, cp_runtime_epoch_sha256 = rv_runtime_epoch_sha256 r,
      cp_process_profile_sha256 = rv_process_profile_sha256 r,
      cp_credit_policy_sha256 = rv_credit_policy_sha256 r,
      cp_reservation_input_sha256 = rv_reservation_input_sha256 r,
      cp_held_resource_credit = snapshot_credit (rv_source_byte_count r),
      cp_evidence = (\<lambda>_. None)(Preparation_intent := Some sha, Snapshot_receipt := None),
      cp_contract_version = CHECKPOINT_V4_CONTRACT\<rparr>"

lemma expected_checkpoint_valid:
  assumes "settled_reservation r" and "is_sha sha"
  defines "c \<equiv> expected_checkpoint r sha"
  shows "valid_checkpoint c"
proof -
  note facts = settled_facts [OF assms(1)]
  have ids: "identities c = identities r"
    by (simp add: c_def expected_checkpoint_def attempt_identity.defs identities_def)
  have credit: "valid_rcv (snapshot_credit (rv_source_byte_count r))"
    using facts(10,11) by (simp add: valid_rcv_fields snapshot_credit_def in_range_def MAX_INT_def)
  have "check_checkpoint_facts c = Inr ()"
    using ids facts credit
    by (simp add: check_checkpoint_facts_def valid_rcv_def)
       (simp add: c_def expected_checkpoint_def attempt_identity.defs in_range_def)
  moreover have "check_evidence_hashes c = Inr ()"
    using assms(2) by (auto simp: check_evidence_hashes_def c_def expected_checkpoint_def attempt_identity.defs)
  moreover have "validate_state_evidence c = Inr ()"
    by (simp add: validate_state_evidence_def check_conflicts_def check_lifecycle_zero_def check_state_evidence_def
      resource_free_def c_def expected_checkpoint_def attempt_identity.defs has_def is_final_def final_states_def)
  moreover have "validate_evidence_frontier c = Inr ()"
    by (auto simp: frontier_Inr frontier_allowed_def c_def expected_checkpoint_def attempt_identity.defs has_def
       resource_free_def ordinary_order_def ordinary_fields_def split: if_splits)
  moreover have "checkpoint_credit_shape c = Inr ()"
    using facts(10,11) credit
    by (simp add: checkpoint_credit_shape_def validate_credit_shape_def c_def expected_checkpoint_def
       attempt_identity.defs mk_rcv_Inr snapshot_credit_def is_final_def final_states_def)
  ultimately show ?thesis by (simp add: valid_checkpoint_iff)
qed

lemma build_initial_expected:
  assumes "settled_reservation r" and "is_sha sha"
  shows "build_initial_remote_parse_checkpoint_v4 r sha (snapshot_credit (rv_source_byte_count r)) None
    = Inr (expected_checkpoint r sha)"
  using expected_checkpoint_valid [OF assms]
  by (simp add: build_initial_remote_parse_checkpoint_v4_def expected_checkpoint_def)

subsection \<open>The bundle of a first head\<close>

definition intent_digest :: "preparation_intent \<Rightarrow> string" where
  "intent_digest i = digest (json_bytes (preparation_payload i))"

definition intent_evidence :: "preparation_intent \<Rightarrow> encoded_evidence" where
  "intent_evidence i =
     \<lparr>ev_kind = Preparation_kind, ev_value = Preparation_value i,
      ev_exact_bytes = json_bytes (preparation_payload i), ev_sha256 = intent_digest i,
      ev_byte_count = int (length (json_bytes (preparation_payload i)))\<rparr>"

definition first_bundle :: "resource_reservation \<Rightarrow> preparation_intent \<Rightarrow> bundle_inputs" where
  "first_bundle r i = (let c = expected_checkpoint r (intent_digest i) in
     (plain_bundle c [intent_evidence i]) \<lparr>bi_reservation := Some r, bi_history := Some [c]\<rparr>)"

lemma first_values:
  "bundle_values_of [intent_evidence i] =
     \<lparr>bv_preparation = Some i, bv_snapshot = None, bv_submission = None, bv_accepted = None, bv_terminal = None,
      bv_intent = None, bv_local = None, bv_failure = None, bv_supersession = None, bv_plan = None,
      bv_cleanup = None, bv_ack = None\<rparr>"
  by (simp add: bundle_values_of_def typed_item_def item_of_def intent_evidence_def)

lemma first_bundle_valid:
  assumes r: "settled_reservation r" and "is_sha target" "is_sha sha" "1 \<le> bytes" "bytes \<le> MAX_INT"
  shows "validate_durable_remote_parse_evidence_bundle_v4 (first_bundle r (expected_intent r target sha bytes)) = Inr ()"
proof -
  let ?i = "expected_intent r target sha bytes"
  let ?c = "expected_checkpoint r (intent_digest ?i)"
  note facts = settled_facts [OF r]
  have rsha: "reservation_sha256 r = Inr (digest (json_bytes (reservation_payload r)))"
    using r by (simp add: settled_reservation_def)
  have isha: "value_sha (Preparation_value ?i) = Inr (intent_digest ?i)"
    using intent_bytes_total [OF assms] by (simp add: value_sha_def intent_digest_def digest_of_def del: value_bytes.simps)
  have free: "\<not> resource_free ?c"
    by (simp add: resource_free_def expected_checkpoint_def attempt_identity.defs)
  have binds: "reservation_binds r ?c"
    by (simp add: reservation_binds_def expected_checkpoint_def attempt_identity.defs identities_def)
  have evidence: "cp_evidence ?c (kind_field k) \<noteq> None \<longleftrightarrow> k = Preparation_kind" for k
    by (cases k) (simp_all add: expected_checkpoint_def attempt_identity.defs)
  have set: "check_evidence_set ?c [intent_evidence ?i] = Inr ()"
  proof -
    have "set (filter (\<lambda>k. cp_evidence ?c (kind_field k) \<noteq> None) evidence_kinds) = {Preparation_kind}"
      using evidence by (auto simp: evidence_kinds_def)
    moreover have "check_value_identity ?c (Preparation_value ?i) = Inr ()"
      by (simp add: check_value_identity_def expected_intent_def expected_checkpoint_def attempt_identity.defs
          identities_def)
    ultimately show ?thesis
      by (simp add: check_evidence_set_def intent_evidence_def)
         (simp add: expected_checkpoint_def attempt_identity.defs)
  qed
  have prep: "check_preparation ?c (Some r) (bundle_values_of [intent_evidence ?i]) = Inr ()"
    using rsha
    by (simp add: check_preparation_def first_values source_sha_def)
       (simp add: expected_intent_def expected_checkpoint_def attempt_identity.defs)
  have credit: "mk_rcv (snapshot_credit (rv_source_byte_count r)) = Inr (snapshot_credit (rv_source_byte_count r))"
    using facts(10,11) by (simp add: mk_rcv_Inr valid_rcv_fields snapshot_credit_def in_range_def MAX_INT_def)
  have held: "check_credit ?c (bundle_values_of [intent_evidence ?i]) = Inr ()"
    using credit
    by (simp add: check_credit_def expected_checkpoint_def attempt_identity.defs
        expected_held_resource_credit_v4_def Let_def)
  have replay: "replay_history [?c] R 0 = Inr [?c]"
    if "rr_reservation R = r" "rr_preparation R = ?i" "rr_snapshot R = None" "rr_submission R = None" "rr_accepted R = None"
      "rr_terminal R = None" "rr_intent R = None" "rr_local R = None" "rr_winner R = None" for R
    using that credit isha build_initial_expected [OF r is_sha_digest]
    by (simp add: replay_history_def initial_snapshot_def all_updates_def resourceful_prefix_states_def
        roots_update_def submission_update_def one_update_def intent_digest_def)
  have idx: "prefix_index (cp_state ?c) = Some 0"
    by (simp add: expected_checkpoint_def attempt_identity.defs prefix_index_def resourceful_prefix_states_def)
  have hist: "check_history (first_bundle r ?i) (bundle_values_of [intent_evidence ?i]) = Inr ()"
    using free idx replay
    by (simp add: check_history_def first_bundle_def plain_bundle_def Let_def history_target_def first_values
        validate_resourceful_checkpoint_history_v4_def check_roots_def required_from_def roots_of_def)
       (simp add: expected_checkpoint_def attempt_identity.defs)
  let ?I = "first_bundle r ?i" and ?b = "bundle_values_of [intent_evidence ?i]"
  have parts: "bi_checkpoint ?I = ?c" "bi_evidence ?I = [intent_evidence ?i]" "bi_reservation ?I = Some r"
    by (simp_all add: first_bundle_def plain_bundle_def Let_def)
  have later: "check_snapshot ?c es ?b = Inr ()" "check_submission ?c es ?b = Inr ()" "check_accepted es ?b = Inr ()"
    "check_terminal es ?b = Inr ()" "check_intent ?c (Some r) es ?b = Inr ()" "check_local ?c es ?b = Inr ()"
    "check_failure_chain ?c es ?b = Inr ()" for es
    by (simp_all add: first_values check_snapshot_def check_submission_def check_accepted_def check_terminal_def
        check_intent_def check_local_def check_failure_chain_def)
  have "check_supersession_chain ?I ?b = Inr ()" "check_plan ?I ?b = Inr ()" "check_cleanup ?I ?b = Inr ()"
    "check_ack ?I ?b = Inr ()"
    by (simp_all add: first_values check_supersession_chain_def check_plan_def check_cleanup_def check_ack_def
        first_bundle_def plain_bundle_def Let_def)
  moreover have "check_final ?c [intent_evidence ?i] ?b = Inr ()"
    by (simp add: check_final_def first_values expected_final_outcome_def expected_checkpoint_def attempt_identity.defs)
  moreover have "check_bundle_reservation ?c (Some r) = Inr ()"
    using free binds by (simp add: check_bundle_reservation_def)
  ultimately show ?thesis
    using set prep held hist later
    by (simp only: validate_durable_remote_parse_evidence_bundle_v4_def Let_def parts checks_Cons_Inr checks.simps(1) simp_thms)
qed

subsection \<open>Binding a proposal\<close>

definition expected_creation :: "resource_reservation \<Rightarrow> preparation_intent \<Rightarrow> execution_spec \<Rightarrow> prepared_creation" where
  "expected_creation r i x =
     \<lparr>cr_checkpoint = expected_checkpoint r (intent_digest i), cr_reservation = r, cr_preparation_intent = i,
      cr_snapshot_receipt = None,
      cr_parser_target_sha256 = ps_parser_target_identity_sha256 (xs_prepared_submission x),
      cr_client_submit_key = ps_client_submit_key (xs_prepared_submission x), cr_execution_spec = x\<rparr>"

lemma prepared_shas:
  assumes "prepared_post_init s = Inr ()"
  shows "is_sha (ps_source_pdf_sha256 s)" "is_sha (ps_parser_target_identity_sha256 s)"
    "is_sha (ps_runtime_bundle_identity_sha256 s)" "is_sha (ps_request_sha256 s)" "is_sha (ps_sha256 s)"
  using assms by (simp_all add: prepared_post_init_def)

lemma spec_bytes_bounds:
  assumes "encode_v4_prepared_execution_spec x = Inr exact"
  shows "1 \<le> int (length exact)" "int (length exact) \<le> MAX_INT"
  using assms json_bytes_nonempty
  by (auto simp: encode_v4_prepared_execution_spec_def Let_def MAX_V4_PREPARED_EXECUTION_SPEC_BYTES_def MAX_INT_def
      Suc_le_eq)

text \<open>The creation made from a settled reservation, and when its constructor accepts it.\<close>

lemma creation_iff:
  assumes r: "settled_reservation r" and target: "is_sha target" and exact: "encode_v4_prepared_execution_spec x = Inr exact"
    and s: "target = ps_parser_target_identity_sha256 (xs_prepared_submission x)"
  defines "i \<equiv> expected_intent r target (digest exact) (int (length exact))"
  shows "creation_post_init (expected_creation r i x) = Inr () \<longleftrightarrow>
    submit_key_ok (ps_client_submit_key (xs_prepared_submission x))
    \<and> spec_binds x r i target (ps_client_submit_key (xs_prepared_submission x)) (digest exact) (int (length exact))
        (digest (json_bytes (reservation_payload r)))"
proof -
  let ?n = "expected_creation r i x" and ?c = "expected_checkpoint r (intent_digest i)"
  note total = intent_bytes_total [OF r target is_sha_digest spec_bytes_bounds [OF exact], of exact, folded i_def]
  have isha: "value_sha (Preparation_value i) = Inr (intent_digest i)"
    using total by (simp add: value_sha_def intent_digest_def digest_of_def del: value_bytes.simps)
  have rsha: "reservation_sha256 r = Inr (digest (json_bytes (reservation_payload r)))"
    using r by (simp add: settled_reservation_def)
  have csha: "checkpoint_sha256 ?c = Inr (checkpoint_digest ?c)"
    by (rule checkpoint_sha256_total [OF expected_checkpoint_valid [OF r]]) (simp add: intent_digest_def)
  have nonempty: "checkpoint_digest ?c \<noteq> ''''"
    using is_sha_length [of "checkpoint_digest ?c"] by (auto simp: checkpoint_digest_def)
  have evidence: "creation_evidence ?n = Inr [intent_evidence i]"
  proof -
    have "encode_remote_parse_evidence_v4 (Preparation_value i) = Inr (intent_evidence i)"
      using total value_bytes_bounds [OF total]
      by (auto simp: encode_evidence_Inr encoded_post_init_def intent_evidence_def intent_digest_def
          simp del: value_bytes.simps)
    then show ?thesis by (simp add: creation_evidence_def expected_creation_def)
  qed
  have inputs: "creation_bundle ?n [intent_evidence i] = first_bundle r i"
    by (simp add: creation_bundle_def first_bundle_def expected_creation_def Let_def)
  have valid: "validate_durable_remote_parse_evidence_bundle_v4 (first_bundle r i) = Inr ()"
    unfolding i_def by (rule first_bundle_valid [OF r target is_sha_digest spec_bytes_bounds [OF exact]])
  have shape: "check_creation_shape ?n = Inr ()"
    by (simp add: check_creation_shape_def expected_creation_def expected_checkpoint_def attempt_identity.defs)
  have drift: "check_creation_evidence ?n = Inr ()"
  proof -
    have "attempt_id ?c = attempt_id r" "cp_evidence ?c Preparation_intent = Some (intent_digest i)"
      "cp_evidence ?c Snapshot_receipt = None"
      by (simp_all add: expected_checkpoint_def attempt_identity.defs)
    moreover have "pi_parser_target_sha256 i = target"
      by (simp add: i_def expected_intent_def attempt_identity.defs)
    ultimately show ?thesis
      using csha isha nonempty s by (simp add: check_creation_evidence_def expected_creation_def Let_def)
  qed
  have fields: "cr_parser_target_sha256 ?n = target" "cr_client_submit_key ?n = ps_client_submit_key (xs_prepared_submission x)"
    "cr_reservation ?n = r" "cr_preparation_intent ?n = i" "cr_execution_spec ?n = x"
    by (simp_all add: expected_creation_def s)
  have spec: "spec_sha256 x = Inr (digest exact)" "spec_byte_count x = Inr (int (length exact))"
    using exact by (simp_all add: spec_sha256_def spec_byte_count_def digest_of_def)
  have roots: "require_creation_head_roots (cr_parser_target_sha256 ?n) (cr_client_submit_key ?n) = Inr () \<longleftrightarrow>
      submit_key_ok (ps_client_submit_key (xs_prepared_submission x))"
    using target by (simp add: require_creation_head_roots_def fields)
  have binding: "require_v4_execution_spec_binding (Some x) r i target (ps_client_submit_key (xs_prepared_submission x))
      = Inr () \<longleftrightarrow> spec_binds x r i target (ps_client_submit_key (xs_prepared_submission x)) (digest exact)
        (int (length exact)) (digest (json_bytes (reservation_payload r)))"
    using spec rsha by (simp add: require_v4_execution_spec_binding_def)
  show ?thesis
    using shape drift evidence inputs valid roots binding
    by (simp add: creation_post_init_def fields)
qed

text \<open>The reservation and the intent of a proposal.\<close>

definition proposal_record :: "mineru_process_profile \<Rightarrow> prepared_proposal \<Rightarrow> int \<Rightarrow> resource_reservation" where
  "proposal_record f p generation =
     (let s = pp_prepared_submission p; input = eri_value (env_reservation_input (pp_credit_envelope p))
      in expected_reservation_record f (ri_source_pdf_sha256 input) (ri_source_byte_count input)
           (ri_source_page_count input) (proposal_identity p) generation (ps_sha256 s) (ps_request_sha256 s)
           (ps_runtime_bundle_identity_sha256 s))"

definition proposal_creation :: "mineru_process_profile \<Rightarrow> prepared_proposal \<Rightarrow> int \<Rightarrow> string \<Rightarrow> prepared_creation" where
  "proposal_creation f p generation exact =
     (let r = proposal_record f p generation in expected_creation r
        (expected_intent r (ps_parser_target_identity_sha256 (pp_prepared_submission p)) (digest exact) (int (length exact)))
        (pp_execution_spec p))"

lemma proposal_binds:
  assumes "xs_prepared_submission (pp_execution_spec p) = pp_prepared_submission p"
    and "ps_source_pdf_sha256 (pp_prepared_submission p)
      = ri_source_pdf_sha256 (eri_value (env_reservation_input (pp_credit_envelope p)))"
    and "xs_process_profile_sha256 (pp_execution_spec p) = profile_sha256 f"
    and "r = proposal_record f p generation" and "target = ps_parser_target_identity_sha256 (pp_prepared_submission p)"
  shows "spec_binds (pp_execution_spec p) r (expected_intent r target sha bytes) target
     (ps_client_submit_key (pp_prepared_submission p)) sha bytes (digest (json_bytes (reservation_payload r)))"
  using assms(1-3)
  by (simp add: spec_binds_def Let_def expected_intent_def attempt_identity.defs)
     (simp add: assms(4,5) proposal_record_def expected_reservation_record_def Let_def attempt_identity.defs
        proposal_identity_def expected_envelope_def)

lemma bind_proposal_iff:
  assumes "valid_profile f" and env: "build_staged_resource_credit_envelope f pdf bytes pages = Inr (pp_credit_envelope p)"
    and "proposal_post_init p = Inr ()" and "prepared_post_init (pp_prepared_submission p) = Inr ()"
  shows "bind_v4_prepared_proposal p generation = Inr n \<longleftrightarrow>
    list_all identity_ok (identities (proposal_identity p)) \<and> 1 \<le> generation \<and> generation \<le> MAX_INT
    \<and> submit_key_ok (ps_client_submit_key (pp_prepared_submission p))
    \<and> xs_process_profile_sha256 (pp_execution_spec p) = profile_sha256 f
    \<and> (\<exists>exact. encode_v4_prepared_execution_spec (pp_execution_spec p) = Inr exact
        \<and> n = proposal_creation f p generation exact)" (is "?bound \<longleftrightarrow> ?conditions")
proof -
  let ?s = "pp_prepared_submission p" and ?x = "pp_execution_spec p" and ?e = "pp_credit_envelope p"
  have ok: "source_facts_ok f pdf bytes pages" and e: "?e = expected_envelope f pdf bytes pages"
    using env assms(1) by (simp_all add: build_envelope_iff)
  note facts = envelope_facts [OF assms(1) ok, folded e]
  have input: "ri_source_pdf_sha256 (eri_value (env_reservation_input ?e)) = pdf"
    "ri_source_byte_count (eri_value (env_reservation_input ?e)) = bytes"
    "ri_source_page_count (eri_value (env_reservation_input ?e)) = pages"
    by (subst facts(5); simp)+
  have same: "xs_prepared_submission ?x = ?s" and source: "ps_source_pdf_sha256 ?s = pdf"
    using assms(3) input by (simp_all add: proposal_post_init_def)
  note shas = prepared_shas [OF assms(4)]
  let ?ids = "list_all identity_ok (identities (proposal_identity p)) \<and> 1 \<le> generation \<and> generation \<le> MAX_INT"
  let ?r = "proposal_record f p generation" and ?target = "ps_parser_target_identity_sha256 ?s"
  have rec: "?r = expected_reservation_record f pdf bytes pages (proposal_identity p) generation (ps_sha256 ?s)
      (ps_request_sha256 ?s) (ps_runtime_bundle_identity_sha256 ?s)"
    by (simp add: proposal_record_def input Let_def)
  have reservation: "proposal_reservation p generation = Inr r \<longleftrightarrow> ?ids \<and> r = ?r" for r
    using shas source
    by (simp add: proposal_reservation_def Let_def input)
       (simp add: e build_reservation_iff [OF assms(1) ok] rec)
  have settled: "settled_reservation ?r" if "?ids"
    unfolding rec using that shas source by (intro expected_reservation_settled [OF assms(1) ok]) auto
  have count: "rv_source_byte_count ?r = bytes"
    by (simp add: rec expected_reservation_record_def attempt_identity.defs Let_def)
  have binding: "spec_binds ?x ?r (expected_intent ?r ?target sha b) ?target (ps_client_submit_key ?s) sha b
      (digest (json_bytes (reservation_payload ?r))) \<longleftrightarrow> xs_process_profile_sha256 ?x = profile_sha256 f" for sha b
  proof
    assume "spec_binds ?x ?r (expected_intent ?r ?target sha b) ?target (ps_client_submit_key ?s) sha b
      (digest (json_bytes (reservation_payload ?r)))"
    then have "xs_process_profile_sha256 ?x = rv_process_profile_sha256 ?r" by (simp add: spec_binds_def Let_def)
    then show "xs_process_profile_sha256 ?x = profile_sha256 f"
      by (simp add: rec expected_reservation_record_def attempt_identity.defs expected_envelope_def Let_def)
  qed (use same source input(1) in \<open>simp add: proposal_binds\<close>)
  have run: "bind_v4_prepared_proposal p generation = mk_creation (proposal_creation f p generation exact)"
    if ids: "?ids" and exact: "encode_v4_prepared_execution_spec ?x = Inr exact" for exact
  proof -
    note r = settled [OF ids]
    let ?i = "expected_intent ?r ?target (digest exact) (int (length exact))"
    have intent: "build_preparation_intent_v4 ?r ?target (digest exact) (int (length exact)) = Inr ?i"
      using build_intent_iff [OF r] shas(2) spec_bytes_bounds [OF exact] by simp
    have isha: "value_sha (Preparation_value ?i) = Inr (intent_digest ?i)"
      using intent_bytes_total [OF r shas(2) is_sha_digest spec_bytes_bounds [OF exact], of exact]
      by (simp add: value_sha_def intent_digest_def digest_of_def del: value_bytes.simps)
    have credit: "mk_rcv (snapshot_credit bytes) = Inr (snapshot_credit bytes)"
      using facts(6,7) by (simp add: mk_rcv_Inr valid_rcv_fields snapshot_credit_def in_range_def MAX_INT_def)
    have checkpoint: "build_initial_remote_parse_checkpoint_v4 ?r (intent_digest ?i) (snapshot_credit bytes) None
        = Inr (expected_checkpoint ?r (intent_digest ?i))"
      using build_initial_expected [OF r, of "intent_digest ?i"] by (simp add: count intent_digest_def)
    show ?thesis
      using reservation [of ?r] ids intent isha credit checkpoint exact same
      by (simp add: bind_v4_prepared_proposal_def Let_def spec_sha256_def spec_byte_count_def digest_of_def input
          proposal_creation_def expected_creation_def)
  qed
  have made: "creation_post_init (proposal_creation f p generation exact) = Inr () \<longleftrightarrow>
      submit_key_ok (ps_client_submit_key ?s) \<and> xs_process_profile_sha256 ?x = profile_sha256 f"
    if ids: "?ids" and exact: "encode_v4_prepared_execution_spec ?x = Inr exact" for exact
    using creation_iff [OF settled [OF ids] _ exact] shas(2) same binding
    by (simp add: proposal_creation_def Let_def)
  show ?thesis
  proof
    assume ?bound
    then obtain r exact where "proposal_reservation p generation = Inr r"
        and exact: "encode_v4_prepared_execution_spec ?x = Inr exact"
      by (auto simp: bind_v4_prepared_proposal_def Let_def spec_sha256_def)
    then have ids: "?ids" using reservation by blast
    with \<open>?bound\<close> run [OF ids exact] have "creation_post_init (proposal_creation f p generation exact) = Inr ()"
      "n = proposal_creation f p generation exact" by (simp_all add: mk_creation_def)
    with made [OF ids exact] ids exact show ?conditions by blast
  next
    assume ?conditions
    then obtain exact where ids: "?ids" and exact: "encode_v4_prepared_execution_spec ?x = Inr exact"
        and n: "n = proposal_creation f p generation exact" by blast
    with \<open>?conditions\<close> made [OF ids exact] run [OF ids exact] show ?bound by (simp add: mk_creation_def)
  qed
qed

text \<open>C32: A proposal becomes a prepared head exactly when its facts allow it. For a proposal whose envelope was built
  for a valid process profile, binding it to a generation returns just when the four identities pass the stricter
  rules of the lifecycle, the generation is positive and bounded, the submit key fits its 128 bytes, the canonical
  specification exists, and the specification carries the profile of the envelope. The result is then determined:
  reservation, intent, first checkpoint and evidence are the documented ones, and all their checks pass.\<close>

theorem proposal_bound_exactly:
  assumes "valid_profile f" and env: "build_staged_resource_credit_envelope f pdf bytes pages = Inr (pp_credit_envelope p)"
    and "proposal_post_init p = Inr ()" and "prepared_post_init (pp_prepared_submission p) = Inr ()"
  shows "bind_v4_prepared_proposal p generation = Inr n \<longleftrightarrow>
    list_all identity_ok (identities (proposal_identity p)) \<and> 1 \<le> generation \<and> generation \<le> MAX_INT
    \<and> submit_key_ok (ps_client_submit_key (pp_prepared_submission p))
    \<and> xs_process_profile_sha256 (pp_execution_spec p) = profile_sha256 f
    \<and> (\<exists>exact. encode_v4_prepared_execution_spec (pp_execution_spec p) = Inr exact
        \<and> n = proposal_creation f p generation exact)"
  by (rule bind_proposal_iff [OF assms])

text \<open>A proposal made of the complete specification of theory \<open>SpecExample\<close>.\<close>

definition proposal_example :: prepared_proposal where
  "proposal_example =
     \<lparr>pp_document_id = ''document-7'', pp_processing_run_id = ''run-7'', pp_prepared_submission = submission_example,
      pp_credit_envelope = expected_envelope profile_example digest_example 5000 12, pp_execution_spec = spec_example\<rparr>"

lemma source_facts_example: "source_facts_ok profile_example digest_example 5000 12"
  by (simp add: source_facts_ok_def credit_sha_ok_of_is_sha profile_example_def)

lemma example_names:
  "list_all identity_ok [''attempt-7'', ''fence-7'', ''document-7'', ''run-7'']" "submit_key_ok ''key-7''"
  "nonblank ''document-7''" "nonblank ''run-7''"
  by code_simp+

lemma proposal_identities_example:
  "list_all identity_ok (identities (proposal_identity proposal_example))"
  using example_names(1)
  by (simp add: proposal_identity_def proposal_example_def submission_example_def submission_seed_def identities_def)

lemma submit_key_example: "submit_key_ok (ps_client_submit_key submission_example)"
  using example_names(2) by (simp add: submission_example_def submission_seed_def)

lemma proposal_example_ok: "proposal_post_init proposal_example = Inr ()"
proof -
  have "ri_source_pdf_sha256 (eri_value (env_reservation_input (expected_envelope profile_example digest_example 5000 12)))
      = digest_example"
    by (subst envelope_facts(5) [OF valid_profile_example source_facts_example]) simp
  moreover have "ps_source_pdf_sha256 submission_example = digest_example"
    "xs_prepared_submission spec_example = submission_example"
    by (simp_all add: submission_example_def submission_seed_def spec_example_def)
  ultimately show ?thesis
    using example_names(3,4) by (simp add: proposal_post_init_def proposal_example_def)
qed

lemma envelope_example:
  "build_staged_resource_credit_envelope profile_example digest_example 5000 12 = Inr (pp_credit_envelope proposal_example)"
  using source_facts_example by (simp add: build_envelope_iff [OF valid_profile_example] proposal_example_def)

lemma proposal_example_parts:
  "pp_prepared_submission proposal_example = submission_example" "pp_execution_spec proposal_example = spec_example"
  "xs_process_profile_sha256 spec_example = profile_sha256 profile_example"
  by (simp_all add: proposal_example_def spec_example_def)

lemma proposal_example_binds:
  assumes "1 \<le> generation" "generation \<le> MAX_INT"
  shows "\<exists>n. bind_v4_prepared_proposal proposal_example generation = Inr n"
proof -
  obtain exact where "encode_v4_prepared_execution_spec spec_example = Inr exact" by (rule spec_example_encodes)
  then show ?thesis
    using assms bind_proposal_iff [OF valid_profile_example envelope_example proposal_example_ok, of generation]
      submission_example_ok proposal_identities_example submit_key_example
    by (auto simp: proposal_example_parts)
qed

theorem proposal_bound_exactly_witness:
  "\<exists>exact. bind_v4_prepared_proposal proposal_example 1 = Inr (proposal_creation profile_example proposal_example 1 exact)"
proof -
  obtain exact where "encode_v4_prepared_execution_spec spec_example = Inr exact" by (rule spec_example_encodes)
  then show ?thesis
    using proposal_bound_exactly [OF valid_profile_example envelope_example proposal_example_ok, of 1]
      submission_example_ok proposal_identities_example submit_key_example
    by (auto simp: proposal_example_parts MAX_INT_def)
qed

subsection \<open>The limits of a bound proposal\<close>

lemma bound_without_snapshot:
  assumes "bind_v4_prepared_proposal p generation = Inr d"
  shows "cr_snapshot_receipt d = None"
  using assms by (auto simp: bind_v4_prepared_proposal_def mk_creation_def Let_def)

text \<open>A head bound from a proposal cannot serve as the superseding head of an attempt that owns nothing: the
  chain check of a supersession asks for a snapshot receipt of the superseding head, and binding never gives one. So
  whatever the source, the receipt and the keys are, constructing the supersession creation raises.\<close>

theorem bound_proposal_cannot_supersede:
  assumes "bind_v4_prepared_proposal p generation = Inr (sc_superseding n)"
  shows "mk_supersession_creation n \<noteq> Inr m"
proof
  assume "mk_supersession_creation n = Inr m"
  then obtain e where e: "encode_remote_parse_evidence_v4 (Supersession_value (sc_supersession_receipt n)) = Inr e"
      and valid: "validate_durable_remote_parse_evidence_bundle_v4 (supersession_bundle n e) = Inr ()"
    by (auto simp: mk_supersession_creation_def supersession_creation_post_init_def)
  let ?I = "supersession_bundle n e"
  have given: "bi_evidence ?I = [e]" "bi_superseding_snapshot ?I = None"
    using bound_without_snapshot [OF assms] by (simp_all add: supersession_bundle_def plain_bundle_def Let_def)
  have "ev_kind e = Supersession_kind" "ev_value e = Supersession_value (sc_supersession_receipt n)"
    using e by (auto simp: encode_evidence_Inr encoded_post_init_def)
  then have "bv_supersession (bundle_values_of [e]) = Some (sc_supersession_receipt n)"
    by (simp add: bundle_values_of_def typed_item_def item_of_def)
  moreover have "check_supersession_chain ?I (bundle_values_of [e]) = Inr ()"
    using valid by (simp add: validate_durable_remote_parse_evidence_bundle_v4_def Let_def given)
  ultimately show False
    using given by (auto simp: check_supersession_chain_def Let_def split: option.splits)
qed

text \<open>Two modules hash the same parser target: the execution specification its ASCII text, the lifecycle its
  UTF-8 text.\<close>




text \<open>A target with other characters is a valid one, and every materialization intent names the hash of its
  context's target.\<close>

lemma accented_target_valid:
  "validate_target (target_example\<lparr>pt_language := [CHR 0xE9]\<rparr>) = Inr ()"
  "\<not> low_json (target_payload (target_example\<lparr>pt_language := [CHR 0xE9]\<rparr>))"
  by (simp add: validate_target_def target_example_def parser_backends_def parser_methods_def is_prefix_def page_ok_def)
     (simp add: target_payload_def low_def code_def)

lemma intent_names_context_target:
  "check_intent_context i = Inr () \<Longrightarrow>
     context_parser_target_sha256 (mi_provider_envelope_context i) = Inr (mi_parser_target_sha256 i)"
  by (auto simp: check_intent_context_def Let_def split: if_splits sum.splits)

subsection \<open>A replayed bundle\<close>

definition record_example :: resource_reservation where
  "record_example = proposal_record profile_example proposal_example 1"

definition bundle_example :: bundle_inputs where
  "bundle_example = first_bundle record_example (expected_intent record_example digest_example digest_example 1000)"

lemma record_example_settled: "settled_reservation record_example"
proof -
  have e: "pp_credit_envelope proposal_example = expected_envelope profile_example digest_example 5000 12"
    and s: "pp_prepared_submission proposal_example = submission_example" by (simp_all add: proposal_example_def)
  note input = envelope_facts(5) [OF valid_profile_example source_facts_example]
  have "ri_source_pdf_sha256 (eri_value (env_reservation_input (pp_credit_envelope proposal_example))) = digest_example"
    "ri_source_byte_count (eri_value (env_reservation_input (pp_credit_envelope proposal_example))) = 5000"
    "ri_source_page_count (eri_value (env_reservation_input (pp_credit_envelope proposal_example))) = 12"
    unfolding e by (subst input; simp)+
  then have "record_example = expected_reservation_record profile_example digest_example 5000 12
      (proposal_identity proposal_example) 1 (ps_sha256 submission_example) (ps_request_sha256 submission_example)
      (ps_runtime_bundle_identity_sha256 submission_example)"
    by (simp add: record_example_def proposal_record_def s Let_def)
  moreover have "settled_reservation (expected_reservation_record profile_example digest_example 5000 12
      (proposal_identity proposal_example) 1 (ps_sha256 submission_example) (ps_request_sha256 submission_example)
      (ps_runtime_bundle_identity_sha256 submission_example))"
    using prepared_shas [OF submission_example_ok]
    by (intro expected_reservation_settled [OF valid_profile_example source_facts_example is_sha_digest_example
        proposal_identities_example]) (simp_all add: MAX_INT_def)
  ultimately show ?thesis by (simp only:)
qed

theorem accepted_bundle_replays_witness:
  "\<exists>h s. bi_history bundle_example = Some (h @ [s]) \<and> history (s # rev h) \<and> s = bi_checkpoint bundle_example"
proof -
  let ?i = "expected_intent record_example digest_example digest_example 1000"
  have total: "value_bytes (Preparation_value ?i) = Inr (json_bytes (preparation_payload ?i))"
    by (rule intent_bytes_total [OF record_example_settled]) (simp_all add: MAX_INT_def)
  have valid: "validate_durable_remote_parse_evidence_bundle_v4 bundle_example = Inr ()"
    unfolding bundle_example_def by (rule first_bundle_valid [OF record_example_settled]) (simp_all add: MAX_INT_def)
  have parts: "bi_evidence bundle_example = [intent_evidence ?i]"
      "bi_checkpoint bundle_example = expected_checkpoint record_example (intent_digest ?i)"
    by (simp_all add: bundle_example_def first_bundle_def plain_bundle_def Let_def)
  have items: "encoded_items (bi_evidence bundle_example)"
    using total value_bytes_bounds [OF total]
    by (auto simp: encoded_items_def parts encoded_post_init_def intent_evidence_def intent_digest_def
        simp del: value_bytes.simps)
  have "\<not> resource_free (bi_checkpoint bundle_example)" "\<not> has (bi_checkpoint bundle_example) Cleanup_plan"
    by (simp_all add: parts resource_free_def expected_checkpoint_def attempt_identity.defs has_def)
  with BundleProperties.accepted_bundle_replays [OF valid items] show ?thesis by auto
qed

definition supersession_example :: "prepared_creation \<Rightarrow> supersession_creation" where
  "supersession_example d =
     \<lparr>sc_source_checkpoint = cr_checkpoint d,
      sc_supersession_receipt =
        \<lparr>fe_attempt_id = ''attempt-6'', fe_fence_identity = ''fence-6'', ss_source_document_id = ''document-7'',
         ss_source_attempt_generation = 1, ss_source_state = ''not_prepared'', ss_source_lifecycle_version = 0,
         ss_source_checkpoint_sha256 = None, ss_superseding_attempt_id = ''attempt-7'',
         ss_superseding_attempt_generation = 2, ss_superseding_document_id = ''document-7'',
         ss_superseding_checkpoint_sha256 = digest_example, ss_reason_code = ''retry'',
         ss_contract_version = SUPERSESSION_RECEIPT_V4_CONTRACT\<rparr>,
      sc_source_parser_target_sha256 = digest_example, sc_source_client_submit_key = ''key-6'', sc_superseding = d\<rparr>"

theorem bound_proposal_cannot_supersede_witness:
  "\<exists>d. bind_v4_prepared_proposal proposal_example 2 = Inr d \<and> (\<nexists>m. mk_supersession_creation (supersession_example d) = Inr m)"
proof -
  obtain d where d: "bind_v4_prepared_proposal proposal_example 2 = Inr d"
    using proposal_example_binds [of 2] by (auto simp: MAX_INT_def)
  then have "bind_v4_prepared_proposal proposal_example 2 = Inr (sc_superseding (supersession_example d))"
    by (simp add: supersession_example_def)
  from bound_proposal_cannot_supersede [OF this] d show ?thesis by blast
qed

end
