(* ===== verification/Authorization.thy ===== *)
theory Authorization
  imports EvidenceBundle PreparedSubmission ResourceCreditEnvelope
begin

text \<open>
  The side effects of the fourth lifecycle in \<open>application/ports/staged_provider_parser.py\<close>: the private
  provider capability, the replay context, and what has to hold before a result is materialized, local resources are
  cleaned up, or the provider is sent an acknowledgement.
\<close>

subsection \<open>The private capability\<close>

record provider_capability =
  pc_attempt_id :: string
  pc_remote_task_identity :: string
  pc_provider_protocol_version :: string
  pc_secret_kind :: string
  pc_secret_version :: int
  pc_capability_purpose :: string
  pc_token_bytes :: string
  pc_token_sha256 :: string
  pc_token_byte_count :: int

definition capability_text :: "string \<Rightarrow> string \<Rightarrow> unit res" where
  "capability_text v label =
     require (\<not> (\<not> nonblank v \<or> length v > 1024)) (''v4 provider '' @ label @ '' identity is invalid'')"

definition capability_purposes :: "string set" where
  "capability_purposes = {''submitted_task_resume'', ''result_download'', ''result_acknowledgement''}"

definition capability_post_init :: "provider_capability \<Rightarrow> unit res" where
  "capability_post_init p = checks
     [capability_text (pc_attempt_id p) ''attempt'',
      capability_text (pc_remote_task_identity p) ''remote task'',
      capability_text (pc_provider_protocol_version p) ''provider protocol'',
      capability_text (pc_secret_kind p) ''secret kind'',
      capability_text (pc_capability_purpose p) ''capability purpose'',
      require (pc_capability_purpose p \<in> capability_purposes) ''v4 provider capability purpose is unsupported'',
      require (\<not> pc_secret_version p < 1) ''v4 provider secret version is invalid'',
      require (\<not> (pc_token_bytes p = '''' \<or> length (pc_token_bytes p) > 65536
          \<or> pc_token_byte_count p \<noteq> int (length (pc_token_bytes p))))
        ''v4 provider capability token envelope is invalid'',
      port_sha (pc_token_sha256 p) ''v4 provider capability token'',
      require (\<not> pc_token_sha256 p \<noteq> digest (pc_token_bytes p)) ''v4 provider capability token hash drifted'']"

definition mk_capability :: "provider_capability \<Rightarrow> provider_capability res" where
  "mk_capability p = construct (capability_post_init p) p"

definition validates_accepted_submission :: "provider_capability \<Rightarrow> accepted_submission \<Rightarrow> bool" where
  "validates_accepted_submission p a \<longleftrightarrow>
     pc_attempt_id p = fe_attempt_id a
     \<and> pc_remote_task_identity p = as_remote_task_identity a
     \<and> pc_provider_protocol_version p = as_provider_protocol_version a
     \<and> pc_secret_kind p = as_secret_kind a
     \<and> pc_secret_version p = as_secret_version a
     \<and> pc_token_sha256 p = as_token_sha256 a
     \<and> pc_token_byte_count p = as_token_byte_count a"

subsection \<open>The replay context\<close>

text \<open>
  The evidence and the checkpoints of one attempt as a side effect reloads them. The manifest and the provider
  envelope of a reopened materialization are left out, that is \<open>None\<close>.
\<close>

record replay_context =
  rx_evidence :: "encoded_evidence list"
  rx_reservation :: resource_reservation
  rx_history :: "remote_parse_checkpoint list"
  rx_cleanup_source :: "remote_parse_checkpoint option"
  rx_cleanup_pending :: "remote_parse_checkpoint option"
  rx_ack_pending :: "remote_parse_checkpoint option"
  rx_superseding_checkpoint :: "remote_parse_checkpoint option"
  rx_superseding_reservation :: "resource_reservation option"
  rx_superseding_preparation :: "preparation_intent option"
  rx_superseding_snapshot :: "snapshot_receipt option"

definition replay_post_init :: "replay_context \<Rightarrow> unit res" where
  "replay_post_init x = require (\<not> rx_history x = []) ''v4 evidence replay context type drifted''"

text \<open>Every caller asks for the type that belongs to the kind.\<close>

definition evidence_value_of :: "replay_context \<Rightarrow> evidence_kind \<Rightarrow> evidence_value option res" where
  "evidence_value_of x k =
     (case filter (\<lambda>e. ev_kind e = k) (rx_evidence x) of
        [] \<Rightarrow> Inr None
      | [e] \<Rightarrow> if kind_of (ev_value e) = k then Inr (Some (ev_value e))
          else Inl (ValueError ''v4 evidence replay context kind/type drifted'')
      | _ \<Rightarrow> Inl (ValueError ''v4 evidence replay context kind/type drifted''))"

definition require_evidence :: "replay_context \<Rightarrow> evidence_value \<Rightarrow> unit res" where
  "require_evidence x v =
     bindR (evidence_value_of x (kind_of v)) (\<lambda>found.
       require (\<not> found \<noteq> Some v) ''v4 evidence replay context value drifted'')"

definition require_no_evidence :: "replay_context \<Rightarrow> evidence_kind \<Rightarrow> string \<Rightarrow> unit res" where
  "require_no_evidence x k msg = bindR (evidence_value_of x k) (\<lambda>found. require (\<not> found \<noteq> None) msg)"

definition replay_bundle :: "replay_context \<Rightarrow> remote_parse_checkpoint \<Rightarrow> bundle_inputs" where
  "replay_bundle x c =
     \<lparr>bi_checkpoint = c, bi_evidence = rx_evidence x, bi_reservation = Some (rx_reservation x),
      bi_cleanup_source = rx_cleanup_source x, bi_history = Some (rx_history x),
      bi_cleanup_pending = rx_cleanup_pending x, bi_ack_pending = None,
      bi_superseding_checkpoint = rx_superseding_checkpoint x,
      bi_superseding_reservation = rx_superseding_reservation x,
      bi_superseding_preparation = rx_superseding_preparation x,
      bi_superseding_snapshot = rx_superseding_snapshot x\<rparr>"

definition validate_current_position :: "replay_context \<Rightarrow> remote_parse_checkpoint \<Rightarrow> unit res" where
  "validate_current_position x c = checks
     [require (cp_state c \<in> {Materializing, Local_materialized, Publish_committed, Cleanup_pending, Ack_pending})
        ''v4 evidence replay checkpoint state is unsupported'',
      require (\<not> (cp_state c \<in> {Materializing, Local_materialized, Publish_committed}
          \<and> (rx_cleanup_source x \<noteq> None \<or> rx_cleanup_pending x \<noteq> None \<or> rx_ack_pending x \<noteq> None)))
        ''materializing replay invented cleanup evidence'',
      require (\<not> (cp_state c = Cleanup_pending \<and> (rx_cleanup_pending x \<noteq> None \<or> rx_ack_pending x \<noteq> None)))
        ''cleanup replay invented post-cleanup evidence'',
      require (\<not> (cp_state c = Ack_pending \<and> (rx_cleanup_pending x = None \<or> rx_ack_pending x \<noteq> Some c)))
        ''ACK replay lacks its exact pending checkpoints'']"

definition validate_durable_current :: "replay_context \<Rightarrow> remote_parse_checkpoint \<Rightarrow> unit res" where
  "validate_durable_current x c = checks
     [validate_current_position x c, validate_durable_remote_parse_evidence_bundle_v4 (replay_bundle x c)]"

text \<open>
  \<open>validate_remote_parse_evidence_bundle_v4\<close> without files: the same tests, and a local receipt has to come
  with its manifest and envelope.
\<close>

definition check_without_files :: "bundle_values \<Rightarrow> unit res" where
  "check_without_files b =
     require (\<not> bv_local b \<noteq> None) ''local-materialization evidence lacks exact manifest or envelope''"

definition validate_bundle_without_files :: "bundle_inputs \<Rightarrow> unit res" where
  "validate_bundle_without_files I =
     (let c = bi_checkpoint I; es = bi_evidence I; r = bi_reservation I; b = bundle_values_of es in checks
        [check_bundle_reservation c r, check_evidence_set c es, check_preparation c r b, check_snapshot c es b,
         check_submission c es b, check_accepted es b, check_terminal es b, check_intent c r es b,
         check_local c es b, check_without_files b, check_credit c b, check_failure_chain c es b,
         check_supersession_chain I b, check_history I b, check_plan I b, check_cleanup I b, check_ack I b,
         check_final c es b])"

definition validate_current :: "replay_context \<Rightarrow> remote_parse_checkpoint \<Rightarrow> unit res" where
  "validate_current x c = checks
     [validate_current_position x c, validate_bundle_without_files (replay_bundle x c)]"

lemma bundle_without_files:
  "validate_bundle_without_files I = Inr () \<longleftrightarrow>
     validate_durable_remote_parse_evidence_bundle_v4 I = Inr () \<and> bv_local (bundle_values_of (bi_evidence I)) = None"
  by (auto simp: validate_bundle_without_files_def validate_durable_remote_parse_evidence_bundle_v4_def Let_def
      check_without_files_def)

subsection \<open>Materialization\<close>

text \<open>The hashes of a long disjunction are computed before its comparisons.\<close>

record authorization_hashes =
  ah_preparation :: string
  ah_reservation :: string
  ah_intent :: string
  ah_accepted :: string
  ah_terminal :: string
  ah_allowance :: string

definition preparation_follows :: "preparation_intent \<Rightarrow> resource_reservation \<Rightarrow> bool" where
  "preparation_follows p r \<longleftrightarrow>
     identities p = identities r
     \<and> pi_source_pdf_sha256 p = rv_source_pdf_sha256 r
     \<and> pi_source_byte_count p = rv_source_byte_count r
     \<and> pi_source_page_count p = rv_source_page_count r
     \<and> pi_request_sha256 p = rv_request_sha256 r
     \<and> pi_runtime_epoch_sha256 p = rv_runtime_epoch_sha256 r
     \<and> pi_process_profile_sha256 p = rv_process_profile_sha256 r
     \<and> pi_snapshot_relpath p = rv_snapshot_relpath r
     \<and> pi_snapshot_part_relpath p = rv_snapshot_part_relpath r
     \<and> pi_snapshot_part_owner_relpath p = rv_snapshot_part_owner_relpath r
     \<and> pi_snapshot_lock_relpath p = rv_snapshot_lock_relpath r"

definition intent_of_reservation :: "materialization_intent \<Rightarrow> resource_reservation \<Rightarrow> bool" where
  "intent_of_reservation i r \<longleftrightarrow>
     identities i = identities r
     \<and> mi_source_pdf_sha256 i = rv_source_pdf_sha256 r
     \<and> mi_source_page_count i = rv_source_page_count r
     \<and> mi_snapshot_relpath i = rv_snapshot_relpath r"

definition terminal_of_intent :: "terminal_receipt \<Rightarrow> materialization_intent \<Rightarrow> accepted_submission \<Rightarrow> bool" where
  "terminal_of_intent t i a \<longleftrightarrow>
     fe_attempt_id t = attempt_id i
     \<and> fe_fence_identity t = fence_identity i
     \<and> tr_remote_task_identity t = mi_remote_task_identity i
     \<and> tr_result_owner_identity t = mi_artifact_owner_identity i
     \<and> tr_artifact_sha256 t = mi_artifact_sha256 i
     \<and> tr_artifact_byte_count t = mi_artifact_byte_count i
     \<and> tr_provider_protocol_version t = as_provider_protocol_version a"

definition capability_of_intent :: "provider_capability \<Rightarrow> materialization_intent \<Rightarrow> remote_parse_checkpoint \<Rightarrow> bool"
where
  "capability_of_intent p i c \<longleftrightarrow>
     pc_capability_purpose p = ''result_download''
     \<and> pc_secret_kind p = mi_provider_capability_kind i
     \<and> pc_token_sha256 p = mi_provider_capability_sha256 i
     \<and> pc_token_byte_count p = mi_provider_capability_byte_count i
     \<and> pc_attempt_id p = attempt_id c
     \<and> pc_remote_task_identity p = mi_remote_task_identity i"

definition allowance_of_reservation :: "attempt_allowance \<Rightarrow> resource_reservation \<Rightarrow> remote_parse_checkpoint \<Rightarrow> bool"
where
  "allowance_of_reservation a r c =
     (let input = eri_value (al_reservation_input a) in
      al_reservation_input_sha256 a = cp_reservation_input_sha256 c
      \<and> al_limits a = rv_reserved_credit r
      \<and> ri_source_pdf_sha256 input = rv_source_pdf_sha256 r
      \<and> ri_source_byte_count input = rv_source_byte_count r
      \<and> ri_source_page_count input = rv_source_page_count r
      \<and> ri_process_profile_sha256 input = rv_process_profile_sha256 r
      \<and> ri_credit_policy_sha256 input = rv_credit_policy_sha256 r
      \<and> ri_bucket input = rv_reservation_bucket r
      \<and> ri_reservation input = rv_reserved_credit r)"

definition hashes_agree ::
  "authorization_hashes \<Rightarrow> remote_parse_checkpoint \<Rightarrow> preparation_intent \<Rightarrow> materialization_intent
     \<Rightarrow> accepted_submission \<Rightarrow> terminal_receipt \<Rightarrow> bool" where
  "hashes_agree h c p i a t \<longleftrightarrow>
     cp_evidence c Preparation_intent = Some (ah_preparation h)
     \<and> pi_reservation_sha256 p = ah_reservation h
     \<and> mi_reservation_sha256 i = ah_reservation h
     \<and> cp_evidence c Materialization_intent = Some (ah_intent h)
     \<and> cp_previous_checkpoint_sha256 c = Some (mi_source_checkpoint_sha256 i)
     \<and> cp_lifecycle_version c = mi_source_lifecycle_version i + 1
     \<and> cp_evidence c Accepted_submission = Some (ah_accepted h)
     \<and> cp_evidence c Submission_intent = Some (as_submission_intent_sha256 a)
     \<and> fe_attempt_id a = attempt_id c
     \<and> fe_fence_identity a = fence_identity c
     \<and> cp_evidence c Terminal_receipt = Some (ah_terminal h)
     \<and> mi_terminal_receipt_sha256 i = ah_terminal h
     \<and> tr_accepted_submission_receipt_sha256 t = ah_accepted h"

definition authorization_hashes_of ::
  "resource_reservation \<Rightarrow> preparation_intent \<Rightarrow> materialization_intent \<Rightarrow> accepted_submission \<Rightarrow> terminal_receipt
     \<Rightarrow> attempt_allowance \<Rightarrow> authorization_hashes res" where
  "authorization_hashes_of r p i a t allowance =
     bindR (value_sha (Preparation_value p)) (\<lambda>psha.
     bindR (reservation_sha256 r) (\<lambda>rsha.
     bindR (value_sha (Intent_value i)) (\<lambda>isha.
     bindR (value_sha (Accepted_value a)) (\<lambda>asha.
     bindR (value_sha (Terminal_value t)) (\<lambda>tsha.
     bindR (allowance_sha256 allowance) (\<lambda>lsha.
       Inr \<lparr>ah_preparation = psha, ah_reservation = rsha, ah_intent = isha, ah_accepted = asha, ah_terminal = tsha,
            ah_allowance = lsha\<rparr>))))))"

definition intent_limits_fit :: "materialization_intent \<Rightarrow> resource_credit_vector \<Rightarrow> bool" where
  "intent_limits_fit i limits = (\<not>
     (mi_result_byte_limit i > provider_result_bytes limits
      \<or> mi_decoded_byte_limit i > decoded_bytes limits
      \<or> mi_temporary_disk_byte_limit i > temp_disk_bytes limits
      \<or> mi_output_byte_limit i > output_bytes limits
      \<or> mi_output_page_limit i > output_pages limits
      \<or> mi_uncompressed_byte_limit i > min (temp_disk_bytes limits) (output_bytes limits)
      \<or> mi_member_count_limit i > decoded_bytes limits))"

definition check_authorized_facts ::
  "remote_parse_checkpoint \<Rightarrow> resource_reservation \<Rightarrow> preparation_intent \<Rightarrow> materialization_intent
     \<Rightarrow> accepted_submission \<Rightarrow> terminal_receipt \<Rightarrow> provider_capability \<Rightarrow> claim_witness \<Rightarrow> attempt_allowance
     \<Rightarrow> unit res" where
  "check_authorized_facts c r p i a t cap w allowance =
     bindR (mk_rcv (intent_credit r (mi_artifact_byte_count i))) (\<lambda>expected.
     bindR (authorization_hashes_of r p i a t allowance) (\<lambda>h.
     bindR (claim_validates w c) (\<lambda>claimed.
       require (cp_state c = Materializing \<and> reservation_binds r c \<and> preparation_follows p r
           \<and> pi_parser_target_sha256 p = mi_parser_target_sha256 i \<and> intent_of_reservation i r
           \<and> hashes_agree h c p i a t \<and> terminal_of_intent t i a \<and> claimed
           \<and> validates_accepted_submission cap a \<and> capability_of_intent cap i c
           \<and> ah_allowance h = mi_allowance_sha256 i \<and> allowance_of_reservation allowance r c
           \<and> mi_held_resource_credit i = expected \<and> cp_held_resource_credit c = expected)
         ''v4 materialization authorization drifted'')))"

definition validate_v4_materialization_authorization ::
  "remote_parse_checkpoint \<Rightarrow> resource_reservation \<Rightarrow> preparation_intent \<Rightarrow> materialization_intent
     \<Rightarrow> accepted_submission \<Rightarrow> terminal_receipt \<Rightarrow> provider_capability \<Rightarrow> claim_witness \<Rightarrow> attempt_allowance
     \<Rightarrow> replay_context \<Rightarrow> unit res" where
  "validate_v4_materialization_authorization c r p i a t cap w allowance x = checks
     [require (\<not> rx_reservation x \<noteq> r) ''v4 materialization replay reservation drifted'',
      require_evidence x (Preparation_value p), require_evidence x (Accepted_value a),
      require_evidence x (Terminal_value t), require_evidence x (Intent_value i),
      validate_current x c, check_authorized_facts c r p i a t cap w allowance,
      require_fits allowance (mi_held_resource_credit i),
      require (intent_limits_fit i (al_limits allowance)) ''v4 materialization limits exceed exact allowance'']"

subsection \<open>Cleanup\<close>

definition check_cleanup_facts ::
  "remote_parse_checkpoint \<Rightarrow> remote_parse_checkpoint \<Rightarrow> resource_reservation \<Rightarrow> cleanup_plan \<Rightarrow> claim_witness
     \<Rightarrow> replay_context \<Rightarrow> unit res" where
  "check_cleanup_facts c source r p w x =
     bindR (require (cp_state c = Cleanup_pending \<and> rx_reservation x = r \<and> rx_cleanup_source x = Some source)
       ''v4 cleanup authorization drifted'') (\<lambda>_.
     bindR (plan_sha256 p) (\<lambda>psha.
     bindR (checkpoint_sha256 source) (\<lambda>ssha.
     bindR (claim_validates w c) (\<lambda>claimed.
       require (cp_evidence c Cleanup_plan = Some psha
           \<and> cp_previous_checkpoint_sha256 c = Some ssha
           \<and> ssha = pl_source_checkpoint_sha256 p
           \<and> cp_lifecycle_version c = pl_source_lifecycle_version p + 1
           \<and> claimed)
         ''v4 cleanup authorization drifted''))))"

definition validate_v4_cleanup_authorization ::
  "remote_parse_checkpoint \<Rightarrow> remote_parse_checkpoint \<Rightarrow> resource_reservation \<Rightarrow> materialization_intent option
     \<Rightarrow> local_materialization_receipt option \<Rightarrow> cleanup_plan \<Rightarrow> claim_witness \<Rightarrow> replay_context \<Rightarrow> unit res" where
  "validate_v4_cleanup_authorization c source r intent receipt p w x = checks
     [check_cleanup_facts c source r p w x, require_evidence x (Plan_value p),
      (case intent of
         Some i \<Rightarrow> require_evidence x (Intent_value i)
       | None \<Rightarrow> require_no_evidence x Intent_kind ''v4 cleanup replay invented a materialization intent''),
      (case receipt of
         Some l \<Rightarrow> require_evidence x (Local_value l)
       | None \<Rightarrow> require_no_evidence x Local_kind ''v4 cleanup replay invented a materialization receipt''),
      validate_durable_current x c,
      validate_local_cleanup_plan_v4 p r source intent receipt]"

subsection \<open>The acknowledgement command\<close>

record ack_command =
  ac_checkpoint :: remote_parse_checkpoint
  ac_accepted :: accepted_submission
  ac_terminal :: "terminal_receipt option"
  ac_plan :: cleanup_plan
  ac_receipt :: cleanup_receipt
  ac_context :: replay_context

record ack_hashes =
  kh_accepted :: string
  kh_plan :: string
  kh_receipt :: string

definition ack_hashes_of :: "ack_command \<Rightarrow> ack_hashes res" where
  "ack_hashes_of k =
     bindR (value_sha (Accepted_value (ac_accepted k))) (\<lambda>asha.
     bindR (value_sha (Plan_value (ac_plan k))) (\<lambda>psha.
     bindR (value_sha (Cleanup_value (ac_receipt k))) (\<lambda>rsha.
       Inr \<lparr>kh_accepted = asha, kh_plan = psha, kh_receipt = rsha\<rparr>)))"

definition ack_facts :: "ack_command \<Rightarrow> ack_hashes \<Rightarrow> bool" where
  "ack_facts k h =
     (let c = ac_checkpoint k; a = ac_accepted k; p = ac_plan k; u = ac_receipt k in
      cp_state c = Ack_pending
      \<and> identities p = identities c
      \<and> identities u = identities c
      \<and> cp_evidence c Accepted_submission = Some (kh_accepted h)
      \<and> cp_evidence c Cleanup_plan = Some (kh_plan h)
      \<and> cp_evidence c Cleanup_receipt = Some (kh_receipt h)
      \<and> ct_cleanup_plan_sha256 u = kh_plan h
      \<and> ct_outcome u = pl_outcome p
      \<and> cp_previous_checkpoint_sha256 c = Some (ct_cleanup_pending_checkpoint_sha256 u)
      \<and> ct_cleanup_pending_lifecycle_version u + 1 = cp_lifecycle_version c
      \<and> map planned_disposition (pl_resources p) = map observed_disposition (ct_results u)
      \<and> pl_outcome p \<noteq> Pre_submission_failure
      \<and> pl_remote_task_identity p = Some (as_remote_task_identity a)
      \<and> fe_attempt_id a = attempt_id c
      \<and> fe_fence_identity a = fence_identity c
      \<and> pl_terminal_receipt_sha256 p = cp_evidence c Terminal_receipt
      \<and> (ac_terminal k = None) = (pl_terminal_receipt_sha256 p = None))"

definition check_ack_command_facts :: "ack_command \<Rightarrow> unit res" where
  "check_ack_command_facts k =
     bindR (ack_hashes_of k) (\<lambda>h. require (ack_facts k h) ''v4 ACK command evidence drifted'')"

definition check_ack_terminal :: "ack_command \<Rightarrow> unit res" where
  "check_ack_terminal k = (let c = ac_checkpoint k; a = ac_accepted k in case ac_terminal k of
     None \<Rightarrow> Inr ()
   | Some t \<Rightarrow>
       bindR (value_sha (Terminal_value t)) (\<lambda>tsha.
       bindR (value_sha (Accepted_value a)) (\<lambda>asha.
         require (\<not> (pl_terminal_receipt_sha256 (ac_plan k) \<noteq> Some tsha
             \<or> fe_attempt_id t \<noteq> attempt_id c
             \<or> fe_fence_identity t \<noteq> fence_identity c
             \<or> tr_accepted_submission_receipt_sha256 t \<noteq> asha
             \<or> tr_remote_task_identity t \<noteq> as_remote_task_identity a
             \<or> tr_provider_protocol_version t \<noteq> as_provider_protocol_version a))
           ''v4 ACK command terminal receipt drifted'')))"

definition check_ack_command_outcome :: "ack_command \<Rightarrow> unit res" where
  "check_ack_command_outcome k = checks
     [require (\<not> (pl_outcome (ac_plan k) \<in> {Success, Local_failure} \<and> ac_terminal k = None))
        ''v4 ACK command lacks exact terminal receipt'',
      require (\<not> (pl_outcome (ac_plan k) = Remote_failure \<and> ac_terminal k \<noteq> None))
        ''remote-failure ACK cannot carry a terminal receipt'']"

definition ack_command_credit :: "ack_command \<Rightarrow> resource_credit_vector" where
  "ack_command_credit k = rcv_zero
     \<lparr>documents := 1, provider_tasks := 1,
      provider_result_bytes := (case ac_terminal k of None \<Rightarrow> 0 | Some t \<Rightarrow> tr_artifact_byte_count t),
      ack_items := 1\<rparr>"

definition ack_command_post_init :: "ack_command \<Rightarrow> unit res" where
  "ack_command_post_init k = checks
     [check_ack_command_facts k, check_ack_terminal k, check_ack_command_outcome k,
      require_evidence (ac_context k) (Accepted_value (ac_accepted k)),
      (case ac_terminal k of
         Some t \<Rightarrow> require_evidence (ac_context k) (Terminal_value t)
       | None \<Rightarrow> require_no_evidence (ac_context k) Terminal_kind
           ''remote-failure ACK replay invented a terminal receipt''),
      require_evidence (ac_context k) (Plan_value (ac_plan k)),
      require_evidence (ac_context k) (Cleanup_value (ac_receipt k)),
      validate_durable_current (ac_context k) (ac_checkpoint k),
      bindR (mk_rcv (ack_command_credit k)) (\<lambda>expected.
        require (\<not> cp_held_resource_credit (ac_checkpoint k) \<noteq> expected)
          ''v4 ACK command credit drifted from exact terminal evidence'')]"

definition seal_provider_ack_command_v4 :: "ack_command \<Rightarrow> ack_command res" where
  "seal_provider_ack_command_v4 k = construct (ack_command_post_init k) k"

text \<open>\<open>ack_request_exact_bytes\<close> and the properties made of it\<close>

definition ack_command_request :: "ack_command \<Rightarrow> ack_request res" where
  "ack_command_request k = (let c = ac_checkpoint k; a = ac_accepted k in
     bindR (value_sha (Accepted_value a)) (\<lambda>asha.
     bindR (checkpoint_sha256 c) (\<lambda>csha.
     bindR (value_sha (Plan_value (ac_plan k))) (\<lambda>psha.
     bindR (value_sha (Cleanup_value (ac_receipt k))) (\<lambda>rsha.
     bindR (case ac_terminal k of
         None \<Rightarrow> Inr None | Some t \<Rightarrow> bindR (value_sha (Terminal_value t)) (\<lambda>sha. Inr (Some sha))) (\<lambda>tsha.
       Inr (attempt_identity.extend (attempt_identity.truncate c)
         \<lparr>aq_accepted_submission_sha256 = asha, aq_ack_pending_checkpoint_sha256 = csha,
          aq_cleanup_plan_sha256 = psha, aq_cleanup_receipt_sha256 = rsha, aq_outcome = pl_outcome (ac_plan k),
          aq_provider_protocol_version = as_provider_protocol_version a,
          aq_remote_task_identity = as_remote_task_identity a,
          aq_result_owner_identity = map_option tr_result_owner_identity (ac_terminal k),
          aq_terminal_receipt_sha256 = tsha\<rparr>)))))))"

definition ack_request_exact_bytes :: "ack_command \<Rightarrow> string res" where
  "ack_request_exact_bytes k = bindR (ack_command_request k) provider_ack_request_v4_bytes"

definition ack_command_request_sha256 :: "ack_command \<Rightarrow> string res" where
  "ack_command_request_sha256 k = digest_of (ack_request_exact_bytes k)"

definition ack_command_identity :: "ack_command \<Rightarrow> string res" where
  "ack_command_identity k = bindR (ack_command_request_sha256 k) provider_ack_request_v4_identity"

text \<open>The comparisons of the request with itself always hold.\<close>

definition validate_v4_ack_authorization :: "ack_command \<Rightarrow> provider_capability \<Rightarrow> claim_witness \<Rightarrow> unit res" where
  "validate_v4_ack_authorization k cap w =
     bindR (validate_durable_current (ac_context k) (ac_checkpoint k)) (\<lambda>_.
     bindR (ack_request_exact_bytes k) (\<lambda>exact.
     bindR (provider_ack_request_v4_identity (digest exact)) (\<lambda>expected.
     bindR (claim_validates w (ac_checkpoint k)) (\<lambda>claimed.
     bindR (ack_command_identity k) (\<lambda>same.
       require (\<not> (\<not> claimed
           \<or> pc_capability_purpose cap \<noteq> ''result_acknowledgement''
           \<or> \<not> validates_accepted_submission cap (ac_accepted k)
           \<or> same \<noteq> expected))
         ''v4 ACK authorization drifted'')))))"

end
