(* ===== verification/AuthorizationProperties.thy ===== *)
theory AuthorizationProperties
  imports Authorization SecretProperties SpecExample BundleProperties
begin

text \<open>
  An acknowledgement is determined by the checkpoint it answers: whoever builds the command again sends the same
  bytes. And the tests that an acknowledgement has to pass, with the ones that can fail.
\<close>

subsection \<open>Values behind their hashes\<close>

definition no_collision :: "evidence_value \<Rightarrow> evidence_value \<Rightarrow> bool" where
  "no_collision v v' \<longleftrightarrow> (value_sha v = value_sha v' \<longrightarrow> value_bytes v = value_bytes v')"

lemma value_from_sha:
  assumes "valid_value v" "valid_value v'" "kind_of v = kind_of v'" "no_collision v v'"
    and "value_sha v = Inr sha" "value_sha v' = Inr sha"
  shows "v = v'"
proof -
  obtain bs where bs: "value_bytes v = Inr bs" using assms(5) by (auto simp: value_sha_def)
  with assms(4-6) have "value_bytes v' = Inr bs" by (simp add: no_collision_def)
  with bs assms(1-3) have "evidence_decoder (kind_of v) bs = Inr v" "evidence_decoder (kind_of v) bs = Inr v'"
    by (simp_all add: decoder_valid)
  then show ?thesis by simp
qed

subsection \<open>One checkpoint, one acknowledgement\<close>

definition ack_values :: "ack_command \<Rightarrow> evidence_value list" where
  "ack_values k = [Accepted_value (ac_accepted k), Plan_value (ac_plan k), Cleanup_value (ac_receipt k)]
     @ (case ac_terminal k of None \<Rightarrow> [] | Some t \<Rightarrow> [Terminal_value t])"

lemma ack_command_hashes:
  assumes "check_ack_command_facts k = Inr ()"
  shows "map_option Inr (cp_evidence (ac_checkpoint k) Accepted_submission) = Some (value_sha (Accepted_value (ac_accepted k)))"
    and "map_option Inr (cp_evidence (ac_checkpoint k) Cleanup_plan) = Some (value_sha (Plan_value (ac_plan k)))"
    and "map_option Inr (cp_evidence (ac_checkpoint k) Cleanup_receipt) = Some (value_sha (Cleanup_value (ac_receipt k)))"
    and "ac_terminal k = None \<longleftrightarrow> cp_evidence (ac_checkpoint k) Terminal_receipt = None"
    and "pl_terminal_receipt_sha256 (ac_plan k) = cp_evidence (ac_checkpoint k) Terminal_receipt"
  using assms by (auto simp: check_ack_command_facts_def ack_hashes_of_def ack_facts_def Let_def)

lemma ack_terminal_hash:
  assumes "check_ack_command_facts k = Inr ()" "check_ack_terminal k = Inr ()" "ac_terminal k = Some t"
  shows "map_option Inr (cp_evidence (ac_checkpoint k) Terminal_receipt) = Some (value_sha (Terminal_value t))"
  using assms(2,3) ack_command_hashes(5) [OF assms(1)] by (auto simp: check_ack_terminal_def Let_def)

text \<open>C34: The acknowledgement of an attempt is idempotent. Two commands that pass the checks of the command's
  constructor for the same ack-pending checkpoint carry the same accepted submission, terminal receipt, cleanup
  plan and cleanup receipt, whatever their replay contexts are, and therefore send exactly the same request
  bytes, unless two of the records that the checkpoint names collide under SHA-256.\<close>

theorem ack_request_determined:
  assumes "check_ack_command_facts k = Inr ()" "check_ack_terminal k = Inr ()"
    and "check_ack_command_facts k' = Inr ()" "check_ack_terminal k' = Inr ()"
    and "ac_checkpoint k = ac_checkpoint k'"
    and "list_all valid_value (ack_values k)" "list_all valid_value (ack_values k')"
    and "list_all2 no_collision (ack_values k) (ack_values k')"
  shows "ack_values k = ack_values k' \<and> ack_request_exact_bytes k = ack_request_exact_bytes k'"
proof -
  note h = ack_command_hashes [OF assms(1)] and h' = ack_command_hashes [OF assms(3)]
  have same: "v = v'" if prem: "valid_value v" "valid_value v'" "kind_of v = kind_of v'" "no_collision v v'"
    "map_option Inr (cp_evidence (ac_checkpoint k) f) = Some (value_sha v)"
    "map_option Inr (cp_evidence (ac_checkpoint k) f) = Some (value_sha v')" for v v' f
  proof -
    obtain sha where "value_sha v = Inr sha" "value_sha v' = Inr sha"
      using prem(5,6) [symmetric] by (cases "cp_evidence (ac_checkpoint k) f") auto
    then show ?thesis by (rule value_from_sha [OF prem(1-4)])
  qed
  have terms: "(ac_terminal k = None) = (ac_terminal k' = None)" using h(4) h'(4) assms(5) by simp
  have a: "ac_accepted k = ac_accepted k'"
    using same [of "Accepted_value (ac_accepted k)" "Accepted_value (ac_accepted k')" Accepted_submission]
      assms(5-8) h(1) h'(1) by (simp add: ack_values_def)
  have p: "ac_plan k = ac_plan k'"
    using same [of "Plan_value (ac_plan k)" "Plan_value (ac_plan k')" Cleanup_plan] assms(5-8) h(2) h'(2)
    by (simp add: ack_values_def)
  have r: "ac_receipt k = ac_receipt k'"
    using same [of "Cleanup_value (ac_receipt k)" "Cleanup_value (ac_receipt k')" Cleanup_receipt]
      assms(5-8) h(3) h'(3) by (simp add: ack_values_def)
  have t: "ac_terminal k = ac_terminal k'"
  proof (cases "ac_terminal k")
    case (Some x)
    then obtain x' where x': "ac_terminal k' = Some x'" using terms by auto
    have "Terminal_value x = Terminal_value x'"
      using same [of "Terminal_value x" "Terminal_value x'" Terminal_receipt] assms(5-8) Some x'
        ack_terminal_hash [OF assms(1,2) Some] ack_terminal_hash [OF assms(3,4) x']
      by (simp add: ack_values_def)
    with Some x' show ?thesis by simp
  qed (use terms in simp)
  show ?thesis
    by (simp add: ack_values_def ack_request_exact_bytes_def ack_command_request_def a p r t assms(5))
qed

text \<open>The authorization of an acknowledgement, exactly. It holds just when the durable evidence replays at the
  ack-pending checkpoint, the request bytes can be made, the claim witness names the checkpoint with its
  current hash, and the capability is the accepted one, for acknowledging. The comparisons of the request with
  itself, which the code makes besides, never refuse anything.\<close>

theorem ack_authorization_exact:
  "validate_v4_ack_authorization k cap w = Inr () \<longleftrightarrow>
     validate_durable_current (ac_context k) (ac_checkpoint k) = Inr ()
     \<and> (\<exists>exact. ack_request_exact_bytes k = Inr exact)
     \<and> claim_validates w (ac_checkpoint k) = Inr True
     \<and> pc_capability_purpose cap = ''result_acknowledgement''
     \<and> validates_accepted_submission cap (ac_accepted k)"
  by (auto simp: validate_v4_ack_authorization_def ack_command_identity_def ack_command_request_sha256_def
      digest_of_def provider_ack_request_v4_identity_def)

subsection \<open>Instances\<close>

definition entry_example :: cleanup_entry where
  "entry_example =
     \<lparr>ce_kind = Snapshot, ce_relpath = ''spool/x.pdf'', ce_ownership_basis_sha256 = digest_example,
      ce_expected_sha256 = Some digest_example, ce_expected_byte_count = Some 5000, ce_action = Delete,
      ce_target_owner_identity = None, ce_target_relpath = None\<rparr>"

definition plan_example :: cleanup_plan where
  "plan_example =
     \<lparr>attempt_id = ''a-1'', fence_identity = ''f-1'', document_id = ''d-1'', processing_run_id = ''r-1'',
      pl_outcome = Remote_failure, pl_source_state = Submitted, pl_source_lifecycle_version = 3,
      pl_source_checkpoint_sha256 = digest_example, pl_remote_task_identity = Some ''task'',
      pl_terminal_receipt_sha256 = None, pl_materialization_intent_sha256 = None,
      pl_local_materialization_receipt_sha256 = None, pl_publication_winner_sha256 = None,
      pl_failure_receipt_sha256 = Some digest_example, pl_supersession_receipt_sha256 = None,
      pl_resources = [entry_example], pl_resource_count = 1,
      pl_resources_sha256 = digest (json_bytes (JArr [entry_json entry_example])),
      pl_contract_version = CLEANUP_PLAN_V4_CONTRACT\<rparr>"

definition result_example :: cleanup_result where
  "result_example =
     \<lparr>cu_kind = Snapshot, cu_relpath = ''spool/x.pdf'', cu_disposition = Absent, cu_target_owner_identity = None,
      cu_target_relpath = None\<rparr>"

definition receipt_example :: cleanup_receipt where
  "receipt_example =
     \<lparr>attempt_id = ''a-1'', fence_identity = ''f-1'', document_id = ''d-1'', processing_run_id = ''r-1'',
      ct_outcome = Remote_failure, ct_cleanup_plan_sha256 = digest (json_bytes (plan_payload plan_example)),
      ct_cleanup_pending_checkpoint_sha256 = digest_example, ct_cleanup_pending_lifecycle_version = 4,
      ct_results = [result_example], ct_result_count = 1,
      ct_results_sha256 = digest (json_bytes (JArr [result_json result_example])), ct_parent_fsync_completed = True,
      ct_contract_version = CLEANUP_RECEIPT_V4_CONTRACT\<rparr>"

lemma example_texts:
  "list_all identity_ok [''a-1'', ''f-1'', ''d-1'', ''r-1'', ''task'']" "relative_path ''spool/x.pdf'' l = Inr ()"
proof -
  show "list_all identity_ok [''a-1'', ''f-1'', ''d-1'', ''r-1'', ''task'']" by code_simp
  have "relative_path ''spool/x.pdf'' [] = Inr ()" by code_simp
  then show "relative_path ''spool/x.pdf'' l = Inr ()"
    by (simp add: relative_path_def validate_relative_resource_path_v4_def)
qed

lemma plan_example_valid: "valid_plan plan_example"
proof -
  have "length (int_text 5000) \<le> 19" by (rule length_int_text) (simp_all add: MAX_INT_def)
  then have "2 * text_bound (JArr [entry_json entry_example]) \<le> MAX_BYTES"
    by (simp add: entry_json_def entry_example_def JOpt_def JOptInt_def digest_example_def MAX_BYTES_def)
  then have "resources_digest [entry_example] = Inr (digest (json_bytes (JArr [entry_json entry_example])))"
    by (simp add: resources_digest_def digest_of_def lifecycle_json_def canonical_json_total)
  moreover have "entry_post_init entry_example = Inr ()"
    using example_texts(2) by (simp add: entry_post_init_def entry_example_def MAX_INT_def in_range_def)
  moreover have "check_plan_facts plan_example = Inr ()"
    using example_texts(1)
    by (simp add: check_plan_facts_def)
       (simp add: plan_example_def identities_def resourceful_source_def in_range_def MAX_INT_def)
  moreover have "check_plan_outcome plan_example = Inr ()"
    by (simp add: check_plan_outcome_def failure_outcomes_def) (simp add: plan_example_def)
  ultimately show ?thesis
    by (simp add: valid_plan_def plan_post_init_def check_plan_resources_def) (simp add: plan_example_def)
qed

lemma receipt_example_valid: "valid_cleanup_receipt receipt_example"
proof -
  have "2 * text_bound (JArr [result_json result_example]) \<le> MAX_BYTES"
    by (simp add: result_json_def result_example_def JOpt_def MAX_BYTES_def)
  then have "results_digest [result_example] = Inr (digest (json_bytes (JArr [result_json result_example])))"
    by (simp add: results_digest_def digest_of_def lifecycle_json_def canonical_json_total)
  moreover have "result_post_init result_example = Inr ()"
    using example_texts(2) by (simp add: result_post_init_def result_example_def)
  ultimately show ?thesis
    using example_texts(1)
    by (simp add: valid_cleanup_receipt_def cleanup_receipt_post_init_def)
       (simp add: receipt_example_def identities_def in_range_def MAX_INT_def)
qed

definition ack_checkpoint_example :: remote_parse_checkpoint where
  "ack_checkpoint_example = genesis_example
     \<lparr>attempt_id := ''a-1'', fence_identity := ''f-1'', document_id := ''d-1'', processing_run_id := ''r-1'',
      cp_state := Ack_pending, cp_lifecycle_version := 5, cp_previous_checkpoint_sha256 := Some digest_example,
      cp_evidence := (\<lambda>_. None)
        (Accepted_submission := Some (digest (json_bytes (accepted_payload accepted_example))),
         Cleanup_plan := Some (digest (json_bytes (plan_payload plan_example))),
         Cleanup_receipt := Some (digest (json_bytes (cleanup_receipt_payload receipt_example))))\<rparr>"

definition context_without_evidence :: "resource_reservation \<Rightarrow> replay_context" where
  "context_without_evidence r =
     \<lparr>rx_evidence = [], rx_reservation = r, rx_history = [ack_checkpoint_example], rx_cleanup_source = None,
      rx_cleanup_pending = None, rx_ack_pending = None, rx_superseding_checkpoint = None,
      rx_superseding_reservation = None, rx_superseding_preparation = None, rx_superseding_snapshot = None\<rparr>"

definition command_example :: "resource_reservation \<Rightarrow> ack_command" where
  "command_example r =
     \<lparr>ac_checkpoint = ack_checkpoint_example, ac_accepted = accepted_example, ac_terminal = None,
      ac_plan = plan_example, ac_receipt = receipt_example, ac_context = context_without_evidence r\<rparr>"

lemma example_shas:
  "value_sha (Accepted_value accepted_example) = Inr (digest (json_bytes (accepted_payload accepted_example)))"
  "value_sha (Plan_value plan_example) = Inr (digest (json_bytes (plan_payload plan_example)))"
  "value_sha (Cleanup_value receipt_example) = Inr (digest (json_bytes (cleanup_receipt_payload receipt_example)))"
proof -
  have ints: "length (int_text 1) \<le> 19" "length (int_text 3) \<le> 19" "length (int_text 4) \<le> 19"
    "length (int_text 5000) \<le> 19" by (rule length_int_text; simp add: MAX_INT_def)+
  have "length (digest m) = 71" for m by simp
  then have "2 * text_bound (accepted_payload accepted_example) \<le> MAX_BYTES"
    using ints
    by (simp add: accepted_payload_def fence_members_def)
       (simp add: accepted_example_def ACCEPTED_SUBMISSION_V4_CONTRACT_def MAX_BYTES_def)
  then show "value_sha (Accepted_value accepted_example) = Inr (digest (json_bytes (accepted_payload accepted_example)))"
    by (simp add: value_sha_def evidence_json_def canonical_json_total digest_of_def)
  have "2 * text_bound (plan_payload plan_example) \<le> MAX_BYTES"
    using ints
    by (simp add: plan_payload_def identity_members_def)
       (simp add: plan_example_def entry_json_def entry_example_def JOpt_def JOptInt_def digest_example_def
        CLEANUP_PLAN_V4_CONTRACT_def MAX_BYTES_def)
  then show "value_sha (Plan_value plan_example) = Inr (digest (json_bytes (plan_payload plan_example)))"
    by (simp add: value_sha_def lifecycle_json_def canonical_json_total digest_of_def)
  have "2 * text_bound (cleanup_receipt_payload receipt_example) \<le> MAX_BYTES"
    using ints
    by (simp add: cleanup_receipt_payload_def identity_members_def)
       (simp add: receipt_example_def result_json_def result_example_def JOpt_def digest_example_def
        CLEANUP_RECEIPT_V4_CONTRACT_def MAX_BYTES_def)
  then show "value_sha (Cleanup_value receipt_example) = Inr (digest (json_bytes (cleanup_receipt_payload receipt_example)))"
    by (simp add: value_sha_def lifecycle_json_def canonical_json_total digest_of_def)
qed

lemma command_example_facts:
  "check_ack_command_facts (command_example r) = Inr ()" "check_ack_terminal (command_example r) = Inr ()"
proof -
  have "ack_facts (command_example r)
      \<lparr>kh_accepted = digest (json_bytes (accepted_payload accepted_example)),
       kh_plan = digest (json_bytes (plan_payload plan_example)),
       kh_receipt = digest (json_bytes (cleanup_receipt_payload receipt_example))\<rparr>"
    by (simp add: ack_facts_def Let_def command_example_def ack_checkpoint_example_def identities_def)
       (simp add: plan_example_def receipt_example_def accepted_example_def planned_disposition_def
        observed_disposition_def entry_example_def result_example_def)
  moreover have "ac_accepted (command_example r) = accepted_example" "ac_plan (command_example r) = plan_example"
    "ac_receipt (command_example r) = receipt_example" "ac_terminal (command_example r) = None"
    by (simp_all add: command_example_def)
  ultimately show "check_ack_command_facts (command_example r) = Inr ()" "check_ack_terminal (command_example r) = Inr ()"
    using example_shas
    by (simp_all add: check_ack_command_facts_def ack_hashes_of_def check_ack_terminal_def del: value_bytes.simps)
qed

theorem ack_request_determined_witness:
  "\<forall>r r'. ack_request_exact_bytes (command_example r) = ack_request_exact_bytes (command_example r')"
proof (intro allI)
  fix r r'
  have parts: "ack_values (command_example q)
      = [Accepted_value accepted_example, Plan_value plan_example, Cleanup_value receipt_example]" for q
    by (simp add: ack_values_def command_example_def)
  have valid: "list_all valid_value (ack_values (command_example q))" for q
    using plan_example_valid receipt_example_valid accepted_example_ok by (simp add: parts valid_accepted_def)
  have "list_all2 no_collision (ack_values (command_example r)) (ack_values (command_example r'))"
    by (simp add: parts no_collision_def)
  moreover have "ac_checkpoint (command_example r) = ac_checkpoint (command_example r')"
    by (simp add: command_example_def)
  ultimately show "ack_request_exact_bytes (command_example r) = ack_request_exact_bytes (command_example r')"
    using ack_request_determined [OF command_example_facts command_example_facts _ valid valid] by blast
qed

end
