(* ===== verification/Spec2Isabelle.thy ===== *)
theory Spec2Isabelle
  imports CoordinatorLoop SpecCodec BundleProperties RecordProperties CheckpointProperties CreditLedger ServiceController PathProperties
    RepositoryPort SecretProperties PreparationProperties
    AuthorizationProperties
begin

text \<open>
  The staged remote-parse lifecycle of the disclosure-anchor service
  (\<open>src/services/disclosure_anchor/src/disclosure_anchor/\<close>; below, \<open>contracts/\<close> is
  \<open>application/contracts/\<close> and \<open>services/\<close> is \<open>application/services/\<close>).

  The program. A worker sends a PDF to a remote parser (MinerU), materializes its result locally,
  publishes it and cleans up. Each attempt is a chain of immutable checkpoints; each checkpoint names its
  predecessor by SHA-256, holds the credit the attempt owns in fourteen resource dimensions, and gathers
  the hashes of durable evidence records. Pure contract modules decide what a record may contain, which
  transition is legal, how much credit a PDF needs and where its files lie. A coordinator keeps a ledger of
  the credits of all attempts, and a service controller feeds work to threads under the same credit limit.

  Conventions. A Python constructor with \<open>__post_init__\<close> is a record together with a function
  \<open>..._post_init\<close> that lists its checks in source order and returns the first error (\<open>'a res\<close>,
  theory Prelude: \<open>Inl\<close> the exception, \<open>Inr\<close> the value); \<open>mk_...\<close> is the constructor call.
  Python integers are \<open>int\<close>; the bound 2^63-1 that the code checks is \<open>MAX_INT\<close>. Strings are lists of
  characters, that is of code points below 256; UTF-8 bytes are written out (\<open>utf8\<close>). Frozen dataclasses
  of one static type are modelled, so the \<open>type(x) is not int\<close> tests, which the types of HOL decide,
  have no counterpart.

  Theories, in dependency order, with the code each one models.
  \<^item> Prelude: results and sequential checks, bounded integers, string helpers.
  \<^item> Sha256: \<open>hashlib.sha256(...).hexdigest()\<close>, on 32-bit words.
  \<^item> CanonicalJson: \<open>json.dumps\<close> with sorted keys and the byte envelope (1 MiB for lifecycle records,
    64 KiB for credit records).
  \<^item> ProcessProfile: \<open>contracts/mineru_process_profile.py\<close>.
  \<^item> CreditAlgebra: the contract of a credit vector as the locale \<open>credit_vector\<close>; CreditArithmetic
    and ResourceCreditVector: the arithmetic and \<open>ResourceCreditVector\<close> of
    \<open>contracts/staged_resource_credit.py\<close>, which is an instance of it (\<open>rcv\<close>).
  \<^item> StagedResourceCredit, ResourceCreditEnvelope: the credit policy v2 of the same file, its reservation
    input, envelope and allowance, and their correctness. ResourceCreditShape: \<open>resource_credit_shape\<close>.
  \<^item> ResourcePaths, PathProperties: \<open>contracts/staged_resource_paths.py\<close> and the two functions of
    \<open>contracts/remote_parse_lifecycle_v4.py\<close> that combine them.
  \<^item> StateGraph: the contract of a finite lifecycle graph, as a locale, interpreted on the transition table.
  \<^item> LifecycleBase, Checkpoint, CheckpointLifecycle, CheckpointProperties: helpers, record, transition,
    successor test and builders of \<open>RemoteParseCheckpointV4\<close>; the inductive predicate \<open>history\<close> holds of
    the checkpoint chains that the builders and \<open>advance_remote_parse_checkpoint_v4\<close> can produce.
  \<^item> ParserTarget, Reservation, MaterializationManifest, Materialization, Cleanup, ProviderAck: the other
    durable records of \<open>contracts/\<close> that the evidence hashes name, with their builders and validators.
  \<^item> CreditLedger: the ledger and lane tables of \<open>services/staged_parse_coordinator.py\<close>.
  \<^item> ServiceController: the loop of \<open>services/m6_service_controller.py\<close>, one step per block of its
    loop, driven by a list of observations of futures, callbacks and the stop test.

  What the lemmas show. Credits: the vector operations form a partial commutative monoid with
  exact subtraction, the ledger and the controller account exactly for every admitted attempt, and no new
  work exceeds the limit. Envelope: the reservation of a PDF is the documented closed form and lies within the
  profile. Checkpoints: a transition succeeds exactly under the stated conditions; histories are bounded,
  acyclic, keep their evidence, always can finish and end in a state whose evidence matches the outcome; the
  credit shape of the policy agrees with the credit check of the checkpoint wherever both are defined, but
  for one disagreement (a finding). Paths: every derived path is safe and canonical.

  Bounds. \<open>run_service_controller\<close> is a fold over observations, hence total; with \<open>n\<close> items of work,
  futures that are done and a stop test that does not raise, \<open>6 * n + 5\<close> observations finish the loop.

  Not modelled: HTTP, file and database effects (the adapters, repositories and command line), the
  asyncio loop of the coordinator, the semantic router (Unicode regular expressions over configuration), and
  the decoders of the records.
\<close>

end
